(* ===== verification/Prelude.thy ===== *)
theory Prelude
  imports Main "HOL-Library.Word" "HOL-Library.Signed_Division" "HOL-Library.Multiset"
begin

text \<open>
  The part of the Go language and of the shared vocabulary that every component uses:
  the integer types at their width, the error result of a call, the early-return loop,
  and generic lemmas on lists that more than one component needs.

  \<^item> Go's \<open>int\<close> and \<open>int64\<close> are \<open>i64\<close> (the services run on 64-bit platforms),
    \<open>int32\<close> is \<open>i32\<close>; both are words read with \<open>sint\<close>, so that every
    conversion and every wrap-around of the source is visible.
  \<^item> A Go string or byte slice is a list of bytes. A HOL \<open>char\<close> has exactly 256
    values, so \<open>string\<close> is a sequence of bytes; nothing assumes it to be valid UTF-8.
  \<^item> A \<open>uuid.UUID\<close> is sixteen bytes, a \<open>time.Time\<close> is the instant it denotes, in
    nanoseconds (the services only store, compare and print instants).
  \<^item> A Go function returning \<open>(T, error)\<close> returns \<open>'e + 'a\<close>: \<open>Inl\<close> of
    the error, or \<open>Inr\<close> of the value when the error is nil.
\<close>

type_synonym i32 = "32 word"
type_synonym i64 = "64 word"
type_synonym byte = "8 word"
type_synonym uuid = "128 word"
type_synonym time = int

named_theorems ent_defs \<open>the one-line operations of the generated entity layer\<close>
named_theorems frame_simps \<open>fields that an operation leaves unchanged\<close>

subsection \<open>Conversions between the integer types\<close>

definition int_of_i32 :: "i32 \<Rightarrow> i64" where
  "int_of_i32 x = scast x"

definition i32_of_int :: "i64 \<Rightarrow> i32" where
  "i32_of_int x = scast x"

definition go_quot :: "i64 \<Rightarrow> i64 \<Rightarrow> i64" where
  \<comment> \<open>Go's \<open>/\<close> on \<open>int\<close>: truncation towards zero\<close>
  "go_quot a b = word_of_int (sint a sdiv sint b)"

definition int_of_len :: "'a list \<Rightarrow> i64" where
  "int_of_len xs = word_of_nat (length xs)"

lemma sint_int_of_i32 [simp]: "sint (int_of_i32 x) = sint x"
proof -
  have "sint (scast x :: 64 word) = signed_take_bit 63 (sint x)"
    by (simp add: signed_scast_eq)
  also have "\<dots> = sint x"
    using sint_range_size [of x] by (simp add: signed_take_bit_int_eq_self_iff word_size)
  finally show ?thesis by (simp add: int_of_i32_def)
qed

lemma i32_of_int_of_i32 [simp]: "i32_of_int (int_of_i32 x) = x"
proof -
  have "sint (i32_of_int (int_of_i32 x)) = signed_take_bit 31 (sint x)"
    by (simp add: i32_of_int_def signed_scast_eq)
  also have "\<dots> = sint x"
    using sint_range_size [of x] by (simp add: signed_take_bit_int_eq_self_iff word_size)
  finally show ?thesis by (simp add: signed_word_eqI)
qed

lemma sint_i64_of_int:
  "- (2 ^ 63) \<le> k \<Longrightarrow> k < 2 ^ 63 \<Longrightarrow> sint (word_of_int k :: i64) = k"
  by (simp add: sint_sbintrunc' signed_take_bit_int_eq_self_iff)

lemma sint_int_of_len: "length xs < 2 ^ 63 \<Longrightarrow> sint (int_of_len xs) = int (length xs)"
  using sint_i64_of_int [of "int (length xs)"] by (simp add: int_of_len_def)

lemma sint_i32_range: "- (2 ^ 31) \<le> sint (x :: i32)" "sint (x :: i32) < 2 ^ 31"
  using sint_range_size [of x] by (auto simp: word_size)

lemma sint_i64_range: "- (2 ^ 63) \<le> sint (x :: i64)" "sint (x :: i64) < 2 ^ 63"
  using sint_range_size [of x] by (auto simp: word_size)

subsection \<open>Values that may be absent\<close>

text \<open>\<open>if v, ok := f(); ok { x = v }\<close>, with \<open>x\<close> at its zero value before.\<close>

fun or_zero :: "'a option \<Rightarrow> 'a \<Rightarrow> 'a" where
  "or_zero (Some v) z = v"
| "or_zero None z = z"

definition fails :: "('a \<Rightarrow> bool) \<Rightarrow> 'a option \<Rightarrow> bool" where
  \<comment> \<open>a validator rejects the value that is present\<close>
  "fails ok v \<longleftrightarrow> (case v of None \<Rightarrow> False | Some x \<Rightarrow> \<not> ok x)"

lemma fails_simps [simp]: "\<not> fails ok None" "fails ok (Some x) \<longleftrightarrow> \<not> ok x"
  by (simp_all add: fails_def)

definition error_of :: "'e + 'a \<Rightarrow> 'e option" where
  "error_of r = (case r of Inl e \<Rightarrow> Some e | Inr _ \<Rightarrow> None)"

lemma error_of_simps [simp]: "error_of (Inl e) = Some e" "error_of (Inr x) = None"
  by (simp_all add: error_of_def)

subsection \<open>A loop that may return early\<close>

text \<open>
  \<open>for _, x := range xs { ... if err != nil { return err } ... }\<close>: the body threads the
  variables it assigns, and the first error ends the loop.
\<close>

fun range_loop :: "('a \<Rightarrow> 's \<Rightarrow> 'e + 's) \<Rightarrow> 'a list \<Rightarrow> 's \<Rightarrow> 'e + 's" where
  "range_loop body [] s = Inr s"
| "range_loop body (x # xs) s =
     (case body x s of Inl e \<Rightarrow> Inl e | Inr s' \<Rightarrow> range_loop body xs s')"

lemma range_loop_append:
  "range_loop body (xs @ ys) s =
     (case range_loop body xs s of Inl e \<Rightarrow> Inl e | Inr s' \<Rightarrow> range_loop body ys s')"
  by (induction xs arbitrary: s) (auto split: sum.splits)

lemma range_loop_invariant:
  assumes "range_loop body xs s = Inr s'" and "I s"
    and "\<And>x s s'. x \<in> set xs \<Longrightarrow> I s \<Longrightarrow> body x s = Inr s' \<Longrightarrow> I s'"
  shows "I s'"
  using assms
proof (induction xs arbitrary: s)
  case (Cons x xs)
  then obtain t where t: "body x s = Inr t" "range_loop body xs t = Inr s'"
    by (auto split: sum.splits)
  then have "I t" using Cons.prems(2,3) by (meson list.set_intros(1))
  then show ?case using Cons.IH [OF t(2)] Cons.prems(3) by (meson list.set_intros(2))
qed simp

lemma range_loop_error:
  "range_loop body xs s = Inl e \<Longrightarrow> \<exists>x \<in> set xs. \<exists>t. body x t = Inl e"
  by (induction xs arbitrary: s) (auto split: sum.splits)

text \<open>A loop whose body never fails is a fold.\<close>

lemma range_loop_total:
  "(\<And>x s. x \<in> set xs \<Longrightarrow> body x s = Inr (f x s)) \<Longrightarrow> range_loop body xs s = Inr (fold f xs s)"
  by (induction xs arbitrary: s) auto

subsection \<open>Lists\<close>

text \<open>Cutting a list into consecutive pages and putting them together again.\<close>

lemma concat_pages:
  "concat (map (\<lambda>i. take n (drop (i * n) xs)) [0..<k]) = take (k * n) xs"
proof (induction k)
  case (Suc k)
  have "take (k * n + n) xs = take (k * n) xs @ take n (drop (k * n) xs)"
    by (rule take_add)
  with Suc show ?case by (simp add: add.commute)
qed simp

lemma map_update_map_of:
  "map_of (map (\<lambda>x. (f x, x)) xs) k = find (\<lambda>x. f x = k) xs"
  by (induction xs) auto

lemma filter_unique_singleton:
  assumes "distinct (map f xs)" and "x \<in> set xs"
  shows "filter (\<lambda>y. f y = f x) xs = [x]"
  using assms by (induction xs) (auto simp: filter_empty_conv image_iff)

lemma mset_singletonD: "mset xs = {#x#} \<Longrightarrow> xs = [x]"
  by (cases xs) auto

lemma list_all2_leftD: "list_all2 P xs ys \<Longrightarrow> x \<in> set xs \<Longrightarrow> \<exists>y \<in> set ys. P x y"
  by (induction rule: list_all2_induct) auto

lemma list_all2_rightD: "list_all2 P xs ys \<Longrightarrow> y \<in> set ys \<Longrightarrow> \<exists>x \<in> set xs. P x y"
  by (induction rule: list_all2_induct) auto

lemma sorted_wrt_list_all2:
  assumes "list_all2 R xs rs" and "sorted_wrt P rs"
    and "\<And>x r y s. R x r \<Longrightarrow> R y s \<Longrightarrow> P r s \<Longrightarrow> Q x y"
  shows "sorted_wrt Q xs"
  using assms(1,2)
proof induction
  case (Cons x xs r rs)
  have "Q x y" if "y \<in> set xs" for y
    using list_all2_leftD [OF Cons.hyps(2) that] Cons.hyps(1) Cons.prems assms(3) by auto
  with Cons show ?case by simp
qed simp

end
