(* ===== verification/GoFloat.thy ===== *)
theory GoFloat
  imports Complex_Main Prelude "HOL-Library.Log_Nat"
begin

text \<open>
  Go's \<open>float64\<close>: IEEE 754 binary64 with round to nearest, ties to even, as the
  language specification requires. The order service computes line totals, the subtotal,
  the tax and the total in it, compares prices with it, and validates stored amounts with
  it, so the rounding, the infinities and NaN are part of the program's behaviour.

  A value is NaN (one NaN: the code never looks at a payload), a signed infinity, or
  \<open>FFin s m e\<close> for \<open>(-1)\<^sup>s * m * 2\<^sup>e\<close>; \<open>f64_ok\<close> says which triples are binary64
  numbers. Every operation computes the exact result on integers and rounds once. All
  definitions are executable.
\<close>

datatype float64 = FNaN | FInf bool | FFin bool nat int

definition f64_zero :: float64 where
  "f64_zero = FFin False 0 (-1074)"

fun f64_ok :: "float64 \<Rightarrow> bool" where
  "f64_ok FNaN \<longleftrightarrow> True"
| "f64_ok (FInf s) \<longleftrightarrow> True"
| "f64_ok (FFin s m e) \<longleftrightarrow>
     m < 2 ^ 53 \<and> -1074 \<le> e \<and> e \<le> 971 \<and> (2 ^ 52 \<le> m \<or> e = -1074)"

subsection \<open>Rounding\<close>

text \<open>\<open>rne m d\<close> is \<open>m / 2 ^ d\<close> rounded to the nearest integer, ties to even.\<close>

definition rne :: "nat \<Rightarrow> nat \<Rightarrow> nat" where
  "rne m d =
     (let q = m div 2 ^ d; r = m mod 2 ^ d
      in if 2 * r > 2 ^ d \<or> (2 * r = 2 ^ d \<and> odd q) then q + 1 else q)"

text \<open>The exponent of the result of rounding \<open>m * 2 ^ e\<close>, before a carry.\<close>

definition round_exp :: "nat \<Rightarrow> int \<Rightarrow> int" where
  "round_exp m e = max (e + int (floorlog 2 m) - 53) (-1074)"

definition round_sig :: "nat \<Rightarrow> int \<Rightarrow> nat" where
  "round_sig m e =
     (let e1 = round_exp m e
      in if e1 \<le> e then m * 2 ^ nat (e - e1) else rne m (nat (e1 - e)))"

definition pack64 :: "bool \<Rightarrow> nat \<Rightarrow> int \<Rightarrow> float64" where
  "pack64 s q e =
     (if q = 2 ^ 53 then (if 971 < e + 1 then FInf s else FFin s (2 ^ 52) (e + 1))
      else if 971 < e then FInf s else FFin s q e)"

definition round64 :: "bool \<Rightarrow> nat \<Rightarrow> int \<Rightarrow> float64" where
  "round64 s m e =
     (if m = 0 then FFin s 0 (-1074) else pack64 s (round_sig m e) (round_exp m e))"

subsection \<open>Arithmetic, comparison, conversion\<close>

fun f64_mul :: "float64 \<Rightarrow> float64 \<Rightarrow> float64" where
  "f64_mul (FFin a m e) (FFin b n f) = round64 (a \<noteq> b) (m * n) (e + f)"
| "f64_mul (FInf a) (FInf b) = FInf (a \<noteq> b)"
| "f64_mul (FInf a) (FFin b n f) = (if n = 0 then FNaN else FInf (a \<noteq> b))"
| "f64_mul (FFin a m e) (FInf b) = (if m = 0 then FNaN else FInf (a \<noteq> b))"
| "f64_mul _ _ = FNaN"

definition signed_sig :: "bool \<Rightarrow> nat \<Rightarrow> int" where
  "signed_sig s m = (if s then - int m else int m)"

text \<open>A significand moved to the smaller exponent \<open>g\<close>, so that two of them can be added or compared.\<close>

definition align :: "bool \<Rightarrow> nat \<Rightarrow> int \<Rightarrow> int \<Rightarrow> int" where
  "align s m e g = signed_sig s m * 2 ^ nat (e - g)"

fun f64_add :: "float64 \<Rightarrow> float64 \<Rightarrow> float64" where
  "f64_add (FFin a m e) (FFin b n f) =
     (let g = min e f; x = align a m e g + align b n f g
      in if x = 0 then FFin (a \<and> b) 0 (-1074) else round64 (x < 0) (nat \<bar>x\<bar>) g)"
| "f64_add (FInf a) (FInf b) = (if a = b then FInf a else FNaN)"
| "f64_add (FInf a) (FFin b n f) = FInf a"
| "f64_add (FFin a m e) (FInf b) = FInf b"
| "f64_add _ _ = FNaN"

text \<open>\<open>x == y\<close>, \<open>x < y\<close> and \<open>x <= y\<close>: false as soon as one side is NaN.\<close>

fun f64_lt :: "float64 \<Rightarrow> float64 \<Rightarrow> bool" where
  "f64_lt (FFin a m e) (FFin b n f) \<longleftrightarrow>
     (let g = min e f in align a m e g < align b n f g)"
| "f64_lt (FInf a) (FInf b) \<longleftrightarrow> a \<and> \<not> b"
| "f64_lt (FInf a) (FFin b n f) \<longleftrightarrow> a"
| "f64_lt (FFin a m e) (FInf b) \<longleftrightarrow> \<not> b"
| "f64_lt _ _ \<longleftrightarrow> False"

fun f64_eq :: "float64 \<Rightarrow> float64 \<Rightarrow> bool" where
  "f64_eq (FFin a m e) (FFin b n f) \<longleftrightarrow>
     (let g = min e f in align a m e g = align b n f g)"
| "f64_eq (FInf a) (FInf b) \<longleftrightarrow> a = b"
| "f64_eq _ _ \<longleftrightarrow> False"

definition f64_le :: "float64 \<Rightarrow> float64 \<Rightarrow> bool" where
  "f64_le x y \<longleftrightarrow> f64_lt x y \<or> f64_eq x y"

definition f64_of_int :: "int \<Rightarrow> float64" where
  "f64_of_int k = round64 (k < 0) (nat \<bar>k\<bar>) 0"

definition f64_of_i32 :: "i32 \<Rightarrow> float64" where
  "f64_of_i32 x = f64_of_int (sint x)"

text \<open>The constant \<open>0.1\<close>: the binary64 number nearest to one tenth.\<close>

definition f64_tenth :: float64 where
  "f64_tenth = FFin False 7205759403792794 (-56)"

text \<open>Finite or infinite, and not below zero.\<close>

fun f64_nonneg :: "float64 \<Rightarrow> bool" where
  "f64_nonneg FNaN \<longleftrightarrow> False"
| "f64_nonneg (FInf s) \<longleftrightarrow> \<not> s"
| "f64_nonneg (FFin s m e) \<longleftrightarrow> \<not> s \<or> m = 0"

fun f64_finite :: "float64 \<Rightarrow> bool" where
  "f64_finite (FFin s m e) \<longleftrightarrow> True"
| "f64_finite _ \<longleftrightarrow> False"

subsection \<open>Facts about rounding\<close>

lemma rne_ge: "m div 2 ^ d \<le> rne m d"
  by (simp add: rne_def Let_def)

lemma rne_le: "rne m d \<le> m div 2 ^ d + 1"
  by (simp add: rne_def Let_def)

lemma rne_exact: "2 ^ d dvd m \<Longrightarrow> rne m d = m div 2 ^ d"
  by (simp add: rne_def Let_def)

text \<open>The result is a nearest integer: no other is closer, and a tie goes to the even one.\<close>

lemma rne_nearest: "\<bar>int (rne m d) * 2 ^ d - int m\<bar> * 2 \<le> 2 ^ d"
proof -
  define q r P where "q = m div 2 ^ d" and "r = m mod 2 ^ d" and "P = (2::nat) ^ d"
  have m: "m = q * P + r"
    unfolding q_def r_def P_def by (rule div_mult_mod_eq [symmetric])
  have r: "r < P" by (simp add: r_def P_def)
  show ?thesis
  proof (cases "2 * r > P \<or> (2 * r = P \<and> odd q)")
    case True
    then have rn: "int (rne m d) = int q + 1" by (simp add: rne_def Let_def q_def r_def P_def)
    have "\<bar>int ((q + 1) * P) - int (q * P + r)\<bar> * 2 \<le> int P"
      using True r by (auto simp: algebra_simps)
    then have "\<bar>(int q + 1) * int P - int m\<bar> * 2 \<le> int P" by (simp add: m algebra_simps)
    then show ?thesis unfolding rn by (simp add: P_def)
  next
    case False
    then have rn: "int (rne m d) = int q" by (simp add: rne_def Let_def q_def r_def P_def)
    have "\<bar>int (q * P) - int (q * P + r)\<bar> * 2 \<le> int P"
      using False r by auto
    then have "\<bar>int q * int P - int m\<bar> * 2 \<le> int P" by (simp add: m)
    then show ?thesis unfolding rn by (simp add: P_def)
  qed
qed

lemma floorlog_scale: "0 < m \<Longrightarrow> floorlog 2 (m * 2 ^ j) = floorlog 2 m + j"
proof (induction j)
  case (Suc j)
  have "floorlog 2 (m * 2 ^ Suc j) = floorlog 2 ((m * 2 ^ Suc j) div 2) + 1"
    using Suc.prems by (subst compute_floorlog) simp
  also have "(m * 2 ^ Suc j) div 2 = m * 2 ^ j" by simp
  finally show ?case using Suc by simp
qed simp

lemma floorlog_bounds2: "0 < m \<Longrightarrow> 2 ^ (floorlog 2 m - 1) \<le> m \<and> m < 2 ^ floorlog 2 m"
  using floorlog_bounds [of m 2] by simp

lemma floorlog_pos2: "0 < m \<Longrightarrow> 0 < floorlog 2 m"
  by (simp add: compute_floorlog)

text \<open>Rounding looks at the value only, not at how it is split into significand and exponent.\<close>

lemma round_exp_scale: "0 < m \<Longrightarrow> round_exp (m * 2 ^ j) e = round_exp m (e + int j)"
  by (simp add: round_exp_def floorlog_scale algebra_simps)

lemma rne_scale: "rne (m * 2 ^ j) (d + j) = rne m d"
proof -
  have q: "m * 2 ^ j div 2 ^ (d + j) = m div 2 ^ d"
    by (simp add: power_add)
  have r: "m * 2 ^ j mod 2 ^ (d + j) = (m mod 2 ^ d) * 2 ^ j"
    by (simp add: power_add mult_mod_left)
  show ?thesis
    unfolding rne_def Let_def q r by (simp add: power_add mult.assoc [symmetric])
qed

lemma round64_scale: "round64 s (m * 2 ^ j) e = round64 s m (e + int j)"
proof (cases "m = 0")
  case False
  define e1 where "e1 = round_exp m (e + int j)"
  have e1: "round_exp (m * 2 ^ j) e = e1"
    using False by (simp add: e1_def round_exp_scale)
  have "round_sig (m * 2 ^ j) e = round_sig m (e + int j)"
  proof -
    consider (a) "e1 \<le> e" | (b) "e < e1" "e1 \<le> e + int j" | (c) "e + int j < e1" by linarith
    then show ?thesis
    proof cases
      case a
      then have "nat (e + int j - e1) = nat (e - e1) + j" by simp
      with a show ?thesis by (simp add: round_sig_def e1 e1_def [symmetric] power_add)
    next
      case b
      define d where "d = nat (e1 - e)"
      have j: "j = nat (e + int j - e1) + d" using b by (simp add: d_def)
      have "rne (m * 2 ^ j) d = m * 2 ^ nat (e + int j - e1)"
        by (subst j) (simp add: power_add rne_exact)
      with b show ?thesis
        by (simp add: round_sig_def e1 e1_def [symmetric] d_def)
    next
      case c
      then have "nat (e1 - e) = nat (e1 - (e + int j)) + j" by simp
      with c show ?thesis
        by (simp add: round_sig_def e1 e1_def [symmetric] rne_scale)
    qed
  qed
  with False e1 show ?thesis by (simp add: round64_def e1_def)
qed (simp add: round64_def)


text \<open>Rounding always gives a binary64 number.\<close>

lemma round_sig_bounds:
  assumes "0 < m"
  shows "round_sig m e \<le> 2 ^ 53"
    and "-1074 < round_exp m e \<Longrightarrow> 2 ^ 52 \<le> round_sig m e"
proof -
  define k e1 where "k = floorlog 2 m" and "e1 = round_exp m e"
  have lo: "2 ^ (k - 1) \<le> m" and hi: "m < 2 ^ k" and k: "0 < k"
    using assms floorlog_bounds2 [of m] floorlog_pos2 [of m] by (auto simp: k_def)
  have e1: "e + int k - 53 \<le> e1" by (simp add: e1_def round_exp_def k_def)
  have le: "round_sig m e \<le> 2 ^ 53 \<and> (-1074 < e1 \<longrightarrow> 2 ^ 52 \<le> round_sig m e)"
  proof (cases "e1 \<le> e")
    case True
    define d where "d = nat (e - e1)"
    have sig: "round_sig m e = m * 2 ^ d" using True by (simp add: round_sig_def e1_def d_def)
    have kd: "k + d \<le> 53" using e1 True by (simp add: d_def)
    have "m * 2 ^ d < 2 ^ k * 2 ^ d" using hi by simp
    also have "\<dots> \<le> 2 ^ 53" unfolding power_add [symmetric]
      by (rule power_increasing [OF kd]) simp
    finally have up: "round_sig m e \<le> 2 ^ 53" using sig by simp
    have "2 ^ 52 \<le> m * 2 ^ d" if "-1074 < e1"
    proof -
      have "k - 1 + d = 52" using that k True
        by (auto simp: d_def e1_def round_exp_def k_def)
      then have "(2::nat) ^ 52 = 2 ^ (k - 1) * 2 ^ d" by (simp add: power_add [symmetric])
      moreover have "2 ^ (k - 1) * 2 ^ d \<le> m * 2 ^ d" using lo by simp
      ultimately show ?thesis by simp
    qed
    with up sig show ?thesis by simp
  next
    case False
    define d where "d = nat (e1 - e)"
    have sig: "round_sig m e = rne m d" using False by (simp add: round_sig_def e1_def d_def)
    have kd: "k \<le> 53 + d" using e1 False by (simp add: d_def)
    have "(2::nat) ^ k \<le> 2 ^ (53 + d)" by (rule power_increasing [OF kd]) simp
    with hi have "m < 2 ^ (53 + d)" by (rule less_le_trans)
    then have "m div 2 ^ d < 2 ^ 53" by (simp add: power_add less_mult_imp_div_less)
    then have up: "rne m d \<le> 2 ^ 53" using rne_le [of m d] by simp
    have "2 ^ 52 \<le> rne m d" if "-1074 < e1"
    proof -
      have "k - 1 = 52 + d" using that False
        by (auto simp: d_def e1_def round_exp_def k_def)
      with lo have "2 ^ 52 * 2 ^ d \<le> m" by (simp add: power_add)
      then have "2 ^ 52 \<le> m div 2 ^ d" by (simp add: less_eq_div_iff_mult_less_eq)
      then show ?thesis using rne_ge [of m d] by simp
    qed
    with up sig show ?thesis by simp
  qed
  then show "round_sig m e \<le> 2 ^ 53"
    and "-1074 < round_exp m e \<Longrightarrow> 2 ^ 52 \<le> round_sig m e"
    by (auto simp: e1_def)
qed

lemma round_exp_ge: "-1074 \<le> round_exp m e"
  by (simp add: round_exp_def)

lemma round64_ok [simp]: "f64_ok (round64 s m e)"
proof (cases "m = 0")
  case False
  then have "round_sig m e \<le> 2 ^ 53"
    and "-1074 < round_exp m e \<Longrightarrow> 2 ^ 52 \<le> round_sig m e"
    using round_sig_bounds [of m e] by auto
  with False round_exp_ge [of m e] show ?thesis
    by (cases "round_exp m e = -1074") (auto simp: round64_def pack64_def)
qed (simp add: round64_def)

lemma f64_mul_ok [simp]: "f64_ok (f64_mul x y)"
  by (cases "(x, y)" rule: f64_mul.cases) auto

lemma f64_add_ok [simp]: "f64_ok (f64_add x y)"
  by (cases "(x, y)" rule: f64_add.cases) (auto simp: Let_def)

lemma f64_of_int_ok [simp]: "f64_ok (f64_of_int k)"
  by (simp add: f64_of_int_def)

lemma f64_tenth_ok [simp]: "f64_ok f64_tenth"
  by (simp add: f64_tenth_def)

text \<open>Rounding keeps the sign, and never gives NaN.\<close>

lemma round64_nonneg [simp]: "\<not> s \<or> m = 0 \<Longrightarrow> f64_nonneg (round64 s m e)"
  by (auto simp: round64_def pack64_def)

lemma round64_not_nan [simp]: "round64 s m e \<noteq> FNaN"
  by (simp add: round64_def pack64_def)

lemma align_nonneg [simp]: "\<not> s \<or> m = 0 \<Longrightarrow> 0 \<le> align s m e g"
  by (auto simp: align_def signed_sig_def)

lemma f64_add_nonneg:
  assumes "f64_nonneg x" "f64_nonneg y"
  shows "f64_nonneg (f64_add x y)"
proof (cases "\<exists>a m e b n f. x = FFin a m e \<and> y = FFin b n f")
  case True
  then obtain a m e b n f where xy: "x = FFin a m e" "y = FFin b n f" by blast
  define g where "g = min e f"
  have "0 \<le> align a m e g" "0 \<le> align b n f g"
    using assms xy by (auto intro!: align_nonneg)
  then show ?thesis by (simp add: xy Let_def g_def [symmetric])
next
  case False
  then show ?thesis using assms by (cases "(x, y)" rule: f64_add.cases) auto
qed

lemma f64_mul_nonneg:
  assumes "f64_nonneg x" "f64_nonneg y" "f64_finite x" "f64_finite y"
  shows "f64_nonneg (f64_mul x y)"
proof -
  obtain a m e where x: "x = FFin a m e" using assms(3) by (cases x) auto
  obtain b n f where y: "y = FFin b n f" using assms(4) by (cases y) auto
  show ?thesis using assms unfolding x y by (auto intro!: round64_nonneg)
qed

text \<open>
  Rounding does not cross a representable number: what is at least the binary64 number
  \<open>n * 2 ^ f\<close> before rounding is at least that number after it. With it, adding an
  amount that is not negative never makes a total smaller.
\<close>

lemma round_sig_ge:
  assumes m: "0 < m" and e: "e \<le> f"
    and ok: "f64_ok (FFin False n f)"
    and le: "n * 2 ^ nat (f - e) \<le> m"
    and f1: "round_exp m e \<le> f"
  shows "n * 2 ^ nat (f - round_exp m e) \<le> round_sig m e"
proof -
  define e1 where "e1 = round_exp m e"
  show ?thesis
  proof (cases "e1 \<le> e")
    case True
    then have "nat (f - e1) = nat (f - e) + nat (e - e1)" using e f1 by (simp add: e1_def)
    then have "n * 2 ^ nat (f - e1) = n * 2 ^ nat (f - e) * 2 ^ nat (e - e1)"
      by (simp add: power_add)
    also have "\<dots> \<le> m * 2 ^ nat (e - e1)" using le by (rule mult_right_mono) simp
    finally show ?thesis using True by (simp add: round_sig_def e1_def)
  next
    case False
    define d where "d = nat (e1 - e)"
    have "nat (f - e) = nat (f - e1) + d" using False f1 by (simp add: d_def e1_def)
    with le have "n * 2 ^ nat (f - e1) * 2 ^ d \<le> m" by (simp add: power_add mult.assoc)
    then have "n * 2 ^ nat (f - e1) \<le> m div 2 ^ d" by (simp add: less_eq_div_iff_mult_less_eq)
    also have "\<dots> \<le> rne m d" by (rule rne_ge)
    finally show ?thesis using False by (simp add: round_sig_def e1_def d_def)
  qed
qed

text \<open>The real value of a finite number, used in proofs only.\<close>

definition f64_val :: "bool \<Rightarrow> nat \<Rightarrow> int \<Rightarrow> real" where
  "f64_val s m e = real_of_int (signed_sig s m) * 2 powi e"

lemma align_val: "g \<le> e \<Longrightarrow> real_of_int (align s m e g) * 2 powi g = f64_val s m e"
proof -
  assume "g \<le> e"
  then have "(2::real) ^ nat (e - g) * 2 powi g = 2 powi e"
    by (simp add: power_int_def [of _ "e - g", symmetric] power_int_add [symmetric]
        flip: power_int_of_nat)
  then show ?thesis by (simp add: align_def f64_val_def mult.assoc)
qed

lemma f64_le_FFin: "f64_le (FFin a m e) (FFin b n f) \<longleftrightarrow> f64_val a m e \<le> f64_val b n f"
proof -
  define g where "g = min e f"
  have "f64_le (FFin a m e) (FFin b n f) \<longleftrightarrow> align a m e g \<le> align b n f g"
    by (auto simp: f64_le_def Let_def g_def)
  also have "\<dots> \<longleftrightarrow> real_of_int (align a m e g) * 2 powi g \<le> real_of_int (align b n f g) * 2 powi g"
    by (simp add: zero_less_power_int)
  finally show ?thesis by (simp add: align_val g_def)
qed

lemma f64_val_carry: "f64_val s 9007199254740992 e = f64_val s 4503599627370496 (e + 1)"
  by (simp add: f64_val_def signed_sig_def power_int_add)

lemma pack64_ge:
  "f64_val False n f \<le> f64_val False q e \<Longrightarrow> f64_le (FFin False n f) (pack64 False q e)"
  by (auto simp: pack64_def f64_le_FFin f64_val_carry) (simp_all add: f64_le_def)


lemma f64_val_pos_le:
  "f \<le> e \<Longrightarrow> n \<le> m * 2 ^ nat (e - f) \<Longrightarrow> f64_val False n f \<le> f64_val False m e"
proof -
  assume e: "f \<le> e" and "n \<le> m * 2 ^ nat (e - f)"
  then have "real n \<le> real (m * 2 ^ nat (e - f))" by (simp only: of_nat_le_iff)
  then have "real n \<le> real m * 2 ^ nat (e - f)" by simp
  then have "real n * 2 powi f \<le> real m * 2 ^ nat (e - f) * 2 powi f"
    by (rule mult_right_mono) simp
  also have "\<dots> = f64_val False m e"
    using align_val [OF e, of False m] by (simp add: align_def signed_sig_def mult.assoc)
  finally show ?thesis by (simp add: f64_val_def signed_sig_def)
qed

lemma f64_val_pos_le':
  "e \<le> f \<Longrightarrow> n * 2 ^ nat (f - e) \<le> m \<Longrightarrow> f64_val False n f \<le> f64_val False m e"
proof -
  assume e: "e \<le> f" and "n * 2 ^ nat (f - e) \<le> m"
  then have "real (n * 2 ^ nat (f - e)) \<le> real m" by (simp only: of_nat_le_iff)
  then have "real n * 2 ^ nat (f - e) \<le> real m" by simp
  then have "real n * 2 ^ nat (f - e) * 2 powi e \<le> real m * 2 powi e"
    by (rule mult_right_mono) simp
  moreover have "real n * 2 ^ nat (f - e) * 2 powi e = f64_val False n f"
    using align_val [OF e, of False n] by (simp add: align_def signed_sig_def mult.assoc)
  ultimately show ?thesis by (simp add: f64_val_def signed_sig_def)
qed

lemma round64_ge:
  assumes "e \<le> f" and ok: "f64_ok (FFin False n f)" and le: "n * 2 ^ nat (f - e) \<le> m"
  shows "f64_le (FFin False n f) (round64 False m e)"
proof (cases "m = 0")
  case True
  then have "n = 0" using le by simp
  with True show ?thesis by (simp add: round64_def f64_le_FFin f64_val_def signed_sig_def)
next
  case False
  define e1 where "e1 = round_exp m e"
  have "f64_val False n f \<le> f64_val False (round_sig m e) e1"
  proof (cases "e1 \<le> f")
    case True
    then show ?thesis
      using round_sig_ge [OF _ assms] False unfolding e1_def by (intro f64_val_pos_le') auto
  next
    case f: False
    have "-1074 < e1" using f ok by simp
    then have q: "2 ^ 52 \<le> round_sig m e" using False round_sig_bounds(2) [of m e] by (simp add: e1_def)
    have "n \<le> 2 ^ 52 * 2 ^ 1" using ok by simp
    also have "\<dots> \<le> 2 ^ 52 * 2 ^ nat (e1 - f)"
      using f by (intro mult_left_mono power_increasing) auto
    also have "\<dots> \<le> round_sig m e * 2 ^ nat (e1 - f)" using q by (rule mult_right_mono) simp
    finally show ?thesis using f by (intro f64_val_pos_le) auto
  qed
  then show ?thesis using False unfolding e1_def by (simp add: round64_def pack64_ge)
qed

text \<open>A total never gets smaller when an amount that is not negative is added to it.\<close>

lemma f64_nonneg_FFin_val: "f64_nonneg (FFin s m e) \<Longrightarrow> f64_val s m e = f64_val False m e"
  by (auto simp: f64_val_def signed_sig_def)

lemma f64_add_ge:
  assumes x: "f64_ok x" "f64_nonneg x" and y: "f64_nonneg y"
  shows "f64_le x (f64_add x y)"
proof (cases "\<exists>a m e b n f. x = FFin a m e \<and> y = FFin b n f")
  case True
  then obtain a m e b n f where xy: "x = FFin a m e" "y = FFin b n f" by blast
  define g where "g = min e f"
  define X where "X = align a m e g + align b n f g"
  have am: "align a m e g = int (m * 2 ^ nat (e - g))" using x by (auto simp: xy align_def signed_sig_def)
  have bn: "0 \<le> align b n f g" using y by (auto simp: xy intro!: align_nonneg)
  have X: "int (m * 2 ^ nat (e - g)) \<le> X" using am bn by (simp add: X_def)
  have add: "f64_add x y = (if X = 0 then FFin (a \<and> b) 0 (-1074) else round64 (X < 0) (nat \<bar>X\<bar>) g)"
    by (simp add: xy Let_def g_def X_def)
  have "f64_le (FFin False m e) (f64_add x y)"
  proof (cases "X = 0")
    case True
    then have "int (m * 2 ^ nat (e - g)) \<le> int 0" using X by simp
    then have "m = 0" by (simp only: of_nat_le_iff) simp
    with True show ?thesis by (simp add: add f64_le_FFin f64_val_def signed_sig_def)
  next
    case False
    have "0 \<le> X" using X by (rule order_trans [rotated]) simp
    moreover have "m * 2 ^ nat (e - g) \<le> nat X" using X by linarith
    ultimately have "f64_le (FFin False m e) (round64 False (nat X) g)"
      using x by (intro round64_ge) (auto simp: xy g_def)
    then show ?thesis using False \<open>0 \<le> X\<close> add by simp
  qed
  then have "f64_le (FFin a m e) (f64_add x y)"
    using f64_nonneg_FFin_val [OF x(2) [unfolded xy]]
    by (cases "f64_add x y") (auto simp: f64_le_FFin f64_le_def [of _ "FInf _"] f64_le_def [of _ FNaN])
  then show ?thesis by (simp only: xy)
next
  case False
  then show ?thesis
    using x y by (cases "(x, y)" rule: f64_add.cases) (auto simp: f64_le_def)
qed

subsection \<open>Exact arithmetic on integers\<close>

text \<open>
  Amounts that are whole numbers below \<open>2 ^ 53\<close> are represented exactly, and sums and
  products that stay below it are computed without rounding.
\<close>

lemma f64_of_int_scaled:
  assumes "0 \<le> k" "k < 2 ^ 53"
  shows "\<exists>j. f64_of_int k = FFin False (nat k * 2 ^ j) (- int j)"
proof (cases "k = 0")
  case True
  then show ?thesis by (intro exI [of _ 1074]) (simp add: f64_of_int_def round64_def)
next
  case False
  define m where "m = nat k"
  have m: "0 < m" "m < 2 ^ 53" using assms False by (auto simp: m_def)
  have fl: "floorlog 2 m \<le> 53"
    using floorlog_leI [of m 2 53] m by simp
  have pos: "0 < floorlog 2 m" using m by (simp add: floorlog_pos2)
  define j where "j = 53 - floorlog 2 m"
  have e1: "round_exp m 0 = - int j" using fl pos by (simp add: round_exp_def j_def)
  have sig: "round_sig m 0 = m * 2 ^ j" using e1 by (simp add: round_sig_def)
  have "m * 2 ^ j < 2 ^ floorlog 2 m * 2 ^ j" using floorlog_bounds2 [of m] m by simp
  also have "\<dots> = 2 ^ 53" using fl by (simp add: j_def flip: power_add)
  finally have "m * 2 ^ j \<noteq> 2 ^ 53" by simp
  then have "f64_of_int k = FFin False (m * 2 ^ j) (- int j)"
    using m assms e1 sig by (simp add: f64_of_int_def round64_def pack64_def m_def [symmetric])
  then show ?thesis unfolding m_def by blast
qed

lemma f64_of_int_nonneg [simp]: "0 \<le> k \<Longrightarrow> f64_nonneg (f64_of_int k)"
  by (simp add: f64_of_int_def)

lemma f64_mul_of_int:
  assumes "0 \<le> a" "a < 2 ^ 53" "0 \<le> b" "b < 2 ^ 53"
  shows "f64_mul (f64_of_int a) (f64_of_int b) = f64_of_int (a * b)"
proof -
  obtain i j where i: "f64_of_int a = FFin False (nat a * 2 ^ i) (- int i)"
    and j: "f64_of_int b = FFin False (nat b * 2 ^ j) (- int j)"
    using f64_of_int_scaled assms by metis
  have "nat a * 2 ^ i * (nat b * 2 ^ j) = nat (a * b) * 2 ^ (i + j)"
    using assms by (simp add: nat_mult_distrib power_add)
  then have "f64_mul (f64_of_int a) (f64_of_int b)
      = round64 False (nat (a * b) * 2 ^ (i + j)) (- int (i + j))"
    unfolding i j by simp
  also have "\<dots> = round64 False (nat (a * b)) 0" by (simp only: round64_scale) simp
  also have "\<dots> = f64_of_int (a * b)"
  proof -
    have "0 \<le> a * b" using assms by simp
    then show ?thesis by (simp add: f64_of_int_def not_less [symmetric])
  qed
  finally show ?thesis .
qed

lemma f64_add_of_int:
  assumes "0 \<le> a" "a < 2 ^ 53" "0 \<le> b" "b < 2 ^ 53"
  shows "f64_add (f64_of_int a) (f64_of_int b) = f64_of_int (a + b)"
proof -
  obtain i j where i: "f64_of_int a = FFin False (nat a * 2 ^ i) (- int i)"
    and j: "f64_of_int b = FFin False (nat b * 2 ^ j) (- int j)"
    using f64_of_int_scaled assms by metis
  define k where "k = max i j"
  have g: "min (- int i) (- int j) = - int k" by (simp add: k_def)
  have "nat (- int i + int k) = k - i" "nat (- int j + int k) = k - j" by (auto simp: k_def)
  moreover have "2 ^ i * 2 ^ (k - i) = (2::int) ^ k" "2 ^ j * 2 ^ (k - j) = (2::int) ^ k"
    by (simp_all add: k_def flip: power_add)
  ultimately have al: "align False (nat a * 2 ^ i) (- int i) (- int k) = a * 2 ^ k"
    "align False (nat b * 2 ^ j) (- int j) (- int k) = b * 2 ^ k"
    using assms by (simp_all add: align_def signed_sig_def mult.assoc)
  show ?thesis
  proof (cases "a + b = 0")
    case True
    then have "a = 0" "b = 0" using assms by auto
    then show ?thesis
      by (simp add: f64_of_int_def round64_def Let_def align_def signed_sig_def)
  next
    case False
    have X: "a * 2 ^ k + b * 2 ^ k = (a + b) * 2 ^ k" by (simp add: distrib_right)
    have "0 < (a + b) * 2 ^ k" using False assms by simp
    then have "f64_add (f64_of_int a) (f64_of_int b)
        = round64 False (nat ((a + b) * 2 ^ k)) (- int k)"
      unfolding i j using False by (simp add: Let_def g al X)
    also have "nat ((a + b) * 2 ^ k) = nat (a + b) * 2 ^ k"
      using assms by (simp add: nat_mult_distrib nat_power_eq)
    finally show ?thesis using assms by (simp add: round64_scale f64_of_int_def not_less)
  qed
qed

end
