(* ===== verification/GoString.thy ===== *)
theory GoString
  imports Prelude "HOL-Library.List_Lexorder" "HOL-Library.Char_ord" "HOL-Library.Sublist"
begin

text \<open>
  What the services use of Go's \<open>strings\<close> and \<open>strconv\<close> packages, on byte strings:
  \<open>TrimSpace\<close>, \<open>Split\<close> at a comma, \<open>Contains\<close>, \<open>Atoi\<close>, and the bytewise
  comparison of strings. The order \<open><\<close> on \<open>string\<close> is that of
  HOL-Library.List_Lexorder over the byte values of \<open>char\<close>, which is Go's order.
\<close>

subsection \<open>TrimSpace\<close>

text \<open>
  The white space runes of \<open>unicode.IsSpace\<close>, as UTF-8 byte sequences: the ASCII ones,
  U+0085, U+00A0, U+1680, U+2000 to U+200A, U+2028, U+2029, U+202F, U+205F and U+3000. Each
  starts with a byte that is no continuation byte, so decoding the first (last) rune of a
  string finds one of them exactly when the string has it as a prefix (suffix).
\<close>

definition space_runes :: "string list" where
  "space_runes =
     [[CHR 0x09], [CHR 0x0A], [CHR 0x0B],
      [CHR 0x0C], [CHR 0x0D], [CHR 0x20],
      [CHR 0xC2, CHR 0x85], [CHR 0xC2, CHR 0xA0], [CHR 0xE1, CHR 0x9A, CHR 0x80],
      [CHR 0xE2, CHR 0x80, CHR 0x80], [CHR 0xE2, CHR 0x80, CHR 0x81], [CHR 0xE2, CHR 0x80, CHR 0x82],
      [CHR 0xE2, CHR 0x80, CHR 0x83], [CHR 0xE2, CHR 0x80, CHR 0x84], [CHR 0xE2, CHR 0x80, CHR 0x85],
      [CHR 0xE2, CHR 0x80, CHR 0x86], [CHR 0xE2, CHR 0x80, CHR 0x87], [CHR 0xE2, CHR 0x80, CHR 0x88],
      [CHR 0xE2, CHR 0x80, CHR 0x89], [CHR 0xE2, CHR 0x80, CHR 0x8A], [CHR 0xE2, CHR 0x80, CHR 0xA8],
      [CHR 0xE2, CHR 0x80, CHR 0xA9], [CHR 0xE2, CHR 0x80, CHR 0xAF], [CHR 0xE2, CHR 0x81, CHR 0x9F],
      [CHR 0xE3, CHR 0x80, CHR 0x80]]"

text \<open>One leading rune of a set is cut off, if there is one.\<close>

fun strip_first :: "string list \<Rightarrow> string \<Rightarrow> string option" where
  "strip_first [] s = None"
| "strip_first (r # rs) s =
     (if take (length r) s = r then Some (drop (length r) s) else strip_first rs s)"

lemma strip_first_Some:
  "strip_first rs s = Some t \<Longrightarrow> \<exists>r \<in> set rs. s = r @ t"
  by (induction rs) (auto split: if_splits, metis append_take_drop_id)

lemma strip_first_length:
  assumes "[] \<notin> set rs" "strip_first rs s = Some t"
  shows "length t < length s"
proof -
  obtain r where "r \<in> set rs" "s = r @ t" using strip_first_Some [OF assms(2)] by blast
  with assms(1) show ?thesis by (cases r) auto
qed

lemma strip_first_None: "strip_first rs s = None \<longleftrightarrow> (\<forall>r \<in> set rs. \<not> prefix r s)"
  by (induction rs) (auto simp: prefix_def, metis append_take_drop_id)

lemma space_runes_nonempty: "[] \<notin> set space_runes"
  by (simp add: space_runes_def)

text \<open>The same runes read backwards: cutting a trailing rune is cutting a leading one of the reverse.\<close>

definition rev_space_runes :: "string list" where
  "rev_space_runes = map rev space_runes"

lemma rev_space_runes_nonempty: "[] \<notin> set rev_space_runes"
  using space_runes_nonempty by (auto simp: rev_space_runes_def)

function trim_left :: "string \<Rightarrow> string" where
  "trim_left s = (case strip_first space_runes s of None \<Rightarrow> s | Some t \<Rightarrow> trim_left t)"
  by pat_completeness auto
termination
  by (relation "measure length") (auto dest: strip_first_length [OF space_runes_nonempty])

function trim_right_rev :: "string \<Rightarrow> string" where
  "trim_right_rev s =
     (case strip_first rev_space_runes s of None \<Rightarrow> s | Some t \<Rightarrow> trim_right_rev t)"
  by pat_completeness auto
termination
  by (relation "measure length") (auto dest: strip_first_length [OF rev_space_runes_nonempty])

declare trim_left.simps [simp del] trim_right_rev.simps [simp del]

definition trim_right :: "string \<Rightarrow> string" where
  "trim_right s = rev (trim_right_rev (rev s))"

definition TrimSpace :: "string \<Rightarrow> string" where
  "TrimSpace s = trim_right (trim_left s)"


definition no_leading_space :: "string \<Rightarrow> bool" where
  "no_leading_space s \<longleftrightarrow> strip_first space_runes s = None"

definition no_trailing_space :: "string \<Rightarrow> bool" where
  "no_trailing_space s \<longleftrightarrow> strip_first rev_space_runes (rev s) = None"

lemma trim_left_no_leading: "no_leading_space (trim_left s)"
proof (induction s rule: trim_left.induct)
  case (1 s)
  then show ?case
    by (cases "strip_first space_runes s") (simp_all add: trim_left.simps [of s] no_leading_space_def)
qed

lemma trim_left_id: "no_leading_space s \<Longrightarrow> trim_left s = s"
  by (simp add: trim_left.simps [of s] no_leading_space_def)

lemma trim_left_suffix: "suffix (trim_left s) s"
proof (induction s rule: trim_left.induct)
  case (1 s)
  show ?case
  proof (cases "strip_first space_runes s")
    case (Some t)
    then have "suffix t s" using strip_first_Some by (fastforce simp: suffix_def)
    moreover have "suffix (trim_left t) t" using 1 Some by blast
    ultimately show ?thesis
      using Some by (metis option.simps(5) suffix_order.trans trim_left.simps)
  qed (simp add: trim_left.simps [of s])
qed

lemma trim_right_rev_fixed: "strip_first rev_space_runes (trim_right_rev s) = None"
proof (induction s rule: trim_right_rev.induct)
  case (1 s)
  then show ?case
    by (cases "strip_first rev_space_runes s") (simp_all add: trim_right_rev.simps [of s])
qed

lemma trim_right_rev_suffix: "suffix (trim_right_rev s) s"
proof (induction s rule: trim_right_rev.induct)
  case (1 s)
  show ?case
  proof (cases "strip_first rev_space_runes s")
    case (Some t)
    then have "suffix t s" using strip_first_Some by (fastforce simp: suffix_def)
    moreover have "suffix (trim_right_rev t) t" using 1 Some by blast
    ultimately show ?thesis
      using Some by (metis option.simps(5) suffix_order.trans trim_right_rev.simps)
  qed (simp add: trim_right_rev.simps [of s])
qed

lemma trim_right_no_trailing: "no_trailing_space (trim_right s)"
  by (simp add: no_trailing_space_def trim_right_def trim_right_rev_fixed)

lemma trim_right_id: "no_trailing_space s \<Longrightarrow> trim_right s = s"
  by (simp add: no_trailing_space_def trim_right_def trim_right_rev.simps [of "rev s"])

lemma trim_right_prefix: "prefix (trim_right s) s"
  using trim_right_rev_suffix [of "rev s"] by (simp add: trim_right_def suffix_to_prefix)

lemma no_leading_space_prefix: "prefix t s \<Longrightarrow> no_leading_space s \<Longrightarrow> no_leading_space t"
  unfolding no_leading_space_def strip_first_None by (meson prefix_order.trans)

lemma TrimSpace_trimmed: "no_leading_space (TrimSpace s)" "no_trailing_space (TrimSpace s)"
  by (auto simp: TrimSpace_def trim_right_no_trailing
      intro: no_leading_space_prefix [OF trim_right_prefix] trim_left_no_leading)

lemma TrimSpace_id: "no_leading_space s \<Longrightarrow> no_trailing_space s \<Longrightarrow> TrimSpace s = s"
  by (simp add: TrimSpace_def trim_left_id trim_right_id)

lemma TrimSpace_idem [simp]: "TrimSpace (TrimSpace s) = TrimSpace s"
  by (rule TrimSpace_id) (rule TrimSpace_trimmed)+

lemma TrimSpace_set: "set (TrimSpace s) \<subseteq> set s"
  using set_mono_prefix [OF trim_right_prefix] set_mono_suffix [OF trim_left_suffix]
  by (fastforce simp: TrimSpace_def)

subsection \<open>Split, Join and Contains\<close>

text \<open>\<open>strings.Split(s, ",")\<close>: one part more than there are separators.\<close>

fun split_at :: "char \<Rightarrow> string \<Rightarrow> string list" where
  "split_at c [] = [[]]"
| "split_at c (x # xs) =
     (if x = c then [] # split_at c xs
      else (case split_at c xs of [] \<Rightarrow> [[x]] | p # ps \<Rightarrow> (x # p) # ps))"

lemma split_at_nonempty [simp]: "split_at c s \<noteq> []"
  by (induction s) (auto split: list.splits)

lemma split_at_parts: "p \<in> set (split_at c s) \<Longrightarrow> c \<notin> set p"
  by (induction s arbitrary: p) (auto split: list.splits if_splits)

fun join_with :: "char \<Rightarrow> string list \<Rightarrow> string" where
  "join_with c [] = []"
| "join_with c [p] = p"
| "join_with c (p # q # ps) = p @ c # join_with c (q # ps)"

lemma join_split: "join_with c (split_at c s) = s"
proof (induction s)
  case (Cons x xs)
  obtain p ps where "split_at c xs = p # ps" by (cases "split_at c xs") auto
  with Cons show ?case by (cases ps) auto
qed simp

lemma split_no_sep: "c \<notin> set p \<Longrightarrow> split_at c p = [p]"
  by (induction p) auto

lemma split_append_sep: "c \<notin> set p \<Longrightarrow> split_at c (p @ c # s) = p # split_at c s"
  by (induction p) auto

lemma split_join: "ps \<noteq> [] \<Longrightarrow> (\<And>p. p \<in> set ps \<Longrightarrow> c \<notin> set p) \<Longrightarrow> split_at c (join_with c ps) = ps"
  by (induction c ps rule: join_with.induct) (auto simp: split_no_sep split_append_sep)

definition Contains :: "string \<Rightarrow> string \<Rightarrow> bool" where
  "Contains s sub \<longleftrightarrow> sublist sub s"

subsection \<open>Atoi\<close>

text \<open>
  \<open>strconv.Atoi\<close>: an optional sign, then at least one decimal digit; a value outside
  \<open>int\<close> is an error. Underscores are refused in base 10.
\<close>

definition digit_of :: "char \<Rightarrow> nat option" where
  "digit_of c =
     map_of [(CHR ''0'', 0), (CHR ''1'', 1), (CHR ''2'', 2), (CHR ''3'', 3), (CHR ''4'', 4),
             (CHR ''5'', 5), (CHR ''6'', 6), (CHR ''7'', 7), (CHR ''8'', 8), (CHR ''9'', 9)] c"

fun digits_val :: "nat \<Rightarrow> string \<Rightarrow> nat option" where
  "digits_val acc [] = Some acc"
| "digits_val acc (c # cs) =
     (case digit_of c of None \<Rightarrow> None | Some d \<Rightarrow> digits_val (10 * acc + d) cs)"

definition parse_digits :: "string \<Rightarrow> nat option" where
  "parse_digits s = (if s = [] then None else digits_val 0 s)"

definition Atoi :: "string \<Rightarrow> i64 option" where
  "Atoi s =
     (let neg = (s \<noteq> [] \<and> hd s = CHR ''-''); body = (if s \<noteq> [] \<and> (hd s = CHR ''-'' \<or> hd s = CHR ''+'') then tl s else s)
      in case parse_digits body of
           None \<Rightarrow> None
         | Some n \<Rightarrow>
             if neg then (if n \<le> 2 ^ 63 then Some (word_of_int (- int n)) else None)
             else (if n < 2 ^ 63 then Some (word_of_int (int n)) else None))"

end
