(* ===== verification/Ent.thy ===== *)
theory Ent
  imports GoFloat GoString
begin

text \<open>
  The vocabulary of the generated entity layer (\<open>golang-order-kratos/gen/ent\<close>): dynamic
  values, errors, the column names and enum values of the three entities, the entity
  structs, and how a scanned row becomes an entity (\<open>scanValues\<close>, \<open>assignValues\<close>).

  What the generated code hands to the \<open>sqlgraph\<close> library (specifications, predicates)
  is data here; what the library and the database do with it is a parameter, stated in
  the theory SqlEngine.
\<close>

subsection \<open>Dynamic values, errors, operations\<close>

text \<open>\<open>ent.Value\<close> is Go's \<open>any\<close>: the constructor is the dynamic type a type switch sees.\<close>

datatype ent_value =
    VUUID uuid | VTime time | VString string | VStatus string | VFloat float64
  | VInt i64 | VBool bool | VBytes "byte list" | VNull

text \<open>Errors of \<open>gen/ent/ent.go\<close> and the library errors they wrap.\<close>

datatype sql_error = SqlNotFound | SqlConstraint string | SqlOther string

datatype reason =
    MissingField string
  | MissingEdge string
  | MissingID string
  | ValidatorFailed string
  | InvalidColumn string

datatype ent_op = OpCreate | OpDelete | OpDeleteOne | OpUpdate | OpUpdateOne

datatype ent_error =
    ValidationError string reason
  | NotFoundError string
  | NotSingularError string
  | ConstraintError string
  | SqlError sql_error
  | UnexpectedType string
  | MismatchScan nat nat
  | UnknownField string
  | OldNotAllowed string
  | OldRequiresID string
  | OldQueryFailed string ent_error
  | OldAfterMutation
  | NilForeignKey uuid
  | UnexpectedForeignKey uuid uuid
  | UnexpectedNeighbor uuid
  | NotLoadedError string
  | ExistFailed ent_error
  | ManyFields string
  | NotOneResult string nat
  | IDsNotAllowed ent_op
  | ClearingRequiredEdge string
  | TxStarted
  | StartTxError sql_error

text \<open>
  The closure \<open>oldValue\<close> of a mutation: there is none, it returns a given entity, or it reads the
  entity with an id and keeps the first answer (\<open>sync.Once\<close>).
\<close>

datatype 'e old_value = NoOldValue | OldNode 'e | OldQuery uuid "(ent_error + 'e) option"

text \<open>The driver inside a \<open>config\<close>: the database, or a transaction (\<open>txDriver\<close>).\<close>

datatype driver = BaseDriver | TxDriver

definition go_zero_time :: time where
  \<comment> \<open>the zero \<open>time.Time\<close>: January 1, year 1, 00:00:00 UTC\<close>
  "go_zero_time = - 62135596800000000000"

subsection \<open>Column names and enum values\<close>

definition order_Label :: string where "order_Label = ''order''"
definition order_Table :: string where "order_Table = ''orders''"
definition orderitem_Label :: string where "orderitem_Label = ''order_item''"
definition orderitem_Table :: string where "orderitem_Table = ''order_items''"
definition outboxevent_Label :: string where "outboxevent_Label = ''outbox_event''"
definition outboxevent_Table :: string where "outboxevent_Table = ''outbox_events''"

lemmas table_names [ent_defs] =
  order_Label_def order_Table_def orderitem_Label_def orderitem_Table_def
  outboxevent_Label_def outboxevent_Table_def

abbreviation FieldID :: string where "FieldID \<equiv> ''id''"
abbreviation FieldCreatedAt :: string where "FieldCreatedAt \<equiv> ''created_at''"
abbreviation FieldUpdatedAt :: string where "FieldUpdatedAt \<equiv> ''updated_at''"
abbreviation order_FieldCustomerID :: string where "order_FieldCustomerID \<equiv> ''customer_id''"
abbreviation order_FieldStatus :: string where "order_FieldStatus \<equiv> ''status''"
abbreviation order_FieldSubtotal :: string where "order_FieldSubtotal \<equiv> ''subtotal''"
abbreviation order_FieldTax :: string where "order_FieldTax \<equiv> ''tax''"
abbreviation order_FieldShippingCost :: string where "order_FieldShippingCost \<equiv> ''shipping_cost''"
abbreviation order_FieldTotal :: string where "order_FieldTotal \<equiv> ''total''"
abbreviation order_FieldShippingAddress :: string where
  "order_FieldShippingAddress \<equiv> ''shipping_address''"
abbreviation order_FieldBillingAddress :: string where
  "order_FieldBillingAddress \<equiv> ''billing_address''"
abbreviation order_FieldErrorMessage :: string where "order_FieldErrorMessage \<equiv> ''error_message''"
abbreviation order_EdgeItems :: string where "order_EdgeItems \<equiv> ''items''"
abbreviation order_ItemsTable :: string where "order_ItemsTable \<equiv> ''order_items''"
abbreviation order_ItemsColumn :: string where "order_ItemsColumn \<equiv> ''order_items''"
abbreviation orderitem_FieldProductID :: string where "orderitem_FieldProductID \<equiv> ''product_id''"
abbreviation orderitem_FieldVariantID :: string where "orderitem_FieldVariantID \<equiv> ''variant_id''"
abbreviation orderitem_FieldProductName :: string where
  "orderitem_FieldProductName \<equiv> ''product_name''"
abbreviation orderitem_FieldVariantDescription :: string where
  "orderitem_FieldVariantDescription \<equiv> ''variant_description''"
abbreviation orderitem_FieldUnitPrice :: string where "orderitem_FieldUnitPrice \<equiv> ''unit_price''"
abbreviation orderitem_FieldQuantity :: string where "orderitem_FieldQuantity \<equiv> ''quantity''"
abbreviation orderitem_FieldTotalPrice :: string where
  "orderitem_FieldTotalPrice \<equiv> ''total_price''"
abbreviation orderitem_FieldImageURL :: string where "orderitem_FieldImageURL \<equiv> ''image_url''"
abbreviation orderitem_EdgeOrder :: string where "orderitem_EdgeOrder \<equiv> ''order''"
abbreviation orderitem_OrderTable :: string where "orderitem_OrderTable \<equiv> ''order_items''"
abbreviation orderitem_OrderColumn :: string where "orderitem_OrderColumn \<equiv> ''order_items''"
abbreviation outboxevent_FieldAggregateType :: string where
  "outboxevent_FieldAggregateType \<equiv> ''aggregate_type''"
abbreviation outboxevent_FieldAggregateID :: string where
  "outboxevent_FieldAggregateID \<equiv> ''aggregate_id''"
abbreviation outboxevent_FieldEventType :: string where
  "outboxevent_FieldEventType \<equiv> ''event_type''"
abbreviation outboxevent_FieldPayload :: string where "outboxevent_FieldPayload \<equiv> ''payload''"
abbreviation outboxevent_FieldProcessed :: string where
  "outboxevent_FieldProcessed \<equiv> ''processed''"

definition order_Columns :: "string list" where
  "order_Columns =
     [FieldID, FieldCreatedAt, FieldUpdatedAt, order_FieldCustomerID, order_FieldStatus,
      order_FieldSubtotal, order_FieldTax, order_FieldShippingCost, order_FieldTotal,
      order_FieldShippingAddress, order_FieldBillingAddress, order_FieldErrorMessage]"

definition order_ValidColumn :: "string \<Rightarrow> bool" where
  "order_ValidColumn column \<longleftrightarrow> column \<in> set order_Columns"

definition orderitem_Columns :: "string list" where
  "orderitem_Columns =
     [FieldID, FieldCreatedAt, FieldUpdatedAt, orderitem_FieldProductID, orderitem_FieldVariantID,
      orderitem_FieldProductName, orderitem_FieldVariantDescription, orderitem_FieldUnitPrice,
      orderitem_FieldQuantity, orderitem_FieldTotalPrice, orderitem_FieldImageURL]"

definition orderitem_ForeignKeys :: "string list" where
  "orderitem_ForeignKeys = [''order_items'']"

definition orderitem_ValidColumn :: "string \<Rightarrow> bool" where
  "orderitem_ValidColumn column \<longleftrightarrow>
     column \<in> set orderitem_Columns \<or> column \<in> set orderitem_ForeignKeys"

definition outboxevent_Columns :: "string list" where
  "outboxevent_Columns =
     [FieldID, FieldCreatedAt, FieldUpdatedAt, outboxevent_FieldAggregateType,
      outboxevent_FieldAggregateID, outboxevent_FieldEventType, outboxevent_FieldPayload,
      outboxevent_FieldProcessed]"

definition outboxevent_ValidColumn :: "string \<Rightarrow> bool" where
  "outboxevent_ValidColumn column \<longleftrightarrow> column \<in> set outboxevent_Columns"

text \<open>\<open>order.Status\<close> is a string type: any string inhabits it, nine of them are valid.\<close>

type_synonym status = string

abbreviation StatusCreated :: status where "StatusCreated \<equiv> ''created''"
abbreviation StatusPendingInventory :: status where "StatusPendingInventory \<equiv> ''pending_inventory''"
abbreviation StatusInventoryReserved :: status where
  "StatusInventoryReserved \<equiv> ''inventory_reserved''"
abbreviation StatusInventoryReservedFailed :: status where
  "StatusInventoryReservedFailed \<equiv> ''inventory_reserved_failed''"
abbreviation StatusPaymentPending :: status where "StatusPaymentPending \<equiv> ''payment_pending''"
abbreviation StatusPaymentCompleted :: status where "StatusPaymentCompleted \<equiv> ''payment_completed''"
abbreviation StatusPaymentFailed :: status where "StatusPaymentFailed \<equiv> ''payment_failed''"
abbreviation StatusShipping :: status where "StatusShipping \<equiv> ''shipping''"
abbreviation StatusCompleted :: status where "StatusCompleted \<equiv> ''completed''"

definition OrderStatusValues :: "status list" where
  "OrderStatusValues =
     [StatusCreated, StatusPendingInventory, StatusInventoryReserved, StatusInventoryReservedFailed,
      StatusPaymentPending, StatusPaymentCompleted, StatusPaymentFailed, StatusShipping,
      StatusCompleted]"

definition DefaultStatus :: status where
  "DefaultStatus = StatusCreated"

text \<open>A validator returns whether it accepts the value.\<close>

definition StatusValidator :: "status \<Rightarrow> bool" where
  "StatusValidator s \<longleftrightarrow>
     s \<in> {StatusCreated, StatusPendingInventory, StatusInventoryReserved,
          StatusInventoryReservedFailed, StatusPaymentPending, StatusPaymentCompleted,
          StatusPaymentFailed, StatusShipping, StatusCompleted}"

lemma StatusValidator_schema: "StatusValidator s \<longleftrightarrow> s \<in> set OrderStatusValues"
  by (simp add: StatusValidator_def OrderStatusValues_def)

subsection \<open>Entities\<close>

record OrderItem =
  oi_ID :: uuid
  oi_CreatedAt :: time
  oi_UpdatedAt :: time
  oi_ProductID :: uuid
  oi_VariantID :: uuid
  oi_ProductName :: string
  oi_VariantDescription :: string
  oi_UnitPrice :: float64
  oi_Quantity :: i64
  oi_TotalPrice :: float64
  oi_ImageURL :: string
  oi_order_items :: "uuid option"

text \<open>The \<open>Edges\<close> of an order: its eager-loaded items, and whether they were loaded.\<close>

record Order =
  o_ID :: uuid
  o_CreatedAt :: time
  o_UpdatedAt :: time
  o_CustomerID :: uuid
  o_Status :: status
  o_Subtotal :: float64
  o_Tax :: float64
  o_ShippingCost :: float64
  o_Total :: float64
  o_ShippingAddress :: string
  o_BillingAddress :: string
  o_ErrorMessage :: string
  o_Items :: "OrderItem list"
  o_loadedItems :: bool

record OutboxEvent =
  ob_ID :: uuid
  ob_CreatedAt :: time
  ob_UpdatedAt :: time
  ob_AggregateType :: string
  ob_AggregateID :: uuid
  ob_EventType :: string
  ob_Payload :: "byte list"
  ob_Processed :: bool

text \<open>\<open>&Order{}\<close>, \<open>&OrderItem{}\<close>, \<open>&OutboxEvent{}\<close>: every field at its zero value.\<close>

definition zero_Order :: Order where
  "zero_Order =
     \<lparr>o_ID = 0, o_CreatedAt = go_zero_time, o_UpdatedAt = go_zero_time, o_CustomerID = 0,
      o_Status = [], o_Subtotal = f64_zero, o_Tax = f64_zero, o_ShippingCost = f64_zero,
      o_Total = f64_zero, o_ShippingAddress = [], o_BillingAddress = [], o_ErrorMessage = [],
      o_Items = [], o_loadedItems = False\<rparr>"

definition zero_OrderItem :: OrderItem where
  "zero_OrderItem =
     \<lparr>oi_ID = 0, oi_CreatedAt = go_zero_time, oi_UpdatedAt = go_zero_time, oi_ProductID = 0,
      oi_VariantID = 0, oi_ProductName = [], oi_VariantDescription = [], oi_UnitPrice = f64_zero,
      oi_Quantity = 0, oi_TotalPrice = f64_zero, oi_ImageURL = [], oi_order_items = None\<rparr>"

definition zero_OutboxEvent :: OutboxEvent where
  "zero_OutboxEvent =
     \<lparr>ob_ID = 0, ob_CreatedAt = go_zero_time, ob_UpdatedAt = go_zero_time, ob_AggregateType = [],
      ob_AggregateID = 0, ob_EventType = [], ob_Payload = [], ob_Processed = False\<rparr>"


subsection \<open>Scanned rows\<close>

text \<open>
  \<open>scanValues\<close> says into which Go type each column of a row is scanned, and
  \<open>assignValues\<close> copies the scanned values into the entity, column by column. A column that
  is none of the entity's goes to \<open>selectValues\<close>, which nothing in the services reads.
\<close>

datatype scan_dest =
    DUUID | DNullTime | DNullString | DNullFloat64 | DNullInt64 | DNullBool | DBytes
  | DScannerUUID | DUnknown

datatype scan_val =
    SUUID uuid | SNullTime "time option" | SNullString "string option"
  | SNullFloat64 "float64 option" | SNullInt64 "i64 option" | SNullBool "bool option"
  | SBytes "byte list" | SScannerUUID "uuid option" | SUnknown ent_value

definition Order_scanValues :: "string list \<Rightarrow> scan_dest list" where
  "Order_scanValues columns = map (\<lambda>c.
     if c \<in> set [order_FieldSubtotal, order_FieldTax, order_FieldShippingCost, order_FieldTotal] then DNullFloat64
     else if c \<in> set [order_FieldStatus, order_FieldShippingAddress, order_FieldBillingAddress, order_FieldErrorMessage] then DNullString
     else if c \<in> set [FieldCreatedAt, FieldUpdatedAt] then DNullTime
     else if c \<in> set [FieldID, order_FieldCustomerID] then DUUID
     else DUnknown) columns"

definition Order_assign :: "string \<times> scan_val \<Rightarrow> Order \<Rightarrow> ent_error + Order" where
  "Order_assign = (\<lambda>(c, value) n.
     if c = FieldID then
       (case value of SUUID v \<Rightarrow> Inr (n\<lparr>o_ID := v\<rparr>) | _ \<Rightarrow> Inl (UnexpectedType c))
     else if c = FieldCreatedAt then
       (case value of SNullTime v \<Rightarrow> Inr (case v of Some x \<Rightarrow> n\<lparr>o_CreatedAt := x\<rparr> | None \<Rightarrow> n)
        | _ \<Rightarrow> Inl (UnexpectedType c))
     else if c = FieldUpdatedAt then
       (case value of SNullTime v \<Rightarrow> Inr (case v of Some x \<Rightarrow> n\<lparr>o_UpdatedAt := x\<rparr> | None \<Rightarrow> n)
        | _ \<Rightarrow> Inl (UnexpectedType c))
     else if c = order_FieldCustomerID then
       (case value of SUUID v \<Rightarrow> Inr (n\<lparr>o_CustomerID := v\<rparr>) | _ \<Rightarrow> Inl (UnexpectedType c))
     else if c = order_FieldStatus then
       (case value of SNullString v \<Rightarrow> Inr (case v of Some x \<Rightarrow> n\<lparr>o_Status := x\<rparr> | None \<Rightarrow> n)
        | _ \<Rightarrow> Inl (UnexpectedType c))
     else if c = order_FieldSubtotal then
       (case value of SNullFloat64 v \<Rightarrow> Inr (case v of Some x \<Rightarrow> n\<lparr>o_Subtotal := x\<rparr> | None \<Rightarrow> n)
        | _ \<Rightarrow> Inl (UnexpectedType c))
     else if c = order_FieldTax then
       (case value of SNullFloat64 v \<Rightarrow> Inr (case v of Some x \<Rightarrow> n\<lparr>o_Tax := x\<rparr> | None \<Rightarrow> n)
        | _ \<Rightarrow> Inl (UnexpectedType c))
     else if c = order_FieldShippingCost then
       (case value of SNullFloat64 v \<Rightarrow> Inr (case v of Some x \<Rightarrow> n\<lparr>o_ShippingCost := x\<rparr> | None \<Rightarrow> n)
        | _ \<Rightarrow> Inl (UnexpectedType c))
     else if c = order_FieldTotal then
       (case value of SNullFloat64 v \<Rightarrow> Inr (case v of Some x \<Rightarrow> n\<lparr>o_Total := x\<rparr> | None \<Rightarrow> n)
        | _ \<Rightarrow> Inl (UnexpectedType c))
     else if c = order_FieldShippingAddress then
       (case value of SNullString v \<Rightarrow> Inr (case v of Some x \<Rightarrow> n\<lparr>o_ShippingAddress := x\<rparr> | None \<Rightarrow> n)
        | _ \<Rightarrow> Inl (UnexpectedType c))
     else if c = order_FieldBillingAddress then
       (case value of SNullString v \<Rightarrow> Inr (case v of Some x \<Rightarrow> n\<lparr>o_BillingAddress := x\<rparr> | None \<Rightarrow> n)
        | _ \<Rightarrow> Inl (UnexpectedType c))
     else if c = order_FieldErrorMessage then
       (case value of SNullString v \<Rightarrow> Inr (case v of Some x \<Rightarrow> n\<lparr>o_ErrorMessage := x\<rparr> | None \<Rightarrow> n)
        | _ \<Rightarrow> Inl (UnexpectedType c))
     else Inr n)"

definition Order_assignValues :: "string list \<Rightarrow> scan_val list \<Rightarrow> Order \<Rightarrow> ent_error + Order" where
  "Order_assignValues columns values n =
     (if length values < length columns then Inl (MismatchScan (length values) (length columns))
      else range_loop Order_assign (zip columns values) n)"

definition OrderItem_scanValues :: "string list \<Rightarrow> scan_dest list" where
  "OrderItem_scanValues columns = map (\<lambda>c.
     if c \<in> set [orderitem_FieldUnitPrice, orderitem_FieldTotalPrice] then DNullFloat64
     else if c \<in> set [orderitem_FieldQuantity] then DNullInt64
     else if c \<in> set [orderitem_FieldProductName, orderitem_FieldVariantDescription, orderitem_FieldImageURL] then DNullString
     else if c \<in> set [FieldCreatedAt, FieldUpdatedAt] then DNullTime
     else if c \<in> set [FieldID, orderitem_FieldProductID, orderitem_FieldVariantID] then DUUID
     else if c = orderitem_ForeignKeys ! 0 then DScannerUUID
     else DUnknown) columns"

definition OrderItem_assign :: "string \<times> scan_val \<Rightarrow> OrderItem \<Rightarrow> ent_error + OrderItem" where
  "OrderItem_assign = (\<lambda>(c, value) n.
     if c = FieldID then
       (case value of SUUID v \<Rightarrow> Inr (n\<lparr>oi_ID := v\<rparr>) | _ \<Rightarrow> Inl (UnexpectedType c))
     else if c = FieldCreatedAt then
       (case value of SNullTime v \<Rightarrow> Inr (case v of Some x \<Rightarrow> n\<lparr>oi_CreatedAt := x\<rparr> | None \<Rightarrow> n)
        | _ \<Rightarrow> Inl (UnexpectedType c))
     else if c = FieldUpdatedAt then
       (case value of SNullTime v \<Rightarrow> Inr (case v of Some x \<Rightarrow> n\<lparr>oi_UpdatedAt := x\<rparr> | None \<Rightarrow> n)
        | _ \<Rightarrow> Inl (UnexpectedType c))
     else if c = orderitem_FieldProductID then
       (case value of SUUID v \<Rightarrow> Inr (n\<lparr>oi_ProductID := v\<rparr>) | _ \<Rightarrow> Inl (UnexpectedType c))
     else if c = orderitem_FieldVariantID then
       (case value of SUUID v \<Rightarrow> Inr (n\<lparr>oi_VariantID := v\<rparr>) | _ \<Rightarrow> Inl (UnexpectedType c))
     else if c = orderitem_FieldProductName then
       (case value of SNullString v \<Rightarrow> Inr (case v of Some x \<Rightarrow> n\<lparr>oi_ProductName := x\<rparr> | None \<Rightarrow> n)
        | _ \<Rightarrow> Inl (UnexpectedType c))
     else if c = orderitem_FieldVariantDescription then
       (case value of SNullString v \<Rightarrow> Inr (case v of Some x \<Rightarrow> n\<lparr>oi_VariantDescription := x\<rparr> | None \<Rightarrow> n)
        | _ \<Rightarrow> Inl (UnexpectedType c))
     else if c = orderitem_FieldUnitPrice then
       (case value of SNullFloat64 v \<Rightarrow> Inr (case v of Some x \<Rightarrow> n\<lparr>oi_UnitPrice := x\<rparr> | None \<Rightarrow> n)
        | _ \<Rightarrow> Inl (UnexpectedType c))
     else if c = orderitem_FieldQuantity then
       (case value of SNullInt64 v \<Rightarrow> Inr (case v of Some x \<Rightarrow> n\<lparr>oi_Quantity := x\<rparr> | None \<Rightarrow> n)
        | _ \<Rightarrow> Inl (UnexpectedType c))
     else if c = orderitem_FieldTotalPrice then
       (case value of SNullFloat64 v \<Rightarrow> Inr (case v of Some x \<Rightarrow> n\<lparr>oi_TotalPrice := x\<rparr> | None \<Rightarrow> n)
        | _ \<Rightarrow> Inl (UnexpectedType c))
     else if c = orderitem_FieldImageURL then
       (case value of SNullString v \<Rightarrow> Inr (case v of Some x \<Rightarrow> n\<lparr>oi_ImageURL := x\<rparr> | None \<Rightarrow> n)
        | _ \<Rightarrow> Inl (UnexpectedType c))
     else if c = orderitem_ForeignKeys ! 0 then
       (case value of SScannerUUID v \<Rightarrow> Inr (case v of Some x \<Rightarrow> n\<lparr>oi_order_items := Some x\<rparr> | None \<Rightarrow> n)
        | _ \<Rightarrow> Inl (UnexpectedType c))
     else Inr n)"

definition OrderItem_assignValues :: "string list \<Rightarrow> scan_val list \<Rightarrow> OrderItem \<Rightarrow> ent_error + OrderItem" where
  "OrderItem_assignValues columns values n =
     (if length values < length columns then Inl (MismatchScan (length values) (length columns))
      else range_loop OrderItem_assign (zip columns values) n)"

definition OutboxEvent_scanValues :: "string list \<Rightarrow> scan_dest list" where
  "OutboxEvent_scanValues columns = map (\<lambda>c.
     if c \<in> set [outboxevent_FieldPayload] then DBytes
     else if c \<in> set [outboxevent_FieldProcessed] then DNullBool
     else if c \<in> set [outboxevent_FieldAggregateType, outboxevent_FieldEventType] then DNullString
     else if c \<in> set [FieldCreatedAt, FieldUpdatedAt] then DNullTime
     else if c \<in> set [FieldID, outboxevent_FieldAggregateID] then DUUID
     else DUnknown) columns"

definition OutboxEvent_assign :: "string \<times> scan_val \<Rightarrow> OutboxEvent \<Rightarrow> ent_error + OutboxEvent" where
  "OutboxEvent_assign = (\<lambda>(c, value) n.
     if c = FieldID then
       (case value of SUUID v \<Rightarrow> Inr (n\<lparr>ob_ID := v\<rparr>) | _ \<Rightarrow> Inl (UnexpectedType c))
     else if c = FieldCreatedAt then
       (case value of SNullTime v \<Rightarrow> Inr (case v of Some x \<Rightarrow> n\<lparr>ob_CreatedAt := x\<rparr> | None \<Rightarrow> n)
        | _ \<Rightarrow> Inl (UnexpectedType c))
     else if c = FieldUpdatedAt then
       (case value of SNullTime v \<Rightarrow> Inr (case v of Some x \<Rightarrow> n\<lparr>ob_UpdatedAt := x\<rparr> | None \<Rightarrow> n)
        | _ \<Rightarrow> Inl (UnexpectedType c))
     else if c = outboxevent_FieldAggregateType then
       (case value of SNullString v \<Rightarrow> Inr (case v of Some x \<Rightarrow> n\<lparr>ob_AggregateType := x\<rparr> | None \<Rightarrow> n)
        | _ \<Rightarrow> Inl (UnexpectedType c))
     else if c = outboxevent_FieldAggregateID then
       (case value of SUUID v \<Rightarrow> Inr (n\<lparr>ob_AggregateID := v\<rparr>) | _ \<Rightarrow> Inl (UnexpectedType c))
     else if c = outboxevent_FieldEventType then
       (case value of SNullString v \<Rightarrow> Inr (case v of Some x \<Rightarrow> n\<lparr>ob_EventType := x\<rparr> | None \<Rightarrow> n)
        | _ \<Rightarrow> Inl (UnexpectedType c))
     else if c = outboxevent_FieldPayload then
       (case value of SBytes v \<Rightarrow> Inr (n\<lparr>ob_Payload := v\<rparr>) | _ \<Rightarrow> Inl (UnexpectedType c))
     else if c = outboxevent_FieldProcessed then
       (case value of SNullBool v \<Rightarrow> Inr (case v of Some x \<Rightarrow> n\<lparr>ob_Processed := x\<rparr> | None \<Rightarrow> n)
        | _ \<Rightarrow> Inl (UnexpectedType c))
     else Inr n)"

definition OutboxEvent_assignValues :: "string list \<Rightarrow> scan_val list \<Rightarrow> OutboxEvent \<Rightarrow> ent_error + OutboxEvent" where
  "OutboxEvent_assignValues columns values n =
     (if length values < length columns then Inl (MismatchScan (length values) (length columns))
      else range_loop OutboxEvent_assign (zip columns values) n)"

subsection \<open>Predicates\<close>

text \<open>
  A \<open>predicate.Order\<close> is built from the library's field predicates; the constructors below
  are those the generated \<open>where.go\<close> files apply, on a column and values.
\<close>

datatype sql_pred =
    FieldEQ string ent_value | FieldNEQ string ent_value
  | FieldIn string "ent_value list" | FieldNotIn string "ent_value list"
  | FieldGT string ent_value | FieldGTE string ent_value
  | FieldLT string ent_value | FieldLTE string ent_value
  | FieldContains string string | FieldHasPrefix string string | FieldHasSuffix string string
  | FieldIsNull string | FieldNotNull string
  | PredAnd "sql_pred list" | PredOr "sql_pred list" | PredNot sql_pred

datatype order_term = OrderAsc string | OrderDesc string

text \<open>The predicates the services apply (\<open>gen/ent/order/where.go\<close>, \<open>outboxevent/where.go\<close>).\<close>

definition order_ID :: "uuid \<Rightarrow> sql_pred" where [ent_defs]:
  "order_ID v = FieldEQ FieldID (VUUID v)"

definition order_IDEQ :: "uuid \<Rightarrow> sql_pred" where [ent_defs]:
  "order_IDEQ v = FieldEQ FieldID (VUUID v)"

definition order_CustomerIDEQ :: "uuid \<Rightarrow> sql_pred" where [ent_defs]:
  "order_CustomerIDEQ v = FieldEQ order_FieldCustomerID (VUUID v)"

definition order_StatusEQ :: "status \<Rightarrow> sql_pred" where [ent_defs]:
  "order_StatusEQ v = FieldEQ order_FieldStatus (VStatus v)"

definition order_CreatedAtGT :: "time \<Rightarrow> sql_pred" where [ent_defs]:
  "order_CreatedAtGT v = FieldGT FieldCreatedAt (VTime v)"

definition outboxevent_ProcessedEQ :: "bool \<Rightarrow> sql_pred" where [ent_defs]:
  "outboxevent_ProcessedEQ v = FieldEQ outboxevent_FieldProcessed (VBool v)"

end
