(* ===== verification/SqlEngine.thy ===== *)
theory SqlEngine
  imports Ent
begin

text \<open>
  The interface between the generated entity layer and the code it calls: the
  specifications it hands to \<open>sqlgraph\<close> (records), the functions of the libraries (the
  record \<open>lib\<close>, a parameter of every definition that performs an effect), and what the
  services rely on (the locales \<open>sql_engine\<close> and \<open>sql_engine_up\<close>).

  The state type \<open>'d\<close> is whatever the outside world is: the database with its open
  transaction, the clock, the random source, the broker. A call takes the state and returns
  the new one. The abstraction functions \<open>committed\<close> and \<open>view\<close> of the locale read off
  the committed tables and, when a transaction is open, the tables as it sees them.
\<close>

subsection \<open>Specifications\<close>

datatype edge_rel = M2O | O2M | O2O | M2M

record edge_spec =
  es_Rel :: edge_rel
  es_Inverse :: bool
  es_Table :: string
  es_Columns :: "string list"
  es_Nodes :: "uuid list"

record create_spec =
  cs_Table :: string
  cs_ID :: "uuid option"
  cs_Fields :: "(string \<times> ent_value) list"
  cs_Edges :: "edge_spec list"

record update_spec =
  us_Table :: string
  us_Columns :: "string list"
  us_ID :: "uuid option"
  us_Predicates :: "sql_pred list"
  us_Set :: "(string \<times> ent_value) list"
  us_Add :: "(string \<times> ent_value) list"
  us_Clear :: "string list"
  us_EdgesClear :: "edge_spec list"
  us_EdgesAdd :: "edge_spec list"
  us_ScanValues :: "string list \<Rightarrow> scan_dest list"
  us_Assign :: "string list \<Rightarrow> scan_val list \<Rightarrow> ent_error option"

record query_spec =
  qs_Table :: string
  qs_Columns :: "string list"
  qs_Predicates :: "sql_pred list"
  qs_Limit :: i64
  qs_Offset :: i64
  qs_Unique :: bool
  qs_Order :: "order_term list"
  qs_ScanValues :: "string list \<Rightarrow> scan_dest list"

subsection \<open>The library functions\<close>

text \<open>
  \<open>sqlgraph_QueryNodes\<close> returns the scanned values of each row, in the order of the
  specification's columns: the entity layer's \<open>Assign\<close> callback runs on them.
  \<open>sqlgraph_UpdateNode\<close> returns the scanned values of the updated row, on which it has run
  the specification's \<open>Assign\<close>, whose error undoes the update.
\<close>

record 'd lib =
  sql_BeginTx :: "'d \<Rightarrow> 'd \<times> sql_error option"
  sql_Commit :: "'d \<Rightarrow> 'd \<times> sql_error option"
  sql_Rollback :: "'d \<Rightarrow> 'd \<times> sql_error option"
  sqlgraph_CreateNode :: "driver \<Rightarrow> create_spec \<Rightarrow> 'd \<Rightarrow> 'd \<times> sql_error option"
  sqlgraph_BatchCreate :: "driver \<Rightarrow> create_spec list \<Rightarrow> 'd \<Rightarrow> 'd \<times> sql_error option"
  sqlgraph_UpdateNode :: "driver \<Rightarrow> update_spec \<Rightarrow> 'd \<Rightarrow> 'd \<times> (ent_error + scan_val list)"
  sqlgraph_QueryNodes :: "driver \<Rightarrow> query_spec \<Rightarrow> 'd \<Rightarrow> 'd \<times> (sql_error + scan_val list list)"
  sqlgraph_CountNodes :: "driver \<Rightarrow> query_spec \<Rightarrow> 'd \<Rightarrow> 'd \<times> (sql_error + i64)"
  uuid_New :: "'d \<Rightarrow> 'd \<times> uuid"
  time_Now :: "'d \<Rightarrow> 'd \<times> time"
  field_FloatMin :: "float64 \<Rightarrow> float64 \<Rightarrow> bool"
  field_IntPositive :: "i64 \<Rightarrow> bool"
  field_StringNotEmpty :: "string \<Rightarrow> bool"

subsection \<open>Rows\<close>

text \<open>A stored row maps a column to its value; \<open>VNull\<close> is SQL's NULL.\<close>

type_synonym row = "string \<Rightarrow> ent_value"
type_synonym tables = "string \<Rightarrow> row list"

text \<open>
  What a value becomes when it is stored: an enum is a string, and the time stamp keeps the
  precision of the column, which the function \<open>tr\<close> says.
\<close>

fun db_value :: "(time \<Rightarrow> time) \<Rightarrow> ent_value \<Rightarrow> ent_value" where
  "db_value tr (VStatus s) = VString s"
| "db_value tr (VTime t) = VTime (tr t)"
| "db_value tr v = v"

text \<open>\<open>database/sql\<close>'s conversion of a column into a scan destination; \<open>None\<close> is its error.\<close>

fun scan_cell :: "scan_dest \<Rightarrow> ent_value \<Rightarrow> scan_val option" where
  "scan_cell DUUID (VUUID u) = Some (SUUID u)"
| "scan_cell DUUID VNull = Some (SUUID 0)"
| "scan_cell DNullTime (VTime t) = Some (SNullTime (Some t))"
| "scan_cell DNullTime VNull = Some (SNullTime None)"
| "scan_cell DNullString (VString s) = Some (SNullString (Some s))"
| "scan_cell DNullString VNull = Some (SNullString None)"
| "scan_cell DNullFloat64 (VFloat x) = Some (SNullFloat64 (Some x))"
| "scan_cell DNullFloat64 VNull = Some (SNullFloat64 None)"
| "scan_cell DNullInt64 (VInt k) = Some (SNullInt64 (Some k))"
| "scan_cell DNullInt64 VNull = Some (SNullInt64 None)"
| "scan_cell DNullBool (VBool b) = Some (SNullBool (Some b))"
| "scan_cell DNullBool VNull = Some (SNullBool None)"
| "scan_cell DBytes (VBytes bs) = Some (SBytes bs)"
| "scan_cell DBytes VNull = Some (SBytes [])"
| "scan_cell DScannerUUID (VUUID u) = Some (SScannerUUID (Some u))"
| "scan_cell DScannerUUID VNull = Some (SScannerUUID None)"
| "scan_cell DUnknown v = Some (SUnknown v)"
| "scan_cell _ _ = None"

fun collect :: "'a option list \<Rightarrow> 'a list option" where
  "collect [] = Some []"
| "collect (None # xs) = None"
| "collect (Some x # xs) = map_option (Cons x) (collect xs)"

definition scan_row :: "(string list \<Rightarrow> scan_dest list) \<Rightarrow> string list \<Rightarrow> row \<Rightarrow> scan_val list option" where
  "scan_row dests cols r = collect (map2 (\<lambda>d c. scan_cell d (r c)) (dests cols) cols)"

lemma collect_Some_iff: "collect xs = Some ys \<longleftrightarrow> xs = map Some ys"
  by (induction xs arbitrary: ys rule: collect.induct) (auto simp: Cons_eq_map_conv)

subsection \<open>What the operations mean\<close>

definition edge_cells :: "edge_spec \<Rightarrow> (string \<times> ent_value) list" where
  "edge_cells e = (if es_Rel e = M2O then [(hd (es_Columns e), VUUID (hd (es_Nodes e)))] else [])"

definition spec_cells :: "create_spec \<Rightarrow> (string \<times> ent_value) list" where
  "spec_cells cs =
     (case cs_ID cs of None \<Rightarrow> [] | Some i \<Rightarrow> [(FieldID, VUUID i)])
     @ cs_Fields cs @ concat (map edge_cells (cs_Edges cs))"

definition spec_row :: "(time \<Rightarrow> time) \<Rightarrow> create_spec \<Rightarrow> row" where
  "spec_row tr cs = (\<lambda>c. case map_of (spec_cells cs) c of None \<Rightarrow> VNull | Some v \<Rightarrow> db_value tr v)"

definition own_edges :: "create_spec \<Rightarrow> bool" where
  \<comment> \<open>the edges live in the row's own foreign-key columns\<close>
  "own_edges cs \<longleftrightarrow>
     (\<forall>e \<in> set (cs_Edges cs). es_Rel e = M2O \<and> length (es_Nodes e) = 1 \<and> length (es_Columns e) = 1)"

definition insert_spec :: "(time \<Rightarrow> time) \<Rightarrow> create_spec \<Rightarrow> tables \<Rightarrow> tables" where
  "insert_spec tr cs t = t(cs_Table cs := t (cs_Table cs) @ [spec_row tr cs])"

definition fresh_id :: "create_spec \<Rightarrow> tables \<Rightarrow> bool" where
  "fresh_id cs t \<longleftrightarrow> (\<forall>r \<in> set (t (cs_Table cs)). \<forall>i. cs_ID cs = Some i \<longrightarrow> r FieldID \<noteq> VUUID i)"

fun fresh_ids :: "(time \<Rightarrow> time) \<Rightarrow> create_spec list \<Rightarrow> tables \<Rightarrow> bool" where
  "fresh_ids tr [] t = True"
| "fresh_ids tr (cs # css) t = (fresh_id cs t \<and> fresh_ids tr css (insert_spec tr cs t))"

fun time_of_cell :: "ent_value \<Rightarrow> time" where
  "time_of_cell (VTime t) = t"
| "time_of_cell _ = 0"

text \<open>SQL comparison: NULL satisfies no comparison; the order is only stated for instants.\<close>

fun row_matches :: "(time \<Rightarrow> time) \<Rightarrow> sql_pred \<Rightarrow> row \<Rightarrow> bool" where
  "row_matches tr (FieldEQ c v) r = (r c = db_value tr v \<and> r c \<noteq> VNull)"
| "row_matches tr (FieldNEQ c v) r = (r c \<noteq> db_value tr v \<and> r c \<noteq> VNull)"
| "row_matches tr (FieldIn c vs) r = (r c \<in> db_value tr ` set vs \<and> r c \<noteq> VNull)"
| "row_matches tr (FieldNotIn c vs) r = (r c \<notin> db_value tr ` set vs \<and> r c \<noteq> VNull)"
| "row_matches tr (FieldGT c v) r =
     (case (r c, v) of (VTime a, VTime b) \<Rightarrow> tr b < a | _ \<Rightarrow> False)"
| "row_matches tr (FieldGTE c v) r =
     (case (r c, v) of (VTime a, VTime b) \<Rightarrow> tr b \<le> a | _ \<Rightarrow> False)"
| "row_matches tr (FieldLT c v) r =
     (case (r c, v) of (VTime a, VTime b) \<Rightarrow> a < tr b | _ \<Rightarrow> False)"
| "row_matches tr (FieldLTE c v) r =
     (case (r c, v) of (VTime a, VTime b) \<Rightarrow> a \<le> tr b | _ \<Rightarrow> False)"
| "row_matches tr (FieldContains c s) r = (case r c of VString t \<Rightarrow> sublist s t | _ \<Rightarrow> False)"
| "row_matches tr (FieldHasPrefix c s) r = (case r c of VString t \<Rightarrow> prefix s t | _ \<Rightarrow> False)"
| "row_matches tr (FieldHasSuffix c s) r = (case r c of VString t \<Rightarrow> suffix s t | _ \<Rightarrow> False)"
| "row_matches tr (FieldIsNull c) r = (r c = VNull)"
| "row_matches tr (FieldNotNull c) r = (r c \<noteq> VNull)"
| "row_matches tr (PredAnd ps) r = (\<forall>p \<in> set ps. row_matches tr p r)"
| "row_matches tr (PredOr ps) r = (\<exists>p \<in> set ps. row_matches tr p r)"
| "row_matches tr (PredNot p) r = (\<not> row_matches tr p r)"

text \<open>
  The predicates whose meaning the laws rely on: those the services use. (SQL's \<open>NOT\<close> is
  three-valued, and string and number order depend on the database.)
\<close>

fun plain_pred :: "sql_pred \<Rightarrow> bool" where
  "plain_pred (FieldEQ c v) = (\<forall>x. v \<noteq> VFloat x)"
| "plain_pred (FieldIn c vs) = (\<forall>v \<in> set vs. \<forall>x. v \<noteq> VFloat x)"
| "plain_pred (FieldGT c v) = (\<exists>t. v = VTime t)"
| "plain_pred _ = False"

definition term_le :: "order_term \<Rightarrow> row \<Rightarrow> row \<Rightarrow> bool" where
  "term_le t r r' = (case t of
      OrderAsc c \<Rightarrow> time_of_cell (r c) \<le> time_of_cell (r' c)
    | OrderDesc c \<Rightarrow> time_of_cell (r' c) \<le> time_of_cell (r c))"

definition term_column :: "order_term \<Rightarrow> string" where
  "term_column t = (case t of OrderAsc c \<Rightarrow> c | OrderDesc c \<Rightarrow> c)"

definition selected :: "(time \<Rightarrow> time) \<Rightarrow> query_spec \<Rightarrow> tables \<Rightarrow> row list" where
  "selected tr qs t = filter (\<lambda>r. \<forall>p \<in> set (qs_Predicates qs). row_matches tr p r) (t (qs_Table qs))"

definition page :: "i64 \<Rightarrow> i64 \<Rightarrow> 'a list \<Rightarrow> 'a list" where
  \<comment> \<open>a limit or an offset of zero is no limit, no offset\<close>
  "page limit offset xs =
     (let ys = drop (nat (sint offset)) xs in if limit = 0 then ys else take (nat (sint limit)) ys)"

definition simple_query :: "query_spec \<Rightarrow> tables \<Rightarrow> bool" where
  \<comment> \<open>the queries whose answer the laws determine\<close>
  "simple_query qs t \<longleftrightarrow>
     (\<forall>p \<in> set (qs_Predicates qs). plain_pred p)
     \<and> 0 \<le> sint (qs_Limit qs) \<and> 0 \<le> sint (qs_Offset qs)
     \<and> length (qs_Order qs) \<le> 1
     \<and> (\<forall>ot \<in> set (qs_Order qs). \<forall>r \<in> set (t (qs_Table qs)). \<exists>x. r (term_column ot) = VTime x)"

definition answers :: "(time \<Rightarrow> time) \<Rightarrow> query_spec \<Rightarrow> tables \<Rightarrow> row list \<Rightarrow> bool" where
  "answers tr qs t rows \<longleftrightarrow>
     mset rows = mset (selected tr qs t) \<and> (\<forall>ot \<in> set (qs_Order qs). sorted_wrt (term_le ot) rows)"

definition plain_update :: "update_spec \<Rightarrow> bool" where
  "plain_update us \<longleftrightarrow>
     us_Add us = [] \<and> us_EdgesClear us = [] \<and> us_EdgesAdd us = [] \<and> us_Predicates us = []
     \<and> us_ID us \<noteq> None \<and> FieldID \<notin> fst ` set (us_Set us) \<and> FieldID \<notin> set (us_Clear us)"

definition update_row :: "(time \<Rightarrow> time) \<Rightarrow> update_spec \<Rightarrow> row \<Rightarrow> row" where
  "update_row tr us r = (\<lambda>c.
     case map_of (us_Set us) c of
       Some v \<Rightarrow> db_value tr v
     | None \<Rightarrow> if c \<in> set (us_Clear us) then VNull else r c)"

definition is_target :: "update_spec \<Rightarrow> row \<Rightarrow> bool" where
  "is_target us r \<longleftrightarrow> (\<exists>i. us_ID us = Some i \<and> r FieldID = VUUID i)"

definition update_tables :: "(time \<Rightarrow> time) \<Rightarrow> update_spec \<Rightarrow> tables \<Rightarrow> tables" where
  "update_tables tr us t =
     t(us_Table us := map (\<lambda>r. if is_target us r then update_row tr us r else r) (t (us_Table us)))"

subsection \<open>The laws the services rely on\<close>

definition tables_of :: "('d \<Rightarrow> tables) \<Rightarrow> ('d \<Rightarrow> tables option) \<Rightarrow> driver \<Rightarrow> 'd \<Rightarrow> tables option" where
  "tables_of committed view drv d =
     (case drv of BaseDriver \<Rightarrow> Some (committed d) | TxDriver \<Rightarrow> view d)"

definition same_db :: "('d \<Rightarrow> tables) \<Rightarrow> ('d \<Rightarrow> tables option) \<Rightarrow> 'd \<Rightarrow> 'd \<Rightarrow> bool" where
  "same_db committed view d d' \<longleftrightarrow> committed d' = committed d \<and> view d' = view d"

definition drv_frame ::
    "('d \<Rightarrow> tables) \<Rightarrow> ('d \<Rightarrow> tables option) \<Rightarrow> driver \<Rightarrow> 'd \<Rightarrow> 'd \<Rightarrow> bool" where
  \<comment> \<open>a write through one driver does not reach the other's tables\<close>
  "drv_frame committed view drv d d' \<longleftrightarrow>
     (case drv of
        BaseDriver \<Rightarrow> view d' = view d
      | TxDriver \<Rightarrow> committed d' = committed d \<and> (view d' = None \<longleftrightarrow> view d = None))"

text \<open>
  The validators that the schema's \<open>Min(0)\<close>, \<open>Positive()\<close> and \<open>NotEmpty()\<close> install
  (\<open>entgo.io/ent/schema/field\<close>); \<open>True\<close> is a nil error. A NaN is not below any bound.
\<close>

locale field_lib =
  fixes L :: "('d, 'z) lib_scheme"
  assumes float_min: "field_FloatMin L lo x \<longleftrightarrow> \<not> f64_lt x lo"
    and int_positive: "field_IntPositive L k \<longleftrightarrow> 0 < sint k"
    and not_empty: "field_StringNotEmpty L s \<longleftrightarrow> s \<noteq> []"

text \<open>
  A transactional SQL database behind \<open>database/sql\<close> and \<open>sqlgraph\<close>. A transaction starts
  from the committed tables and works on its own view; a failed commit leaves either the
  old or the new tables committed (the error does not say which); a write outside a
  transaction that reports an error may or may not have been applied. Inserts enforce the
  primary key.
\<close>

locale sql_engine = field_lib L
  for L :: "('d, 'z) lib_scheme" +
  fixes committed :: "'d \<Rightarrow> tables"
    and view :: "'d \<Rightarrow> tables option"
    and tr :: "time \<Rightarrow> time"
  assumes begin_ok:
      "sql_BeginTx L d = (d', None) \<Longrightarrow> view d = None \<Longrightarrow>
         committed d' = committed d \<and> view d' = Some (committed d)"
    and begin_err:
      "sql_BeginTx L d = (d', Some e) \<Longrightarrow> view d = None \<Longrightarrow> same_db committed view d d'"
    and commit_ok:
      "sql_Commit L d = (d', None) \<Longrightarrow> view d = Some t \<Longrightarrow> committed d' = t \<and> view d' = None"
    and commit_err:
      "sql_Commit L d = (d', Some e) \<Longrightarrow> view d = Some t \<Longrightarrow>
         committed d' \<in> {committed d, t} \<and> view d' = None"
    and rollback:
      "sql_Rollback L d = (d', r) \<Longrightarrow> committed d' = committed d \<and> view d' = None"
    and create_frame:
      "sqlgraph_CreateNode L drv cs d = (d', r) \<Longrightarrow> drv_frame committed view drv d d'"
    and create_ok:
      "sqlgraph_CreateNode L drv cs d = (d', None) \<Longrightarrow> own_edges cs \<Longrightarrow> cs_ID cs \<noteq> None \<Longrightarrow>
         tables_of committed view drv d = Some t \<Longrightarrow>
         fresh_id cs t \<and> tables_of committed view drv d' = Some (insert_spec tr cs t)"
    and batch_frame:
      "sqlgraph_BatchCreate L drv css d = (d', r) \<Longrightarrow> drv_frame committed view drv d d'"
    and batch_ok:
      "sqlgraph_BatchCreate L drv css d = (d', None) \<Longrightarrow>
         (\<And>cs. cs \<in> set css \<Longrightarrow> own_edges cs \<and> cs_ID cs \<noteq> None) \<Longrightarrow>
         tables_of committed view drv d = Some t \<Longrightarrow>
         fresh_ids tr css t \<and> tables_of committed view drv d' = Some (fold (insert_spec tr) css t)"
    and update_frame:
      "sqlgraph_UpdateNode L drv us d = (d', ru) \<Longrightarrow> drv_frame committed view drv d d'"
    and update_ok:
      "sqlgraph_UpdateNode L drv us d = (d', Inr vs) \<Longrightarrow> plain_update us \<Longrightarrow>
         tables_of committed view drv d = Some t \<Longrightarrow>
         tables_of committed view drv d' = Some (update_tables tr us t)
         \<and> (\<exists>x \<in> set (t (us_Table us)). is_target us x
              \<and> scan_row (us_ScanValues us) (us_Columns us) (update_row tr us x) = Some vs)
         \<and> us_Assign us (us_Columns us) vs = None"
    and update_err:
      "sqlgraph_UpdateNode L drv us d = (d', Inl ue) \<Longrightarrow> plain_update us \<Longrightarrow> drv = BaseDriver \<Longrightarrow>
         committed d' \<in> {committed d, update_tables tr us (committed d)}"
    and query_same:
      "sqlgraph_QueryNodes L drv qs d = (d', rq) \<Longrightarrow> same_db committed view d d'"
    and query_ok:
      "sqlgraph_QueryNodes L drv qs d = (d', Inr vss) \<Longrightarrow>
         tables_of committed view drv d = Some t \<Longrightarrow> simple_query qs t \<Longrightarrow>
         \<exists>rows. answers tr qs t rows
           \<and> map (scan_row (qs_ScanValues qs) (qs_Columns qs)) (page (qs_Limit qs) (qs_Offset qs) rows)
             = map Some vss"
    and count_same:
      "sqlgraph_CountNodes L drv qs d = (d', rc) \<Longrightarrow> same_db committed view d d'"
    and count_ok:
      "sqlgraph_CountNodes L drv qs d = (d', Inr n) \<Longrightarrow>
         tables_of committed view drv d = Some t \<Longrightarrow> simple_query qs t \<Longrightarrow>
         qs_Limit qs = 0 \<Longrightarrow> qs_Offset qs = 0 \<Longrightarrow>
         n = int_of_len (selected tr qs t) \<and> length (selected tr qs t) < 2 ^ 63"
    and uuid_same: "uuid_New L d = (d', u) \<Longrightarrow> same_db committed view d d'"
    and now_same: "time_Now L d = (d', now) \<Longrightarrow> same_db committed view d d'"

text \<open>The database is reachable: valid requests succeed.\<close>

definition references_ok :: "create_spec \<Rightarrow> tables \<Rightarrow> bool" where
  \<comment> \<open>the foreign keys of the new row name existing orders\<close>
  "references_ok cs t \<longleftrightarrow>
     (\<forall>e \<in> set (cs_Edges cs). \<forall>i \<in> set (es_Nodes e). VUUID i \<in> (\<lambda>r. r FieldID) ` set (t order_Table))"

locale sql_engine_up = sql_engine L committed view tr
  for L :: "('d, 'z) lib_scheme" and committed view tr +
  assumes begin_up: "view d = None \<Longrightarrow> snd (sql_BeginTx L d) = None"
    and commit_up: "view d \<noteq> None \<Longrightarrow> snd (sql_Commit L d) = None"
    and create_up:
      "tables_of committed view drv d = Some t \<Longrightarrow> own_edges cs \<Longrightarrow> cs_ID cs \<noteq> None \<Longrightarrow>
         fresh_id cs t \<Longrightarrow> references_ok cs t \<Longrightarrow> snd (sqlgraph_CreateNode L drv cs d) = None"
    and batch_up:
      "tables_of committed view drv d = Some t \<Longrightarrow>
         (\<And>cs. cs \<in> set css \<Longrightarrow> own_edges cs \<and> cs_ID cs \<noteq> None \<and> references_ok cs t) \<Longrightarrow>
         fresh_ids tr css t \<Longrightarrow> snd (sqlgraph_BatchCreate L drv css d) = None"
    and update_up:
      "tables_of committed view drv d = Some t \<Longrightarrow> plain_update us \<Longrightarrow>
         x \<in> set (t (us_Table us)) \<Longrightarrow> is_target us x \<Longrightarrow>
         (\<And>y. y \<in> set (t (us_Table us)) \<Longrightarrow> is_target us y \<Longrightarrow> y = x) \<Longrightarrow>
         scan_row (us_ScanValues us) (us_Columns us) (update_row tr us x) = Some vs \<Longrightarrow>
         us_Assign us (us_Columns us) vs = None \<Longrightarrow>
         snd (sqlgraph_UpdateNode L drv us d) = Inr vs"
    and query_up:
      "tables_of committed view drv d = Some t \<Longrightarrow> simple_query qs t \<Longrightarrow>
         (\<And>x. x \<in> set (t (qs_Table qs)) \<Longrightarrow> scan_row (qs_ScanValues qs) (qs_Columns qs) x \<noteq> None) \<Longrightarrow>
         \<exists>vss. snd (sqlgraph_QueryNodes L drv qs d) = Inr vss"

end
