(* ===== verification/Messages.thy ===== *)
theory Messages
  imports SqlEngine
begin

text \<open>
  What the order service exchanges with the other services: the protobuf messages of
  \<open>gen/proto/Order.pb.go\<close> and the variant message of \<open>Product.pb.go\<close>, the Avro events of
  \<open>gen/avro\<close> with their generated encoders and decoders, the errors that travel between
  the layers, and the record \<open>svc_lib\<close> of the further library functions the service calls.
\<close>

subsection \<open>Errors\<close>

text \<open>
  \<open>GrpcStatus c msg cause\<close> is \<open>status.Error(c, msg)\<close>, or \<open>status.Errorf\<close> with the text of
  \<open>cause\<close> in the message; \<open>Wrapped\<close> is \<open>fmt.Errorf("...: %w", err)\<close>. A panic is not an error
  value: it ends the goroutine, and no caller's \<open>err != nil\<close> sees it.
\<close>

datatype grpc_code = InvalidArgument | NotFound | Internal

datatype go_error =
    EntErr ent_error
  | AvroErr string
  | UuidErr string
  | RpcErr string
  | KafkaErr string
  | ErrorText string
  | GrpcStatus grpc_code string "go_error option"
  | Wrapped string go_error
  | GoPanic string

subsection \<open>Protobuf messages\<close>

record timestamp =
  ts_Seconds :: i64
  ts_Nanos :: i32

text \<open>A protobuf enum is an \<open>int32\<close>: a client may send any number.\<close>

type_synonym pb_OrderStatus = i32

abbreviation pb_CREATED :: pb_OrderStatus where "pb_CREATED \<equiv> 0"
abbreviation pb_PENDING_INVENTORY :: pb_OrderStatus where "pb_PENDING_INVENTORY \<equiv> 1"
abbreviation pb_INVENTORY_RESERVED :: pb_OrderStatus where "pb_INVENTORY_RESERVED \<equiv> 2"
abbreviation pb_INVENTORY_RESERVED_FAILED :: pb_OrderStatus where "pb_INVENTORY_RESERVED_FAILED \<equiv> 3"
abbreviation pb_PAYMENT_PENDING :: pb_OrderStatus where "pb_PAYMENT_PENDING \<equiv> 4"
abbreviation pb_PAYMENT_COMPLETED :: pb_OrderStatus where "pb_PAYMENT_COMPLETED \<equiv> 5"
abbreviation pb_PAYMENT_FAILED :: pb_OrderStatus where "pb_PAYMENT_FAILED \<equiv> 6"
abbreviation pb_SHIPPING :: pb_OrderStatus where "pb_SHIPPING \<equiv> 7"
abbreviation pb_COMPLETED :: pb_OrderStatus where "pb_COMPLETED \<equiv> 8"

record pb_OrderItem =
  poi_Id :: string
  poi_ProductId :: string
  poi_VariantId :: string
  poi_ProductName :: string
  poi_VariantDescription :: string
  poi_UnitPrice :: float64
  poi_SalePrice :: float64
  poi_Quantity :: i32
  poi_TotalPrice :: float64
  poi_ImageUrl :: string
  poi_CreatedAt :: timestamp
  poi_UpdatedAt :: timestamp

record pb_Order =
  po_Id :: string
  po_CustomerId :: string
  po_Status :: pb_OrderStatus
  po_Subtotal :: float64
  po_Tax :: float64
  po_ShippingCost :: float64
  po_Total :: float64
  po_ShippingAddress :: string
  po_BillingAddress :: string
  po_PaymentIntentId :: string
  po_CreatedAt :: timestamp
  po_UpdatedAt :: timestamp
  po_Items :: "pb_OrderItem list"

record OrderItemRequest =
  oir_VariantId :: string
  oir_Quantity :: i32
  oir_UnitPrice :: float64

record CreateOrderRequest =
  cor_CustomerId :: string
  cor_Items :: "OrderItemRequest list"
  cor_ShippingAddress :: string
  cor_BillingAddress :: string

record CreateOrderResponse =
  cors_Id :: string
  cors_Status :: pb_OrderStatus

record GetOrderRequest =
  gor_Id :: string

record ListOrdersRequest =
  lor_Page :: i32
  lor_PageSize :: i32
  lor_CustomerId :: string
  lor_Status :: pb_OrderStatus
  lor_CreatedAfter :: "timestamp option"

record ListOrdersResponse =
  lors_Orders :: "pb_Order list"
  lors_TotalCount :: i32
  lors_CurrentPage :: i32
  lors_TotalPages :: i32

record GetVariantsResponse_Variant =
  gv_Id :: string
  gv_Sku :: string
  gv_Price :: float64
  gv_SalePrice :: float64
  gv_Stock :: i32
  gv_MediaUrl :: string
  gv_ProductId :: string
  gv_ProductName :: string

subsection \<open>Avro events\<close>

record avro_Item =
  av_Variant_id :: string
  av_Quantity :: i32
  av_Unit_price :: float64

record OrderCreatedEvent =
  oce_Order_id :: string
  oce_Status :: string
  oce_Temporary_price :: float64
  oce_Customer_id :: string
  oce_Items :: "avro_Item list"

record PaymentSuccessEvent =
  pse_Order_id :: string

record PaymentFailedEvent =
  pfe_Order_id :: string
  pfe_Fail_reason :: string

record StockReductionFailedEvent =
  srf_Order_id :: string
  srf_Message :: string

record StockReductionSuccessEvent =
  srs_Order_id :: string
  srs_Price :: float64

text \<open>
  The decoder of the library (\<open>vm.Eval\<close>) runs a compiled program over the input and stores
  each value it reads in a field of the target, which the generated \<open>Get\<close> selects by index:
  \<open>vm_Eval\<close> returns the stores and the error that ended them, if one did.
\<close>

datatype avro_value = AString string | AInt i32 | ALong i64 | ADouble float64 | ABytes "byte list"

subsection \<open>Kafka\<close>

record kafka_message =
  km_Topic :: "string option"
  km_Partition :: i32
  km_Offset :: i64
  km_Key :: "byte list"
  km_Value :: "byte list"
  km_Error :: "string option"

datatype kafka_event = EvMessage kafka_message | EvError string | EvOther

abbreviation kafka_PartitionAny :: i32 where "kafka_PartitionAny \<equiv> - 1"

subsection \<open>Library functions of the service\<close>

record 'd svc_lib = "'d lib" +
  uuid_Parse :: "string \<Rightarrow> string + uuid"
  uuid_String :: "uuid \<Rightarrow> string"
  timestamppb_New :: "time \<Rightarrow> timestamp"
  timestamp_AsTime :: "timestamp \<Rightarrow> time"
  bytes_of_string :: "string \<Rightarrow> byte list"
  vm_WriteString :: "string \<Rightarrow> byte list \<Rightarrow> string + byte list"
  vm_WriteInt :: "i32 \<Rightarrow> byte list \<Rightarrow> string + byte list"
  vm_WriteLong :: "i64 \<Rightarrow> byte list \<Rightarrow> string + byte list"
  vm_WriteDouble :: "float64 \<Rightarrow> byte list \<Rightarrow> string + byte list"
  compiler_CompileSchemaBytes :: "string \<Rightarrow> string \<Rightarrow> string + string"
  vm_Eval :: "string \<Rightarrow> byte list \<Rightarrow> (nat \<times> avro_value) list \<times> string option"
  VariantServiceClient_GetVariantsByIds ::
    "string list \<Rightarrow> 'd \<Rightarrow> 'd \<times> (string + GetVariantsResponse_Variant list)"
  kafka_Produce :: "kafka_message \<Rightarrow> 'd \<Rightarrow> 'd \<times> (string + kafka_event)"
  kafka_Poll :: "'d \<Rightarrow> 'd \<times> kafka_event option"
  kafka_CommitMessage :: "kafka_message \<Rightarrow> 'd \<Rightarrow> 'd \<times> string option"
  kafka_SubscribeTopics :: "string list \<Rightarrow> 'd \<Rightarrow> 'd \<times> string option"

subsection \<open>Encoders\<close>

text \<open>A writer is the buffer it appends to.\<close>

definition writeItem :: "('d, 'z) svc_lib_scheme \<Rightarrow> avro_Item \<Rightarrow> byte list \<Rightarrow> string + byte list" where
  "writeItem L r w =
     (case vm_WriteString L (av_Variant_id r) w of
        Inl err \<Rightarrow> Inl err
      | Inr w \<Rightarrow>
          (case vm_WriteInt L (av_Quantity r) w of
             Inl err \<Rightarrow> Inl err
           | Inr w \<Rightarrow> vm_WriteDouble L (av_Unit_price r) w))"

definition writeArrayItem ::
    "('d, 'z) svc_lib_scheme \<Rightarrow> avro_Item list \<Rightarrow> byte list \<Rightarrow> string + byte list" where
  "writeArrayItem L r w =
     (case vm_WriteLong L (int_of_len r) w of
        Inl err \<Rightarrow> Inl err
      | Inr w \<Rightarrow>
          if r = [] then Inr w
          else (case range_loop (writeItem L) r w of
                  Inl err \<Rightarrow> Inl err
                | Inr w \<Rightarrow> vm_WriteLong L 0 w))"

definition writeOrderCreatedEvent ::
    "('d, 'z) svc_lib_scheme \<Rightarrow> OrderCreatedEvent \<Rightarrow> byte list \<Rightarrow> string + byte list" where
  "writeOrderCreatedEvent L r w =
     (case vm_WriteString L (oce_Order_id r) w of
        Inl err \<Rightarrow> Inl err
      | Inr w \<Rightarrow>
     (case vm_WriteString L (oce_Status r) w of
        Inl err \<Rightarrow> Inl err
      | Inr w \<Rightarrow>
     (case vm_WriteDouble L (oce_Temporary_price r) w of
        Inl err \<Rightarrow> Inl err
      | Inr w \<Rightarrow>
     (case vm_WriteString L (oce_Customer_id r) w of
        Inl err \<Rightarrow> Inl err
      | Inr w \<Rightarrow> writeArrayItem L (oce_Items r) w))))"

definition OrderCreatedEvent_Serialize ::
    "('d, 'z) svc_lib_scheme \<Rightarrow> OrderCreatedEvent \<Rightarrow> byte list \<Rightarrow> string + byte list" where
  "OrderCreatedEvent_Serialize L r w = writeOrderCreatedEvent L r w"

definition writePaymentSuccessEvent ::
    "('d, 'z) svc_lib_scheme \<Rightarrow> PaymentSuccessEvent \<Rightarrow> byte list \<Rightarrow> string + byte list" where
  "writePaymentSuccessEvent L r w = vm_WriteString L (pse_Order_id r) w"

definition writePaymentFailedEvent ::
    "('d, 'z) svc_lib_scheme \<Rightarrow> PaymentFailedEvent \<Rightarrow> byte list \<Rightarrow> string + byte list" where
  "writePaymentFailedEvent L r w =
     (case vm_WriteString L (pfe_Order_id r) w of
        Inl err \<Rightarrow> Inl err
      | Inr w \<Rightarrow> vm_WriteString L (pfe_Fail_reason r) w)"

definition writeStockReductionFailedEvent ::
    "('d, 'z) svc_lib_scheme \<Rightarrow> StockReductionFailedEvent \<Rightarrow> byte list \<Rightarrow> string + byte list" where
  "writeStockReductionFailedEvent L r w =
     (case vm_WriteString L (srf_Order_id r) w of
        Inl err \<Rightarrow> Inl err
      | Inr w \<Rightarrow> vm_WriteString L (srf_Message r) w)"

definition writeStockReductionSuccessEvent ::
    "('d, 'z) svc_lib_scheme \<Rightarrow> StockReductionSuccessEvent \<Rightarrow> byte list \<Rightarrow> string + byte list" where
  "writeStockReductionSuccessEvent L r w =
     (case vm_WriteString L (srs_Order_id r) w of
        Inl err \<Rightarrow> Inl err
      | Inr w \<Rightarrow> vm_WriteDouble L (srs_Price r) w)"

subsection \<open>Decoders\<close>

text \<open>
  The generated \<open>Get\<close> gives the VM the field to store into; a store of the wrong type, or at
  an index the record does not have, panics.
\<close>

definition NewPaymentSuccessEvent :: PaymentSuccessEvent where
  "NewPaymentSuccessEvent = \<lparr>pse_Order_id = []\<rparr>"

definition PaymentSuccessEvent_Schema :: string where
  "PaymentSuccessEvent_Schema =
     ''{\"fields\":[{\"name\":\"order_id\",\"type\":\"string\"}],\"name\":\"com.example.payment.PaymentSuccessEvent\",\"type\":\"record\"}''"

definition PaymentSuccessEvent_Get :: "nat \<times> avro_value \<Rightarrow> PaymentSuccessEvent \<Rightarrow> go_error + PaymentSuccessEvent" where
  "PaymentSuccessEvent_Get = (\<lambda>(i, value) r.
     if i = 0 then
       (case value of AString v \<Rightarrow> Inr (r\<lparr>pse_Order_id := v\<rparr>) | _ \<Rightarrow> Inl (GoPanic ''Unsupported operation''))
     else Inl (GoPanic ''Unknown field index''))"

definition DeserializePaymentSuccessEvent :: "('d, 'z) svc_lib_scheme \<Rightarrow> byte list \<Rightarrow> go_error + PaymentSuccessEvent" where
  "DeserializePaymentSuccessEvent L r =
     (case compiler_CompileSchemaBytes L PaymentSuccessEvent_Schema PaymentSuccessEvent_Schema of
        Inl err \<Rightarrow> Inl (AvroErr err)
      | Inr deser \<Rightarrow>
          let (stores, err) = vm_Eval L deser r in
          (case range_loop PaymentSuccessEvent_Get stores NewPaymentSuccessEvent of
             Inl e \<Rightarrow> Inl e
           | Inr t \<Rightarrow> (case err of Some e \<Rightarrow> Inl (AvroErr e) | None \<Rightarrow> Inr t)))"

definition NewPaymentFailedEvent :: PaymentFailedEvent where
  "NewPaymentFailedEvent = \<lparr>pfe_Order_id = [], pfe_Fail_reason = []\<rparr>"

definition PaymentFailedEvent_Schema :: string where
  "PaymentFailedEvent_Schema =
     ''{\"fields\":[{\"name\":\"order_id\",\"type\":\"string\"},{\"name\":\"fail_reason\",\"type\":\"string\"}],\"name\":\"com.example.payment.PaymentFailedEvent\",\"type\":\"record\"}''"

definition PaymentFailedEvent_Get :: "nat \<times> avro_value \<Rightarrow> PaymentFailedEvent \<Rightarrow> go_error + PaymentFailedEvent" where
  "PaymentFailedEvent_Get = (\<lambda>(i, value) r.
     if i = 0 then
       (case value of AString v \<Rightarrow> Inr (r\<lparr>pfe_Order_id := v\<rparr>) | _ \<Rightarrow> Inl (GoPanic ''Unsupported operation''))
     else if i = 1 then
       (case value of AString v \<Rightarrow> Inr (r\<lparr>pfe_Fail_reason := v\<rparr>) | _ \<Rightarrow> Inl (GoPanic ''Unsupported operation''))
     else Inl (GoPanic ''Unknown field index''))"

definition DeserializePaymentFailedEvent :: "('d, 'z) svc_lib_scheme \<Rightarrow> byte list \<Rightarrow> go_error + PaymentFailedEvent" where
  "DeserializePaymentFailedEvent L r =
     (case compiler_CompileSchemaBytes L PaymentFailedEvent_Schema PaymentFailedEvent_Schema of
        Inl err \<Rightarrow> Inl (AvroErr err)
      | Inr deser \<Rightarrow>
          let (stores, err) = vm_Eval L deser r in
          (case range_loop PaymentFailedEvent_Get stores NewPaymentFailedEvent of
             Inl e \<Rightarrow> Inl e
           | Inr t \<Rightarrow> (case err of Some e \<Rightarrow> Inl (AvroErr e) | None \<Rightarrow> Inr t)))"

definition NewStockReductionFailedEvent :: StockReductionFailedEvent where
  "NewStockReductionFailedEvent = \<lparr>srf_Order_id = [], srf_Message = []\<rparr>"

definition StockReductionFailedEvent_Schema :: string where
  "StockReductionFailedEvent_Schema =
     ''{\"doc\":\"Event emitted after a stock reduction is successful\",\"fields\":[{\"name\":\"order_id\",\"type\":\"string\"},{\"name\":\"message\",\"type\":\"string\"}],\"name\":\"com.example.stock.StockReductionFailedEvent\",\"type\":\"record\"}''"

definition StockReductionFailedEvent_Get :: "nat \<times> avro_value \<Rightarrow> StockReductionFailedEvent \<Rightarrow> go_error + StockReductionFailedEvent" where
  "StockReductionFailedEvent_Get = (\<lambda>(i, value) r.
     if i = 0 then
       (case value of AString v \<Rightarrow> Inr (r\<lparr>srf_Order_id := v\<rparr>) | _ \<Rightarrow> Inl (GoPanic ''Unsupported operation''))
     else if i = 1 then
       (case value of AString v \<Rightarrow> Inr (r\<lparr>srf_Message := v\<rparr>) | _ \<Rightarrow> Inl (GoPanic ''Unsupported operation''))
     else Inl (GoPanic ''Unknown field index''))"

definition DeserializeStockReductionFailedEvent :: "('d, 'z) svc_lib_scheme \<Rightarrow> byte list \<Rightarrow> go_error + StockReductionFailedEvent" where
  "DeserializeStockReductionFailedEvent L r =
     (case compiler_CompileSchemaBytes L StockReductionFailedEvent_Schema StockReductionFailedEvent_Schema of
        Inl err \<Rightarrow> Inl (AvroErr err)
      | Inr deser \<Rightarrow>
          let (stores, err) = vm_Eval L deser r in
          (case range_loop StockReductionFailedEvent_Get stores NewStockReductionFailedEvent of
             Inl e \<Rightarrow> Inl e
           | Inr t \<Rightarrow> (case err of Some e \<Rightarrow> Inl (AvroErr e) | None \<Rightarrow> Inr t)))"

definition NewStockReductionSuccessEvent :: StockReductionSuccessEvent where
  "NewStockReductionSuccessEvent = \<lparr>srs_Order_id = [], srs_Price = f64_zero\<rparr>"

definition StockReductionSuccessEvent_Schema :: string where
  "StockReductionSuccessEvent_Schema =
     ''{\"doc\":\"Event emitted after a stock reduction is successful\",\"fields\":[{\"name\":\"order_id\",\"type\":\"string\"},{\"name\":\"price\",\"type\":\"double\"}],\"name\":\"com.example.stock.StockReductionSuccessEvent\",\"type\":\"record\"}''"

definition StockReductionSuccessEvent_Get :: "nat \<times> avro_value \<Rightarrow> StockReductionSuccessEvent \<Rightarrow> go_error + StockReductionSuccessEvent" where
  "StockReductionSuccessEvent_Get = (\<lambda>(i, value) r.
     if i = 0 then
       (case value of AString v \<Rightarrow> Inr (r\<lparr>srs_Order_id := v\<rparr>) | _ \<Rightarrow> Inl (GoPanic ''Unsupported operation''))
     else if i = 1 then
       (case value of ADouble v \<Rightarrow> Inr (r\<lparr>srs_Price := v\<rparr>) | _ \<Rightarrow> Inl (GoPanic ''Unsupported operation''))
     else Inl (GoPanic ''Unknown field index''))"

definition DeserializeStockReductionSuccessEvent :: "('d, 'z) svc_lib_scheme \<Rightarrow> byte list \<Rightarrow> go_error + StockReductionSuccessEvent" where
  "DeserializeStockReductionSuccessEvent L r =
     (case compiler_CompileSchemaBytes L StockReductionSuccessEvent_Schema StockReductionSuccessEvent_Schema of
        Inl err \<Rightarrow> Inl (AvroErr err)
      | Inr deser \<Rightarrow>
          let (stores, err) = vm_Eval L deser r in
          (case range_loop StockReductionSuccessEvent_Get stores NewStockReductionSuccessEvent of
             Inl e \<Rightarrow> Inl e
           | Inr t \<Rightarrow> (case err of Some e \<Rightarrow> Inl (AvroErr e) | None \<Rightarrow> Inr t)))"

text \<open>
  The documented behaviour of the Avro library: a program compiled from a record schema reads
  back, field by field and in order, the values written by the primitive encoders, whatever
  follows them in the input.
\<close>

fun write_value :: "('d, 'z) svc_lib_scheme \<Rightarrow> avro_value \<Rightarrow> byte list \<Rightarrow> string + byte list" where
  "write_value L (AString s) w = vm_WriteString L s w"
| "write_value L (AInt i) w = vm_WriteInt L i w"
| "write_value L (ALong i) w = vm_WriteLong L i w"
| "write_value L (ADouble x) w = vm_WriteDouble L x w"
| "write_value L (ABytes bs) w = Inr (w @ bs)"

fun same_type :: "avro_value \<Rightarrow> avro_value \<Rightarrow> bool" where
  "same_type (AString _) (AString _) = True"
| "same_type (AInt _) (AInt _) = True"
| "same_type (ALong _) (ALong _) = True"
| "same_type (ADouble _) (ADouble _) = True"
| "same_type (ABytes _) (ABytes _) = True"
| "same_type _ _ = False"

definition event_schemas :: "(string \<times> avro_value list) list" where
  \<comment> \<open>the record schemas of the incoming events, with a sample value of each field\<close>
  "event_schemas =
     [(PaymentSuccessEvent_Schema, [AString []]),
      (PaymentFailedEvent_Schema, [AString [], AString []]),
      (StockReductionFailedEvent_Schema, [AString [], AString []]),
      (StockReductionSuccessEvent_Schema, [AString [], ADouble f64_zero])]"

locale avro_lib =
  fixes L :: "('d, 'z) svc_lib_scheme"
  assumes compile: "schema \<in> fst ` set event_schemas \<Longrightarrow>
      \<exists>prog. compiler_CompileSchemaBytes L schema schema = Inr prog"
    and eval: "(schema, sample) \<in> set event_schemas \<Longrightarrow>
      compiler_CompileSchemaBytes L schema schema = Inr prog \<Longrightarrow>
      list_all2 same_type vs sample \<Longrightarrow> range_loop (write_value L) vs [] = Inr bs \<Longrightarrow>
      vm_Eval L prog bs = (enumerate 0 vs, None)"
begin

lemma payment_success_roundtrip:
  assumes "writePaymentSuccessEvent L e [] = Inr bs"
  shows "DeserializePaymentSuccessEvent L bs = Inr e"
proof -
  have m: "(PaymentSuccessEvent_Schema, [AString []]) \<in> set event_schemas" by (simp add: event_schemas_def)
  obtain prog where c: "compiler_CompileSchemaBytes L PaymentSuccessEvent_Schema PaymentSuccessEvent_Schema = Inr prog"
    using compile [OF image_eqI [OF _ m]] by auto
  have "vm_Eval L prog bs = (enumerate 0 [AString (pse_Order_id e)], None)"
    using assms by (intro eval [OF m c]) (simp_all add: writePaymentSuccessEvent_def)
  then show ?thesis
    by (simp add: DeserializePaymentSuccessEvent_def c PaymentSuccessEvent_Get_def NewPaymentSuccessEvent_def)
qed

lemma payment_failed_roundtrip:
  assumes "writePaymentFailedEvent L e [] = Inr bs"
  shows "DeserializePaymentFailedEvent L bs = Inr e"
proof -
  have m: "(PaymentFailedEvent_Schema, [AString [], AString []]) \<in> set event_schemas" by (simp add: event_schemas_def)
  obtain prog where c: "compiler_CompileSchemaBytes L PaymentFailedEvent_Schema PaymentFailedEvent_Schema = Inr prog"
    using compile [OF image_eqI [OF _ m]] by auto
  have "vm_Eval L prog bs = (enumerate 0 [AString (pfe_Order_id e), AString (pfe_Fail_reason e)], None)"
    using assms by (intro eval [OF m c]) (auto simp: writePaymentFailedEvent_def split: sum.splits)
  then show ?thesis
    by (simp add: DeserializePaymentFailedEvent_def c PaymentFailedEvent_Get_def NewPaymentFailedEvent_def)
qed

lemma stock_failed_roundtrip:
  assumes "writeStockReductionFailedEvent L e [] = Inr bs"
  shows "DeserializeStockReductionFailedEvent L bs = Inr e"
proof -
  have m: "(StockReductionFailedEvent_Schema, [AString [], AString []]) \<in> set event_schemas" by (simp add: event_schemas_def)
  obtain prog where c: "compiler_CompileSchemaBytes L StockReductionFailedEvent_Schema StockReductionFailedEvent_Schema = Inr prog"
    using compile [OF image_eqI [OF _ m]] by auto
  have "vm_Eval L prog bs = (enumerate 0 [AString (srf_Order_id e), AString (srf_Message e)], None)"
    using assms by (intro eval [OF m c]) (auto simp: writeStockReductionFailedEvent_def split: sum.splits)
  then show ?thesis
    by (simp add: DeserializeStockReductionFailedEvent_def c StockReductionFailedEvent_Get_def
        NewStockReductionFailedEvent_def)
qed

lemma stock_success_roundtrip:
  assumes "writeStockReductionSuccessEvent L e [] = Inr bs"
  shows "DeserializeStockReductionSuccessEvent L bs = Inr e"
proof -
  have m: "(StockReductionSuccessEvent_Schema, [AString [], ADouble f64_zero]) \<in> set event_schemas" by (simp add: event_schemas_def)
  obtain prog where c: "compiler_CompileSchemaBytes L StockReductionSuccessEvent_Schema StockReductionSuccessEvent_Schema = Inr prog"
    using compile [OF image_eqI [OF _ m]] by auto
  have "vm_Eval L prog bs = (enumerate 0 [AString (srs_Order_id e), ADouble (srs_Price e)], None)"
    using assms by (intro eval [OF m c]) (auto simp: writeStockReductionSuccessEvent_def split: sum.splits)
  then show ?thesis
    by (simp add: DeserializeStockReductionSuccessEvent_def c StockReductionSuccessEvent_Get_def
        NewStockReductionSuccessEvent_def)
qed

end

subsection \<open>Identifiers as text\<close>

text \<open>\<open>uuid.Parse\<close> accepts what \<open>String\<close> prints, and gives it back.\<close>

locale uuid_lib =
  fixes L :: "('d, 'z) svc_lib_scheme"
  assumes parse_string: "uuid_Parse L (uuid_String L u) = Inr u"
begin

lemma uuid_String_inj: "uuid_String L u = uuid_String L v \<longleftrightarrow> u = v"
  using parse_string by (metis sum.inject(2))

end

end
