(* ===== verification/Biz.thy ===== *)
theory Biz
  imports Messages
begin

text \<open>
  The business layer of the order service (\<open>internal/biz\<close>): the mapping to protobuf, the
  interfaces \<open>OrderRepo\<close> and \<open>VariantCatalog\<close> it is written against (records of operations),
  and the use cases, one definition per handler with every early return of the code.
\<close>

subsection \<open>Types\<close>

record VariantInfo =
  vi_ID :: string
  vi_ProductID :: string
  vi_ProductName :: string
  vi_VariantDescription :: string
  vi_ImageURL :: string
  vi_SalePrice :: float64

record CreateOrderItem =
  coi_ProductID :: uuid
  coi_VariantID :: uuid
  coi_ProductName :: string
  coi_VariantDescription :: string
  coi_UnitPrice :: float64
  coi_Quantity :: i64
  coi_TotalPrice :: float64
  coi_ImageURL :: string

record CreateOrderCommand =
  coc_CustomerID :: uuid
  coc_ShippingAddress :: string
  coc_BillingAddress :: string
  coc_Items :: "CreateOrderItem list"
  coc_EventItems :: "avro_Item list"
  coc_ComputedSubtotal :: float64
  coc_ComputedTax :: float64
  coc_ComputedTotal :: float64

record ListOrdersQuery =
  loq_Page :: i64
  loq_PageSize :: i64
  loq_CustomerID :: "uuid option"
  loq_Status :: "status option"
  loq_CreatedAfter :: "time option"

record 'd VariantCatalog =
  catalog_GetVariantsByIDs :: "string list \<Rightarrow> 'd \<Rightarrow> 'd \<times> (go_error + VariantInfo list)"

record 'd OrderRepo =
  repo_Create :: "CreateOrderCommand \<Rightarrow> 'd \<Rightarrow> 'd \<times> (go_error + Order)"
  repo_Get :: "uuid \<Rightarrow> 'd \<Rightarrow> 'd \<times> (go_error + Order)"
  repo_List :: "ListOrdersQuery \<Rightarrow> 'd \<Rightarrow> 'd \<times> (go_error + Order list \<times> i64)"
  repo_UpdateStatus :: "uuid \<Rightarrow> status \<Rightarrow> string option \<Rightarrow> status \<Rightarrow> 'd \<Rightarrow> 'd \<times> go_error option"
  repo_ListPendingOutbox :: "i64 \<Rightarrow> 'd \<Rightarrow> 'd \<times> (go_error + OutboxEvent list)"
  repo_MarkOutboxProcessed :: "uuid \<Rightarrow> 'd \<Rightarrow> 'd \<times> go_error option"

record 'd OrderUsecase =
  uc_repo :: "'d OrderRepo"
  uc_catalog :: "'d VariantCatalog"

definition NewOrderUsecase :: "'d OrderRepo \<Rightarrow> 'd VariantCatalog \<Rightarrow> 'd OrderUsecase" where
  "NewOrderUsecase repo catalog = \<lparr>uc_repo = repo, uc_catalog = catalog\<rparr>"

subsection \<open>Mapping\<close>

definition toProtoOrderStatus :: "status \<Rightarrow> pb_OrderStatus" where
  "toProtoOrderStatus s =
     (if s = StatusCreated then pb_CREATED
      else if s = StatusPendingInventory then pb_PENDING_INVENTORY
      else if s = StatusInventoryReserved then pb_INVENTORY_RESERVED
      else if s = StatusInventoryReservedFailed then pb_INVENTORY_RESERVED_FAILED
      else if s = StatusPaymentPending then pb_PAYMENT_PENDING
      else if s = StatusPaymentCompleted then pb_PAYMENT_COMPLETED
      else if s = StatusPaymentFailed then pb_PAYMENT_FAILED
      else if s = StatusShipping then pb_SHIPPING
      else if s = StatusCompleted then pb_COMPLETED
      else pb_CREATED)"

definition fromProtoOrderStatus :: "pb_OrderStatus \<Rightarrow> status" where
  "fromProtoOrderStatus s =
     (if s = pb_PENDING_INVENTORY then StatusPendingInventory
      else if s = pb_INVENTORY_RESERVED then StatusInventoryReserved
      else if s = pb_INVENTORY_RESERVED_FAILED then StatusInventoryReservedFailed
      else if s = pb_PAYMENT_PENDING then StatusPaymentPending
      else if s = pb_PAYMENT_COMPLETED then StatusPaymentCompleted
      else if s = pb_PAYMENT_FAILED then StatusPaymentFailed
      else if s = pb_SHIPPING then StatusShipping
      else if s = pb_COMPLETED then StatusCompleted
      else StatusCreated)"

definition toProtoItem :: "('d, 'z) svc_lib_scheme \<Rightarrow> OrderItem \<Rightarrow> pb_OrderItem" where
  "toProtoItem L item =
     \<lparr>poi_Id = uuid_String L (oi_ID item), poi_ProductId = uuid_String L (oi_ProductID item),
      poi_VariantId = uuid_String L (oi_VariantID item), poi_ProductName = oi_ProductName item,
      poi_VariantDescription = oi_VariantDescription item, poi_UnitPrice = oi_UnitPrice item,
      poi_SalePrice = oi_UnitPrice item, poi_Quantity = i32_of_int (oi_Quantity item),
      poi_TotalPrice = oi_TotalPrice item, poi_ImageUrl = oi_ImageURL item,
      poi_CreatedAt = timestamppb_New L (oi_CreatedAt item),
      poi_UpdatedAt = timestamppb_New L (oi_UpdatedAt item)\<rparr>"

definition ToProtoOrder :: "('d, 'z) svc_lib_scheme \<Rightarrow> Order \<Rightarrow> pb_Order" where
  "ToProtoOrder L entity =
     \<lparr>po_Id = uuid_String L (o_ID entity), po_CustomerId = uuid_String L (o_CustomerID entity),
      po_Status = toProtoOrderStatus (o_Status entity), po_Subtotal = o_Subtotal entity,
      po_Tax = o_Tax entity, po_ShippingCost = o_ShippingCost entity, po_Total = o_Total entity,
      po_ShippingAddress = o_ShippingAddress entity, po_BillingAddress = o_BillingAddress entity,
      po_PaymentIntentId = [], po_CreatedAt = timestamppb_New L (o_CreatedAt entity),
      po_UpdatedAt = timestamppb_New L (o_UpdatedAt entity),
      po_Items = map (toProtoItem L) (o_Items entity)\<rparr>"

subsection \<open>Paging helpers\<close>

definition normalizedPage :: "i32 \<Rightarrow> i64" where
  "normalizedPage p = (if sint p \<le> 0 then 1 else int_of_i32 p)"

definition normalizedPageSize :: "i32 \<Rightarrow> i64" where
  "normalizedPageSize pageSize =
     (if sint pageSize \<le> 0 then 20 else if sint pageSize > 100 then 100 else int_of_i32 pageSize)"

definition totalPages :: "i64 \<Rightarrow> i64 \<Rightarrow> i64" where
  "totalPages totalCount pageSize =
     (if totalCount = 0 then 0 else go_quot (totalCount + pageSize - 1) pageSize)"

subsection \<open>Placing an order\<close>

definition variantMap :: "VariantInfo list \<Rightarrow> string \<rightharpoonup> VariantInfo" where
  "variantMap variants = fold (\<lambda>v m. m(vi_ID v \<mapsto> v)) variants Map.empty"

text \<open>One round of the loop over the requested items.\<close>

definition CreateOrder_item ::
    "('d, 'z) svc_lib_scheme \<Rightarrow> (string \<rightharpoonup> VariantInfo) \<Rightarrow> OrderItemRequest \<Rightarrow>
     CreateOrderCommand \<times> avro_Item list \<Rightarrow> go_error + CreateOrderCommand \<times> avro_Item list" where
  "CreateOrder_item L variants item = (\<lambda>(command, eventItems).
     case variants (oir_VariantId item) of
       None \<Rightarrow>
         Inl (GrpcStatus InvalidArgument (''variant ID '' @ oir_VariantId item @ '' not found'') None)
     | Some variant \<Rightarrow>
         if \<not> f64_eq (vi_SalePrice variant) (oir_UnitPrice item) then
           Inl (GrpcStatus InvalidArgument (''price mismatch for variant ID '' @ oir_VariantId item) None)
         else
           (case uuid_Parse L (vi_ProductID variant) of
              Inl _ \<Rightarrow>
                Inl (GrpcStatus Internal
                  (''invalid product ID from product service for variant '' @ oir_VariantId item) None)
            | Inr productID \<Rightarrow>
           (case uuid_Parse L (vi_ID variant) of
              Inl _ \<Rightarrow>
                Inl (GrpcStatus Internal
                  (''invalid variant ID from product service for variant '' @ oir_VariantId item) None)
            | Inr variantID \<Rightarrow>
                let lineTotal = f64_mul (f64_of_i32 (oir_Quantity item)) (vi_SalePrice variant) in
                Inr (command\<lparr>coc_ComputedSubtotal := f64_add (coc_ComputedSubtotal command) lineTotal,
                       coc_Items := coc_Items command @
                         [\<lparr>coi_ProductID = productID, coi_VariantID = variantID,
                           coi_ProductName = vi_ProductName variant,
                           coi_VariantDescription = vi_VariantDescription variant,
                           coi_UnitPrice = vi_SalePrice variant,
                           coi_Quantity = int_of_i32 (oir_Quantity item),
                           coi_TotalPrice = lineTotal, coi_ImageURL = vi_ImageURL variant\<rparr>]\<rparr>,
                     eventItems @
                       [\<lparr>av_Variant_id = oir_VariantId item, av_Quantity = oir_Quantity item,
                         av_Unit_price = vi_SalePrice variant\<rparr>]))))"

definition CreateOrder_command ::
    "('d, 'z) svc_lib_scheme \<Rightarrow> CreateOrderRequest \<Rightarrow> uuid \<Rightarrow> VariantInfo list \<Rightarrow>
     go_error + CreateOrderCommand" where
  "CreateOrder_command L req customerID variants =
     (let command = \<lparr>coc_CustomerID = customerID, coc_ShippingAddress = cor_ShippingAddress req,
                     coc_BillingAddress = cor_BillingAddress req, coc_Items = [],
                     coc_EventItems = [], coc_ComputedSubtotal = f64_zero,
                     coc_ComputedTax = f64_zero, coc_ComputedTotal = f64_zero\<rparr>
      in case range_loop (CreateOrder_item L (variantMap variants)) (cor_Items req) (command, []) of
           Inl e \<Rightarrow> Inl e
         | Inr (command, eventItems) \<Rightarrow>
             let tax = f64_mul (coc_ComputedSubtotal command) f64_tenth in
             Inr (command\<lparr>coc_ComputedTax := tax,
                          coc_ComputedTotal := f64_add (coc_ComputedSubtotal command) tax,
                          coc_EventItems := eventItems\<rparr>))"

definition OrderUsecase_CreateOrder ::
    "('d, 'z) svc_lib_scheme \<Rightarrow> 'd OrderUsecase \<Rightarrow> CreateOrderRequest \<Rightarrow> 'd \<Rightarrow>
     'd \<times> (go_error + CreateOrderResponse)" where
  "OrderUsecase_CreateOrder L uc req d =
     (case uuid_Parse L (cor_CustomerId req) of
        Inl _ \<Rightarrow> (d, Inl (GrpcStatus InvalidArgument ''invalid customer ID'' None))
      | Inr customerID \<Rightarrow>
          if cor_Items req = [] then
            (d, Inl (GrpcStatus InvalidArgument ''order must contain at least one item'' None))
          else
            (case catalog_GetVariantsByIDs (uc_catalog uc) (map oir_VariantId (cor_Items req)) d of
               (d, Inl err) \<Rightarrow> (d, Inl err)
             | (d, Inr variants) \<Rightarrow>
                 (case CreateOrder_command L req customerID variants of
                    Inl e \<Rightarrow> (d, Inl e)
                  | Inr command \<Rightarrow>
                      (case repo_Create (uc_repo uc) command d of
                         (d, Inl err) \<Rightarrow>
                           (d, Inl (GrpcStatus Internal ''failed to create order: '' (Some err)))
                       | (d, Inr entity) \<Rightarrow>
                           (d, Inr \<lparr>cors_Id = uuid_String L (o_ID entity),
                                    cors_Status = toProtoOrderStatus (o_Status entity)\<rparr>)))))"

subsection \<open>Reading orders\<close>

definition OrderUsecase_GetOrder ::
    "('d, 'z) svc_lib_scheme \<Rightarrow> 'd OrderUsecase \<Rightarrow> GetOrderRequest \<Rightarrow> 'd \<Rightarrow> 'd \<times> (go_error + pb_Order)" where
  "OrderUsecase_GetOrder L uc req d =
     (case uuid_Parse L (gor_Id req) of
        Inl _ \<Rightarrow> (d, Inl (GrpcStatus InvalidArgument ''invalid order ID'' None))
      | Inr orderID \<Rightarrow>
          (case repo_Get (uc_repo uc) orderID d of
             (d, Inl _) \<Rightarrow> (d, Inl (GrpcStatus NotFound ''order not found'' None))
           | (d, Inr entity) \<Rightarrow> (d, Inr (ToProtoOrder L entity))))"

definition ListOrders_query ::
    "('d, 'z) svc_lib_scheme \<Rightarrow> ListOrdersRequest \<Rightarrow> go_error + ListOrdersQuery" where
  "ListOrders_query L req =
     (let query = \<lparr>loq_Page = normalizedPage (lor_Page req),
                   loq_PageSize = normalizedPageSize (lor_PageSize req),
                   loq_CustomerID = None, loq_Status = None, loq_CreatedAfter = None\<rparr>
      in case (if lor_CustomerId req \<noteq> [] then
                 (case uuid_Parse L (lor_CustomerId req) of
                    Inl _ \<Rightarrow> Inl (GrpcStatus InvalidArgument ''invalid customer ID'' None)
                  | Inr customerID \<Rightarrow> Inr (query\<lparr>loq_CustomerID := Some customerID\<rparr>))
               else Inr query) of
           Inl e \<Rightarrow> Inl e
         | Inr query \<Rightarrow>
             let query = (if lor_Status req \<noteq> pb_CREATED
                          then query\<lparr>loq_Status := Some (fromProtoOrderStatus (lor_Status req))\<rparr> else query)
             in (case lor_CreatedAfter req of
                   None \<Rightarrow> Inr query
                 | Some t \<Rightarrow> Inr (query\<lparr>loq_CreatedAfter := Some (timestamp_AsTime L t)\<rparr>)))"

definition OrderUsecase_ListOrders ::
    "('d, 'z) svc_lib_scheme \<Rightarrow> 'd OrderUsecase \<Rightarrow> ListOrdersRequest \<Rightarrow> 'd \<Rightarrow>
     'd \<times> (go_error + ListOrdersResponse)" where
  "OrderUsecase_ListOrders L uc req d =
     (case ListOrders_query L req of
        Inl e \<Rightarrow> (d, Inl e)
      | Inr query \<Rightarrow>
          (case repo_List (uc_repo uc) query d of
             (d, Inl err) \<Rightarrow> (d, Inl (GrpcStatus Internal ''failed to list orders: '' (Some err)))
           | (d, Inr (orders, totalCount)) \<Rightarrow>
               (d, Inr \<lparr>lors_Orders = map (ToProtoOrder L) orders,
                        lors_TotalCount = i32_of_int totalCount,
                        lors_CurrentPage = i32_of_int (loq_Page query),
                        lors_TotalPages = i32_of_int (totalPages totalCount (loq_PageSize query))\<rparr>)))"

subsection \<open>Events of the saga\<close>

definition OrderUsecase_HandleStockEvent ::
    "('d, 'z) svc_lib_scheme \<Rightarrow> 'd OrderUsecase \<Rightarrow> string \<Rightarrow> bool \<Rightarrow> string \<Rightarrow> 'd \<Rightarrow> 'd \<times> go_error option" where
  "OrderUsecase_HandleStockEvent L uc orderID isSuccess message d =
     (case uuid_Parse L orderID of
        Inl err \<Rightarrow> (d, Some (Wrapped ''invalid order id in stock event'' (UuidErr err)))
      | Inr parsedID \<Rightarrow>
          let statusValue = (if isSuccess then StatusInventoryReserved else StatusInventoryReservedFailed);
              errorMessage = (if message \<noteq> [] then Some message else None)
          in repo_UpdateStatus (uc_repo uc) parsedID statusValue errorMessage StatusCreated d)"

definition OrderUsecase_HandlePaymentEvent ::
    "('d, 'z) svc_lib_scheme \<Rightarrow> 'd OrderUsecase \<Rightarrow> string \<Rightarrow> bool \<Rightarrow> string \<Rightarrow> 'd \<Rightarrow> 'd \<times> go_error option" where
  "OrderUsecase_HandlePaymentEvent L uc orderID isSuccess message d =
     (case uuid_Parse L orderID of
        Inl err \<Rightarrow> (d, Some (Wrapped ''invalid order id in payment event'' (UuidErr err)))
      | Inr parsedID \<Rightarrow>
          let statusValue = (if isSuccess then StatusPaymentCompleted else StatusPaymentFailed);
              errorMessage = (if message \<noteq> [] then Some message else None)
          in repo_UpdateStatus (uc_repo uc) parsedID statusValue errorMessage StatusInventoryReserved d)"

subsection \<open>The gRPC service\<close>

text \<open>\<open>internal/service\<close>: each method passes its request to the use case.\<close>

definition OrderService_CreateOrder ::
    "('d, 'z) svc_lib_scheme \<Rightarrow> 'd OrderUsecase \<Rightarrow> CreateOrderRequest \<Rightarrow> 'd \<Rightarrow>
     'd \<times> (go_error + CreateOrderResponse)" where
  "OrderService_CreateOrder L uc req = OrderUsecase_CreateOrder L uc req"

definition OrderService_GetOrder ::
    "('d, 'z) svc_lib_scheme \<Rightarrow> 'd OrderUsecase \<Rightarrow> GetOrderRequest \<Rightarrow> 'd \<Rightarrow> 'd \<times> (go_error + pb_Order)" where
  "OrderService_GetOrder L uc req = OrderUsecase_GetOrder L uc req"

definition OrderService_GetOrders ::
    "('d, 'z) svc_lib_scheme \<Rightarrow> 'd OrderUsecase \<Rightarrow> ListOrdersRequest \<Rightarrow> 'd \<Rightarrow>
     'd \<times> (go_error + ListOrdersResponse)" where
  "OrderService_GetOrders L uc req = OrderUsecase_ListOrders L uc req"

end
