(* ===== verification/EntOrderMutation.thy ===== *)
theory EntOrderMutation
  imports Ent
begin

text \<open>
  The mutation of an order (\<open>gen/ent/mutation.go\<close>): the fields a builder has set so far, with
  the typed setters, getters and resets, the pending increments of the numeric fields, the
  edge to the items, and the access by field name. A getter's \<open>(value, exists)\<close> is an option.
\<close>

record OrderMutation =
  om_op :: ent_op
  om_typ :: string
  om_id :: "uuid option"
  om_created_at :: "time option"
  om_updated_at :: "time option"
  om_customer_id :: "uuid option"
  om_status :: "status option"
  om_subtotal :: "float64 option"
  om_addsubtotal :: "float64 option"
  om_tax :: "float64 option"
  om_addtax :: "float64 option"
  om_shipping_cost :: "float64 option"
  om_addshipping_cost :: "float64 option"
  om_total :: "float64 option"
  om_addtotal :: "float64 option"
  om_shipping_address :: "string option"
  om_billing_address :: "string option"
  om_error_message :: "string option"
  om_clearedFields :: "string set"
  om_items :: "uuid list option"
  om_removeditems :: "uuid list option"
  om_cleareditems :: bool
  om_done :: bool
  om_oldValue :: "Order old_value"
  om_predicates :: "sql_pred list"

definition newOrderMutation :: "ent_op \<Rightarrow> OrderMutation" where
  "newOrderMutation op =
     \<lparr>om_op = op, om_typ = ''Order'', om_id = None,
      om_created_at = None,
      om_updated_at = None,
      om_customer_id = None,
      om_status = None,
      om_subtotal = None, om_addsubtotal = None,
      om_tax = None, om_addtax = None,
      om_shipping_cost = None, om_addshipping_cost = None,
      om_total = None, om_addtotal = None,
      om_shipping_address = None,
      om_billing_address = None,
      om_error_message = None,
      om_clearedFields = {},
      om_items = None, om_removeditems = None, om_cleareditems = False,
      om_done = False, om_oldValue = NoOldValue, om_predicates = []\<rparr>"

definition withOrderID :: "uuid \<Rightarrow> OrderMutation \<Rightarrow> OrderMutation" where [ent_defs]:
  "withOrderID i m = m\<lparr>om_oldValue := OldQuery i None, om_id := Some i\<rparr>"

definition withOrder :: "Order \<Rightarrow> OrderMutation \<Rightarrow> OrderMutation" where [ent_defs]:
  "withOrder node m = m\<lparr>om_oldValue := OldNode node, om_id := Some (o_ID node)\<rparr>"

definition OrderMutation_SetID :: "uuid \<Rightarrow> OrderMutation \<Rightarrow> OrderMutation" where [ent_defs]:
  "OrderMutation_SetID v m = m\<lparr>om_id := Some v\<rparr>"

definition OrderMutation_ID :: "OrderMutation \<Rightarrow> uuid option" where [ent_defs]:
  "OrderMutation_ID m = om_id m"

definition OrderMutation_SetCreatedAt :: "time \<Rightarrow> OrderMutation \<Rightarrow> OrderMutation" where [ent_defs]:
  "OrderMutation_SetCreatedAt v m = m\<lparr>om_created_at := Some v\<rparr>"

definition OrderMutation_CreatedAt :: "OrderMutation \<Rightarrow> time option" where [ent_defs]:
  "OrderMutation_CreatedAt m = om_created_at m"

definition OrderMutation_ResetCreatedAt :: "OrderMutation \<Rightarrow> OrderMutation" where [ent_defs]:
  "OrderMutation_ResetCreatedAt m = m\<lparr>om_created_at := None\<rparr>"

definition OrderMutation_SetUpdatedAt :: "time \<Rightarrow> OrderMutation \<Rightarrow> OrderMutation" where [ent_defs]:
  "OrderMutation_SetUpdatedAt v m = m\<lparr>om_updated_at := Some v\<rparr>"

definition OrderMutation_UpdatedAt :: "OrderMutation \<Rightarrow> time option" where [ent_defs]:
  "OrderMutation_UpdatedAt m = om_updated_at m"

definition OrderMutation_ResetUpdatedAt :: "OrderMutation \<Rightarrow> OrderMutation" where [ent_defs]:
  "OrderMutation_ResetUpdatedAt m = m\<lparr>om_updated_at := None\<rparr>"

definition OrderMutation_SetCustomerID :: "uuid \<Rightarrow> OrderMutation \<Rightarrow> OrderMutation" where [ent_defs]:
  "OrderMutation_SetCustomerID v m = m\<lparr>om_customer_id := Some v\<rparr>"

definition OrderMutation_CustomerID :: "OrderMutation \<Rightarrow> uuid option" where [ent_defs]:
  "OrderMutation_CustomerID m = om_customer_id m"

definition OrderMutation_ResetCustomerID :: "OrderMutation \<Rightarrow> OrderMutation" where [ent_defs]:
  "OrderMutation_ResetCustomerID m = m\<lparr>om_customer_id := None\<rparr>"

definition OrderMutation_SetStatus :: "status \<Rightarrow> OrderMutation \<Rightarrow> OrderMutation" where [ent_defs]:
  "OrderMutation_SetStatus v m = m\<lparr>om_status := Some v\<rparr>"

definition OrderMutation_Status :: "OrderMutation \<Rightarrow> status option" where [ent_defs]:
  "OrderMutation_Status m = om_status m"

definition OrderMutation_ResetStatus :: "OrderMutation \<Rightarrow> OrderMutation" where [ent_defs]:
  "OrderMutation_ResetStatus m = m\<lparr>om_status := None\<rparr>"

definition OrderMutation_SetSubtotal :: "float64 \<Rightarrow> OrderMutation \<Rightarrow> OrderMutation" where [ent_defs]:
  "OrderMutation_SetSubtotal v m = m\<lparr>om_subtotal := Some v, om_addsubtotal := None\<rparr>"

definition OrderMutation_Subtotal :: "OrderMutation \<Rightarrow> float64 option" where [ent_defs]:
  "OrderMutation_Subtotal m = om_subtotal m"

definition OrderMutation_AddSubtotal :: "float64 \<Rightarrow> OrderMutation \<Rightarrow> OrderMutation" where [ent_defs]:
  "OrderMutation_AddSubtotal v m =
     (case om_addsubtotal m of
        Some a \<Rightarrow> m\<lparr>om_addsubtotal := Some (f64_add a v)\<rparr>
      | None \<Rightarrow> m\<lparr>om_addsubtotal := Some v\<rparr>)"

definition OrderMutation_AddedSubtotal :: "OrderMutation \<Rightarrow> float64 option" where [ent_defs]:
  "OrderMutation_AddedSubtotal m = om_addsubtotal m"

definition OrderMutation_ResetSubtotal :: "OrderMutation \<Rightarrow> OrderMutation" where [ent_defs]:
  "OrderMutation_ResetSubtotal m = m\<lparr>om_subtotal := None, om_addsubtotal := None\<rparr>"

definition OrderMutation_SetTax :: "float64 \<Rightarrow> OrderMutation \<Rightarrow> OrderMutation" where [ent_defs]:
  "OrderMutation_SetTax v m = m\<lparr>om_tax := Some v, om_addtax := None\<rparr>"

definition OrderMutation_Tax :: "OrderMutation \<Rightarrow> float64 option" where [ent_defs]:
  "OrderMutation_Tax m = om_tax m"

definition OrderMutation_AddTax :: "float64 \<Rightarrow> OrderMutation \<Rightarrow> OrderMutation" where [ent_defs]:
  "OrderMutation_AddTax v m =
     (case om_addtax m of
        Some a \<Rightarrow> m\<lparr>om_addtax := Some (f64_add a v)\<rparr>
      | None \<Rightarrow> m\<lparr>om_addtax := Some v\<rparr>)"

definition OrderMutation_AddedTax :: "OrderMutation \<Rightarrow> float64 option" where [ent_defs]:
  "OrderMutation_AddedTax m = om_addtax m"

definition OrderMutation_ResetTax :: "OrderMutation \<Rightarrow> OrderMutation" where [ent_defs]:
  "OrderMutation_ResetTax m = m\<lparr>om_tax := None, om_addtax := None\<rparr>"

definition OrderMutation_SetShippingCost :: "float64 \<Rightarrow> OrderMutation \<Rightarrow> OrderMutation" where [ent_defs]:
  "OrderMutation_SetShippingCost v m = m\<lparr>om_shipping_cost := Some v, om_addshipping_cost := None\<rparr>"

definition OrderMutation_ShippingCost :: "OrderMutation \<Rightarrow> float64 option" where [ent_defs]:
  "OrderMutation_ShippingCost m = om_shipping_cost m"

definition OrderMutation_AddShippingCost :: "float64 \<Rightarrow> OrderMutation \<Rightarrow> OrderMutation" where [ent_defs]:
  "OrderMutation_AddShippingCost v m =
     (case om_addshipping_cost m of
        Some a \<Rightarrow> m\<lparr>om_addshipping_cost := Some (f64_add a v)\<rparr>
      | None \<Rightarrow> m\<lparr>om_addshipping_cost := Some v\<rparr>)"

definition OrderMutation_AddedShippingCost :: "OrderMutation \<Rightarrow> float64 option" where [ent_defs]:
  "OrderMutation_AddedShippingCost m = om_addshipping_cost m"

definition OrderMutation_ResetShippingCost :: "OrderMutation \<Rightarrow> OrderMutation" where [ent_defs]:
  "OrderMutation_ResetShippingCost m = m\<lparr>om_shipping_cost := None, om_addshipping_cost := None\<rparr>"

definition OrderMutation_SetTotal :: "float64 \<Rightarrow> OrderMutation \<Rightarrow> OrderMutation" where [ent_defs]:
  "OrderMutation_SetTotal v m = m\<lparr>om_total := Some v, om_addtotal := None\<rparr>"

definition OrderMutation_Total :: "OrderMutation \<Rightarrow> float64 option" where [ent_defs]:
  "OrderMutation_Total m = om_total m"

definition OrderMutation_AddTotal :: "float64 \<Rightarrow> OrderMutation \<Rightarrow> OrderMutation" where [ent_defs]:
  "OrderMutation_AddTotal v m =
     (case om_addtotal m of
        Some a \<Rightarrow> m\<lparr>om_addtotal := Some (f64_add a v)\<rparr>
      | None \<Rightarrow> m\<lparr>om_addtotal := Some v\<rparr>)"

definition OrderMutation_AddedTotal :: "OrderMutation \<Rightarrow> float64 option" where [ent_defs]:
  "OrderMutation_AddedTotal m = om_addtotal m"

definition OrderMutation_ResetTotal :: "OrderMutation \<Rightarrow> OrderMutation" where [ent_defs]:
  "OrderMutation_ResetTotal m = m\<lparr>om_total := None, om_addtotal := None\<rparr>"

definition OrderMutation_SetShippingAddress :: "string \<Rightarrow> OrderMutation \<Rightarrow> OrderMutation" where [ent_defs]:
  "OrderMutation_SetShippingAddress v m = m\<lparr>om_shipping_address := Some v\<rparr>"

definition OrderMutation_ShippingAddress :: "OrderMutation \<Rightarrow> string option" where [ent_defs]:
  "OrderMutation_ShippingAddress m = om_shipping_address m"

definition OrderMutation_ResetShippingAddress :: "OrderMutation \<Rightarrow> OrderMutation" where [ent_defs]:
  "OrderMutation_ResetShippingAddress m = m\<lparr>om_shipping_address := None\<rparr>"

definition OrderMutation_SetBillingAddress :: "string \<Rightarrow> OrderMutation \<Rightarrow> OrderMutation" where [ent_defs]:
  "OrderMutation_SetBillingAddress v m = m\<lparr>om_billing_address := Some v\<rparr>"

definition OrderMutation_BillingAddress :: "OrderMutation \<Rightarrow> string option" where [ent_defs]:
  "OrderMutation_BillingAddress m = om_billing_address m"

definition OrderMutation_ResetBillingAddress :: "OrderMutation \<Rightarrow> OrderMutation" where [ent_defs]:
  "OrderMutation_ResetBillingAddress m = m\<lparr>om_billing_address := None\<rparr>"

definition OrderMutation_SetErrorMessage :: "string \<Rightarrow> OrderMutation \<Rightarrow> OrderMutation" where [ent_defs]:
  "OrderMutation_SetErrorMessage v m = m\<lparr>om_error_message := Some v\<rparr>"

definition OrderMutation_ErrorMessage :: "OrderMutation \<Rightarrow> string option" where [ent_defs]:
  "OrderMutation_ErrorMessage m = om_error_message m"

definition OrderMutation_ClearErrorMessage :: "OrderMutation \<Rightarrow> OrderMutation" where [ent_defs]:
  "OrderMutation_ClearErrorMessage m =
     m\<lparr>om_error_message := None,
       om_clearedFields := insert order_FieldErrorMessage (om_clearedFields m)\<rparr>"

definition OrderMutation_ErrorMessageCleared :: "OrderMutation \<Rightarrow> bool" where [ent_defs]:
  "OrderMutation_ErrorMessageCleared m \<longleftrightarrow> order_FieldErrorMessage \<in> om_clearedFields m"

definition OrderMutation_ResetErrorMessage :: "OrderMutation \<Rightarrow> OrderMutation" where [ent_defs]:
  "OrderMutation_ResetErrorMessage m =
     m\<lparr>om_error_message := None,
       om_clearedFields := om_clearedFields m - {order_FieldErrorMessage}\<rparr>"

text \<open>
  The added and removed item ids are Go maps used as sets; they are kept here as lists
  without repetition. The order in which Go enumerates them is not fixed.
\<close>

definition OrderMutation_AddItemIDs :: "uuid list \<Rightarrow> OrderMutation \<Rightarrow> OrderMutation" where [ent_defs]:
  "OrderMutation_AddItemIDs ids m =
     m\<lparr>om_items := Some (fold List.insert ids (case om_items m of None \<Rightarrow> [] | Some xs \<Rightarrow> xs))\<rparr>"

definition OrderMutation_ClearItems :: "OrderMutation \<Rightarrow> OrderMutation" where [ent_defs]:
  "OrderMutation_ClearItems m = m\<lparr>om_cleareditems := True\<rparr>"

definition OrderMutation_ItemsCleared :: "OrderMutation \<Rightarrow> bool" where [ent_defs]:
  "OrderMutation_ItemsCleared m = om_cleareditems m"

definition OrderMutation_RemoveItemIDs :: "uuid list \<Rightarrow> OrderMutation \<Rightarrow> OrderMutation" where [ent_defs]:
  "OrderMutation_RemoveItemIDs ids m =
     m\<lparr>om_items := map_option (fold removeAll ids) (om_items m),
       om_removeditems :=
         Some (fold List.insert ids (case om_removeditems m of None \<Rightarrow> [] | Some xs \<Rightarrow> xs))\<rparr>"

definition OrderMutation_RemovedItemsIDs :: "OrderMutation \<Rightarrow> uuid list" where [ent_defs]:
  "OrderMutation_RemovedItemsIDs m = (case om_removeditems m of None \<Rightarrow> [] | Some xs \<Rightarrow> xs)"

definition OrderMutation_ItemsIDs :: "OrderMutation \<Rightarrow> uuid list" where [ent_defs]:
  "OrderMutation_ItemsIDs m = (case om_items m of None \<Rightarrow> [] | Some xs \<Rightarrow> xs)"

definition OrderMutation_ResetItems :: "OrderMutation \<Rightarrow> OrderMutation" where [ent_defs]:
  "OrderMutation_ResetItems m =
     m\<lparr>om_items := None, om_cleareditems := False, om_removeditems := None\<rparr>"

definition OrderMutation_Where :: "sql_pred list \<Rightarrow> OrderMutation \<Rightarrow> OrderMutation" where [ent_defs]:
  "OrderMutation_Where ps m = m\<lparr>om_predicates := om_predicates m @ ps\<rparr>"

definition OrderMutation_Fields :: "OrderMutation \<Rightarrow> string list" where
  "OrderMutation_Fields m =
     (if om_created_at m \<noteq> None then [FieldCreatedAt] else [])
     @ (if om_updated_at m \<noteq> None then [FieldUpdatedAt] else [])
     @ (if om_customer_id m \<noteq> None then [order_FieldCustomerID] else [])
     @ (if om_status m \<noteq> None then [order_FieldStatus] else [])
     @ (if om_subtotal m \<noteq> None then [order_FieldSubtotal] else [])
     @ (if om_tax m \<noteq> None then [order_FieldTax] else [])
     @ (if om_shipping_cost m \<noteq> None then [order_FieldShippingCost] else [])
     @ (if om_total m \<noteq> None then [order_FieldTotal] else [])
     @ (if om_shipping_address m \<noteq> None then [order_FieldShippingAddress] else [])
     @ (if om_billing_address m \<noteq> None then [order_FieldBillingAddress] else [])
     @ (if om_error_message m \<noteq> None then [order_FieldErrorMessage] else [])"

definition OrderMutation_Field :: "string \<Rightarrow> OrderMutation \<Rightarrow> ent_value option" where
  "OrderMutation_Field name m =
     (if name = FieldCreatedAt then map_option VTime (OrderMutation_CreatedAt m)
      else if name = FieldUpdatedAt then map_option VTime (OrderMutation_UpdatedAt m)
      else if name = order_FieldCustomerID then map_option VUUID (OrderMutation_CustomerID m)
      else if name = order_FieldStatus then map_option VStatus (OrderMutation_Status m)
      else if name = order_FieldSubtotal then map_option VFloat (OrderMutation_Subtotal m)
      else if name = order_FieldTax then map_option VFloat (OrderMutation_Tax m)
      else if name = order_FieldShippingCost then map_option VFloat (OrderMutation_ShippingCost m)
      else if name = order_FieldTotal then map_option VFloat (OrderMutation_Total m)
      else if name = order_FieldShippingAddress then map_option VString (OrderMutation_ShippingAddress m)
      else if name = order_FieldBillingAddress then map_option VString (OrderMutation_BillingAddress m)
      else if name = order_FieldErrorMessage then map_option VString (OrderMutation_ErrorMessage m)
      else None)"

definition OrderMutation_SetField :: "string \<Rightarrow> ent_value \<Rightarrow> OrderMutation \<Rightarrow> ent_error + OrderMutation" where
  "OrderMutation_SetField name value m =
     (if name = FieldCreatedAt then
        (case value of VTime v \<Rightarrow> Inr (OrderMutation_SetCreatedAt v m) | _ \<Rightarrow> Inl (UnexpectedType name))
      else if name = FieldUpdatedAt then
        (case value of VTime v \<Rightarrow> Inr (OrderMutation_SetUpdatedAt v m) | _ \<Rightarrow> Inl (UnexpectedType name))
      else if name = order_FieldCustomerID then
        (case value of VUUID v \<Rightarrow> Inr (OrderMutation_SetCustomerID v m) | _ \<Rightarrow> Inl (UnexpectedType name))
      else if name = order_FieldStatus then
        (case value of VStatus v \<Rightarrow> Inr (OrderMutation_SetStatus v m) | _ \<Rightarrow> Inl (UnexpectedType name))
      else if name = order_FieldSubtotal then
        (case value of VFloat v \<Rightarrow> Inr (OrderMutation_SetSubtotal v m) | _ \<Rightarrow> Inl (UnexpectedType name))
      else if name = order_FieldTax then
        (case value of VFloat v \<Rightarrow> Inr (OrderMutation_SetTax v m) | _ \<Rightarrow> Inl (UnexpectedType name))
      else if name = order_FieldShippingCost then
        (case value of VFloat v \<Rightarrow> Inr (OrderMutation_SetShippingCost v m) | _ \<Rightarrow> Inl (UnexpectedType name))
      else if name = order_FieldTotal then
        (case value of VFloat v \<Rightarrow> Inr (OrderMutation_SetTotal v m) | _ \<Rightarrow> Inl (UnexpectedType name))
      else if name = order_FieldShippingAddress then
        (case value of VString v \<Rightarrow> Inr (OrderMutation_SetShippingAddress v m) | _ \<Rightarrow> Inl (UnexpectedType name))
      else if name = order_FieldBillingAddress then
        (case value of VString v \<Rightarrow> Inr (OrderMutation_SetBillingAddress v m) | _ \<Rightarrow> Inl (UnexpectedType name))
      else if name = order_FieldErrorMessage then
        (case value of VString v \<Rightarrow> Inr (OrderMutation_SetErrorMessage v m) | _ \<Rightarrow> Inl (UnexpectedType name))
      else Inl (UnknownField name))"

definition OrderMutation_AddedFields :: "OrderMutation \<Rightarrow> string list" where
  "OrderMutation_AddedFields m =
     (if om_addsubtotal m \<noteq> None then [order_FieldSubtotal] else [])
     @ (if om_addtax m \<noteq> None then [order_FieldTax] else [])
     @ (if om_addshipping_cost m \<noteq> None then [order_FieldShippingCost] else [])
     @ (if om_addtotal m \<noteq> None then [order_FieldTotal] else [])"

definition OrderMutation_AddedField :: "string \<Rightarrow> OrderMutation \<Rightarrow> ent_value option" where
  "OrderMutation_AddedField name m =
     (if name = order_FieldSubtotal then map_option VFloat (OrderMutation_AddedSubtotal m)
      else if name = order_FieldTax then map_option VFloat (OrderMutation_AddedTax m)
      else if name = order_FieldShippingCost then map_option VFloat (OrderMutation_AddedShippingCost m)
      else if name = order_FieldTotal then map_option VFloat (OrderMutation_AddedTotal m)
      else None)"

definition OrderMutation_AddField :: "string \<Rightarrow> ent_value \<Rightarrow> OrderMutation \<Rightarrow> ent_error + OrderMutation" where
  "OrderMutation_AddField name value m =
     (if name = order_FieldSubtotal then
        (case value of VFloat v \<Rightarrow> Inr (OrderMutation_AddSubtotal v m) | _ \<Rightarrow> Inl (UnexpectedType name))
      else if name = order_FieldTax then
        (case value of VFloat v \<Rightarrow> Inr (OrderMutation_AddTax v m) | _ \<Rightarrow> Inl (UnexpectedType name))
      else if name = order_FieldShippingCost then
        (case value of VFloat v \<Rightarrow> Inr (OrderMutation_AddShippingCost v m) | _ \<Rightarrow> Inl (UnexpectedType name))
      else if name = order_FieldTotal then
        (case value of VFloat v \<Rightarrow> Inr (OrderMutation_AddTotal v m) | _ \<Rightarrow> Inl (UnexpectedType name))
      else Inl (UnknownField name))"

definition OrderMutation_FieldCleared :: "string \<Rightarrow> OrderMutation \<Rightarrow> bool" where
  "OrderMutation_FieldCleared name m \<longleftrightarrow> name \<in> om_clearedFields m"

definition OrderMutation_ClearedFields :: "OrderMutation \<Rightarrow> string list" where
  "OrderMutation_ClearedFields m =
     (if OrderMutation_FieldCleared order_FieldErrorMessage m then [order_FieldErrorMessage] else [])"

definition OrderMutation_ClearField :: "string \<Rightarrow> OrderMutation \<Rightarrow> ent_error + OrderMutation" where
  "OrderMutation_ClearField name m =
     (if name = order_FieldErrorMessage then Inr (OrderMutation_ClearErrorMessage m)
      else Inl (UnknownField name))"

definition OrderMutation_ResetField :: "string \<Rightarrow> OrderMutation \<Rightarrow> ent_error + OrderMutation" where
  "OrderMutation_ResetField name m =
     (if name = FieldCreatedAt then Inr (OrderMutation_ResetCreatedAt m)
      else if name = FieldUpdatedAt then Inr (OrderMutation_ResetUpdatedAt m)
      else if name = order_FieldCustomerID then Inr (OrderMutation_ResetCustomerID m)
      else if name = order_FieldStatus then Inr (OrderMutation_ResetStatus m)
      else if name = order_FieldSubtotal then Inr (OrderMutation_ResetSubtotal m)
      else if name = order_FieldTax then Inr (OrderMutation_ResetTax m)
      else if name = order_FieldShippingCost then Inr (OrderMutation_ResetShippingCost m)
      else if name = order_FieldTotal then Inr (OrderMutation_ResetTotal m)
      else if name = order_FieldShippingAddress then Inr (OrderMutation_ResetShippingAddress m)
      else if name = order_FieldBillingAddress then Inr (OrderMutation_ResetBillingAddress m)
      else if name = order_FieldErrorMessage then Inr (OrderMutation_ResetErrorMessage m)
      else Inl (UnknownField name))"

definition OrderMutation_AddedEdges :: "OrderMutation \<Rightarrow> string list" where
  "OrderMutation_AddedEdges m = (if om_items m \<noteq> None then [order_EdgeItems] else [])"

definition OrderMutation_RemovedEdges :: "OrderMutation \<Rightarrow> string list" where
  "OrderMutation_RemovedEdges m = (if om_removeditems m \<noteq> None then [order_EdgeItems] else [])"

definition OrderMutation_ClearedEdges :: "OrderMutation \<Rightarrow> string list" where
  "OrderMutation_ClearedEdges m = (if om_cleareditems m then [order_EdgeItems] else [])"

definition OrderMutation_AddedIDs :: "string \<Rightarrow> OrderMutation \<Rightarrow> ent_value list" where
  "OrderMutation_AddedIDs name m =
     (if name = order_EdgeItems then map VUUID (OrderMutation_ItemsIDs m) else [])"

definition OrderMutation_RemovedIDs :: "string \<Rightarrow> OrderMutation \<Rightarrow> ent_value list" where
  "OrderMutation_RemovedIDs name m =
     (if name = order_EdgeItems then map VUUID (OrderMutation_RemovedItemsIDs m) else [])"

definition OrderMutation_EdgeCleared :: "string \<Rightarrow> OrderMutation \<Rightarrow> bool" where
  "OrderMutation_EdgeCleared name m = (if name = order_EdgeItems then om_cleareditems m else False)"

definition OrderMutation_ResetEdge :: "string \<Rightarrow> OrderMutation \<Rightarrow> ent_error + OrderMutation" where
  "OrderMutation_ResetEdge name m =
     (if name = order_EdgeItems then Inr (OrderMutation_ResetItems m) else Inl (UnknownField name))"

end
