(* ===== verification/EntOrderItemMutation.thy ===== *)
theory EntOrderItemMutation
  imports Ent
begin

text \<open>
  The mutation of an order item (\<open>gen/ent/mutation.go\<close>): its fields, its pending increments,
  its edge to the order, and the access by field name.
\<close>

record OrderItemMutation =
  im_op :: ent_op
  im_typ :: string
  im_id :: "uuid option"
  im_created_at :: "time option"
  im_updated_at :: "time option"
  im_product_id :: "uuid option"
  im_variant_id :: "uuid option"
  im_product_name :: "string option"
  im_variant_description :: "string option"
  im_unit_price :: "float64 option"
  im_addunit_price :: "float64 option"
  im_quantity :: "i64 option"
  im_addquantity :: "i64 option"
  im_total_price :: "float64 option"
  im_addtotal_price :: "float64 option"
  im_image_url :: "string option"
  im_clearedFields :: "string set"
  im_order :: "uuid option"
  im_cleared_order :: bool
  im_done :: bool
  im_oldValue :: "OrderItem old_value"
  im_predicates :: "sql_pred list"

definition newOrderItemMutation :: "ent_op \<Rightarrow> OrderItemMutation" where
  "newOrderItemMutation op =
     \<lparr>im_op = op, im_typ = ''OrderItem'', im_id = None,
      im_created_at = None,
      im_updated_at = None,
      im_product_id = None,
      im_variant_id = None,
      im_product_name = None,
      im_variant_description = None,
      im_unit_price = None, im_addunit_price = None,
      im_quantity = None, im_addquantity = None,
      im_total_price = None, im_addtotal_price = None,
      im_image_url = None,
      im_clearedFields = {},
      im_order = None, im_cleared_order = False,
      im_done = False, im_oldValue = NoOldValue, im_predicates = []\<rparr>"

definition withOrderItemID :: "uuid \<Rightarrow> OrderItemMutation \<Rightarrow> OrderItemMutation" where [ent_defs]:
  "withOrderItemID i m = m\<lparr>im_oldValue := OldQuery i None, im_id := Some i\<rparr>"

definition withOrderItem :: "OrderItem \<Rightarrow> OrderItemMutation \<Rightarrow> OrderItemMutation" where [ent_defs]:
  "withOrderItem node m = m\<lparr>im_oldValue := OldNode node, im_id := Some (oi_ID node)\<rparr>"

definition OrderItemMutation_SetID :: "uuid \<Rightarrow> OrderItemMutation \<Rightarrow> OrderItemMutation" where [ent_defs]:
  "OrderItemMutation_SetID v m = m\<lparr>im_id := Some v\<rparr>"

definition OrderItemMutation_ID :: "OrderItemMutation \<Rightarrow> uuid option" where [ent_defs]:
  "OrderItemMutation_ID m = im_id m"

definition OrderItemMutation_SetCreatedAt :: "time \<Rightarrow> OrderItemMutation \<Rightarrow> OrderItemMutation" where [ent_defs]:
  "OrderItemMutation_SetCreatedAt v m = m\<lparr>im_created_at := Some v\<rparr>"

definition OrderItemMutation_CreatedAt :: "OrderItemMutation \<Rightarrow> time option" where [ent_defs]:
  "OrderItemMutation_CreatedAt m = im_created_at m"

definition OrderItemMutation_ResetCreatedAt :: "OrderItemMutation \<Rightarrow> OrderItemMutation" where [ent_defs]:
  "OrderItemMutation_ResetCreatedAt m = m\<lparr>im_created_at := None\<rparr>"

definition OrderItemMutation_SetUpdatedAt :: "time \<Rightarrow> OrderItemMutation \<Rightarrow> OrderItemMutation" where [ent_defs]:
  "OrderItemMutation_SetUpdatedAt v m = m\<lparr>im_updated_at := Some v\<rparr>"

definition OrderItemMutation_UpdatedAt :: "OrderItemMutation \<Rightarrow> time option" where [ent_defs]:
  "OrderItemMutation_UpdatedAt m = im_updated_at m"

definition OrderItemMutation_ResetUpdatedAt :: "OrderItemMutation \<Rightarrow> OrderItemMutation" where [ent_defs]:
  "OrderItemMutation_ResetUpdatedAt m = m\<lparr>im_updated_at := None\<rparr>"

definition OrderItemMutation_SetProductID :: "uuid \<Rightarrow> OrderItemMutation \<Rightarrow> OrderItemMutation" where [ent_defs]:
  "OrderItemMutation_SetProductID v m = m\<lparr>im_product_id := Some v\<rparr>"

definition OrderItemMutation_ProductID :: "OrderItemMutation \<Rightarrow> uuid option" where [ent_defs]:
  "OrderItemMutation_ProductID m = im_product_id m"

definition OrderItemMutation_ResetProductID :: "OrderItemMutation \<Rightarrow> OrderItemMutation" where [ent_defs]:
  "OrderItemMutation_ResetProductID m = m\<lparr>im_product_id := None\<rparr>"

definition OrderItemMutation_SetVariantID :: "uuid \<Rightarrow> OrderItemMutation \<Rightarrow> OrderItemMutation" where [ent_defs]:
  "OrderItemMutation_SetVariantID v m = m\<lparr>im_variant_id := Some v\<rparr>"

definition OrderItemMutation_VariantID :: "OrderItemMutation \<Rightarrow> uuid option" where [ent_defs]:
  "OrderItemMutation_VariantID m = im_variant_id m"

definition OrderItemMutation_ResetVariantID :: "OrderItemMutation \<Rightarrow> OrderItemMutation" where [ent_defs]:
  "OrderItemMutation_ResetVariantID m = m\<lparr>im_variant_id := None\<rparr>"

definition OrderItemMutation_SetProductName :: "string \<Rightarrow> OrderItemMutation \<Rightarrow> OrderItemMutation" where [ent_defs]:
  "OrderItemMutation_SetProductName v m = m\<lparr>im_product_name := Some v\<rparr>"

definition OrderItemMutation_ProductName :: "OrderItemMutation \<Rightarrow> string option" where [ent_defs]:
  "OrderItemMutation_ProductName m = im_product_name m"

definition OrderItemMutation_ResetProductName :: "OrderItemMutation \<Rightarrow> OrderItemMutation" where [ent_defs]:
  "OrderItemMutation_ResetProductName m = m\<lparr>im_product_name := None\<rparr>"

definition OrderItemMutation_SetVariantDescription :: "string \<Rightarrow> OrderItemMutation \<Rightarrow> OrderItemMutation" where [ent_defs]:
  "OrderItemMutation_SetVariantDescription v m = m\<lparr>im_variant_description := Some v\<rparr>"

definition OrderItemMutation_VariantDescription :: "OrderItemMutation \<Rightarrow> string option" where [ent_defs]:
  "OrderItemMutation_VariantDescription m = im_variant_description m"

definition OrderItemMutation_ClearVariantDescription :: "OrderItemMutation \<Rightarrow> OrderItemMutation" where [ent_defs]:
  "OrderItemMutation_ClearVariantDescription m =
     m\<lparr>im_variant_description := None,
       im_clearedFields := insert orderitem_FieldVariantDescription (im_clearedFields m)\<rparr>"

definition OrderItemMutation_VariantDescriptionCleared :: "OrderItemMutation \<Rightarrow> bool" where [ent_defs]:
  "OrderItemMutation_VariantDescriptionCleared m \<longleftrightarrow> orderitem_FieldVariantDescription \<in> im_clearedFields m"

definition OrderItemMutation_ResetVariantDescription :: "OrderItemMutation \<Rightarrow> OrderItemMutation" where [ent_defs]:
  "OrderItemMutation_ResetVariantDescription m =
     m\<lparr>im_variant_description := None,
       im_clearedFields := im_clearedFields m - {orderitem_FieldVariantDescription}\<rparr>"

definition OrderItemMutation_SetUnitPrice :: "float64 \<Rightarrow> OrderItemMutation \<Rightarrow> OrderItemMutation" where [ent_defs]:
  "OrderItemMutation_SetUnitPrice v m = m\<lparr>im_unit_price := Some v, im_addunit_price := None\<rparr>"

definition OrderItemMutation_UnitPrice :: "OrderItemMutation \<Rightarrow> float64 option" where [ent_defs]:
  "OrderItemMutation_UnitPrice m = im_unit_price m"

definition OrderItemMutation_AddUnitPrice :: "float64 \<Rightarrow> OrderItemMutation \<Rightarrow> OrderItemMutation" where [ent_defs]:
  "OrderItemMutation_AddUnitPrice v m =
     (case im_addunit_price m of
        Some a \<Rightarrow> m\<lparr>im_addunit_price := Some (f64_add a v)\<rparr>
      | None \<Rightarrow> m\<lparr>im_addunit_price := Some v\<rparr>)"

definition OrderItemMutation_AddedUnitPrice :: "OrderItemMutation \<Rightarrow> float64 option" where [ent_defs]:
  "OrderItemMutation_AddedUnitPrice m = im_addunit_price m"

definition OrderItemMutation_ResetUnitPrice :: "OrderItemMutation \<Rightarrow> OrderItemMutation" where [ent_defs]:
  "OrderItemMutation_ResetUnitPrice m = m\<lparr>im_unit_price := None, im_addunit_price := None\<rparr>"

definition OrderItemMutation_SetQuantity :: "i64 \<Rightarrow> OrderItemMutation \<Rightarrow> OrderItemMutation" where [ent_defs]:
  "OrderItemMutation_SetQuantity v m = m\<lparr>im_quantity := Some v, im_addquantity := None\<rparr>"

definition OrderItemMutation_Quantity :: "OrderItemMutation \<Rightarrow> i64 option" where [ent_defs]:
  "OrderItemMutation_Quantity m = im_quantity m"

definition OrderItemMutation_AddQuantity :: "i64 \<Rightarrow> OrderItemMutation \<Rightarrow> OrderItemMutation" where [ent_defs]:
  "OrderItemMutation_AddQuantity v m =
     (case im_addquantity m of
        Some a \<Rightarrow> m\<lparr>im_addquantity := Some (a + v)\<rparr>
      | None \<Rightarrow> m\<lparr>im_addquantity := Some v\<rparr>)"

definition OrderItemMutation_AddedQuantity :: "OrderItemMutation \<Rightarrow> i64 option" where [ent_defs]:
  "OrderItemMutation_AddedQuantity m = im_addquantity m"

definition OrderItemMutation_ResetQuantity :: "OrderItemMutation \<Rightarrow> OrderItemMutation" where [ent_defs]:
  "OrderItemMutation_ResetQuantity m = m\<lparr>im_quantity := None, im_addquantity := None\<rparr>"

definition OrderItemMutation_SetTotalPrice :: "float64 \<Rightarrow> OrderItemMutation \<Rightarrow> OrderItemMutation" where [ent_defs]:
  "OrderItemMutation_SetTotalPrice v m = m\<lparr>im_total_price := Some v, im_addtotal_price := None\<rparr>"

definition OrderItemMutation_TotalPrice :: "OrderItemMutation \<Rightarrow> float64 option" where [ent_defs]:
  "OrderItemMutation_TotalPrice m = im_total_price m"

definition OrderItemMutation_AddTotalPrice :: "float64 \<Rightarrow> OrderItemMutation \<Rightarrow> OrderItemMutation" where [ent_defs]:
  "OrderItemMutation_AddTotalPrice v m =
     (case im_addtotal_price m of
        Some a \<Rightarrow> m\<lparr>im_addtotal_price := Some (f64_add a v)\<rparr>
      | None \<Rightarrow> m\<lparr>im_addtotal_price := Some v\<rparr>)"

definition OrderItemMutation_AddedTotalPrice :: "OrderItemMutation \<Rightarrow> float64 option" where [ent_defs]:
  "OrderItemMutation_AddedTotalPrice m = im_addtotal_price m"

definition OrderItemMutation_ResetTotalPrice :: "OrderItemMutation \<Rightarrow> OrderItemMutation" where [ent_defs]:
  "OrderItemMutation_ResetTotalPrice m = m\<lparr>im_total_price := None, im_addtotal_price := None\<rparr>"

definition OrderItemMutation_SetImageURL :: "string \<Rightarrow> OrderItemMutation \<Rightarrow> OrderItemMutation" where [ent_defs]:
  "OrderItemMutation_SetImageURL v m = m\<lparr>im_image_url := Some v\<rparr>"

definition OrderItemMutation_ImageURL :: "OrderItemMutation \<Rightarrow> string option" where [ent_defs]:
  "OrderItemMutation_ImageURL m = im_image_url m"

definition OrderItemMutation_ClearImageURL :: "OrderItemMutation \<Rightarrow> OrderItemMutation" where [ent_defs]:
  "OrderItemMutation_ClearImageURL m =
     m\<lparr>im_image_url := None,
       im_clearedFields := insert orderitem_FieldImageURL (im_clearedFields m)\<rparr>"

definition OrderItemMutation_ImageURLCleared :: "OrderItemMutation \<Rightarrow> bool" where [ent_defs]:
  "OrderItemMutation_ImageURLCleared m \<longleftrightarrow> orderitem_FieldImageURL \<in> im_clearedFields m"

definition OrderItemMutation_ResetImageURL :: "OrderItemMutation \<Rightarrow> OrderItemMutation" where [ent_defs]:
  "OrderItemMutation_ResetImageURL m =
     m\<lparr>im_image_url := None,
       im_clearedFields := im_clearedFields m - {orderitem_FieldImageURL}\<rparr>"

definition OrderItemMutation_SetOrderID :: "uuid \<Rightarrow> OrderItemMutation \<Rightarrow> OrderItemMutation" where [ent_defs]:
  "OrderItemMutation_SetOrderID v m = m\<lparr>im_order := Some v\<rparr>"

definition OrderItemMutation_ClearOrder :: "OrderItemMutation \<Rightarrow> OrderItemMutation" where [ent_defs]:
  "OrderItemMutation_ClearOrder m = m\<lparr>im_cleared_order := True\<rparr>"

definition OrderItemMutation_OrderCleared :: "OrderItemMutation \<Rightarrow> bool" where [ent_defs]:
  "OrderItemMutation_OrderCleared m = im_cleared_order m"

definition OrderItemMutation_OrderID :: "OrderItemMutation \<Rightarrow> uuid option" where [ent_defs]:
  "OrderItemMutation_OrderID m = im_order m"

definition OrderItemMutation_OrderIDs :: "OrderItemMutation \<Rightarrow> uuid list" where [ent_defs]:
  "OrderItemMutation_OrderIDs m = (case im_order m of None \<Rightarrow> [] | Some v \<Rightarrow> [v])"

definition OrderItemMutation_ResetOrder :: "OrderItemMutation \<Rightarrow> OrderItemMutation" where [ent_defs]:
  "OrderItemMutation_ResetOrder m = m\<lparr>im_order := None, im_cleared_order := False\<rparr>"

definition OrderItemMutation_Where :: "sql_pred list \<Rightarrow> OrderItemMutation \<Rightarrow> OrderItemMutation" where [ent_defs]:
  "OrderItemMutation_Where ps m = m\<lparr>im_predicates := im_predicates m @ ps\<rparr>"

definition OrderItemMutation_Fields :: "OrderItemMutation \<Rightarrow> string list" where
  "OrderItemMutation_Fields m =
     (if im_created_at m \<noteq> None then [FieldCreatedAt] else [])
     @ (if im_updated_at m \<noteq> None then [FieldUpdatedAt] else [])
     @ (if im_product_id m \<noteq> None then [orderitem_FieldProductID] else [])
     @ (if im_variant_id m \<noteq> None then [orderitem_FieldVariantID] else [])
     @ (if im_product_name m \<noteq> None then [orderitem_FieldProductName] else [])
     @ (if im_variant_description m \<noteq> None then [orderitem_FieldVariantDescription] else [])
     @ (if im_unit_price m \<noteq> None then [orderitem_FieldUnitPrice] else [])
     @ (if im_quantity m \<noteq> None then [orderitem_FieldQuantity] else [])
     @ (if im_total_price m \<noteq> None then [orderitem_FieldTotalPrice] else [])
     @ (if im_image_url m \<noteq> None then [orderitem_FieldImageURL] else [])"

definition OrderItemMutation_Field :: "string \<Rightarrow> OrderItemMutation \<Rightarrow> ent_value option" where
  "OrderItemMutation_Field name m =
     (if name = FieldCreatedAt then map_option VTime (OrderItemMutation_CreatedAt m)
      else if name = FieldUpdatedAt then map_option VTime (OrderItemMutation_UpdatedAt m)
      else if name = orderitem_FieldProductID then map_option VUUID (OrderItemMutation_ProductID m)
      else if name = orderitem_FieldVariantID then map_option VUUID (OrderItemMutation_VariantID m)
      else if name = orderitem_FieldProductName then map_option VString (OrderItemMutation_ProductName m)
      else if name = orderitem_FieldVariantDescription then map_option VString (OrderItemMutation_VariantDescription m)
      else if name = orderitem_FieldUnitPrice then map_option VFloat (OrderItemMutation_UnitPrice m)
      else if name = orderitem_FieldQuantity then map_option VInt (OrderItemMutation_Quantity m)
      else if name = orderitem_FieldTotalPrice then map_option VFloat (OrderItemMutation_TotalPrice m)
      else if name = orderitem_FieldImageURL then map_option VString (OrderItemMutation_ImageURL m)
      else None)"

definition OrderItemMutation_SetField :: "string \<Rightarrow> ent_value \<Rightarrow> OrderItemMutation \<Rightarrow> ent_error + OrderItemMutation" where
  "OrderItemMutation_SetField name value m =
     (if name = FieldCreatedAt then
        (case value of VTime v \<Rightarrow> Inr (OrderItemMutation_SetCreatedAt v m) | _ \<Rightarrow> Inl (UnexpectedType name))
      else if name = FieldUpdatedAt then
        (case value of VTime v \<Rightarrow> Inr (OrderItemMutation_SetUpdatedAt v m) | _ \<Rightarrow> Inl (UnexpectedType name))
      else if name = orderitem_FieldProductID then
        (case value of VUUID v \<Rightarrow> Inr (OrderItemMutation_SetProductID v m) | _ \<Rightarrow> Inl (UnexpectedType name))
      else if name = orderitem_FieldVariantID then
        (case value of VUUID v \<Rightarrow> Inr (OrderItemMutation_SetVariantID v m) | _ \<Rightarrow> Inl (UnexpectedType name))
      else if name = orderitem_FieldProductName then
        (case value of VString v \<Rightarrow> Inr (OrderItemMutation_SetProductName v m) | _ \<Rightarrow> Inl (UnexpectedType name))
      else if name = orderitem_FieldVariantDescription then
        (case value of VString v \<Rightarrow> Inr (OrderItemMutation_SetVariantDescription v m) | _ \<Rightarrow> Inl (UnexpectedType name))
      else if name = orderitem_FieldUnitPrice then
        (case value of VFloat v \<Rightarrow> Inr (OrderItemMutation_SetUnitPrice v m) | _ \<Rightarrow> Inl (UnexpectedType name))
      else if name = orderitem_FieldQuantity then
        (case value of VInt v \<Rightarrow> Inr (OrderItemMutation_SetQuantity v m) | _ \<Rightarrow> Inl (UnexpectedType name))
      else if name = orderitem_FieldTotalPrice then
        (case value of VFloat v \<Rightarrow> Inr (OrderItemMutation_SetTotalPrice v m) | _ \<Rightarrow> Inl (UnexpectedType name))
      else if name = orderitem_FieldImageURL then
        (case value of VString v \<Rightarrow> Inr (OrderItemMutation_SetImageURL v m) | _ \<Rightarrow> Inl (UnexpectedType name))
      else Inl (UnknownField name))"

definition OrderItemMutation_AddedFields :: "OrderItemMutation \<Rightarrow> string list" where
  "OrderItemMutation_AddedFields m =
     (if im_addunit_price m \<noteq> None then [orderitem_FieldUnitPrice] else [])
     @ (if im_addquantity m \<noteq> None then [orderitem_FieldQuantity] else [])
     @ (if im_addtotal_price m \<noteq> None then [orderitem_FieldTotalPrice] else [])"

definition OrderItemMutation_AddedField :: "string \<Rightarrow> OrderItemMutation \<Rightarrow> ent_value option" where
  "OrderItemMutation_AddedField name m =
     (if name = orderitem_FieldUnitPrice then map_option VFloat (OrderItemMutation_AddedUnitPrice m)
      else if name = orderitem_FieldQuantity then map_option VInt (OrderItemMutation_AddedQuantity m)
      else if name = orderitem_FieldTotalPrice then map_option VFloat (OrderItemMutation_AddedTotalPrice m)
      else None)"

definition OrderItemMutation_AddField :: "string \<Rightarrow> ent_value \<Rightarrow> OrderItemMutation \<Rightarrow> ent_error + OrderItemMutation" where
  "OrderItemMutation_AddField name value m =
     (if name = orderitem_FieldUnitPrice then
        (case value of VFloat v \<Rightarrow> Inr (OrderItemMutation_AddUnitPrice v m) | _ \<Rightarrow> Inl (UnexpectedType name))
      else if name = orderitem_FieldQuantity then
        (case value of VInt v \<Rightarrow> Inr (OrderItemMutation_AddQuantity v m) | _ \<Rightarrow> Inl (UnexpectedType name))
      else if name = orderitem_FieldTotalPrice then
        (case value of VFloat v \<Rightarrow> Inr (OrderItemMutation_AddTotalPrice v m) | _ \<Rightarrow> Inl (UnexpectedType name))
      else Inl (UnknownField name))"

definition OrderItemMutation_FieldCleared :: "string \<Rightarrow> OrderItemMutation \<Rightarrow> bool" where
  "OrderItemMutation_FieldCleared name m \<longleftrightarrow> name \<in> im_clearedFields m"

definition OrderItemMutation_ClearedFields :: "OrderItemMutation \<Rightarrow> string list" where
  "OrderItemMutation_ClearedFields m =
     (if OrderItemMutation_FieldCleared orderitem_FieldVariantDescription m then [orderitem_FieldVariantDescription] else [])
     @ (if OrderItemMutation_FieldCleared orderitem_FieldImageURL m then [orderitem_FieldImageURL] else [])"

definition OrderItemMutation_ClearField :: "string \<Rightarrow> OrderItemMutation \<Rightarrow> ent_error + OrderItemMutation" where
  "OrderItemMutation_ClearField name m =
     (if name = orderitem_FieldVariantDescription then Inr (OrderItemMutation_ClearVariantDescription m)
      else if name = orderitem_FieldImageURL then Inr (OrderItemMutation_ClearImageURL m)
      else Inl (UnknownField name))"

definition OrderItemMutation_ResetField :: "string \<Rightarrow> OrderItemMutation \<Rightarrow> ent_error + OrderItemMutation" where
  "OrderItemMutation_ResetField name m =
     (if name = FieldCreatedAt then Inr (OrderItemMutation_ResetCreatedAt m)
      else if name = FieldUpdatedAt then Inr (OrderItemMutation_ResetUpdatedAt m)
      else if name = orderitem_FieldProductID then Inr (OrderItemMutation_ResetProductID m)
      else if name = orderitem_FieldVariantID then Inr (OrderItemMutation_ResetVariantID m)
      else if name = orderitem_FieldProductName then Inr (OrderItemMutation_ResetProductName m)
      else if name = orderitem_FieldVariantDescription then Inr (OrderItemMutation_ResetVariantDescription m)
      else if name = orderitem_FieldUnitPrice then Inr (OrderItemMutation_ResetUnitPrice m)
      else if name = orderitem_FieldQuantity then Inr (OrderItemMutation_ResetQuantity m)
      else if name = orderitem_FieldTotalPrice then Inr (OrderItemMutation_ResetTotalPrice m)
      else if name = orderitem_FieldImageURL then Inr (OrderItemMutation_ResetImageURL m)
      else Inl (UnknownField name))"

definition OrderItemMutation_AddedEdges :: "OrderItemMutation \<Rightarrow> string list" where
  "OrderItemMutation_AddedEdges m = (if im_order m \<noteq> None then [orderitem_EdgeOrder] else [])"

definition OrderItemMutation_ClearedEdges :: "OrderItemMutation \<Rightarrow> string list" where
  "OrderItemMutation_ClearedEdges m = (if im_cleared_order m then [orderitem_EdgeOrder] else [])"

definition OrderItemMutation_AddedIDs :: "string \<Rightarrow> OrderItemMutation \<Rightarrow> ent_value list" where
  "OrderItemMutation_AddedIDs name m =
     (if name = orderitem_EdgeOrder then map VUUID (OrderItemMutation_OrderIDs m) else [])"

definition OrderItemMutation_EdgeCleared :: "string \<Rightarrow> OrderItemMutation \<Rightarrow> bool" where
  "OrderItemMutation_EdgeCleared name m = (if name = orderitem_EdgeOrder then im_cleared_order m else False)"

definition OrderItemMutation_ClearEdge :: "string \<Rightarrow> OrderItemMutation \<Rightarrow> ent_error + OrderItemMutation" where
  "OrderItemMutation_ClearEdge name m =
     (if name = orderitem_EdgeOrder then Inr (OrderItemMutation_ClearOrder m) else Inl (UnknownField name))"

definition OrderItemMutation_ResetEdge :: "string \<Rightarrow> OrderItemMutation \<Rightarrow> ent_error + OrderItemMutation" where
  "OrderItemMutation_ResetEdge name m =
     (if name = orderitem_EdgeOrder then Inr (OrderItemMutation_ResetOrder m) else Inl (UnknownField name))"

end
