(* ===== verification/EntOutboxMutation.thy ===== *)
theory EntOutboxMutation
  imports Ent
begin

text \<open>
  The mutation of an outbox event (\<open>gen/ent/mutation.go\<close>): its fields and the access by name.
\<close>

record OutboxEventMutation =
  bm_op :: ent_op
  bm_typ :: string
  bm_id :: "uuid option"
  bm_created_at :: "time option"
  bm_updated_at :: "time option"
  bm_aggregate_type :: "string option"
  bm_aggregate_id :: "uuid option"
  bm_event_type :: "string option"
  bm_payload :: "(byte list) option"
  bm_processed :: "bool option"
  bm_clearedFields :: "string set"
  bm_done :: bool
  bm_oldValue :: "OutboxEvent old_value"
  bm_predicates :: "sql_pred list"

definition newOutboxEventMutation :: "ent_op \<Rightarrow> OutboxEventMutation" where
  "newOutboxEventMutation op =
     \<lparr>bm_op = op, bm_typ = ''OutboxEvent'', bm_id = None,
      bm_created_at = None,
      bm_updated_at = None,
      bm_aggregate_type = None,
      bm_aggregate_id = None,
      bm_event_type = None,
      bm_payload = None,
      bm_processed = None,
      bm_clearedFields = {},
      bm_done = False, bm_oldValue = NoOldValue, bm_predicates = []\<rparr>"

definition withOutboxEventID :: "uuid \<Rightarrow> OutboxEventMutation \<Rightarrow> OutboxEventMutation" where [ent_defs]:
  "withOutboxEventID i m = m\<lparr>bm_oldValue := OldQuery i None, bm_id := Some i\<rparr>"

definition withOutboxEvent :: "OutboxEvent \<Rightarrow> OutboxEventMutation \<Rightarrow> OutboxEventMutation" where [ent_defs]:
  "withOutboxEvent node m = m\<lparr>bm_oldValue := OldNode node, bm_id := Some (ob_ID node)\<rparr>"

definition OutboxEventMutation_SetID :: "uuid \<Rightarrow> OutboxEventMutation \<Rightarrow> OutboxEventMutation" where [ent_defs]:
  "OutboxEventMutation_SetID v m = m\<lparr>bm_id := Some v\<rparr>"

definition OutboxEventMutation_ID :: "OutboxEventMutation \<Rightarrow> uuid option" where [ent_defs]:
  "OutboxEventMutation_ID m = bm_id m"

definition OutboxEventMutation_SetCreatedAt :: "time \<Rightarrow> OutboxEventMutation \<Rightarrow> OutboxEventMutation" where [ent_defs]:
  "OutboxEventMutation_SetCreatedAt v m = m\<lparr>bm_created_at := Some v\<rparr>"

definition OutboxEventMutation_CreatedAt :: "OutboxEventMutation \<Rightarrow> time option" where [ent_defs]:
  "OutboxEventMutation_CreatedAt m = bm_created_at m"

definition OutboxEventMutation_ResetCreatedAt :: "OutboxEventMutation \<Rightarrow> OutboxEventMutation" where [ent_defs]:
  "OutboxEventMutation_ResetCreatedAt m = m\<lparr>bm_created_at := None\<rparr>"

definition OutboxEventMutation_SetUpdatedAt :: "time \<Rightarrow> OutboxEventMutation \<Rightarrow> OutboxEventMutation" where [ent_defs]:
  "OutboxEventMutation_SetUpdatedAt v m = m\<lparr>bm_updated_at := Some v\<rparr>"

definition OutboxEventMutation_UpdatedAt :: "OutboxEventMutation \<Rightarrow> time option" where [ent_defs]:
  "OutboxEventMutation_UpdatedAt m = bm_updated_at m"

definition OutboxEventMutation_ResetUpdatedAt :: "OutboxEventMutation \<Rightarrow> OutboxEventMutation" where [ent_defs]:
  "OutboxEventMutation_ResetUpdatedAt m = m\<lparr>bm_updated_at := None\<rparr>"

definition OutboxEventMutation_SetAggregateType :: "string \<Rightarrow> OutboxEventMutation \<Rightarrow> OutboxEventMutation" where [ent_defs]:
  "OutboxEventMutation_SetAggregateType v m = m\<lparr>bm_aggregate_type := Some v\<rparr>"

definition OutboxEventMutation_AggregateType :: "OutboxEventMutation \<Rightarrow> string option" where [ent_defs]:
  "OutboxEventMutation_AggregateType m = bm_aggregate_type m"

definition OutboxEventMutation_ResetAggregateType :: "OutboxEventMutation \<Rightarrow> OutboxEventMutation" where [ent_defs]:
  "OutboxEventMutation_ResetAggregateType m = m\<lparr>bm_aggregate_type := None\<rparr>"

definition OutboxEventMutation_SetAggregateID :: "uuid \<Rightarrow> OutboxEventMutation \<Rightarrow> OutboxEventMutation" where [ent_defs]:
  "OutboxEventMutation_SetAggregateID v m = m\<lparr>bm_aggregate_id := Some v\<rparr>"

definition OutboxEventMutation_AggregateID :: "OutboxEventMutation \<Rightarrow> uuid option" where [ent_defs]:
  "OutboxEventMutation_AggregateID m = bm_aggregate_id m"

definition OutboxEventMutation_ResetAggregateID :: "OutboxEventMutation \<Rightarrow> OutboxEventMutation" where [ent_defs]:
  "OutboxEventMutation_ResetAggregateID m = m\<lparr>bm_aggregate_id := None\<rparr>"

definition OutboxEventMutation_SetEventType :: "string \<Rightarrow> OutboxEventMutation \<Rightarrow> OutboxEventMutation" where [ent_defs]:
  "OutboxEventMutation_SetEventType v m = m\<lparr>bm_event_type := Some v\<rparr>"

definition OutboxEventMutation_EventType :: "OutboxEventMutation \<Rightarrow> string option" where [ent_defs]:
  "OutboxEventMutation_EventType m = bm_event_type m"

definition OutboxEventMutation_ResetEventType :: "OutboxEventMutation \<Rightarrow> OutboxEventMutation" where [ent_defs]:
  "OutboxEventMutation_ResetEventType m = m\<lparr>bm_event_type := None\<rparr>"

definition OutboxEventMutation_SetPayload :: "byte list \<Rightarrow> OutboxEventMutation \<Rightarrow> OutboxEventMutation" where [ent_defs]:
  "OutboxEventMutation_SetPayload v m = m\<lparr>bm_payload := Some v\<rparr>"

definition OutboxEventMutation_Payload :: "OutboxEventMutation \<Rightarrow> (byte list) option" where [ent_defs]:
  "OutboxEventMutation_Payload m = bm_payload m"

definition OutboxEventMutation_ResetPayload :: "OutboxEventMutation \<Rightarrow> OutboxEventMutation" where [ent_defs]:
  "OutboxEventMutation_ResetPayload m = m\<lparr>bm_payload := None\<rparr>"

definition OutboxEventMutation_SetProcessed :: "bool \<Rightarrow> OutboxEventMutation \<Rightarrow> OutboxEventMutation" where [ent_defs]:
  "OutboxEventMutation_SetProcessed v m = m\<lparr>bm_processed := Some v\<rparr>"

definition OutboxEventMutation_Processed :: "OutboxEventMutation \<Rightarrow> bool option" where [ent_defs]:
  "OutboxEventMutation_Processed m = bm_processed m"

definition OutboxEventMutation_ResetProcessed :: "OutboxEventMutation \<Rightarrow> OutboxEventMutation" where [ent_defs]:
  "OutboxEventMutation_ResetProcessed m = m\<lparr>bm_processed := None\<rparr>"

definition OutboxEventMutation_Where :: "sql_pred list \<Rightarrow> OutboxEventMutation \<Rightarrow> OutboxEventMutation" where [ent_defs]:
  "OutboxEventMutation_Where ps m = m\<lparr>bm_predicates := bm_predicates m @ ps\<rparr>"

definition OutboxEventMutation_Fields :: "OutboxEventMutation \<Rightarrow> string list" where
  "OutboxEventMutation_Fields m =
     (if bm_created_at m \<noteq> None then [FieldCreatedAt] else [])
     @ (if bm_updated_at m \<noteq> None then [FieldUpdatedAt] else [])
     @ (if bm_aggregate_type m \<noteq> None then [outboxevent_FieldAggregateType] else [])
     @ (if bm_aggregate_id m \<noteq> None then [outboxevent_FieldAggregateID] else [])
     @ (if bm_event_type m \<noteq> None then [outboxevent_FieldEventType] else [])
     @ (if bm_payload m \<noteq> None then [outboxevent_FieldPayload] else [])
     @ (if bm_processed m \<noteq> None then [outboxevent_FieldProcessed] else [])"

definition OutboxEventMutation_Field :: "string \<Rightarrow> OutboxEventMutation \<Rightarrow> ent_value option" where
  "OutboxEventMutation_Field name m =
     (if name = FieldCreatedAt then map_option VTime (OutboxEventMutation_CreatedAt m)
      else if name = FieldUpdatedAt then map_option VTime (OutboxEventMutation_UpdatedAt m)
      else if name = outboxevent_FieldAggregateType then map_option VString (OutboxEventMutation_AggregateType m)
      else if name = outboxevent_FieldAggregateID then map_option VUUID (OutboxEventMutation_AggregateID m)
      else if name = outboxevent_FieldEventType then map_option VString (OutboxEventMutation_EventType m)
      else if name = outboxevent_FieldPayload then map_option VBytes (OutboxEventMutation_Payload m)
      else if name = outboxevent_FieldProcessed then map_option VBool (OutboxEventMutation_Processed m)
      else None)"

definition OutboxEventMutation_SetField :: "string \<Rightarrow> ent_value \<Rightarrow> OutboxEventMutation \<Rightarrow> ent_error + OutboxEventMutation" where
  "OutboxEventMutation_SetField name value m =
     (if name = FieldCreatedAt then
        (case value of VTime v \<Rightarrow> Inr (OutboxEventMutation_SetCreatedAt v m) | _ \<Rightarrow> Inl (UnexpectedType name))
      else if name = FieldUpdatedAt then
        (case value of VTime v \<Rightarrow> Inr (OutboxEventMutation_SetUpdatedAt v m) | _ \<Rightarrow> Inl (UnexpectedType name))
      else if name = outboxevent_FieldAggregateType then
        (case value of VString v \<Rightarrow> Inr (OutboxEventMutation_SetAggregateType v m) | _ \<Rightarrow> Inl (UnexpectedType name))
      else if name = outboxevent_FieldAggregateID then
        (case value of VUUID v \<Rightarrow> Inr (OutboxEventMutation_SetAggregateID v m) | _ \<Rightarrow> Inl (UnexpectedType name))
      else if name = outboxevent_FieldEventType then
        (case value of VString v \<Rightarrow> Inr (OutboxEventMutation_SetEventType v m) | _ \<Rightarrow> Inl (UnexpectedType name))
      else if name = outboxevent_FieldPayload then
        (case value of VBytes v \<Rightarrow> Inr (OutboxEventMutation_SetPayload v m) | _ \<Rightarrow> Inl (UnexpectedType name))
      else if name = outboxevent_FieldProcessed then
        (case value of VBool v \<Rightarrow> Inr (OutboxEventMutation_SetProcessed v m) | _ \<Rightarrow> Inl (UnexpectedType name))
      else Inl (UnknownField name))"

definition OutboxEventMutation_FieldCleared :: "string \<Rightarrow> OutboxEventMutation \<Rightarrow> bool" where
  "OutboxEventMutation_FieldCleared name m \<longleftrightarrow> name \<in> bm_clearedFields m"

definition OutboxEventMutation_ResetField :: "string \<Rightarrow> OutboxEventMutation \<Rightarrow> ent_error + OutboxEventMutation" where
  "OutboxEventMutation_ResetField name m =
     (if name = FieldCreatedAt then Inr (OutboxEventMutation_ResetCreatedAt m)
      else if name = FieldUpdatedAt then Inr (OutboxEventMutation_ResetUpdatedAt m)
      else if name = outboxevent_FieldAggregateType then Inr (OutboxEventMutation_ResetAggregateType m)
      else if name = outboxevent_FieldAggregateID then Inr (OutboxEventMutation_ResetAggregateID m)
      else if name = outboxevent_FieldEventType then Inr (OutboxEventMutation_ResetEventType m)
      else if name = outboxevent_FieldPayload then Inr (OutboxEventMutation_ResetPayload m)
      else if name = outboxevent_FieldProcessed then Inr (OutboxEventMutation_ResetProcessed m)
      else Inl (UnknownField name))"

end
