(* ===== verification/EntCreate.thy ===== *)
theory EntCreate
  imports SqlEngine EntOrderMutation EntOrderItemMutation EntOutboxMutation
begin

text \<open>
  The create builders of the entity layer (\<open>order_create.go\<close>, \<open>orderitem_create.go\<close>,
  \<open>outboxevent_create.go\<close>): a builder collects the fields in a mutation; \<open>Save\<close> fills the
  defaults, runs the checks, and hands a specification to \<open>sqlgraph\<close>. The services register
  no hooks, so \<open>withHooks\<close> runs the save itself.
\<close>

subsection \<open>Defaults and validators of the schema\<close>

definition order_DefaultSubtotal :: float64 where "order_DefaultSubtotal = f64_zero"
definition order_DefaultTax :: float64 where "order_DefaultTax = f64_zero"
definition order_DefaultShippingCost :: float64 where "order_DefaultShippingCost = f64_zero"
definition order_DefaultTotal :: float64 where "order_DefaultTotal = f64_zero"
definition outboxevent_DefaultProcessed :: bool where "outboxevent_DefaultProcessed = False"

definition order_SubtotalValidator :: "('d, 'z) lib_scheme \<Rightarrow> float64 \<Rightarrow> bool" where [ent_defs]:
  "order_SubtotalValidator L v = field_FloatMin L f64_zero v"

definition order_TaxValidator :: "('d, 'z) lib_scheme \<Rightarrow> float64 \<Rightarrow> bool" where [ent_defs]:
  "order_TaxValidator L v = field_FloatMin L f64_zero v"

definition order_ShippingCostValidator :: "('d, 'z) lib_scheme \<Rightarrow> float64 \<Rightarrow> bool" where [ent_defs]:
  "order_ShippingCostValidator L v = field_FloatMin L f64_zero v"

definition order_TotalValidator :: "('d, 'z) lib_scheme \<Rightarrow> float64 \<Rightarrow> bool" where [ent_defs]:
  "order_TotalValidator L v = field_FloatMin L f64_zero v"

definition orderitem_ProductNameValidator :: "('d, 'z) lib_scheme \<Rightarrow> string \<Rightarrow> bool" where [ent_defs]:
  "orderitem_ProductNameValidator L v = field_StringNotEmpty L v"

definition orderitem_UnitPriceValidator :: "('d, 'z) lib_scheme \<Rightarrow> float64 \<Rightarrow> bool" where [ent_defs]:
  "orderitem_UnitPriceValidator L v = field_FloatMin L f64_zero v"

definition orderitem_QuantityValidator :: "('d, 'z) lib_scheme \<Rightarrow> i64 \<Rightarrow> bool" where [ent_defs]:
  "orderitem_QuantityValidator L v = field_IntPositive L v"

definition orderitem_TotalPriceValidator :: "('d, 'z) lib_scheme \<Rightarrow> float64 \<Rightarrow> bool" where [ent_defs]:
  "orderitem_TotalPriceValidator L v = field_FloatMin L f64_zero v"

subsection \<open>Shared steps\<close>

definition spec_field :: "string \<Rightarrow> ('a \<Rightarrow> ent_value) \<Rightarrow> 'a option \<Rightarrow> (string \<times> ent_value) list" where
  \<comment> \<open>\<open>if value, ok := m.F(); ok { spec.SetField(column, type, value) }\<close>\<close>
  "spec_field column C v = (case v of Some x \<Rightarrow> [(column, C x)] | None \<Rightarrow> [])"

lemma spec_field_simps [simp]: "spec_field c C None = []" "spec_field c C (Some x) = [(c, C x)]"
  by (simp_all add: spec_field_def)

definition constraint_error :: "sql_error \<Rightarrow> ent_error" where
  "constraint_error e = (case e of SqlConstraint msg \<Rightarrow> ConstraintError msg | _ \<Rightarrow> SqlError e)"

subsection \<open>Orders\<close>

record OrderCreate =
  oc_driver :: driver
  oc_mutation :: OrderMutation

definition OrderClient_Create :: "driver \<Rightarrow> OrderCreate" where [ent_defs]:
  "OrderClient_Create drv = \<lparr>oc_driver = drv, oc_mutation = newOrderMutation OpCreate\<rparr>"

definition OrderCreate_SetCreatedAt :: "time \<Rightarrow> OrderCreate \<Rightarrow> OrderCreate" where [ent_defs]:
  "OrderCreate_SetCreatedAt v c = c\<lparr>oc_mutation := OrderMutation_SetCreatedAt v (oc_mutation c)\<rparr>"

definition OrderCreate_SetNillableCreatedAt :: "time option \<Rightarrow> OrderCreate \<Rightarrow> OrderCreate" where [ent_defs]:
  "OrderCreate_SetNillableCreatedAt v c = (case v of Some x \<Rightarrow> OrderCreate_SetCreatedAt x c | None \<Rightarrow> c)"

definition OrderCreate_SetUpdatedAt :: "time \<Rightarrow> OrderCreate \<Rightarrow> OrderCreate" where [ent_defs]:
  "OrderCreate_SetUpdatedAt v c = c\<lparr>oc_mutation := OrderMutation_SetUpdatedAt v (oc_mutation c)\<rparr>"

definition OrderCreate_SetNillableUpdatedAt :: "time option \<Rightarrow> OrderCreate \<Rightarrow> OrderCreate" where [ent_defs]:
  "OrderCreate_SetNillableUpdatedAt v c = (case v of Some x \<Rightarrow> OrderCreate_SetUpdatedAt x c | None \<Rightarrow> c)"

definition OrderCreate_SetCustomerID :: "uuid \<Rightarrow> OrderCreate \<Rightarrow> OrderCreate" where [ent_defs]:
  "OrderCreate_SetCustomerID v c = c\<lparr>oc_mutation := OrderMutation_SetCustomerID v (oc_mutation c)\<rparr>"

definition OrderCreate_SetStatus :: "status \<Rightarrow> OrderCreate \<Rightarrow> OrderCreate" where [ent_defs]:
  "OrderCreate_SetStatus v c = c\<lparr>oc_mutation := OrderMutation_SetStatus v (oc_mutation c)\<rparr>"

definition OrderCreate_SetNillableStatus :: "status option \<Rightarrow> OrderCreate \<Rightarrow> OrderCreate" where [ent_defs]:
  "OrderCreate_SetNillableStatus v c = (case v of Some x \<Rightarrow> OrderCreate_SetStatus x c | None \<Rightarrow> c)"

definition OrderCreate_SetSubtotal :: "float64 \<Rightarrow> OrderCreate \<Rightarrow> OrderCreate" where [ent_defs]:
  "OrderCreate_SetSubtotal v c = c\<lparr>oc_mutation := OrderMutation_SetSubtotal v (oc_mutation c)\<rparr>"

definition OrderCreate_SetNillableSubtotal :: "float64 option \<Rightarrow> OrderCreate \<Rightarrow> OrderCreate" where [ent_defs]:
  "OrderCreate_SetNillableSubtotal v c = (case v of Some x \<Rightarrow> OrderCreate_SetSubtotal x c | None \<Rightarrow> c)"

definition OrderCreate_SetTax :: "float64 \<Rightarrow> OrderCreate \<Rightarrow> OrderCreate" where [ent_defs]:
  "OrderCreate_SetTax v c = c\<lparr>oc_mutation := OrderMutation_SetTax v (oc_mutation c)\<rparr>"

definition OrderCreate_SetNillableTax :: "float64 option \<Rightarrow> OrderCreate \<Rightarrow> OrderCreate" where [ent_defs]:
  "OrderCreate_SetNillableTax v c = (case v of Some x \<Rightarrow> OrderCreate_SetTax x c | None \<Rightarrow> c)"

definition OrderCreate_SetShippingCost :: "float64 \<Rightarrow> OrderCreate \<Rightarrow> OrderCreate" where [ent_defs]:
  "OrderCreate_SetShippingCost v c = c\<lparr>oc_mutation := OrderMutation_SetShippingCost v (oc_mutation c)\<rparr>"

definition OrderCreate_SetNillableShippingCost :: "float64 option \<Rightarrow> OrderCreate \<Rightarrow> OrderCreate" where [ent_defs]:
  "OrderCreate_SetNillableShippingCost v c = (case v of Some x \<Rightarrow> OrderCreate_SetShippingCost x c | None \<Rightarrow> c)"

definition OrderCreate_SetTotal :: "float64 \<Rightarrow> OrderCreate \<Rightarrow> OrderCreate" where [ent_defs]:
  "OrderCreate_SetTotal v c = c\<lparr>oc_mutation := OrderMutation_SetTotal v (oc_mutation c)\<rparr>"

definition OrderCreate_SetNillableTotal :: "float64 option \<Rightarrow> OrderCreate \<Rightarrow> OrderCreate" where [ent_defs]:
  "OrderCreate_SetNillableTotal v c = (case v of Some x \<Rightarrow> OrderCreate_SetTotal x c | None \<Rightarrow> c)"

definition OrderCreate_SetShippingAddress :: "string \<Rightarrow> OrderCreate \<Rightarrow> OrderCreate" where [ent_defs]:
  "OrderCreate_SetShippingAddress v c = c\<lparr>oc_mutation := OrderMutation_SetShippingAddress v (oc_mutation c)\<rparr>"

definition OrderCreate_SetBillingAddress :: "string \<Rightarrow> OrderCreate \<Rightarrow> OrderCreate" where [ent_defs]:
  "OrderCreate_SetBillingAddress v c = c\<lparr>oc_mutation := OrderMutation_SetBillingAddress v (oc_mutation c)\<rparr>"

definition OrderCreate_SetErrorMessage :: "string \<Rightarrow> OrderCreate \<Rightarrow> OrderCreate" where [ent_defs]:
  "OrderCreate_SetErrorMessage v c = c\<lparr>oc_mutation := OrderMutation_SetErrorMessage v (oc_mutation c)\<rparr>"

definition OrderCreate_SetNillableErrorMessage :: "string option \<Rightarrow> OrderCreate \<Rightarrow> OrderCreate" where [ent_defs]:
  "OrderCreate_SetNillableErrorMessage v c = (case v of Some x \<Rightarrow> OrderCreate_SetErrorMessage x c | None \<Rightarrow> c)"

definition OrderCreate_SetID :: "uuid \<Rightarrow> OrderCreate \<Rightarrow> OrderCreate" where [ent_defs]:
  "OrderCreate_SetID v c = c\<lparr>oc_mutation := OrderMutation_SetID v (oc_mutation c)\<rparr>"

definition OrderCreate_SetNillableID :: "uuid option \<Rightarrow> OrderCreate \<Rightarrow> OrderCreate" where [ent_defs]:
  "OrderCreate_SetNillableID v c = (case v of Some x \<Rightarrow> OrderCreate_SetID x c | None \<Rightarrow> c)"

definition OrderCreate_AddItemIDs :: "uuid list \<Rightarrow> OrderCreate \<Rightarrow> OrderCreate" where [ent_defs]:
  "OrderCreate_AddItemIDs ids c = c\<lparr>oc_mutation := OrderMutation_AddItemIDs ids (oc_mutation c)\<rparr>"

definition OrderCreate_AddItems :: "OrderItem list \<Rightarrow> OrderCreate \<Rightarrow> OrderCreate" where [ent_defs]:
  "OrderCreate_AddItems v c = OrderCreate_AddItemIDs (map oi_ID v) c"

definition OrderCreate_constants :: "OrderMutation \<Rightarrow> OrderMutation" where
  \<comment> \<open>the defaults that are constants\<close>
  "OrderCreate_constants m =
     (let m = (case OrderMutation_Status m of Some _ \<Rightarrow> m | None \<Rightarrow> OrderMutation_SetStatus DefaultStatus m);
          m = (case OrderMutation_Subtotal m of Some _ \<Rightarrow> m | None \<Rightarrow> OrderMutation_SetSubtotal order_DefaultSubtotal m);
          m = (case OrderMutation_Tax m of Some _ \<Rightarrow> m | None \<Rightarrow> OrderMutation_SetTax order_DefaultTax m);
          m = (case OrderMutation_ShippingCost m of Some _ \<Rightarrow> m | None \<Rightarrow> OrderMutation_SetShippingCost order_DefaultShippingCost m);
          m = (case OrderMutation_Total m of Some _ \<Rightarrow> m | None \<Rightarrow> OrderMutation_SetTotal order_DefaultTotal m)
      in m)"

definition OrderCreate_defaults :: "('d, 'z) lib_scheme \<Rightarrow> OrderCreate \<Rightarrow> 'd \<Rightarrow> 'd \<times> OrderCreate" where
  "OrderCreate_defaults L c d =
     (let m = oc_mutation c;
          (d, m) = (case OrderMutation_CreatedAt m of Some _ \<Rightarrow> (d, m)
                    | None \<Rightarrow> (let (d, v) = time_Now L d in (d, OrderMutation_SetCreatedAt v m)));
          (d, m) = (case OrderMutation_UpdatedAt m of Some _ \<Rightarrow> (d, m)
                    | None \<Rightarrow> (let (d, v) = time_Now L d in (d, OrderMutation_SetUpdatedAt v m)));
          m = OrderCreate_constants m;
          (d, m) = (case OrderMutation_ID m of Some _ \<Rightarrow> (d, m)
                    | None \<Rightarrow> (let (d, v) = uuid_New L d in (d, OrderMutation_SetID v m)))
      in (d, c\<lparr>oc_mutation := m\<rparr>))"

definition OrderCreate_check :: "('d, 'z) lib_scheme \<Rightarrow> OrderCreate \<Rightarrow> ent_error + unit" where
  "OrderCreate_check L c =
     (let m = oc_mutation c in
      if OrderMutation_CreatedAt m = None then
        Inl (ValidationError ''created_at'' (MissingField ''Order.created_at''))
      else if OrderMutation_UpdatedAt m = None then
        Inl (ValidationError ''updated_at'' (MissingField ''Order.updated_at''))
      else if OrderMutation_CustomerID m = None then
        Inl (ValidationError ''customer_id'' (MissingField ''Order.customer_id''))
      else if OrderMutation_Status m = None then
        Inl (ValidationError ''status'' (MissingField ''Order.status''))
      else if fails StatusValidator (OrderMutation_Status m) then
        Inl (ValidationError ''status'' (ValidatorFailed ''Order.status''))
      else if OrderMutation_Subtotal m = None then
        Inl (ValidationError ''subtotal'' (MissingField ''Order.subtotal''))
      else if fails (order_SubtotalValidator L) (OrderMutation_Subtotal m) then
        Inl (ValidationError ''subtotal'' (ValidatorFailed ''Order.subtotal''))
      else if OrderMutation_Tax m = None then
        Inl (ValidationError ''tax'' (MissingField ''Order.tax''))
      else if fails (order_TaxValidator L) (OrderMutation_Tax m) then
        Inl (ValidationError ''tax'' (ValidatorFailed ''Order.tax''))
      else if OrderMutation_ShippingCost m = None then
        Inl (ValidationError ''shipping_cost'' (MissingField ''Order.shipping_cost''))
      else if fails (order_ShippingCostValidator L) (OrderMutation_ShippingCost m) then
        Inl (ValidationError ''shipping_cost'' (ValidatorFailed ''Order.shipping_cost''))
      else if OrderMutation_Total m = None then
        Inl (ValidationError ''total'' (MissingField ''Order.total''))
      else if fails (order_TotalValidator L) (OrderMutation_Total m) then
        Inl (ValidationError ''total'' (ValidatorFailed ''Order.total''))
      else if OrderMutation_ShippingAddress m = None then
        Inl (ValidationError ''shipping_address'' (MissingField ''Order.shipping_address''))
      else if OrderMutation_BillingAddress m = None then
        Inl (ValidationError ''billing_address'' (MissingField ''Order.billing_address''))
      else Inr ())"

definition OrderCreate_createSpec :: "OrderCreate \<Rightarrow> Order \<times> create_spec" where
  "OrderCreate_createSpec c =
     (let m = oc_mutation c in
      (\<lparr>o_ID = or_zero (OrderMutation_ID m) (o_ID zero_Order),
        o_CreatedAt = or_zero (OrderMutation_CreatedAt m) (o_CreatedAt zero_Order),
        o_UpdatedAt = or_zero (OrderMutation_UpdatedAt m) (o_UpdatedAt zero_Order),
        o_CustomerID = or_zero (OrderMutation_CustomerID m) (o_CustomerID zero_Order),
        o_Status = or_zero (OrderMutation_Status m) (o_Status zero_Order),
        o_Subtotal = or_zero (OrderMutation_Subtotal m) (o_Subtotal zero_Order),
        o_Tax = or_zero (OrderMutation_Tax m) (o_Tax zero_Order),
        o_ShippingCost = or_zero (OrderMutation_ShippingCost m) (o_ShippingCost zero_Order),
        o_Total = or_zero (OrderMutation_Total m) (o_Total zero_Order),
        o_ShippingAddress = or_zero (OrderMutation_ShippingAddress m) (o_ShippingAddress zero_Order),
        o_BillingAddress = or_zero (OrderMutation_BillingAddress m) (o_BillingAddress zero_Order),
        o_ErrorMessage = or_zero (OrderMutation_ErrorMessage m) (o_ErrorMessage zero_Order),
        o_Items = [],
        o_loadedItems = False\<rparr>,
       \<lparr>cs_Table = order_Table, cs_ID = OrderMutation_ID m,
        cs_Fields =
          spec_field FieldCreatedAt VTime (OrderMutation_CreatedAt m)
          @ spec_field FieldUpdatedAt VTime (OrderMutation_UpdatedAt m)
          @ spec_field order_FieldCustomerID VUUID (OrderMutation_CustomerID m)
          @ spec_field order_FieldStatus VStatus (OrderMutation_Status m)
          @ spec_field order_FieldSubtotal VFloat (OrderMutation_Subtotal m)
          @ spec_field order_FieldTax VFloat (OrderMutation_Tax m)
          @ spec_field order_FieldShippingCost VFloat (OrderMutation_ShippingCost m)
          @ spec_field order_FieldTotal VFloat (OrderMutation_Total m)
          @ spec_field order_FieldShippingAddress VString (OrderMutation_ShippingAddress m)
          @ spec_field order_FieldBillingAddress VString (OrderMutation_BillingAddress m)
          @ spec_field order_FieldErrorMessage VString (OrderMutation_ErrorMessage m),
        cs_Edges = (case OrderMutation_ItemsIDs m of [] \<Rightarrow> []
            | ks \<Rightarrow> [\<lparr>es_Rel = O2M, es_Inverse = False, es_Table = order_ItemsTable,
                      es_Columns = [order_ItemsColumn], es_Nodes = ks\<rparr>])\<rparr>))"

definition OrderCreate_sqlSave :: "('d, 'z) lib_scheme \<Rightarrow> OrderCreate \<Rightarrow> 'd \<Rightarrow> 'd \<times> (ent_error + Order)" where
  "OrderCreate_sqlSave L c d =
     (case OrderCreate_check L c of
        Inl e \<Rightarrow> (d, Inl e)
      | Inr _ \<Rightarrow>
          let (node, spec) = OrderCreate_createSpec c in
          (case sqlgraph_CreateNode L (oc_driver c) spec d of
             (d, Some e) \<Rightarrow> (d, Inl (constraint_error e))
           | (d, None) \<Rightarrow> (d, Inr (case cs_ID spec of Some i \<Rightarrow> node\<lparr>o_ID := i\<rparr> | None \<Rightarrow> node))))"

definition OrderCreate_Save :: "('d, 'z) lib_scheme \<Rightarrow> OrderCreate \<Rightarrow> 'd \<Rightarrow> 'd \<times> (ent_error + Order)" where
  "OrderCreate_Save L c d = (let (d, c) = OrderCreate_defaults L c d in OrderCreate_sqlSave L c d)"

subsection \<open>Order items\<close>

record OrderItemCreate =
  ic_driver :: driver
  ic_mutation :: OrderItemMutation

definition OrderItemClient_Create :: "driver \<Rightarrow> OrderItemCreate" where [ent_defs]:
  "OrderItemClient_Create drv = \<lparr>ic_driver = drv, ic_mutation = newOrderItemMutation OpCreate\<rparr>"

definition OrderItemCreate_SetCreatedAt :: "time \<Rightarrow> OrderItemCreate \<Rightarrow> OrderItemCreate" where [ent_defs]:
  "OrderItemCreate_SetCreatedAt v c = c\<lparr>ic_mutation := OrderItemMutation_SetCreatedAt v (ic_mutation c)\<rparr>"

definition OrderItemCreate_SetNillableCreatedAt :: "time option \<Rightarrow> OrderItemCreate \<Rightarrow> OrderItemCreate" where [ent_defs]:
  "OrderItemCreate_SetNillableCreatedAt v c = (case v of Some x \<Rightarrow> OrderItemCreate_SetCreatedAt x c | None \<Rightarrow> c)"

definition OrderItemCreate_SetUpdatedAt :: "time \<Rightarrow> OrderItemCreate \<Rightarrow> OrderItemCreate" where [ent_defs]:
  "OrderItemCreate_SetUpdatedAt v c = c\<lparr>ic_mutation := OrderItemMutation_SetUpdatedAt v (ic_mutation c)\<rparr>"

definition OrderItemCreate_SetNillableUpdatedAt :: "time option \<Rightarrow> OrderItemCreate \<Rightarrow> OrderItemCreate" where [ent_defs]:
  "OrderItemCreate_SetNillableUpdatedAt v c = (case v of Some x \<Rightarrow> OrderItemCreate_SetUpdatedAt x c | None \<Rightarrow> c)"

definition OrderItemCreate_SetProductID :: "uuid \<Rightarrow> OrderItemCreate \<Rightarrow> OrderItemCreate" where [ent_defs]:
  "OrderItemCreate_SetProductID v c = c\<lparr>ic_mutation := OrderItemMutation_SetProductID v (ic_mutation c)\<rparr>"

definition OrderItemCreate_SetVariantID :: "uuid \<Rightarrow> OrderItemCreate \<Rightarrow> OrderItemCreate" where [ent_defs]:
  "OrderItemCreate_SetVariantID v c = c\<lparr>ic_mutation := OrderItemMutation_SetVariantID v (ic_mutation c)\<rparr>"

definition OrderItemCreate_SetProductName :: "string \<Rightarrow> OrderItemCreate \<Rightarrow> OrderItemCreate" where [ent_defs]:
  "OrderItemCreate_SetProductName v c = c\<lparr>ic_mutation := OrderItemMutation_SetProductName v (ic_mutation c)\<rparr>"

definition OrderItemCreate_SetVariantDescription :: "string \<Rightarrow> OrderItemCreate \<Rightarrow> OrderItemCreate" where [ent_defs]:
  "OrderItemCreate_SetVariantDescription v c = c\<lparr>ic_mutation := OrderItemMutation_SetVariantDescription v (ic_mutation c)\<rparr>"

definition OrderItemCreate_SetNillableVariantDescription :: "string option \<Rightarrow> OrderItemCreate \<Rightarrow> OrderItemCreate" where [ent_defs]:
  "OrderItemCreate_SetNillableVariantDescription v c = (case v of Some x \<Rightarrow> OrderItemCreate_SetVariantDescription x c | None \<Rightarrow> c)"

definition OrderItemCreate_SetUnitPrice :: "float64 \<Rightarrow> OrderItemCreate \<Rightarrow> OrderItemCreate" where [ent_defs]:
  "OrderItemCreate_SetUnitPrice v c = c\<lparr>ic_mutation := OrderItemMutation_SetUnitPrice v (ic_mutation c)\<rparr>"

definition OrderItemCreate_SetQuantity :: "i64 \<Rightarrow> OrderItemCreate \<Rightarrow> OrderItemCreate" where [ent_defs]:
  "OrderItemCreate_SetQuantity v c = c\<lparr>ic_mutation := OrderItemMutation_SetQuantity v (ic_mutation c)\<rparr>"

definition OrderItemCreate_SetTotalPrice :: "float64 \<Rightarrow> OrderItemCreate \<Rightarrow> OrderItemCreate" where [ent_defs]:
  "OrderItemCreate_SetTotalPrice v c = c\<lparr>ic_mutation := OrderItemMutation_SetTotalPrice v (ic_mutation c)\<rparr>"

definition OrderItemCreate_SetImageURL :: "string \<Rightarrow> OrderItemCreate \<Rightarrow> OrderItemCreate" where [ent_defs]:
  "OrderItemCreate_SetImageURL v c = c\<lparr>ic_mutation := OrderItemMutation_SetImageURL v (ic_mutation c)\<rparr>"

definition OrderItemCreate_SetNillableImageURL :: "string option \<Rightarrow> OrderItemCreate \<Rightarrow> OrderItemCreate" where [ent_defs]:
  "OrderItemCreate_SetNillableImageURL v c = (case v of Some x \<Rightarrow> OrderItemCreate_SetImageURL x c | None \<Rightarrow> c)"

definition OrderItemCreate_SetID :: "uuid \<Rightarrow> OrderItemCreate \<Rightarrow> OrderItemCreate" where [ent_defs]:
  "OrderItemCreate_SetID v c = c\<lparr>ic_mutation := OrderItemMutation_SetID v (ic_mutation c)\<rparr>"

definition OrderItemCreate_SetNillableID :: "uuid option \<Rightarrow> OrderItemCreate \<Rightarrow> OrderItemCreate" where [ent_defs]:
  "OrderItemCreate_SetNillableID v c = (case v of Some x \<Rightarrow> OrderItemCreate_SetID x c | None \<Rightarrow> c)"

definition OrderItemCreate_SetOrderID :: "uuid \<Rightarrow> OrderItemCreate \<Rightarrow> OrderItemCreate" where [ent_defs]:
  "OrderItemCreate_SetOrderID v c = c\<lparr>ic_mutation := OrderItemMutation_SetOrderID v (ic_mutation c)\<rparr>"

definition OrderItemCreate_SetOrder :: "Order \<Rightarrow> OrderItemCreate \<Rightarrow> OrderItemCreate" where [ent_defs]:
  "OrderItemCreate_SetOrder v c = OrderItemCreate_SetOrderID (o_ID v) c"

definition OrderItemCreate_defaults :: "('d, 'z) lib_scheme \<Rightarrow> OrderItemCreate \<Rightarrow> 'd \<Rightarrow> 'd \<times> OrderItemCreate" where
  "OrderItemCreate_defaults L c d =
     (let m = ic_mutation c;
          (d, m) = (case OrderItemMutation_CreatedAt m of Some _ \<Rightarrow> (d, m)
                    | None \<Rightarrow> (let (d, v) = time_Now L d in (d, OrderItemMutation_SetCreatedAt v m)));
          (d, m) = (case OrderItemMutation_UpdatedAt m of Some _ \<Rightarrow> (d, m)
                    | None \<Rightarrow> (let (d, v) = time_Now L d in (d, OrderItemMutation_SetUpdatedAt v m)));
          (d, m) = (case OrderItemMutation_ID m of Some _ \<Rightarrow> (d, m)
                    | None \<Rightarrow> (let (d, v) = uuid_New L d in (d, OrderItemMutation_SetID v m)))
      in (d, c\<lparr>ic_mutation := m\<rparr>))"

definition OrderItemCreate_check :: "('d, 'z) lib_scheme \<Rightarrow> OrderItemCreate \<Rightarrow> ent_error + unit" where
  "OrderItemCreate_check L c =
     (let m = ic_mutation c in
      if OrderItemMutation_CreatedAt m = None then
        Inl (ValidationError ''created_at'' (MissingField ''OrderItem.created_at''))
      else if OrderItemMutation_UpdatedAt m = None then
        Inl (ValidationError ''updated_at'' (MissingField ''OrderItem.updated_at''))
      else if OrderItemMutation_ProductID m = None then
        Inl (ValidationError ''product_id'' (MissingField ''OrderItem.product_id''))
      else if OrderItemMutation_VariantID m = None then
        Inl (ValidationError ''variant_id'' (MissingField ''OrderItem.variant_id''))
      else if OrderItemMutation_ProductName m = None then
        Inl (ValidationError ''product_name'' (MissingField ''OrderItem.product_name''))
      else if fails (orderitem_ProductNameValidator L) (OrderItemMutation_ProductName m) then
        Inl (ValidationError ''product_name'' (ValidatorFailed ''OrderItem.product_name''))
      else if OrderItemMutation_UnitPrice m = None then
        Inl (ValidationError ''unit_price'' (MissingField ''OrderItem.unit_price''))
      else if fails (orderitem_UnitPriceValidator L) (OrderItemMutation_UnitPrice m) then
        Inl (ValidationError ''unit_price'' (ValidatorFailed ''OrderItem.unit_price''))
      else if OrderItemMutation_Quantity m = None then
        Inl (ValidationError ''quantity'' (MissingField ''OrderItem.quantity''))
      else if fails (orderitem_QuantityValidator L) (OrderItemMutation_Quantity m) then
        Inl (ValidationError ''quantity'' (ValidatorFailed ''OrderItem.quantity''))
      else if OrderItemMutation_TotalPrice m = None then
        Inl (ValidationError ''total_price'' (MissingField ''OrderItem.total_price''))
      else if fails (orderitem_TotalPriceValidator L) (OrderItemMutation_TotalPrice m) then
        Inl (ValidationError ''total_price'' (ValidatorFailed ''OrderItem.total_price''))
      else if OrderItemMutation_OrderIDs m = [] then
        Inl (ValidationError ''order'' (MissingEdge ''OrderItem.order''))
      else Inr ())"

definition OrderItemCreate_createSpec :: "OrderItemCreate \<Rightarrow> OrderItem \<times> create_spec" where
  "OrderItemCreate_createSpec c =
     (let m = ic_mutation c in
      (\<lparr>oi_ID = or_zero (OrderItemMutation_ID m) (oi_ID zero_OrderItem),
        oi_CreatedAt = or_zero (OrderItemMutation_CreatedAt m) (oi_CreatedAt zero_OrderItem),
        oi_UpdatedAt = or_zero (OrderItemMutation_UpdatedAt m) (oi_UpdatedAt zero_OrderItem),
        oi_ProductID = or_zero (OrderItemMutation_ProductID m) (oi_ProductID zero_OrderItem),
        oi_VariantID = or_zero (OrderItemMutation_VariantID m) (oi_VariantID zero_OrderItem),
        oi_ProductName = or_zero (OrderItemMutation_ProductName m) (oi_ProductName zero_OrderItem),
        oi_VariantDescription = or_zero (OrderItemMutation_VariantDescription m) (oi_VariantDescription zero_OrderItem),
        oi_UnitPrice = or_zero (OrderItemMutation_UnitPrice m) (oi_UnitPrice zero_OrderItem),
        oi_Quantity = or_zero (OrderItemMutation_Quantity m) (oi_Quantity zero_OrderItem),
        oi_TotalPrice = or_zero (OrderItemMutation_TotalPrice m) (oi_TotalPrice zero_OrderItem),
        oi_ImageURL = or_zero (OrderItemMutation_ImageURL m) (oi_ImageURL zero_OrderItem),
        oi_order_items = (case OrderItemMutation_OrderIDs m of [] \<Rightarrow> None | k # _ \<Rightarrow> Some k)\<rparr>,
       \<lparr>cs_Table = orderitem_Table, cs_ID = OrderItemMutation_ID m,
        cs_Fields =
          spec_field FieldCreatedAt VTime (OrderItemMutation_CreatedAt m)
          @ spec_field FieldUpdatedAt VTime (OrderItemMutation_UpdatedAt m)
          @ spec_field orderitem_FieldProductID VUUID (OrderItemMutation_ProductID m)
          @ spec_field orderitem_FieldVariantID VUUID (OrderItemMutation_VariantID m)
          @ spec_field orderitem_FieldProductName VString (OrderItemMutation_ProductName m)
          @ spec_field orderitem_FieldVariantDescription VString (OrderItemMutation_VariantDescription m)
          @ spec_field orderitem_FieldUnitPrice VFloat (OrderItemMutation_UnitPrice m)
          @ spec_field orderitem_FieldQuantity VInt (OrderItemMutation_Quantity m)
          @ spec_field orderitem_FieldTotalPrice VFloat (OrderItemMutation_TotalPrice m)
          @ spec_field orderitem_FieldImageURL VString (OrderItemMutation_ImageURL m),
        cs_Edges = (case OrderItemMutation_OrderIDs m of [] \<Rightarrow> []
            | ks \<Rightarrow> [\<lparr>es_Rel = M2O, es_Inverse = True, es_Table = orderitem_OrderTable,
                      es_Columns = [orderitem_OrderColumn], es_Nodes = ks\<rparr>])\<rparr>))"

definition OrderItemCreate_sqlSave :: "('d, 'z) lib_scheme \<Rightarrow> OrderItemCreate \<Rightarrow> 'd \<Rightarrow> 'd \<times> (ent_error + OrderItem)" where
  "OrderItemCreate_sqlSave L c d =
     (case OrderItemCreate_check L c of
        Inl e \<Rightarrow> (d, Inl e)
      | Inr _ \<Rightarrow>
          let (node, spec) = OrderItemCreate_createSpec c in
          (case sqlgraph_CreateNode L (ic_driver c) spec d of
             (d, Some e) \<Rightarrow> (d, Inl (constraint_error e))
           | (d, None) \<Rightarrow> (d, Inr (case cs_ID spec of Some i \<Rightarrow> node\<lparr>oi_ID := i\<rparr> | None \<Rightarrow> node))))"

definition OrderItemCreate_Save :: "('d, 'z) lib_scheme \<Rightarrow> OrderItemCreate \<Rightarrow> 'd \<Rightarrow> 'd \<times> (ent_error + OrderItem)" where
  "OrderItemCreate_Save L c d = (let (d, c) = OrderItemCreate_defaults L c d in OrderItemCreate_sqlSave L c d)"

fun OrderItemCreateBulk_defaults :: "('d, 'z) lib_scheme \<Rightarrow> OrderItemCreate list \<Rightarrow> 'd \<Rightarrow> 'd \<times> OrderItemCreate list" where
  "OrderItemCreateBulk_defaults L [] d = (d, [])"
| "OrderItemCreateBulk_defaults L (c # cs) d =
     (let (d, c) = OrderItemCreate_defaults L c d; (d, cs) = OrderItemCreateBulk_defaults L cs d in (d, c # cs))"

fun OrderItemCreateBulk_mutate ::
    "('d, 'z) lib_scheme \<Rightarrow> driver \<Rightarrow> create_spec list \<Rightarrow> OrderItemCreate list \<Rightarrow> 'd \<Rightarrow> 'd \<times> (ent_error + OrderItem list)" where
  \<comment> \<open>the chain of mutators: each checks and specifies its builder and calls the next, the
    last performs the insert of all the specifications\<close>
  "OrderItemCreateBulk_mutate L drv specs [] d =
     (case sqlgraph_BatchCreate L drv specs d of
        (d, Some e) \<Rightarrow> (d, Inl (constraint_error e))
      | (d, None) \<Rightarrow> (d, Inr []))"
| "OrderItemCreateBulk_mutate L drv specs (c # cs) d =
     (case OrderItemCreate_check L c of
        Inl e \<Rightarrow> (d, Inl e)
      | Inr _ \<Rightarrow>
          let (node, spec) = OrderItemCreate_createSpec c in
          (case OrderItemCreateBulk_mutate L drv (specs @ [spec]) cs d of
             (d, Inl e) \<Rightarrow> (d, Inl e)
           | (d, Inr nodes) \<Rightarrow> (d, Inr (node # nodes))))"

definition OrderItemCreateBulk_Save ::
    "('d, 'z) lib_scheme \<Rightarrow> driver \<Rightarrow> OrderItemCreate list \<Rightarrow> 'd \<Rightarrow> 'd \<times> (ent_error + OrderItem list)" where
  "OrderItemCreateBulk_Save L drv builders d =
     (let (d, cs) = OrderItemCreateBulk_defaults L builders d in
      if cs = [] then (d, Inr []) else OrderItemCreateBulk_mutate L drv [] cs d)"

subsection \<open>Outbox events\<close>

record OutboxEventCreate =
  bc_driver :: driver
  bc_mutation :: OutboxEventMutation

definition OutboxEventClient_Create :: "driver \<Rightarrow> OutboxEventCreate" where [ent_defs]:
  "OutboxEventClient_Create drv = \<lparr>bc_driver = drv, bc_mutation = newOutboxEventMutation OpCreate\<rparr>"

definition OutboxEventCreate_SetCreatedAt :: "time \<Rightarrow> OutboxEventCreate \<Rightarrow> OutboxEventCreate" where [ent_defs]:
  "OutboxEventCreate_SetCreatedAt v c = c\<lparr>bc_mutation := OutboxEventMutation_SetCreatedAt v (bc_mutation c)\<rparr>"

definition OutboxEventCreate_SetNillableCreatedAt :: "time option \<Rightarrow> OutboxEventCreate \<Rightarrow> OutboxEventCreate" where [ent_defs]:
  "OutboxEventCreate_SetNillableCreatedAt v c = (case v of Some x \<Rightarrow> OutboxEventCreate_SetCreatedAt x c | None \<Rightarrow> c)"

definition OutboxEventCreate_SetUpdatedAt :: "time \<Rightarrow> OutboxEventCreate \<Rightarrow> OutboxEventCreate" where [ent_defs]:
  "OutboxEventCreate_SetUpdatedAt v c = c\<lparr>bc_mutation := OutboxEventMutation_SetUpdatedAt v (bc_mutation c)\<rparr>"

definition OutboxEventCreate_SetNillableUpdatedAt :: "time option \<Rightarrow> OutboxEventCreate \<Rightarrow> OutboxEventCreate" where [ent_defs]:
  "OutboxEventCreate_SetNillableUpdatedAt v c = (case v of Some x \<Rightarrow> OutboxEventCreate_SetUpdatedAt x c | None \<Rightarrow> c)"

definition OutboxEventCreate_SetAggregateType :: "string \<Rightarrow> OutboxEventCreate \<Rightarrow> OutboxEventCreate" where [ent_defs]:
  "OutboxEventCreate_SetAggregateType v c = c\<lparr>bc_mutation := OutboxEventMutation_SetAggregateType v (bc_mutation c)\<rparr>"

definition OutboxEventCreate_SetAggregateID :: "uuid \<Rightarrow> OutboxEventCreate \<Rightarrow> OutboxEventCreate" where [ent_defs]:
  "OutboxEventCreate_SetAggregateID v c = c\<lparr>bc_mutation := OutboxEventMutation_SetAggregateID v (bc_mutation c)\<rparr>"

definition OutboxEventCreate_SetEventType :: "string \<Rightarrow> OutboxEventCreate \<Rightarrow> OutboxEventCreate" where [ent_defs]:
  "OutboxEventCreate_SetEventType v c = c\<lparr>bc_mutation := OutboxEventMutation_SetEventType v (bc_mutation c)\<rparr>"

definition OutboxEventCreate_SetPayload :: "byte list \<Rightarrow> OutboxEventCreate \<Rightarrow> OutboxEventCreate" where [ent_defs]:
  "OutboxEventCreate_SetPayload v c = c\<lparr>bc_mutation := OutboxEventMutation_SetPayload v (bc_mutation c)\<rparr>"

definition OutboxEventCreate_SetProcessed :: "bool \<Rightarrow> OutboxEventCreate \<Rightarrow> OutboxEventCreate" where [ent_defs]:
  "OutboxEventCreate_SetProcessed v c = c\<lparr>bc_mutation := OutboxEventMutation_SetProcessed v (bc_mutation c)\<rparr>"

definition OutboxEventCreate_SetNillableProcessed :: "bool option \<Rightarrow> OutboxEventCreate \<Rightarrow> OutboxEventCreate" where [ent_defs]:
  "OutboxEventCreate_SetNillableProcessed v c = (case v of Some x \<Rightarrow> OutboxEventCreate_SetProcessed x c | None \<Rightarrow> c)"

definition OutboxEventCreate_SetID :: "uuid \<Rightarrow> OutboxEventCreate \<Rightarrow> OutboxEventCreate" where [ent_defs]:
  "OutboxEventCreate_SetID v c = c\<lparr>bc_mutation := OutboxEventMutation_SetID v (bc_mutation c)\<rparr>"

definition OutboxEventCreate_SetNillableID :: "uuid option \<Rightarrow> OutboxEventCreate \<Rightarrow> OutboxEventCreate" where [ent_defs]:
  "OutboxEventCreate_SetNillableID v c = (case v of Some x \<Rightarrow> OutboxEventCreate_SetID x c | None \<Rightarrow> c)"

definition OutboxEventCreate_constants :: "OutboxEventMutation \<Rightarrow> OutboxEventMutation" where
  \<comment> \<open>the defaults that are constants\<close>
  "OutboxEventCreate_constants m =
     (let m = (case OutboxEventMutation_Processed m of Some _ \<Rightarrow> m | None \<Rightarrow> OutboxEventMutation_SetProcessed outboxevent_DefaultProcessed m)
      in m)"

definition OutboxEventCreate_defaults :: "('d, 'z) lib_scheme \<Rightarrow> OutboxEventCreate \<Rightarrow> 'd \<Rightarrow> 'd \<times> OutboxEventCreate" where
  "OutboxEventCreate_defaults L c d =
     (let m = bc_mutation c;
          (d, m) = (case OutboxEventMutation_CreatedAt m of Some _ \<Rightarrow> (d, m)
                    | None \<Rightarrow> (let (d, v) = time_Now L d in (d, OutboxEventMutation_SetCreatedAt v m)));
          (d, m) = (case OutboxEventMutation_UpdatedAt m of Some _ \<Rightarrow> (d, m)
                    | None \<Rightarrow> (let (d, v) = time_Now L d in (d, OutboxEventMutation_SetUpdatedAt v m)));
          m = OutboxEventCreate_constants m;
          (d, m) = (case OutboxEventMutation_ID m of Some _ \<Rightarrow> (d, m)
                    | None \<Rightarrow> (let (d, v) = uuid_New L d in (d, OutboxEventMutation_SetID v m)))
      in (d, c\<lparr>bc_mutation := m\<rparr>))"

definition OutboxEventCreate_check :: "OutboxEventCreate \<Rightarrow> ent_error + unit" where
  "OutboxEventCreate_check c =
     (let m = bc_mutation c in
      if OutboxEventMutation_CreatedAt m = None then
        Inl (ValidationError ''created_at'' (MissingField ''OutboxEvent.created_at''))
      else if OutboxEventMutation_UpdatedAt m = None then
        Inl (ValidationError ''updated_at'' (MissingField ''OutboxEvent.updated_at''))
      else if OutboxEventMutation_AggregateType m = None then
        Inl (ValidationError ''aggregate_type'' (MissingField ''OutboxEvent.aggregate_type''))
      else if OutboxEventMutation_AggregateID m = None then
        Inl (ValidationError ''aggregate_id'' (MissingField ''OutboxEvent.aggregate_id''))
      else if OutboxEventMutation_EventType m = None then
        Inl (ValidationError ''event_type'' (MissingField ''OutboxEvent.event_type''))
      else if OutboxEventMutation_Payload m = None then
        Inl (ValidationError ''payload'' (MissingField ''OutboxEvent.payload''))
      else if OutboxEventMutation_Processed m = None then
        Inl (ValidationError ''processed'' (MissingField ''OutboxEvent.processed''))
      else Inr ())"

definition OutboxEventCreate_createSpec :: "OutboxEventCreate \<Rightarrow> OutboxEvent \<times> create_spec" where
  "OutboxEventCreate_createSpec c =
     (let m = bc_mutation c in
      (\<lparr>ob_ID = or_zero (OutboxEventMutation_ID m) (ob_ID zero_OutboxEvent),
        ob_CreatedAt = or_zero (OutboxEventMutation_CreatedAt m) (ob_CreatedAt zero_OutboxEvent),
        ob_UpdatedAt = or_zero (OutboxEventMutation_UpdatedAt m) (ob_UpdatedAt zero_OutboxEvent),
        ob_AggregateType = or_zero (OutboxEventMutation_AggregateType m) (ob_AggregateType zero_OutboxEvent),
        ob_AggregateID = or_zero (OutboxEventMutation_AggregateID m) (ob_AggregateID zero_OutboxEvent),
        ob_EventType = or_zero (OutboxEventMutation_EventType m) (ob_EventType zero_OutboxEvent),
        ob_Payload = or_zero (OutboxEventMutation_Payload m) (ob_Payload zero_OutboxEvent),
        ob_Processed = or_zero (OutboxEventMutation_Processed m) (ob_Processed zero_OutboxEvent)\<rparr>,
       \<lparr>cs_Table = outboxevent_Table, cs_ID = OutboxEventMutation_ID m,
        cs_Fields =
          spec_field FieldCreatedAt VTime (OutboxEventMutation_CreatedAt m)
          @ spec_field FieldUpdatedAt VTime (OutboxEventMutation_UpdatedAt m)
          @ spec_field outboxevent_FieldAggregateType VString (OutboxEventMutation_AggregateType m)
          @ spec_field outboxevent_FieldAggregateID VUUID (OutboxEventMutation_AggregateID m)
          @ spec_field outboxevent_FieldEventType VString (OutboxEventMutation_EventType m)
          @ spec_field outboxevent_FieldPayload VBytes (OutboxEventMutation_Payload m)
          @ spec_field outboxevent_FieldProcessed VBool (OutboxEventMutation_Processed m),
        cs_Edges = []\<rparr>))"

definition OutboxEventCreate_sqlSave :: "('d, 'z) lib_scheme \<Rightarrow> OutboxEventCreate \<Rightarrow> 'd \<Rightarrow> 'd \<times> (ent_error + OutboxEvent)" where
  "OutboxEventCreate_sqlSave L c d =
     (case OutboxEventCreate_check c of
        Inl e \<Rightarrow> (d, Inl e)
      | Inr _ \<Rightarrow>
          let (node, spec) = OutboxEventCreate_createSpec c in
          (case sqlgraph_CreateNode L (bc_driver c) spec d of
             (d, Some e) \<Rightarrow> (d, Inl (constraint_error e))
           | (d, None) \<Rightarrow> (d, Inr (case cs_ID spec of Some i \<Rightarrow> node\<lparr>ob_ID := i\<rparr> | None \<Rightarrow> node))))"

definition OutboxEventCreate_Save :: "('d, 'z) lib_scheme \<Rightarrow> OutboxEventCreate \<Rightarrow> 'd \<Rightarrow> 'd \<times> (ent_error + OutboxEvent)" where
  "OutboxEventCreate_Save L c d = (let (d, c) = OutboxEventCreate_defaults L c d in OutboxEventCreate_sqlSave L c d)"

end
