(* ===== verification/EntUpdate.thy ===== *)
theory EntUpdate
  imports EntCreate
begin

text \<open>
  The single-entity update builders (\<open>order_update.go\<close>, \<open>outboxevent_update.go\<close>): the
  fields to set are collected in a mutation with the entity's id; \<open>Save\<close> stamps
  \<open>updated_at\<close>, checks the values, and asks \<open>sqlgraph\<close> for the update.
\<close>

definition update_error :: "string \<Rightarrow> ent_error \<Rightarrow> ent_error" where
  "update_error label e =
     (case e of
        SqlError SqlNotFound \<Rightarrow> NotFoundError label
      | SqlError (SqlConstraint msg) \<Rightarrow> ConstraintError msg
      | _ \<Rightarrow> e)"

subsection \<open>Orders\<close>

record OrderUpdateOne =
  ou_driver :: driver
  ou_fields :: "string list"
  ou_mutation :: OrderMutation

definition OrderClient_UpdateOneID :: "driver \<Rightarrow> uuid \<Rightarrow> OrderUpdateOne" where [ent_defs]:
  "OrderClient_UpdateOneID drv i =
     \<lparr>ou_driver = drv, ou_fields = [],
      ou_mutation = withOrderID i (newOrderMutation OpUpdateOne)\<rparr>"

definition OrderClient_UpdateOne :: "driver \<Rightarrow> Order \<Rightarrow> OrderUpdateOne" where [ent_defs]:
  "OrderClient_UpdateOne drv m =
     \<lparr>ou_driver = drv, ou_fields = [],
      ou_mutation = withOrder m (newOrderMutation OpUpdateOne)\<rparr>"

definition OrderUpdateOne_SetUpdatedAt :: "time \<Rightarrow> OrderUpdateOne \<Rightarrow> OrderUpdateOne" where [ent_defs]:
  "OrderUpdateOne_SetUpdatedAt v c = c\<lparr>ou_mutation := OrderMutation_SetUpdatedAt v (ou_mutation c)\<rparr>"

definition OrderUpdateOne_SetCustomerID :: "uuid \<Rightarrow> OrderUpdateOne \<Rightarrow> OrderUpdateOne" where [ent_defs]:
  "OrderUpdateOne_SetCustomerID v c = c\<lparr>ou_mutation := OrderMutation_SetCustomerID v (ou_mutation c)\<rparr>"

definition OrderUpdateOne_SetNillableCustomerID :: "uuid option \<Rightarrow> OrderUpdateOne \<Rightarrow> OrderUpdateOne" where [ent_defs]:
  "OrderUpdateOne_SetNillableCustomerID v c = (case v of Some x \<Rightarrow> OrderUpdateOne_SetCustomerID x c | None \<Rightarrow> c)"

definition OrderUpdateOne_SetStatus :: "status \<Rightarrow> OrderUpdateOne \<Rightarrow> OrderUpdateOne" where [ent_defs]:
  "OrderUpdateOne_SetStatus v c = c\<lparr>ou_mutation := OrderMutation_SetStatus v (ou_mutation c)\<rparr>"

definition OrderUpdateOne_SetNillableStatus :: "status option \<Rightarrow> OrderUpdateOne \<Rightarrow> OrderUpdateOne" where [ent_defs]:
  "OrderUpdateOne_SetNillableStatus v c = (case v of Some x \<Rightarrow> OrderUpdateOne_SetStatus x c | None \<Rightarrow> c)"

definition OrderUpdateOne_SetSubtotal :: "float64 \<Rightarrow> OrderUpdateOne \<Rightarrow> OrderUpdateOne" where [ent_defs]:
  "OrderUpdateOne_SetSubtotal v c =
     c\<lparr>ou_mutation := OrderMutation_SetSubtotal v (OrderMutation_ResetSubtotal (ou_mutation c))\<rparr>"

definition OrderUpdateOne_SetNillableSubtotal :: "float64 option \<Rightarrow> OrderUpdateOne \<Rightarrow> OrderUpdateOne" where [ent_defs]:
  "OrderUpdateOne_SetNillableSubtotal v c = (case v of Some x \<Rightarrow> OrderUpdateOne_SetSubtotal x c | None \<Rightarrow> c)"

definition OrderUpdateOne_AddSubtotal :: "float64 \<Rightarrow> OrderUpdateOne \<Rightarrow> OrderUpdateOne" where [ent_defs]:
  "OrderUpdateOne_AddSubtotal v c = c\<lparr>ou_mutation := OrderMutation_AddSubtotal v (ou_mutation c)\<rparr>"

definition OrderUpdateOne_SetTax :: "float64 \<Rightarrow> OrderUpdateOne \<Rightarrow> OrderUpdateOne" where [ent_defs]:
  "OrderUpdateOne_SetTax v c =
     c\<lparr>ou_mutation := OrderMutation_SetTax v (OrderMutation_ResetTax (ou_mutation c))\<rparr>"

definition OrderUpdateOne_SetNillableTax :: "float64 option \<Rightarrow> OrderUpdateOne \<Rightarrow> OrderUpdateOne" where [ent_defs]:
  "OrderUpdateOne_SetNillableTax v c = (case v of Some x \<Rightarrow> OrderUpdateOne_SetTax x c | None \<Rightarrow> c)"

definition OrderUpdateOne_AddTax :: "float64 \<Rightarrow> OrderUpdateOne \<Rightarrow> OrderUpdateOne" where [ent_defs]:
  "OrderUpdateOne_AddTax v c = c\<lparr>ou_mutation := OrderMutation_AddTax v (ou_mutation c)\<rparr>"

definition OrderUpdateOne_SetShippingCost :: "float64 \<Rightarrow> OrderUpdateOne \<Rightarrow> OrderUpdateOne" where [ent_defs]:
  "OrderUpdateOne_SetShippingCost v c =
     c\<lparr>ou_mutation := OrderMutation_SetShippingCost v (OrderMutation_ResetShippingCost (ou_mutation c))\<rparr>"

definition OrderUpdateOne_SetNillableShippingCost :: "float64 option \<Rightarrow> OrderUpdateOne \<Rightarrow> OrderUpdateOne" where [ent_defs]:
  "OrderUpdateOne_SetNillableShippingCost v c = (case v of Some x \<Rightarrow> OrderUpdateOne_SetShippingCost x c | None \<Rightarrow> c)"

definition OrderUpdateOne_AddShippingCost :: "float64 \<Rightarrow> OrderUpdateOne \<Rightarrow> OrderUpdateOne" where [ent_defs]:
  "OrderUpdateOne_AddShippingCost v c = c\<lparr>ou_mutation := OrderMutation_AddShippingCost v (ou_mutation c)\<rparr>"

definition OrderUpdateOne_SetTotal :: "float64 \<Rightarrow> OrderUpdateOne \<Rightarrow> OrderUpdateOne" where [ent_defs]:
  "OrderUpdateOne_SetTotal v c =
     c\<lparr>ou_mutation := OrderMutation_SetTotal v (OrderMutation_ResetTotal (ou_mutation c))\<rparr>"

definition OrderUpdateOne_SetNillableTotal :: "float64 option \<Rightarrow> OrderUpdateOne \<Rightarrow> OrderUpdateOne" where [ent_defs]:
  "OrderUpdateOne_SetNillableTotal v c = (case v of Some x \<Rightarrow> OrderUpdateOne_SetTotal x c | None \<Rightarrow> c)"

definition OrderUpdateOne_AddTotal :: "float64 \<Rightarrow> OrderUpdateOne \<Rightarrow> OrderUpdateOne" where [ent_defs]:
  "OrderUpdateOne_AddTotal v c = c\<lparr>ou_mutation := OrderMutation_AddTotal v (ou_mutation c)\<rparr>"

definition OrderUpdateOne_SetShippingAddress :: "string \<Rightarrow> OrderUpdateOne \<Rightarrow> OrderUpdateOne" where [ent_defs]:
  "OrderUpdateOne_SetShippingAddress v c = c\<lparr>ou_mutation := OrderMutation_SetShippingAddress v (ou_mutation c)\<rparr>"

definition OrderUpdateOne_SetNillableShippingAddress :: "string option \<Rightarrow> OrderUpdateOne \<Rightarrow> OrderUpdateOne" where [ent_defs]:
  "OrderUpdateOne_SetNillableShippingAddress v c = (case v of Some x \<Rightarrow> OrderUpdateOne_SetShippingAddress x c | None \<Rightarrow> c)"

definition OrderUpdateOne_SetBillingAddress :: "string \<Rightarrow> OrderUpdateOne \<Rightarrow> OrderUpdateOne" where [ent_defs]:
  "OrderUpdateOne_SetBillingAddress v c = c\<lparr>ou_mutation := OrderMutation_SetBillingAddress v (ou_mutation c)\<rparr>"

definition OrderUpdateOne_SetNillableBillingAddress :: "string option \<Rightarrow> OrderUpdateOne \<Rightarrow> OrderUpdateOne" where [ent_defs]:
  "OrderUpdateOne_SetNillableBillingAddress v c = (case v of Some x \<Rightarrow> OrderUpdateOne_SetBillingAddress x c | None \<Rightarrow> c)"

definition OrderUpdateOne_SetErrorMessage :: "string \<Rightarrow> OrderUpdateOne \<Rightarrow> OrderUpdateOne" where [ent_defs]:
  "OrderUpdateOne_SetErrorMessage v c = c\<lparr>ou_mutation := OrderMutation_SetErrorMessage v (ou_mutation c)\<rparr>"

definition OrderUpdateOne_SetNillableErrorMessage :: "string option \<Rightarrow> OrderUpdateOne \<Rightarrow> OrderUpdateOne" where [ent_defs]:
  "OrderUpdateOne_SetNillableErrorMessage v c = (case v of Some x \<Rightarrow> OrderUpdateOne_SetErrorMessage x c | None \<Rightarrow> c)"

definition OrderUpdateOne_ClearErrorMessage :: "OrderUpdateOne \<Rightarrow> OrderUpdateOne" where [ent_defs]:
  "OrderUpdateOne_ClearErrorMessage c = c\<lparr>ou_mutation := OrderMutation_ClearErrorMessage (ou_mutation c)\<rparr>"

definition OrderUpdateOne_AddItemIDs :: "uuid list \<Rightarrow> OrderUpdateOne \<Rightarrow> OrderUpdateOne" where [ent_defs]:
  "OrderUpdateOne_AddItemIDs ids c = c\<lparr>ou_mutation := OrderMutation_AddItemIDs ids (ou_mutation c)\<rparr>"

definition OrderUpdateOne_AddItems :: "OrderItem list \<Rightarrow> OrderUpdateOne \<Rightarrow> OrderUpdateOne" where [ent_defs]:
  "OrderUpdateOne_AddItems v c = OrderUpdateOne_AddItemIDs (map oi_ID v) c"

definition OrderUpdateOne_ClearItems :: "OrderUpdateOne \<Rightarrow> OrderUpdateOne" where [ent_defs]:
  "OrderUpdateOne_ClearItems c = c\<lparr>ou_mutation := OrderMutation_ClearItems (ou_mutation c)\<rparr>"

definition OrderUpdateOne_RemoveItemIDs :: "uuid list \<Rightarrow> OrderUpdateOne \<Rightarrow> OrderUpdateOne" where [ent_defs]:
  "OrderUpdateOne_RemoveItemIDs ids c = c\<lparr>ou_mutation := OrderMutation_RemoveItemIDs ids (ou_mutation c)\<rparr>"

definition OrderUpdateOne_RemoveItems :: "OrderItem list \<Rightarrow> OrderUpdateOne \<Rightarrow> OrderUpdateOne" where [ent_defs]:
  "OrderUpdateOne_RemoveItems v c = OrderUpdateOne_RemoveItemIDs (map oi_ID v) c"

definition OrderUpdateOne_Where :: "sql_pred list \<Rightarrow> OrderUpdateOne \<Rightarrow> OrderUpdateOne" where [ent_defs]:
  "OrderUpdateOne_Where ps c = c\<lparr>ou_mutation := OrderMutation_Where ps (ou_mutation c)\<rparr>"

definition OrderUpdateOne_Select :: "string \<Rightarrow> string list \<Rightarrow> OrderUpdateOne \<Rightarrow> OrderUpdateOne" where [ent_defs]:
  "OrderUpdateOne_Select f fs c = c\<lparr>ou_fields := f # fs\<rparr>"

definition OrderUpdateOne_defaults :: "('d, 'z) lib_scheme \<Rightarrow> OrderUpdateOne \<Rightarrow> 'd \<Rightarrow> 'd \<times> OrderUpdateOne" where
  "OrderUpdateOne_defaults L u d =
     (case OrderMutation_UpdatedAt (ou_mutation u) of
        Some _ \<Rightarrow> (d, u)
      | None \<Rightarrow>
          let (d, v) = time_Now L d in
          (d, u\<lparr>ou_mutation := OrderMutation_SetUpdatedAt v (ou_mutation u)\<rparr>))"

definition OrderUpdateOne_check :: "('d, 'z) lib_scheme \<Rightarrow> OrderUpdateOne \<Rightarrow> ent_error + unit" where
  "OrderUpdateOne_check L u =
     (let m = ou_mutation u in
      if fails StatusValidator (OrderMutation_Status m) then
        Inl (ValidationError ''status'' (ValidatorFailed ''Order.status''))
      else if fails (order_SubtotalValidator L) (OrderMutation_Subtotal m) then
        Inl (ValidationError ''subtotal'' (ValidatorFailed ''Order.subtotal''))
      else if fails (order_TaxValidator L) (OrderMutation_Tax m) then
        Inl (ValidationError ''tax'' (ValidatorFailed ''Order.tax''))
      else if fails (order_ShippingCostValidator L) (OrderMutation_ShippingCost m) then
        Inl (ValidationError ''shipping_cost'' (ValidatorFailed ''Order.shipping_cost''))
      else if fails (order_TotalValidator L) (OrderMutation_Total m) then
        Inl (ValidationError ''total'' (ValidatorFailed ''Order.total''))
      else Inr ())"

definition OrderUpdateOne_updateSpec :: "uuid \<Rightarrow> string list \<Rightarrow> OrderUpdateOne \<Rightarrow> update_spec" where
  "OrderUpdateOne_updateSpec i columns u =
     (let m = ou_mutation u in
       \<lparr>us_Table = order_Table, us_Columns = columns, us_ID = Some i,
        us_Predicates = om_predicates m,
        us_Set =
          spec_field FieldUpdatedAt VTime (OrderMutation_UpdatedAt m)
          @ spec_field order_FieldCustomerID VUUID (OrderMutation_CustomerID m)
          @ spec_field order_FieldStatus VStatus (OrderMutation_Status m)
          @ spec_field order_FieldSubtotal VFloat (OrderMutation_Subtotal m)
          @ spec_field order_FieldTax VFloat (OrderMutation_Tax m)
          @ spec_field order_FieldShippingCost VFloat (OrderMutation_ShippingCost m)
          @ spec_field order_FieldTotal VFloat (OrderMutation_Total m)
          @ spec_field order_FieldShippingAddress VString (OrderMutation_ShippingAddress m)
          @ spec_field order_FieldBillingAddress VString (OrderMutation_BillingAddress m)
          @ spec_field order_FieldErrorMessage VString (OrderMutation_ErrorMessage m),
        us_Add =
          spec_field order_FieldSubtotal VFloat (OrderMutation_AddedSubtotal m)
          @ spec_field order_FieldTax VFloat (OrderMutation_AddedTax m)
          @ spec_field order_FieldShippingCost VFloat (OrderMutation_AddedShippingCost m)
          @ spec_field order_FieldTotal VFloat (OrderMutation_AddedTotal m),
        us_Clear = (if OrderMutation_ErrorMessageCleared m then [order_FieldErrorMessage] else []),
        us_EdgesClear =
          (if OrderMutation_ItemsCleared m
           then [\<lparr>es_Rel = O2M, es_Inverse = False, es_Table = order_ItemsTable,
                es_Columns = [order_ItemsColumn], es_Nodes = []\<rparr>] else [])
          @ (if OrderMutation_RemovedItemsIDs m \<noteq> [] \<and> \<not> OrderMutation_ItemsCleared m
             then [\<lparr>es_Rel = O2M, es_Inverse = False, es_Table = order_ItemsTable,
                es_Columns = [order_ItemsColumn], es_Nodes = OrderMutation_RemovedItemsIDs m\<rparr>] else []),
        us_EdgesAdd =
          (if OrderMutation_ItemsIDs m \<noteq> []
           then [\<lparr>es_Rel = O2M, es_Inverse = False, es_Table = order_ItemsTable,
                es_Columns = [order_ItemsColumn], es_Nodes = OrderMutation_ItemsIDs m\<rparr>] else []),
        us_ScanValues = Order_scanValues,
        us_Assign = (\<lambda>cols vs. error_of (Order_assignValues cols vs zero_Order))\<rparr>)"

definition OrderUpdateOne_columns :: "OrderUpdateOne \<Rightarrow> ent_error + string list" where
  "OrderUpdateOne_columns u =
     (if ou_fields u = [] then Inr order_Columns
      else range_loop (\<lambda>f cols.
             if \<not> order_ValidColumn f then Inl (ValidationError f (InvalidColumn f))
             else if f \<noteq> FieldID then Inr (cols @ [f]) else Inr cols) (ou_fields u) [FieldID])"

definition OrderUpdateOne_sqlSave :: "('d, 'z) lib_scheme \<Rightarrow> OrderUpdateOne \<Rightarrow> 'd \<Rightarrow> 'd \<times> (ent_error + Order)" where
  "OrderUpdateOne_sqlSave L u d =
     (case OrderUpdateOne_check L u of
        Inl e \<Rightarrow> (d, Inl e)
      | Inr _ \<Rightarrow>
          (case OrderMutation_ID (ou_mutation u) of
             None \<Rightarrow> (d, Inl (ValidationError ''id'' (MissingID ''Order.id'')))
           | Some i \<Rightarrow>
               (case OrderUpdateOne_columns u of
                  Inl e \<Rightarrow> (d, Inl e)
                | Inr columns \<Rightarrow>
                    (case sqlgraph_UpdateNode L (ou_driver u) (OrderUpdateOne_updateSpec i columns u) d of
                       (d, Inl e) \<Rightarrow> (d, Inl (update_error order_Label e))
                     | (d, Inr vs) \<Rightarrow> (d, Order_assignValues columns vs zero_Order)))))"

definition OrderUpdateOne_Save :: "('d, 'z) lib_scheme \<Rightarrow> OrderUpdateOne \<Rightarrow> 'd \<Rightarrow> 'd \<times> (ent_error + Order)" where
  "OrderUpdateOne_Save L u d = (let (d, u) = OrderUpdateOne_defaults L u d in OrderUpdateOne_sqlSave L u d)"

subsection \<open>Outbox events\<close>

record OutboxEventUpdateOne =
  bu_driver :: driver
  bu_fields :: "string list"
  bu_mutation :: OutboxEventMutation

definition OutboxEventClient_UpdateOneID :: "driver \<Rightarrow> uuid \<Rightarrow> OutboxEventUpdateOne" where [ent_defs]:
  "OutboxEventClient_UpdateOneID drv i =
     \<lparr>bu_driver = drv, bu_fields = [],
      bu_mutation = withOutboxEventID i (newOutboxEventMutation OpUpdateOne)\<rparr>"

definition OutboxEventClient_UpdateOne :: "driver \<Rightarrow> OutboxEvent \<Rightarrow> OutboxEventUpdateOne" where [ent_defs]:
  "OutboxEventClient_UpdateOne drv m =
     \<lparr>bu_driver = drv, bu_fields = [],
      bu_mutation = withOutboxEvent m (newOutboxEventMutation OpUpdateOne)\<rparr>"

definition OutboxEventUpdateOne_SetUpdatedAt :: "time \<Rightarrow> OutboxEventUpdateOne \<Rightarrow> OutboxEventUpdateOne" where [ent_defs]:
  "OutboxEventUpdateOne_SetUpdatedAt v c = c\<lparr>bu_mutation := OutboxEventMutation_SetUpdatedAt v (bu_mutation c)\<rparr>"

definition OutboxEventUpdateOne_SetAggregateType :: "string \<Rightarrow> OutboxEventUpdateOne \<Rightarrow> OutboxEventUpdateOne" where [ent_defs]:
  "OutboxEventUpdateOne_SetAggregateType v c = c\<lparr>bu_mutation := OutboxEventMutation_SetAggregateType v (bu_mutation c)\<rparr>"

definition OutboxEventUpdateOne_SetNillableAggregateType :: "string option \<Rightarrow> OutboxEventUpdateOne \<Rightarrow> OutboxEventUpdateOne" where [ent_defs]:
  "OutboxEventUpdateOne_SetNillableAggregateType v c = (case v of Some x \<Rightarrow> OutboxEventUpdateOne_SetAggregateType x c | None \<Rightarrow> c)"

definition OutboxEventUpdateOne_SetAggregateID :: "uuid \<Rightarrow> OutboxEventUpdateOne \<Rightarrow> OutboxEventUpdateOne" where [ent_defs]:
  "OutboxEventUpdateOne_SetAggregateID v c = c\<lparr>bu_mutation := OutboxEventMutation_SetAggregateID v (bu_mutation c)\<rparr>"

definition OutboxEventUpdateOne_SetNillableAggregateID :: "uuid option \<Rightarrow> OutboxEventUpdateOne \<Rightarrow> OutboxEventUpdateOne" where [ent_defs]:
  "OutboxEventUpdateOne_SetNillableAggregateID v c = (case v of Some x \<Rightarrow> OutboxEventUpdateOne_SetAggregateID x c | None \<Rightarrow> c)"

definition OutboxEventUpdateOne_SetEventType :: "string \<Rightarrow> OutboxEventUpdateOne \<Rightarrow> OutboxEventUpdateOne" where [ent_defs]:
  "OutboxEventUpdateOne_SetEventType v c = c\<lparr>bu_mutation := OutboxEventMutation_SetEventType v (bu_mutation c)\<rparr>"

definition OutboxEventUpdateOne_SetNillableEventType :: "string option \<Rightarrow> OutboxEventUpdateOne \<Rightarrow> OutboxEventUpdateOne" where [ent_defs]:
  "OutboxEventUpdateOne_SetNillableEventType v c = (case v of Some x \<Rightarrow> OutboxEventUpdateOne_SetEventType x c | None \<Rightarrow> c)"

definition OutboxEventUpdateOne_SetPayload :: "byte list \<Rightarrow> OutboxEventUpdateOne \<Rightarrow> OutboxEventUpdateOne" where [ent_defs]:
  "OutboxEventUpdateOne_SetPayload v c = c\<lparr>bu_mutation := OutboxEventMutation_SetPayload v (bu_mutation c)\<rparr>"

definition OutboxEventUpdateOne_SetProcessed :: "bool \<Rightarrow> OutboxEventUpdateOne \<Rightarrow> OutboxEventUpdateOne" where [ent_defs]:
  "OutboxEventUpdateOne_SetProcessed v c = c\<lparr>bu_mutation := OutboxEventMutation_SetProcessed v (bu_mutation c)\<rparr>"

definition OutboxEventUpdateOne_SetNillableProcessed :: "bool option \<Rightarrow> OutboxEventUpdateOne \<Rightarrow> OutboxEventUpdateOne" where [ent_defs]:
  "OutboxEventUpdateOne_SetNillableProcessed v c = (case v of Some x \<Rightarrow> OutboxEventUpdateOne_SetProcessed x c | None \<Rightarrow> c)"

definition OutboxEventUpdateOne_Where :: "sql_pred list \<Rightarrow> OutboxEventUpdateOne \<Rightarrow> OutboxEventUpdateOne" where [ent_defs]:
  "OutboxEventUpdateOne_Where ps c = c\<lparr>bu_mutation := OutboxEventMutation_Where ps (bu_mutation c)\<rparr>"

definition OutboxEventUpdateOne_Select :: "string \<Rightarrow> string list \<Rightarrow> OutboxEventUpdateOne \<Rightarrow> OutboxEventUpdateOne" where [ent_defs]:
  "OutboxEventUpdateOne_Select f fs c = c\<lparr>bu_fields := f # fs\<rparr>"

definition OutboxEventUpdateOne_defaults :: "('d, 'z) lib_scheme \<Rightarrow> OutboxEventUpdateOne \<Rightarrow> 'd \<Rightarrow> 'd \<times> OutboxEventUpdateOne" where
  "OutboxEventUpdateOne_defaults L u d =
     (case OutboxEventMutation_UpdatedAt (bu_mutation u) of
        Some _ \<Rightarrow> (d, u)
      | None \<Rightarrow>
          let (d, v) = time_Now L d in
          (d, u\<lparr>bu_mutation := OutboxEventMutation_SetUpdatedAt v (bu_mutation u)\<rparr>))"

definition OutboxEventUpdateOne_updateSpec :: "uuid \<Rightarrow> string list \<Rightarrow> OutboxEventUpdateOne \<Rightarrow> update_spec" where
  "OutboxEventUpdateOne_updateSpec i columns u =
     (let m = bu_mutation u in
       \<lparr>us_Table = outboxevent_Table, us_Columns = columns, us_ID = Some i,
        us_Predicates = bm_predicates m,
        us_Set =
          spec_field FieldUpdatedAt VTime (OutboxEventMutation_UpdatedAt m)
          @ spec_field outboxevent_FieldAggregateType VString (OutboxEventMutation_AggregateType m)
          @ spec_field outboxevent_FieldAggregateID VUUID (OutboxEventMutation_AggregateID m)
          @ spec_field outboxevent_FieldEventType VString (OutboxEventMutation_EventType m)
          @ spec_field outboxevent_FieldPayload VBytes (OutboxEventMutation_Payload m)
          @ spec_field outboxevent_FieldProcessed VBool (OutboxEventMutation_Processed m),
        us_Add =
          [],
        us_Clear = [],
        us_EdgesClear = [], us_EdgesAdd = [],
        us_ScanValues = OutboxEvent_scanValues,
        us_Assign = (\<lambda>cols vs. error_of (OutboxEvent_assignValues cols vs zero_OutboxEvent))\<rparr>)"

definition OutboxEventUpdateOne_columns :: "OutboxEventUpdateOne \<Rightarrow> ent_error + string list" where
  "OutboxEventUpdateOne_columns u =
     (if bu_fields u = [] then Inr outboxevent_Columns
      else range_loop (\<lambda>f cols.
             if \<not> outboxevent_ValidColumn f then Inl (ValidationError f (InvalidColumn f))
             else if f \<noteq> FieldID then Inr (cols @ [f]) else Inr cols) (bu_fields u) [FieldID])"

definition OutboxEventUpdateOne_sqlSave :: "('d, 'z) lib_scheme \<Rightarrow> OutboxEventUpdateOne \<Rightarrow> 'd \<Rightarrow> 'd \<times> (ent_error + OutboxEvent)" where
  "OutboxEventUpdateOne_sqlSave L u d =
     ((case OutboxEventMutation_ID (bu_mutation u) of
             None \<Rightarrow> (d, Inl (ValidationError ''id'' (MissingID ''OutboxEvent.id'')))
           | Some i \<Rightarrow>
               (case OutboxEventUpdateOne_columns u of
                  Inl e \<Rightarrow> (d, Inl e)
                | Inr columns \<Rightarrow>
                    (case sqlgraph_UpdateNode L (bu_driver u) (OutboxEventUpdateOne_updateSpec i columns u) d of
                       (d, Inl e) \<Rightarrow> (d, Inl (update_error outboxevent_Label e))
                     | (d, Inr vs) \<Rightarrow> (d, OutboxEvent_assignValues columns vs zero_OutboxEvent)))))"

definition OutboxEventUpdateOne_Save :: "('d, 'z) lib_scheme \<Rightarrow> OutboxEventUpdateOne \<Rightarrow> 'd \<Rightarrow> 'd \<times> (ent_error + OutboxEvent)" where
  "OutboxEventUpdateOne_Save L u d = (let (d, u) = OutboxEventUpdateOne_defaults L u d in OutboxEventUpdateOne_sqlSave L u d)"

end
