(* ===== verification/EntQuery.thy ===== *)
theory EntQuery
  imports SqlEngine
begin

text \<open>
  The query builders of the entity layer (\<open>order_query.go\<close>, \<open>orderitem_query.go\<close>,
  \<open>outboxevent_query.go\<close>): predicates, ordering and paging are collected and handed to
  \<open>sqlgraph\<close>, and the scanned rows are assigned to entities. The services register no
  interceptors and traverse no edge except by eager loading (\<open>WithItems\<close>), so the fields
  \<open>inters\<close>, \<open>path\<close> and \<open>sql\<close> of a query keep their zero values and are left out.
\<close>

text \<open>\<open>ent.Asc\<close>, \<open>ent.Desc\<close>: an invalid column is an error of the selector.\<close>

definition ent_Asc :: "string list \<Rightarrow> order_term list" where [ent_defs]:
  "ent_Asc columns = map OrderAsc columns"

definition ent_Desc :: "string list \<Rightarrow> order_term list" where [ent_defs]:
  "ent_Desc columns = map OrderDesc columns"

definition order_terms_check :: "(string \<Rightarrow> bool) \<Rightarrow> order_term list \<Rightarrow> ent_error + unit" where
  "order_terms_check valid terms =
     range_loop (\<lambda>t u. if \<not> valid (term_column t)
                    then Inl (ValidationError (term_column t) (InvalidColumn (term_column t)))
                    else Inr u) terms ()"

subsection \<open>Order items\<close>

record OrderItemQuery =
  iq_driver :: driver
  iq_Limit :: "i64 option"
  iq_Offset :: "i64 option"
  iq_Unique :: "bool option"
  iq_Fields :: "string list"
  iq_order :: "order_term list"
  iq_predicates :: "sql_pred list"
  iq_withFKs :: bool

definition OrderItemClient_Query :: "driver \<Rightarrow> OrderItemQuery" where [ent_defs]:
  "OrderItemClient_Query drv =
     \<lparr>iq_driver = drv, iq_Limit = None, iq_Offset = None, iq_Unique = None,
      iq_Fields = [], iq_order = [], iq_predicates = [], iq_withFKs = False\<rparr>"

definition OrderItemQuery_Where :: "sql_pred list \<Rightarrow> OrderItemQuery \<Rightarrow> OrderItemQuery" where [ent_defs]:
  "OrderItemQuery_Where ps q = q\<lparr>iq_predicates := iq_predicates q @ ps\<rparr>"

definition OrderItemQuery_Limit :: "i64 \<Rightarrow> OrderItemQuery \<Rightarrow> OrderItemQuery" where [ent_defs]:
  "OrderItemQuery_Limit v q = q\<lparr>iq_Limit := Some v\<rparr>"

definition OrderItemQuery_Offset :: "i64 \<Rightarrow> OrderItemQuery \<Rightarrow> OrderItemQuery" where [ent_defs]:
  "OrderItemQuery_Offset v q = q\<lparr>iq_Offset := Some v\<rparr>"

definition OrderItemQuery_Unique :: "bool \<Rightarrow> OrderItemQuery \<Rightarrow> OrderItemQuery" where [ent_defs]:
  "OrderItemQuery_Unique v q = q\<lparr>iq_Unique := Some v\<rparr>"

definition OrderItemQuery_Order :: "order_term list \<Rightarrow> OrderItemQuery \<Rightarrow> OrderItemQuery" where [ent_defs]:
  "OrderItemQuery_Order os q = q\<lparr>iq_order := iq_order q @ os\<rparr>"

definition OrderItemQuery_prepareQuery :: "OrderItemQuery \<Rightarrow> ent_error + unit" where
  "OrderItemQuery_prepareQuery q =
     range_loop (\<lambda>f u. if \<not> orderitem_ValidColumn f then Inl (ValidationError f (InvalidColumn f)) else Inr u)
       (iq_Fields q) ()"

definition OrderItemQuery_querySpec :: "OrderItemQuery \<Rightarrow> query_spec" where
  "OrderItemQuery_querySpec q =
     \<lparr>qs_Table = orderitem_Table,
      qs_Columns =
        (if iq_Fields q = [] then orderitem_Columns
         else FieldID # filter (\<lambda>f. f \<noteq> FieldID) (iq_Fields q)),
      qs_Predicates = iq_predicates q,
      qs_Limit = or_zero (iq_Limit q) 0,
      qs_Offset = or_zero (iq_Offset q) 0,
      qs_Unique = or_zero (iq_Unique q) False,
      qs_Order = iq_order q,
      qs_ScanValues = OrderItem_scanValues\<rparr>"

definition OrderItemQuery_allSpec :: "OrderItemQuery \<Rightarrow> query_spec" where
  "OrderItemQuery_allSpec q =
     (let spec = OrderItemQuery_querySpec q in
      if iq_withFKs q then spec\<lparr>qs_Columns := qs_Columns spec @ orderitem_ForeignKeys\<rparr> else spec)"

definition OrderItemQuery_sqlAll :: "('d, 'z) lib_scheme \<Rightarrow> OrderItemQuery \<Rightarrow> 'd \<Rightarrow> 'd \<times> (ent_error + OrderItem list)" where
  "OrderItemQuery_sqlAll L q d =
     (let spec = OrderItemQuery_allSpec q in
      case order_terms_check orderitem_ValidColumn (iq_order q) of
        Inl e \<Rightarrow> (d, Inl e)
      | Inr _ \<Rightarrow>
          (case sqlgraph_QueryNodes L (iq_driver q) spec d of
             (d, Inl e) \<Rightarrow> (d, Inl (SqlError e))
           | (d, Inr vss) \<Rightarrow>
               (case range_loop (\<lambda>vs nodes.
                       case OrderItem_assignValues (qs_Columns spec) vs zero_OrderItem of
                         Inl e \<Rightarrow> Inl e | Inr node \<Rightarrow> Inr (nodes @ [node])) vss [] of
                  Inl e \<Rightarrow> (d, Inl e)
                | Inr nodes \<Rightarrow> (d, Inr nodes))))"

definition OrderItemQuery_All :: "('d, 'z) lib_scheme \<Rightarrow> OrderItemQuery \<Rightarrow> 'd \<Rightarrow> 'd \<times> (ent_error + OrderItem list)" where
  "OrderItemQuery_All L q d =
     (case OrderItemQuery_prepareQuery q of Inl e \<Rightarrow> (d, Inl e) | Inr _ \<Rightarrow> OrderItemQuery_sqlAll L q d)"

definition OrderItemQuery_First :: "('d, 'z) lib_scheme \<Rightarrow> OrderItemQuery \<Rightarrow> 'd \<Rightarrow> 'd \<times> (ent_error + OrderItem)" where
  "OrderItemQuery_First L q d =
     (case OrderItemQuery_All L (OrderItemQuery_Limit 1 q) d of
        (d, Inl e) \<Rightarrow> (d, Inl e)
      | (d, Inr []) \<Rightarrow> (d, Inl (NotFoundError orderitem_Label))
      | (d, Inr (n # _)) \<Rightarrow> (d, Inr n))"

definition OrderItemQuery_Only :: "('d, 'z) lib_scheme \<Rightarrow> OrderItemQuery \<Rightarrow> 'd \<Rightarrow> 'd \<times> (ent_error + OrderItem)" where
  "OrderItemQuery_Only L q d =
     (case OrderItemQuery_All L (OrderItemQuery_Limit 2 q) d of
        (d, Inl e) \<Rightarrow> (d, Inl e)
      | (d, Inr [n]) \<Rightarrow> (d, Inr n)
      | (d, Inr []) \<Rightarrow> (d, Inl (NotFoundError orderitem_Label))
      | (d, Inr _) \<Rightarrow> (d, Inl (NotSingularError orderitem_Label)))"

definition OrderItemQuery_sqlCount :: "('d, 'z) lib_scheme \<Rightarrow> OrderItemQuery \<Rightarrow> 'd \<Rightarrow> 'd \<times> (ent_error + i64)" where
  "OrderItemQuery_sqlCount L q d =
     (let spec = (OrderItemQuery_querySpec q)\<lparr>qs_Columns := iq_Fields q\<rparr>;
          spec = (if iq_Fields q \<noteq> [] then spec\<lparr>qs_Unique := iq_Unique q = Some True\<rparr> else spec)
      in case sqlgraph_CountNodes L (iq_driver q) spec d of
           (d, Inl e) \<Rightarrow> (d, Inl (SqlError e))
         | (d, Inr n) \<Rightarrow> (d, Inr n))"

definition OrderItemQuery_Count :: "('d, 'z) lib_scheme \<Rightarrow> OrderItemQuery \<Rightarrow> 'd \<Rightarrow> 'd \<times> (ent_error + i64)" where
  "OrderItemQuery_Count L q d =
     (case OrderItemQuery_prepareQuery q of Inl e \<Rightarrow> (d, Inl e) | Inr _ \<Rightarrow> OrderItemQuery_sqlCount L q d)"

definition OrderItemClient_Get :: "('d, 'z) lib_scheme \<Rightarrow> driver \<Rightarrow> uuid \<Rightarrow> 'd \<Rightarrow> 'd \<times> (ent_error + OrderItem)" where
  "OrderItemClient_Get L drv i = OrderItemQuery_Only L (OrderItemQuery_Where [FieldEQ FieldID (VUUID i)] (OrderItemClient_Query drv))"

subsection \<open>Orders\<close>

record OrderQuery =
  oq_driver :: driver
  oq_Limit :: "i64 option"
  oq_Offset :: "i64 option"
  oq_Unique :: "bool option"
  oq_Fields :: "string list"
  oq_order :: "order_term list"
  oq_predicates :: "sql_pred list"
  oq_withItems :: "OrderItemQuery option"

definition OrderClient_Query :: "driver \<Rightarrow> OrderQuery" where [ent_defs]:
  "OrderClient_Query drv =
     \<lparr>oq_driver = drv, oq_Limit = None, oq_Offset = None, oq_Unique = None,
      oq_Fields = [], oq_order = [], oq_predicates = [], oq_withItems = None\<rparr>"

definition OrderQuery_Where :: "sql_pred list \<Rightarrow> OrderQuery \<Rightarrow> OrderQuery" where [ent_defs]:
  "OrderQuery_Where ps q = q\<lparr>oq_predicates := oq_predicates q @ ps\<rparr>"

definition OrderQuery_Limit :: "i64 \<Rightarrow> OrderQuery \<Rightarrow> OrderQuery" where [ent_defs]:
  "OrderQuery_Limit v q = q\<lparr>oq_Limit := Some v\<rparr>"

definition OrderQuery_Offset :: "i64 \<Rightarrow> OrderQuery \<Rightarrow> OrderQuery" where [ent_defs]:
  "OrderQuery_Offset v q = q\<lparr>oq_Offset := Some v\<rparr>"

definition OrderQuery_Unique :: "bool \<Rightarrow> OrderQuery \<Rightarrow> OrderQuery" where [ent_defs]:
  "OrderQuery_Unique v q = q\<lparr>oq_Unique := Some v\<rparr>"

definition OrderQuery_Order :: "order_term list \<Rightarrow> OrderQuery \<Rightarrow> OrderQuery" where [ent_defs]:
  "OrderQuery_Order os q = q\<lparr>oq_order := oq_order q @ os\<rparr>"

definition OrderQuery_WithItems :: "OrderQuery \<Rightarrow> OrderQuery" where [ent_defs]:
  "OrderQuery_WithItems q = q\<lparr>oq_withItems := Some (OrderItemClient_Query (oq_driver q))\<rparr>"

definition OrderQuery_prepareQuery :: "OrderQuery \<Rightarrow> ent_error + unit" where
  "OrderQuery_prepareQuery q =
     range_loop (\<lambda>f u. if \<not> order_ValidColumn f then Inl (ValidationError f (InvalidColumn f)) else Inr u)
       (oq_Fields q) ()"

definition OrderQuery_querySpec :: "OrderQuery \<Rightarrow> query_spec" where
  "OrderQuery_querySpec q =
     \<lparr>qs_Table = order_Table,
      qs_Columns =
        (if oq_Fields q = [] then order_Columns
         else FieldID # filter (\<lambda>f. f \<noteq> FieldID) (oq_Fields q)),
      qs_Predicates = oq_predicates q,
      qs_Limit = or_zero (oq_Limit q) 0,
      qs_Offset = or_zero (oq_Offset q) 0,
      qs_Unique = or_zero (oq_Unique q) False,
      qs_Order = oq_order q,
      qs_ScanValues = Order_scanValues\<rparr>"

text \<open>
  Eager loading. The map \<open>nodeids\<close> goes from an id to the node, a pointer in the code and
  the node's index here; a later node with the same id replaces an earlier one.
\<close>

definition OrderQuery_nodeids :: "Order list \<Rightarrow> uuid \<rightharpoonup> nat" where
  "OrderQuery_nodeids nodes = fold (\<lambda>(i, n) m. m(o_ID n \<mapsto> i)) (enumerate 0 nodes) Map.empty"

definition OrderQuery_assignItem :: "(uuid \<rightharpoonup> nat) \<Rightarrow> OrderItem \<Rightarrow> Order list \<Rightarrow> ent_error + Order list" where
  "OrderQuery_assignItem nodeids n nodes =
     (case oi_order_items n of
        None \<Rightarrow> Inl (NilForeignKey (oi_ID n))
      | Some fk \<Rightarrow>
          (case nodeids fk of
             None \<Rightarrow> Inl (UnexpectedForeignKey fk (oi_ID n))
           | Some i \<Rightarrow> Inr (nodes[i := (nodes ! i)\<lparr>o_Items := o_Items (nodes ! i) @ [n]\<rparr>])))"

definition OrderQuery_loadItems ::
    "('d, 'z) lib_scheme \<Rightarrow> OrderItemQuery \<Rightarrow> Order list \<Rightarrow> 'd \<Rightarrow> 'd \<times> (ent_error + Order list)" where
  "OrderQuery_loadItems L query nodes d =
     (let fks = map (\<lambda>n. VUUID (o_ID n)) nodes;
          nodeids = OrderQuery_nodeids nodes;
          nodes = map (\<lambda>n. n\<lparr>o_Items := []\<rparr>) nodes;
          query = OrderItemQuery_Where [FieldIn order_ItemsColumn fks] (query\<lparr>iq_withFKs := True\<rparr>)
      in case OrderItemQuery_All L query d of
           (d, Inl e) \<Rightarrow> (d, Inl e)
         | (d, Inr neighbors) \<Rightarrow> (d, range_loop (OrderQuery_assignItem nodeids) neighbors nodes))"

definition OrderQuery_sqlAll :: "('d, 'z) lib_scheme \<Rightarrow> OrderQuery \<Rightarrow> 'd \<Rightarrow> 'd \<times> (ent_error + Order list)" where
  "OrderQuery_sqlAll L q d =
     (let spec = OrderQuery_querySpec q in
      case order_terms_check order_ValidColumn (oq_order q) of
        Inl e \<Rightarrow> (d, Inl e)
      | Inr _ \<Rightarrow>
          (case sqlgraph_QueryNodes L (oq_driver q) spec d of
             (d, Inl e) \<Rightarrow> (d, Inl (SqlError e))
           | (d, Inr vss) \<Rightarrow>
               (case range_loop (\<lambda>vs nodes.
                       case Order_assignValues (qs_Columns spec) vs (zero_Order\<lparr>o_loadedItems := oq_withItems q \<noteq> None\<rparr>) of
                         Inl e \<Rightarrow> Inl e | Inr node \<Rightarrow> Inr (nodes @ [node])) vss [] of
                  Inl e \<Rightarrow> (d, Inl e)
                | Inr nodes \<Rightarrow> (case oq_withItems q of
                       None \<Rightarrow> (d, Inr nodes)
                     | Some query \<Rightarrow>
                         if nodes = [] then (d, Inr nodes) else OrderQuery_loadItems L query nodes d))))"

definition OrderQuery_All :: "('d, 'z) lib_scheme \<Rightarrow> OrderQuery \<Rightarrow> 'd \<Rightarrow> 'd \<times> (ent_error + Order list)" where
  "OrderQuery_All L q d =
     (case OrderQuery_prepareQuery q of Inl e \<Rightarrow> (d, Inl e) | Inr _ \<Rightarrow> OrderQuery_sqlAll L q d)"

definition OrderQuery_First :: "('d, 'z) lib_scheme \<Rightarrow> OrderQuery \<Rightarrow> 'd \<Rightarrow> 'd \<times> (ent_error + Order)" where
  "OrderQuery_First L q d =
     (case OrderQuery_All L (OrderQuery_Limit 1 q) d of
        (d, Inl e) \<Rightarrow> (d, Inl e)
      | (d, Inr []) \<Rightarrow> (d, Inl (NotFoundError order_Label))
      | (d, Inr (n # _)) \<Rightarrow> (d, Inr n))"

definition OrderQuery_Only :: "('d, 'z) lib_scheme \<Rightarrow> OrderQuery \<Rightarrow> 'd \<Rightarrow> 'd \<times> (ent_error + Order)" where
  "OrderQuery_Only L q d =
     (case OrderQuery_All L (OrderQuery_Limit 2 q) d of
        (d, Inl e) \<Rightarrow> (d, Inl e)
      | (d, Inr [n]) \<Rightarrow> (d, Inr n)
      | (d, Inr []) \<Rightarrow> (d, Inl (NotFoundError order_Label))
      | (d, Inr _) \<Rightarrow> (d, Inl (NotSingularError order_Label)))"

definition OrderQuery_sqlCount :: "('d, 'z) lib_scheme \<Rightarrow> OrderQuery \<Rightarrow> 'd \<Rightarrow> 'd \<times> (ent_error + i64)" where
  "OrderQuery_sqlCount L q d =
     (let spec = (OrderQuery_querySpec q)\<lparr>qs_Columns := oq_Fields q\<rparr>;
          spec = (if oq_Fields q \<noteq> [] then spec\<lparr>qs_Unique := oq_Unique q = Some True\<rparr> else spec)
      in case sqlgraph_CountNodes L (oq_driver q) spec d of
           (d, Inl e) \<Rightarrow> (d, Inl (SqlError e))
         | (d, Inr n) \<Rightarrow> (d, Inr n))"

definition OrderQuery_Count :: "('d, 'z) lib_scheme \<Rightarrow> OrderQuery \<Rightarrow> 'd \<Rightarrow> 'd \<times> (ent_error + i64)" where
  "OrderQuery_Count L q d =
     (case OrderQuery_prepareQuery q of Inl e \<Rightarrow> (d, Inl e) | Inr _ \<Rightarrow> OrderQuery_sqlCount L q d)"

definition OrderClient_Get :: "('d, 'z) lib_scheme \<Rightarrow> driver \<Rightarrow> uuid \<Rightarrow> 'd \<Rightarrow> 'd \<times> (ent_error + Order)" where
  "OrderClient_Get L drv i = OrderQuery_Only L (OrderQuery_Where [order_ID i] (OrderClient_Query drv))"

subsection \<open>Outbox events\<close>

record OutboxEventQuery =
  bq_driver :: driver
  bq_Limit :: "i64 option"
  bq_Offset :: "i64 option"
  bq_Unique :: "bool option"
  bq_Fields :: "string list"
  bq_order :: "order_term list"
  bq_predicates :: "sql_pred list"

definition OutboxEventClient_Query :: "driver \<Rightarrow> OutboxEventQuery" where [ent_defs]:
  "OutboxEventClient_Query drv =
     \<lparr>bq_driver = drv, bq_Limit = None, bq_Offset = None, bq_Unique = None,
      bq_Fields = [], bq_order = [], bq_predicates = []\<rparr>"

definition OutboxEventQuery_Where :: "sql_pred list \<Rightarrow> OutboxEventQuery \<Rightarrow> OutboxEventQuery" where [ent_defs]:
  "OutboxEventQuery_Where ps q = q\<lparr>bq_predicates := bq_predicates q @ ps\<rparr>"

definition OutboxEventQuery_Limit :: "i64 \<Rightarrow> OutboxEventQuery \<Rightarrow> OutboxEventQuery" where [ent_defs]:
  "OutboxEventQuery_Limit v q = q\<lparr>bq_Limit := Some v\<rparr>"

definition OutboxEventQuery_Offset :: "i64 \<Rightarrow> OutboxEventQuery \<Rightarrow> OutboxEventQuery" where [ent_defs]:
  "OutboxEventQuery_Offset v q = q\<lparr>bq_Offset := Some v\<rparr>"

definition OutboxEventQuery_Unique :: "bool \<Rightarrow> OutboxEventQuery \<Rightarrow> OutboxEventQuery" where [ent_defs]:
  "OutboxEventQuery_Unique v q = q\<lparr>bq_Unique := Some v\<rparr>"

definition OutboxEventQuery_Order :: "order_term list \<Rightarrow> OutboxEventQuery \<Rightarrow> OutboxEventQuery" where [ent_defs]:
  "OutboxEventQuery_Order os q = q\<lparr>bq_order := bq_order q @ os\<rparr>"

definition OutboxEventQuery_prepareQuery :: "OutboxEventQuery \<Rightarrow> ent_error + unit" where
  "OutboxEventQuery_prepareQuery q =
     range_loop (\<lambda>f u. if \<not> outboxevent_ValidColumn f then Inl (ValidationError f (InvalidColumn f)) else Inr u)
       (bq_Fields q) ()"

definition OutboxEventQuery_querySpec :: "OutboxEventQuery \<Rightarrow> query_spec" where
  "OutboxEventQuery_querySpec q =
     \<lparr>qs_Table = outboxevent_Table,
      qs_Columns =
        (if bq_Fields q = [] then outboxevent_Columns
         else FieldID # filter (\<lambda>f. f \<noteq> FieldID) (bq_Fields q)),
      qs_Predicates = bq_predicates q,
      qs_Limit = or_zero (bq_Limit q) 0,
      qs_Offset = or_zero (bq_Offset q) 0,
      qs_Unique = or_zero (bq_Unique q) False,
      qs_Order = bq_order q,
      qs_ScanValues = OutboxEvent_scanValues\<rparr>"

definition OutboxEventQuery_sqlAll :: "('d, 'z) lib_scheme \<Rightarrow> OutboxEventQuery \<Rightarrow> 'd \<Rightarrow> 'd \<times> (ent_error + OutboxEvent list)" where
  "OutboxEventQuery_sqlAll L q d =
     (let spec = OutboxEventQuery_querySpec q in
      case order_terms_check outboxevent_ValidColumn (bq_order q) of
        Inl e \<Rightarrow> (d, Inl e)
      | Inr _ \<Rightarrow>
          (case sqlgraph_QueryNodes L (bq_driver q) spec d of
             (d, Inl e) \<Rightarrow> (d, Inl (SqlError e))
           | (d, Inr vss) \<Rightarrow>
               (case range_loop (\<lambda>vs nodes.
                       case OutboxEvent_assignValues (qs_Columns spec) vs zero_OutboxEvent of
                         Inl e \<Rightarrow> Inl e | Inr node \<Rightarrow> Inr (nodes @ [node])) vss [] of
                  Inl e \<Rightarrow> (d, Inl e)
                | Inr nodes \<Rightarrow> (d, Inr nodes))))"

definition OutboxEventQuery_All :: "('d, 'z) lib_scheme \<Rightarrow> OutboxEventQuery \<Rightarrow> 'd \<Rightarrow> 'd \<times> (ent_error + OutboxEvent list)" where
  "OutboxEventQuery_All L q d =
     (case OutboxEventQuery_prepareQuery q of Inl e \<Rightarrow> (d, Inl e) | Inr _ \<Rightarrow> OutboxEventQuery_sqlAll L q d)"

definition OutboxEventQuery_First :: "('d, 'z) lib_scheme \<Rightarrow> OutboxEventQuery \<Rightarrow> 'd \<Rightarrow> 'd \<times> (ent_error + OutboxEvent)" where
  "OutboxEventQuery_First L q d =
     (case OutboxEventQuery_All L (OutboxEventQuery_Limit 1 q) d of
        (d, Inl e) \<Rightarrow> (d, Inl e)
      | (d, Inr []) \<Rightarrow> (d, Inl (NotFoundError outboxevent_Label))
      | (d, Inr (n # _)) \<Rightarrow> (d, Inr n))"

definition OutboxEventQuery_Only :: "('d, 'z) lib_scheme \<Rightarrow> OutboxEventQuery \<Rightarrow> 'd \<Rightarrow> 'd \<times> (ent_error + OutboxEvent)" where
  "OutboxEventQuery_Only L q d =
     (case OutboxEventQuery_All L (OutboxEventQuery_Limit 2 q) d of
        (d, Inl e) \<Rightarrow> (d, Inl e)
      | (d, Inr [n]) \<Rightarrow> (d, Inr n)
      | (d, Inr []) \<Rightarrow> (d, Inl (NotFoundError outboxevent_Label))
      | (d, Inr _) \<Rightarrow> (d, Inl (NotSingularError outboxevent_Label)))"

definition OutboxEventQuery_sqlCount :: "('d, 'z) lib_scheme \<Rightarrow> OutboxEventQuery \<Rightarrow> 'd \<Rightarrow> 'd \<times> (ent_error + i64)" where
  "OutboxEventQuery_sqlCount L q d =
     (let spec = (OutboxEventQuery_querySpec q)\<lparr>qs_Columns := bq_Fields q\<rparr>;
          spec = (if bq_Fields q \<noteq> [] then spec\<lparr>qs_Unique := bq_Unique q = Some True\<rparr> else spec)
      in case sqlgraph_CountNodes L (bq_driver q) spec d of
           (d, Inl e) \<Rightarrow> (d, Inl (SqlError e))
         | (d, Inr n) \<Rightarrow> (d, Inr n))"

definition OutboxEventQuery_Count :: "('d, 'z) lib_scheme \<Rightarrow> OutboxEventQuery \<Rightarrow> 'd \<Rightarrow> 'd \<times> (ent_error + i64)" where
  "OutboxEventQuery_Count L q d =
     (case OutboxEventQuery_prepareQuery q of Inl e \<Rightarrow> (d, Inl e) | Inr _ \<Rightarrow> OutboxEventQuery_sqlCount L q d)"

definition OutboxEventClient_Get :: "('d, 'z) lib_scheme \<Rightarrow> driver \<Rightarrow> uuid \<Rightarrow> 'd \<Rightarrow> 'd \<times> (ent_error + OutboxEvent)" where
  "OutboxEventClient_Get L drv i = OutboxEventQuery_Only L (OutboxEventQuery_Where [FieldEQ FieldID (VUUID i)] (OutboxEventClient_Query drv))"

end
