(* ===== verification/OrderDb.thy ===== *)
theory OrderDb
  imports EntCreate EntUpdate EntQuery
begin

text \<open>
  The abstract database of the order service: lists of orders, items and outbox events, and
  what it means for the stored tables to represent one (\<open>represents\<close>). The lemmas refine
  the row-level effect of every specification the builders produce to an operation on the
  abstract database, and show that a scanned row is read back as the entity it represents.
\<close>

subsection \<open>Abstract database\<close>

record order_db =
  db_orders :: "Order list"
  db_items :: "OrderItem list"
  db_outbox :: "OutboxEvent list"

definition row_of :: "(string \<times> ent_value) list \<Rightarrow> row" where
  "row_of cells = (\<lambda>c. case map_of cells c of None \<Rightarrow> VNull | Some v \<Rightarrow> v)"

lemma row_of_drop_null:
  "distinct (map fst cells) \<Longrightarrow> row_of (filter (\<lambda>p. snd p \<noteq> VNull) cells) = row_of cells"
proof (induction cells)
  case (Cons p cells)
  have "map_of cells (fst p) = None"
    using Cons.prems by (metis distinct.simps(2) list.simps(9) list.set_map map_of_eq_None_iff)
  moreover have "map_of (filter (\<lambda>p. snd p \<noteq> VNull) cells) (fst p) = None"
    using Cons.prems by (auto simp: map_of_eq_None_iff)
  ultimately show ?case
    using Cons by (cases p) (auto simp: row_of_def fun_eq_iff split: if_splits)
qed (simp add: row_of_def)

definition order_cells :: "Order \<Rightarrow> ent_value \<Rightarrow> (string \<times> ent_value) list" where
  "order_cells n em =
     [(FieldID, VUUID (o_ID n)), (FieldCreatedAt, VTime (o_CreatedAt n)),
      (FieldUpdatedAt, VTime (o_UpdatedAt n)), (order_FieldCustomerID, VUUID (o_CustomerID n)),
      (order_FieldStatus, VString (o_Status n)), (order_FieldSubtotal, VFloat (o_Subtotal n)),
      (order_FieldTax, VFloat (o_Tax n)), (order_FieldShippingCost, VFloat (o_ShippingCost n)),
      (order_FieldTotal, VFloat (o_Total n)),
      (order_FieldShippingAddress, VString (o_ShippingAddress n)),
      (order_FieldBillingAddress, VString (o_BillingAddress n)), (order_FieldErrorMessage, em)]"

text \<open>An optional string column: NULL and the empty string are both read as the empty string.\<close>

definition opt_string :: "string \<Rightarrow> ent_value \<Rightarrow> bool" where
  "opt_string s v \<longleftrightarrow> v = VString s \<or> (v = VNull \<and> s = [])"

definition bare :: "Order \<Rightarrow> bool" where
  "bare n \<longleftrightarrow> o_Items n = [] \<and> \<not> o_loadedItems n"

definition order_repr :: "Order \<Rightarrow> row \<Rightarrow> bool" where
  "order_repr n r \<longleftrightarrow> bare n \<and> (\<exists>em. opt_string (o_ErrorMessage n) em \<and> r = row_of (order_cells n em))"

definition item_cells :: "OrderItem \<Rightarrow> uuid \<Rightarrow> ent_value \<Rightarrow> ent_value \<Rightarrow> (string \<times> ent_value) list" where
  "item_cells n fk vd iu =
     [(FieldID, VUUID (oi_ID n)), (FieldCreatedAt, VTime (oi_CreatedAt n)),
      (FieldUpdatedAt, VTime (oi_UpdatedAt n)), (orderitem_FieldProductID, VUUID (oi_ProductID n)),
      (orderitem_FieldVariantID, VUUID (oi_VariantID n)),
      (orderitem_FieldProductName, VString (oi_ProductName n)),
      (orderitem_FieldVariantDescription, vd), (orderitem_FieldUnitPrice, VFloat (oi_UnitPrice n)),
      (orderitem_FieldQuantity, VInt (oi_Quantity n)),
      (orderitem_FieldTotalPrice, VFloat (oi_TotalPrice n)), (orderitem_FieldImageURL, iu),
      (orderitem_OrderColumn, VUUID fk)]"

definition item_repr :: "OrderItem \<Rightarrow> row \<Rightarrow> bool" where
  "item_repr n r \<longleftrightarrow>
     (\<exists>fk vd iu. oi_order_items n = Some fk \<and> opt_string (oi_VariantDescription n) vd
        \<and> opt_string (oi_ImageURL n) iu \<and> r = row_of (item_cells n fk vd iu))"

definition outbox_cells :: "OutboxEvent \<Rightarrow> (string \<times> ent_value) list" where
  "outbox_cells n =
     [(FieldID, VUUID (ob_ID n)), (FieldCreatedAt, VTime (ob_CreatedAt n)),
      (FieldUpdatedAt, VTime (ob_UpdatedAt n)),
      (outboxevent_FieldAggregateType, VString (ob_AggregateType n)),
      (outboxevent_FieldAggregateID, VUUID (ob_AggregateID n)),
      (outboxevent_FieldEventType, VString (ob_EventType n)),
      (outboxevent_FieldPayload, VBytes (ob_Payload n)),
      (outboxevent_FieldProcessed, VBool (ob_Processed n))]"

lemma distinct_cells:
  "distinct (map fst (order_cells n em))" "distinct (map fst (item_cells i fk vd iu))"
  "distinct (map fst (outbox_cells b))"
  by (simp_all add: order_cells_def item_cells_def outbox_cells_def)

definition outbox_repr :: "OutboxEvent \<Rightarrow> row \<Rightarrow> bool" where
  "outbox_repr n r \<longleftrightarrow> r = row_of (outbox_cells n)"

definition db_keys :: "order_db \<Rightarrow> bool" where
  \<comment> \<open>primary keys, and the foreign key of the items\<close>
  "db_keys A \<longleftrightarrow>
     distinct (map o_ID (db_orders A)) \<and> distinct (map oi_ID (db_items A))
     \<and> distinct (map ob_ID (db_outbox A))
     \<and> (\<forall>i \<in> set (db_items A). oi_order_items i \<in> Some ` o_ID ` set (db_orders A))"

definition represents :: "tables \<Rightarrow> order_db \<Rightarrow> bool" where
  "represents t A \<longleftrightarrow>
     list_all2 order_repr (db_orders A) (t order_Table)
     \<and> list_all2 item_repr (db_items A) (t orderitem_Table)
     \<and> list_all2 outbox_repr (db_outbox A) (t outboxevent_Table) \<and> db_keys A"

subsection \<open>Reading rows\<close>

lemma opt_string_cases:
  assumes "opt_string s v"
  obtains "v = VString s" | "v = VNull" "s = []"
  using assms by (auto simp: opt_string_def)

lemma order_scan:
  assumes "order_repr n r"
  shows "\<exists>vs. scan_row Order_scanValues order_Columns r = Some vs
     \<and> Order_assignValues order_Columns vs (zero_Order\<lparr>o_loadedItems := b\<rparr>)
       = Inr (n\<lparr>o_loadedItems := b\<rparr>)"
proof -
  from assms obtain em where em: "opt_string (o_ErrorMessage n) em"
    and r: "r = row_of (order_cells n em)" and b: "bare n"
    by (auto simp: order_repr_def)
  from em show ?thesis
    by (cases rule: opt_string_cases)
      (use b in \<open>simp_all add: r scan_row_def Order_scanValues_def order_Columns_def row_of_def
         order_cells_def Order_assignValues_def Order_assign_def zero_Order_def bare_def\<close>)
qed

lemma item_scan:
  assumes "item_repr n r"
  shows "\<exists>vs. scan_row OrderItem_scanValues (orderitem_Columns @ orderitem_ForeignKeys) r = Some vs
     \<and> OrderItem_assignValues (orderitem_Columns @ orderitem_ForeignKeys) vs zero_OrderItem = Inr n"
proof -
  from assms obtain fk vd iu where fk: "oi_order_items n = Some fk"
    and vd: "opt_string (oi_VariantDescription n) vd" and iu: "opt_string (oi_ImageURL n) iu"
    and r: "r = row_of (item_cells n fk vd iu)"
    by (auto simp: item_repr_def)
  from vd iu fk show ?thesis
    by (elim opt_string_cases)
      (simp_all add: r scan_row_def OrderItem_scanValues_def orderitem_Columns_def row_of_def
         orderitem_ForeignKeys_def item_cells_def OrderItem_assignValues_def OrderItem_assign_def
         zero_OrderItem_def)
qed

lemma outbox_scan:
  assumes "outbox_repr n r"
  shows "\<exists>vs. scan_row OutboxEvent_scanValues outboxevent_Columns r = Some vs
     \<and> OutboxEvent_assignValues outboxevent_Columns vs zero_OutboxEvent = Inr n"
  using assms
  by (simp add: outbox_repr_def scan_row_def OutboxEvent_scanValues_def outboxevent_Columns_def
      row_of_def outbox_cells_def OutboxEvent_assignValues_def OutboxEvent_assign_def
      zero_OutboxEvent_def)

subsection \<open>Writing rows\<close>

definition order_stored :: "(time \<Rightarrow> time) \<Rightarrow> Order \<Rightarrow> Order" where
  \<comment> \<open>the order as it can be read back: time stamps at the precision of the database\<close>
  "order_stored tr n = n\<lparr>o_CreatedAt := tr (o_CreatedAt n), o_UpdatedAt := tr (o_UpdatedAt n)\<rparr>"

definition item_stored :: "(time \<Rightarrow> time) \<Rightarrow> OrderItem \<Rightarrow> OrderItem" where
  "item_stored tr n = n\<lparr>oi_CreatedAt := tr (oi_CreatedAt n), oi_UpdatedAt := tr (oi_UpdatedAt n)\<rparr>"

definition outbox_stored :: "(time \<Rightarrow> time) \<Rightarrow> OutboxEvent \<Rightarrow> OutboxEvent" where
  "outbox_stored tr n = n\<lparr>ob_CreatedAt := tr (ob_CreatedAt n), ob_UpdatedAt := tr (ob_UpdatedAt n)\<rparr>"

lemma spec_row_row_of: "spec_row tr cs = row_of (map (\<lambda>(c, v). (c, db_value tr v)) (spec_cells cs))"
  by (auto simp: spec_row_def row_of_def map_of_map fun_eq_iff split: option.split)

lemma OrderCreate_spec:
  assumes "OrderCreate_check L c = Inr ()" and "om_id (oc_mutation c) = Some i"
    and "om_items (oc_mutation c) = None" and spec: "OrderCreate_createSpec c = (n, cs)"
  shows "order_repr (order_stored tr n) (spec_row tr cs)"
    and "own_edges cs" and "cs_ID cs = Some i" and "cs_Table cs = order_Table" and "o_ID n = i"
    and "cs_Edges cs = []"
proof -
  let ?m = "oc_mutation c"
  from assms(1) obtain ca ua cu st su ta sh to sa ba
    where f: "om_created_at ?m = Some ca" "om_updated_at ?m = Some ua" "om_customer_id ?m = Some cu"
      "om_status ?m = Some st" "om_subtotal ?m = Some su" "om_tax ?m = Some ta"
      "om_shipping_cost ?m = Some sh" "om_total ?m = Some to" "om_shipping_address ?m = Some sa"
      "om_billing_address ?m = Some ba"
    by (auto simp: OrderCreate_check_def Let_def ent_defs split: if_splits)
  have n: "n = fst (OrderCreate_createSpec c)" and cs: "cs = snd (OrderCreate_createSpec c)"
    using spec by simp_all
  show "own_edges cs" "cs_ID cs = Some i" "cs_Table cs = order_Table" "o_ID n = i" "cs_Edges cs = []"
    using assms(2,3) by (simp_all add: n cs OrderCreate_createSpec_def own_edges_def Let_def ent_defs)
  let ?em = "case om_error_message ?m of None \<Rightarrow> VNull | Some s \<Rightarrow> VString s"
  have "map (\<lambda>(c, v). (c, db_value tr v)) (spec_cells cs)
      = filter (\<lambda>p. snd p \<noteq> VNull) (order_cells (order_stored tr n) ?em)"
    using assms(2,3) f
    by (cases "om_error_message ?m")
      (simp_all add: cs n OrderCreate_createSpec_def order_stored_def
        spec_cells_def order_cells_def Let_def ent_defs)
  then have "spec_row tr cs = row_of (order_cells (order_stored tr n) ?em)"
    by (simp only: spec_row_row_of row_of_drop_null distinct_cells)
  moreover have "opt_string (o_ErrorMessage n) ?em" "bare n"
    by (simp_all add: n OrderCreate_createSpec_def bare_def opt_string_def Let_def ent_defs
        zero_Order_def split: option.split)
  ultimately show "order_repr (order_stored tr n) (spec_row tr cs)"
    by (auto simp: order_repr_def order_stored_def bare_def)
qed

lemma OrderItemCreate_spec:
  assumes "OrderItemCreate_check L c = Inr ()" and "im_id (ic_mutation c) = Some i"
    and "im_order (ic_mutation c) = Some fk" and spec: "OrderItemCreate_createSpec c = (n, cs)"
  shows "item_repr (item_stored tr n) (spec_row tr cs)"
    and "own_edges cs" and "cs_ID cs = Some i" and "cs_Table cs = orderitem_Table" and "oi_ID n = i"
    and "oi_order_items n = Some fk"
    and "references_ok cs t \<longleftrightarrow> VUUID fk \<in> (\<lambda>r. r FieldID) ` set (t order_Table)"
proof -
  let ?m = "ic_mutation c"
  from assms(1) obtain ca ua pr va pn up qu tp
    where f: "im_created_at ?m = Some ca" "im_updated_at ?m = Some ua" "im_product_id ?m = Some pr"
      "im_variant_id ?m = Some va" "im_product_name ?m = Some pn" "im_unit_price ?m = Some up"
      "im_quantity ?m = Some qu" "im_total_price ?m = Some tp"
    by (auto simp: OrderItemCreate_check_def Let_def ent_defs split: if_splits)
  have n: "n = fst (OrderItemCreate_createSpec c)" and cs: "cs = snd (OrderItemCreate_createSpec c)"
    using spec by simp_all
  show "own_edges cs" "cs_ID cs = Some i" "cs_Table cs = orderitem_Table" "oi_ID n = i"
    "oi_order_items n = Some fk"
    "references_ok cs t \<longleftrightarrow> VUUID fk \<in> (\<lambda>r. r FieldID) ` set (t order_Table)"
    using assms(2,3)
    by (simp_all add: n cs OrderItemCreate_createSpec_def own_edges_def references_ok_def Let_def ent_defs)
  let ?vd = "case im_variant_description ?m of None \<Rightarrow> VNull | Some s \<Rightarrow> VString s"
  let ?iu = "case im_image_url ?m of None \<Rightarrow> VNull | Some s \<Rightarrow> VString s"
  have "map (\<lambda>(c, v). (c, db_value tr v)) (spec_cells cs)
      = filter (\<lambda>p. snd p \<noteq> VNull) (item_cells (item_stored tr n) fk ?vd ?iu)"
    using assms(2,3) f
    by (cases "im_variant_description ?m"; cases "im_image_url ?m")
      (simp_all add: cs n OrderItemCreate_createSpec_def item_stored_def
        spec_cells_def edge_cells_def item_cells_def Let_def ent_defs)
  then have "spec_row tr cs = row_of (item_cells (item_stored tr n) fk ?vd ?iu)"
    by (simp only: spec_row_row_of row_of_drop_null distinct_cells)
  moreover have "opt_string (oi_VariantDescription n) ?vd" "opt_string (oi_ImageURL n) ?iu"
    "oi_order_items n = Some fk"
    using assms(3)
    by (simp_all add: n OrderItemCreate_createSpec_def opt_string_def Let_def ent_defs
        zero_OrderItem_def split: option.split)
  ultimately show "item_repr (item_stored tr n) (spec_row tr cs)"
    by (auto simp: item_repr_def item_stored_def)
qed

lemma OutboxEventCreate_spec:
  assumes "OutboxEventCreate_check c = Inr ()" and "bm_id (bc_mutation c) = Some i"
    and spec: "OutboxEventCreate_createSpec c = (n, cs)"
  shows "outbox_repr (outbox_stored tr n) (spec_row tr cs)"
    and "own_edges cs" and "cs_ID cs = Some i" and "cs_Table cs = outboxevent_Table" and "ob_ID n = i"
    and "cs_Edges cs = []"
proof -
  let ?m = "bc_mutation c"
  from assms(1) obtain ca ua aty ai et pa pr
    where f: "bm_created_at ?m = Some ca" "bm_updated_at ?m = Some ua" "bm_aggregate_type ?m = Some aty"
      "bm_aggregate_id ?m = Some ai" "bm_event_type ?m = Some et" "bm_payload ?m = Some pa"
      "bm_processed ?m = Some pr"
    by (auto simp: OutboxEventCreate_check_def Let_def ent_defs split: if_splits)
  have n: "n = fst (OutboxEventCreate_createSpec c)" and cs: "cs = snd (OutboxEventCreate_createSpec c)"
    using spec by simp_all
  show "own_edges cs" "cs_ID cs = Some i" "cs_Table cs = outboxevent_Table" "ob_ID n = i"
    "cs_Edges cs = []"
    using assms(2) by (simp_all add: n cs OutboxEventCreate_createSpec_def own_edges_def Let_def ent_defs)
  show "outbox_repr (outbox_stored tr n) (spec_row tr cs)"
    using assms(2) f
    by (simp add: n cs OutboxEventCreate_createSpec_def outbox_repr_def outbox_stored_def
        spec_row_row_of spec_cells_def outbox_cells_def Let_def ent_defs zero_OutboxEvent_def)
qed

subsection \<open>Cells of a represented row\<close>

lemma order_cell:
  assumes "order_repr n r"
  shows "r FieldID = VUUID (o_ID n)" "r FieldCreatedAt = VTime (o_CreatedAt n)"
    "r order_FieldCustomerID = VUUID (o_CustomerID n)" "r order_FieldStatus = VString (o_Status n)"
  using assms by (auto simp: order_repr_def row_of_def order_cells_def)

lemma item_cell:
  assumes "item_repr n r"
  shows "r FieldID = VUUID (oi_ID n)"
    "r orderitem_OrderColumn = VUUID (the (oi_order_items n))"
  using assms by (auto simp: item_repr_def row_of_def item_cells_def)

lemma outbox_cell:
  assumes "outbox_repr n r"
  shows "r FieldID = VUUID (ob_ID n)" "r FieldCreatedAt = VTime (ob_CreatedAt n)"
    "r outboxevent_FieldProcessed = VBool (ob_Processed n)"
  using assms by (simp_all add: outbox_repr_def row_of_def outbox_cells_def)

lemma list_all2_ids:
  assumes "list_all2 R xs rs" and "\<And>x r. R x r \<Longrightarrow> r FieldID = VUUID (f x)"
  shows "map (\<lambda>r. r FieldID) rs = map (\<lambda>x. VUUID (f x)) xs"
  using assms(1) by induction (simp_all add: assms(2))

lemma represents_ids:
  assumes "represents t A"
  shows "map (\<lambda>r. r FieldID) (t order_Table) = map (\<lambda>x. VUUID (o_ID x)) (db_orders A)"
    and "map (\<lambda>r. r FieldID) (t orderitem_Table) = map (\<lambda>x. VUUID (oi_ID x)) (db_items A)"
    and "map (\<lambda>r. r FieldID) (t outboxevent_Table) = map (\<lambda>x. VUUID (ob_ID x)) (db_outbox A)"
  using assms unfolding represents_def
  by (auto intro!: list_all2_ids intro: order_cell item_cell outbox_cell)

lemma fresh_id_iff:
  assumes i: "cs_ID cs = Some i"
    and eq: "map (\<lambda>r. r FieldID) (t (cs_Table cs)) = map (\<lambda>x. VUUID (f x)) xs"
  shows "fresh_id cs t \<longleftrightarrow> i \<notin> f ` set xs"
proof -
  have "(\<lambda>r. r FieldID) ` set (t (cs_Table cs)) = (\<lambda>x. VUUID (f x)) ` set xs"
    using arg_cong [OF eq, of set] by simp
  moreover have "fresh_id cs t \<longleftrightarrow> VUUID i \<notin> (\<lambda>r. r FieldID) ` set (t (cs_Table cs))"
    using i by (auto simp: fresh_id_def image_iff)
  ultimately show ?thesis by auto
qed

lemma represents_insert_order:
  assumes "represents t A" and "fresh_id cs t" and "cs_ID cs = Some (o_ID n)"
    and "cs_Table cs = order_Table" and "order_repr n (spec_row tr cs)"
  shows "represents (insert_spec tr cs t) (A\<lparr>db_orders := db_orders A @ [n]\<rparr>)"
proof -
  have "o_ID n \<notin> o_ID ` set (db_orders A)"
    using fresh_id_iff [OF assms(3)] represents_ids(1) [OF assms(1)] assms(2,4) by metis
  then show ?thesis
    using assms
    by (auto simp: represents_def insert_spec_def db_keys_def table_names intro: list_all2_appendI)
qed

lemma represents_insert_item:
  assumes "represents t A" and "fresh_id cs t" and "cs_ID cs = Some (oi_ID n)"
    and "cs_Table cs = orderitem_Table" and "item_repr n (spec_row tr cs)"
    and "oi_order_items n \<in> Some ` o_ID ` set (db_orders A)"
  shows "represents (insert_spec tr cs t) (A\<lparr>db_items := db_items A @ [n]\<rparr>)"
proof -
  have "oi_ID n \<notin> oi_ID ` set (db_items A)"
    using fresh_id_iff [OF assms(3)] represents_ids(2) [OF assms(1)] assms(2,4) by metis
  then show ?thesis
    using assms
    by (auto simp: represents_def insert_spec_def db_keys_def table_names intro: list_all2_appendI)
qed

lemma represents_insert_outbox:
  assumes "represents t A" and "fresh_id cs t" and "cs_ID cs = Some (ob_ID n)"
    and "cs_Table cs = outboxevent_Table" and "outbox_repr n (spec_row tr cs)"
  shows "represents (insert_spec tr cs t) (A\<lparr>db_outbox := db_outbox A @ [n]\<rparr>)"
proof -
  have "ob_ID n \<notin> ob_ID ` set (db_outbox A)"
    using fresh_id_iff [OF assms(3)] represents_ids(3) [OF assms(1)] assms(2,4) by metis
  then show ?thesis
    using assms
    by (auto simp: represents_def insert_spec_def db_keys_def table_names intro: list_all2_appendI)
qed

subsection \<open>Updating rows\<close>

lemma map_of_spec_field [simp]:
  "map_of (spec_field c C v) k = (if k = c then map_option C v else None)"
  by (cases v) auto

lemma update_row_row_of:
  assumes "fst ` set (us_Set us) \<subseteq> fst ` set cells"
  shows "update_row tr us (row_of cells)
    = row_of (map (\<lambda>(c, v). (c, case map_of (us_Set us) c of
                                  Some w \<Rightarrow> db_value tr w
                                | None \<Rightarrow> if c \<in> set (us_Clear us) then VNull else v)) cells)"
    (is "_ = row_of (map (\<lambda>(c, v). (c, ?f c v)) cells)")
proof -
  have m: "map_of (map (\<lambda>(c, v). (c, ?f c v)) cells) c = map_option (?f c) (map_of cells c)" for c
    by (induction cells) (auto split: option.split)
  have "map_of (us_Set us) c = None" if "map_of cells c = None" for c
    using that assms by (auto simp: map_of_eq_None_iff)
  then show ?thesis
    unfolding row_of_def m by (auto simp: update_row_def fun_eq_iff split: option.split)
qed

definition order_updated :: "(time \<Rightarrow> time) \<Rightarrow> OrderMutation \<Rightarrow> Order \<Rightarrow> Order" where
  \<comment> \<open>the order after the update a mutation describes\<close>
  "order_updated tr m n =
     n\<lparr>o_UpdatedAt := or_zero (map_option tr (om_updated_at m)) (o_UpdatedAt n),
       o_CustomerID := or_zero (om_customer_id m) (o_CustomerID n),
       o_Status := or_zero (om_status m) (o_Status n),
       o_Subtotal := or_zero (om_subtotal m) (o_Subtotal n),
       o_Tax := or_zero (om_tax m) (o_Tax n),
       o_ShippingCost := or_zero (om_shipping_cost m) (o_ShippingCost n),
       o_Total := or_zero (om_total m) (o_Total n),
       o_ShippingAddress := or_zero (om_shipping_address m) (o_ShippingAddress n),
       o_BillingAddress := or_zero (om_billing_address m) (o_BillingAddress n),
       o_ErrorMessage := or_zero (om_error_message m) (o_ErrorMessage n)\<rparr>"

definition outbox_updated :: "(time \<Rightarrow> time) \<Rightarrow> OutboxEventMutation \<Rightarrow> OutboxEvent \<Rightarrow> OutboxEvent" where
  "outbox_updated tr m n =
     n\<lparr>ob_UpdatedAt := or_zero (map_option tr (bm_updated_at m)) (ob_UpdatedAt n),
       ob_AggregateType := or_zero (bm_aggregate_type m) (ob_AggregateType n),
       ob_AggregateID := or_zero (bm_aggregate_id m) (ob_AggregateID n),
       ob_EventType := or_zero (bm_event_type m) (ob_EventType n),
       ob_Payload := or_zero (bm_payload m) (ob_Payload n),
       ob_Processed := or_zero (bm_processed m) (ob_Processed n)\<rparr>"

text \<open>A mutation that only sets fields: no increment, no cleared field, no edge, no predicate.\<close>

definition only_sets :: "OrderMutation \<Rightarrow> bool" where
  "only_sets m \<longleftrightarrow>
     om_addsubtotal m = None \<and> om_addtax m = None \<and> om_addshipping_cost m = None
     \<and> om_addtotal m = None \<and> om_clearedFields m = {} \<and> om_items m = None
     \<and> om_removeditems m = None \<and> \<not> om_cleareditems m \<and> om_predicates m = []"

lemma case_map_option: "(case map_option f x of None \<Rightarrow> a | Some y \<Rightarrow> g y) = (case x of None \<Rightarrow> a | Some y \<Rightarrow> g (f y))"
  by (cases x) simp_all

lemma case_or_zero: "(case x of None \<Rightarrow> C z | Some y \<Rightarrow> C y) = C (or_zero x z)"
  by (cases x) simp_all

lemma OrderUpdateOne_spec:
  assumes "order_repr n r" and "only_sets (ou_mutation u)"
  shows "order_repr (order_updated tr (ou_mutation u) n)
           (update_row tr (OrderUpdateOne_updateSpec i cols u) r)"
proof -
  let ?m = "ou_mutation u" and ?us = "OrderUpdateOne_updateSpec i cols u"
  from assms(1) obtain em where em: "opt_string (o_ErrorMessage n) em"
    and r: "r = row_of (order_cells n em)" and b: "bare n"
    by (auto simp: order_repr_def)
  let ?em = "case om_error_message ?m of Some s \<Rightarrow> VString s | None \<Rightarrow> em"
  have sub: "fst ` set (us_Set ?us) \<subseteq> fst ` set (order_cells n em)"
    by (auto simp: OrderUpdateOne_updateSpec_def Let_def order_cells_def spec_field_def ent_defs
        split: option.splits)
  have "map (\<lambda>(c, v). (c, case map_of (us_Set ?us) c of
            Some w \<Rightarrow> db_value tr w | None \<Rightarrow> if c \<in> set (us_Clear ?us) then VNull else v))
          (order_cells n em)
      = order_cells (order_updated tr ?m n) ?em"
    using assms(2)
    by (simp add: OrderUpdateOne_updateSpec_def Let_def order_cells_def order_updated_def ent_defs
        only_sets_def map_add_def case_map_option)
      (intro conjI; simp split: option.split)
  then have "update_row tr ?us r = row_of (order_cells (order_updated tr ?m n) ?em)"
    using update_row_row_of [OF sub] by (simp only: r)
  moreover have "opt_string (o_ErrorMessage (order_updated tr ?m n)) ?em"
    using em by (cases "om_error_message ?m") (simp_all add: order_updated_def opt_string_def)
  ultimately show ?thesis
    using b by (auto simp: order_repr_def bare_def order_updated_def)
qed

definition only_sets_outbox :: "OutboxEventMutation \<Rightarrow> bool" where
  "only_sets_outbox m \<longleftrightarrow> bm_clearedFields m = {} \<and> bm_predicates m = []"

lemma OutboxEventUpdateOne_spec:
  assumes "outbox_repr n r"
  shows "outbox_repr (outbox_updated tr (bu_mutation u) n)
           (update_row tr (OutboxEventUpdateOne_updateSpec i cols u) r)"
proof -
  let ?m = "bu_mutation u" and ?us = "OutboxEventUpdateOne_updateSpec i cols u"
  have sub: "fst ` set (us_Set ?us) \<subseteq> fst ` set (outbox_cells n)"
    by (auto simp: OutboxEventUpdateOne_updateSpec_def Let_def outbox_cells_def spec_field_def
        ent_defs split: option.splits)
  have "map (\<lambda>(c, v). (c, case map_of (us_Set ?us) c of
            Some w \<Rightarrow> db_value tr w | None \<Rightarrow> if c \<in> set (us_Clear ?us) then VNull else v))
          (outbox_cells n)
      = outbox_cells (outbox_updated tr ?m n)"
    by (simp add: OutboxEventUpdateOne_updateSpec_def Let_def outbox_cells_def outbox_updated_def
        ent_defs map_add_def case_map_option)
      (intro conjI; simp split: option.split)
  then show ?thesis
    using update_row_row_of [OF sub] assms by (simp only: outbox_repr_def)
qed

text \<open>Updating one element of a represented table.\<close>

lemma list_all2_update:
  assumes "list_all2 R xs rs" and "\<And>x r. R x r \<Longrightarrow> r FieldID = VUUID (f x)"
    and "\<And>x r. R x r \<Longrightarrow> R (g x) (h r)" and "us_ID us = Some i"
  shows "list_all2 R (map (\<lambda>x. if f x = i then g x else x) xs)
           (map (\<lambda>r. if is_target us r then h r else r) rs)"
  using assms(1)
  by induction (auto simp: assms(2-4) is_target_def)

lemma db_keys_same_orders:
  assumes "db_keys A" and "map o_ID ns = map o_ID (db_orders A)"
  shows "db_keys (A\<lparr>db_orders := ns\<rparr>)"
proof -
  have "o_ID ` set ns = o_ID ` set (db_orders A)"
    using arg_cong [OF assms(2), of set] by simp
  then show ?thesis using assms by (simp add: db_keys_def)
qed

lemma represents_update_order:
  assumes "represents t A" and "only_sets (ou_mutation u)"
  shows "represents (update_tables tr (OrderUpdateOne_updateSpec i cols u) t)
           (A\<lparr>db_orders := map (\<lambda>n. if o_ID n = i then order_updated tr (ou_mutation u) n else n)
                            (db_orders A)\<rparr>)"
proof -
  let ?us = "OrderUpdateOne_updateSpec i cols u"
  let ?g = "\<lambda>n. if o_ID n = i then order_updated tr (ou_mutation u) n else n"
  have us: "us_ID ?us = Some i" "us_Table ?us = order_Table"
    by (simp_all add: OrderUpdateOne_updateSpec_def Let_def)
  have ids: "map o_ID (map ?g xs) = map o_ID xs" for xs
    by (simp add: order_updated_def)
  have upd: "list_all2 order_repr (map ?g (db_orders A))
      (map (\<lambda>r. if is_target ?us r then update_row tr ?us r else r) (t order_Table))"
    using assms(1) by (intro list_all2_update [where f = o_ID])
      (auto simp: represents_def us(1) intro: order_cell OrderUpdateOne_spec [OF _ assms(2)])
  have "db_keys (A\<lparr>db_orders := map ?g (db_orders A)\<rparr>)"
    using assms(1) ids by (intro db_keys_same_orders) (simp add: represents_def)
  then show ?thesis
    using assms(1) upd us(2) by (simp add: represents_def update_tables_def table_names)
qed

lemma db_keys_same_outbox:
  "db_keys A \<Longrightarrow> map ob_ID ns = map ob_ID (db_outbox A) \<Longrightarrow> db_keys (A\<lparr>db_outbox := ns\<rparr>)"
  by (simp add: db_keys_def)

lemma represents_update_outbox:
  assumes "represents t A"
  shows "represents (update_tables tr (OutboxEventUpdateOne_updateSpec i cols u) t)
           (A\<lparr>db_outbox := map (\<lambda>n. if ob_ID n = i then outbox_updated tr (bu_mutation u) n else n)
                            (db_outbox A)\<rparr>)"
proof -
  let ?us = "OutboxEventUpdateOne_updateSpec i cols u"
  let ?g = "\<lambda>n. if ob_ID n = i then outbox_updated tr (bu_mutation u) n else n"
  have us: "us_ID ?us = Some i" "us_Table ?us = outboxevent_Table"
    by (simp_all add: OutboxEventUpdateOne_updateSpec_def Let_def)
  have ids: "map ob_ID (map ?g xs) = map ob_ID xs" for xs
    by (simp add: outbox_updated_def)
  have upd: "list_all2 outbox_repr (map ?g (db_outbox A))
      (map (\<lambda>r. if is_target ?us r then update_row tr ?us r else r) (t outboxevent_Table))"
    using assms(1) by (intro list_all2_update [where f = ob_ID])
      (auto simp: represents_def us(1) intro: outbox_cell OutboxEventUpdateOne_spec)
  have "db_keys (A\<lparr>db_outbox := map ?g (db_outbox A)\<rparr>)"
    using assms ids by (intro db_keys_same_outbox) (simp add: represents_def)
  then show ?thesis
    using assms(1) upd us(2) by (simp add: represents_def update_tables_def table_names)
qed

subsection \<open>Selecting rows\<close>

text \<open>An answer to a query, as entities: the rows are those that match, in some order.\<close>

lemma list_all2_filter_iff:
  assumes "list_all2 R xs rs" and "\<And>x r. R x r \<Longrightarrow> P x \<longleftrightarrow> Q r"
  shows "list_all2 R (filter P xs) (filter Q rs)"
  using assms(1) by induction (auto simp: assms(2))

lemma list_all2_permute:
  assumes "list_all2 R xs rs" and "mset rs' = mset rs"
  shows "\<exists>xs'. mset xs' = mset xs \<and> list_all2 R xs' rs'"
proof -
  have "list_all2 (R\<inverse>\<inverse>) rs xs" using assms(1) by (simp add: list.rel_flip)
  then obtain xs' where "list_all2 (R\<inverse>\<inverse>) rs' xs'" "mset xs' = mset xs"
    using list_all2_reorder_left_invariance assms(2) by blast
  then show ?thesis by (auto simp: list.rel_flip)
qed

end
