(* ===== verification/EntSave.thy ===== *)
theory EntSave
  imports OrderDb
begin

text \<open>
  What a save of the entity layer does to the abstract database, proved from the laws of
  the locale \<open>sql_engine\<close>: an insert that succeeds appends the stored entity the builder
  describes, after its defaults and checks; an update that succeeds changes exactly the
  entity with the given id.
\<close>

definition db_state ::
    "('d \<Rightarrow> tables) \<Rightarrow> ('d \<Rightarrow> tables option) \<Rightarrow> driver \<Rightarrow> 'd \<Rightarrow> order_db \<Rightarrow> bool" where
  \<comment> \<open>the tables seen through the driver represent the abstract database\<close>
  "db_state committed view drv d A \<longleftrightarrow>
     (\<exists>t. tables_of committed view drv d = Some t \<and> represents t A)"

lemma same_db_frame: "same_db committed view d d' \<Longrightarrow> drv_frame committed view drv d d'"
  by (cases drv) (simp_all add: same_db_def drv_frame_def)

lemma drv_frame_trans:
  "drv_frame committed view drv d d1 \<Longrightarrow> drv_frame committed view drv d1 d2 \<Longrightarrow>
     drv_frame committed view drv d d2"
  by (cases drv) (simp_all add: drv_frame_def)

lemma same_db_trans:
  "same_db committed view d d1 \<Longrightarrow> same_db committed view d1 d2 \<Longrightarrow> same_db committed view d d2"
  by (simp add: same_db_def)

lemma same_db_state:
  "same_db committed view d d' \<Longrightarrow> db_state committed view drv d' A = db_state committed view drv d A"
  by (simp add: same_db_def db_state_def tables_of_def split: driver.split)

lemma same_db_refl [simp]: "same_db committed view d d"
  by (simp add: same_db_def)

text \<open>The builder with its defaults filled in, for the values the clock and the generator gave.\<close>

definition order_with_defaults :: "time \<Rightarrow> time \<Rightarrow> uuid \<Rightarrow> OrderMutation \<Rightarrow> OrderMutation" where
  "order_with_defaults ca ua i m =
     (let m = (if om_created_at m = None then OrderMutation_SetCreatedAt ca m else m);
          m = (if om_updated_at m = None then OrderMutation_SetUpdatedAt ua m else m);
          m = OrderCreate_constants m
      in if om_id m = None then OrderMutation_SetID i m else m)"

definition item_with_defaults :: "time \<Rightarrow> time \<Rightarrow> uuid \<Rightarrow> OrderItemMutation \<Rightarrow> OrderItemMutation" where
  "item_with_defaults ca ua i m =
     (let m = (if im_created_at m = None then OrderItemMutation_SetCreatedAt ca m else m);
          m = (if im_updated_at m = None then OrderItemMutation_SetUpdatedAt ua m else m)
      in if im_id m = None then OrderItemMutation_SetID i m else m)"

definition outbox_with_defaults :: "time \<Rightarrow> time \<Rightarrow> uuid \<Rightarrow> OutboxEventMutation \<Rightarrow> OutboxEventMutation" where
  "outbox_with_defaults ca ua i m =
     (let m = (if bm_created_at m = None then OutboxEventMutation_SetCreatedAt ca m else m);
          m = (if bm_updated_at m = None then OutboxEventMutation_SetUpdatedAt ua m else m);
          m = OutboxEventCreate_constants m
      in if bm_id m = None then OutboxEventMutation_SetID i m else m)"

lemma case_keep: "(case x of Some _ \<Rightarrow> m | None \<Rightarrow> f) = (if x = None then f else m)"
  by (cases x) simp_all

lemma OrderCreate_constants_id [simp]:
  "om_id (OrderCreate_constants m) = om_id m"
  "om_items (OrderCreate_constants m) = om_items m"
  by (simp_all add: OrderCreate_constants_def Let_def ent_defs case_keep)

lemma OutboxEventCreate_constants_id [simp]:
  "bm_id (OutboxEventCreate_constants m) = bm_id m"
  by (simp_all add: OutboxEventCreate_constants_def Let_def ent_defs case_keep)

lemma order_with_defaults_id: "\<exists>k. om_id (order_with_defaults ca ua i m) = Some k"
  by (cases "om_id m") (simp_all add: order_with_defaults_def Let_def ent_defs)

lemma order_with_defaults_items [simp]: "om_items (order_with_defaults ca ua i m) = om_items m"
  by (simp add: order_with_defaults_def Let_def ent_defs)

lemma item_with_defaults_id: "\<exists>k. im_id (item_with_defaults ca ua i m) = Some k"
  by (cases "im_id m") (simp_all add: item_with_defaults_def Let_def ent_defs)

lemma item_with_defaults_order [simp]: "im_order (item_with_defaults ca ua i m) = im_order m"
  by (simp add: item_with_defaults_def Let_def ent_defs)

lemma outbox_with_defaults_id: "\<exists>k. bm_id (outbox_with_defaults ca ua i m) = Some k"
  by (cases "bm_id m") (simp_all add: outbox_with_defaults_def Let_def ent_defs)

text \<open>An entity that a save of the builder can have produced.\<close>

definition order_saved :: "('d, 'z) lib_scheme \<Rightarrow> OrderCreate \<Rightarrow> Order \<Rightarrow> bool" where
  "order_saved L c n \<longleftrightarrow>
     (\<exists>ca ua i. let c' = c\<lparr>oc_mutation := order_with_defaults ca ua i (oc_mutation c)\<rparr> in
        OrderCreate_check L c' = Inr () \<and> n = fst (OrderCreate_createSpec c'))"

definition item_saved :: "('d, 'z) lib_scheme \<Rightarrow> OrderItemCreate \<Rightarrow> OrderItem \<Rightarrow> bool" where
  "item_saved L c n \<longleftrightarrow>
     (\<exists>ca ua i. let c' = c\<lparr>ic_mutation := item_with_defaults ca ua i (ic_mutation c)\<rparr> in
        OrderItemCreate_check L c' = Inr () \<and> n = fst (OrderItemCreate_createSpec c'))"

definition outbox_saved :: "OutboxEventCreate \<Rightarrow> OutboxEvent \<Rightarrow> bool" where
  "outbox_saved c n \<longleftrightarrow>
     (\<exists>ca ua i. let c' = c\<lparr>bc_mutation := outbox_with_defaults ca ua i (bc_mutation c)\<rparr> in
        OutboxEventCreate_check c' = Inr () \<and> n = fst (OutboxEventCreate_createSpec c'))"

context sql_engine
begin

lemma OrderCreate_defaults:
  assumes "OrderCreate_defaults L c d = (d', c')"
  shows "same_db committed view d d'
    \<and> (\<exists>ca ua i. c' = c\<lparr>oc_mutation := order_with_defaults ca ua i (oc_mutation c)\<rparr>)"
proof -
  obtain d1 ca where 1: "time_Now L d = (d1, ca)" by (cases "time_Now L d")
  define e1 where "e1 = (if om_created_at (oc_mutation c) = None then d1 else d)"
  obtain d2 ua where 2: "time_Now L e1 = (d2, ua)" by (cases "time_Now L e1")
  define e2 where "e2 = (if om_updated_at (oc_mutation c) = None then d2 else e1)"
  obtain d3 i where 3: "uuid_New L e2 = (d3, i)" by (cases "uuid_New L e2")
  define e3 where "e3 = (if om_id (oc_mutation c) = None then d3 else e2)"
  have "same_db committed view d e1" "same_db committed view e1 e2" "same_db committed view e2 e3"
    using now_same [OF 1] now_same [OF 2] uuid_same [OF 3] by (simp_all add: e1_def e2_def e3_def)
  moreover have "d' = e3 \<and> c' = c\<lparr>oc_mutation := order_with_defaults ca ua i (oc_mutation c)\<rparr>"
    using assms 1 2 3
    by (cases "om_created_at (oc_mutation c)"; cases "om_updated_at (oc_mutation c)";
        cases "om_id (oc_mutation c)")
      (simp_all add: OrderCreate_defaults_def order_with_defaults_def Let_def ent_defs
        e1_def e2_def e3_def)
  ultimately show ?thesis by (blast intro: same_db_trans)
qed

lemma OrderItemCreate_defaults:
  assumes "OrderItemCreate_defaults L c d = (d', c')"
  shows "same_db committed view d d'
    \<and> (\<exists>ca ua i. c' = c\<lparr>ic_mutation := item_with_defaults ca ua i (ic_mutation c)\<rparr>)"
proof -
  obtain d1 ca where 1: "time_Now L d = (d1, ca)" by (cases "time_Now L d")
  define e1 where "e1 = (if im_created_at (ic_mutation c) = None then d1 else d)"
  obtain d2 ua where 2: "time_Now L e1 = (d2, ua)" by (cases "time_Now L e1")
  define e2 where "e2 = (if im_updated_at (ic_mutation c) = None then d2 else e1)"
  obtain d3 i where 3: "uuid_New L e2 = (d3, i)" by (cases "uuid_New L e2")
  define e3 where "e3 = (if im_id (ic_mutation c) = None then d3 else e2)"
  have "same_db committed view d e1" "same_db committed view e1 e2" "same_db committed view e2 e3"
    using now_same [OF 1] now_same [OF 2] uuid_same [OF 3] by (simp_all add: e1_def e2_def e3_def)
  moreover have "d' = e3 \<and> c' = c\<lparr>ic_mutation := item_with_defaults ca ua i (ic_mutation c)\<rparr>"
    using assms 1 2 3
    by (cases "im_created_at (ic_mutation c)"; cases "im_updated_at (ic_mutation c)";
        cases "im_id (ic_mutation c)")
      (simp_all add: OrderItemCreate_defaults_def item_with_defaults_def Let_def ent_defs
        e1_def e2_def e3_def)
  ultimately show ?thesis by (blast intro: same_db_trans)
qed

lemma OutboxEventCreate_defaults:
  assumes "OutboxEventCreate_defaults L c d = (d', c')"
  shows "same_db committed view d d'
    \<and> (\<exists>ca ua i. c' = c\<lparr>bc_mutation := outbox_with_defaults ca ua i (bc_mutation c)\<rparr>)"
proof -
  obtain d1 ca where 1: "time_Now L d = (d1, ca)" by (cases "time_Now L d")
  define e1 where "e1 = (if bm_created_at (bc_mutation c) = None then d1 else d)"
  obtain d2 ua where 2: "time_Now L e1 = (d2, ua)" by (cases "time_Now L e1")
  define e2 where "e2 = (if bm_updated_at (bc_mutation c) = None then d2 else e1)"
  obtain d3 i where 3: "uuid_New L e2 = (d3, i)" by (cases "uuid_New L e2")
  define e3 where "e3 = (if bm_id (bc_mutation c) = None then d3 else e2)"
  have "same_db committed view d e1" "same_db committed view e1 e2" "same_db committed view e2 e3"
    using now_same [OF 1] now_same [OF 2] uuid_same [OF 3] by (simp_all add: e1_def e2_def e3_def)
  moreover have "d' = e3 \<and> c' = c\<lparr>bc_mutation := outbox_with_defaults ca ua i (bc_mutation c)\<rparr>"
    using assms 1 2 3
    by (cases "bm_created_at (bc_mutation c)"; cases "bm_updated_at (bc_mutation c)";
        cases "bm_id (bc_mutation c)")
      (simp_all add: OutboxEventCreate_defaults_def outbox_with_defaults_def Let_def ent_defs
        e1_def e2_def e3_def)
  ultimately show ?thesis by (blast intro: same_db_trans)
qed

text \<open>Whatever happens, a save only touches the tables of its own driver.\<close>

lemma OrderCreate_Save_frame:
  "OrderCreate_Save L c d = (d', r) \<Longrightarrow> drv_frame committed view (oc_driver c) d d'"
  by (auto simp: OrderCreate_Save_def OrderCreate_sqlSave_def Let_def
      dest!: OrderCreate_defaults create_frame
      intro: same_db_frame drv_frame_trans split: prod.splits sum.splits option.splits)

lemma OutboxEventCreate_Save_frame:
  "OutboxEventCreate_Save L c d = (d', r) \<Longrightarrow> drv_frame committed view (bc_driver c) d d'"
  by (auto simp: OutboxEventCreate_Save_def OutboxEventCreate_sqlSave_def Let_def
      dest!: OutboxEventCreate_defaults create_frame
      intro: same_db_frame drv_frame_trans split: prod.splits sum.splits option.splits)

lemma OrderCreate_Save_ok:
  assumes save: "OrderCreate_Save L c d = (d', Inr n)" and "om_items (oc_mutation c) = None"
    and A: "db_state committed view (oc_driver c) d A"
  shows "order_saved L c n"
    and "db_state committed view (oc_driver c) d' (A\<lparr>db_orders := db_orders A @ [order_stored tr n]\<rparr>)"
proof -
  obtain d1 c1 where def1: "OrderCreate_defaults L c d = (d1, c1)"
    by (cases "OrderCreate_defaults L c d")
  from OrderCreate_defaults [OF this] obtain ca ua i where same: "same_db committed view d d1"
    and c1: "c1 = c\<lparr>oc_mutation := order_with_defaults ca ua i (oc_mutation c)\<rparr>" by blast
  obtain m cs where spec: "OrderCreate_createSpec c1 = (m, cs)" by (cases "OrderCreate_createSpec c1")
  from order_with_defaults_id obtain k where k: "om_id (oc_mutation c1) = Some k"
    by (metis c1 OrderCreate.select_convs(2) OrderCreate.surjective OrderCreate.update_convs(2))
  have check: "OrderCreate_check L c1 = Inr ()"
    using save def1
    by (cases "OrderCreate_check L c1") (simp_all add: OrderCreate_Save_def OrderCreate_sqlSave_def)
  note S = OrderCreate_spec [OF check k _ spec]
  have items: "om_items (oc_mutation c1) = None" using assms(2) by (simp add: c1)
  have create: "sqlgraph_CreateNode L (oc_driver c) cs d1 = (d', None)" and n: "n = m"
    using save def1 check spec S(3,5) [OF items]
    by (auto simp: OrderCreate_Save_def OrderCreate_sqlSave_def c1 split: prod.splits option.splits)
  from A obtain t where t: "tables_of committed view (oc_driver c) d1 = Some t" "represents t A"
    using same_db_state [OF same, of "oc_driver c" A] by (auto simp: db_state_def)
  from create_ok [OF create S(2) [OF items] _ t(1)] S(3) [OF items]
  have ok: "fresh_id cs t" "tables_of committed view (oc_driver c) d' = Some (insert_spec tr cs t)"
    by simp_all
  show "order_saved L c n"
    unfolding order_saved_def Let_def using check spec
    by (intro exI [of _ ca] exI [of _ ua] exI [of _ i]) (simp add: n c1)
  show "db_state committed view (oc_driver c) d' (A\<lparr>db_orders := db_orders A @ [order_stored tr n]\<rparr>)"
    unfolding db_state_def n
    using ok(2) represents_insert_order [OF t(2) ok(1) _ S(4) [OF items] S(1) [OF items]]
      S(3,5) [OF items]
    by (auto simp: order_stored_def)
qed

lemma OutboxEventCreate_Save_ok:
  assumes save: "OutboxEventCreate_Save L c d = (d', Inr n)"
    and A: "db_state committed view (bc_driver c) d A"
  shows "outbox_saved c n"
    and "db_state committed view (bc_driver c) d' (A\<lparr>db_outbox := db_outbox A @ [outbox_stored tr n]\<rparr>)"
proof -
  obtain d1 c1 where def1: "OutboxEventCreate_defaults L c d = (d1, c1)"
    by (cases "OutboxEventCreate_defaults L c d")
  from OutboxEventCreate_defaults [OF this] obtain ca ua i where same: "same_db committed view d d1"
    and c1: "c1 = c\<lparr>bc_mutation := outbox_with_defaults ca ua i (bc_mutation c)\<rparr>" by blast
  obtain m cs where spec: "OutboxEventCreate_createSpec c1 = (m, cs)"
    by (cases "OutboxEventCreate_createSpec c1")
  from outbox_with_defaults_id obtain k where k: "bm_id (bc_mutation c1) = Some k"
    by (metis c1 OutboxEventCreate.select_convs(2) OutboxEventCreate.surjective
        OutboxEventCreate.update_convs(2))
  have check: "OutboxEventCreate_check c1 = Inr ()"
    using save def1
    by (cases "OutboxEventCreate_check c1")
      (simp_all add: OutboxEventCreate_Save_def OutboxEventCreate_sqlSave_def)
  note S = OutboxEventCreate_spec [OF check k spec]
  have create: "sqlgraph_CreateNode L (bc_driver c) cs d1 = (d', None)" and n: "n = m"
    using save def1 check spec S(3,5)
    by (auto simp: OutboxEventCreate_Save_def OutboxEventCreate_sqlSave_def c1
        split: prod.splits option.splits)
  from A obtain t where t: "tables_of committed view (bc_driver c) d1 = Some t" "represents t A"
    using same_db_state [OF same, of "bc_driver c" A] by (auto simp: db_state_def)
  from create_ok [OF create S(2) _ t(1)] S(3)
  have ok: "fresh_id cs t" "tables_of committed view (bc_driver c) d' = Some (insert_spec tr cs t)"
    by simp_all
  show "outbox_saved c n"
    unfolding outbox_saved_def Let_def using check spec
    by (intro exI [of _ ca] exI [of _ ua] exI [of _ i]) (simp add: n c1)
  show "db_state committed view (bc_driver c) d' (A\<lparr>db_outbox := db_outbox A @ [outbox_stored tr n]\<rparr>)"
    unfolding db_state_def n
    using ok(2) represents_insert_outbox [OF t(2) ok(1) _ S(4) S(1)] S(3,5)
    by (auto simp: outbox_stored_def)
qed

text \<open>The bulk insert of the items.\<close>

lemma OrderItemCreateBulk_defaults:
  "OrderItemCreateBulk_defaults L cs d = (d', cs') \<Longrightarrow> same_db committed view d d'
     \<and> list_all2 (\<lambda>c c'. \<exists>ca ua i. c' = c\<lparr>ic_mutation := item_with_defaults ca ua i (ic_mutation c)\<rparr>) cs cs'"
proof (induction cs arbitrary: d d' cs')
  case (Cons c cs)
  obtain d1 c1 where 1: "OrderItemCreate_defaults L c d = (d1, c1)"
    by (cases "OrderItemCreate_defaults L c d")
  obtain d2 cs2 where 2: "OrderItemCreateBulk_defaults L cs d1 = (d2, cs2)"
    by (cases "OrderItemCreateBulk_defaults L cs d1")
  have "d' = d2" "cs' = c1 # cs2" using Cons.prems 1 2 by simp_all
  then show ?case
    using OrderItemCreate_defaults [OF 1] Cons.IH [OF 2] by (auto intro: same_db_trans)
qed simp

lemma OrderItemCreateBulk_mutate_frame:
  "OrderItemCreateBulk_mutate L drv specs cs d = (d', r) \<Longrightarrow> drv_frame committed view drv d d'"
  by (induction cs arbitrary: specs d' r)
    (auto simp: Let_def intro: batch_frame same_db_frame
      split: prod.splits option.splits sum.splits)

lemma OrderItemCreateBulk_Save_frame:
  "OrderItemCreateBulk_Save L drv cs d = (d', r) \<Longrightarrow> drv_frame committed view drv d d'"
  by (auto simp: OrderItemCreateBulk_Save_def Let_def
      dest!: OrderItemCreateBulk_defaults OrderItemCreateBulk_mutate_frame
      intro: same_db_frame drv_frame_trans split: prod.splits if_splits)

lemma OrderItemCreateBulk_mutate_ok:
  "OrderItemCreateBulk_mutate L drv specs cs d = (d', Inr ns) \<Longrightarrow>
     (\<forall>c \<in> set cs. OrderItemCreate_check L c = Inr ())
     \<and> ns = map (fst \<circ> OrderItemCreate_createSpec) cs
     \<and> sqlgraph_BatchCreate L drv (specs @ map (snd \<circ> OrderItemCreate_createSpec) cs) d = (d', None)"
proof (induction cs arbitrary: specs ns)
  case Nil
  then show ?case by (auto split: prod.splits option.splits)
next
  case (Cons c cs)
  obtain node spec where spec: "OrderItemCreate_createSpec c = (node, spec)"
    by (cases "OrderItemCreate_createSpec c")
  from Cons.prems spec obtain ns' where "OrderItemCreate_check L c = Inr ()" "ns = node # ns'"
    and "OrderItemCreateBulk_mutate L drv (specs @ [spec]) cs d = (d', Inr ns')"
    by (auto split: sum.splits prod.splits)
  with Cons.IH [of "specs @ [spec]" ns'] show ?case by (simp add: spec)
qed

lemma represents_insert_items:
  assumes "represents t A" and "fresh_ids tr (map (snd \<circ> OrderItemCreate_createSpec) cs) t"
    and "\<And>c. c \<in> set cs \<Longrightarrow> OrderItemCreate_check L c = Inr () \<and> (\<exists>i. im_id (ic_mutation c) = Some i)
           \<and> (\<exists>k \<in> o_ID ` set (db_orders A). im_order (ic_mutation c) = Some k)"
  shows "represents (fold (insert_spec tr) (map (snd \<circ> OrderItemCreate_createSpec) cs) t)
           (A\<lparr>db_items := db_items A @ map (item_stored tr \<circ> fst \<circ> OrderItemCreate_createSpec) cs\<rparr>)"
  using assms
proof (induction cs arbitrary: t A)
  case (Cons c cs)
  obtain n spec where spec: "OrderItemCreate_createSpec c = (n, spec)"
    by (cases "OrderItemCreate_createSpec c")
  from Cons.prems(3) [of c] obtain i k where c: "OrderItemCreate_check L c = Inr ()"
      "im_id (ic_mutation c) = Some i" "im_order (ic_mutation c) = Some k"
    and k: "k \<in> o_ID ` set (db_orders A)" by auto
  note S = OrderItemCreate_spec [OF c spec]
  let ?A = "A\<lparr>db_items := db_items A @ [item_stored tr n]\<rparr>"
  have "represents (insert_spec tr spec t) ?A"
    using Cons.prems(1,2) spec S k
    by (intro represents_insert_item) (auto simp: item_stored_def)
  with Cons.IH [of "insert_spec tr spec t" ?A] Cons.prems(2,3) show ?case
    by (simp add: spec)
qed simp

lemma OrderItemCreateBulk_Save_ok:
  assumes save: "OrderItemCreateBulk_Save L drv cs d = (d', Inr ns)"
    and A: "db_state committed view drv d A"
    and fk: "\<And>c. c \<in> set cs \<Longrightarrow> \<exists>k \<in> o_ID ` set (db_orders A). im_order (ic_mutation c) = Some k"
  shows "list_all2 (item_saved L) cs ns"
    and "db_state committed view drv d' (A\<lparr>db_items := db_items A @ map (item_stored tr) ns\<rparr>)"
proof -
  obtain d1 cs1 where def1: "OrderItemCreateBulk_defaults L cs d = (d1, cs1)"
    by (cases "OrderItemCreateBulk_defaults L cs d")
  from OrderItemCreateBulk_defaults [OF this] have same: "same_db committed view d d1"
    and all2: "list_all2 (\<lambda>c c'. \<exists>ca ua i.
      c' = c\<lparr>ic_mutation := item_with_defaults ca ua i (ic_mutation c)\<rparr>) cs cs1" by simp_all
  from A obtain t where t: "tables_of committed view drv d1 = Some t" "represents t A"
    using same_db_state [OF same, of drv A] by (auto simp: db_state_def)
  have c1: "(\<exists>i. im_id (ic_mutation c) = Some i)
      \<and> (\<exists>k \<in> o_ID ` set (db_orders A). im_order (ic_mutation c) = Some k)" if "c \<in> set cs1" for c
  proof -
    from list_all2_rightD [OF all2 that] obtain c0 ca ua i where "c0 \<in> set cs"
      and "c = c0\<lparr>ic_mutation := item_with_defaults ca ua i (ic_mutation c0)\<rparr>" by blast
    with fk [of c0] item_with_defaults_id show ?thesis by simp
  qed
  have res: "ns = map (fst \<circ> OrderItemCreate_createSpec) cs1 \<and> (\<forall>c \<in> set cs1. OrderItemCreate_check L c = Inr ())
    \<and> db_state committed view drv d' (A\<lparr>db_items := db_items A @ map (item_stored tr) ns\<rparr>)"
  proof (cases "cs1 = []")
    case True
    then show ?thesis using save def1 t by (auto simp: OrderItemCreateBulk_Save_def db_state_def)
  next
    case False
    then have "OrderItemCreateBulk_mutate L drv [] cs1 d1 = (d', Inr ns)"
      using save def1 by (simp add: OrderItemCreateBulk_Save_def)
    from OrderItemCreateBulk_mutate_ok [OF this] have check: "\<And>c. c \<in> set cs1 \<Longrightarrow> OrderItemCreate_check L c = Inr ()"
      and ns: "ns = map (fst \<circ> OrderItemCreate_createSpec) cs1"
      and batch: "sqlgraph_BatchCreate L drv (map (snd \<circ> OrderItemCreate_createSpec) cs1) d1 = (d', None)"
      by auto
    have "own_edges cs \<and> cs_ID cs \<noteq> None" if "cs \<in> set (map (snd \<circ> OrderItemCreate_createSpec) cs1)" for cs
    proof -
      from that obtain c where c: "c \<in> set cs1" "cs = snd (OrderItemCreate_createSpec c)" by auto
      with c1 [of c] obtain i k where "im_id (ic_mutation c) = Some i" "im_order (ic_mutation c) = Some k"
        by blast
      from OrderItemCreate_spec(2,3) [OF check [OF c(1)] this] show ?thesis
        using c(2) by (metis option.distinct(1) prod.collapse)
    qed
    from batch_ok [OF batch this t(1)]
    have f: "fresh_ids tr (map (snd \<circ> OrderItemCreate_createSpec) cs1) t"
      and t': "tables_of committed view drv d'
        = Some (fold (insert_spec tr) (map (snd \<circ> OrderItemCreate_createSpec) cs1) t)" by simp_all
    show ?thesis
      using represents_insert_items [OF t(2) f] check c1 t' ns by (simp add: db_state_def o_assoc)
  qed
  then show "db_state committed view drv d' (A\<lparr>db_items := db_items A @ map (item_stored tr) ns\<rparr>)"
    by blast
  from all2 have "list_all2 (\<lambda>c c'. item_saved L c (fst (OrderItemCreate_createSpec c'))) cs cs1"
  proof (rule list.rel_mono_strong)
    fix c c'
    assume "c' \<in> set cs1"
      and "\<exists>ca ua i. c' = c\<lparr>ic_mutation := item_with_defaults ca ua i (ic_mutation c)\<rparr>"
    then show "item_saved L c (fst (OrderItemCreate_createSpec c'))"
      using res by (auto simp: item_saved_def Let_def)
  qed
  then show "list_all2 (item_saved L) cs ns"
    using res by (simp add: list.rel_map)
qed

subsection \<open>Updates\<close>

lemma OrderUpdateOne_defaults:
  assumes "OrderUpdateOne_defaults L u d = (d', u')"
  shows "same_db committed view d d'
    \<and> (\<exists>ua. u' = u\<lparr>ou_mutation := if om_updated_at (ou_mutation u) = None
           then OrderMutation_SetUpdatedAt ua (ou_mutation u) else ou_mutation u\<rparr>)"
  using assms
  by (cases "om_updated_at (ou_mutation u)"; cases "time_Now L d")
    (auto simp: OrderUpdateOne_defaults_def ent_defs dest: now_same)

lemma OutboxEventUpdateOne_defaults:
  assumes "OutboxEventUpdateOne_defaults L u d = (d', u')"
  shows "same_db committed view d d'
    \<and> (\<exists>ua. u' = u\<lparr>bu_mutation := if bm_updated_at (bu_mutation u) = None
           then OutboxEventMutation_SetUpdatedAt ua (bu_mutation u) else bu_mutation u\<rparr>)"
  using assms
  by (cases "bm_updated_at (bu_mutation u)"; cases "time_Now L d")
    (auto simp: OutboxEventUpdateOne_defaults_def ent_defs dest: now_same)

text \<open>
  A save through the base driver that reports an error has either changed nothing or applied
  the update (the connection can break after the statement); one that succeeds has applied it.
\<close>

lemma OrderUpdateOne_Save:
  assumes save: "OrderUpdateOne_Save L u d = (d', r)" and drv: "ou_driver u = BaseDriver"
    and cols: "ou_fields u = []" and id: "om_id (ou_mutation u) = Some i"
    and sets: "only_sets (ou_mutation u)" and noua: "om_updated_at (ou_mutation u) = None"
    and A: "db_state committed view BaseDriver d A"
  shows "\<exists>ua. let m = OrderMutation_SetUpdatedAt ua (ou_mutation u);
               A' = A\<lparr>db_orders := map (\<lambda>n. if o_ID n = i then order_updated tr m n else n) (db_orders A)\<rparr>
           in view d' = view d
              \<and> (db_state committed view BaseDriver d' A' \<or> (db_state committed view BaseDriver d' A \<and> r \<notin> range Inr))
              \<and> (r \<in> range Inr \<longrightarrow> i \<in> o_ID ` set (db_orders A))"
proof -
  obtain d1 u1 where def1: "OrderUpdateOne_defaults L u d = (d1, u1)"
    by (cases "OrderUpdateOne_defaults L u d")
  from OrderUpdateOne_defaults [OF this] noua obtain ua where same: "same_db committed view d d1"
    and u1: "u1 = u\<lparr>ou_mutation := OrderMutation_SetUpdatedAt ua (ou_mutation u)\<rparr>" by auto
  let ?m = "OrderMutation_SetUpdatedAt ua (ou_mutation u)"
  let ?us = "OrderUpdateOne_updateSpec i order_Columns u1"
  let ?A' = "A\<lparr>db_orders := map (\<lambda>n. if o_ID n = i then order_updated tr ?m n else n) (db_orders A)\<rparr>"
  have A1: "db_state committed view BaseDriver d1 A" using A same by (simp add: same_db_state)
  then have R: "represents (committed d1) A" by (simp add: db_state_def tables_of_def)
  have sets1: "only_sets ?m" using sets by (simp add: only_sets_def ent_defs)
  have R': "represents (update_tables tr ?us (committed d1)) ?A'"
    using represents_update_order [OF R, of u1 tr i order_Columns] sets1 by (simp add: u1 cong: if_cong)
  have plain: "plain_update ?us"
    using sets1
    by (auto simp: plain_update_def OrderUpdateOne_updateSpec_def Let_def u1 ent_defs only_sets_def
        spec_field_def split: option.splits)
  have save1: "OrderUpdateOne_sqlSave L u1 d1 = (d', r)"
    using save def1 by (simp add: OrderUpdateOne_Save_def)
  have v: "view d1 = view d" using same by (simp add: same_db_def)
  show ?thesis
  proof (cases "OrderUpdateOne_check L u1")
    case (Inl e)
    then have "d' = d1" "r = Inl e" using save1 by (simp_all add: OrderUpdateOne_sqlSave_def)
    then show ?thesis using A1 v by auto
  next
    case (Inr x)
    obtain d2 ru where up: "sqlgraph_UpdateNode L BaseDriver ?us d1 = (d2, ru)"
      by (cases "sqlgraph_UpdateNode L BaseDriver ?us d1")
    have eq: "(d', r) = (case ru of Inl e \<Rightarrow> (d2, Inl (update_error order_Label e))
                          | Inr vs \<Rightarrow> (d2, Order_assignValues order_Columns vs zero_Order))"
      using save1 Inr up id cols drv
      by (simp add: OrderUpdateOne_sqlSave_def OrderUpdateOne_columns_def u1 ent_defs split: sum.splits)
    have v2: "view d2 = view d" using update_frame [OF up] v by (simp add: drv_frame_def)
    show ?thesis
    proof (cases ru)
      case (Inl e)
      from update_err [OF up [unfolded Inl] plain refl]
      have "db_state committed view BaseDriver d2 A \<or> db_state committed view BaseDriver d2 ?A'"
        using R R' by (auto simp: db_state_def tables_of_def)
      then show ?thesis using eq Inl v2 by (intro exI [of _ ua]) (auto simp: Let_def)
    next
      case (Inr vs)
      from update_ok [OF up [unfolded Inr] plain]
      have t: "committed d2 = update_tables tr ?us (committed d1)"
        and "\<exists>x \<in> set (committed d1 order_Table). is_target ?us x"
        by (auto simp: tables_of_def OrderUpdateOne_updateSpec_def Let_def)
      then obtain x where "x \<in> set (committed d1 order_Table)" "VUUID i = x FieldID"
        by (auto simp: is_target_def OrderUpdateOne_updateSpec_def Let_def)
      then have "VUUID i \<in> (\<lambda>r. r FieldID) ` set (committed d1 order_Table)" by blast
      then have "i \<in> o_ID ` set (db_orders A)"
        using arg_cong [OF represents_ids(1) [OF R], of set] by auto
      then show ?thesis
        using eq Inr v2 R' t by (intro exI [of _ ua]) (auto simp: Let_def db_state_def tables_of_def)
    qed
  qed
qed

lemma OutboxEventUpdateOne_Save:
  assumes save: "OutboxEventUpdateOne_Save L u d = (d', r)" and drv: "bu_driver u = BaseDriver"
    and cols: "bu_fields u = []" and id: "bm_id (bu_mutation u) = Some i"
    and preds: "bm_predicates (bu_mutation u) = []" and noua: "bm_updated_at (bu_mutation u) = None"
    and A: "db_state committed view BaseDriver d A"
  shows "\<exists>ua. let m = OutboxEventMutation_SetUpdatedAt ua (bu_mutation u);
               A' = A\<lparr>db_outbox := map (\<lambda>n. if ob_ID n = i then outbox_updated tr m n else n) (db_outbox A)\<rparr>
           in view d' = view d
              \<and> (db_state committed view BaseDriver d' A' \<or> (db_state committed view BaseDriver d' A \<and> r \<notin> range Inr))
              \<and> (r \<in> range Inr \<longrightarrow> i \<in> ob_ID ` set (db_outbox A))"
proof -
  obtain d1 u1 where def1: "OutboxEventUpdateOne_defaults L u d = (d1, u1)"
    by (cases "OutboxEventUpdateOne_defaults L u d")
  from OutboxEventUpdateOne_defaults [OF this] noua obtain ua where same: "same_db committed view d d1"
    and u1: "u1 = u\<lparr>bu_mutation := OutboxEventMutation_SetUpdatedAt ua (bu_mutation u)\<rparr>" by auto
  let ?m = "OutboxEventMutation_SetUpdatedAt ua (bu_mutation u)"
  let ?us = "OutboxEventUpdateOne_updateSpec i outboxevent_Columns u1"
  let ?A' = "A\<lparr>db_outbox := map (\<lambda>n. if ob_ID n = i then outbox_updated tr ?m n else n) (db_outbox A)\<rparr>"
  have A1: "db_state committed view BaseDriver d1 A" using A same by (simp add: same_db_state)
  then have R: "represents (committed d1) A" by (simp add: db_state_def tables_of_def)
  have R': "represents (update_tables tr ?us (committed d1)) ?A'"
    using represents_update_outbox [OF R, of tr i outboxevent_Columns u1] by (simp add: u1 cong: if_cong)
  have plain: "plain_update ?us"
    using preds
    by (auto simp: plain_update_def OutboxEventUpdateOne_updateSpec_def Let_def u1 ent_defs
        spec_field_def split: option.splits)
  have save1: "OutboxEventUpdateOne_sqlSave L u1 d1 = (d', r)"
    using save def1 by (simp add: OutboxEventUpdateOne_Save_def)
  have v: "view d1 = view d" using same by (simp add: same_db_def)
  obtain d2 ru where up: "sqlgraph_UpdateNode L BaseDriver ?us d1 = (d2, ru)"
    by (cases "sqlgraph_UpdateNode L BaseDriver ?us d1")
  have eq: "(d', r) = (case ru of Inl e \<Rightarrow> (d2, Inl (update_error outboxevent_Label e))
                        | Inr vs \<Rightarrow> (d2, OutboxEvent_assignValues outboxevent_Columns vs zero_OutboxEvent))"
    using save1 up id cols drv
    by (simp add: OutboxEventUpdateOne_sqlSave_def OutboxEventUpdateOne_columns_def u1 ent_defs
        split: sum.splits)
  have v2: "view d2 = view d" using update_frame [OF up] v by (simp add: drv_frame_def)
  show ?thesis
  proof (cases ru)
    case (Inl e)
    from update_err [OF up [unfolded Inl] plain refl]
    have "db_state committed view BaseDriver d2 A \<or> db_state committed view BaseDriver d2 ?A'"
      using R R' by (auto simp: db_state_def tables_of_def)
    then show ?thesis using eq Inl v2 by (intro exI [of _ ua]) (auto simp: Let_def)
  next
    case (Inr vs)
    from update_ok [OF up [unfolded Inr] plain]
    have t: "committed d2 = update_tables tr ?us (committed d1)"
      and "\<exists>x \<in> set (committed d1 outboxevent_Table). is_target ?us x"
      by (auto simp: tables_of_def OutboxEventUpdateOne_updateSpec_def Let_def)
    then obtain x where "x \<in> set (committed d1 outboxevent_Table)" "VUUID i = x FieldID"
      by (auto simp: is_target_def OutboxEventUpdateOne_updateSpec_def Let_def)
    then have "VUUID i \<in> (\<lambda>r. r FieldID) ` set (committed d1 outboxevent_Table)" by blast
    then have "i \<in> ob_ID ` set (db_outbox A)"
      using arg_cong [OF represents_ids(3) [OF R], of set] by auto
    then show ?thesis
      using eq Inr v2 R' t by (intro exI [of _ ua]) (auto simp: Let_def db_state_def tables_of_def)
  qed
qed

end

end
