(* ===== verification/EntLoad.thy ===== *)
theory EntLoad
  imports EntSave
begin

text \<open>
  What a query of the entity layer returns, in terms of the abstract database: entities that
  satisfy the predicates, each once, ordered as asked, cut to the page, and (for orders with
  \<open>WithItems\<close>) each with exactly its own items.
\<close>

subsection \<open>Predicates and orders on entities\<close>

definition order_matches :: "(time \<Rightarrow> time) \<Rightarrow> sql_pred \<Rightarrow> Order \<Rightarrow> bool" where
  "order_matches tr p n \<longleftrightarrow> row_matches tr p (row_of (order_cells n VNull))"

lemma order_matches_simps [simp]:
  "order_matches tr (order_ID i) n \<longleftrightarrow> o_ID n = i"
  "order_matches tr (order_IDEQ i) n \<longleftrightarrow> o_ID n = i"
  "order_matches tr (order_CustomerIDEQ i) n \<longleftrightarrow> o_CustomerID n = i"
  "order_matches tr (order_StatusEQ s) n \<longleftrightarrow> o_Status n = s"
  "order_matches tr (order_CreatedAtGT t) n \<longleftrightarrow> tr t < o_CreatedAt n"
  "order_matches tr (FieldIn FieldID (map VUUID is)) n \<longleftrightarrow> o_ID n \<in> set is"
  by (auto simp: order_matches_def row_of_def order_cells_def ent_defs image_image)

inductive order_pred :: "sql_pred \<Rightarrow> bool" where
  \<comment> \<open>the predicates on orders that the services apply\<close>
  "order_pred (order_ID i)"
| "order_pred (order_IDEQ i)"
| "order_pred (order_CustomerIDEQ i)"
| "order_pred (order_StatusEQ s)"
| "order_pred (order_CreatedAtGT t)"
| "order_pred (FieldIn FieldID (map VUUID is))"

lemma order_pred_row:
  assumes "order_pred p" and "order_repr n r"
  shows "row_matches tr p r \<longleftrightarrow> order_matches tr p n"
  using assms order_cell [OF assms(2)]
  by cases (auto simp: ent_defs order_matches_def row_of_def order_cells_def image_image)

lemma order_pred_plain: "order_pred p \<Longrightarrow> plain_pred p"
  by (cases p rule: order_pred.cases) (simp_all add: ent_defs)

definition order_le :: "order_term \<Rightarrow> Order \<Rightarrow> Order \<Rightarrow> bool" where
  "order_le t n m = (case t of
      OrderAsc _ \<Rightarrow> o_CreatedAt n \<le> o_CreatedAt m
    | OrderDesc _ \<Rightarrow> o_CreatedAt m \<le> o_CreatedAt n)"

definition with_items :: "OrderItem list \<Rightarrow> Order \<Rightarrow> Order" where
  "with_items items n =
     n\<lparr>o_Items := filter (\<lambda>i. oi_order_items i = Some (o_ID n)) items, o_loadedItems := True\<rparr>"

lemma with_items_sel [simp]:
  "o_ID (with_items is n) = o_ID n" "o_Status (with_items is n) = o_Status n"
  "o_CustomerID (with_items is n) = o_CustomerID n" "o_CreatedAt (with_items is n) = o_CreatedAt n"
  by (simp_all add: with_items_def)

subsection \<open>Scanning a list of rows\<close>

lemma scan_loop:
  assumes "list_all2 R xs rs" and "map (scan_row sv cols) rs = map Some vss"
    and "\<And>x r. R x r \<Longrightarrow> \<exists>vs. scan_row sv cols r = Some vs \<and> assign vs = Inr (f x)"
  shows "range_loop (\<lambda>vs ns. case assign vs of Inl e \<Rightarrow> Inl e | Inr n \<Rightarrow> Inr (ns @ [n])) vss acc
    = Inr (acc @ map f xs)"
  using assms(1,2)
proof (induction arbitrary: vss acc rule: list_all2_induct)
  case (Cons x xs r rs)
  from assms(3) [OF Cons.hyps(1)] obtain vs where "scan_row sv cols r = Some vs" "assign vs = Inr (f x)"
    by blast
  with Cons.prems obtain vss' where "vss = vs # vss'" "map (scan_row sv cols) rs = map Some vss'"
    by (cases vss) auto
  then show ?case using Cons.IH \<open>assign vs = Inr (f x)\<close> by simp
qed simp

lemma list_all2_page: "list_all2 R xs rs \<Longrightarrow> list_all2 R (page l k xs) (page l k rs)"
  by (simp add: page_def Let_def list_all2_takeI list_all2_dropI)

lemma answers_represent:
  assumes "list_all2 R xs (t (qs_Table qs))" and "answers tr qs t rows"
    and match: "\<And>x r p. R x r \<Longrightarrow> p \<in> set (qs_Predicates qs) \<Longrightarrow> row_matches tr p r = holds p x"
    and le: "\<And>x r y s ot. R x r \<Longrightarrow> R y s \<Longrightarrow> ot \<in> set (qs_Order qs) \<Longrightarrow> term_le ot r s \<Longrightarrow> le ot x y"
  shows "\<exists>ys. mset ys = mset (filter (\<lambda>x. \<forall>p \<in> set (qs_Predicates qs). holds p x) xs)
    \<and> (\<forall>ot \<in> set (qs_Order qs). sorted_wrt (le ot) ys) \<and> list_all2 R ys rows"
proof -
  have "list_all2 R (filter (\<lambda>x. \<forall>p \<in> set (qs_Predicates qs). holds p x) xs) (selected tr qs t)"
    unfolding selected_def by (rule list_all2_filter_iff [OF assms(1)]) (simp add: match)
  from list_all2_permute [OF this] assms(2)
  obtain ys where "mset ys = mset (filter (\<lambda>x. \<forall>p \<in> set (qs_Predicates qs). holds p x) xs)"
    and R: "list_all2 R ys rows"
    by (auto simp: answers_def)
  moreover have "sorted_wrt (le ot) ys" if "ot \<in> set (qs_Order qs)" for ot
    using sorted_wrt_list_all2 [OF R, of "term_le ot"] le that assms(2) by (auto simp: answers_def)
  ultimately show ?thesis by blast
qed

subsection \<open>Eager loading\<close>

lemma nodeids_other:
  "u \<notin> o_ID ` set ns \<Longrightarrow> fold (\<lambda>(i, n) m. m(o_ID n \<mapsto> i)) (enumerate k ns) m0 u = m0 u"
  by (induction ns arbitrary: k m0) auto

lemma nodeids_index:
  "distinct (map o_ID ns) \<Longrightarrow> i < length ns \<Longrightarrow>
     fold (\<lambda>(i, n) m. m(o_ID n \<mapsto> i)) (enumerate k ns) m0 (o_ID (ns ! i)) = Some (k + i)"
proof (induction ns arbitrary: k m0 i)
  case (Cons n ns)
  show ?case
  proof (cases i)
    case 0
    have "o_ID n \<notin> o_ID ` set ns" using Cons.prems(1) by simp
    from nodeids_other [OF this, of "Suc k" "m0(o_ID n \<mapsto> k)"] show ?thesis
      using 0 by (simp del: fun_upd_apply) (simp only: fun_upd_same)
  next
    case (Suc j)
    with Cons.IH [of j "Suc k" "m0(o_ID n \<mapsto> k)"] Cons.prems show ?thesis
      by (simp del: fun_upd_apply)
  qed
qed simp

lemma OrderQuery_nodeids:
  "distinct (map o_ID ns) \<Longrightarrow> i < length ns \<Longrightarrow> OrderQuery_nodeids ns (o_ID (ns ! i)) = Some i"
  by (simp add: OrderQuery_nodeids_def nodeids_index)

lemma assign_loop:
  assumes "distinct (map o_ID nodes0)" and "map o_ID nodes = map o_ID nodes0"
    and "\<And>n. n \<in> set nb \<Longrightarrow> oi_order_items n \<in> Some ` o_ID ` set nodes0"
  shows "range_loop (OrderQuery_assignItem (OrderQuery_nodeids nodes0)) nb nodes
    = Inr (map (\<lambda>n. n\<lparr>o_Items := o_Items n @ filter (\<lambda>i. oi_order_items i = Some (o_ID n)) nb\<rparr>) nodes)"
  using assms(2,3)
proof (induction nb arbitrary: nodes)
  case (Cons b nb)
  from Cons.prems(2) [of b] obtain i where i: "i < length nodes0" and b: "oi_order_items b = Some (o_ID (nodes0 ! i))"
    by (auto simp: in_set_conv_nth)
  have len: "length nodes = length nodes0" using Cons.prems(1) by (metis length_map)
  have id: "o_ID (nodes ! j) = o_ID (nodes0 ! j)" if "j < length nodes" for j
    using Cons.prems(1) that len by (metis nth_map)
  let ?nodes = "nodes[i := (nodes ! i)\<lparr>o_Items := o_Items (nodes ! i) @ [b]\<rparr>]"
  have step: "OrderQuery_assignItem (OrderQuery_nodeids nodes0) b nodes = Inr ?nodes"
    using OrderQuery_nodeids [OF assms(1) i] b by (simp add: OrderQuery_assignItem_def)
  have ids: "map o_ID ?nodes = map o_ID nodes0"
    using Cons.prems(1) i len by (simp add: map_update id [symmetric] list_update_same_conv)
  have neq: "o_ID (nodes0 ! j) \<noteq> o_ID (nodes0 ! i)" if "j < length nodes0" "j \<noteq> i" for j
    using assms(1) i that by (metis length_map nth_eq_iff_index_eq nth_map)
  have "map (\<lambda>n. n\<lparr>o_Items := o_Items n @ filter (\<lambda>i. oi_order_items i = Some (o_ID n)) nb\<rparr>) ?nodes
    = map (\<lambda>n. n\<lparr>o_Items := o_Items n @ filter (\<lambda>i. oi_order_items i = Some (o_ID n)) (b # nb)\<rparr>) nodes"
    (is "map ?f ?nodes = map ?g nodes")
  proof (rule nth_equalityI)
    fix j
    assume "j < length (map ?f ?nodes)"
    then have j: "j < length nodes" "j < length nodes0" using len by simp_all
    show "map ?f ?nodes ! j = map ?g nodes ! j"
    proof (cases "j = i")
      case True
      then show ?thesis using j b id [OF j(1)] by simp
    next
      case False
      then show ?thesis using j b neq [OF j(2) False] id [OF j(1)] by simp
    qed
  qed simp
  with Cons.IH [OF ids] Cons.prems(2) show ?case by (simp add: step)
qed simp

subsection \<open>Queries\<close>

definition simple_order_query :: "OrderQuery \<Rightarrow> bool" where
  \<comment> \<open>the queries the repository builds\<close>
  "simple_order_query q \<longleftrightarrow>
     oq_Fields q = [] \<and> (\<forall>p \<in> set (oq_predicates q). order_pred p)
     \<and> (oq_order q = [] \<or> oq_order q = ent_Desc [FieldCreatedAt])
     \<and> (\<forall>l. oq_Limit q = Some l \<longrightarrow> 0 \<le> sint l) \<and> (\<forall>k. oq_Offset q = Some k \<longrightarrow> 0 \<le> sint k)
     \<and> (\<forall>iq. oq_withItems q = Some iq \<longrightarrow> iq = OrderItemClient_Query (oq_driver q))"

definition query_page :: "OrderQuery \<Rightarrow> 'a list \<Rightarrow> 'a list" where
  "query_page q = page (or_zero (oq_Limit q) 0) (or_zero (oq_Offset q) 0)"

definition order_hits :: "(time \<Rightarrow> time) \<Rightarrow> OrderQuery \<Rightarrow> order_db \<Rightarrow> Order list" where
  "order_hits tr q A = filter (\<lambda>n. \<forall>p \<in> set (oq_predicates q). order_matches tr p n) (db_orders A)"

definition order_answer :: "(time \<Rightarrow> time) \<Rightarrow> OrderQuery \<Rightarrow> order_db \<Rightarrow> Order list \<Rightarrow> bool" where
  \<comment> \<open>an enumeration of the matching orders that respects the requested order\<close>
  "order_answer tr q A ns \<longleftrightarrow>
     mset ns = mset (order_hits tr q A) \<and> (\<forall>ot \<in> set (oq_order q). sorted_wrt (order_le ot) ns)"

lemma page_subset: "set (page l k xs) \<subseteq> set xs"
  by (auto simp: page_def Let_def dest: in_set_takeD in_set_dropD)

lemma page_distinct: "distinct (map f xs) \<Longrightarrow> distinct (map f (page l k xs))"
  by (simp add: page_def Let_def take_map [symmetric] drop_map [symmetric] distinct_take distinct_drop)

lemma page_all [simp]: "page 0 0 xs = xs"
  by (simp add: page_def)

lemma order_answer_ids:
  assumes "order_answer tr q A ns" and "db_keys A"
  shows "distinct (map o_ID ns)" "set ns \<subseteq> set (db_orders A)"
proof -
  have "distinct (map o_ID (order_hits tr q A))"
    using assms(2) by (simp add: order_hits_def db_keys_def distinct_map_filter)
  moreover have "mset (map o_ID ns) = mset (map o_ID (order_hits tr q A))"
    using assms(1) by (simp add: order_answer_def)
  ultimately show "distinct (map o_ID ns)"
    by (metis mset_eq_imp_distinct_iff)
  show "set ns \<subseteq> set (db_orders A)"
    using assms(1) mset_eq_setD [of ns "order_hits tr q A"]
    unfolding order_answer_def by (auto simp: order_hits_def)
qed

context sql_engine
begin

lemma OrderItemQuery_byOrders:
  assumes "OrderItemQuery_All L ((OrderItemClient_Query drv)\<lparr>iq_withFKs := True,
             iq_predicates := [FieldIn order_ItemsColumn (map VUUID ks)]\<rparr>) d = (d', r)"
    and A: "db_state committed view drv d A"
  shows "same_db committed view d d'"
    and "r = Inr is \<Longrightarrow> mset is = mset (filter (\<lambda>i. oi_order_items i \<in> Some ` set ks) (db_items A))"
    and "r = Inl e \<Longrightarrow> e \<in> range SqlError"
proof -
  let ?q = "(OrderItemClient_Query drv)\<lparr>iq_withFKs := True,
             iq_predicates := [FieldIn order_ItemsColumn (map VUUID ks)]\<rparr>"
  let ?qs = "OrderItemQuery_allSpec ?q"
  obtain d1 rq where Q: "sqlgraph_QueryNodes L drv ?qs d = (d1, rq)"
    by (cases "sqlgraph_QueryNodes L drv ?qs d")
  have prep: "OrderItemQuery_prepareQuery ?q = Inr ()" "order_terms_check orderitem_ValidColumn (iq_order ?q) = Inr ()"
    "iq_driver ?q = drv"
    by (simp_all add: OrderItemQuery_prepareQuery_def order_terms_check_def ent_defs)
  have cols: "qs_Columns ?qs = orderitem_Columns @ orderitem_ForeignKeys"
    "qs_ScanValues ?qs = OrderItem_scanValues" "qs_Limit ?qs = 0" "qs_Offset ?qs = 0" "qs_Order ?qs = []"
    "qs_Predicates ?qs = [FieldIn order_ItemsColumn (map VUUID ks)]" "qs_Table ?qs = orderitem_Table"
    by (simp_all add: OrderItemQuery_allSpec_def OrderItemQuery_querySpec_def ent_defs)
  have eq: "(d', r) = (case rq of Inl e \<Rightarrow> (d1, Inl (SqlError e)) | Inr vss \<Rightarrow>
      (d1, range_loop (\<lambda>vs nodes. case OrderItem_assignValues (orderitem_Columns @ orderitem_ForeignKeys) vs zero_OrderItem of
              Inl e \<Rightarrow> Inl e | Inr node \<Rightarrow> Inr (nodes @ [node])) vss []))"
    using assms(1) Q prep cols
    by (simp add: OrderItemQuery_All_def OrderItemQuery_sqlAll_def Let_def split: sum.splits)
  then show "same_db committed view d d'" using query_same [OF Q] by (auto split: sum.splits)
  from A obtain t where t: "tables_of committed view drv d = Some t" "represents t A"
    by (auto simp: db_state_def)
  have simple: "simple_query ?qs t" by (simp add: simple_query_def cols)
  have "\<exists>is. mset is = mset (filter (\<lambda>i. oi_order_items i \<in> Some ` set ks) (db_items A)) \<and> r = Inr is"
    if rq: "rq = Inr vss" for vss
  proof -
    from query_ok [OF Q [unfolded rq] t(1) simple] obtain rows where rows: "answers tr ?qs t rows"
      and vss: "map (scan_row OrderItem_scanValues (orderitem_Columns @ orderitem_ForeignKeys)) rows = map Some vss"
      by (auto simp: cols)
    have "list_all2 item_repr (db_items A) (t (qs_Table ?qs))" using t(2) by (simp add: represents_def cols)
    moreover have "row_matches tr p x = (oi_order_items n \<in> Some ` set ks)"
      if "item_repr n x" "p \<in> set (qs_Predicates ?qs)" for n x p
      using item_cell(2) [OF that(1)] that by (auto simp: cols item_repr_def image_image)
    ultimately obtain ys where ys: "mset ys = mset (filter (\<lambda>i. oi_order_items i \<in> Some ` set ks) (db_items A))"
      "list_all2 item_repr ys rows"
      using answers_represent [OF _ rows, of item_repr "db_items A" "\<lambda>p n. oi_order_items n \<in> Some ` set ks"]
      by (auto simp: cols)
    have "r = Inr ys"
      using eq rq scan_loop [OF ys(2) vss, of "\<lambda>vs. OrderItem_assignValues _ vs zero_OrderItem" id "[]"] item_scan
      by simp
    with ys(1) show ?thesis by blast
  qed
  with eq show "r = Inr is \<Longrightarrow> mset is = mset (filter (\<lambda>i. oi_order_items i \<in> Some ` set ks) (db_items A))"
    and "r = Inl e \<Longrightarrow> e \<in> range SqlError"
    by (cases rq; force)+
qed

lemma OrderQuery_sqlAll_base:
  assumes simple: "simple_order_query q" and A: "db_state committed view (oq_driver q) d A"
    and Q: "sqlgraph_QueryNodes L (oq_driver q) (OrderQuery_querySpec q) d = (d1, Inr vss)"
  shows "\<exists>ns. order_answer tr q A ns
    \<and> range_loop (\<lambda>vs nodes. case Order_assignValues order_Columns vs (zero_Order\<lparr>o_loadedItems := b\<rparr>) of
              Inl e \<Rightarrow> Inl e | Inr node \<Rightarrow> Inr (nodes @ [node])) vss []
      = Inr (map (\<lambda>n. n\<lparr>o_loadedItems := b\<rparr>) (query_page q ns))"
proof -
  let ?qs = "OrderQuery_querySpec q"
  have cols: "qs_Columns ?qs = order_Columns" "qs_ScanValues ?qs = Order_scanValues"
    "qs_Limit ?qs = or_zero (oq_Limit q) 0" "qs_Offset ?qs = or_zero (oq_Offset q) 0"
    "qs_Order ?qs = oq_order q" "qs_Predicates ?qs = oq_predicates q" "qs_Table ?qs = order_Table"
    using simple by (simp_all add: OrderQuery_querySpec_def simple_order_query_def)
  from A obtain t where t: "tables_of committed view (oq_driver q) d = Some t" "represents t A"
    by (auto simp: db_state_def)
  have R: "list_all2 order_repr (db_orders A) (t (qs_Table ?qs))" using t(2) by (simp add: represents_def cols)
  have "\<exists>x. r FieldCreatedAt = VTime x" if "r \<in> set (t order_Table)" for r
    using list_all2_rightD [OF R] that order_cell(2) by (fastforce simp: cols)
  then have simple': "simple_query ?qs t"
    using simple
    by (cases "oq_Limit q"; cases "oq_Offset q")
      (auto simp: simple_query_def cols simple_order_query_def order_pred_plain ent_defs term_column_def)
  from query_ok [OF Q t(1) simple'] obtain rows where rows: "answers tr ?qs t rows"
    and vss: "map (scan_row Order_scanValues order_Columns) (query_page q rows) = map Some vss"
    by (auto simp: cols query_page_def)
  have match: "row_matches tr p r = order_matches tr p n"
    if "order_repr n r" "p \<in> set (qs_Predicates ?qs)" for n r p
    using simple that by (simp add: order_pred_row simple_order_query_def cols)
  have le: "order_le ot n m" if "order_repr n r" "order_repr m s" "ot \<in> set (qs_Order ?qs)" "term_le ot r s"
    for n m r s ot
    using that order_cell(2) [OF that(1)] order_cell(2) [OF that(2)] simple
    by (auto simp: simple_order_query_def cols ent_defs term_le_def order_le_def)
  have "\<exists>ys. mset ys = mset (filter (\<lambda>n. \<forall>p \<in> set (qs_Predicates ?qs). order_matches tr p n) (db_orders A))
      \<and> (\<forall>ot \<in> set (qs_Order ?qs). sorted_wrt (order_le ot) ys) \<and> list_all2 order_repr ys rows"
    by (rule answers_represent [OF R rows]) (erule (1) match, erule (3) le)
  then obtain ns where ns: "order_answer tr q A ns" and R': "list_all2 order_repr ns rows"
    by (auto simp: order_answer_def order_hits_def cols)
  have "list_all2 order_repr (query_page q ns) (query_page q rows)"
    unfolding query_page_def using R' by (rule list_all2_page)
  from scan_loop [OF this vss, of "\<lambda>vs. Order_assignValues order_Columns vs (zero_Order\<lparr>o_loadedItems := b\<rparr>)"
      "\<lambda>n. n\<lparr>o_loadedItems := b\<rparr>" "[]"] order_scan ns
  show ?thesis by (intro exI [of _ ns]) simp
qed

lemma OrderQuery_All_simple:
  assumes "OrderQuery_All L q d = (d', r)" and simple: "simple_order_query q"
    and A: "db_state committed view (oq_driver q) d A"
  shows "same_db committed view d d'"
    and "r = Inr res \<Longrightarrow> \<exists>ns. order_answer tr q A ns \<and>
           (if oq_withItems q = None then res = query_page q ns
            else \<exists>is. mset is = mset (filter (\<lambda>i. oi_order_items i \<in> Some ` o_ID ` set (query_page q ns)) (db_items A))
                    \<and> res = map (with_items is) (query_page q ns))"
    and "r = Inl e \<Longrightarrow> e \<in> range SqlError"
proof -
  let ?qs = "OrderQuery_querySpec q" and ?b = "oq_withItems q \<noteq> None"
  obtain d1 rq where Q: "sqlgraph_QueryNodes L (oq_driver q) ?qs d = (d1, rq)"
    by (cases "sqlgraph_QueryNodes L (oq_driver q) ?qs d")
  have prep: "OrderQuery_prepareQuery q = Inr ()" "order_terms_check order_ValidColumn (oq_order q) = Inr ()"
    "qs_Columns ?qs = order_Columns"
    using simple
    by (auto simp: OrderQuery_prepareQuery_def order_terms_check_def simple_order_query_def ent_defs
        OrderQuery_querySpec_def term_column_def order_ValidColumn_def order_Columns_def)
  have same1: "same_db committed view d d1" using query_same [OF Q] .
  have A1: "db_state committed view (oq_driver q) d1 A" using A same_db_state [OF same1] by simp
  have keys: "db_keys A" using A by (auto simp: db_state_def represents_def)
  have "same_db committed view d d' \<and> (\<forall>e. r = Inl e \<longrightarrow> e \<in> range SqlError) \<and> (\<forall>res. r = Inr res \<longrightarrow> (\<exists>ns. order_answer tr q A ns \<and>
           (if oq_withItems q = None then res = query_page q ns
            else \<exists>is. mset is = mset (filter (\<lambda>i. oi_order_items i \<in> Some ` o_ID ` set (query_page q ns)) (db_items A))
                    \<and> res = map (with_items is) (query_page q ns))))"
  proof (cases rq)
    case (Inl e)
    then show ?thesis
      using assms(1) Q prep same1 by (auto simp: OrderQuery_All_def OrderQuery_sqlAll_def Let_def)
  next
    case (Inr vss)
    from OrderQuery_sqlAll_base [OF simple A Q [unfolded Inr], of ?b] obtain ns
      where ns: "order_answer tr q A ns"
        and loop: "range_loop (\<lambda>vs nodes. case Order_assignValues order_Columns vs (zero_Order\<lparr>o_loadedItems := ?b\<rparr>) of
              Inl e \<Rightarrow> Inl e | Inr node \<Rightarrow> Inr (nodes @ [node])) vss []
            = Inr (map (\<lambda>n. n\<lparr>o_loadedItems := ?b\<rparr>) (query_page q ns))" by blast
    let ?base = "query_page q ns" and ?nodes = "map (\<lambda>n. n\<lparr>o_loadedItems := ?b\<rparr>) (query_page q ns)"
    have bare: "bare n" if "n \<in> set ?base" for n
    proof -
      have "n \<in> set (db_orders A)"
        using subsetD [OF order_answer_ids(2) [OF ns keys] subsetD [OF page_subset that [unfolded query_page_def]]] .
      with A1 show ?thesis
        by (auto simp: db_state_def represents_def order_repr_def dest!: list_all2_leftD)
    qed
    show ?thesis
    proof (cases "oq_withItems q")
      case None
      have "?nodes = ?base" using bare None by (intro map_idI) (simp add: bare_def)
      then show ?thesis
        using assms(1) Q prep Inr loop None same1 ns
        by (auto simp: OrderQuery_All_def OrderQuery_sqlAll_def Let_def)
    next
      case (Some iq)
      then have iq: "iq = OrderItemClient_Query (oq_driver q)"
        using simple by (simp add: simple_order_query_def)
      show ?thesis
      proof (cases "?nodes = []")
        case True
        then have "d' = d1" "r = Inr []"
          using assms(1) Q prep Inr loop Some by (simp_all add: OrderQuery_All_def OrderQuery_sqlAll_def Let_def)
        then show ?thesis using ns same1 True Some by (intro conjI allI impI exI [of _ ns]) auto
      next
        case False
        have load: "OrderQuery_loadItems L iq ?nodes d1 = (d', r)"
          using assms(1) Q prep Inr loop Some False
          by (simp add: OrderQuery_All_def OrderQuery_sqlAll_def Let_def)
        let ?q = "(OrderItemClient_Query (oq_driver q))\<lparr>iq_withFKs := True,
             iq_predicates := [FieldIn order_ItemsColumn (map VUUID (map o_ID ?base))]\<rparr>"
        obtain d2 ri where I: "OrderItemQuery_All L ?q d1 = (d2, ri)" by (cases "OrderItemQuery_All L ?q d1")
        have same2: "same_db committed view d1 d2" using OrderItemQuery_byOrders(1) [OF I A1] .
        have eq: "(d', r) = (case ri of Inl e \<Rightarrow> (d2, Inl e) | Inr nb \<Rightarrow>
            (d2, range_loop (OrderQuery_assignItem (OrderQuery_nodeids ?nodes)) nb (map (\<lambda>n. n\<lparr>o_Items := []\<rparr>) ?nodes)))"
          using load I
          by (simp add: OrderQuery_loadItems_def Let_def iq ent_defs comp_def split: sum.splits)
        have same: "same_db committed view d d'" using eq same1 same2 by (auto intro: same_db_trans split: sum.splits)
        show ?thesis
        proof (cases ri)
          case (Inl e)
          then show ?thesis using eq same OrderItemQuery_byOrders(3) [OF I A1 Inl] by simp
        next
          case (Inr nb)
          from OrderItemQuery_byOrders(2) [OF I A1 Inr]
          have nb: "mset nb = mset (filter (\<lambda>i. oi_order_items i \<in> Some ` o_ID ` set ?base) (db_items A))" by simp
          have "distinct (map o_ID ?nodes)"
            using page_distinct [OF order_answer_ids(1) [OF ns keys]] by (simp add: comp_def query_page_def)
          moreover have "oi_order_items n \<in> Some ` o_ID ` set ?nodes" if "n \<in> set nb" for n
          proof -
            have "o_ID ` set ?nodes = o_ID ` set ?base" by (simp add: image_image)
            then show ?thesis using mset_eq_setD [OF nb] that by (simp only:) auto
          qed
          ultimately have "range_loop (OrderQuery_assignItem (OrderQuery_nodeids ?nodes)) nb (map (\<lambda>n. n\<lparr>o_Items := []\<rparr>) ?nodes)
              = Inr (map (with_items nb) ?base)"
            using Some by (subst assign_loop) (simp_all add: comp_def with_items_def)
          then show ?thesis using eq Inr same ns nb Some by auto
        qed
      qed
    qed
  qed
  then show "same_db committed view d d'" and "r = Inr res \<Longrightarrow> \<exists>ns. order_answer tr q A ns \<and>
           (if oq_withItems q = None then res = query_page q ns
            else \<exists>is. mset is = mset (filter (\<lambda>i. oi_order_items i \<in> Some ` o_ID ` set (query_page q ns)) (db_items A))
                    \<and> res = map (with_items is) (query_page q ns))"
    and "r = Inl e \<Longrightarrow> e \<in> range SqlError"
    by blast+
qed

text \<open>The two reads by id, and the count.\<close>

lemma unique_order:
  assumes "db_keys A" and "order_answer tr q A ns" and "oq_predicates q = [p]"
    and "\<And>n. order_matches tr p n \<longleftrightarrow> o_ID n = i"
  shows "ns = [] \<and> i \<notin> o_ID ` set (db_orders A)
    \<or> (\<exists>n. ns = [n] \<and> n \<in> set (db_orders A) \<and> o_ID n = i)"
proof (cases "i \<in> o_ID ` set (db_orders A)")
  case True
  then obtain n where n: "n \<in> set (db_orders A)" "o_ID n = i" by auto
  have "order_hits tr q A = [n]"
    unfolding order_hits_def
    using filter_unique_singleton [OF _ n(1), of o_ID] assms(1,3,4) n(2)
    by (simp add: db_keys_def)
  with assms(2) have "ns = [n]" by (auto simp: order_answer_def intro: mset_singletonD)
  with n show ?thesis by simp
next
  case False
  then have "order_hits tr q A = []" using assms(3,4) by (auto simp: order_hits_def filter_empty_conv)
  with assms(2) False show ?thesis by (simp add: order_answer_def)
qed

lemma query_page_two: "oq_Limit q = Some 2 \<Longrightarrow> oq_Offset q = None \<Longrightarrow> length ns \<le> 1 \<Longrightarrow> query_page q ns = ns"
  by (simp add: query_page_def page_def)

lemma OrderClient_Get:
  assumes "OrderClient_Get L drv i d = (d', r)" and A: "db_state committed view drv d A"
  shows "same_db committed view d d'"
    and "(\<exists>n \<in> set (db_orders A). o_ID n = i \<and> r = Inr n)
      \<or> i \<notin> o_ID ` set (db_orders A) \<and> r = Inl (NotFoundError order_Label)
      \<or> (\<exists>e. r = Inl (SqlError e))"
proof -
  let ?q = "OrderQuery_Limit 2 (OrderQuery_Where [order_ID i] (OrderClient_Query drv))"
  obtain d1 ra where All: "OrderQuery_All L ?q d = (d1, ra)" by (cases "OrderQuery_All L ?q d")
  have simple: "simple_order_query ?q" and q: "oq_driver ?q = drv" "oq_predicates ?q = [order_ID i]"
    "oq_Limit ?q = Some 2" "oq_Offset ?q = None" "oq_withItems ?q = None"
    by (simp_all add: simple_order_query_def OrderQuery_Limit_def OrderQuery_Where_def
        OrderClient_Query_def order_pred.intros(1))
  have keys: "db_keys A" using A by (auto simp: db_state_def represents_def)
  note R = OrderQuery_All_simple [OF All simple, unfolded q(1), OF A]
  have eq: "(d', r) = (case ra of Inl e \<Rightarrow> (d1, Inl e) | Inr [n] \<Rightarrow> (d1, Inr n)
      | Inr [] \<Rightarrow> (d1, Inl (NotFoundError order_Label)) | Inr _ \<Rightarrow> (d1, Inl (NotSingularError order_Label)))"
    using assms(1) All by (simp add: OrderClient_Get_def OrderQuery_Only_def split: sum.splits list.splits)
  then show "same_db committed view d d'" using R(1) by (auto split: sum.splits list.splits)
  show "(\<exists>n \<in> set (db_orders A). o_ID n = i \<and> r = Inr n)
      \<or> i \<notin> o_ID ` set (db_orders A) \<and> r = Inl (NotFoundError order_Label)
      \<or> (\<exists>e. r = Inl (SqlError e))"
  proof (cases ra)
    case (Inl e)
    then show ?thesis using eq R(3) by auto
  next
    case (Inr res)
    from R(2) [OF this] obtain ns where ns: "order_answer tr ?q A ns" "res = query_page ?q ns"
      using q by auto
    from unique_order [OF keys ns(1) q(2)] have "ns = [] \<and> i \<notin> o_ID ` set (db_orders A)
      \<or> (\<exists>n. ns = [n] \<and> n \<in> set (db_orders A) \<and> o_ID n = i)" by simp
    then show ?thesis using query_page_two [OF q(3,4), of ns] eq Inr ns(2) by auto
  qed
qed

lemma OrderQuery_Only_withItems:
  assumes "OrderQuery_Only L (OrderQuery_WithItems (OrderQuery_Where [order_IDEQ i] (OrderClient_Query drv))) d = (d', r)"
    and A: "db_state committed view drv d A"
  shows "same_db committed view d d'"
    and "(\<exists>n is. n \<in> set (db_orders A) \<and> o_ID n = i \<and> r = Inr (with_items is n)
           \<and> mset is = mset (filter (\<lambda>x. oi_order_items x = Some i) (db_items A)))
      \<or> i \<notin> o_ID ` set (db_orders A) \<and> r = Inl (NotFoundError order_Label)
      \<or> (\<exists>e. r = Inl (SqlError e))"
proof -
  let ?q = "OrderQuery_Limit 2 (OrderQuery_WithItems (OrderQuery_Where [order_IDEQ i] (OrderClient_Query drv)))"
  obtain d1 ra where All: "OrderQuery_All L ?q d = (d1, ra)" by (cases "OrderQuery_All L ?q d")
  have simple: "simple_order_query ?q" and q: "oq_driver ?q = drv" "oq_predicates ?q = [order_IDEQ i]"
    "oq_Limit ?q = Some 2" "oq_Offset ?q = None" "oq_withItems ?q \<noteq> None"
    by (simp_all add: simple_order_query_def OrderQuery_Limit_def OrderQuery_Where_def
        OrderClient_Query_def OrderQuery_WithItems_def order_pred.intros(2))
  have keys: "db_keys A" using A by (auto simp: db_state_def represents_def)
  note R = OrderQuery_All_simple [OF All simple, unfolded q(1), OF A]
  have eq: "(d', r) = (case ra of Inl e \<Rightarrow> (d1, Inl e) | Inr [n] \<Rightarrow> (d1, Inr n)
      | Inr [] \<Rightarrow> (d1, Inl (NotFoundError order_Label)) | Inr _ \<Rightarrow> (d1, Inl (NotSingularError order_Label)))"
    using assms(1) All by (simp add: OrderQuery_Only_def split: sum.splits list.splits)
  then show "same_db committed view d d'" using R(1) by (auto split: sum.splits list.splits)
  show "(\<exists>n is. n \<in> set (db_orders A) \<and> o_ID n = i \<and> r = Inr (with_items is n)
           \<and> mset is = mset (filter (\<lambda>x. oi_order_items x = Some i) (db_items A)))
      \<or> i \<notin> o_ID ` set (db_orders A) \<and> r = Inl (NotFoundError order_Label)
      \<or> (\<exists>e. r = Inl (SqlError e))"
  proof (cases ra)
    case (Inl e)
    then show ?thesis using eq R(3) by auto
  next
    case (Inr res)
    from R(2) [OF this] q(5) obtain ns "is" where ns: "order_answer tr ?q A ns"
      and items: "mset is = mset (filter (\<lambda>i. oi_order_items i \<in> Some ` o_ID ` set (query_page ?q ns)) (db_items A))"
      and res: "res = map (with_items is) (query_page ?q ns)" by auto
    from unique_order [OF keys ns q(2)] have "ns = [] \<and> i \<notin> o_ID ` set (db_orders A)
      \<or> (\<exists>n. ns = [n] \<and> n \<in> set (db_orders A) \<and> o_ID n = i)" by simp
    then show ?thesis
      using query_page_two [OF q(3,4), of ns] eq Inr res items by auto
  qed
qed

lemma OrderQuery_Count_simple:
  assumes "OrderQuery_Count L q d = (d', r)" and simple: "simple_order_query q"
    and "oq_Limit q = None" "oq_Offset q = None" "oq_order q = []"
    and A: "db_state committed view (oq_driver q) d A"
  shows "same_db committed view d d'"
    and "r = Inr k \<Longrightarrow> k = int_of_len (order_hits tr q A) \<and> length (order_hits tr q A) < 2 ^ 63"
    and "r = Inl e \<Longrightarrow> e \<in> range SqlError"
proof -
  let ?qs = "(OrderQuery_querySpec q)\<lparr>qs_Columns := oq_Fields q\<rparr>"
  obtain d1 rc where C: "sqlgraph_CountNodes L (oq_driver q) ?qs d = (d1, rc)"
    by (cases "sqlgraph_CountNodes L (oq_driver q) ?qs d")
  have eq: "(d', r) = (case rc of Inl e \<Rightarrow> (d1, Inl (SqlError e)) | Inr n \<Rightarrow> (d1, Inr n))"
    using assms(1) C simple
    by (simp add: OrderQuery_Count_def OrderQuery_sqlCount_def OrderQuery_prepareQuery_def
        simple_order_query_def Let_def split: sum.splits)
  then show "same_db committed view d d'" "r = Inl e \<Longrightarrow> e \<in> range SqlError"
    using count_same [OF C] by (auto split: sum.splits)
  assume "r = Inr k"
  with eq have rc: "rc = Inr k" by (auto split: sum.splits)
  from A obtain t where t: "tables_of committed view (oq_driver q) d = Some t" "represents t A"
    by (auto simp: db_state_def)
  have qs: "simple_query ?qs t" "qs_Limit ?qs = 0" "qs_Offset ?qs = 0"
    using simple assms(3-5)
    by (simp_all add: simple_query_def OrderQuery_querySpec_def simple_order_query_def order_pred_plain)
  have "list_all2 order_repr (order_hits tr q A) (selected tr ?qs t)"
    unfolding order_hits_def selected_def
    using t(2) simple order_pred_row
    by (intro list_all2_filter_iff [where R = order_repr])
      (auto simp: represents_def OrderQuery_querySpec_def simple_order_query_def)
  then have "length (selected tr ?qs t) = length (order_hits tr q A)"
    by (metis list_all2_lengthD)
  with count_ok [OF C [unfolded rc] t(1) qs]
  show "k = int_of_len (order_hits tr q A) \<and> length (order_hits tr q A) < 2 ^ 63"
    by (simp add: int_of_len_def)
qed

lemma OutboxEventQuery_pending:
  assumes "OutboxEventQuery_All L (OutboxEventQuery_Limit b (OutboxEventQuery_Order (ent_Asc [FieldCreatedAt])
             (OutboxEventQuery_Where [outboxevent_ProcessedEQ False] (OutboxEventClient_Query drv)))) d = (d', r)"
    and b: "0 \<le> sint b" and A: "db_state committed view drv d A"
  shows "same_db committed view d d'"
    and "r = Inr res \<Longrightarrow> \<exists>es. mset es = mset (filter (\<lambda>e. \<not> ob_Processed e) (db_outbox A))
           \<and> sorted_wrt (\<lambda>e f. ob_CreatedAt e \<le> ob_CreatedAt f) es \<and> res = page b 0 es"
proof -
  let ?q = "OutboxEventQuery_Limit b (OutboxEventQuery_Order (ent_Asc [FieldCreatedAt])
             (OutboxEventQuery_Where [outboxevent_ProcessedEQ False] (OutboxEventClient_Query drv)))"
  let ?qs = "OutboxEventQuery_querySpec ?q"
  obtain d1 rq where Q: "sqlgraph_QueryNodes L drv ?qs d = (d1, rq)"
    by (cases "sqlgraph_QueryNodes L drv ?qs d")
  have cols: "qs_Columns ?qs = outboxevent_Columns" "qs_ScanValues ?qs = OutboxEvent_scanValues"
    "qs_Limit ?qs = b" "qs_Offset ?qs = 0" "qs_Order ?qs = [OrderAsc FieldCreatedAt]"
    "qs_Predicates ?qs = [outboxevent_ProcessedEQ False]" "qs_Table ?qs = outboxevent_Table"
    "bq_driver ?q = drv" "bq_order ?q = [OrderAsc FieldCreatedAt]"
    by (simp_all add: OutboxEventQuery_querySpec_def OutboxEventQuery_Limit_def OutboxEventQuery_Order_def
        OutboxEventQuery_Where_def OutboxEventClient_Query_def ent_Asc_def)
  have prep: "OutboxEventQuery_prepareQuery ?q = Inr ()"
    "order_terms_check outboxevent_ValidColumn [OrderAsc FieldCreatedAt] = Inr ()"
    by (simp_all add: OutboxEventQuery_prepareQuery_def OutboxEventQuery_Limit_def OutboxEventQuery_Order_def
        OutboxEventQuery_Where_def OutboxEventClient_Query_def order_terms_check_def term_column_def
        outboxevent_ValidColumn_def outboxevent_Columns_def)
  have plain: "plain_pred (outboxevent_ProcessedEQ False)" by (simp add: outboxevent_ProcessedEQ_def)
  have holds: "row_matches tr (outboxevent_ProcessedEQ False) s \<longleftrightarrow> \<not> ob_Processed n"
    if "outbox_repr n s" for n s
    using outbox_cell [OF that] by (auto simp: outboxevent_ProcessedEQ_def)
  have eq: "(d', r) = (case rq of Inl e \<Rightarrow> (d1, Inl (SqlError e)) | Inr vss \<Rightarrow>
      (d1, range_loop (\<lambda>vs nodes. case OutboxEvent_assignValues outboxevent_Columns vs zero_OutboxEvent of
              Inl e \<Rightarrow> Inl e | Inr node \<Rightarrow> Inr (nodes @ [node])) vss []))"
    using assms(1) Q prep
    by (simp add: OutboxEventQuery_All_def OutboxEventQuery_sqlAll_def Let_def cols split: sum.splits)
  then show "same_db committed view d d'" using query_same [OF Q] by (auto split: sum.splits)
  assume r: "r = Inr res"
  with eq obtain vss where rq: "rq = Inr vss" by (auto split: sum.splits)
  from A obtain t where t: "tables_of committed view drv d = Some t" "represents t A"
    by (auto simp: db_state_def)
  have R: "list_all2 outbox_repr (db_outbox A) (t (qs_Table ?qs))" using t(2) by (simp add: represents_def cols)
  have "\<exists>x. s FieldCreatedAt = VTime x" if "s \<in> set (t outboxevent_Table)" for s
    using list_all2_rightD [OF R] that outbox_cell(2) by (fastforce simp: cols)
  then have simple: "simple_query ?qs t"
    using b plain by (simp add: simple_query_def cols term_column_def)
  from query_ok [OF Q [unfolded rq] t(1) simple] obtain rows where rows: "answers tr ?qs t rows"
    and vss: "map (scan_row OutboxEvent_scanValues outboxevent_Columns) (page b 0 rows) = map Some vss"
    by (auto simp: cols)
  have "\<exists>es. mset es = mset (filter (\<lambda>e. \<forall>p \<in> set (qs_Predicates ?qs). \<not> ob_Processed e) (db_outbox A))
      \<and> (\<forall>ot \<in> set (qs_Order ?qs). sorted_wrt (\<lambda>e f. ob_CreatedAt e \<le> ob_CreatedAt f) es)
      \<and> list_all2 outbox_repr es rows"
    by (rule answers_represent [OF R rows])
      (auto simp: cols holds outbox_cell term_le_def)
  then obtain es where es: "mset es = mset (filter (\<lambda>e. \<not> ob_Processed e) (db_outbox A))"
    "sorted_wrt (\<lambda>e f. ob_CreatedAt e \<le> ob_CreatedAt f) es" and R': "list_all2 outbox_repr es rows"
    by (auto simp: cols)
  have "res = page b 0 es"
    using eq r rq scan_loop [OF list_all2_page [OF R'] vss, of "\<lambda>vs. OutboxEvent_assignValues _ vs zero_OutboxEvent" id "[]"]
      outbox_scan by simp
  with es show "\<exists>es. mset es = mset (filter (\<lambda>e. \<not> ob_Processed e) (db_outbox A))
           \<and> sorted_wrt (\<lambda>e f. ob_CreatedAt e \<le> ob_CreatedAt f) es \<and> res = page b 0 es" by blast
qed

end

end
