(* ===== verification/OrderContract.thy ===== *)
theory OrderContract
  imports Biz EntLoad
begin

text \<open>
  What the business layer may expect of an order repository, as a specification over the
  abstract database: the locale \<open>order_repo\<close>, whose laws the theory RepoRefinement
  discharges for \<open>data.OrderRepo\<close>; and what follows for the use cases, proved from the
  contract alone.
\<close>

subsection \<open>Placing an order\<close>

definition item_placed :: "uuid \<Rightarrow> CreateOrderItem \<Rightarrow> OrderItem \<Rightarrow> bool" where
  "item_placed oid c i \<longleftrightarrow>
     oi_order_items i = Some oid \<and> oi_ProductID i = coi_ProductID c \<and> oi_VariantID i = coi_VariantID c
     \<and> oi_ProductName i = coi_ProductName c \<and> oi_VariantDescription i = coi_VariantDescription c
     \<and> oi_UnitPrice i = coi_UnitPrice c \<and> oi_Quantity i = coi_Quantity c
     \<and> oi_TotalPrice i = coi_TotalPrice c \<and> oi_ImageURL i = coi_ImageURL c
     \<and> coi_ProductName c \<noteq> [] \<and> 0 < sint (coi_Quantity c)
     \<and> \<not> f64_lt (coi_UnitPrice c) f64_zero \<and> \<not> f64_lt (coi_TotalPrice c) f64_zero"

definition order_row_placed :: "CreateOrderCommand \<Rightarrow> Order \<Rightarrow> bool" where
  "order_row_placed cmd n \<longleftrightarrow>
     o_Status n = StatusCreated \<and> o_CustomerID n = coc_CustomerID cmd
     \<and> o_Subtotal n = coc_ComputedSubtotal cmd \<and> o_Tax n = coc_ComputedTax cmd
     \<and> o_ShippingCost n = f64_zero \<and> o_Total n = coc_ComputedTotal cmd
     \<and> o_ShippingAddress n = coc_ShippingAddress cmd \<and> o_BillingAddress n = coc_BillingAddress cmd
     \<and> o_ErrorMessage n = [] \<and> bare n
     \<and> \<not> f64_lt (coc_ComputedSubtotal cmd) f64_zero \<and> \<not> f64_lt (coc_ComputedTax cmd) f64_zero
     \<and> \<not> f64_lt (coc_ComputedTotal cmd) f64_zero"

definition created_event ::
    "('d, 'z) svc_lib_scheme \<Rightarrow> CreateOrderCommand \<Rightarrow> uuid \<Rightarrow> OrderCreatedEvent" where
  "created_event L cmd oid =
     \<lparr>oce_Order_id = uuid_String L oid, oce_Status = StatusCreated,
      oce_Temporary_price = coc_ComputedTotal cmd, oce_Customer_id = uuid_String L (coc_CustomerID cmd),
      oce_Items = coc_EventItems cmd\<rparr>"

definition event_placed ::
    "('d, 'z) svc_lib_scheme \<Rightarrow> CreateOrderCommand \<Rightarrow> uuid \<Rightarrow> OutboxEvent \<Rightarrow> bool" where
  "event_placed L cmd oid ev \<longleftrightarrow>
     ob_AggregateType ev = ''order'' \<and> ob_AggregateID ev = oid \<and> ob_EventType ev = ''order.created''
     \<and> \<not> ob_Processed ev
     \<and> OrderCreatedEvent_Serialize L (created_event L cmd oid) [] = Inr (ob_Payload ev)"

definition order_placed ::
    "('d, 'z) svc_lib_scheme \<Rightarrow> CreateOrderCommand \<Rightarrow> order_db \<Rightarrow>
     Order \<Rightarrow> OrderItem list \<Rightarrow> OutboxEvent \<Rightarrow> bool" where
  "order_placed L cmd A n items ev \<longleftrightarrow>
     order_row_placed cmd n \<and> o_ID n \<notin> o_ID ` set (db_orders A)
     \<and> list_all2 (item_placed (o_ID n)) (coc_Items cmd) items \<and> event_placed L cmd (o_ID n) ev"

definition add_order :: "order_db \<Rightarrow> Order \<Rightarrow> OrderItem list \<Rightarrow> OutboxEvent \<Rightarrow> order_db" where
  "add_order A n items ev =
     A\<lparr>db_orders := db_orders A @ [n], db_items := db_items A @ items, db_outbox := db_outbox A @ [ev]\<rparr>"

text \<open>The items of a freshly placed order are exactly those inserted with it.\<close>

lemma items_of_new_order:
  assumes "db_keys A" and "o_ID n \<notin> o_ID ` set (db_orders A)"
    and "list_all2 (item_placed (o_ID n)) cs items"
  shows "filter (\<lambda>x. oi_order_items x = Some (o_ID n)) (db_items (add_order A n items ev)) = items"
proof -
  have "filter (\<lambda>x. oi_order_items x = Some (o_ID n)) (db_items A) = []"
    unfolding filter_empty_conv
  proof (intro ballI notI)
    fix x
    assume "x \<in> set (db_items A)" "oi_order_items x = Some (o_ID n)"
    with assms(1) have "Some (o_ID n) \<in> Some ` o_ID ` set (db_orders A)"
      unfolding db_keys_def by metis
    with assms(2) show False by auto
  qed
  moreover have "filter (\<lambda>x. oi_order_items x = Some (o_ID n)) items = items"
    using assms(3) by (auto simp: item_placed_def filter_id_conv dest!: list_all2_rightD)
  ultimately show ?thesis by (simp add: add_order_def)
qed

subsection \<open>The status update\<close>

definition set_status ::
    "(time \<Rightarrow> time) \<Rightarrow> time \<Rightarrow> uuid \<Rightarrow> status \<Rightarrow> string option \<Rightarrow> order_db \<Rightarrow> order_db" where
  "set_status tr ua i st msg A =
     A\<lparr>db_orders := map (\<lambda>n. if o_ID n = i
          then n\<lparr>o_UpdatedAt := tr ua, o_Status := st, o_ErrorMessage := or_zero msg (o_ErrorMessage n)\<rparr>
          else n) (db_orders A)\<rparr>"

definition status_of :: "order_db \<Rightarrow> uuid \<Rightarrow> status option" where
  "status_of A i = map_option o_Status (find (\<lambda>n. o_ID n = i) (db_orders A))"

definition mark_processed :: "(time \<Rightarrow> time) \<Rightarrow> time \<Rightarrow> uuid \<Rightarrow> order_db \<Rightarrow> order_db" where
  "mark_processed tr ua i A =
     A\<lparr>db_outbox := map (\<lambda>e. if ob_ID e = i then e\<lparr>ob_UpdatedAt := tr ua, ob_Processed := True\<rparr> else e)
                        (db_outbox A)\<rparr>"

subsection \<open>Listing\<close>

definition list_hits :: "(time \<Rightarrow> time) \<Rightarrow> ListOrdersQuery \<Rightarrow> order_db \<Rightarrow> Order list" where
  "list_hits tr q A =
     filter (\<lambda>n. (\<forall>c. loq_CustomerID q = Some c \<longrightarrow> o_CustomerID n = c)
              \<and> (\<forall>s. loq_Status q = Some s \<longrightarrow> o_Status n = s)
              \<and> (\<forall>t. loq_CreatedAfter q = Some t \<longrightarrow> tr t < o_CreatedAt n)) (db_orders A)"

definition query_ok :: "ListOrdersQuery \<Rightarrow> bool" where
  "query_ok q \<longleftrightarrow> 1 \<le> sint (loq_Page q) \<and> sint (loq_Page q) < 2 ^ 31
     \<and> 1 \<le> sint (loq_PageSize q) \<and> sint (loq_PageSize q) \<le> 100"

definition page_of :: "ListOrdersQuery \<Rightarrow> 'a list \<Rightarrow> 'a list" where
  "page_of q xs =
     take (nat (sint (loq_PageSize q)))
       (drop (nat ((sint (loq_Page q) - 1) * sint (loq_PageSize q))) xs)"

text \<open>Listing: the offset of a page of a valid query is its mathematical value.\<close>

lemma list_offset:
  assumes "query_ok q"
  shows "sint ((loq_Page q - 1) * loq_PageSize q) = (sint (loq_Page q) - 1) * sint (loq_PageSize q)"
proof -
  have p: "0 \<le> sint (loq_Page q) - 1" "sint (loq_Page q) - 1 < 2 ^ 31"
    and s: "0 \<le> sint (loq_PageSize q)" "sint (loq_PageSize q) \<le> 100"
    using assms by (auto simp: query_ok_def)
  have "(sint (loq_Page q) - 1) * sint (loq_PageSize q) \<le> 2 ^ 31 * 100"
    using p s by (intro mult_mono) auto
  moreover have "0 \<le> (sint (loq_Page q) - 1) * sint (loq_PageSize q)" using p s by simp
  moreover have "sint (loq_Page q - 1) = sint (loq_Page q) - 1"
    using p by (simp add: sint_word_diff signed_take_bit_int_eq_self)
  ultimately show ?thesis
    by (simp add: sint_word_mult signed_take_bit_int_eq_self)
qed

subsection \<open>The contract\<close>

text \<open>
  \<open>db d A\<close>: no transaction is open and the committed tables represent \<open>A\<close>. An operation that
  reports an error may still have taken effect, but only entirely.
\<close>

locale order_repo = uuid_lib L
  for L :: "('d, 'z) svc_lib_scheme" +
  fixes repo :: "'d OrderRepo"
    and db :: "'d \<Rightarrow> order_db \<Rightarrow> bool"
    and tr :: "time \<Rightarrow> time"
  assumes keys: "db d A \<Longrightarrow> db_keys A"
    and create:
      "db d A \<Longrightarrow> repo_Create repo cmd d = (d', r) \<Longrightarrow>
         db d' A \<and> r \<notin> range Inr
         \<or> (\<exists>n items ev. order_placed L cmd A n items ev \<and> db d' (add_order A n items ev)
              \<and> (\<forall>e. r = Inr e \<longrightarrow> (\<exists>is. mset is = mset items \<and> e = with_items is n)))"
    and get:
      "db d A \<Longrightarrow> repo_Get repo i d = (d', ro) \<Longrightarrow>
         db d' A \<and> (\<forall>e. ro = Inr e \<longrightarrow> (\<exists>n is. n \<in> set (db_orders A) \<and> o_ID n = i \<and> e = with_items is n
                        \<and> mset is = mset (filter (\<lambda>x. oi_order_items x = Some i) (db_items A))))
         \<and> (ro = Inl (EntErr (NotFoundError order_Label)) \<longrightarrow> i \<notin> o_ID ` set (db_orders A))"
    and list:
      "db d A \<Longrightarrow> query_ok q \<Longrightarrow> repo_List repo q d = (d', rl) \<Longrightarrow>
         db d' A \<and> (\<forall>res k. rl = Inr (res, k) \<longrightarrow>
           k = int_of_len (list_hits tr q A) \<and> length (list_hits tr q A) < 2 ^ 63
           \<and> (\<exists>ns is. mset ns = mset (list_hits tr q A)
                \<and> sorted_wrt (\<lambda>n m. o_CreatedAt m \<le> o_CreatedAt n) ns
                \<and> mset is = mset (filter (\<lambda>x. oi_order_items x \<in> Some ` o_ID ` set (page_of q ns)) (db_items A))
                \<and> res = map (with_items is) (page_of q ns)))"
    and update:
      "db d A \<Longrightarrow> repo_UpdateStatus repo i st msg expected d = (d', ru) \<Longrightarrow>
         db d' A \<and> (ru = None \<longrightarrow> (\<exists>s. status_of A i = Some s \<and> (s = st \<or> s \<noteq> expected)))
         \<or> (\<exists>ua. db d' (set_status tr ua i st msg A) \<and> status_of A i = Some expected \<and> expected \<noteq> st)"
    and pending:
      "db d A \<Longrightarrow> 0 < sint b \<Longrightarrow> repo_ListPendingOutbox repo b d = (d', rp) \<Longrightarrow>
         db d' A \<and> (\<forall>res. rp = Inr res \<longrightarrow>
           (\<exists>es. mset es = mset (filter (\<lambda>e. \<not> ob_Processed e) (db_outbox A))
              \<and> sorted_wrt (\<lambda>e f. ob_CreatedAt e \<le> ob_CreatedAt f) es \<and> res = take (nat (sint b)) es))"
    and processed:
      "db d A \<Longrightarrow> repo_MarkOutboxProcessed repo i d = (d', rm) \<Longrightarrow>
         db d' A \<and> rm \<noteq> None \<or> (\<exists>ua. db d' (mark_processed tr ua i A))"

text \<open>The other dependency of the use cases: a catalogue call leaves the database alone.\<close>

locale variant_catalog =
  fixes catalog :: "'d VariantCatalog"
    and db :: "'d \<Rightarrow> order_db \<Rightarrow> bool"
  assumes catalog_db: "db d A \<Longrightarrow> catalog_GetVariantsByIDs catalog ids d = (d', r) \<Longrightarrow> db d' A"

end
