(* ===== verification/Pricing.thy ===== *)
theory Pricing
  imports Biz
begin

text \<open>
  Pricing an order: the accumulating loop of \<open>CreateOrder\<close> against a reference that prices
  each requested line on its own, and what follows for the amounts of the order.
\<close>

subsection \<open>The variants of the catalogue, by id\<close>

lemma find_append: "find P (xs @ ys) = (case find P xs of Some x \<Rightarrow> Some x | None \<Rightarrow> find P ys)"
  by (induction xs) auto

lemma variantMap_fold:
  "fold (\<lambda>v m. m(vi_ID v \<mapsto> v)) vs m k =
     (case find (\<lambda>v. vi_ID v = k) (rev vs) of Some v \<Rightarrow> Some v | None \<Rightarrow> m k)"
  by (induction vs arbitrary: m)
    (auto simp: find_append split: option.splits)

lemma variantMap_find: "variantMap vs k = find (\<lambda>v. vi_ID v = k) (rev vs)"
  by (simp add: variantMap_def variantMap_fold split: option.splits)

lemma variantMap_SomeD: "variantMap vs k = Some v \<Longrightarrow> v \<in> set vs \<and> vi_ID v = k"
  by (auto simp: variantMap_find find_Some_iff) (metis nth_mem set_rev length_rev)

lemma variantMap_None: "variantMap vs k = None \<longleftrightarrow> k \<notin> vi_ID ` set vs"
  by (auto simp: variantMap_find find_None_iff)

subsection \<open>A line on its own\<close>

definition priced_line ::
    "('d, 'z) svc_lib_scheme \<Rightarrow> (string \<rightharpoonup> VariantInfo) \<Rightarrow> OrderItemRequest \<Rightarrow>
     go_error + CreateOrderItem \<times> avro_Item" where
  "priced_line L variants item =
     (case variants (oir_VariantId item) of
        None \<Rightarrow> Inl (GrpcStatus InvalidArgument (''variant ID '' @ oir_VariantId item @ '' not found'') None)
      | Some v \<Rightarrow>
          if \<not> f64_eq (vi_SalePrice v) (oir_UnitPrice item) then
            Inl (GrpcStatus InvalidArgument (''price mismatch for variant ID '' @ oir_VariantId item) None)
          else
            (case (uuid_Parse L (vi_ProductID v), uuid_Parse L (vi_ID v)) of
               (Inl _, _) \<Rightarrow> Inl (GrpcStatus Internal
                 (''invalid product ID from product service for variant '' @ oir_VariantId item) None)
             | (_, Inl _) \<Rightarrow> Inl (GrpcStatus Internal
                 (''invalid variant ID from product service for variant '' @ oir_VariantId item) None)
             | (Inr p, Inr i) \<Rightarrow>
                 Inr (\<lparr>coi_ProductID = p, coi_VariantID = i, coi_ProductName = vi_ProductName v,
                       coi_VariantDescription = vi_VariantDescription v, coi_UnitPrice = vi_SalePrice v,
                       coi_Quantity = int_of_i32 (oir_Quantity item),
                       coi_TotalPrice = f64_mul (f64_of_i32 (oir_Quantity item)) (vi_SalePrice v),
                       coi_ImageURL = vi_ImageURL v\<rparr>,
                      \<lparr>av_Variant_id = oir_VariantId item, av_Quantity = oir_Quantity item,
                       av_Unit_price = vi_SalePrice v\<rparr>)))"

fun map_result :: "('a \<Rightarrow> 'e + 'b) \<Rightarrow> 'a list \<Rightarrow> 'e + 'b list" where
  \<comment> \<open>all results, or the first error\<close>
  "map_result f [] = Inr []"
| "map_result f (x # xs) =
     (case f x of Inl e \<Rightarrow> Inl e
      | Inr y \<Rightarrow> (case map_result f xs of Inl e \<Rightarrow> Inl e | Inr ys \<Rightarrow> Inr (y # ys)))"

lemma map_result_Inr: "map_result f xs = Inr ys \<longleftrightarrow> list_all2 (\<lambda>x y. f x = Inr y) xs ys"
proof (induction xs arbitrary: ys)
  case (Cons x xs)
  show ?case
    by (cases "f x"; cases "map_result f xs"; cases ys) (auto simp: Cons [symmetric])
qed auto

lemma map_result_Inl:
  "map_result f xs = Inl e \<longleftrightarrow>
     (\<exists>as x bs. xs = as @ x # bs \<and> f x = Inl e \<and> (\<forall>a \<in> set as. f a \<in> range Inr))"
proof (induction xs)
  case (Cons x xs)
  show ?case
  proof (cases "f x")
    case (Inl e')
    have "(\<exists>as y bs. x # xs = as @ y # bs \<and> f y = Inl e \<and> (\<forall>a \<in> set as. f a \<in> range Inr)) \<longleftrightarrow> e = e'"
    proof
      assume "e = e'"
      with Inl show "\<exists>as y bs. x # xs = as @ y # bs \<and> f y = Inl e \<and> (\<forall>a \<in> set as. f a \<in> range Inr)"
        by (intro exI [of _ "[]"] exI [of _ x] exI [of _ xs]) simp
    qed (use Inl in \<open>auto simp: Cons_eq_append_conv\<close>)
    with Inl show ?thesis by auto
  next
    case (Inr y)
    have "(\<exists>as z bs. x # xs = as @ z # bs \<and> f z = Inl e \<and> (\<forall>a \<in> set as. f a \<in> range Inr)) \<longleftrightarrow>
        (\<exists>as z bs. xs = as @ z # bs \<and> f z = Inl e \<and> (\<forall>a \<in> set as. f a \<in> range Inr))"
    proof
      assume "\<exists>as z bs. xs = as @ z # bs \<and> f z = Inl e \<and> (\<forall>a \<in> set as. f a \<in> range Inr)"
      then obtain as z bs where "xs = as @ z # bs" "f z = Inl e" "\<forall>a \<in> set as. f a \<in> range Inr" by blast
      with Inr show "\<exists>as z bs. x # xs = as @ z # bs \<and> f z = Inl e \<and> (\<forall>a \<in> set as. f a \<in> range Inr)"
        by (intro exI [of _ "x # as"] exI [of _ z] exI [of _ bs]) simp
    next
      assume "\<exists>as z bs. x # xs = as @ z # bs \<and> f z = Inl e \<and> (\<forall>a \<in> set as. f a \<in> range Inr)"
      then obtain as z bs where s: "x # xs = as @ z # bs" "f z = Inl e" "\<forall>a \<in> set as. f a \<in> range Inr" by blast
      with Inr obtain as' where "as = x # as'" by (cases as) auto
      with s show "\<exists>as z bs. xs = as @ z # bs \<and> f z = Inl e \<and> (\<forall>a \<in> set as. f a \<in> range Inr)" by auto
    qed
    moreover have "map_result f (x # xs) = Inl e \<longleftrightarrow> map_result f xs = Inl e"
      using Inr by (simp split: sum.splits)
    ultimately show ?thesis using Cons by (simp only:)
  qed
qed simp

lemma CreateOrder_item_line:
  "CreateOrder_item L vm item (cmd, evs) =
     (case priced_line L vm item of Inl e \<Rightarrow> Inl e
      | Inr (c, a) \<Rightarrow> Inr (cmd\<lparr>coc_ComputedSubtotal := f64_add (coc_ComputedSubtotal cmd) (coi_TotalPrice c),
                             coc_Items := coc_Items cmd @ [c]\<rparr>, evs @ [a]))"
  by (simp add: CreateOrder_item_def priced_line_def Let_def split: option.splits sum.splits)

definition subtotal_from :: "float64 \<Rightarrow> CreateOrderItem list \<Rightarrow> float64" where
  "subtotal_from x lines = foldl f64_add x (map coi_TotalPrice lines)"

lemma CreateOrder_loop:
  "range_loop (CreateOrder_item L vm) items (cmd, evs) =
     (case map_result (priced_line L vm) items of Inl e \<Rightarrow> Inl e
      | Inr ls \<Rightarrow> Inr (cmd\<lparr>coc_ComputedSubtotal := subtotal_from (coc_ComputedSubtotal cmd) (map fst ls),
                         coc_Items := coc_Items cmd @ map fst ls\<rparr>, evs @ map snd ls))"
  by (induction items arbitrary: cmd evs)
    (simp_all add: subtotal_from_def CreateOrder_item_line split: sum.splits prod.splits)

definition priced_order ::
    "CreateOrderRequest \<Rightarrow> uuid \<Rightarrow> (CreateOrderItem \<times> avro_Item) list \<Rightarrow> CreateOrderCommand" where
  "priced_order req customerID ls =
     (let subtotal = subtotal_from f64_zero (map fst ls); tax = f64_mul subtotal f64_tenth
      in \<lparr>coc_CustomerID = customerID, coc_ShippingAddress = cor_ShippingAddress req,
          coc_BillingAddress = cor_BillingAddress req, coc_Items = map fst ls, coc_EventItems = map snd ls,
          coc_ComputedSubtotal = subtotal, coc_ComputedTax = tax, coc_ComputedTotal = f64_add subtotal tax\<rparr>)"

lemma CreateOrder_command_priced:
  "CreateOrder_command L req customerID variants =
     (case map_result (priced_line L (variantMap variants)) (cor_Items req) of
        Inl e \<Rightarrow> Inl e | Inr ls \<Rightarrow> Inr (priced_order req customerID ls))"
  by (simp add: CreateOrder_command_def CreateOrder_loop priced_order_def Let_def split: sum.splits)

lemma CreateOrder_command_InrE:
  assumes "CreateOrder_command L req customerID variants = Inr cmd"
  obtains ls where "cmd = priced_order req customerID ls"
    and "list_all2 (\<lambda>item l. priced_line L (variantMap variants) item = Inr l) (cor_Items req) ls"
  using assms by (auto simp: CreateOrder_command_priced map_result_Inr split: sum.splits)

lemma priced_line_InrE:
  assumes "priced_line L vm item = Inr (c, a)"
  obtains v p i where "vm (oir_VariantId item) = Some v" "f64_eq (vi_SalePrice v) (oir_UnitPrice item)"
    and "uuid_Parse L (vi_ProductID v) = Inr p" "uuid_Parse L (vi_ID v) = Inr i"
    and "coi_ProductID c = p" "coi_VariantID c = i" "coi_ProductName c = vi_ProductName v"
    and "coi_VariantDescription c = vi_VariantDescription v" "coi_ImageURL c = vi_ImageURL v"
    and "coi_UnitPrice c = vi_SalePrice v" "coi_Quantity c = int_of_i32 (oir_Quantity item)"
    and "coi_TotalPrice c = f64_mul (f64_of_i32 (oir_Quantity item)) (vi_SalePrice v)"
    and "a = \<lparr>av_Variant_id = oir_VariantId item, av_Quantity = oir_Quantity item, av_Unit_price = vi_SalePrice v\<rparr>"
  using assms by (auto simp: priced_line_def split: option.splits if_splits sum.splits)

subsection \<open>The amounts\<close>

lemma subtotal_step: "subtotal_from x (c # cs) = subtotal_from (f64_add x (coi_TotalPrice c)) cs"
  by (simp add: subtotal_from_def)

lemma f64_le_trans:
  assumes "f64_le x y" "f64_le y z" shows "f64_le x z"
proof (cases "\<exists>a m e b n f c k g. x = FFin a m e \<and> y = FFin b n f \<and> z = FFin c k g")
  case True
  then show ?thesis using assms by (auto simp: f64_le_FFin)
next
  case False
  then show ?thesis using assms
    by (cases x; cases y; cases z) (auto simp: f64_le_def)
qed

lemma f64_nonneg_refl: "f64_nonneg x \<Longrightarrow> f64_le x x"
  by (cases x) (auto simp: f64_le_FFin, auto simp: f64_le_def)

lemma subtotal_from_nonneg:
  assumes "f64_ok x" "f64_nonneg x" and "\<forall>c \<in> set cs. f64_nonneg (coi_TotalPrice c)"
  shows "f64_ok (subtotal_from x cs) \<and> f64_nonneg (subtotal_from x cs) \<and> f64_le x (subtotal_from x cs)"
  using assms
proof (induction cs arbitrary: x)
  case (Cons c cs)
  let ?y = "f64_add x (coi_TotalPrice c)"
  have "f64_ok ?y" "f64_nonneg ?y" "f64_le x ?y"
    using Cons.prems by (simp_all add: f64_add_nonneg f64_add_ge)
  with Cons.IH [of ?y] Cons.prems show ?case by (auto simp: subtotal_step intro: f64_le_trans)
qed (simp add: subtotal_from_def f64_nonneg_refl)

lemma f64_nonneg_not_lt: "f64_nonneg x \<Longrightarrow> \<not> f64_lt x f64_zero"
  by (cases x) (auto simp: f64_zero_def align_def signed_sig_def Let_def not_less)

lemma f64_zero_nonneg [simp]: "f64_nonneg f64_zero" "f64_ok f64_zero"
  by (simp_all add: f64_zero_def)

lemma f64_mul_tenth_nonneg: "f64_nonneg x \<Longrightarrow> f64_nonneg (f64_mul x f64_tenth)"
  by (cases x) (auto simp: f64_tenth_def)

text \<open>Whole amounts below \<open>2 ^ 53\<close> are summed exactly.\<close>

lemma subtotal_from_exact:
  assumes "list_all2 (\<lambda>c k. coi_TotalPrice c = f64_of_int k) cs ks"
    and "\<forall>k \<in> set ks. 0 \<le> k" and "0 \<le> s" and "s + sum_list ks < 2 ^ 53"
  shows "subtotal_from (f64_of_int s) cs = f64_of_int (s + sum_list ks)"
  using assms
proof (induction arbitrary: s rule: list_all2_induct)
  case (Cons c cs k ks)
  have nn: "0 \<le> sum_list ks" using Cons.prems by (intro sum_list_nonneg) simp
  have "f64_add (f64_of_int s) (f64_of_int k) = f64_of_int (s + k)"
    using Cons.prems nn by (intro f64_add_of_int) auto
  with Cons.IH [of "s + k"] Cons.hyps Cons.prems show ?case by (simp add: subtotal_step algebra_simps)
qed (simp add: subtotal_from_def)

lemma f64_zero_int: "f64_zero = f64_of_int 0"
  by (simp add: f64_zero_def f64_of_int_def round64_def)

end
