(* ===== verification/Saga.thy ===== *)
theory Saga
  imports OrderContract Pricing "HOL-Library.Sublist"
begin

text \<open>
  The order saga as a specification over the abstract database: which steps the service
  takes, what holds of every database they can reach, and how the status of one order may
  evolve. The use cases and the workers are shown to take only these steps (theories UseCases
  and Worker).
\<close>

subsection \<open>Commands and the orders they place\<close>

definition event_item :: "('d, 'z) svc_lib_scheme \<Rightarrow> CreateOrderItem \<Rightarrow> avro_Item \<Rightarrow> bool" where
  \<comment> \<open>a line of the order and the entry of the announced event that stands for it\<close>
  "event_item L c a \<longleftrightarrow>
     uuid_Parse L (av_Variant_id a) = Inr (coi_VariantID c) \<and> coi_Quantity c = int_of_i32 (av_Quantity a)
     \<and> av_Unit_price a = coi_UnitPrice c"

definition line_total :: "i64 \<Rightarrow> float64 \<Rightarrow> float64" where
  "line_total k price = f64_mul (f64_of_int (sint k)) price"

definition command_ok :: "('d, 'z) svc_lib_scheme \<Rightarrow> CreateOrderCommand \<Rightarrow> bool" where
  "command_ok L cmd \<longleftrightarrow>
     coc_Items cmd \<noteq> [] \<and> list_all2 (event_item L) (coc_Items cmd) (coc_EventItems cmd)
     \<and> (\<forall>c \<in> set (coc_Items cmd). coi_TotalPrice c = line_total (coi_Quantity c) (coi_UnitPrice c))
     \<and> coc_ComputedSubtotal cmd = foldl f64_add f64_zero (map coi_TotalPrice (coc_Items cmd))
     \<and> coc_ComputedTax cmd = f64_mul (coc_ComputedSubtotal cmd) f64_tenth
     \<and> coc_ComputedTotal cmd = f64_add (coc_ComputedSubtotal cmd) (coc_ComputedTax cmd)"

lemma priced_line_event:
  assumes "priced_line L (variantMap vs) item = Inr (c, a)"
  shows "event_item L c a" "coi_TotalPrice c = line_total (coi_Quantity c) (coi_UnitPrice c)"
  using assms
  by (auto elim!: priced_line_InrE dest!: variantMap_SomeD simp: event_item_def line_total_def f64_of_i32_def)

lemma command_ok_priced:
  assumes "list_all2 (\<lambda>item l. priced_line L (variantMap vs) item = Inr l) items ls" and "items \<noteq> []"
  shows "command_ok L (priced_order req customerID ls)"
proof -
  have "event_item L (fst l) (snd l) \<and> coi_TotalPrice (fst l) = line_total (coi_Quantity (fst l)) (coi_UnitPrice (fst l))"
    if "l \<in> set ls" for l
    using list_all2_rightD [OF assms(1) that] priced_line_event by (metis prod.collapse)
  moreover have "ls \<noteq> []" using assms by auto
  ultimately show ?thesis
    by (auto simp: command_ok_def priced_order_def Let_def subtotal_from_def list_all2_map1 list_all2_map2
        intro!: list.rel_refl_strong)
qed

subsection \<open>Consistent databases\<close>

definition items_of :: "order_db \<Rightarrow> uuid \<Rightarrow> OrderItem list" where
  "items_of A i = filter (\<lambda>x. oi_order_items x = Some i) (db_items A)"

definition events_of :: "order_db \<Rightarrow> uuid \<Rightarrow> OutboxEvent list" where
  "events_of A i = filter (\<lambda>ev. ob_AggregateID ev = i) (db_outbox A)"

definition saga_states :: "status set" where
  "saga_states = {StatusCreated, StatusInventoryReserved, StatusInventoryReservedFailed,
     StatusPaymentCompleted, StatusPaymentFailed}"

definition item_ok :: "OrderItem \<Rightarrow> bool" where
  "item_ok i \<longleftrightarrow> 0 < sint (oi_Quantity i) \<and> oi_ProductName i \<noteq> []
     \<and> oi_TotalPrice i = line_total (oi_Quantity i) (oi_UnitPrice i)
     \<and> \<not> f64_lt (oi_UnitPrice i) f64_zero \<and> \<not> f64_lt (oi_TotalPrice i) f64_zero"

definition order_ok :: "OrderItem list \<Rightarrow> Order \<Rightarrow> bool" where
  \<comment> \<open>the stored amounts are those computed from the stored lines\<close>
  "order_ok items n \<longleftrightarrow>
     items \<noteq> [] \<and> (\<forall>i \<in> set items. item_ok i)
     \<and> o_Subtotal n = foldl f64_add f64_zero (map oi_TotalPrice items)
     \<and> o_Tax n = f64_mul (o_Subtotal n) f64_tenth \<and> o_Total n = f64_add (o_Subtotal n) (o_Tax n)
     \<and> \<not> f64_lt (o_Total n) f64_zero"

definition announced_item :: "('d, 'z) svc_lib_scheme \<Rightarrow> OrderItem \<Rightarrow> avro_Item \<Rightarrow> bool" where
  "announced_item L i a \<longleftrightarrow>
     uuid_Parse L (av_Variant_id a) = Inr (oi_VariantID i) \<and> oi_Quantity i = int_of_i32 (av_Quantity a)
     \<and> av_Unit_price a = oi_UnitPrice i"

definition announces :: "('d, 'z) svc_lib_scheme \<Rightarrow> OrderItem list \<Rightarrow> Order \<Rightarrow> OutboxEvent \<Rightarrow> bool" where
  \<comment> \<open>the event carries the order: its id, customer, total and lines\<close>
  "announces L items n ev \<longleftrightarrow>
     ob_EventType ev = ''order.created'' \<and> ob_AggregateType ev = ''order''
     \<and> (\<exists>as. list_all2 (announced_item L) items as
          \<and> OrderCreatedEvent_Serialize L
              \<lparr>oce_Order_id = uuid_String L (o_ID n), oce_Status = StatusCreated,
               oce_Temporary_price = o_Total n, oce_Customer_id = uuid_String L (o_CustomerID n),
               oce_Items = as\<rparr> [] = Inr (ob_Payload ev))"

definition saga_inv :: "('d, 'z) svc_lib_scheme \<Rightarrow> order_db \<Rightarrow> bool" where
  "saga_inv L A \<longleftrightarrow>
     db_keys A
     \<and> (\<forall>n \<in> set (db_orders A). o_Status n \<in> saga_states \<and> order_ok (items_of A (o_ID n)) n
          \<and> (\<exists>ev. events_of A (o_ID n) = [ev] \<and> announces L (items_of A (o_ID n)) n ev))
     \<and> (\<forall>ev \<in> set (db_outbox A). ob_AggregateID ev \<in> o_ID ` set (db_orders A))"

subsection \<open>Steps\<close>

inductive order_step :: "('d, 'z) svc_lib_scheme \<Rightarrow> (time \<Rightarrow> time) \<Rightarrow> order_db \<Rightarrow> order_db \<Rightarrow> bool"
  for L tr where
  placed: "order_placed L cmd A n items ev \<Longrightarrow> command_ok L cmd \<Longrightarrow> db_keys (add_order A n items ev) \<Longrightarrow>
     order_step L tr A (add_order A n items ev)"
| stock: "status_of A i = Some StatusCreated \<Longrightarrow>
     st \<in> {StatusInventoryReserved, StatusInventoryReservedFailed} \<Longrightarrow>
     order_step L tr A (set_status tr ua i st msg A)"
| payment: "status_of A i = Some StatusInventoryReserved \<Longrightarrow>
     st \<in> {StatusPaymentCompleted, StatusPaymentFailed} \<Longrightarrow>
     order_step L tr A (set_status tr ua i st msg A)"

inductive saga_step :: "('d, 'z) svc_lib_scheme \<Rightarrow> (time \<Rightarrow> time) \<Rightarrow> order_db \<Rightarrow> order_db \<Rightarrow> bool"
  for L tr where
  ordered: "order_step L tr A A' \<Longrightarrow> saga_step L tr A A'"
| dispatched: "saga_step L tr A (mark_processed tr ua i A)"

inductive next_status :: "status \<Rightarrow> status \<Rightarrow> bool" where
  "next_status StatusCreated StatusInventoryReserved"
| "next_status StatusCreated StatusInventoryReservedFailed"
| "next_status StatusInventoryReserved StatusPaymentCompleted"
| "next_status StatusInventoryReserved StatusPaymentFailed"

inductive_cases saga_stepE: "saga_step L tr A A'"
inductive_cases order_stepE: "order_step L tr A A'"
inductive_simps next_status_iff: "next_status s s'"

subsection \<open>The invariant is preserved\<close>

lemma set_status_items [simp]:
  "items_of (set_status tr ua i st msg A) k = items_of A k"
  "events_of (set_status tr ua i st msg A) k = events_of A k"
  "db_outbox (set_status tr ua i st msg A) = db_outbox A"
  "db_items (set_status tr ua i st msg A) = db_items A"
  by (simp_all add: items_of_def events_of_def set_status_def)

lemma set_status_ids [simp]: "map o_ID (db_orders (set_status tr ua i st msg A)) = map o_ID (db_orders A)"
  by (simp add: set_status_def)

lemma set_status_id_set [simp]: "o_ID ` set (db_orders (set_status tr ua i st msg A)) = o_ID ` set (db_orders A)"
  using arg_cong [OF set_status_ids, of set] by (simp only: set_map)

lemma set_status_member:
  assumes "n' \<in> set (db_orders (set_status tr ua i st msg A))"
  obtains n where "n \<in> set (db_orders A)"
    "n' = (if o_ID n = i then n\<lparr>o_UpdatedAt := tr ua, o_Status := st, o_ErrorMessage := or_zero msg (o_ErrorMessage n)\<rparr> else n)"
  using assms by (auto simp: set_status_def)

lemma mark_processed_simps [simp]:
  "db_orders (mark_processed tr ua i A) = db_orders A"
  "db_items (mark_processed tr ua i A) = db_items A"
  "items_of (mark_processed tr ua i A) k = items_of A k"
  "map ob_ID (db_outbox (mark_processed tr ua i A)) = map ob_ID (db_outbox A)"
  "map ob_AggregateID (db_outbox (mark_processed tr ua i A)) = map ob_AggregateID (db_outbox A)"
  by (simp_all add: mark_processed_def items_of_def)

lemma mark_processed_events:
  "events_of (mark_processed tr ua i A) k =
     map (\<lambda>e. if ob_ID e = i then e\<lparr>ob_UpdatedAt := tr ua, ob_Processed := True\<rparr> else e) (events_of A k)"
  by (simp add: events_of_def mark_processed_def filter_map o_def if_distrib [of "\<lambda>e. ob_AggregateID e = k"]
      cong: if_cong)

lemma announces_fields:
  "o_ID m = o_ID n \<Longrightarrow> o_Total m = o_Total n \<Longrightarrow> o_CustomerID m = o_CustomerID n \<Longrightarrow>
     announces L items n ev \<Longrightarrow> announces L items m ev"
  by (simp add: announces_def)

lemma announces_marked: "announces L items n (ev\<lparr>ob_UpdatedAt := t, ob_Processed := b\<rparr>) = announces L items n ev"
  by (simp add: announces_def)

lemma saga_inv_set_status:
  assumes inv: "saga_inv L A" and st: "st \<in> saga_states"
  shows "saga_inv L (set_status tr ua i st msg A)" (is "saga_inv L ?A")
proof -
  have "o_Status n' \<in> saga_states \<and> order_ok (items_of ?A (o_ID n')) n'
          \<and> (\<exists>ev. events_of ?A (o_ID n') = [ev] \<and> announces L (items_of ?A (o_ID n')) n' ev)"
    if "n' \<in> set (db_orders ?A)" for n'
    using that
  proof (rule set_status_member)
    fix n
    assume "n \<in> set (db_orders A)"
      and n': "n' = (if o_ID n = i then n\<lparr>o_UpdatedAt := tr ua, o_Status := st, o_ErrorMessage := or_zero msg (o_ErrorMessage n)\<rparr> else n)"
    with inv have "o_Status n \<in> saga_states" "order_ok (items_of A (o_ID n)) n"
      "\<exists>ev. events_of A (o_ID n) = [ev] \<and> announces L (items_of A (o_ID n)) n ev"
      by (auto simp: saga_inv_def)
    then show ?thesis using n' st by (auto simp: order_ok_def announces_def)
  qed
  moreover have "db_keys ?A" using inv by (simp add: saga_inv_def db_keys_def)
  ultimately show ?thesis using inv by (simp add: saga_inv_def)
qed

lemma saga_inv_mark_processed:
  assumes "saga_inv L A"
  shows "saga_inv L (mark_processed tr ua i A)" (is "saga_inv L ?A")
proof -
  have "\<exists>ev. events_of ?A (o_ID n) = [ev] \<and> announces L (items_of ?A (o_ID n)) n ev"
    if "n \<in> set (db_orders A)" for n
    using assms that by (auto simp: saga_inv_def mark_processed_events announces_marked)
  moreover have "ob_AggregateID ` set (db_outbox ?A) = ob_AggregateID ` set (db_outbox A)"
    by (metis list.set_map mark_processed_simps(5))
  moreover have "db_keys ?A"
    using assms by (simp add: saga_inv_def db_keys_def)
  ultimately show ?thesis using assms by (fastforce simp: saga_inv_def)
qed

lemma placed_items_ok:
  assumes "list_all2 (item_placed i) cs items"
    and "\<forall>c \<in> set cs. coi_TotalPrice c = line_total (coi_Quantity c) (coi_UnitPrice c)"
  shows "\<forall>x \<in> set items. item_ok x \<and> oi_order_items x = Some i" "map oi_TotalPrice items = map coi_TotalPrice cs"
    "list_all2 (event_item L) cs as \<Longrightarrow> list_all2 (announced_item L) items as"
proof -
  show "\<forall>x \<in> set items. item_ok x \<and> oi_order_items x = Some i"
    using assms by (fastforce dest: list_all2_rightD simp: item_placed_def item_ok_def)
  show "map oi_TotalPrice items = map coi_TotalPrice cs"
    using assms(1) by (induction rule: list_all2_induct) (auto simp: item_placed_def)
  show "list_all2 (announced_item L) items as" if "list_all2 (event_item L) cs as"
    using assms(1) that
    by (auto simp: list_all2_conv_all_nth item_placed_def event_item_def announced_item_def)
qed

lemma saga_inv_placed:
  assumes inv: "saga_inv L A" and pl: "order_placed L cmd A n items ev" and ok: "command_ok L cmd"
    and keys: "db_keys (add_order A n items ev)"
  shows "saga_inv L (add_order A n items ev)" (is "saga_inv L ?A")
proof -
  have new: "o_ID n \<notin> o_ID ` set (db_orders A)" and row: "order_row_placed cmd n"
    and its: "list_all2 (item_placed (o_ID n)) (coc_Items cmd) items" and ev: "event_placed L cmd (o_ID n) ev"
    using pl by (auto simp: order_placed_def)
  have lines: "\<forall>c \<in> set (coc_Items cmd). coi_TotalPrice c = line_total (coi_Quantity c) (coi_UnitPrice c)"
    using ok by (simp add: command_ok_def)
  note io = placed_items_ok [OF its lines]
  have fk: "x \<in> set (db_items A) \<Longrightarrow> oi_order_items x \<noteq> Some (o_ID n)" for x
    using inv new by (auto simp: saga_inv_def db_keys_def image_iff) (metis option.inject)
  have new_items: "items_of ?A (o_ID n) = items"
    using io(1) fk by (auto simp: items_of_def add_order_def filter_empty_conv)
  have old_items: "items_of ?A k = items_of A k" if "k \<noteq> o_ID n" for k
    using io(1) that by (auto simp: items_of_def add_order_def filter_empty_conv)
  have old_ev: "ob_AggregateID e \<noteq> o_ID n" if "e \<in> set (db_outbox A)" for e
    using inv new that unfolding saga_inv_def by metis
  have new_events: "events_of ?A (o_ID n) = [ev]"
    using old_ev ev by (auto simp: events_of_def add_order_def event_placed_def filter_empty_conv)
  have old_events: "events_of ?A k = events_of A k" if "k \<noteq> o_ID n" for k
    using ev that by (auto simp: events_of_def add_order_def event_placed_def)
  have "items \<noteq> []" using its ok by (auto simp: command_ok_def)
  then have "order_ok items n"
    using row io(1,2) ok by (simp add: order_ok_def command_ok_def order_row_placed_def)
  moreover have "announces L items n ev"
    using row ev io(3) ok
    by (auto simp: announces_def event_placed_def created_event_def order_row_placed_def command_ok_def)
  moreover have "o_Status n \<in> saga_states" using row by (simp add: saga_states_def order_row_placed_def)
  moreover have "o_Status m \<in> saga_states \<and> order_ok (items_of ?A (o_ID m)) m
          \<and> (\<exists>ev. events_of ?A (o_ID m) = [ev] \<and> announces L (items_of ?A (o_ID m)) m ev)"
    if "m \<in> set (db_orders A)" for m
  proof -
    have "o_ID m \<noteq> o_ID n" using that new by (metis imageI)
    then show ?thesis using inv that by (simp add: saga_inv_def old_items old_events)
  qed
  ultimately have "o_Status m \<in> saga_states \<and> order_ok (items_of ?A (o_ID m)) m
          \<and> (\<exists>ev. events_of ?A (o_ID m) = [ev] \<and> announces L (items_of ?A (o_ID m)) m ev)"
    if "m \<in> set (db_orders ?A)" for m
    using that new_items new_events by (auto simp: add_order_def)
  moreover have "ob_AggregateID e \<in> o_ID ` set (db_orders ?A)" if "e \<in> set (db_outbox ?A)" for e
    using that inv ev by (auto simp: saga_inv_def add_order_def event_placed_def)
  ultimately show ?thesis using keys by (simp add: saga_inv_def)
qed

lemma saga_inv_step: "saga_step L tr A A' \<Longrightarrow> saga_inv L A \<Longrightarrow> saga_inv L A'"
  by (elim saga_stepE order_stepE)
    (auto intro!: saga_inv_placed saga_inv_set_status saga_inv_mark_processed simp: saga_states_def)

lemma saga_inv_steps: "(saga_step L tr)\<^sup>*\<^sup>* A A' \<Longrightarrow> saga_inv L A \<Longrightarrow> saga_inv L A'"
  by (induction rule: rtranclp_induct) (auto intro: saga_inv_step)

subsection \<open>How a status evolves\<close>

lemma status_of_add_order:
  "status_of A i = Some s \<Longrightarrow> status_of (add_order A n items ev) i = Some s"
  by (auto simp: status_of_def add_order_def find_append)

lemma find_map_same:
  "(\<And>x. P (f x) = P x) \<Longrightarrow> find P (map f xs) = map_option f (find P xs)"
  by (induction xs) auto

lemma status_of_set_status:
  "status_of (set_status tr ua i st msg A) k = (if k = i then map_option (\<lambda>_. st) (status_of A i) else status_of A k)"
proof -
  let ?f = "\<lambda>n. if o_ID n = i
    then n\<lparr>o_UpdatedAt := tr ua, o_Status := st, o_ErrorMessage := or_zero msg (o_ErrorMessage n)\<rparr> else n"
  have "find (\<lambda>n. o_ID n = k) (map ?f (db_orders A)) = map_option ?f (find (\<lambda>n. o_ID n = k) (db_orders A))"
    by (rule find_map_same) simp
  then show ?thesis
    by (auto simp: status_of_def set_status_def option.map_comp find_Some_iff intro!: option.map_cong split: if_splits)
qed

lemma status_of_mark_processed [simp]: "status_of (mark_processed tr ua i A) k = status_of A k"
  by (simp add: status_of_def)

lemma saga_step_status:
  assumes "saga_step L tr A A'" and "status_of A i = Some s"
  shows "\<exists>s'. status_of A' i = Some s' \<and> (s' = s \<or> next_status s s')"
  using assms
  by (elim saga_stepE order_stepE) (auto simp: status_of_add_order status_of_set_status next_status.intros)

lemma saga_steps_status:
  assumes "(saga_step L tr)\<^sup>*\<^sup>* A A'" and "status_of A i = Some s"
  shows "\<exists>s'. status_of A' i = Some s' \<and> next_status\<^sup>*\<^sup>* s s'"
  using assms
proof (induction rule: rtranclp_induct)
  case (step B C)
  then obtain s1 where s1: "status_of B i = Some s1" "next_status\<^sup>*\<^sup>* s s1" by blast
  from saga_step_status [OF step.hyps(2) s1(1)] s1(2) show ?case
    by (auto intro: rtranclp.rtrancl_into_rtrancl)
qed auto

lemma next_status_from:
  "next_status\<^sup>*\<^sup>* s s' \<Longrightarrow> s = s' \<or> s = StatusCreated \<and> s' \<in> saga_states
     \<or> s = StatusInventoryReserved \<and> s' \<in> {StatusPaymentCompleted, StatusPaymentFailed}"
  by (induction rule: rtranclp_induct) (auto simp: next_status_iff saga_states_def)

lemma final_status:
  assumes "s \<in> {StatusInventoryReservedFailed, StatusPaymentCompleted, StatusPaymentFailed}" "next_status\<^sup>*\<^sup>* s s'"
  shows "s' = s"
  using next_status_from [OF assms(2)] assms(1)
  by auto

text \<open>
  What may change about an order or an event that exists: its status, its message and its time of
  update; its delivery mark, which is never taken back, and its time of update. The lines do not
  change. New rows come after the old ones.
\<close>

definition order_kept :: "Order \<Rightarrow> Order \<Rightarrow> bool" where
  "order_kept n n' \<longleftrightarrow> (\<exists>t st msg. n' = n\<lparr>o_UpdatedAt := t, o_Status := st, o_ErrorMessage := msg\<rparr>)"

definition event_kept :: "OutboxEvent \<Rightarrow> OutboxEvent \<Rightarrow> bool" where
  "event_kept e e' \<longleftrightarrow> (\<exists>t b. e' = e\<lparr>ob_UpdatedAt := t, ob_Processed := b\<rparr> \<and> (ob_Processed e \<longrightarrow> b))"

definition rows_kept :: "('a \<Rightarrow> 'a \<Rightarrow> bool) \<Rightarrow> 'a list \<Rightarrow> 'a list \<Rightarrow> bool" where
  "rows_kept R xs ys \<longleftrightarrow> length xs \<le> length ys \<and> list_all2 R xs (take (length xs) ys)"

definition kept :: "order_db \<Rightarrow> order_db \<Rightarrow> bool" where
  "kept A A' \<longleftrightarrow>
     rows_kept order_kept (db_orders A) (db_orders A')
     \<and> prefix (db_items A) (db_items A')
     \<and> rows_kept event_kept (db_outbox A) (db_outbox A')"

lemma order_kept_refl [simp]: "order_kept n n"
  unfolding order_kept_def
  by (rule exI [of _ "o_UpdatedAt n"], rule exI [of _ "o_Status n"], rule exI [of _ "o_ErrorMessage n"]) simp

lemma order_keptI: "order_kept n (n\<lparr>o_UpdatedAt := t, o_Status := st, o_ErrorMessage := msg\<rparr>)"
  unfolding order_kept_def by blast

lemma order_kept_trans:
  assumes "order_kept x y" and "order_kept y z"
  shows "order_kept x z"
proof -
  from assms obtain t st msg t' st' msg'
    where "y = x\<lparr>o_UpdatedAt := t, o_Status := st, o_ErrorMessage := msg\<rparr>"
      "z = y\<lparr>o_UpdatedAt := t', o_Status := st', o_ErrorMessage := msg'\<rparr>"
    unfolding order_kept_def by blast
  then show ?thesis by (simp add: order_keptI)
qed

lemma event_kept_refl [simp]: "event_kept e e"
  unfolding event_kept_def by (rule exI [of _ "ob_UpdatedAt e"], rule exI [of _ "ob_Processed e"]) simp

lemma event_keptI: "(ob_Processed e \<longrightarrow> b) \<Longrightarrow> event_kept e (e\<lparr>ob_UpdatedAt := t, ob_Processed := b\<rparr>)"
  unfolding event_kept_def by blast

lemma event_kept_trans:
  assumes "event_kept x y" and "event_kept y z"
  shows "event_kept x z"
proof -
  from assms obtain t b t' b' where "y = x\<lparr>ob_UpdatedAt := t, ob_Processed := b\<rparr>" "ob_Processed x \<longrightarrow> b"
      "z = y\<lparr>ob_UpdatedAt := t', ob_Processed := b'\<rparr>" "ob_Processed y \<longrightarrow> b'"
    unfolding event_kept_def by blast
  then show ?thesis by (simp add: event_keptI)
qed

lemma rows_kept_map: "(\<And>x. R x (f x)) \<Longrightarrow> rows_kept R xs (map f xs)"
  by (simp add: rows_kept_def list_all2_conv_all_nth)

lemma rows_kept_append: "(\<And>x. R x x) \<Longrightarrow> rows_kept R xs (xs @ ys)"
  by (simp add: rows_kept_def list_all2_refl)

lemma rows_kept_refl: "(\<And>x. R x x) \<Longrightarrow> rows_kept R xs xs"
  using rows_kept_append [of R xs "[]"] by simp

lemma rows_kept_trans:
  assumes R: "\<And>x y z. R x y \<Longrightarrow> R y z \<Longrightarrow> R x z" and "rows_kept R xs ys" "rows_kept R ys zs"
  shows "rows_kept R xs zs"
  using assms(2,3) by (auto simp: rows_kept_def list_all2_conv_all_nth intro: R)

lemma rows_kept_nth:
  "rows_kept R xs ys \<Longrightarrow> i < length xs \<Longrightarrow> i < length ys \<and> R (xs ! i) (ys ! i)"
  by (auto simp: rows_kept_def list_all2_conv_all_nth)

lemma kept_set_status: "kept A (set_status tr ua i st msg A)"
proof -
  have "rows_kept order_kept (db_orders A) (db_orders (set_status tr ua i st msg A))"
    unfolding set_status_def by (simp, rule rows_kept_map) (simp add: order_keptI)
  then show ?thesis by (simp add: kept_def rows_kept_refl)
qed

lemma kept_mark_processed: "kept A (mark_processed tr ua i A)"
proof -
  have "rows_kept event_kept (db_outbox A) (db_outbox (mark_processed tr ua i A))"
    unfolding mark_processed_def by (simp, rule rows_kept_map) (simp add: event_keptI)
  then show ?thesis by (simp add: kept_def rows_kept_refl)
qed

lemma kept_add_order: "kept A (add_order A n items ev)"
  by (simp add: kept_def add_order_def rows_kept_append)

lemma saga_step_kept: "saga_step L tr A A' \<Longrightarrow> kept A A'"
  by (elim saga_stepE order_stepE) (simp_all only: kept_set_status kept_mark_processed kept_add_order)

lemma saga_steps_kept: "(saga_step L tr)\<^sup>*\<^sup>* A A' \<Longrightarrow> kept A A'"
proof (induction rule: rtranclp_induct)
  case base
  show ?case by (simp add: kept_def rows_kept_refl)
next
  case (step B C)
  then show ?case
    using saga_step_kept [OF step.hyps(2)] rows_kept_trans [of order_kept, OF order_kept_trans]
      rows_kept_trans [of event_kept, OF event_kept_trans]
    unfolding kept_def by (meson prefix_order.trans)
qed

end
