(* ===== verification/UseCases.thy ===== *)
theory UseCases
  imports Saga
begin

text \<open>
  The use cases of the business layer over any repository and catalogue that keep their
  contracts: each request takes at most one step of the saga, and answers from the database it
  leaves behind.
\<close>

definition no_response :: "go_error + 'a \<Rightarrow> bool" where
  "no_response r \<longleftrightarrow> r \<notin> range Inr"

lemma no_response_simps [simp]: "no_response (Inl e)" "\<not> no_response (Inr x)"
  by (auto simp: no_response_def)

text \<open>What a client is told about an order that was placed.\<close>

definition created_response :: "('d, 'z) svc_lib_scheme \<Rightarrow> Order \<Rightarrow> CreateOrderResponse" where
  "created_response L n = \<lparr>cors_Id = uuid_String L (o_ID n), cors_Status = pb_CREATED\<rparr>"

definition request_priced ::
    "('d, 'z) svc_lib_scheme \<Rightarrow> CreateOrderRequest \<Rightarrow> VariantInfo list \<Rightarrow> CreateOrderCommand \<Rightarrow> bool" where
  "request_priced L req variants cmd \<longleftrightarrow>
     cor_Items req \<noteq> []
     \<and> (\<exists>customerID ls. uuid_Parse L (cor_CustomerId req) = Inr customerID
          \<and> list_all2 (\<lambda>item l. priced_line L (variantMap variants) item = Inr l) (cor_Items req) ls
          \<and> cmd = priced_order req customerID ls)"

lemma request_priced_command: "request_priced L req variants cmd \<Longrightarrow> command_ok L cmd"
  by (auto simp: request_priced_def intro: command_ok_priced)

definition order_read :: "order_db \<Rightarrow> uuid \<Rightarrow> Order \<Rightarrow> bool" where
  \<comment> \<open>an order of the database with its lines, in some order\<close>
  "order_read A i e \<longleftrightarrow>
     (\<exists>n is. n \<in> set (db_orders A) \<and> o_ID n = i \<and> mset is = mset (items_of A i) \<and> e = n\<lparr>o_Items := is, o_loadedItems := True\<rparr>)"

lemma with_items_own:
  assumes "mset is = mset (filter (\<lambda>x. oi_order_items x = Some (o_ID n)) xs)"
  shows "with_items is n = n\<lparr>o_Items := is, o_loadedItems := True\<rparr>"
proof -
  have "\<forall>x \<in> set is. oi_order_items x = Some (o_ID n)"
    using mset_eq_setD [OF assms] by simp
  then show ?thesis by (simp add: with_items_def)
qed

locale order_service = order_repo L repo db tr + variant_catalog catalog db
  for L :: "('d, 'z) svc_lib_scheme" and repo db tr and catalog
begin

abbreviation usecase :: "'d OrderUsecase" where
  "usecase \<equiv> NewOrderUsecase repo catalog"

lemma CreateOrder_outcome:
  assumes run: "OrderUsecase_CreateOrder L usecase req d = (d', r)" and A: "db d A"
  shows "db d' A \<and> no_response r
    \<or> (\<exists>variants cmd n items ev. request_priced L req variants cmd \<and> order_placed L cmd A n items ev
         \<and> db d' (add_order A n items ev) \<and> (no_response r \<or> r = Inr (created_response L n)))"
proof (cases "uuid_Parse L (cor_CustomerId req)")
  case (Inl e)
  then show ?thesis using run A by (auto simp: OrderUsecase_CreateOrder_def)
next
  case (Inr customerID)
  show ?thesis
  proof (cases "cor_Items req = []")
    case True
    then show ?thesis using run A Inr by (auto simp: OrderUsecase_CreateOrder_def)
  next
    case False
    obtain d1 rv where cat: "catalog_GetVariantsByIDs catalog (map oir_VariantId (cor_Items req)) d = (d1, rv)"
      by (cases "catalog_GetVariantsByIDs catalog (map oir_VariantId (cor_Items req)) d")
    have A1: "db d1 A" using catalog_db [OF A cat] .
    show ?thesis
    proof (cases rv)
      case (Inl e)
      then show ?thesis using run A1 Inr False cat by (auto simp: OrderUsecase_CreateOrder_def NewOrderUsecase_def)
    next
      case (Inr variants)
      note rv = this
      show ?thesis
      proof (cases "CreateOrder_command L req customerID variants")
        case (Inl e)
        then show ?thesis
          using run A1 rv \<open>uuid_Parse _ _ = _\<close> False cat by (auto simp: OrderUsecase_CreateOrder_def NewOrderUsecase_def)
      next
        case (Inr cmd)
        obtain d2 rc where c: "repo_Create repo cmd d1 = (d2, rc)" by (cases "repo_Create repo cmd d1")
        have res: "d' = d2" "r = (case rc of Inl err \<Rightarrow> Inl (GrpcStatus Internal ''failed to create order: '' (Some err))
            | Inr e \<Rightarrow> Inr \<lparr>cors_Id = uuid_String L (o_ID e), cors_Status = toProtoOrderStatus (o_Status e)\<rparr>)"
          using run rv \<open>uuid_Parse _ _ = _\<close> False cat Inr c
          by (auto simp: OrderUsecase_CreateOrder_def NewOrderUsecase_def split: sum.splits)
        have priced: "request_priced L req variants cmd"
          using Inr False \<open>uuid_Parse _ _ = _\<close> by (auto simp: request_priced_def elim!: CreateOrder_command_InrE)
        from create [OF A1 c] show ?thesis
        proof (elim disjE conjE exE)
          assume "db d2 A" "rc \<notin> range Inr"
          then show ?thesis using res by (cases rc) auto
        next
          fix n items ev
          assume p: "order_placed L cmd A n items ev" "db d2 (add_order A n items ev)"
            and e: "\<forall>e. rc = Inr e \<longrightarrow> (\<exists>is. mset is = mset items \<and> e = with_items is n)"
          have "no_response r \<or> r = Inr (created_response L n)"
            using res e p(1)
            by (cases rc) (auto simp: created_response_def toProtoOrderStatus_def order_placed_def order_row_placed_def)
          then show ?thesis
            using priced p res by (intro disjI2 exI [of _ variants] exI [of _ cmd] exI [of _ n] exI [of _ items] exI [of _ ev]) simp
        qed
      qed
    qed
  qed
qed

lemma CreateOrder_step:
  assumes run: "OrderUsecase_CreateOrder L usecase req d = (d', r)" and A: "db d A"
  shows "\<exists>A'. db d' A' \<and> (order_step L tr)\<^sup>=\<^sup>= A A'"
  using CreateOrder_outcome [OF assms] keys
  by (auto intro!: order_step.placed intro: request_priced_command)

lemma Get_read:
  assumes "repo_Get repo i d = (d', r)" and "db d A"
  shows "db d' A" "r = Inr e \<Longrightarrow> order_read A i e"
    "r = Inl (EntErr (NotFoundError order_Label)) \<Longrightarrow> i \<notin> o_ID ` set (db_orders A)"
proof -
  note g = get [OF assms(2,1)]
  show "db d' A" and "r = Inl (EntErr (NotFoundError order_Label)) \<Longrightarrow> i \<notin> o_ID ` set (db_orders A)"
    using g by auto
  assume "r = Inr e"
  with g obtain n "is" where "n \<in> set (db_orders A)" "o_ID n = i" "e = with_items is n"
    "mset is = mset (filter (\<lambda>x. oi_order_items x = Some i) (db_items A))" by blast
  then show "order_read A i e"
    unfolding order_read_def items_of_def using with_items_own by metis
qed

lemma GetOrder_outcome:
  assumes run: "OrderUsecase_GetOrder L usecase req d = (d', r)" and A: "db d A"
  shows "db d' A"
    and "case r of
        Inr o' \<Rightarrow> \<exists>i e. uuid_Parse L (gor_Id req) = Inr i \<and> order_read A i e \<and> o' = ToProtoOrder L e
      | Inl err \<Rightarrow> err = GrpcStatus InvalidArgument ''invalid order ID'' None \<and> uuid_Parse L (gor_Id req) \<notin> range Inr
          \<or> err = GrpcStatus NotFound ''order not found'' None"
proof -
  have "db d' A \<and> (case r of
        Inr o' \<Rightarrow> \<exists>i e. uuid_Parse L (gor_Id req) = Inr i \<and> order_read A i e \<and> o' = ToProtoOrder L e
      | Inl err \<Rightarrow> err = GrpcStatus InvalidArgument ''invalid order ID'' None \<and> uuid_Parse L (gor_Id req) \<notin> range Inr
          \<or> err = GrpcStatus NotFound ''order not found'' None)"
  proof (cases "uuid_Parse L (gor_Id req)")
    case (Inl e)
    then show ?thesis using run A by (auto simp: OrderUsecase_GetOrder_def)
  next
    case (Inr i)
    obtain d1 rg where g: "repo_Get repo i d = (d1, rg)" by (cases "repo_Get repo i d")
    note rd = Get_read [OF g A]
    have "d' = d1" "r = (case rg of Inl _ \<Rightarrow> Inl (GrpcStatus NotFound ''order not found'' None)
        | Inr e \<Rightarrow> Inr (ToProtoOrder L e))"
      using run Inr g by (auto simp: OrderUsecase_GetOrder_def NewOrderUsecase_def split: sum.splits)
    then show ?thesis using rd Inr by (cases rg) auto
  qed
  then show "db d' A" and "case r of
        Inr o' \<Rightarrow> \<exists>i e. uuid_Parse L (gor_Id req) = Inr i \<and> order_read A i e \<and> o' = ToProtoOrder L e
      | Inl err \<Rightarrow> err = GrpcStatus InvalidArgument ''invalid order ID'' None \<and> uuid_Parse L (gor_Id req) \<notin> range Inr
          \<or> err = GrpcStatus NotFound ''order not found'' None" by simp_all
qed

end

subsection \<open>Listing\<close>

lemma normalizedPage_range: "1 \<le> sint (normalizedPage p) \<and> sint (normalizedPage p) < 2 ^ 31"
  using sint_i32_range [of p] by (auto simp: normalizedPage_def)

lemma normalizedPageSize_range: "1 \<le> sint (normalizedPageSize p) \<and> sint (normalizedPageSize p) \<le> 100"
  by (auto simp: normalizedPageSize_def)

lemma ListOrders_query_ok: "ListOrders_query L req = Inr q \<Longrightarrow> query_ok q"
  using normalizedPage_range normalizedPageSize_range
  by (auto simp: ListOrders_query_def query_ok_def Let_def split: if_splits sum.splits option.splits)

lemma ListOrders_query_fields:
  assumes "ListOrders_query L req = Inr q"
  shows "loq_Page q = normalizedPage (lor_Page req)" "loq_PageSize q = normalizedPageSize (lor_PageSize req)"
    "loq_Status q = (if lor_Status req = pb_CREATED then None else Some (fromProtoOrderStatus (lor_Status req)))"
    "loq_CreatedAfter q = map_option (timestamp_AsTime L) (lor_CreatedAfter req)"
    "if lor_CustomerId req = [] then loq_CustomerID q = None
     else \<exists>c. uuid_Parse L (lor_CustomerId req) = Inr c \<and> loq_CustomerID q = Some c"
  using assms
  by (auto simp: ListOrders_query_def Let_def split: if_splits sum.splits option.splits)

text \<open>The number of pages is the ceiling of the quotient, for every count a database can report.\<close>

lemma sint_go_quot:
  assumes "0 \<le> sint a" "0 < sint b"
  shows "sint (go_quot a b) = sint a div sint b"
proof -
  have "sint a sdiv sint b = sint a div sint b"
    using assms by (cases "sint a = 0") (simp_all add: signed_divide_int_def)
  moreover have "0 \<le> sint a div sint b" using assms by (simp add: pos_imp_zdiv_nonneg_iff)
  moreover have "sint a div sint b \<le> sint a"
    using assms zdiv_mono2 [of "sint a" 1 "sint b"] by simp
  ultimately show ?thesis
    using sint_i64_range [of a] by (simp add: go_quot_def sint_i64_of_int)
qed

lemma totalPages_ceiling:
  assumes "0 \<le> sint n" and "1 \<le> sint k" "sint k \<le> 100" and "sint n < 2 ^ 62"
  shows "sint (totalPages n k) = (sint n + sint k - 1) div sint k"
proof (cases "n = 0")
  case True
  then show ?thesis using assms by (simp add: totalPages_def)
next
  case False
  have a: "sint (n + k) = sint n + sint k"
    using assms by (simp add: sint_word_add signed_take_bit_int_eq_self)
  then have s: "sint (n + k - 1) = sint n + sint k - 1"
    using assms by (simp add: sint_word_diff signed_take_bit_int_eq_self)
  show ?thesis
    using False assms s by (simp add: totalPages_def sint_go_quot)
qed

lemma pages_cover:
  fixes xs :: "'a list"
  assumes "0 < k"
  shows "concat (map (\<lambda>p. take k (drop (p * k) xs)) [0..<(length xs + k - 1) div k]) = xs"
proof -
  have "length xs \<le> (length xs + k - 1) div k * k"
  proof -
    have "length xs + k - 1 < ((length xs + k - 1) div k + 1) * k"
      using assms by (metis dividend_less_times_div mult.commute Suc_eq_plus1 mult_Suc_right add.commute)
    then show ?thesis by (simp add: algebra_simps)
  qed
  then show ?thesis by (simp add: concat_pages)
qed

text \<open>The message an event leaves with the order: none when it is empty.\<close>

definition event_message :: "string \<Rightarrow> string option" where
  "event_message message = (if message \<noteq> [] then Some message else None)"

context order_service
begin

lemma ListOrders_outcome:
  assumes run: "OrderUsecase_ListOrders L usecase req d = (d', r)" and A: "db d A"
  shows "db d' A"
    and "r = Inr resp \<Longrightarrow> \<exists>q ns is. ListOrders_query L req = Inr q \<and> length (list_hits tr q A) < 2 ^ 63
         \<and> mset ns = mset (list_hits tr q A) \<and> sorted_wrt (\<lambda>n m. o_CreatedAt m \<le> o_CreatedAt n) ns
         \<and> mset is = mset (filter (\<lambda>x. oi_order_items x \<in> Some ` o_ID ` set (page_of q ns)) (db_items A))
         \<and> lors_Orders resp = map (\<lambda>n. ToProtoOrder L (with_items is n)) (page_of q ns)
         \<and> lors_TotalCount resp = i32_of_int (int_of_len (list_hits tr q A))
         \<and> lors_CurrentPage resp = i32_of_int (loq_Page q)
         \<and> lors_TotalPages resp = i32_of_int (totalPages (int_of_len (list_hits tr q A)) (loq_PageSize q))"
    and "r = Inl e \<Longrightarrow> ListOrders_query L req = Inl e \<or> (\<exists>err. e = GrpcStatus Internal ''failed to list orders: '' (Some err))"
proof -
  have "db d' A \<and> (\<forall>resp. r = Inr resp \<longrightarrow> (\<exists>q ns is. ListOrders_query L req = Inr q \<and> length (list_hits tr q A) < 2 ^ 63
         \<and> mset ns = mset (list_hits tr q A) \<and> sorted_wrt (\<lambda>n m. o_CreatedAt m \<le> o_CreatedAt n) ns
         \<and> mset is = mset (filter (\<lambda>x. oi_order_items x \<in> Some ` o_ID ` set (page_of q ns)) (db_items A))
         \<and> lors_Orders resp = map (\<lambda>n. ToProtoOrder L (with_items is n)) (page_of q ns)
         \<and> lors_TotalCount resp = i32_of_int (int_of_len (list_hits tr q A))
         \<and> lors_CurrentPage resp = i32_of_int (loq_Page q)
         \<and> lors_TotalPages resp = i32_of_int (totalPages (int_of_len (list_hits tr q A)) (loq_PageSize q))))
      \<and> (\<forall>e. r = Inl e \<longrightarrow> ListOrders_query L req = Inl e \<or> (\<exists>err. e = GrpcStatus Internal ''failed to list orders: '' (Some err)))"
  proof (cases "ListOrders_query L req")
    case (Inl e)
    then show ?thesis using run A by (auto simp: OrderUsecase_ListOrders_def)
  next
    case (Inr q)
    obtain d1 rl where l: "repo_List repo q d = (d1, rl)" by (cases "repo_List repo q d")
    note li = list [OF A ListOrders_query_ok [OF Inr] l]
    show ?thesis
    proof (cases rl)
      case (Inl e)
      then show ?thesis using run l li \<open>ListOrders_query L req = Inr q\<close>
        by (auto simp: OrderUsecase_ListOrders_def NewOrderUsecase_def)
    next
      case (Inr rk)
      obtain res k where rk: "rk = (res, k)" by (cases rk)
      have "d' = d1" and r: "r = Inr \<lparr>lors_Orders = map (ToProtoOrder L) res, lors_TotalCount = i32_of_int k,
          lors_CurrentPage = i32_of_int (loq_Page q), lors_TotalPages = i32_of_int (totalPages k (loq_PageSize q))\<rparr>"
        using run l Inr rk \<open>ListOrders_query L req = Inr q\<close>
        by (simp_all add: OrderUsecase_ListOrders_def NewOrderUsecase_def)
      from li Inr rk have k: "k = int_of_len (list_hits tr q A)" "length (list_hits tr q A) < 2 ^ 63"
        and "\<exists>ns is. mset ns = mset (list_hits tr q A) \<and> sorted_wrt (\<lambda>n m. o_CreatedAt m \<le> o_CreatedAt n) ns
           \<and> mset is = mset (filter (\<lambda>x. oi_order_items x \<in> Some ` o_ID ` set (page_of q ns)) (db_items A))
           \<and> res = map (with_items is) (page_of q ns)" by auto
      then obtain ns "is" where "mset ns = mset (list_hits tr q A)" "sorted_wrt (\<lambda>n m. o_CreatedAt m \<le> o_CreatedAt n) ns"
        "mset is = mset (filter (\<lambda>x. oi_order_items x \<in> Some ` o_ID ` set (page_of q ns)) (db_items A))"
        "res = map (with_items is) (page_of q ns)" by blast
      then have "\<exists>q' ns is. ListOrders_query L req = Inr q' \<and> length (list_hits tr q' A) < 2 ^ 63
         \<and> mset ns = mset (list_hits tr q' A) \<and> sorted_wrt (\<lambda>n m. o_CreatedAt m \<le> o_CreatedAt n) ns
         \<and> mset is = mset (filter (\<lambda>x. oi_order_items x \<in> Some ` o_ID ` set (page_of q' ns)) (db_items A))
         \<and> map (ToProtoOrder L) res = map (\<lambda>n. ToProtoOrder L (with_items is n)) (page_of q' ns)
         \<and> k = int_of_len (list_hits tr q' A) \<and> q = q'"
        using k \<open>ListOrders_query L req = Inr q\<close>
        by (intro exI [of _ q] exI [of _ ns] exI [of _ "is"]) simp
      then show ?thesis using li \<open>d' = d1\<close> r by auto
    qed
  qed
  then show "db d' A" "r = Inr resp \<Longrightarrow> \<exists>q ns is. ListOrders_query L req = Inr q \<and> length (list_hits tr q A) < 2 ^ 63
         \<and> mset ns = mset (list_hits tr q A) \<and> sorted_wrt (\<lambda>n m. o_CreatedAt m \<le> o_CreatedAt n) ns
         \<and> mset is = mset (filter (\<lambda>x. oi_order_items x \<in> Some ` o_ID ` set (page_of q ns)) (db_items A))
         \<and> lors_Orders resp = map (\<lambda>n. ToProtoOrder L (with_items is n)) (page_of q ns)
         \<and> lors_TotalCount resp = i32_of_int (int_of_len (list_hits tr q A))
         \<and> lors_CurrentPage resp = i32_of_int (loq_Page q)
         \<and> lors_TotalPages resp = i32_of_int (totalPages (int_of_len (list_hits tr q A)) (loq_PageSize q))"
    "r = Inl e \<Longrightarrow> ListOrders_query L req = Inl e \<or> (\<exists>err. e = GrpcStatus Internal ''failed to list orders: '' (Some err))"
    by blast+
qed

subsection \<open>Events of the saga\<close>

lemma HandleStockEvent_outcome:
  assumes run: "OrderUsecase_HandleStockEvent L usecase oid ok message d = (d', r)" and A: "db d A"
    and st: "st = (if ok then StatusInventoryReserved else StatusInventoryReservedFailed)"
  shows "db d' A \<and> (r = None \<longrightarrow> (\<exists>i s. uuid_Parse L oid = Inr i \<and> status_of A i = Some s \<and> s \<noteq> StatusCreated))
    \<or> (\<exists>i ua. uuid_Parse L oid = Inr i \<and> status_of A i = Some StatusCreated
         \<and> db d' (set_status tr ua i st (event_message message) A))"
proof (cases "uuid_Parse L oid")
  case (Inl e)
  then show ?thesis using run A by (auto simp: OrderUsecase_HandleStockEvent_def)
next
  case (Inr i)
  have "repo_UpdateStatus repo i st (event_message message) StatusCreated d = (d', r)"
    using run Inr st by (simp add: OrderUsecase_HandleStockEvent_def NewOrderUsecase_def event_message_def Let_def)
  from update [OF A this] show ?thesis using Inr st by (auto split: if_splits)
qed

lemma HandlePaymentEvent_outcome:
  assumes run: "OrderUsecase_HandlePaymentEvent L usecase oid ok message d = (d', r)" and A: "db d A"
    and st: "st = (if ok then StatusPaymentCompleted else StatusPaymentFailed)"
  shows "db d' A \<and> (r = None \<longrightarrow> (\<exists>i s. uuid_Parse L oid = Inr i \<and> status_of A i = Some s \<and> s \<noteq> StatusInventoryReserved))
    \<or> (\<exists>i ua. uuid_Parse L oid = Inr i \<and> status_of A i = Some StatusInventoryReserved
         \<and> db d' (set_status tr ua i st (event_message message) A))"
proof (cases "uuid_Parse L oid")
  case (Inl e)
  then show ?thesis using run A by (auto simp: OrderUsecase_HandlePaymentEvent_def)
next
  case (Inr i)
  have "repo_UpdateStatus repo i st (event_message message) StatusInventoryReserved d = (d', r)"
    using run Inr st by (simp add: OrderUsecase_HandlePaymentEvent_def NewOrderUsecase_def event_message_def Let_def)
  from update [OF A this] show ?thesis using Inr st by (auto split: if_splits)
qed

lemma HandleStockEvent_step:
  assumes "OrderUsecase_HandleStockEvent L usecase oid ok message d = (d', r)" and "db d A"
  shows "\<exists>A'. db d' A' \<and> (order_step L tr)\<^sup>=\<^sup>= A A'"
  using HandleStockEvent_outcome [OF assms refl]
  by (auto intro: order_step.stock split: if_splits)

lemma HandlePaymentEvent_step:
  assumes "OrderUsecase_HandlePaymentEvent L usecase oid ok message d = (d', r)" and "db d A"
  shows "\<exists>A'. db d' A' \<and> (order_step L tr)\<^sup>=\<^sup>= A A'"
  using HandlePaymentEvent_outcome [OF assms refl]
  by (auto intro: order_step.payment split: if_splits)

end

end
