(* ===== verification/Worker.thy ===== *)
theory Worker
  imports UseCases
begin

text \<open>
  The background workers of the order service (\<open>internal/worker\<close>, \<open>internal/data/kafka.go\<close>):
  the producer, the outbox dispatcher and the consumer of stock and payment events. A panic
  in a worker's goroutine ends the process; a worker step returns it beside the new state.
\<close>

subsection \<open>The producer\<close>

definition producer_message :: "('d, 'z) svc_lib_scheme \<Rightarrow> string \<Rightarrow> string \<Rightarrow> byte list \<Rightarrow> kafka_message" where
  "producer_message L topic key value =
     \<lparr>km_Topic = Some topic, km_Partition = kafka_PartitionAny, km_Offset = 0,
      km_Key = bytes_of_string L key, km_Value = value, km_Error = None\<rparr>"

definition KafkaProducer_Publish ::
    "('d, 'z) svc_lib_scheme \<Rightarrow> string \<Rightarrow> string \<Rightarrow> byte list \<Rightarrow> 'd \<Rightarrow> 'd \<times> go_error option" where
  \<comment> \<open>the delivery event is asserted to be a message: any other event panics\<close>
  "KafkaProducer_Publish L topic key value d =
     (case kafka_Produce L (producer_message L topic key value) d of
        (d, Inl err) \<Rightarrow> (d, Some (KafkaErr err))
      | (d, Inr event) \<Rightarrow>
          (case event of
             EvMessage message \<Rightarrow> (d, map_option KafkaErr (km_Error message))
           | _ \<Rightarrow> (d, Some (GoPanic ''interface conversion''))))"

subsection \<open>The outbox dispatcher\<close>

record 'd OutboxDispatcher =
  obd_repo :: "'d OrderRepo"
  obd_interval :: i64
  obd_batch :: i64

definition NewOutboxDispatcher :: "'d OrderRepo \<Rightarrow> i64 \<Rightarrow> i64 \<Rightarrow> 'd OutboxDispatcher" where
  "NewOutboxDispatcher repo interval batch = \<lparr>obd_repo = repo, obd_interval = interval, obd_batch = batch\<rparr>"

definition publish_event :: "('d, 'z) svc_lib_scheme \<Rightarrow> OutboxEvent \<Rightarrow> 'd \<Rightarrow> 'd \<times> go_error option" where
  "publish_event L event =
     KafkaProducer_Publish L (ob_EventType event) (uuid_String L (ob_AggregateID event)) (ob_Payload event)"

fun OutboxDispatcher_flush_events ::
    "('d, 'z) svc_lib_scheme \<Rightarrow> 'd OutboxDispatcher \<Rightarrow> OutboxEvent list \<Rightarrow> 'd \<Rightarrow> 'd \<times> string option" where
  "OutboxDispatcher_flush_events L disp [] d = (d, None)"
| "OutboxDispatcher_flush_events L disp (event # events) d =
     (case publish_event L event d of
        (d, Some (GoPanic p)) \<Rightarrow> (d, Some p)
      | (d, Some err) \<Rightarrow> OutboxDispatcher_flush_events L disp events d
      | (d, None) \<Rightarrow>
          (case repo_MarkOutboxProcessed (obd_repo disp) (ob_ID event) d of
             (d, _) \<Rightarrow> OutboxDispatcher_flush_events L disp events d))"

definition OutboxDispatcher_flush ::
    "('d, 'z) svc_lib_scheme \<Rightarrow> 'd OutboxDispatcher \<Rightarrow> 'd \<Rightarrow> 'd \<times> string option" where
  "OutboxDispatcher_flush L disp d =
     (case repo_ListPendingOutbox (obd_repo disp) (obd_batch disp) d of
        (d, Inl err) \<Rightarrow> (d, None)
      | (d, Inr events) \<Rightarrow> OutboxDispatcher_flush_events L disp events d)"

text \<open>
  \<open>Start\<close>: \<open>time.NewTicker\<close> panics on an interval that is not positive; then one flush per
  tick until the context is done, here after \<open>n\<close> ticks.
\<close>

fun dispatcher_ticks :: "('d, 'z) svc_lib_scheme \<Rightarrow> 'd OutboxDispatcher \<Rightarrow> nat \<Rightarrow> 'd \<Rightarrow> 'd \<times> string option" where
  "dispatcher_ticks L disp 0 d = (d, None)"
| "dispatcher_ticks L disp (Suc n) d =
     (case OutboxDispatcher_flush L disp d of
        (d, Some p) \<Rightarrow> (d, Some p)
      | (d, None) \<Rightarrow> dispatcher_ticks L disp n d)"

definition OutboxDispatcher_Start ::
    "('d, 'z) svc_lib_scheme \<Rightarrow> 'd OutboxDispatcher \<Rightarrow> nat \<Rightarrow> 'd \<Rightarrow> 'd \<times> string option" where
  "OutboxDispatcher_Start L disp n d =
     (if sint (obd_interval disp) \<le> 0 then (d, Some ''non-positive interval for NewTicker'')
      else dispatcher_ticks L disp n d)"

subsection \<open>The consumer\<close>

definition handled_topics :: "string list" where
  "handled_topics = [''stock.reduction.fail'', ''stock.reduction.success'', ''payment.fail'', ''payment.success'']"

text \<open>The \<open>switch\<close> of \<open>handleMessage\<close>: the error it leaves in \<open>err\<close>.\<close>

definition handle_event ::
    "('d, 'z) svc_lib_scheme \<Rightarrow> 'd OrderUsecase \<Rightarrow> string \<Rightarrow> byte list \<Rightarrow> 'd \<Rightarrow> 'd \<times> go_error option" where
  "handle_event L uc topic value d =
     (if topic = ''stock.reduction.fail'' then
        (case DeserializeStockReductionFailedEvent L value of
           Inl decodeErr \<Rightarrow> (d, Some decodeErr)
         | Inr event \<Rightarrow> OrderUsecase_HandleStockEvent L uc (srf_Order_id event) False (srf_Message event) d)
      else if topic = ''stock.reduction.success'' then
        (case DeserializeStockReductionSuccessEvent L value of
           Inl decodeErr \<Rightarrow> (d, Some decodeErr)
         | Inr event \<Rightarrow> OrderUsecase_HandleStockEvent L uc (srs_Order_id event) True [] d)
      else if topic = ''payment.fail'' then
        (case DeserializePaymentFailedEvent L value of
           Inl decodeErr \<Rightarrow> (d, Some decodeErr)
         | Inr event \<Rightarrow> OrderUsecase_HandlePaymentEvent L uc (pfe_Order_id event) False (pfe_Fail_reason event) d)
      else
        (case DeserializePaymentSuccessEvent L value of
           Inl decodeErr \<Rightarrow> (d, Some decodeErr)
         | Inr event \<Rightarrow> OrderUsecase_HandlePaymentEvent L uc (pse_Order_id event) True [] d))"

definition OrderEventConsumer_handleMessage ::
    "('d, 'z) svc_lib_scheme \<Rightarrow> 'd OrderUsecase \<Rightarrow> kafka_message \<Rightarrow> 'd \<Rightarrow> 'd \<times> string option" where
  "OrderEventConsumer_handleMessage L uc msg d =
     (case km_Topic msg of
        None \<Rightarrow> (d, None)
      | Some topic \<Rightarrow>
          if topic \<notin> set handled_topics then (fst (kafka_CommitMessage L msg d), None)
          else
            (case handle_event L uc topic (km_Value msg) d of
               (d, Some (GoPanic p)) \<Rightarrow> (d, Some p)
             | (d, Some err) \<Rightarrow> (d, None)
             | (d, None) \<Rightarrow> (fst (kafka_CommitMessage L msg d), None)))"

fun consumer_polls :: "('d, 'z) svc_lib_scheme \<Rightarrow> 'd OrderUsecase \<Rightarrow> nat \<Rightarrow> 'd \<Rightarrow> 'd \<times> string option" where
  \<comment> \<open>the loop of \<open>Start\<close>, with the context done after \<open>n\<close> rounds\<close>
  "consumer_polls L uc 0 d = (d, None)"
| "consumer_polls L uc (Suc n) d =
     (case kafka_Poll L d of
        (d, None) \<Rightarrow> consumer_polls L uc n d
      | (d, Some event) \<Rightarrow>
          (case event of
             EvMessage message \<Rightarrow>
               (case OrderEventConsumer_handleMessage L uc message d of
                  (d, Some p) \<Rightarrow> (d, Some p)
                | (d, None) \<Rightarrow> consumer_polls L uc n d)
           | _ \<Rightarrow> consumer_polls L uc n d))"

definition OrderEventConsumer_Start ::
    "('d, 'z) svc_lib_scheme \<Rightarrow> string list \<Rightarrow> 'd OrderUsecase \<Rightarrow> nat \<Rightarrow> 'd \<Rightarrow> 'd \<times> string option" where
  "OrderEventConsumer_Start L topics uc n d =
     (case kafka_SubscribeTopics L topics d of
        (d, Some err) \<Rightarrow> (d, None)
      | (d, None) \<Rightarrow> consumer_polls L uc n d)"

subsection \<open>What the workers rely on\<close>

text \<open>
  The broker: its calls leave the database alone; a message whose delivery is reported is
  among those sent, and nothing is ever unsent. \<open>sent\<close> and \<open>acked\<close> read off the messages
  delivered and the messages committed so far.
\<close>

locale broker =
  fixes L :: "('d, 'z) svc_lib_scheme"
    and db :: "'d \<Rightarrow> order_db \<Rightarrow> bool"
    and sent acked :: "'d \<Rightarrow> kafka_message list"
  assumes produce_db: "db d A \<Longrightarrow> kafka_Produce L m d = (d', rp) \<Longrightarrow> db d' A"
    and produce_sent: "kafka_Produce L m d = (d', rp) \<Longrightarrow> set (sent d) \<subseteq> set (sent d')"
    and produce_ok: "kafka_Produce L m d = (d', Inr (EvMessage m')) \<Longrightarrow> km_Error m' = None \<Longrightarrow> m \<in> set (sent d')"
    and produce_acked: "kafka_Produce L m d = (d', rp) \<Longrightarrow> acked d' = acked d"
    and poll_db: "db d A \<Longrightarrow> kafka_Poll L d = (d', ev) \<Longrightarrow> db d' A"
    and poll_logs: "kafka_Poll L d = (d', ev) \<Longrightarrow> sent d' = sent d \<and> acked d' = acked d"
    and commit_db: "db d A \<Longrightarrow> kafka_CommitMessage L m d = (d', rc) \<Longrightarrow> db d' A"
    and commit_logs: "kafka_CommitMessage L m d = (d', rc) \<Longrightarrow>
      sent d' = sent d \<and> acked d' = acked d @ (if rc = None then [m] else [])"
    and subscribe_db: "db d A \<Longrightarrow> kafka_SubscribeTopics L ts d = (d', rc) \<Longrightarrow> db d' A"
    and subscribe_logs: "kafka_SubscribeTopics L ts d = (d', rc) \<Longrightarrow> sent d' = sent d \<and> acked d' = acked d"

text \<open>The database and the product service do not touch the broker.\<close>

locale order_workers =
  order_service L repo db tr catalog + broker L db sent acked
  for L :: "('d, 'z) svc_lib_scheme" and repo db tr catalog sent acked +
  assumes repo_logs:
      "repo_Create repo cmd d = (d1, x1) \<Longrightarrow> sent d1 = sent d \<and> acked d1 = acked d"
      "repo_Get repo i d = (d2, x2) \<Longrightarrow> sent d2 = sent d \<and> acked d2 = acked d"
      "repo_List repo q d = (d3, x3) \<Longrightarrow> sent d3 = sent d \<and> acked d3 = acked d"
      "repo_UpdateStatus repo i st msg expected d = (d4, x4) \<Longrightarrow> sent d4 = sent d \<and> acked d4 = acked d"
      "repo_ListPendingOutbox repo b d = (d5, x5) \<Longrightarrow> sent d5 = sent d \<and> acked d5 = acked d"
      "repo_MarkOutboxProcessed repo i d = (d6, x6) \<Longrightarrow> sent d6 = sent d \<and> acked d6 = acked d"
    and catalog_logs:
      "catalog_GetVariantsByIDs catalog ids d = (d7, x7) \<Longrightarrow> sent d7 = sent d \<and> acked d7 = acked d"
begin

subsection \<open>The consumer acknowledges what it has handled\<close>

lemma handle_event_step:
  assumes "handle_event L usecase topic value d = (d', r)" and "db d A"
  shows "\<exists>A'. db d' A' \<and> (order_step L tr)\<^sup>=\<^sup>= A A'"
  using assms HandleStockEvent_step HandlePaymentEvent_step
  by (auto simp: handle_event_def split: if_splits sum.splits)

lemma HandleStockEvent_logs:
  "OrderUsecase_HandleStockEvent L usecase oid ok message d = (d', r) \<Longrightarrow> sent d' = sent d \<and> acked d' = acked d"
  using repo_logs(4)
  by (auto simp: OrderUsecase_HandleStockEvent_def NewOrderUsecase_def Let_def split: sum.splits if_splits)

lemma HandlePaymentEvent_logs:
  "OrderUsecase_HandlePaymentEvent L usecase oid ok message d = (d', r) \<Longrightarrow> sent d' = sent d \<and> acked d' = acked d"
  using repo_logs(4)
  by (auto simp: OrderUsecase_HandlePaymentEvent_def NewOrderUsecase_def Let_def split: sum.splits if_splits)

lemma handle_event_logs:
  "handle_event L usecase topic value d = (d', r) \<Longrightarrow> sent d' = sent d \<and> acked d' = acked d"
  using HandleStockEvent_logs HandlePaymentEvent_logs
  by (auto simp: handle_event_def split: if_splits sum.splits)

lemma handleMessage_step:
  assumes "OrderEventConsumer_handleMessage L usecase msg d = (d', p)" and A: "db d A"
  shows "\<exists>A'. db d' A' \<and> (order_step L tr)\<^sup>=\<^sup>= A A'"
proof (cases "km_Topic msg")
  case None
  then show ?thesis using assms by (auto simp: OrderEventConsumer_handleMessage_def)
next
  case (Some topic)
  obtain d1 r where h: "handle_event L usecase topic (km_Value msg) d = (d1, r)"
    by (cases "handle_event L usecase topic (km_Value msg) d")
  obtain A1 where A1: "db d1 A1" "(order_step L tr)\<^sup>=\<^sup>= A A1" using handle_event_step [OF h A] by blast
  have c: "db (fst (kafka_CommitMessage L msg x)) B" if "db x B" for x B
    using commit_db [OF that] by (cases "kafka_CommitMessage L msg x") auto
  have "d' = fst (kafka_CommitMessage L msg d) \<or> d' = fst (kafka_CommitMessage L msg d1) \<or> d' = d1"
    using assms(1) Some h
    by (auto simp: OrderEventConsumer_handleMessage_def split: if_splits option.splits go_error.splits)
  then show ?thesis using A A1 c by auto
qed

text \<open>
  A message is committed only after it has been handled without error; a topic nobody handles
  is committed at once; an error or a panic leaves it uncommitted.
\<close>

lemma handleMessage_acked:
  assumes run: "OrderEventConsumer_handleMessage L usecase msg d = (d', p)"
  shows "acked d' = acked d \<or>
    (acked d' = acked d @ [msg] \<and> p = None
     \<and> (\<exists>topic. km_Topic msg = Some topic
          \<and> (topic \<notin> set handled_topics \<or> snd (handle_event L usecase topic (km_Value msg) d) = None)))"
proof (cases "km_Topic msg")
  case None
  then show ?thesis using run by (auto simp: OrderEventConsumer_handleMessage_def)
next
  case (Some topic)
  obtain d1 r where h: "handle_event L usecase topic (km_Value msg) d = (d1, r)"
    by (cases "handle_event L usecase topic (km_Value msg) d")
  have c: "acked (fst (kafka_CommitMessage L msg x)) = acked x \<or> acked (fst (kafka_CommitMessage L msg x)) = acked x @ [msg]" for x
    using commit_logs by (cases "kafka_CommitMessage L msg x") (auto split: if_splits)
  consider (unknown) "topic \<notin> set handled_topics" "d' = fst (kafka_CommitMessage L msg d)" "p = None"
    | (handled) "r = None" "d' = fst (kafka_CommitMessage L msg d1)" "p = None" | (failed) "d' = d1"
    using run Some h
    by (auto simp: OrderEventConsumer_handleMessage_def split: if_splits option.splits go_error.splits)
  then show ?thesis
    using c [of d] c [of d1] handle_event_logs [OF h] Some h by cases auto
qed

end

end
