(* ===== verification/VariantCatalog.thy ===== *)
theory VariantCatalog
  imports UseCases GoString
begin

text \<open>
  The client of the product service (\<open>internal/data/variant_catalog.go\<close>), the other
  dependency of the use cases, and its choice of transport.
\<close>

definition usesInsecureTransport :: "string \<Rightarrow> bool" where
  "usesInsecureTransport target \<longleftrightarrow>
     Contains target ''localhost'' \<or> Contains target ''127.0.0.1'' \<or> Contains target ''host.docker.internal''"

datatype transport = TransportTLS | TransportInsecure

text \<open>\<open>grpc.Dial\<close> is the parameter \<open>dial\<close>; its result is the connection the client uses.\<close>

definition NewVariantCatalog :: "(string \<Rightarrow> transport \<Rightarrow> string + 'c) \<Rightarrow> string \<Rightarrow> go_error + 'c" where
  "NewVariantCatalog dial target =
     (if target = [] then Inl (ErrorText ''PRODUCT_SERVICE_URL is required'')
      else
        let transport = (if usesInsecureTransport target then TransportInsecure else TransportTLS)
        in (case dial target transport of Inl err \<Rightarrow> Inl (RpcErr err) | Inr conn \<Rightarrow> Inr conn))"

definition variantInfo :: "GetVariantsResponse_Variant \<Rightarrow> VariantInfo" where
  "variantInfo variant =
     \<lparr>vi_ID = gv_Id variant, vi_ProductID = gv_ProductId variant, vi_ProductName = gv_ProductName variant,
      vi_VariantDescription = gv_Sku variant, vi_ImageURL = gv_MediaUrl variant, vi_SalePrice = gv_SalePrice variant\<rparr>"

definition VariantCatalog_GetVariantsByIDs ::
    "('d, 'z) svc_lib_scheme \<Rightarrow> string list \<Rightarrow> 'd \<Rightarrow> 'd \<times> (go_error + VariantInfo list)" where
  "VariantCatalog_GetVariantsByIDs L ids d =
     (case VariantServiceClient_GetVariantsByIds L ids d of
        (d, Inl err) \<Rightarrow> (d, Inl (RpcErr err))
      | (d, Inr variants) \<Rightarrow> (d, Inr (map variantInfo variants)))"

definition catalogClient :: "('d, 'z) svc_lib_scheme \<Rightarrow> 'd VariantCatalog" where
  "catalogClient L = \<lparr>catalog_GetVariantsByIDs = VariantCatalog_GetVariantsByIDs L\<rparr>"

text \<open>A remote call leaves the service's own database alone.\<close>

locale variant_rpc =
  fixes L :: "('d, 'z) svc_lib_scheme"
    and db :: "'d \<Rightarrow> order_db \<Rightarrow> bool"
  assumes rpc_db: "db d A \<Longrightarrow> VariantServiceClient_GetVariantsByIds L ids d = (d', r) \<Longrightarrow> db d' A"

sublocale variant_rpc \<subseteq> variant_catalog "catalogClient L" db
proof
  show "db d' A" if "db d A" "catalog_GetVariantsByIDs (catalogClient L) ids d = (d', r)" for d A ids d' r
    using that rpc_db
    by (auto simp: catalogClient_def VariantCatalog_GetVariantsByIDs_def split: prod.splits sum.splits)
qed

text \<open>The transport is plain exactly for a target that names a local host.\<close>

lemma NewVariantCatalog_transport:
  assumes "NewVariantCatalog dial target = Inr conn"
  shows "target \<noteq> []"
    and "dial target (if usesInsecureTransport target then TransportInsecure else TransportTLS) = Inr conn"
  using assms by (auto simp: NewVariantCatalog_def Let_def split: if_splits sum.splits)

end
