(* ===== verification/OrderRepo.thy ===== *)
theory OrderRepo
  imports Biz EntLoad
begin

text \<open>
  The repository of the order service (\<open>internal/data/order_repo.go\<close>) over the generated
  entity layer: placing an order in one transaction, reading, listing, the guarded status
  update, and the outbox.
\<close>

subsection \<open>Transactions\<close>

text \<open>\<open>Client.Tx\<close>, \<open>Tx.Commit\<close>, \<open>Tx.Rollback\<close> (no hooks are registered).\<close>

definition Client_Tx :: "('d, 'z) lib_scheme \<Rightarrow> driver \<Rightarrow> 'd \<Rightarrow> 'd \<times> (ent_error + driver)" where
  "Client_Tx L drv d =
     (case drv of
        TxDriver \<Rightarrow> (d, Inl TxStarted)
      | BaseDriver \<Rightarrow>
          (case sql_BeginTx L d of
             (d, Some e) \<Rightarrow> (d, Inl (StartTxError e))
           | (d, None) \<Rightarrow> (d, Inr TxDriver)))"

definition Tx_Commit :: "('d, 'z) lib_scheme \<Rightarrow> 'd \<Rightarrow> 'd \<times> ent_error option" where
  "Tx_Commit L d = (case sql_Commit L d of (d, r) \<Rightarrow> (d, map_option SqlError r))"

definition Tx_Rollback :: "('d, 'z) lib_scheme \<Rightarrow> 'd \<Rightarrow> 'd \<times> ent_error option" where
  "Tx_Rollback L d = (case sql_Rollback L d of (d, r) \<Rightarrow> (d, map_option SqlError r))"

subsection \<open>Operations\<close>

definition ent_result :: "'d \<times> (ent_error + 'a) \<Rightarrow> 'd \<times> (go_error + 'a)" where
  \<comment> \<open>\<open>return x, err\<close> of a call into the entity layer\<close>
  "ent_result = (\<lambda>(d, r). (d, case r of Inl e \<Rightarrow> Inl (EntErr e) | Inr x \<Rightarrow> Inr x))"

definition OrderRepo_Get :: "('d, 'z) svc_lib_scheme \<Rightarrow> uuid \<Rightarrow> 'd \<Rightarrow> 'd \<times> (go_error + Order)" where
  "OrderRepo_Get L i d =
     ent_result (OrderQuery_Only L
       (OrderQuery_WithItems (OrderQuery_Where [order_IDEQ i] (OrderClient_Query BaseDriver))) d)"

definition orderCreate :: "driver \<Rightarrow> CreateOrderCommand \<Rightarrow> OrderCreate" where
  "orderCreate tx command =
     OrderCreate_SetBillingAddress (coc_BillingAddress command)
      (OrderCreate_SetShippingAddress (coc_ShippingAddress command)
      (OrderCreate_SetTotal (coc_ComputedTotal command)
      (OrderCreate_SetShippingCost f64_zero
      (OrderCreate_SetTax (coc_ComputedTax command)
      (OrderCreate_SetSubtotal (coc_ComputedSubtotal command)
      (OrderCreate_SetStatus StatusCreated
      (OrderCreate_SetCustomerID (coc_CustomerID command)
      (OrderClient_Create tx))))))))"

definition itemCreate :: "driver \<Rightarrow> Order \<Rightarrow> CreateOrderItem \<Rightarrow> OrderItemCreate" where
  "itemCreate tx orderEntity item =
     OrderItemCreate_SetImageURL (coi_ImageURL item)
      (OrderItemCreate_SetTotalPrice (coi_TotalPrice item)
      (OrderItemCreate_SetQuantity (coi_Quantity item)
      (OrderItemCreate_SetUnitPrice (coi_UnitPrice item)
      (OrderItemCreate_SetVariantDescription (coi_VariantDescription item)
      (OrderItemCreate_SetProductName (coi_ProductName item)
      (OrderItemCreate_SetVariantID (coi_VariantID item)
      (OrderItemCreate_SetProductID (coi_ProductID item)
      (OrderItemCreate_SetOrder orderEntity
      (OrderItemClient_Create tx)))))))))"

definition orderCreatedEvent ::
    "('d, 'z) svc_lib_scheme \<Rightarrow> Order \<Rightarrow> CreateOrderCommand \<Rightarrow> OrderCreatedEvent" where
  "orderCreatedEvent L orderEntity command =
     \<lparr>oce_Order_id = uuid_String L (o_ID orderEntity), oce_Status = o_Status orderEntity,
      oce_Temporary_price = coc_ComputedTotal command,
      oce_Customer_id = uuid_String L (coc_CustomerID command), oce_Items = coc_EventItems command\<rparr>"

definition outboxCreate :: "driver \<Rightarrow> Order \<Rightarrow> byte list \<Rightarrow> OutboxEventCreate" where
  "outboxCreate tx orderEntity payload =
     OutboxEventCreate_SetPayload payload
      (OutboxEventCreate_SetEventType ''order.created''
      (OutboxEventCreate_SetAggregateID (o_ID orderEntity)
      (OutboxEventCreate_SetAggregateType ''order''
      (OutboxEventClient_Create tx))))"

text \<open>A return after the deferred rollback: \<open>if !rolledBack { _ = tx.Rollback() }\<close>.\<close>

definition rollback_return :: "('d, 'z) svc_lib_scheme \<Rightarrow> go_error \<Rightarrow> 'd \<Rightarrow> 'd \<times> (go_error + 'a)" where
  "rollback_return L err d = (fst (Tx_Rollback L d), Inl err)"

definition createItems ::
    "('d, 'z) svc_lib_scheme \<Rightarrow> driver \<Rightarrow> OrderItemCreate list \<Rightarrow> 'd \<Rightarrow> 'd \<times> ent_error option" where
  \<comment> \<open>\<open>if len(itemCreates) > 0 { _, err := tx.OrderItem.CreateBulk(itemCreates...).Save(ctx) }\<close>\<close>
  "createItems L tx itemCreates d =
     (if itemCreates \<noteq> [] then
        (case OrderItemCreateBulk_Save L tx itemCreates d of
           (d, Inl err) \<Rightarrow> (d, Some err)
         | (d, Inr _) \<Rightarrow> (d, None))
      else (d, None))"

definition OrderRepo_Create ::
    "('d, 'z) svc_lib_scheme \<Rightarrow> CreateOrderCommand \<Rightarrow> 'd \<Rightarrow> 'd \<times> (go_error + Order)" where
  "OrderRepo_Create L command d =
     (case Client_Tx L BaseDriver d of
        (d, Inl err) \<Rightarrow> (d, Inl (EntErr err))
      | (d, Inr tx) \<Rightarrow>
     (case OrderCreate_Save L (orderCreate tx command) d of
        (d, Inl err) \<Rightarrow> rollback_return L (EntErr err) d
      | (d, Inr orderEntity) \<Rightarrow>
     let itemCreates = map (itemCreate tx orderEntity) (coc_Items command) in
     (case createItems L tx itemCreates d of
        (d, Some err) \<Rightarrow> rollback_return L (EntErr err) d
      | (d, None) \<Rightarrow>
     (case OrderCreatedEvent_Serialize L (orderCreatedEvent L orderEntity command) [] of
        Inl err \<Rightarrow> rollback_return L (AvroErr err) d
      | Inr buffer \<Rightarrow>
     (case OutboxEventCreate_Save L (outboxCreate tx orderEntity buffer) d of
        (d, Inl err) \<Rightarrow> rollback_return L (EntErr err) d
      | (d, Inr _) \<Rightarrow>
     (case Tx_Commit L d of
        (d, Some err) \<Rightarrow> rollback_return L (EntErr err) d
      | (d, None) \<Rightarrow> OrderRepo_Get L (o_ID orderEntity) d))))))"

definition OrderRepo_buildListQuery :: "ListOrdersQuery \<Rightarrow> OrderQuery" where
  "OrderRepo_buildListQuery query =
     (let builder = OrderClient_Query BaseDriver;
          builder = (case loq_CustomerID query of
                       Some v \<Rightarrow> OrderQuery_Where [order_CustomerIDEQ v] builder | None \<Rightarrow> builder);
          builder = (case loq_Status query of
                       Some v \<Rightarrow> OrderQuery_Where [order_StatusEQ v] builder | None \<Rightarrow> builder)
      in (case loq_CreatedAfter query of
            Some v \<Rightarrow> OrderQuery_Where [order_CreatedAtGT v] builder | None \<Rightarrow> builder))"

definition OrderRepo_List ::
    "('d, 'z) svc_lib_scheme \<Rightarrow> ListOrdersQuery \<Rightarrow> 'd \<Rightarrow> 'd \<times> (go_error + Order list \<times> i64)" where
  "OrderRepo_List L query d =
     (case OrderQuery_Count L (OrderRepo_buildListQuery query) d of
        (d, Inl err) \<Rightarrow> (d, Inl (EntErr err))
      | (d, Inr totalCount) \<Rightarrow>
          let offset = (loq_Page query - 1) * loq_PageSize query in
          (case OrderQuery_All L
                  (OrderQuery_Limit (loq_PageSize query)
                  (OrderQuery_Offset offset
                  (OrderQuery_Order (ent_Desc [FieldCreatedAt])
                  (OrderQuery_WithItems (OrderRepo_buildListQuery query))))) d of
             (d, Inl err) \<Rightarrow> (d, Inl (EntErr err))
           | (d, Inr orders) \<Rightarrow> (d, Inr (orders, totalCount))))"

definition OrderRepo_UpdateStatus ::
    "('d, 'z) svc_lib_scheme \<Rightarrow> uuid \<Rightarrow> status \<Rightarrow> string option \<Rightarrow> status \<Rightarrow> 'd \<Rightarrow> 'd \<times> go_error option" where
  "OrderRepo_UpdateStatus L orderID st errorMessage expectedCurrent d =
     (case OrderClient_Get L BaseDriver orderID d of
        (d, Inl err) \<Rightarrow> (d, Some (EntErr err))
      | (d, Inr entity) \<Rightarrow>
          if o_Status entity = st then (d, None)
          else if o_Status entity \<noteq> expectedCurrent then (d, None)
          else
            let update = OrderUpdateOne_SetStatus st (OrderClient_UpdateOneID BaseDriver orderID);
                update = (case errorMessage of
                            Some m \<Rightarrow> OrderUpdateOne_SetErrorMessage m update | None \<Rightarrow> update)
            in (case OrderUpdateOne_Save L update d of
                  (d, Inl err) \<Rightarrow> (d, Some (EntErr err))
                | (d, Inr _) \<Rightarrow> (d, None)))"

definition OrderRepo_ListPendingOutbox ::
    "('d, 'z) svc_lib_scheme \<Rightarrow> i64 \<Rightarrow> 'd \<Rightarrow> 'd \<times> (go_error + OutboxEvent list)" where
  "OrderRepo_ListPendingOutbox L batch d =
     ent_result (OutboxEventQuery_All L
       (OutboxEventQuery_Limit batch
       (OutboxEventQuery_Order (ent_Asc [FieldCreatedAt])
       (OutboxEventQuery_Where [outboxevent_ProcessedEQ False] (OutboxEventClient_Query BaseDriver)))) d)"

definition OrderRepo_MarkOutboxProcessed ::
    "('d, 'z) svc_lib_scheme \<Rightarrow> uuid \<Rightarrow> 'd \<Rightarrow> 'd \<times> go_error option" where
  "OrderRepo_MarkOutboxProcessed L eventID d =
     (case OutboxEventUpdateOne_Save L
             (OutboxEventUpdateOne_SetProcessed True (OutboxEventClient_UpdateOneID BaseDriver eventID)) d of
        (d, Inl err) \<Rightarrow> (d, Some (EntErr err))
      | (d, Inr _) \<Rightarrow> (d, None))"

definition NewOrderRepo :: "('d, 'z) svc_lib_scheme \<Rightarrow> 'd OrderRepo" where
  "NewOrderRepo L =
     \<lparr>repo_Create = OrderRepo_Create L, repo_Get = OrderRepo_Get L, repo_List = OrderRepo_List L,
      repo_UpdateStatus = OrderRepo_UpdateStatus L,
      repo_ListPendingOutbox = OrderRepo_ListPendingOutbox L,
      repo_MarkOutboxProcessed = OrderRepo_MarkOutboxProcessed L\<rparr>"

end
