(* ===== verification/RepoRefinement.thy ===== *)
theory RepoRefinement
  imports OrderRepo OrderContract
begin

text \<open>
  The repository of the data layer implements the contract of the business layer: every law of
  \<open>order_repo\<close> is proved for \<open>NewOrderRepo\<close> from the laws of the SQL engine.
\<close>

definition quiet_db ::
    "('d \<Rightarrow> tables) \<Rightarrow> ('d \<Rightarrow> tables option) \<Rightarrow> 'd \<Rightarrow> order_db \<Rightarrow> bool" where
  "quiet_db committed view d A \<longleftrightarrow> db_state committed view BaseDriver d A \<and> view d = None"

lemma quiet_db_same:
  "same_db committed view d d' \<Longrightarrow> quiet_db committed view d A \<Longrightarrow> quiet_db committed view d' A"
  by (simp add: quiet_db_def same_db_state) (simp add: same_db_def)

definition add_event :: "order_db \<Rightarrow> OutboxEvent \<Rightarrow> order_db" where
  "add_event A ev = A\<lparr>db_outbox := db_outbox A @ [ev]\<rparr>"

definition loaded_order :: "order_db \<Rightarrow> uuid \<Rightarrow> Order \<Rightarrow> bool" where
  \<comment> \<open>what reading an order by id returns\<close>
  "loaded_order A i e \<longleftrightarrow>
     (\<exists>n is. n \<in> set (db_orders A) \<and> o_ID n = i \<and> e = with_items is n
        \<and> mset is = mset (filter (\<lambda>x. oi_order_items x = Some i) (db_items A)))"

locale order_platform = sql_engine L committed view tr + uuid_lib L
  for L :: "('d, 'z) svc_lib_scheme" and committed view tr
begin

text \<open>What the builders of \<open>Create\<close> save.\<close>

lemma orderCreate_saved:
  assumes "order_saved L (orderCreate tx cmd) n"
  shows "order_row_placed cmd (order_stored tr n)" "bare n" "o_Status n = StatusCreated"
  using assms
  by (auto simp: order_saved_def orderCreate_def order_with_defaults_def OrderCreate_constants_def
      OrderCreate_check_def OrderCreate_createSpec_def Let_def ent_defs newOrderMutation_def
      order_row_placed_def order_stored_def bare_def zero_Order_def float_min split: if_splits)

lemma itemCreate_saved:
  assumes "item_saved L (itemCreate tx n c) i"
  shows "item_placed (o_ID n) c (item_stored tr i)"
  using assms
  by (auto simp: item_saved_def itemCreate_def item_with_defaults_def
      OrderItemCreate_check_def OrderItemCreate_createSpec_def Let_def ent_defs
      newOrderItemMutation_def item_placed_def item_stored_def float_min int_positive not_empty
      split: if_splits)

lemma outboxCreate_saved:
  assumes "outbox_saved (outboxCreate tx n bs) e"
  shows "ob_AggregateType e = ''order''" "ob_AggregateID e = o_ID n"
    "ob_EventType e = ''order.created''" "\<not> ob_Processed e" "ob_Payload e = bs"
  using assms
  by (auto simp: outbox_saved_def outboxCreate_def outbox_with_defaults_def OutboxEventCreate_constants_def
      OutboxEventCreate_check_def OutboxEventCreate_createSpec_def Let_def ent_defs
      newOutboxEventMutation_def outboxevent_DefaultProcessed_def split: if_splits)

text \<open>
  A transaction that is open: the committed tables have not moved, and its view represents
  the database the statements so far have built.
\<close>

definition in_tx :: "'d \<Rightarrow> order_db \<Rightarrow> 'd \<Rightarrow> order_db \<Rightarrow> bool" where
  "in_tx d0 A0 d A \<longleftrightarrow> committed d = committed d0 \<and> represents (committed d) A0
     \<and> db_state committed view TxDriver d A"

lemma in_tx_frame:
  assumes "in_tx d0 A0 d A" and "drv_frame committed view TxDriver d d'"
  shows "committed d' = committed d0" "represents (committed d') A0" "view d' \<noteq> None"
  using assms
  by (auto simp: in_tx_def drv_frame_def db_state_def tables_of_def)

lemma in_tx_step:
  "in_tx d0 A0 d A \<Longrightarrow> drv_frame committed view TxDriver d d' \<Longrightarrow>
     db_state committed view TxDriver d' A' \<Longrightarrow> in_tx d0 A0 d' A'"
  using in_tx_frame unfolding in_tx_def by metis

lemma rollback_return_quiet:
  assumes "rollback_return L err d = (d', r)" and "represents (committed d) A0"
  shows "quiet_db committed view d' A0 \<and> r = Inl err"
proof -
  obtain d1 x where "sql_Rollback L d = (d1, x)" by (cases "sql_Rollback L d")
  with rollback [OF this] assms show ?thesis
    by (auto simp: rollback_return_def Tx_Rollback_def quiet_db_def db_state_def tables_of_def)
qed

lemma Client_Tx_begin:
  assumes "Client_Tx L BaseDriver d = (d', r)" and "quiet_db committed view d A"
  shows "r = Inr TxDriver \<and> in_tx d A d' A \<or> (\<exists>e. r = Inl e \<and> quiet_db committed view d' A)"
proof -
  obtain d1 x where b: "sql_BeginTx L d = (d1, x)" by (cases "sql_BeginTx L d")
  have v: "view d = None" and R: "represents (committed d) A"
    using assms(2) by (auto simp: quiet_db_def db_state_def tables_of_def)
  show ?thesis
  proof (cases x)
    case None
    from begin_ok [OF b [unfolded None] v] show ?thesis
      using assms(1) b None R by (simp add: Client_Tx_def in_tx_def db_state_def tables_of_def)
  next
    case (Some e)
    from begin_err [OF b [unfolded Some] v] have "quiet_db committed view d1 A"
      using assms(2) by (rule quiet_db_same)
    then show ?thesis using assms(1) b Some by (auto simp: Client_Tx_def)
  qed
qed

lemma Tx_Commit_end:
  assumes "Tx_Commit L d = (d', r)" and "in_tx d0 A0 d A"
  shows "if r = None then quiet_db committed view d' A
    else quiet_db committed view d' A0 \<or> quiet_db committed view d' A"
proof -
  obtain d1 x where c: "sql_Commit L d = (d1, x)" by (cases "sql_Commit L d")
  from assms(2) obtain t where t: "view d = Some t" "represents t A" "represents (committed d) A0"
    by (auto simp: in_tx_def db_state_def tables_of_def)
  have eq: "d' = d1" "r = map_option SqlError x" using assms(1) c by (simp_all add: Tx_Commit_def)
  show ?thesis
  proof (cases x)
    case None
    from commit_ok [OF c [unfolded None] t(1)] show ?thesis
      using eq None t by (simp add: quiet_db_def db_state_def tables_of_def)
  next
    case (Some e)
    from commit_err [OF c [unfolded Some] t(1)] show ?thesis
      using eq Some t by (auto simp: quiet_db_def db_state_def tables_of_def)
  qed
qed

text \<open>Reading an order back.\<close>

lemma Get_refines:
  assumes "OrderRepo_Get L i d = (d', r)" and "quiet_db committed view d A"
  shows "quiet_db committed view d' A"
    and "r = Inr e \<Longrightarrow> loaded_order A i e"
    and "r = Inl (EntErr (NotFoundError order_Label)) \<Longrightarrow> i \<notin> o_ID ` set (db_orders A)"
proof -
  obtain d1 x where O: "OrderQuery_Only L
      (OrderQuery_WithItems (OrderQuery_Where [order_IDEQ i] (OrderClient_Query BaseDriver))) d = (d1, x)"
    by (metis surj_pair)
  have A: "db_state committed view BaseDriver d A" using assms(2) by (simp add: quiet_db_def)
  note R = OrderQuery_Only_withItems [OF O A]
  have eq: "d' = d1" "r = (case x of Inl e \<Rightarrow> Inl (EntErr e) | Inr x \<Rightarrow> Inr x)"
    using assms(1) O by (simp_all add: OrderRepo_Get_def ent_result_def)
  show "quiet_db committed view d' A" using R(1) assms(2) eq by (auto intro: quiet_db_same)
  show "r = Inr e \<Longrightarrow> loaded_order A i e"
    and "r = Inl (EntErr (NotFoundError order_Label)) \<Longrightarrow> i \<notin> o_ID ` set (db_orders A)"
    using R(2) eq by (auto simp: loaded_order_def split: sum.splits)
qed

lemma new_order_loaded:
  assumes "db_keys A" and "o_ID n \<notin> o_ID ` set (db_orders A)"
    and "list_all2 (item_placed (o_ID n)) cs items"
    and "loaded_order (add_order A n items ev) (o_ID n) e"
  shows "\<exists>is. mset is = mset items \<and> e = with_items is n"
proof -
  from assms(4) obtain m "is" where m: "m \<in> set (db_orders (add_order A n items ev))" "o_ID m = o_ID n"
    "e = with_items is m" "mset is = mset items"
    unfolding loaded_order_def items_of_new_order [OF assms(1-3)] by blast
  then have "m = n" using m(1,2) assms(2) by (auto simp: add_order_def image_iff)
  with m show ?thesis by blast
qed

text \<open>The body of the transaction, up to the commit.\<close>

lemma order_created_event:
  assumes "o_Status n = StatusCreated" and "o_ID n = i"
  shows "orderCreatedEvent L n cmd = created_event L cmd i"
  using assms by (simp add: orderCreatedEvent_def created_event_def)

lemma orderCreate_driver [simp]:
  "oc_driver (orderCreate tx cmd) = tx" "om_items (oc_mutation (orderCreate tx cmd)) = None"
  "bc_driver (outboxCreate tx n bs) = tx" "im_order (ic_mutation (itemCreate tx n c)) = Some (o_ID n)"
  by (simp_all add: orderCreate_def outboxCreate_def itemCreate_def ent_defs newOrderMutation_def)

lemma Create_items_stage:
  assumes t2: "in_tx d0 A0 d A" and oid: "o_ID n \<in> o_ID ` set (db_orders A)"
    and run: "createItems L TxDriver (map (itemCreate TxDriver n) cs) d = (d', r)"
  shows "represents (committed d') A0"
    and "r = None \<Longrightarrow> \<exists>items. list_all2 (item_placed (o_ID n)) cs items
           \<and> in_tx d0 A0 d' (A\<lparr>db_items := db_items A @ items\<rparr>)"
proof -
  have "represents (committed d') A0 \<and> (r = None \<longrightarrow> (\<exists>items. list_all2 (item_placed (o_ID n)) cs items
           \<and> in_tx d0 A0 d' (A\<lparr>db_items := db_items A @ items\<rparr>)))"
  proof (cases "cs = []")
    case True
    then show ?thesis using run t2 by (auto simp: in_tx_def createItems_def)
  next
    case False
    obtain d1 rb where b: "OrderItemCreateBulk_Save L TxDriver (map (itemCreate TxDriver n) cs) d = (d1, rb)"
      by (cases "OrderItemCreateBulk_Save L TxDriver (map (itemCreate TxDriver n) cs) d")
    have eq: "d' = d1" "r = (case rb of Inl e \<Rightarrow> Some e | Inr _ \<Rightarrow> None)"
      using run False b by (auto simp: createItems_def split: sum.splits)
    have f: "drv_frame committed view TxDriver d d1" using OrderItemCreateBulk_Save_frame [OF b] .
    have st: "db_state committed view TxDriver d A" using t2 by (simp add: in_tx_def)
    have fk: "\<exists>k \<in> o_ID ` set (db_orders A). im_order (ic_mutation c) = Some k"
      if "c \<in> set (map (itemCreate TxDriver n) cs)" for c
      using that oid by auto
    show ?thesis
    proof (cases rb)
      case (Inl e)
      then show ?thesis using eq in_tx_frame(2) [OF t2 f] by simp
    next
      case (Inr is0)
      note ok = OrderItemCreateBulk_Save_ok [OF b [unfolded Inr] st fk]
      have "list_all2 (item_placed (o_ID n)) cs (map (item_stored tr) is0)"
        using ok(1) by (auto simp: list.rel_map intro: list.rel_mono_strong itemCreate_saved)
      moreover have "in_tx d0 A0 d1 (A\<lparr>db_items := db_items A @ map (item_stored tr) is0\<rparr>)"
        using ok(2) by (intro in_tx_step [OF t2 f])
      ultimately show ?thesis using eq in_tx_frame(2) [OF t2 f] by blast
    qed
  qed
  then show "represents (committed d') A0"
    and "r = None \<Longrightarrow> \<exists>items. list_all2 (item_placed (o_ID n)) cs items
           \<and> in_tx d0 A0 d' (A\<lparr>db_items := db_items A @ items\<rparr>)" by blast+
qed

text \<open>The rest of the body: the event, the commit, and the read of the new order.\<close>

definition finish_create :: "Order \<Rightarrow> CreateOrderCommand \<Rightarrow> 'd \<Rightarrow> 'd \<times> (go_error + Order)" where
  "finish_create n command d =
     (case OrderCreatedEvent_Serialize L (orderCreatedEvent L n command) [] of
        Inl err \<Rightarrow> rollback_return L (AvroErr err) d
      | Inr buffer \<Rightarrow>
     (case OutboxEventCreate_Save L (outboxCreate TxDriver n buffer) d of
        (d, Inl err) \<Rightarrow> rollback_return L (EntErr err) d
      | (d, Inr _) \<Rightarrow>
     (case Tx_Commit L d of
        (d, Some err) \<Rightarrow> rollback_return L (EntErr err) d
      | (d, None) \<Rightarrow> OrderRepo_Get L (o_ID n) d)))"

lemma finish_create_refines:
  assumes t: "in_tx d0 A0 d A" and run: "finish_create n cmd d = (d', r)" and st: "o_Status n = StatusCreated"
  shows "quiet_db committed view d' A0 \<and> r \<notin> range Inr
    \<or> (\<exists>ev. event_placed L cmd (o_ID n) ev \<and> quiet_db committed view d' (add_event A ev)
         \<and> (\<forall>e. r = Inr e \<longrightarrow> loaded_order (add_event A ev) (o_ID n) e))"
proof (cases "OrderCreatedEvent_Serialize L (orderCreatedEvent L n cmd) []")
  case (Inl e)
  then have "rollback_return L (AvroErr e) d = (d', r)" using run by (simp add: finish_create_def)
  from rollback_return_quiet [OF this] t show ?thesis by (auto simp: in_tx_def)
next
  case (Inr buffer)
  obtain d1 rb where b: "OutboxEventCreate_Save L (outboxCreate TxDriver n buffer) d = (d1, rb)"
    by (cases "OutboxEventCreate_Save L (outboxCreate TxDriver n buffer) d")
  have f: "drv_frame committed view TxDriver d d1" using OutboxEventCreate_Save_frame [OF b] by simp
  show ?thesis
  proof (cases rb)
    case (Inl e)
    then have "rollback_return L (EntErr e) d1 = (d', r)" using run Inr b by (simp add: finish_create_def)
    from rollback_return_quiet [OF this in_tx_frame(2) [OF t f]] show ?thesis by auto
  next
    case (Inr e0)
    let ?ev = "outbox_stored tr e0" and ?A' = "add_event A (outbox_stored tr e0)"
    have "db_state committed view TxDriver d A" using t by (simp add: in_tx_def)
    from OutboxEventCreate_Save_ok [OF b [unfolded Inr], of A] this
    have saved: "outbox_saved (outboxCreate TxDriver n buffer) e0"
      and "db_state committed view TxDriver d1 ?A'" by (simp_all add: add_event_def)
    then have t1: "in_tx d0 A0 d1 ?A'" using in_tx_step [OF t f] by blast
    have ev: "event_placed L cmd (o_ID n) ?ev"
      using outboxCreate_saved [OF saved] \<open>OrderCreatedEvent_Serialize _ _ _ = _\<close>
      by (simp add: event_placed_def outbox_stored_def order_created_event [OF st])
    obtain d2 rc where c: "Tx_Commit L d1 = (d2, rc)" by (cases "Tx_Commit L d1")
    show ?thesis
    proof (cases rc)
      case (Some e)
      then have rr: "rollback_return L (EntErr e) d2 = (d', r)"
        using run \<open>OrderCreatedEvent_Serialize _ _ _ = _\<close> b Inr c by (simp add: finish_create_def)
      from Tx_Commit_end [OF c t1] Some
      have "quiet_db committed view d2 A0 \<or> quiet_db committed view d2 ?A'" by simp
      moreover have "quiet_db committed view d' X \<and> r = Inl (EntErr e)" if "quiet_db committed view d2 X" for X
        using rollback_return_quiet [OF rr, of X] that by (auto simp: quiet_db_def db_state_def tables_of_def)
      ultimately show ?thesis using ev by blast
    next
      case None
      then have g: "OrderRepo_Get L (o_ID n) d2 = (d', r)"
        using run \<open>OrderCreatedEvent_Serialize _ _ _ = _\<close> b Inr c by (simp add: finish_create_def)
      have q2: "quiet_db committed view d2 ?A'" using Tx_Commit_end [OF c t1] None by simp
      show ?thesis using ev Get_refines(1,2) [OF g q2] by blast
    qed
  qed
qed

lemma Create_refines:
  assumes "OrderRepo_Create L cmd d = (d', r)" and Q: "quiet_db committed view d A"
  shows "quiet_db committed view d' A \<and> r \<notin> range Inr
         \<or> (\<exists>n items ev. order_placed L cmd A n items ev \<and> quiet_db committed view d' (add_order A n items ev)
              \<and> (\<forall>e. r = Inr e \<longrightarrow> (\<exists>is. mset is = mset items \<and> e = with_items is n)))"
proof -
  have keysA: "db_keys A" using Q by (auto simp: quiet_db_def db_state_def represents_def)
  obtain d1 rt where tx: "Client_Tx L BaseDriver d = (d1, rt)" by (cases "Client_Tx L BaseDriver d")
  show ?thesis
  proof (cases rt)
    case (Inl e)
    then show ?thesis using Client_Tx_begin [OF tx Q] assms(1) tx by (auto simp: OrderRepo_Create_def)
  next
    case (Inr tx')
    with Client_Tx_begin [OF tx Q] have t1: "in_tx d A d1 A" and tx': "rt = Inr TxDriver" by auto
    obtain d2 ro where o: "OrderCreate_Save L (orderCreate TxDriver cmd) d1 = (d2, ro)"
      by (cases "OrderCreate_Save L (orderCreate TxDriver cmd) d1")
    have f2: "drv_frame committed view TxDriver d1 d2" using OrderCreate_Save_frame [OF o] by simp
    show ?thesis
    proof (cases ro)
      case (Inl e)
      then have "rollback_return L (EntErr e) d2 = (d', r)"
        using assms(1) o tx tx' by (simp add: OrderRepo_Create_def)
      from rollback_return_quiet [OF this in_tx_frame(2) [OF t1 f2]] show ?thesis by auto
    next
      case (Inr n)
      let ?n = "order_stored tr n" and ?A2 = "A\<lparr>db_orders := db_orders A @ [order_stored tr n]\<rparr>"
      have "db_state committed view TxDriver d1 A" using t1 by (simp add: in_tx_def)
      from OrderCreate_Save_ok [OF o [unfolded Inr], of A] this
      have saved: "order_saved L (orderCreate TxDriver cmd) n"
        and s2: "db_state committed view TxDriver d2 ?A2" by simp_all
      then have t2: "in_tx d A d2 ?A2" using in_tx_step [OF t1 f2] by blast
      have id: "o_ID ?n = o_ID n" by (simp add: order_stored_def)
      have new: "o_ID n \<notin> o_ID ` set (db_orders A)"
        using s2 by (auto simp: db_state_def represents_def db_keys_def id)
      obtain d3 ri where i: "createItems L TxDriver (map (itemCreate TxDriver n) (coc_Items cmd)) d2 = (d3, ri)"
        by (metis surj_pair)
      have oid: "o_ID n \<in> o_ID ` set (db_orders ?A2)" by (simp add: id)
      note items = Create_items_stage [OF t2 oid i]
      show ?thesis
      proof (cases ri)
        case (Some e)
        then have "rollback_return L (EntErr e) d3 = (d', r)"
          using assms(1) o tx tx' Inr i by (simp add: OrderRepo_Create_def)
        from rollback_return_quiet [OF this items(1)] show ?thesis by auto
      next
        case None
        from items(2) [OF this] obtain "is" where "is": "list_all2 (item_placed (o_ID n)) (coc_Items cmd) is"
          and t3: "in_tx d A d3 (?A2\<lparr>db_items := db_items ?A2 @ is\<rparr>)" (is "in_tx d A d3 ?A3") by blast
        have "finish_create n cmd d3 = (d', r)"
          using assms(1) o tx tx' Inr i None by (simp add: OrderRepo_Create_def finish_create_def)
        note fin = finish_create_refines [OF t3 this orderCreate_saved(3) [OF saved]]
        have A': "add_event ?A3 ev = add_order A ?n is ev" for ev
          by (simp add: add_event_def add_order_def)
        have placed: "order_placed L cmd A ?n is ev" if "event_placed L cmd (o_ID n) ev" for ev
          using orderCreate_saved(1) [OF saved] new "is" that by (simp add: order_placed_def id)
        have own: "\<exists>is'. mset is' = mset is \<and> e = with_items is' ?n"
          if "loaded_order (add_order A ?n is ev) (o_ID n) e" for ev e
          using new_order_loaded [OF keysA, of ?n "coc_Items cmd" "is" ev e] new "is" that by (simp add: id)
        from fin show ?thesis
          unfolding A'
        proof (elim disjE exE conjE)
          fix ev
          assume "event_placed L cmd (o_ID n) ev" "quiet_db committed view d' (add_order A ?n is ev)"
            and l: "\<forall>e. r = Inr e \<longrightarrow> loaded_order (add_order A ?n is ev) (o_ID n) e"
          moreover have "\<forall>e. r = Inr e \<longrightarrow> (\<exists>is'. mset is' = mset is \<and> e = with_items is' ?n)"
            by (intro allI impI own [of ev]) (simp add: l)
          ultimately show ?thesis
            using placed by (intro disjI2 exI [of _ ?n] exI [of _ "is"] exI [of _ ev]) simp
        qed simp
      qed
    qed
  qed
qed

lemma buildListQuery_hits:
  "order_hits tr (OrderRepo_buildListQuery q) A = list_hits tr q A"
  unfolding order_hits_def list_hits_def
  by (intro filter_cong refl)
    (auto simp: OrderRepo_buildListQuery_def OrderQuery_Where_def OrderClient_Query_def Let_def split: option.splits)

lemma buildListQuery_simple:
  "simple_order_query (OrderRepo_buildListQuery q)" "oq_driver (OrderRepo_buildListQuery q) = BaseDriver"
  "oq_Limit (OrderRepo_buildListQuery q) = None" "oq_Offset (OrderRepo_buildListQuery q) = None"
  "oq_order (OrderRepo_buildListQuery q) = []" "oq_withItems (OrderRepo_buildListQuery q) = None"
  by (auto simp: simple_order_query_def OrderRepo_buildListQuery_def OrderQuery_Where_def
      OrderClient_Query_def Let_def order_pred.intros split: option.splits)

definition list_page_query :: "ListOrdersQuery \<Rightarrow> OrderQuery" where
  "list_page_query q =
     OrderQuery_Limit (loq_PageSize q)
       (OrderQuery_Offset ((loq_Page q - 1) * loq_PageSize q)
       (OrderQuery_Order (ent_Desc [FieldCreatedAt])
       (OrderQuery_WithItems (OrderRepo_buildListQuery q))))"

lemma list_page_query_fields:
  "oq_driver (list_page_query q) = BaseDriver" "oq_withItems (list_page_query q) \<noteq> None"
  "oq_order (list_page_query q) = [OrderDesc FieldCreatedAt]"
  "order_hits tr (list_page_query q) A = list_hits tr q A"
  using buildListQuery_simple [of q] buildListQuery_hits [of q A]
  by (simp_all add: list_page_query_def OrderQuery_Limit_def OrderQuery_Offset_def OrderQuery_Order_def
      OrderQuery_WithItems_def ent_Desc_def order_hits_def)

lemma list_page_query_simple: "query_ok q \<Longrightarrow> simple_order_query (list_page_query q)"
  using buildListQuery_simple [of q] list_offset [of q]
  by (simp add: simple_order_query_def list_page_query_def OrderQuery_Limit_def OrderQuery_Offset_def
      OrderQuery_Order_def OrderQuery_WithItems_def query_ok_def)

lemma query_page_of: "query_ok q \<Longrightarrow> query_page (list_page_query q) xs = page_of q xs"
  using list_offset [of q]
  by (auto simp: query_page_def page_def page_of_def list_page_query_def OrderQuery_Limit_def
      OrderQuery_Offset_def OrderQuery_Order_def OrderQuery_WithItems_def query_ok_def Let_def)

lemma List_refines:
  assumes L: "OrderRepo_List L q d = (d', rl)" and Q: "quiet_db committed view d A" and ok: "query_ok q"
  shows "quiet_db committed view d' A"
    and "rl = Inr (res, k) \<Longrightarrow> k = int_of_len (list_hits tr q A) \<and> length (list_hits tr q A) < 2 ^ 63
           \<and> (\<exists>ns is. mset ns = mset (list_hits tr q A)
                \<and> sorted_wrt (\<lambda>n m. o_CreatedAt m \<le> o_CreatedAt n) ns
                \<and> mset is = mset (filter (\<lambda>x. oi_order_items x \<in> Some ` o_ID ` set (page_of q ns)) (db_items A))
                \<and> res = map (with_items is) (page_of q ns))"
proof -
  obtain d1 rc where C: "OrderQuery_Count L (OrderRepo_buildListQuery q) d = (d1, rc)"
    by (metis surj_pair)
  obtain d2 ra where All: "OrderQuery_All L (list_page_query q) d1 = (d2, ra)" by (metis surj_pair)
  have S: "db_state committed view BaseDriver d A" using Q by (simp add: quiet_db_def)
  note cnt = OrderQuery_Count_simple [OF C, unfolded buildListQuery_hits, OF buildListQuery_simple(1,3,4,5),
      unfolded buildListQuery_simple(2), OF S]
  have Q1: "quiet_db committed view d1 A" using quiet_db_same [OF cnt(1) Q] .
  then have S1: "db_state committed view BaseDriver d1 A" by (simp add: quiet_db_def)
  note all = OrderQuery_All_simple [OF All list_page_query_simple [OF ok],
      unfolded list_page_query_fields(1), OF S1]
  have Q2: "quiet_db committed view d2 A" using quiet_db_same [OF all(1) Q1] .
  have run: "(d', rl) = (case rc of Inl e \<Rightarrow> (d1, Inl (EntErr e)) | Inr n \<Rightarrow>
      (case ra of Inl e \<Rightarrow> (d2, Inl (EntErr e)) | Inr os \<Rightarrow> (d2, Inr (os, n))))"
    using L C All by (simp add: OrderRepo_List_def list_page_query_def split: sum.splits)
  then show "quiet_db committed view d' A" using Q1 Q2 by (auto split: sum.splits)
  assume "rl = Inr (res, k)"
  with run have rc: "rc = Inr k" and ra: "ra = Inr res" by (auto split: sum.splits)
  from all(2) [OF ra] obtain ns "is" where ns: "order_answer tr (list_page_query q) A ns"
    and items: "mset is = mset (filter (\<lambda>i. oi_order_items i \<in> Some ` o_ID ` set (page_of q ns)) (db_items A))"
    and res: "res = map (with_items is) (page_of q ns)"
    using list_page_query_fields(2) [of q] by (auto simp: query_page_of [OF ok])
  from ns have "mset ns = mset (list_hits tr q A)"
    and "sorted_wrt (\<lambda>n m. o_CreatedAt m \<le> o_CreatedAt n) ns"
    by (simp_all add: order_answer_def list_page_query_fields order_le_def [abs_def])
  with cnt(2) [OF rc] items res show "k = int_of_len (list_hits tr q A) \<and> length (list_hits tr q A) < 2 ^ 63
           \<and> (\<exists>ns is. mset ns = mset (list_hits tr q A)
                \<and> sorted_wrt (\<lambda>n m. o_CreatedAt m \<le> o_CreatedAt n) ns
                \<and> mset is = mset (filter (\<lambda>x. oi_order_items x \<in> Some ` o_ID ` set (page_of q ns)) (db_items A))
                \<and> res = map (with_items is) (page_of q ns))"
    by (intro conjI exI [of _ ns] exI [of _ "is"]) simp_all
qed

text \<open>The guarded status update and the outbox.\<close>

lemma find_unique:
  assumes "distinct (map f xs)" and "x \<in> set xs"
  shows "find (\<lambda>y. f y = f x) xs = Some x"
  using assms by (induction xs) auto

definition status_update :: "uuid \<Rightarrow> status \<Rightarrow> string option \<Rightarrow> OrderUpdateOne" where
  "status_update i st msg =
     (let u = OrderUpdateOne_SetStatus st (OrderClient_UpdateOneID BaseDriver i)
      in case msg of Some m \<Rightarrow> OrderUpdateOne_SetErrorMessage m u | None \<Rightarrow> u)"

lemma status_update_fields:
  "ou_driver (status_update i st msg) = BaseDriver" "ou_fields (status_update i st msg) = []"
  "om_id (ou_mutation (status_update i st msg)) = Some i" "only_sets (ou_mutation (status_update i st msg))"
  "om_updated_at (ou_mutation (status_update i st msg)) = None"
  by (simp_all add: status_update_def ent_defs newOrderMutation_def only_sets_def Let_def split: option.splits)

lemma status_update_effect:
  "order_updated tr (OrderMutation_SetUpdatedAt ua (ou_mutation (status_update i st msg))) n =
     n\<lparr>o_UpdatedAt := tr ua, o_Status := st, o_ErrorMessage := or_zero msg (o_ErrorMessage n)\<rparr>"
  by (simp add: status_update_def ent_defs newOrderMutation_def order_updated_def Let_def
      split: option.splits)

lemma UpdateStatus_refines:
  assumes U: "OrderRepo_UpdateStatus L i st msg expected d = (d', ru)" and Q: "quiet_db committed view d A"
  shows "quiet_db committed view d' A \<and> (ru = None \<longrightarrow> (\<exists>s. status_of A i = Some s \<and> (s = st \<or> s \<noteq> expected)))
    \<or> (\<exists>ua. quiet_db committed view d' (set_status tr ua i st msg A) \<and> status_of A i = Some expected
          \<and> expected \<noteq> st)"
proof -
  have S: "db_state committed view BaseDriver d A" and keys: "db_keys A"
    using Q by (auto simp: quiet_db_def db_state_def represents_def)
  obtain d1 rg where G: "OrderClient_Get L BaseDriver i d = (d1, rg)"
    by (cases "OrderClient_Get L BaseDriver i d")
  note get = OrderClient_Get [OF G S]
  have Q1: "quiet_db committed view d1 A" using quiet_db_same [OF get(1) Q] .
  show ?thesis
  proof (cases rg)
    case (Inl e)
    then show ?thesis using U G Q1 by (auto simp: OrderRepo_UpdateStatus_def)
  next
    case (Inr n)
    with get(2) have n: "n \<in> set (db_orders A)" "o_ID n = i" by auto
    have so: "status_of A i = Some (o_Status n)"
      using find_unique [of o_ID "db_orders A" n] n keys by (simp add: status_of_def db_keys_def)
    show ?thesis
    proof (cases "o_Status n = st \<or> o_Status n \<noteq> expected")
      case True
      then show ?thesis using U G Inr Q1 so by (auto simp: OrderRepo_UpdateStatus_def split: if_splits)
    next
      case False
      obtain d2 rs where V: "OrderUpdateOne_Save L (status_update i st msg) d1 = (d2, rs)"
        by (metis surj_pair)
      have S1: "db_state committed view BaseDriver d1 A" "view d1 = None" using Q1 by (simp_all add: quiet_db_def)
      from OrderUpdateOne_Save [OF V status_update_fields S1(1)]
      have "quiet_db committed view d2 A \<and> rs \<notin> range Inr
          \<or> (\<exists>ua. quiet_db committed view d2 (set_status tr ua i st msg A))"
        using S1(2) by (auto simp: Let_def quiet_db_def set_status_def status_update_effect cong: if_cong)
      moreover have "(d', ru) = (case rs of Inl e \<Rightarrow> (d2, Some (EntErr e)) | Inr _ \<Rightarrow> (d2, None))"
        using U G V Inr False
        by (auto simp: OrderRepo_UpdateStatus_def status_update_def Let_def split: sum.splits option.splits)
      ultimately show ?thesis using so False by (auto split: sum.splits)
    qed
  qed
qed

lemma ListPendingOutbox_refines:
  assumes P: "OrderRepo_ListPendingOutbox L b d = (d', rp)" and Q: "quiet_db committed view d A" and b: "0 < sint b"
  shows "quiet_db committed view d' A"
    and "rp = Inr res \<Longrightarrow> \<exists>es. mset es = mset (filter (\<lambda>e. \<not> ob_Processed e) (db_outbox A))
           \<and> sorted_wrt (\<lambda>e f. ob_CreatedAt e \<le> ob_CreatedAt f) es \<and> res = take (nat (sint b)) es"
proof -
  obtain d1 ra where All: "OutboxEventQuery_All L (OutboxEventQuery_Limit b
      (OutboxEventQuery_Order (ent_Asc [FieldCreatedAt]) (OutboxEventQuery_Where [outboxevent_ProcessedEQ False]
        (OutboxEventClient_Query BaseDriver)))) d = (d1, ra)" by (metis surj_pair)
  have S: "db_state committed view BaseDriver d A" and b0: "0 \<le> sint b" "b \<noteq> 0"
    using Q b by (auto simp: quiet_db_def)
  note R = OutboxEventQuery_pending [OF All b0(1) S]
  have eq: "d' = d1" "rp = (case ra of Inl e \<Rightarrow> Inl (EntErr e) | Inr x \<Rightarrow> Inr x)"
    using P All by (simp_all add: OrderRepo_ListPendingOutbox_def ent_result_def)
  show "quiet_db committed view d' A" using quiet_db_same [OF R(1) Q] eq by simp
  assume "rp = Inr res"
  then have "ra = Inr res" using eq by (simp split: sum.splits)
  from R(2) [OF this] show "\<exists>es. mset es = mset (filter (\<lambda>e. \<not> ob_Processed e) (db_outbox A))
           \<and> sorted_wrt (\<lambda>e f. ob_CreatedAt e \<le> ob_CreatedAt f) es \<and> res = take (nat (sint b)) es"
    using b0(2) by (simp add: page_def)
qed

lemma MarkOutboxProcessed_refines:
  assumes M: "OrderRepo_MarkOutboxProcessed L i d = (d', rm)" and Q: "quiet_db committed view d A"
  shows "quiet_db committed view d' A \<and> rm \<noteq> None \<or> (\<exists>ua. quiet_db committed view d' (mark_processed tr ua i A))"
proof -
  let ?u = "OutboxEventUpdateOne_SetProcessed True (OutboxEventClient_UpdateOneID BaseDriver i)"
  obtain d1 rs where V: "OutboxEventUpdateOne_Save L ?u d = (d1, rs)" by (metis surj_pair)
  have S: "db_state committed view BaseDriver d A" "view d = None" using Q by (simp_all add: quiet_db_def)
  have f: "bu_driver ?u = BaseDriver" "bu_fields ?u = []" "bm_id (bu_mutation ?u) = Some i"
    "bm_predicates (bu_mutation ?u) = []" "bm_updated_at (bu_mutation ?u) = None"
    by (simp_all add: ent_defs newOutboxEventMutation_def)
  have eff: "outbox_updated tr (OutboxEventMutation_SetUpdatedAt ua (bu_mutation ?u)) e =
      e\<lparr>ob_UpdatedAt := tr ua, ob_Processed := True\<rparr>" for ua e
    by (simp add: ent_defs newOutboxEventMutation_def outbox_updated_def)
  from OutboxEventUpdateOne_Save [OF V f S(1)]
  have "quiet_db committed view d1 A \<and> rs \<notin> range Inr
      \<or> (\<exists>ua. quiet_db committed view d1 (mark_processed tr ua i A))"
    using S(2) by (auto simp: Let_def quiet_db_def mark_processed_def eff cong: if_cong)
  moreover have "(d', rm) = (case rs of Inl e \<Rightarrow> (d1, Some (EntErr e)) | Inr _ \<Rightarrow> (d1, None))"
    using M V by (simp add: OrderRepo_MarkOutboxProcessed_def split: sum.splits)
  ultimately show ?thesis by (auto split: sum.splits)
qed

end

text \<open>The data layer implements the contract of the business layer.\<close>

sublocale order_platform \<subseteq> repo: order_repo L "NewOrderRepo L" "quiet_db committed view" tr
proof (unfold_locales, goal_cases)
  case (1 d A)
  then show ?case by (auto simp: quiet_db_def db_state_def represents_def)
next
  case (2 d A cmd d' r)
  then show ?case using Create_refines by (simp add: NewOrderRepo_def)
next
  case (3 d A i d' ro)
  then show ?case using Get_refines [of i d d' ro A] by (auto simp: NewOrderRepo_def loaded_order_def)
next
  case (4 d A q d' rl)
  then show ?case using List_refines [of q d d' rl A] by (auto simp: NewOrderRepo_def)
next
  case (5 d A i st msg expected d' ru)
  then show ?case using UpdateStatus_refines by (simp add: NewOrderRepo_def)
next
  case (6 d A b d' rp)
  then show ?case using ListPendingOutbox_refines [of b d d' rp A] by (simp add: NewOrderRepo_def)
next
  case (7 d A i d' rm)
  then show ?case using MarkOutboxProcessed_refines by (simp add: NewOrderRepo_def)
qed

end
