(* ===== verification/SystemSteps.thy ===== *)
theory SystemSteps
  imports Worker VariantCatalog RepoRefinement
begin

text \<open>
  The running service: requests, consumed events and the dispatcher, whose flush is cut into
  its calls, interleave in any order; a crash may come at any point. Whatever they do, the
  database stays consistent, statuses follow the saga, and an outbox event is marked as
  processed only once its message has been delivered.
\<close>

subsection \<open>The dispatcher between its calls\<close>

datatype dispatcher =
    Idle
  | Flushing "OutboxEvent list"                \<comment> \<open>the events still to publish\<close>
  | Marking OutboxEvent "OutboxEvent list"     \<comment> \<open>the first event is published, not yet marked\<close>

fun in_flight :: "dispatcher \<Rightarrow> OutboxEvent list" where
  "in_flight Idle = []"
| "in_flight (Flushing es) = es"
| "in_flight (Marking e es) = e # es"

inductive system_step ::
    "('d, 'z) svc_lib_scheme \<Rightarrow> 'd OrderUsecase \<Rightarrow> 'd OutboxDispatcher \<Rightarrow> 'd \<times> dispatcher \<Rightarrow> 'd \<times> dispatcher \<Rightarrow> bool"
  for L uc disp where
  rpc_create: "OrderService_CreateOrder L uc creq d = (d', rc) \<Longrightarrow> system_step L uc disp (d, w) (d', w)"
| rpc_get: "OrderService_GetOrder L uc greq d = (d', rg) \<Longrightarrow> system_step L uc disp (d, w) (d', w)"
| rpc_list: "OrderService_GetOrders L uc lreq d = (d', rl) \<Longrightarrow> system_step L uc disp (d, w) (d', w)"
| poll: "kafka_Poll L d = (d', ev) \<Longrightarrow> system_step L uc disp (d, w) (d', w)"
| consume: "OrderEventConsumer_handleMessage L uc msg d = (d', p) \<Longrightarrow> system_step L uc disp (d, w) (d', w)"
| tick: "repo_ListPendingOutbox (obd_repo disp) (obd_batch disp) d = (d', r) \<Longrightarrow>
     system_step L uc disp (d, Idle) (d', case r of Inl _ \<Rightarrow> Idle | Inr es \<Rightarrow> Flushing es)"
| published: "publish_event L e d = (d', None) \<Longrightarrow> system_step L uc disp (d, Flushing (e # es)) (d', Marking e es)"
| not_published: "publish_event L e d = (d', Some err) \<Longrightarrow> system_step L uc disp (d, Flushing (e # es)) (d', Flushing es)"
| marked: "repo_MarkOutboxProcessed (obd_repo disp) (ob_ID e) d = (d', rm) \<Longrightarrow>
     system_step L uc disp (d, Marking e es) (d', Flushing es)"
| flushed: "system_step L uc disp (d, Flushing []) (d, Idle)"
| restart: "system_step L uc disp (d, w) (d, Idle)"

inductive_cases system_stepE: "system_step L uc disp (d, w) (d', w')"

abbreviation system_steps where
  "system_steps L uc disp \<equiv> (system_step L uc disp)\<^sup>*\<^sup>*"

text \<open>A whole flush is a run of such steps.\<close>

lemma flush_events_steps:
  assumes "OutboxDispatcher_flush_events L disp es d = (d', p)"
  shows "system_steps L uc disp (d, Flushing es) (d', Idle)"
  using assms
proof (induction es arbitrary: d)
  case Nil
  then show ?case by (auto intro: system_step.flushed)
next
  case (Cons e es)
  obtain d1 r where pub: "publish_event L e d = (d1, r)" by (cases "publish_event L e d")
  show ?case
  proof (cases r)
    case None
    obtain d2 rm where mk: "repo_MarkOutboxProcessed (obd_repo disp) (ob_ID e) d1 = (d2, rm)"
      by (cases "repo_MarkOutboxProcessed (obd_repo disp) (ob_ID e) d1")
    have "system_steps L uc disp (d2, Flushing es) (d', Idle)" using Cons pub None mk by simp
    with system_step.marked [OF mk] system_step.published [OF pub [unfolded None]] show ?thesis
      by (meson converse_rtranclp_into_rtranclp)
  next
    case (Some err)
    note step = system_step.not_published [OF pub [unfolded Some]]
    show ?thesis
    proof (cases "\<exists>q. err = GoPanic q")
      case True
      then have "d' = d1" using Cons.prems pub Some by auto
      with step system_step.restart [of L uc disp d1] show ?thesis
        by (meson converse_rtranclp_into_rtranclp r_into_rtranclp)
    next
      case False
      then have "OutboxDispatcher_flush_events L disp es d1 = (d', p)"
        using Cons.prems pub Some by (cases err) auto
      from Cons.IH [OF this] step show ?thesis by (meson converse_rtranclp_into_rtranclp)
    qed
  qed
qed

lemma flush_steps:
  assumes "OutboxDispatcher_flush L disp d = (d', p)"
  shows "system_steps L uc disp (d, Idle) (d', Idle)"
proof -
  obtain d1 r where l: "repo_ListPendingOutbox (obd_repo disp) (obd_batch disp) d = (d1, r)"
    by (cases "repo_ListPendingOutbox (obd_repo disp) (obd_batch disp) d")
  note step = system_step.tick [OF l, of L uc]
  show ?thesis
  proof (cases r)
    case (Inl e)
    then show ?thesis using assms l step by (auto simp: OutboxDispatcher_flush_def)
  next
    case (Inr es)
    then have "OutboxDispatcher_flush_events L disp es d1 = (d', p)"
      using assms l by (simp add: OutboxDispatcher_flush_def)
    from flush_events_steps [OF this] step Inr show ?thesis
      by (auto intro: converse_rtranclp_into_rtranclp)
  qed
qed

subsection \<open>The invariant of the running service\<close>

definition event_kafka :: "('d, 'z) svc_lib_scheme \<Rightarrow> OutboxEvent \<Rightarrow> kafka_message" where
  \<comment> \<open>the message that announces an outbox event\<close>
  "event_kafka L ev =
     producer_message L (ob_EventType ev) (uuid_String L (ob_AggregateID ev)) (ob_Payload ev)"

definition same_event :: "OutboxEvent \<Rightarrow> OutboxEvent \<Rightarrow> bool" where
  "same_event e f \<longleftrightarrow> ob_ID e = ob_ID f \<and> ob_EventType e = ob_EventType f
     \<and> ob_AggregateID e = ob_AggregateID f \<and> ob_Payload e = ob_Payload f"

lemma same_event_refl [simp]: "same_event e e"
  by (simp add: same_event_def)

lemma same_event_kafka: "same_event e f \<Longrightarrow> event_kafka L e = event_kafka L f"
  by (simp add: same_event_def event_kafka_def)

definition delivered :: "('d, 'z) svc_lib_scheme \<Rightarrow> kafka_message set \<Rightarrow> order_db \<Rightarrow> bool" where
  "delivered L S A \<longleftrightarrow> (\<forall>ev \<in> set (db_outbox A). ob_Processed ev \<longrightarrow> event_kafka L ev \<in> S)"

definition flight_ok :: "('d, 'z) svc_lib_scheme \<Rightarrow> kafka_message set \<Rightarrow> order_db \<Rightarrow> dispatcher \<Rightarrow> bool" where
  "flight_ok L S A w \<longleftrightarrow>
     (\<forall>e \<in> set (in_flight w). \<exists>f \<in> set (db_outbox A). same_event e f)
     \<and> (\<forall>e es. w = Marking e es \<longrightarrow> event_kafka L e \<in> S)"

lemma order_step_outbox:
  assumes "order_step L tr A A'"
  shows "prefix (db_outbox A) (db_outbox A') \<and> (\<forall>ev \<in> set (db_outbox A') - set (db_outbox A). \<not> ob_Processed ev)"
  using assms by cases (auto simp: add_order_def order_placed_def event_placed_def)

lemma order_step_delivered:
  assumes "(order_step L tr)\<^sup>=\<^sup>= A A'" and "S \<subseteq> S'"
  shows "delivered L S A \<Longrightarrow> delivered L S' A'" and "flight_ok L S A w \<Longrightarrow> flight_ok L S' A' w"
proof -
  have p: "prefix (db_outbox A) (db_outbox A')"
    and n: "\<forall>ev \<in> set (db_outbox A') - set (db_outbox A). \<not> ob_Processed ev"
    using assms(1) order_step_outbox [of L tr A A'] by blast+
  show "delivered L S A \<Longrightarrow> delivered L S' A'" using n assms(2) by (auto simp: delivered_def)
  show "flight_ok L S' A' w" if "flight_ok L S A w"
    unfolding flight_ok_def
  proof (intro conjI ballI allI impI)
    show "\<exists>f \<in> set (db_outbox A'). same_event e f" if "e \<in> set (in_flight w)" for e
      using \<open>flight_ok L S A w\<close> that set_mono_prefix [OF p] unfolding flight_ok_def by (meson subsetD)
    show "event_kafka L e \<in> S'" if "w = Marking e es" for e es
      using \<open>flight_ok L S A w\<close> that assms(2) by (simp add: flight_ok_def subset_iff)
  qed
qed

lemma marked_delivered:
  assumes d: "delivered L S A" and keys: "db_keys A" and w: "flight_ok L S A (Marking e es)"
  shows "delivered L S (mark_processed tr ua (ob_ID e) A)"
    and "flight_ok L S (mark_processed tr ua (ob_ID e) A) (Flushing es)"
proof -
  let ?A = "mark_processed tr ua (ob_ID e) A"
  from w obtain f where f: "f \<in> set (db_outbox A)" "same_event e f" "event_kafka L e \<in> S"
    by (auto simp: flight_ok_def)
  have "event_kafka L ev \<in> S" if ev: "ev \<in> set (db_outbox A)" "ob_ID ev = ob_ID e" for ev
  proof -
    have "ev = f"
      using keys ev f inj_onD [of ob_ID "set (db_outbox A)" ev f]
      by (simp add: db_keys_def same_event_def distinct_map)
    then show ?thesis using f same_event_kafka [OF f(2), of L] by simp
  qed
  moreover have "event_kafka L (ev\<lparr>ob_UpdatedAt := t, ob_Processed := b\<rparr>) = event_kafka L ev" for ev t b
    by (simp add: event_kafka_def)
  ultimately have marked: "event_kafka L (ev\<lparr>ob_UpdatedAt := t, ob_Processed := b\<rparr>) \<in> S"
    if "ev \<in> set (db_outbox A)" "ob_ID ev = ob_ID e" for ev t b using that by metis
  show "delivered L S ?A"
    unfolding delivered_def
  proof (intro ballI impI)
    fix x
    assume "x \<in> set (db_outbox ?A)" "ob_Processed x"
    then obtain ev where ev: "ev \<in> set (db_outbox A)"
      and x: "x = (if ob_ID ev = ob_ID e then ev\<lparr>ob_UpdatedAt := tr ua, ob_Processed := True\<rparr> else ev)"
      unfolding mark_processed_def by force
    show "event_kafka L x \<in> S"
    proof (cases "ob_ID ev = ob_ID e")
      case True
      then show ?thesis using marked [OF ev True] x by simp
    next
      case False
      then show ?thesis using d ev x \<open>ob_Processed x\<close> by (simp add: delivered_def)
    qed
  qed
  have "\<exists>g \<in> set (db_outbox ?A). same_event x g" if "h \<in> set (db_outbox A)" "same_event x h" for x h
  proof (rule bexI)
    let ?g = "if ob_ID h = ob_ID e then h\<lparr>ob_UpdatedAt := tr ua, ob_Processed := True\<rparr> else h"
    show "same_event x ?g" using that(2) by (simp add: same_event_def)
    show "?g \<in> set (db_outbox ?A)" using that(1) by (simp add: mark_processed_def)
  qed
  moreover have "\<forall>x \<in> set es. \<exists>h \<in> set (db_outbox A). same_event x h" using w by (simp add: flight_ok_def)
  ultimately have "\<forall>x \<in> set es. \<exists>g \<in> set (db_outbox ?A). same_event x g" by meson
  then show "flight_ok L S ?A (Flushing es)" by (simp add: flight_ok_def)
qed

context order_workers
begin

definition system_inv :: "order_db \<Rightarrow> 'd \<times> dispatcher \<Rightarrow> bool" where
  "system_inv A s \<longleftrightarrow> db (fst s) A \<and> saga_inv L A \<and> delivered L (set (sent (fst s))) A
     \<and> flight_ok L (set (sent (fst s))) A (snd s)"

lemma CreateOrder_logs: "OrderUsecase_CreateOrder L usecase req d = (d', r) \<Longrightarrow> sent d' = sent d"
  using catalog_logs repo_logs(1)
  by (fastforce simp: OrderUsecase_CreateOrder_def NewOrderUsecase_def split: sum.splits if_splits prod.splits)

lemma GetOrder_logs: "OrderUsecase_GetOrder L usecase req d = (d', r) \<Longrightarrow> sent d' = sent d"
  using repo_logs(2)
  by (fastforce simp: OrderUsecase_GetOrder_def NewOrderUsecase_def split: sum.splits prod.splits)

lemma ListOrders_logs: "OrderUsecase_ListOrders L usecase req d = (d', r) \<Longrightarrow> sent d' = sent d"
  using repo_logs(3)
  by (fastforce simp: OrderUsecase_ListOrders_def NewOrderUsecase_def split: sum.splits prod.splits)

lemma handleMessage_logs:
  assumes "OrderEventConsumer_handleMessage L usecase msg d = (d', p)"
  shows "sent d' = sent d"
proof (cases "km_Topic msg")
  case None
  then show ?thesis using assms by (auto simp: OrderEventConsumer_handleMessage_def)
next
  case (Some topic)
  obtain d1 r where h: "handle_event L usecase topic (km_Value msg) d = (d1, r)"
    by (cases "handle_event L usecase topic (km_Value msg) d")
  have c: "sent (fst (kafka_CommitMessage L msg x)) = sent x" for x
    using commit_logs by (cases "kafka_CommitMessage L msg x") auto
  have "d' = fst (kafka_CommitMessage L msg d) \<or> d' = fst (kafka_CommitMessage L msg d1) \<or> d' = d1"
    using assms(1) Some h
    by (auto simp: OrderEventConsumer_handleMessage_def split: if_splits option.splits go_error.splits)
  then show ?thesis using c handle_event_logs [OF h] by auto
qed

lemma publish_event_outcome:
  assumes "publish_event L e d = (d', r)"
  shows "db d A \<Longrightarrow> db d' A" "set (sent d) \<subseteq> set (sent d')" "r = None \<Longrightarrow> event_kafka L e \<in> set (sent d')"
proof -
  let ?m = "event_kafka L e"
  obtain d1 rp where p: "kafka_Produce L ?m d = (d1, rp)" by (cases "kafka_Produce L ?m d")
  have d1: "d' = d1" and r: "r = None \<longleftrightarrow> (\<exists>m. rp = Inr (EvMessage m) \<and> km_Error m = None)"
    using assms p
    by (auto simp: publish_event_def KafkaProducer_Publish_def event_kafka_def
        split: sum.splits kafka_event.splits)
  show "db d A \<Longrightarrow> db d' A" using produce_db [OF _ p] d1 by simp
  show "set (sent d) \<subseteq> set (sent d')" using produce_sent [OF p] d1 by simp
  show "?m \<in> set (sent d')" if "r = None"
  proof -
    from that r obtain m where "rp = Inr (EvMessage m)" "km_Error m = None" by blast
    with produce_ok [of ?m d d1 m] p d1 show ?thesis by simp
  qed
qed

lemma system_inv_order_step:
  assumes inv: "system_inv A (d, w)" and db: "db d' A'" and step: "(order_step L tr)\<^sup>=\<^sup>= A A'" and s: "sent d' = sent d"
  shows "\<exists>A'. system_inv A' (d', w) \<and> (saga_step L tr)\<^sup>*\<^sup>* A A'"
proof (intro exI conjI)
  show st: "(saga_step L tr)\<^sup>*\<^sup>* A A'" using step by (auto intro: saga_step.ordered)
  show "system_inv A' (d', w)"
    using inv db s order_step_delivered [OF step subset_refl] saga_inv_steps [OF st]
    by (auto simp: system_inv_def)
qed

lemma system_step_inv:
  assumes step: "system_step L usecase disp (d, w) (d', w')" and inv: "system_inv A (d, w)"
    and disp: "obd_repo disp = repo" "0 < sint (obd_batch disp)"
  shows "\<exists>A'. system_inv A' (d', w') \<and> (saga_step L tr)\<^sup>*\<^sup>* A A'"
proof -
  have A: "db d A" and si: "saga_inv L A" and dl: "delivered L (set (sent d)) A"
    and fo: "flight_ok L (set (sent d)) A w"
    using inv by (auto simp: system_inv_def)
  note keep = system_inv_order_step [OF inv]
  from step show ?thesis
  proof (cases rule: system_stepE [consumes 1, case_names create get list poll consume tick pub nopub mark idle restart])
    case (create creq rc)
    then show ?thesis
      using CreateOrder_step [OF _ A] CreateOrder_logs keep unfolding OrderService_CreateOrder_def by metis
  next
    case (get greq rg)
    then show ?thesis
      using GetOrder_outcome(1) [OF _ A] GetOrder_logs keep unfolding OrderService_GetOrder_def by (metis sup2CI)
  next
    case (list lreq rl)
    then show ?thesis
      using ListOrders_outcome(1) [OF _ A] ListOrders_logs keep unfolding OrderService_GetOrders_def by (metis sup2CI)
  next
    case (poll ev)
    then show ?thesis using poll_db [OF A] poll_logs keep by (metis sup2CI)
  next
    case (consume msg p)
    then show ?thesis using handleMessage_step [OF _ A] handleMessage_logs keep by metis
  next
    case (tick r)
    have l: "repo_ListPendingOutbox repo (obd_batch disp) d = (d', r)" using tick disp by simp
    note p = pending [OF A disp(2) l]
    have "\<exists>f \<in> set (db_outbox A). same_event e f" if "r = Inr es" "e \<in> set es" for e es
    proof -
      from p that(1) obtain xs where "mset xs = mset (filter (\<lambda>e. \<not> ob_Processed e) (db_outbox A))"
        "es = take (nat (sint (obd_batch disp))) xs" by blast
      with that(2) have "e \<in> set (db_outbox A)"
        by (metis (no_types, lifting) filter_is_subset in_set_takeD set_mset_mset subsetD)
      then show ?thesis by (intro bexI [of _ e]) simp_all
    qed
    then have "flight_ok L (set (sent d)) A w'"
      using tick by (auto simp: flight_ok_def split: sum.splits)
    then have "system_inv A (d', w')"
      using inv p repo_logs(5) [OF l] by (simp add: system_inv_def)
    then show ?thesis by blast
  next
    case (pub e es)
    note o = publish_event_outcome [OF pub(3)]
    have "delivered L (set (sent d')) A" using dl o(2) by (auto simp: delivered_def)
    moreover have "flight_ok L (set (sent d')) A (Marking e es)"
      using fo o(3) pub by (auto simp: flight_ok_def)
    ultimately have "system_inv A (d', w')" using si o(1) [OF A] pub by (simp add: system_inv_def)
    then show ?thesis by blast
  next
    case (nopub e err es)
    note o = publish_event_outcome [OF nopub(3)]
    have "delivered L (set (sent d')) A" using dl o(2) by (auto simp: delivered_def)
    moreover have "flight_ok L (set (sent d')) A (Flushing es)"
      using fo nopub by (auto simp: flight_ok_def)
    ultimately have "system_inv A (d', w')" using si o(1) [OF A] nopub by (simp add: system_inv_def)
    then show ?thesis by blast
  next
    case (mark e rm es)
    have m: "repo_MarkOutboxProcessed repo (ob_ID e) d = (d', rm)" using mark disp by simp
    have s: "sent d' = sent d" using repo_logs(6) [OF m] by simp
    have keysA: "db_keys A" using keys [OF A] .
    from processed [OF A m] show ?thesis
    proof
      assume "db d' A \<and> rm \<noteq> None"
      then have "system_inv A (d', w')" using inv s mark by (auto simp: system_inv_def flight_ok_def)
      then show ?thesis by blast
    next
      assume "\<exists>ua. db d' (mark_processed tr ua (ob_ID e) A)"
      then obtain ua where "db d' (mark_processed tr ua (ob_ID e) A)" ..
      moreover note marked_delivered [OF dl keysA fo [unfolded mark], of tr ua]
      ultimately have "system_inv (mark_processed tr ua (ob_ID e) A) (d', w')"
        using si s mark by (simp add: system_inv_def saga_inv_mark_processed)
      then show ?thesis by (meson r_into_rtranclp saga_step.dispatched)
    qed
  next
    case idle
    then show ?thesis using inv by (auto simp: system_inv_def flight_ok_def)
  next
    case restart
    then show ?thesis using inv by (auto simp: system_inv_def flight_ok_def)
  qed
qed

lemma system_steps_inv:
  assumes "system_steps L usecase disp s s'" and "system_inv A s"
    and "obd_repo disp = repo" "0 < sint (obd_batch disp)"
  shows "\<exists>A'. system_inv A' s' \<and> (saga_step L tr)\<^sup>*\<^sup>* A A'"
  using assms(1)
proof (induction rule: rtranclp_induct)
  case base
  then show ?case using assms(2) by blast
next
  case (step y z)
  then obtain B where "system_inv B y" "(saga_step L tr)\<^sup>*\<^sup>* A B" by blast
  with system_step_inv [of disp "fst y" "snd y" "fst z" "snd z" B] step.hyps(2) assms(3,4) show ?case
    by (metis prod.collapse rtranclp_trans)
qed

end

end
