(* ===== verification/OrderSystem.thy ===== *)
theory OrderSystem
  imports SystemSteps
begin

text \<open>
  The order service as it is put together by \<open>cmd/order/main.go\<close>: the repository over the
  database, the use cases over the repository and the product service, the workers over the
  broker. The locale \<open>order_system\<close> collects what the outside world promises; from it the
  contracts of every layer follow.
\<close>

subsection \<open>Calls into the database leave everything else alone\<close>

locale database_frame =
  fixes L :: "('d, 'z) svc_lib_scheme"
    and f :: "'d \<Rightarrow> 'x"
  assumes sql_frame:
      "sql_BeginTx L d = (d1, x1) \<Longrightarrow> f d1 = f d"
      "sql_Commit L d = (d2, x2) \<Longrightarrow> f d2 = f d"
      "sql_Rollback L d = (d3, x3) \<Longrightarrow> f d3 = f d"
      "sqlgraph_CreateNode L drv cs d = (d4, x4) \<Longrightarrow> f d4 = f d"
      "sqlgraph_BatchCreate L drv css d = (d5, x5) \<Longrightarrow> f d5 = f d"
      "sqlgraph_UpdateNode L drv us d = (d6, x6) \<Longrightarrow> f d6 = f d"
      "sqlgraph_QueryNodes L drv qs d = (d7, x7) \<Longrightarrow> f d7 = f d"
      "sqlgraph_CountNodes L drv qs d = (d8, x8) \<Longrightarrow> f d8 = f d"
      "uuid_New L d = (d9, u) \<Longrightarrow> f d9 = f d"
      "time_Now L d = (d10, now) \<Longrightarrow> f d10 = f d"
begin

lemma create_frame:
  "OrderCreate_Save L c d = (d1, r1) \<Longrightarrow> f d1 = f d"
  "OutboxEventCreate_Save L b d = (d2, r2) \<Longrightarrow> f d2 = f d"
  by (auto simp: OrderCreate_Save_def OrderCreate_defaults_def OrderCreate_sqlSave_def
      OutboxEventCreate_Save_def OutboxEventCreate_defaults_def OutboxEventCreate_sqlSave_def Let_def
      dest!: sql_frame split: prod.splits sum.splits option.splits if_splits)

lemma item_defaults_frame: "OrderItemCreate_defaults L c d = (d', c') \<Longrightarrow> f d' = f d"
  by (auto simp: OrderItemCreate_defaults_def Let_def dest!: sql_frame split: prod.splits option.splits if_splits)

lemma bulk_defaults_frame: "OrderItemCreateBulk_defaults L cs d = (d', cs') \<Longrightarrow> f d' = f d"
  by (induction cs arbitrary: d d' cs')
    (auto split: prod.splits dest!: item_defaults_frame)

lemma bulk_mutate_frame: "OrderItemCreateBulk_mutate L drv specs cs d = (d', r) \<Longrightarrow> f d' = f d"
  by (induction cs arbitrary: specs d d' r)
    (auto simp: Let_def dest!: sql_frame split: prod.splits sum.splits option.splits)

lemma bulk_frame: "OrderItemCreateBulk_Save L drv cs d = (d', r) \<Longrightarrow> f d' = f d"
  by (auto simp: OrderItemCreateBulk_Save_def Let_def
      dest!: bulk_mutate_frame bulk_defaults_frame split: prod.splits sum.splits option.splits if_splits)

lemma update_frame:
  "OrderUpdateOne_Save L u d = (d1, r1) \<Longrightarrow> f d1 = f d"
  "OutboxEventUpdateOne_Save L v d = (d2, r2) \<Longrightarrow> f d2 = f d"
  by (auto simp: OrderUpdateOne_Save_def OrderUpdateOne_defaults_def OrderUpdateOne_sqlSave_def
      OutboxEventUpdateOne_Save_def OutboxEventUpdateOne_defaults_def OutboxEventUpdateOne_sqlSave_def Let_def
      dest!: sql_frame split: prod.splits sum.splits option.splits if_splits)

lemma query_frame:
  "OrderItemQuery_All L iq d = (d1, r1) \<Longrightarrow> f d1 = f d"
  "OutboxEventQuery_All L bq d = (d2, r2) \<Longrightarrow> f d2 = f d"
  "OrderQuery_Count L q d = (d3, r3) \<Longrightarrow> f d3 = f d"
  by (auto simp: OrderItemQuery_All_def OrderItemQuery_sqlAll_def OutboxEventQuery_All_def OutboxEventQuery_sqlAll_def
      OrderQuery_Count_def OrderQuery_sqlCount_def Let_def
      dest!: sql_frame split: prod.splits sum.splits)

lemma OrderQuery_All_frame: "OrderQuery_All L q d = (d', r) \<Longrightarrow> f d' = f d"
  by (auto simp: OrderQuery_All_def OrderQuery_sqlAll_def OrderQuery_loadItems_def Let_def
      dest!: sql_frame query_frame(1) split: prod.splits sum.splits option.splits if_splits)

lemma OrderQuery_Only_frame: "OrderQuery_Only L q d = (d', r) \<Longrightarrow> f d' = f d"
  by (auto simp: OrderQuery_Only_def dest!: OrderQuery_All_frame split: prod.splits sum.splits list.splits)

lemma tx_frame:
  "Client_Tx L drv d = (d1, r1) \<Longrightarrow> f d1 = f d"
  "Tx_Commit L d = (d2, r2) \<Longrightarrow> f d2 = f d"
  "rollback_return L err d = (d3, r3) \<Longrightarrow> f d3 = f d"
  by (auto simp: Client_Tx_def Tx_Commit_def rollback_return_def Tx_Rollback_def
      dest!: sql_frame split: prod.splits option.splits driver.splits)

lemma OrderRepo_frame:
  "OrderRepo_Get L i d = (d1, r1) \<Longrightarrow> f d1 = f d"
  "OrderRepo_List L q d = (d2, r2) \<Longrightarrow> f d2 = f d"
  "OrderRepo_ListPendingOutbox L b d = (d3, r3) \<Longrightarrow> f d3 = f d"
  "OrderRepo_MarkOutboxProcessed L i d = (d4, r4) \<Longrightarrow> f d4 = f d"
  by (auto simp: OrderRepo_Get_def ent_result_def OrderRepo_List_def OrderRepo_ListPendingOutbox_def
      OrderRepo_MarkOutboxProcessed_def Let_def
      dest!: OrderQuery_Only_frame OrderQuery_All_frame query_frame update_frame
      split: prod.splits sum.splits)

lemma OrderRepo_UpdateStatus_frame: "OrderRepo_UpdateStatus L i st msg expected d = (d', r) \<Longrightarrow> f d' = f d"
  by (auto simp: OrderRepo_UpdateStatus_def OrderClient_Get_def Let_def
      dest!: OrderQuery_Only_frame update_frame split: prod.splits sum.splits if_splits)

lemma createItems_frame: "createItems L tx cs d = (d', r) \<Longrightarrow> f d' = f d"
  by (auto simp: createItems_def dest!: bulk_frame split: prod.splits sum.splits if_splits)

lemma OrderRepo_Create_frame: "OrderRepo_Create L cmd d = (d', r) \<Longrightarrow> f d' = f d"
  by (auto simp: OrderRepo_Create_def Let_def
      dest!: tx_frame create_frame createItems_frame OrderRepo_frame(1)
      split: prod.splits sum.splits option.splits)

end

subsection \<open>The service\<close>

locale order_system =
  order_platform L committed view tr + variant_rpc L "quiet_db committed view"
  + broker L "quiet_db committed view" sent acked + database_frame L "\<lambda>d. (sent d, acked d)"
  for L :: "('d, 'z) svc_lib_scheme" and committed view tr sent acked +
  assumes rpc_frame: "VariantServiceClient_GetVariantsByIds L ids d = (d', x) \<Longrightarrow> (sent d', acked d') = (sent d, acked d)"

sublocale order_system \<subseteq> workers: order_workers L "NewOrderRepo L" "quiet_db committed view" tr "catalogClient L" sent acked
proof (unfold_locales, goal_cases)
  case (1 cmd d d1 x1)
  then show ?case using OrderRepo_Create_frame by (simp add: NewOrderRepo_def)
next
  case (2 i d d2 x2)
  then show ?case using OrderRepo_frame(1) by (simp add: NewOrderRepo_def)
next
  case (3 q d d3 x3)
  then show ?case using OrderRepo_frame(2) by (simp add: NewOrderRepo_def)
next
  case (4 i st msg expected d d4 x4)
  then show ?case using OrderRepo_UpdateStatus_frame by (simp add: NewOrderRepo_def)
next
  case (5 b d d5 x5)
  then show ?case using OrderRepo_frame(3) by (simp add: NewOrderRepo_def)
next
  case (6 i d d6 x6)
  then show ?case using OrderRepo_frame(4) by (simp add: NewOrderRepo_def)
next
  case (7 ids d d7 x7)
  then show ?case
    using rpc_frame by (fastforce simp: catalogClient_def VariantCatalog_GetVariantsByIDs_def split: prod.splits sum.splits)
qed

context order_platform
begin

lemma is_repo: "order_repo L (NewOrderRepo L) (quiet_db committed view) tr"
  by unfold_locales

end

context order_system
begin

lemma is_platform: "order_platform L committed view tr"
  by unfold_locales

lemma is_service: "order_service L (NewOrderRepo L) (quiet_db committed view) tr (catalogClient L)"
  by unfold_locales

lemma is_workers:
  "order_workers L (NewOrderRepo L) (quiet_db committed view) tr (catalogClient L) sent acked"
  by unfold_locales

end

text \<open>The parts of \<open>main\<close>.\<close>

definition order_usecase :: "('d, 'z) svc_lib_scheme \<Rightarrow> 'd OrderUsecase" where
  "order_usecase L = NewOrderUsecase (NewOrderRepo L) (catalogClient L)"

definition order_dispatcher :: "('d, 'z) svc_lib_scheme \<Rightarrow> i64 \<Rightarrow> i64 \<Rightarrow> 'd OutboxDispatcher" where
  "order_dispatcher L interval batch = NewOutboxDispatcher (NewOrderRepo L) interval batch"

text \<open>What may be assumed of a starting point: a consistent database, and nothing marked undelivered.\<close>

definition good_start ::
    "('d, 'z) svc_lib_scheme \<Rightarrow> ('d \<Rightarrow> tables) \<Rightarrow> ('d \<Rightarrow> tables option) \<Rightarrow> ('d \<Rightarrow> kafka_message list) \<Rightarrow>
     'd \<Rightarrow> order_db \<Rightarrow> bool" where
  "good_start L committed view sent d A \<longleftrightarrow>
     quiet_db committed view d A \<and> saga_inv L A \<and> delivered L (set (sent d)) A"

lemma system_run:
  assumes sys: "order_system L committed view tr sent acked"
    and start: "good_start L committed view sent d A" and batch: "0 < sint batch"
    and run: "system_steps L (order_usecase L) (order_dispatcher L interval batch) (d, Idle) (d', w)"
  shows "\<exists>A'. good_start L committed view sent d' A' \<and> (saga_step L tr)\<^sup>*\<^sup>* A A'"
proof -
  note ow = order_system.is_workers [OF sys]
  have i: "order_workers.system_inv L (quiet_db committed view) sent A (d, Idle)"
    using start by (simp add: order_workers.system_inv_def [OF ow] good_start_def flight_ok_def)
  have "\<exists>A'. order_workers.system_inv L (quiet_db committed view) sent A' (d', w) \<and> (saga_step L tr)\<^sup>*\<^sup>* A A'"
    using order_workers.system_steps_inv [OF ow run [unfolded order_usecase_def order_dispatcher_def] i] batch
    by (simp add: NewOutboxDispatcher_def)
  then show ?thesis by (auto simp: order_workers.system_inv_def [OF ow] good_start_def)
qed

end
