(* ===== verification/AvroCodec.thy ===== *)
theory AvroCodec
  imports Messages
begin

text \<open>
  A concrete instance of the library interfaces for data: the Avro binary encoding of the
  primitive types (zigzag variable-length integers, length-prefixed strings, little-endian
  IEEE doubles) with a reader driven by the record schema, and the canonical text of a UUID.
  Its interpretations of \<open>avro_lib\<close> and \<open>uuid_lib\<close> are in the theory MemWorld.
\<close>

subsection \<open>Variable-length integers\<close>

function varint :: "nat \<Rightarrow> byte list" where
  "varint n = (if n < 128 then [of_nat n] else of_nat (128 + n mod 128) # varint (n div 128))"
  by auto
termination by (relation "measure id") auto

declare varint.simps [simp del]

fun read_varint :: "byte list \<Rightarrow> (nat \<times> byte list) option" where
  "read_varint [] = None"
| "read_varint (b # bs) =
     (if unat b < 128 then Some (unat b, bs)
      else (case read_varint bs of None \<Rightarrow> None | Some (m, r) \<Rightarrow> Some (unat b - 128 + 128 * m, r)))"

lemma unat_byte: "k < 256 \<Longrightarrow> unat (of_nat k :: byte) = k"
  by (simp add: unsigned_of_nat take_bit_nat_eq_self)

lemma read_varint_varint: "read_varint (varint n @ r) = Some (n, r)"
proof (induction n rule: varint.induct)
  case (1 n)
  show ?case
  proof (cases "n < 128")
    case True
    then show ?thesis by (subst varint.simps) (simp add: unat_byte)
  next
    case False
    have "128 + n mod 128 < 256" using mod_less_divisor [of 128 n] by linarith
    then have "unat (of_nat (128 + n mod 128) :: byte) = 128 + n mod 128" by (rule unat_byte)
    with 1 False show ?thesis by (subst varint.simps) simp
  qed
qed

definition zigzag :: "int \<Rightarrow> nat" where
  "zigzag k = (if 0 \<le> k then nat (2 * k) else nat (- 2 * k - 1))"

definition unzigzag :: "nat \<Rightarrow> int" where
  "unzigzag n = (if even n then int (n div 2) else - int (n div 2) - 1)"

lemma unzigzag_zigzag: "unzigzag (zigzag k) = k"
proof (cases "0 \<le> k")
  case True
  then show ?thesis by (simp add: zigzag_def unzigzag_def nat_mult_distrib)
next
  case False
  define j where "j = nat (- k - 1)"
  have "k = - int j - 1" using False by (simp add: j_def)
  moreover have "zigzag k = 2 * j + 1" using False by (simp add: zigzag_def j_def)
  ultimately show ?thesis by (simp add: unzigzag_def)
qed

subsection \<open>Doubles\<close>

fun bits64 :: "float64 \<Rightarrow> nat" where
  "bits64 FNaN = 9221120237041090561"
| "bits64 (FInf s) = (if s then 2 ^ 63 else 0) + 2047 * 2 ^ 52"
| "bits64 (FFin s m e) =
     (if s then 2 ^ 63 else 0) + (if m < 2 ^ 52 then m else nat (e + 1075) * 2 ^ 52 + (m - 2 ^ 52))"

definition of_bits64 :: "nat \<Rightarrow> float64" where
  "of_bits64 n =
     (let s = 2 ^ 63 \<le> n; r = n mod 2 ^ 63; ex = r div 2 ^ 52; fr = r mod 2 ^ 52
      in if ex = 2047 then (if fr = 0 then FInf s else FNaN)
         else if ex = 0 then FFin s fr (-1074)
         else FFin s (2 ^ 52 + fr) (int ex - 1075))"

lemma of_bits64_sign:
  assumes "r < 2 ^ 63"
  shows "of_bits64 ((if s then 2 ^ 63 else 0) + r) =
    (let ex = r div 2 ^ 52; fr = r mod 2 ^ 52
      in if ex = 2047 then (if fr = 0 then FInf s else FNaN)
         else if ex = 0 then FFin s fr (-1074) else FFin s (2 ^ 52 + fr) (int ex - 1075))"
  using assms by (cases s) (simp_all add: of_bits64_def Let_def)

lemma of_bits64_bits64: "f64_ok x \<Longrightarrow> of_bits64 (bits64 x) = x"
proof (cases x)
  case FNaN
  then show ?thesis by (simp add: of_bits64_def)
next
  case (FInf s)
  then show ?thesis using of_bits64_sign [of "2047 * 2 ^ 52" s] by simp
next
  case (FFin s m e)
  assume ok: "f64_ok x"
  show ?thesis
  proof (cases "m < 2 ^ 52")
    case True
    then have "e = -1074" using ok FFin by simp
    with True show ?thesis using of_bits64_sign [of m s] FFin by simp
  next
    case False
    define k f where "k = nat (e + 1075)" and "f = m - 2 ^ 52"
    have f: "f < 2 ^ 52" "m = 2 ^ 52 + f" using ok FFin False by (auto simp: f_def)
    have k: "0 < k" "k < 2047" "e = int k - 1075" using ok FFin by (auto simp: k_def)
    have q: "(k * 2 ^ 52 + f) div 2 ^ 52 = k" "(k * 2 ^ 52 + f) mod 2 ^ 52 = f" using f by simp_all
    have "k * 2 ^ 52 + f < 2047 * 2 ^ 52" using k f by simp
    then have lt: "k * 2 ^ 52 + f < 2 ^ 63" by simp
    have "of_bits64 (bits64 x) = of_bits64 ((if s then 2 ^ 63 else 0) + (k * 2 ^ 52 + f))"
      using False by (simp only: FFin bits64.simps k_def f_def if_False)
    then show ?thesis
      unfolding of_bits64_sign [OF lt] Let_def q using k f FFin by simp
  qed
qed

lemma sign_bit_bound: "r < 2 ^ 63 \<Longrightarrow> (if s then 2 ^ 63 else 0) + r < (2::nat) ^ 64"
  by simp

lemma bits64_bound: "f64_ok x \<Longrightarrow> bits64 x < 2 ^ 64"
proof (cases x)
  case (FFin s m e)
  assume "f64_ok x"
  then have "m < 2 ^ 53" "nat (e + 1075) \<le> 2046" using FFin by auto
  then have "(if m < 2 ^ 52 then m else nat (e + 1075) * 2 ^ 52 + (m - 2 ^ 52)) < 2 ^ 63" by auto
  then have "(if s then 2 ^ 63 else 0) + (if m < 2 ^ 52 then m else nat (e + 1075) * 2 ^ 52 + (m - 2 ^ 52)) < 2 ^ 64"
    by (rule sign_bit_bound)
  then show ?thesis by (simp only: FFin bits64.simps)
qed auto

fun le_bytes :: "nat \<Rightarrow> nat \<Rightarrow> byte list" where
  "le_bytes 0 n = []"
| "le_bytes (Suc k) n = of_nat (n mod 256) # le_bytes k (n div 256)"

fun read_le :: "nat \<Rightarrow> byte list \<Rightarrow> (nat \<times> byte list) option" where
  "read_le 0 bs = Some (0, bs)"
| "read_le (Suc k) bs =
     (case bs of
        [] \<Rightarrow> None
      | b # bs \<Rightarrow> (case read_le k bs of None \<Rightarrow> None | Some (m, r) \<Rightarrow> Some (unat b + 256 * m, r)))"

lemma read_le_bytes: "n < 256 ^ k \<Longrightarrow> read_le k (le_bytes k n @ r) = Some (n, r)"
proof (induction k arbitrary: n)
  case (Suc k)
  have "n div 256 < 256 ^ k" using Suc.prems by (simp add: less_mult_imp_div_less mult.commute)
  with Suc.IH show ?case by (simp add: unat_byte)
qed simp

subsection \<open>Strings\<close>

definition byte_of_char :: "char \<Rightarrow> byte" where
  "byte_of_char c = of_nat (of_char c)"

definition char_of_byte :: "byte \<Rightarrow> char" where
  "char_of_byte b = char_of (unat b)"

lemma char_of_byte_of_char [simp]: "char_of_byte (byte_of_char c) = c"
proof -
  have "(of_char c :: nat) < 256" by (rule nat_of_char_less_256)
  then show ?thesis by (simp add: byte_of_char_def char_of_byte_def unat_byte)
qed

definition write_string :: "string \<Rightarrow> byte list \<Rightarrow> string + byte list" where
  "write_string s w = Inr (w @ varint (zigzag (int (length s))) @ map byte_of_char s)"

definition write_int :: "int \<Rightarrow> byte list \<Rightarrow> string + byte list" where
  "write_int k w = Inr (w @ varint (zigzag k))"

definition write_double :: "float64 \<Rightarrow> byte list \<Rightarrow> string + byte list" where
  "write_double x w = (if f64_ok x then Inr (w @ le_bytes 8 (bits64 x)) else Inl ''not a float64'')"

fun read_value :: "avro_value \<Rightarrow> byte list \<Rightarrow> (avro_value \<times> byte list) option" where
  \<comment> \<open>a value of the type of the sample\<close>
  "read_value (AString _) bs =
     (case read_varint bs of
        None \<Rightarrow> None
      | Some (n, r) \<Rightarrow>
          let k = nat (unzigzag n) in
          if length r < k then None else Some (AString (map char_of_byte (take k r)), drop k r))"
| "read_value (AInt _) bs = map_option (\<lambda>(n, r). (AInt (word_of_int (unzigzag n)), r)) (read_varint bs)"
| "read_value (ALong _) bs = map_option (\<lambda>(n, r). (ALong (word_of_int (unzigzag n)), r)) (read_varint bs)"
| "read_value (ADouble _) bs = map_option (\<lambda>(n, r). (ADouble (of_bits64 n), r)) (read_le 8 bs)"
| "read_value (ABytes _) bs = None"

fun read_values :: "nat \<Rightarrow> avro_value list \<Rightarrow> byte list \<Rightarrow> (nat \<times> avro_value) list \<times> string option" where
  "read_values i [] bs = ([], None)"
| "read_values i (t # ts) bs =
     (case read_value t bs of
        None \<Rightarrow> ([], Some ''unexpected EOF'')
      | Some (v, r) \<Rightarrow> (let (stores, err) = read_values (Suc i) ts r in ((i, v) # stores, err)))"

lemma read_string: "\<exists>bs. write_string s w = Inr (w @ bs) \<and> (\<forall>r t. read_value (AString t) (bs @ r) = Some (AString s, r))"
  by (simp add: write_string_def read_varint_varint unzigzag_zigzag o_def)

lemma read_double:
  "write_double x w = Inr w' \<Longrightarrow> \<exists>bs. w' = w @ bs \<and> (\<forall>r t. read_value (ADouble t) (bs @ r) = Some (ADouble x, r))"
  using bits64_bound [of x]
  by (auto simp: write_double_def read_le_bytes of_bits64_bits64 split: if_splits)

subsection \<open>The text of a UUID\<close>

definition hex_digits :: string where
  "hex_digits = ''0123456789abcdef''"

fun hex :: "nat \<Rightarrow> nat \<Rightarrow> string" where
  "hex 0 u = []"
| "hex (Suc n) u = hex n (u div 16) @ [hex_digits ! (u mod 16)]"

fun hex_value :: "char \<Rightarrow> nat option" where
  "hex_value c = map_option fst (find (\<lambda>(k, d). d = c) (enumerate 0 hex_digits))"

fun read_hex :: "nat \<Rightarrow> string \<Rightarrow> nat option" where
  "read_hex a [] = Some a"
| "read_hex a (c # cs) = (case hex_value c of None \<Rightarrow> None | Some k \<Rightarrow> read_hex (16 * a + k) cs)"

definition uuid_text :: "uuid \<Rightarrow> string" where
  "uuid_text u =
     (let h = hex 32 (unat u)
      in take 8 h @ ''-'' @ take 4 (drop 8 h) @ ''-'' @ take 4 (drop 12 h) @ ''-''
         @ take 4 (drop 16 h) @ ''-'' @ drop 20 h)"

definition parse_uuid :: "string \<Rightarrow> string + uuid" where
  "parse_uuid s =
     (if length s = 36 \<and> s ! 8 = CHR ''-'' \<and> s ! 13 = CHR ''-'' \<and> s ! 18 = CHR ''-'' \<and> s ! 23 = CHR ''-'' then
        (case read_hex 0 (take 8 s @ take 4 (drop 9 s) @ take 4 (drop 14 s) @ take 4 (drop 19 s) @ drop 24 s) of
           None \<Rightarrow> Inl ''invalid UUID format'' | Some n \<Rightarrow> Inr (of_nat n))
      else Inl ''invalid UUID length'')"

lemma length_hex [simp]: "length (hex n u) = n"
  by (induction n arbitrary: u) simp_all

lemma hex_value_digit: "k < 16 \<Longrightarrow> hex_value (hex_digits ! k) = Some k"
proof -
  have "\<forall>k \<in> set [0..<16]. hex_value (hex_digits ! k) = Some k"
    by (simp add: hex_digits_def upt_rec)
  then show "k < 16 \<Longrightarrow> hex_value (hex_digits ! k) = Some k" by simp
qed

lemma read_hex_append: "read_hex a (xs @ ys) = (case read_hex a xs of None \<Rightarrow> None | Some b \<Rightarrow> read_hex b ys)"
  by (induction xs arbitrary: a) (auto split: option.splits)

lemma read_hex_hex: "u < 16 ^ n \<Longrightarrow> read_hex a (hex n u) = Some (a * 16 ^ n + u)"
proof (induction n arbitrary: u)
  case (Suc n)
  have "u div 16 < 16 ^ n" using Suc.prems by (simp add: less_mult_imp_div_less mult.commute)
  then have "read_hex a (hex n (u div 16)) = Some (a * 16 ^ n + u div 16)" by (rule Suc.IH)
  moreover have "hex_value (hex_digits ! (u mod 16)) = Some (u mod 16)" by (rule hex_value_digit) simp
  ultimately show ?case by (simp add: read_hex_append del: hex_value.simps)
qed simp

lemma parse_uuid_text: "parse_uuid (uuid_text u) = Inr u"
proof -
  define h where "h = hex 32 (unat u)"
  have len: "length h = 32" by (simp add: h_def)
  have "unat u < 16 ^ 32" using unsigned_less [of u] by simp
  then have rd: "read_hex 0 h = Some (unat u)" unfolding h_def by (simp add: read_hex_hex del: hex.simps)
  have t: "uuid_text u = take 8 h @ ''-'' @ take 4 (drop 8 h) @ ''-'' @ take 4 (drop 12 h) @ ''-''
         @ take 4 (drop 16 h) @ ''-'' @ drop 20 h"
    by (simp only: uuid_text_def h_def Let_def)
  have parts: "take 8 h @ take 4 (drop 8 h) @ take 4 (drop 12 h) @ take 4 (drop 16 h) @ drop 20 h = h"
    using append_take_drop_id [of 8 h] append_take_drop_id [of 4 "drop 8 h"]
      append_take_drop_id [of 4 "drop 12 h"] append_take_drop_id [of 4 "drop 16 h"]
    by simp
  show ?thesis
    unfolding parse_uuid_def t
    using len rd parts by (simp add: nth_append)
qed

end
