(* ===== verification/MemWorld.thy ===== *)
theory MemWorld
  imports OrderSystem AvroCodec
begin

text \<open>
  A world in memory that keeps every promise the order service relies on: a transactional
  store of tables, a clock, a source of identifiers, a product catalogue, a broker, and the
  codecs of AvroCodec. It interprets every locale of the service, so that the contracts are
  known to be satisfiable together, and the properties can be evaluated in it.
\<close>

subsection \<open>State\<close>

record mem =
  mem_tables :: tables
  mem_view :: "tables option"
  mem_clock :: time
  mem_uuids :: uuid
  mem_catalog :: "GetVariantsResponse_Variant list"
  mem_inbox :: "kafka_event list"
  mem_sent :: "kafka_message list"
  mem_acked :: "kafka_message list"

definition no_tables :: tables where
  "no_tables = (\<lambda>_. [])"

definition mem_start :: "GetVariantsResponse_Variant list \<Rightarrow> mem" where
  "mem_start catalog =
     \<lparr>mem_tables = no_tables, mem_view = None, mem_clock = 0, mem_uuids = 0, mem_catalog = catalog,
      mem_inbox = [], mem_sent = [], mem_acked = []\<rparr>"

definition micros :: "time \<Rightarrow> time" where
  \<comment> \<open>a time stamp column keeps microseconds\<close>
  "micros t = t - t mod 1000"

subsection \<open>The store\<close>

definition mem_begin :: "mem \<Rightarrow> mem \<times> sql_error option" where
  "mem_begin d = (if mem_view d = None then (d\<lparr>mem_view := Some (mem_tables d)\<rparr>, None) else (d, Some (SqlOther ''busy'')))"

definition mem_commit :: "mem \<Rightarrow> mem \<times> sql_error option" where
  "mem_commit d =
     (case mem_view d of
        None \<Rightarrow> (d, Some (SqlOther ''no transaction''))
      | Some t \<Rightarrow> (d\<lparr>mem_tables := t, mem_view := None\<rparr>, None))"

definition mem_rollback :: "mem \<Rightarrow> mem \<times> sql_error option" where
  "mem_rollback d = (d\<lparr>mem_view := None\<rparr>, if mem_view d = None then Some (SqlOther ''no transaction'') else None)"

abbreviation mem_of :: "driver \<Rightarrow> mem \<Rightarrow> tables option" where
  "mem_of \<equiv> tables_of mem_tables mem_view"

definition mem_put :: "driver \<Rightarrow> tables \<Rightarrow> mem \<Rightarrow> mem" where
  "mem_put drv t d = (case drv of BaseDriver \<Rightarrow> d\<lparr>mem_tables := t\<rparr> | TxDriver \<Rightarrow> d\<lparr>mem_view := Some t\<rparr>)"

text \<open>The two conditions on identifiers, in a form that computes.\<close>

lemma fresh_id_code [code]:
  "fresh_id cs t \<longleftrightarrow> (case cs_ID cs of None \<Rightarrow> True | Some i \<Rightarrow> \<forall>r \<in> set (t (cs_Table cs)). r FieldID \<noteq> VUUID i)"
  by (simp add: fresh_id_def split: option.splits)

lemma is_target_code [code]:
  "is_target us r \<longleftrightarrow> (case us_ID us of None \<Rightarrow> False | Some i \<Rightarrow> r FieldID = VUUID i)"
  by (simp add: is_target_def split: option.splits)

definition insertable :: "create_spec \<Rightarrow> tables \<Rightarrow> bool" where
  "insertable cs t \<longleftrightarrow> own_edges cs \<and> cs_ID cs \<noteq> None \<and> fresh_id cs t \<and> references_ok cs t"

definition mem_create :: "driver \<Rightarrow> create_spec \<Rightarrow> mem \<Rightarrow> mem \<times> sql_error option" where
  "mem_create drv cs d =
     (case mem_of drv d of
        None \<Rightarrow> (d, Some (SqlOther ''no transaction''))
      | Some t \<Rightarrow>
          if insertable cs t then (mem_put drv (insert_spec micros cs t) d, None)
          else (d, Some (SqlConstraint ''constraint'')))"

fun insert_all :: "create_spec list \<Rightarrow> tables \<Rightarrow> tables option" where
  "insert_all [] t = Some t"
| "insert_all (cs # css) t = (if insertable cs t then insert_all css (insert_spec micros cs t) else None)"

definition mem_batch :: "driver \<Rightarrow> create_spec list \<Rightarrow> mem \<Rightarrow> mem \<times> sql_error option" where
  "mem_batch drv css d =
     (case mem_of drv d of
        None \<Rightarrow> (d, Some (SqlOther ''no transaction''))
      | Some t \<Rightarrow>
          (case insert_all css t of
             None \<Rightarrow> (d, Some (SqlConstraint ''constraint''))
           | Some t' \<Rightarrow> (mem_put drv t' d, None)))"

definition mem_update :: "driver \<Rightarrow> update_spec \<Rightarrow> mem \<Rightarrow> mem \<times> (ent_error + scan_val list)" where
  "mem_update drv us d =
     (case mem_of drv d of
        None \<Rightarrow> (d, Inl (SqlError (SqlOther ''no transaction'')))
      | Some t \<Rightarrow>
          (case find (is_target us) (t (us_Table us)) of
             None \<Rightarrow> (d, Inl (NotFoundError (us_Table us)))
           | Some r \<Rightarrow>
               (case scan_row (us_ScanValues us) (us_Columns us) (update_row micros us r) of
                  None \<Rightarrow> (d, Inl (SqlError (SqlOther ''scan'')))
                | Some vs \<Rightarrow>
                    (case us_Assign us (us_Columns us) vs of
                       Some e \<Rightarrow> (d, Inl e)
                     | None \<Rightarrow> (mem_put drv (update_tables micros us t) d, Inr vs)))))"

definition mem_rows :: "query_spec \<Rightarrow> tables \<Rightarrow> row list" where
  "mem_rows qs t =
     (case qs_Order qs of
        OrderAsc c # _ \<Rightarrow> sort_key (\<lambda>r. time_of_cell (r c)) (selected micros qs t)
      | OrderDesc c # _ \<Rightarrow> sort_key (\<lambda>r. - time_of_cell (r c)) (selected micros qs t)
      | [] \<Rightarrow> selected micros qs t)"

definition mem_query :: "driver \<Rightarrow> query_spec \<Rightarrow> mem \<Rightarrow> mem \<times> (sql_error + scan_val list list)" where
  "mem_query drv qs d =
     (case mem_of drv d of
        None \<Rightarrow> (d, Inl (SqlOther ''no transaction''))
      | Some t \<Rightarrow>
          (case collect (map (scan_row (qs_ScanValues qs) (qs_Columns qs))
                     (page (qs_Limit qs) (qs_Offset qs) (mem_rows qs t))) of
             None \<Rightarrow> (d, Inl (SqlOther ''scan''))
           | Some vss \<Rightarrow> (d, Inr vss)))"

definition mem_count :: "driver \<Rightarrow> query_spec \<Rightarrow> mem \<Rightarrow> mem \<times> (sql_error + i64)" where
  "mem_count drv qs d =
     (case mem_of drv d of
        None \<Rightarrow> (d, Inl (SqlOther ''no transaction''))
      | Some t \<Rightarrow>
          if length (selected micros qs t) < 2 ^ 63 then (d, Inr (int_of_len (selected micros qs t)))
          else (d, Inl (SqlOther ''count'')))"

definition mem_uuid_New :: "mem \<Rightarrow> mem \<times> uuid" where
  "mem_uuid_New d = (d\<lparr>mem_uuids := mem_uuids d + 1\<rparr>, mem_uuids d + 1)"

definition mem_time_Now :: "mem \<Rightarrow> mem \<times> time" where
  "mem_time_Now d = (d\<lparr>mem_clock := mem_clock d + 1000\<rparr>, mem_clock d + 1000)"

subsection \<open>The other services\<close>

definition mem_rpc :: "string list \<Rightarrow> mem \<Rightarrow> mem \<times> (string + GetVariantsResponse_Variant list)" where
  "mem_rpc ids d = (d, Inr (filter (\<lambda>v. gv_Id v \<in> set ids) (mem_catalog d)))"

definition mem_produce :: "kafka_message \<Rightarrow> mem \<Rightarrow> mem \<times> (string + kafka_event)" where
  "mem_produce m d = (d\<lparr>mem_sent := mem_sent d @ [m]\<rparr>, Inr (EvMessage m))"

definition mem_poll :: "mem \<Rightarrow> mem \<times> kafka_event option" where
  "mem_poll d = (case mem_inbox d of [] \<Rightarrow> (d, None) | e # es \<Rightarrow> (d\<lparr>mem_inbox := es\<rparr>, Some e))"

definition mem_commit_message :: "kafka_message \<Rightarrow> mem \<Rightarrow> mem \<times> string option" where
  "mem_commit_message m d = (d\<lparr>mem_acked := mem_acked d @ [m]\<rparr>, None)"

definition avro_program :: "string \<Rightarrow> string \<Rightarrow> string + string" where
  "avro_program writer reader =
     (if writer = reader \<and> map_of event_schemas writer \<noteq> None then Inr writer else Inl ''incompatible schemas'')"

definition avro_eval :: "string \<Rightarrow> byte list \<Rightarrow> (nat \<times> avro_value) list \<times> string option" where
  "avro_eval schema bs =
     (case map_of event_schemas schema of
        None \<Rightarrow> ([], Some ''unknown program'') | Some sample \<Rightarrow> read_values 0 sample bs)"

definition mem_lib :: "mem svc_lib" where
  "mem_lib =
     \<lparr>sql_BeginTx = mem_begin, sql_Commit = mem_commit, sql_Rollback = mem_rollback,
      sqlgraph_CreateNode = mem_create, sqlgraph_BatchCreate = mem_batch, sqlgraph_UpdateNode = mem_update,
      sqlgraph_QueryNodes = mem_query, sqlgraph_CountNodes = mem_count, uuid_New = mem_uuid_New,
      time_Now = mem_time_Now, field_FloatMin = (\<lambda>lo x. \<not> f64_lt x lo), field_IntPositive = (\<lambda>k. 0 < sint k),
      field_StringNotEmpty = (\<lambda>s. s \<noteq> []),
      uuid_Parse = parse_uuid, uuid_String = uuid_text,
      timestamppb_New = (\<lambda>t. \<lparr>ts_Seconds = word_of_int (t div 1000000000), ts_Nanos = word_of_int (t mod 1000000000)\<rparr>),
      timestamp_AsTime = (\<lambda>t. sint (ts_Seconds t) * 1000000000 + sint (ts_Nanos t)),
      bytes_of_string = map byte_of_char,
      vm_WriteString = write_string, vm_WriteInt = (\<lambda>k. write_int (sint k)), vm_WriteLong = (\<lambda>k. write_int (sint k)),
      vm_WriteDouble = write_double, compiler_CompileSchemaBytes = avro_program, vm_Eval = avro_eval,
      VariantServiceClient_GetVariantsByIds = mem_rpc, kafka_Produce = mem_produce, kafka_Poll = mem_poll,
      kafka_CommitMessage = mem_commit_message, kafka_SubscribeTopics = (\<lambda>ts d. (d, None))\<rparr>"

lemma mem_lib_simps [simp]:
  "sql_BeginTx mem_lib = mem_begin" "sql_Commit mem_lib = mem_commit" "sql_Rollback mem_lib = mem_rollback"
  "sqlgraph_CreateNode mem_lib = mem_create" "sqlgraph_BatchCreate mem_lib = mem_batch"
  "sqlgraph_UpdateNode mem_lib = mem_update" "sqlgraph_QueryNodes mem_lib = mem_query"
  "sqlgraph_CountNodes mem_lib = mem_count" "uuid_New mem_lib = mem_uuid_New" "time_Now mem_lib = mem_time_Now"
  "field_FloatMin mem_lib = (\<lambda>lo x. \<not> f64_lt x lo)" "field_IntPositive mem_lib = (\<lambda>k. 0 < sint k)"
  "field_StringNotEmpty mem_lib = (\<lambda>s. s \<noteq> [])"
  "uuid_Parse mem_lib = parse_uuid" "uuid_String mem_lib = uuid_text"
  "bytes_of_string mem_lib = map byte_of_char" "vm_WriteString mem_lib = write_string"
  "vm_WriteInt mem_lib = (\<lambda>k. write_int (sint k))" "vm_WriteLong mem_lib = (\<lambda>k. write_int (sint k))"
  "vm_WriteDouble mem_lib = write_double" "compiler_CompileSchemaBytes mem_lib = avro_program"
  "vm_Eval mem_lib = avro_eval" "VariantServiceClient_GetVariantsByIds mem_lib = mem_rpc"
  "kafka_Produce mem_lib = mem_produce" "kafka_Poll mem_lib = mem_poll"
  "kafka_CommitMessage mem_lib = mem_commit_message" "kafka_SubscribeTopics mem_lib = (\<lambda>ts d. (d, None))"
  by (simp_all add: mem_lib_def)

subsection \<open>The store keeps its promises\<close>

lemma mem_put_frame: "mem_of drv d \<noteq> None \<Longrightarrow> drv_frame mem_tables mem_view drv d (mem_put drv t d)"
  by (simp add: drv_frame_def mem_put_def tables_of_def split: driver.splits)

lemma mem_put_tables [simp]: "mem_of drv (mem_put drv t d) = Some t"
  by (simp add: mem_put_def tables_of_def split: driver.splits)

lemma drv_frame_refl [simp]: "drv_frame mem_tables mem_view drv d d"
  by (simp add: drv_frame_def split: driver.splits)

lemma insert_all_Some:
  "insert_all css t = Some t' \<Longrightarrow> fresh_ids micros css t \<and> t' = fold (insert_spec micros) css t"
  by (induction css arbitrary: t) (auto simp: insertable_def split: if_splits)

lemma insert_all_ok:
  assumes "\<And>cs. cs \<in> set css \<Longrightarrow> own_edges cs \<and> cs_ID cs \<noteq> None \<and> (\<forall>e \<in> set (cs_Edges cs). \<forall>i \<in> set (es_Nodes e). VUUID i \<in> K)"
    and "fresh_ids micros css t" and "K \<subseteq> (\<lambda>r. r FieldID) ` set (t order_Table)"
  shows "insert_all css t \<noteq> None"
  using assms
proof (induction css arbitrary: t)
  case (Cons cs css)
  have "insertable cs t" using Cons.prems by (fastforce simp: insertable_def references_ok_def)
  moreover have "K \<subseteq> (\<lambda>r. r FieldID) ` set (insert_spec micros cs t order_Table)"
    using Cons.prems(3) by (auto simp: insert_spec_def)
  ultimately show ?case
    using Cons.IH [of "insert_spec micros cs t", OF Cons.prems(1)] Cons.prems(2) by simp
qed simp

lemma map_all_Some: "\<forall>x \<in> set xs. f x \<noteq> None \<Longrightarrow> \<exists>ys. map f xs = map Some ys"
proof (induction xs)
  case (Cons x xs)
  then obtain y ys where "f x = Some y" "map f xs = map Some ys" by auto
  then show ?case by (intro exI [of _ "y # ys"]) simp
qed simp

lemma mem_rows_answers:
  assumes "length (qs_Order qs) \<le> 1"
  shows "answers micros qs t (mem_rows qs t)"
proof (cases "qs_Order qs")
  case Nil
  then show ?thesis by (simp add: answers_def mem_rows_def)
next
  case (Cons ot ots)
  then have "ots = []" using assms by simp
  have srt: "sorted_wrt (\<lambda>x y. f x \<le> f y) (sort_key f xs)" for f :: "row \<Rightarrow> time" and xs
    using sorted_sort_key [of f xs] by (simp add: sorted_map)
  show ?thesis
    using srt [of "\<lambda>r. time_of_cell (r (term_column ot))"] srt [of "\<lambda>r. - time_of_cell (r (term_column ot))"]
    by (cases ot) (simp_all add: answers_def mem_rows_def Cons \<open>ots = []\<close> term_le_def [abs_def] term_column_def)
qed

lemma find_target: "find (is_target us) rs = None \<longleftrightarrow> (\<forall>r \<in> set rs. \<not> is_target us r)"
  by (auto simp: find_None_iff)

interpretation mem_fields: field_lib mem_lib
  by unfold_locales simp_all

interpretation mem_store: sql_engine mem_lib mem_tables mem_view micros
proof (unfold_locales, goal_cases)
  case (6 drv cs d d' r)
  then show ?case using mem_put_frame
    by (auto simp: mem_create_def split: option.splits if_splits)
next
  case (8 drv css d d' r)
  then show ?case using mem_put_frame
    by (auto simp: mem_batch_def split: option.splits)
next
  case (9 drv css d d' t)
  then show ?case
    by (auto simp: mem_batch_def split: option.splits dest: insert_all_Some)
next
  case (10 drv us d d' ru)
  then show ?case using mem_put_frame
    by (auto simp: mem_update_def split: option.splits)
next
  case (11 drv us d d' vs t)
  then show ?case
    by (auto simp: mem_update_def split: option.splits) (auto simp: find_Some_iff)
next
  case (12 drv us d d' ue)
  then show ?case by (auto simp: mem_update_def split: option.splits)
next
  case (14 drv qs d d' vss t)
  then show ?case
    using mem_rows_answers [of qs t]
    by (intro exI [of _ "mem_rows qs t"])
      (auto simp: mem_query_def simple_query_def collect_Some_iff split: option.splits)
qed (auto simp: mem_begin_def mem_commit_def mem_rollback_def mem_create_def mem_query_def mem_count_def
    mem_uuid_New_def mem_time_Now_def same_db_def insertable_def split: option.splits if_splits)

interpretation mem_store_up: sql_engine_up mem_lib mem_tables mem_view micros
proof (unfold_locales, goal_cases)
  case (4 drv d t css)
  have "insert_all css t \<noteq> None"
    using 4(2,3) by (intro insert_all_ok [where K = "(\<lambda>r. r FieldID) ` set (t order_Table)"])
      (auto simp: references_ok_def)
  then show ?case using 4(1) by (auto simp: mem_batch_def)
next
  case (5 drv d t us x vs)
  have "find (is_target us) (t (us_Table us)) = Some x"
  proof (cases "find (is_target us) (t (us_Table us))")
    case None
    then show ?thesis using 5(3,4) by (auto simp: find_target)
  next
    case (Some y)
    then have "y \<in> set (t (us_Table us))" "is_target us y" by (auto simp: find_Some_iff)
    from 5(5) [OF this] Some show ?thesis by simp
  qed
  then show ?case using 5(1,6,7) by (simp add: mem_update_def)
next
  case (6 drv d t qs)
  have "set (mem_rows qs t) \<subseteq> set (t (qs_Table qs))"
    by (auto simp: mem_rows_def selected_def split: list.splits order_term.splits)
  then have "\<forall>x \<in> set (page (qs_Limit qs) (qs_Offset qs) (mem_rows qs t)). scan_row (qs_ScanValues qs) (qs_Columns qs) x \<noteq> None"
    using 6(3) page_subset by (meson subsetD)
  then have "\<exists>vss. map (scan_row (qs_ScanValues qs) (qs_Columns qs)) (page (qs_Limit qs) (qs_Offset qs) (mem_rows qs t)) = map Some vss"
    by (rule map_all_Some)
  then show ?case using 6(1) by (auto simp: mem_query_def collect_Some_iff [THEN iffD2])
qed (auto simp: mem_begin_def mem_commit_def mem_create_def insertable_def)

subsection \<open>The codecs keep theirs\<close>

lemma same_type_read:
  assumes "same_type v t" and "\<And>bs. t \<noteq> ABytes bs" and "write_value mem_lib v w = Inr w'"
  shows "\<exists>bs. w' = w @ bs \<and> (\<forall>r. read_value t (bs @ r) = Some (v, r))"
proof (cases v)
  case (AString s)
  with assms(1) obtain s' where "t = AString s'" by (cases t) auto
  then show ?thesis using assms(3) AString read_string [of s w] by auto
next
  case (AInt k)
  with assms(1) obtain k' where "t = AInt k'" by (cases t) auto
  then show ?thesis using assms(3) AInt by (auto simp: write_int_def read_varint_varint unzigzag_zigzag)
next
  case (ALong k)
  with assms(1) obtain k' where "t = ALong k'" by (cases t) auto
  then show ?thesis using assms(3) ALong by (auto simp: write_int_def read_varint_varint unzigzag_zigzag)
next
  case (ADouble x)
  with assms(1) obtain x' where "t = ADouble x'" by (cases t) auto
  then show ?thesis using assms(3) ADouble read_double [of x w w'] by auto
next
  case (ABytes b)
  with assms(1,2) show ?thesis by (cases t) auto
qed

lemma read_values_written:
  assumes "list_all2 same_type vs sample" and "\<And>bs. ABytes bs \<notin> set sample"
    and "range_loop (write_value mem_lib) vs w = Inr w'"
  shows "\<exists>bs. w' = w @ bs \<and> (\<forall>i r. read_values i sample (bs @ r) = (enumerate i vs, None))"
  using assms
proof (induction arbitrary: w rule: list_all2_induct)
  case (Cons v vs t ts)
  from Cons.prems(2) obtain w1 where w1: "write_value mem_lib v w = Inr w1"
    "range_loop (write_value mem_lib) vs w1 = Inr w'" by (auto split: sum.splits)
  have "\<And>bs. t \<noteq> ABytes bs" using Cons.prems(1) by auto
  from same_type_read [OF Cons.hyps(1) this w1(1)] obtain b1 where
    b1: "w1 = w @ b1" "\<And>r. read_value t (b1 @ r) = Some (v, r)" by blast
  have "\<And>bs. ABytes bs \<notin> set ts" using Cons.prems(1) by auto
  from Cons.IH [OF this w1(2)] obtain b2 where
    b2: "w' = w1 @ b2" "\<And>i r. read_values i ts (b2 @ r) = (enumerate i vs, None)" by blast
  show ?case
    by (intro exI [of _ "b1 @ b2"]) (simp add: b1 b2)
qed simp

lemma schemas_distinct: "distinct (map fst event_schemas)"
  by code_simp

lemma schema_sample: "(schema, sample) \<in> set event_schemas \<Longrightarrow>
    map_of event_schemas schema = Some sample \<and> (\<forall>bs. ABytes bs \<notin> set sample)"
  using schemas_distinct by (intro conjI map_of_is_SomeI) (auto simp: event_schemas_def)

interpretation mem_avro: avro_lib mem_lib
proof
  fix schema
  assume "schema \<in> fst ` set event_schemas"
  then obtain sample where "(schema, sample) \<in> set event_schemas" by auto
  from schema_sample [OF this]
  show "\<exists>prog. compiler_CompileSchemaBytes mem_lib schema schema = Inr prog"
    by (simp add: avro_program_def)
next
  fix schema sample prog vs bs
  assume m: "(schema, sample) \<in> set event_schemas"
    and c: "compiler_CompileSchemaBytes mem_lib schema schema = Inr prog"
    and w: "list_all2 same_type vs sample" "range_loop (write_value mem_lib) vs [] = Inr bs"
  note s = schema_sample [OF m]
  have prog: "prog = schema" using c by (simp add: avro_program_def split: if_splits)
  have "\<exists>b. bs = [] @ b \<and> (\<forall>i r. read_values i sample (b @ r) = (enumerate i vs, None))"
    using s by (intro read_values_written [OF w(1) _ w(2)]) simp
  then have "read_values 0 sample bs = (enumerate 0 vs, None)" by (metis append_Nil append_Nil2)
  then show "vm_Eval mem_lib prog bs = (enumerate 0 vs, None)"
    using s by (simp add: prog avro_eval_def)
qed

interpretation mem_uuid: uuid_lib mem_lib
  by unfold_locales (simp add: parse_uuid_text)

subsection \<open>The whole service\<close>

abbreviation mem_db :: "mem \<Rightarrow> order_db \<Rightarrow> bool" where
  "mem_db \<equiv> quiet_db mem_tables mem_view"

lemma mem_db_other:
  "mem_tables d' = mem_tables d \<Longrightarrow> mem_view d' = mem_view d \<Longrightarrow> mem_db d A \<Longrightarrow> mem_db d' A"
  by (rule quiet_db_same) (simp_all add: same_db_def)

interpretation mem_platform: order_platform mem_lib mem_tables mem_view micros
  by unfold_locales

interpretation mem_rpc: variant_rpc mem_lib mem_db
  by unfold_locales (simp add: mem_rpc_def)

interpretation mem_broker: broker mem_lib mem_db mem_sent mem_acked
  by unfold_locales
    (auto simp: mem_produce_def mem_poll_def mem_commit_message_def intro: mem_db_other split: list.splits)

lemma mem_put_logs [simp]: "mem_sent (mem_put drv t d) = mem_sent d" "mem_acked (mem_put drv t d) = mem_acked d"
  by (simp_all add: mem_put_def split: driver.splits)

interpretation mem_frame: database_frame mem_lib "\<lambda>d. (mem_sent d, mem_acked d)"
  by unfold_locales
    (auto simp: mem_begin_def mem_commit_def mem_rollback_def mem_create_def mem_batch_def mem_update_def
      mem_query_def mem_count_def mem_uuid_New_def mem_time_Now_def split: option.splits if_splits)

interpretation mem_world: order_system mem_lib mem_tables mem_view micros mem_sent mem_acked
  by unfold_locales (auto simp: mem_rpc_def)

text \<open>So the repository, the use cases and the workers keep their contracts in this world.\<close>

interpretation mem_repo: order_repo mem_lib "NewOrderRepo mem_lib" mem_db micros
  by unfold_locales

interpretation mem_catalog: variant_catalog "catalogClient mem_lib" mem_db
  by unfold_locales

interpretation mem_service: order_service mem_lib "NewOrderRepo mem_lib" mem_db micros "catalogClient mem_lib"
  by unfold_locales

interpretation mem_workers: order_workers mem_lib "NewOrderRepo mem_lib" mem_db micros "catalogClient mem_lib" mem_sent mem_acked
  by unfold_locales

text \<open>It starts with an empty database.\<close>

definition empty_db :: order_db where
  "empty_db = \<lparr>db_orders = [], db_items = [], db_outbox = []\<rparr>"

lemma represents_empty: "represents no_tables empty_db"
  by (simp add: represents_def no_tables_def empty_db_def db_keys_def)

lemma mem_start_empty: "mem_db (mem_start catalog) empty_db"
  by (simp add: quiet_db_def db_state_def tables_of_def mem_start_def represents_empty)

lemma saga_inv_empty: "saga_inv L empty_db"
  by (simp add: saga_inv_def empty_db_def db_keys_def)

lemma mem_start_good: "good_start mem_lib mem_tables mem_view mem_sent (mem_start catalog) empty_db"
  using mem_start_empty saga_inv_empty by (simp add: good_start_def) (simp add: delivered_def empty_db_def)

subsection \<open>A first order\<close>

definition demo_variant :: GetVariantsResponse_Variant where
  "demo_variant =
     \<lparr>gv_Id = uuid_text 7, gv_Sku = ''red'', gv_Price = f64_of_int 12, gv_SalePrice = f64_of_int 10,
      gv_Stock = 5, gv_MediaUrl = ''img'', gv_ProductId = uuid_text 9, gv_ProductName = ''shirt''\<rparr>"

definition demo_item :: OrderItemRequest where
  "demo_item = \<lparr>oir_VariantId = uuid_text 7, oir_Quantity = 2, oir_UnitPrice = f64_of_int 10\<rparr>"

definition demo_request :: CreateOrderRequest where
  "demo_request =
     \<lparr>cor_CustomerId = uuid_text 3, cor_Items = [demo_item], cor_ShippingAddress = ''street'',
      cor_BillingAddress = ''street''\<rparr>"

definition demo_start :: mem where
  "demo_start = mem_start [demo_variant]"

definition demo_placed :: mem where
  \<comment> \<open>the world after the request\<close>
  "demo_placed = fst (OrderUsecase_CreateOrder mem_lib (order_usecase mem_lib) demo_request demo_start)"

definition demo_response :: "go_error + CreateOrderResponse" where
  "demo_response = snd (OrderUsecase_CreateOrder mem_lib (order_usecase mem_lib) demo_request demo_start)"

lemma demo_run:
  "OrderUsecase_CreateOrder mem_lib (order_usecase mem_lib) demo_request demo_start = (demo_placed, demo_response)"
  by (simp add: demo_placed_def demo_response_def)

lemma demo_good: "good_start mem_lib mem_tables mem_view mem_sent demo_start empty_db"
  by (simp add: demo_start_def mem_start_good)

lemma demo_db: "mem_db demo_start empty_db"
  by (simp add: demo_start_def mem_start_empty)

lemma demo_steps:
  "system_steps mem_lib (order_usecase mem_lib) (order_dispatcher mem_lib 5000000000 20)
     (demo_start, Idle) (demo_placed, Idle)"
  using demo_run by (intro r_into_rtranclp system_step.rpc_create) (simp add: OrderService_CreateOrder_def)

lemma demo_system: "order_system mem_lib mem_tables mem_view micros mem_sent mem_acked"
  by (rule mem_world.order_system_axioms)

lemma demo_service: "order_service mem_lib (NewOrderRepo mem_lib) mem_db micros (catalogClient mem_lib)"
  by (rule mem_world.is_service)

end
