(* ===== verification/Demo.thy ===== *)
theory Demo
  imports MemWorld
begin

text \<open>
  The first order of the in-memory world, evaluated by the simplifier stage by stage: pricing, the
  three inserts of the transaction, the commit and the read that answers the request. So the
  contracts are not only kept by failing: the request succeeds and stores an order, its line and
  its event.
\<close>

subsection \<open>Pricing\<close>


lemma f64_10: "f64_of_int 10 = FFin False 5629499534213120 (- 49)"
  by (simp add: f64_of_int_def round64_def round_sig_def round_exp_def compute_floorlog pack64_def Let_def)

lemma f64_eq_10: "f64_eq (f64_of_int 10) (f64_of_int 10)" by (simp add: f64_10 Let_def)

definition demo_line where
  "demo_line = \<lparr>coi_ProductID = 9, coi_VariantID = 7, coi_ProductName = ''shirt'', coi_VariantDescription = ''red'',
   coi_UnitPrice = f64_of_int 10, coi_Quantity = 2, coi_TotalPrice = f64_of_int 20, coi_ImageURL = ''img''\<rparr>"

definition demo_priced_item where
  "demo_priced_item = \<lparr>av_Variant_id = uuid_text 7, av_Quantity = 2, av_Unit_price = f64_of_int 10\<rparr>"

lemma sint_2: "sint (2::i32) = 2" by simp

lemma demo_priced_line: "priced_line mem_lib (variantMap [variantInfo demo_variant]) demo_item = Inr (demo_line, demo_priced_item)"
  by (simp add: priced_line_def variantMap_def variantInfo_def demo_variant_def demo_item_def parse_uuid_text demo_line_def demo_priced_item_def
     f64_of_i32_def f64_mul_of_int int_of_i32_def f64_eq_10)

definition demo_command where
  "demo_command = priced_order demo_request 3 [(demo_line, demo_priced_item)]"

lemma demo_priced_command: "CreateOrder_command mem_lib demo_request 3 [variantInfo demo_variant] = Inr demo_command"
  by (simp add: CreateOrder_command_priced demo_request_def demo_priced_line demo_command_def)

subsection \<open>The transaction\<close>

lemma demo_subtotal: "coc_ComputedSubtotal demo_command = f64_of_int 20"
  using f64_add_of_int [of 0 20] by (simp add: demo_command_def priced_order_def subtotal_from_def demo_line_def f64_zero_int Let_def)

lemma demo_nonneg: "\<not> f64_lt (coc_ComputedSubtotal demo_command) f64_zero" "\<not> f64_lt (coc_ComputedTax demo_command) f64_zero" "\<not> f64_lt (coc_ComputedTotal demo_command) f64_zero"
  using f64_nonneg_not_lt demo_subtotal by (simp_all add: demo_command_def priced_order_def Let_def f64_add_nonneg f64_mul_tenth_nonneg)

lemma demo_valid: "\<not> f64_lt f64_zero f64_zero" "StatusValidator StatusCreated"
  by (simp_all add: f64_zero_def StatusValidator_def OrderStatusValues_def Let_def)

definition demo_order_spec where
  "demo_order_spec = \<lparr>cs_Table = ''orders'', cs_ID = Some 1,
                 cs_Fields = [(FieldCreatedAt, VTime 1000), (FieldUpdatedAt, VTime 2000),
                    (order_FieldCustomerID, VUUID (coc_CustomerID demo_command)),
                    (order_FieldStatus, VStatus StatusCreated),
                    (order_FieldSubtotal, VFloat (coc_ComputedSubtotal demo_command)),
                    (order_FieldTax, VFloat (coc_ComputedTax demo_command)),
                    (order_FieldShippingCost, VFloat f64_zero),
                    (order_FieldTotal, VFloat (coc_ComputedTotal demo_command)),
                    (order_FieldShippingAddress, VString (coc_ShippingAddress demo_command)),
                    (order_FieldBillingAddress, VString (coc_BillingAddress demo_command))],
                 cs_Edges = []\<rparr>"

definition demo_order where
  "demo_order = \<lparr>o_ID = 1, o_CreatedAt = 1000, o_UpdatedAt = 2000,
             o_CustomerID = coc_CustomerID demo_command, o_Status = StatusCreated,
             o_Subtotal = coc_ComputedSubtotal demo_command,
             o_Tax = coc_ComputedTax demo_command, o_ShippingCost = f64_zero,
             o_Total = coc_ComputedTotal demo_command,
             o_ShippingAddress = coc_ShippingAddress demo_command,
             o_BillingAddress = coc_BillingAddress demo_command,
             o_ErrorMessage = [], o_Items = [],
             o_loadedItems = False\<rparr>"

definition demo_tx where
  "demo_tx t c u = demo_start\<lparr>mem_view := Some t, mem_clock := c, mem_uuids := u\<rparr>"

definition demo_order_row where
  "demo_order_row = spec_row micros demo_order_spec"

definition demo_tables1 where
  "demo_tables1 = no_tables(''orders'' := [demo_order_row])"

lemma demo_save_order: "OrderCreate_Save mem_lib (orderCreate TxDriver demo_command) (demo_tx no_tables 0 0) = (demo_tx demo_tables1 2000 1, Inr demo_order)"
  by (simp add: OrderCreate_Save_def OrderCreate_defaults_def OrderCreate_constants_def orderCreate_def ent_defs newOrderMutation_def
     mem_time_Now_def mem_uuid_New_def OrderCreate_sqlSave_def OrderCreate_check_def Let_def demo_nonneg demo_valid
     OrderCreate_createSpec_def mem_create_def tables_of_def insertable_def own_edges_def fresh_id_def references_ok_def no_tables_def
     demo_start_def mem_start_def mem_put_def spec_field_def demo_tx_def demo_tables1_def demo_order_def insert_spec_def demo_order_row_def demo_order_spec_def zero_Order_def cong: if_cong)

lemma demo_order_row_id: "demo_order_row FieldID = VUUID 1" by (simp add: demo_order_row_def spec_row_def spec_cells_def demo_order_spec_def)

lemma demo_prices_nonneg: "\<not> f64_lt (f64_of_int 10) f64_zero" "\<not> f64_lt (f64_of_int 20) f64_zero"
  by (rule f64_nonneg_not_lt, simp)+

definition demo_item_spec where
  "demo_item_spec = \<lparr>cs_Table = ''order_items'', cs_ID = Some 2,
                  cs_Fields = [(FieldCreatedAt, VTime 3000), (FieldUpdatedAt, VTime 4000),
                      (orderitem_FieldProductID, VUUID 9), (orderitem_FieldVariantID, VUUID 7),
                      (orderitem_FieldProductName, VString ''shirt''),
                      (orderitem_FieldVariantDescription, VString ''red''),
                      (orderitem_FieldUnitPrice, VFloat (f64_of_int 10)),
                      (orderitem_FieldQuantity, VInt 2),
                      (orderitem_FieldTotalPrice, VFloat (f64_of_int 20)),
                      (orderitem_FieldImageURL, VString ''img'')],
                   cs_Edges = [\<lparr>es_Rel = M2O, es_Inverse = True, es_Table = orderitem_OrderColumn,
                         es_Columns = [orderitem_OrderColumn], es_Nodes = [1]\<rparr>]\<rparr>"

definition demo_item_row where
  "demo_item_row = spec_row micros demo_item_spec"

definition demo_tables2 where
  "demo_tables2 = demo_tables1(''order_items'' := [demo_item_row])"

lemma demo_save_items: "createItems mem_lib TxDriver (map (itemCreate TxDriver demo_order) [demo_line]) (demo_tx demo_tables1 2000 1) = (demo_tx demo_tables2 4000 2, None)"
  by (simp add: createItems_def OrderItemCreateBulk_Save_def OrderItemCreate_defaults_def itemCreate_def ent_defs newOrderItemMutation_def
     mem_time_Now_def mem_uuid_New_def OrderItemCreate_check_def Let_def demo_nonneg demo_valid demo_line_def demo_order_def demo_prices_nonneg
     OrderItemCreate_createSpec_def mem_batch_def tables_of_def insertable_def own_edges_def fresh_id_def references_ok_def demo_tables1_def no_tables_def
     demo_start_def mem_start_def mem_put_def spec_field_def demo_tx_def demo_order_row_id insert_spec_def demo_item_spec_def demo_item_row_def demo_tables2_def cong: if_cong)

lemma demo_total_ok: "f64_ok (coc_ComputedTotal demo_command)" by (simp add: demo_command_def priced_order_def Let_def)

lemma demo_serialized: "\<exists>bs. OrderCreatedEvent_Serialize mem_lib (orderCreatedEvent mem_lib demo_order demo_command) [] = Inr bs"
  using demo_total_ok by (simp add: OrderCreatedEvent_Serialize_def writeOrderCreatedEvent_def orderCreatedEvent_def writeArrayItem_def writeItem_def
     write_string_def write_int_def write_double_def demo_command_def priced_order_def Let_def demo_priced_item_def)

definition demo_event_row where
  "demo_event_row bs = spec_row micros \<lparr>cs_Table = ''outbox_events'', cs_ID = Some 3,
     cs_Fields = [(FieldCreatedAt, VTime 5000), (FieldUpdatedAt, VTime 6000),
       (outboxevent_FieldAggregateType, VString ''order''), (outboxevent_FieldAggregateID, VUUID 1),
       (outboxevent_FieldEventType, VString ''order.created''), (outboxevent_FieldPayload, VBytes bs),
       (outboxevent_FieldProcessed, VBool False)], cs_Edges = []\<rparr>"

definition demo_tables where
  "demo_tables bs = demo_tables2(''outbox_events'' := [demo_event_row bs])"

lemma demo_save_event: "\<exists>ev. OutboxEventCreate_Save mem_lib (outboxCreate TxDriver demo_order bs) (demo_tx demo_tables2 4000 2) = (demo_tx (demo_tables bs) 6000 3, Inr ev)"
  by (simp add: OutboxEventCreate_Save_def OutboxEventCreate_defaults_def OutboxEventCreate_constants_def outboxCreate_def ent_defs newOutboxEventMutation_def
     mem_time_Now_def mem_uuid_New_def OutboxEventCreate_sqlSave_def OutboxEventCreate_check_def Let_def demo_nonneg demo_valid outboxevent_DefaultProcessed_def
     OutboxEventCreate_createSpec_def mem_create_def tables_of_def insertable_def own_edges_def fresh_id_def references_ok_def demo_tables2_def demo_tables1_def no_tables_def
     demo_start_def mem_start_def mem_put_def spec_field_def demo_tx_def demo_order_def insert_spec_def demo_tables_def demo_event_row_def cong: if_cong)

definition demo_world where
  "demo_world bs = demo_start\<lparr>mem_tables := demo_tables bs, mem_clock := 6000, mem_uuids := 3\<rparr>"

lemma demo_commit: "Tx_Commit mem_lib (demo_tx (demo_tables bs) 6000 3) = (demo_world bs, None)"
  by (simp add: Tx_Commit_def mem_commit_def demo_tx_def demo_world_def demo_start_def mem_start_def)

lemma demo_order_cells:
  "demo_order_row FieldID = VUUID 1" "demo_order_row FieldCreatedAt = VTime 1000" "demo_order_row FieldUpdatedAt = VTime 2000"
  "demo_order_row order_FieldCustomerID = VUUID (coc_CustomerID demo_command)" "demo_order_row order_FieldStatus = VString StatusCreated"
  "demo_order_row order_FieldSubtotal = VFloat (coc_ComputedSubtotal demo_command)" "demo_order_row order_FieldTax = VFloat (coc_ComputedTax demo_command)"
  "demo_order_row order_FieldShippingCost = VFloat f64_zero" "demo_order_row order_FieldTotal = VFloat (coc_ComputedTotal demo_command)"
  "demo_order_row order_FieldShippingAddress = VString (coc_ShippingAddress demo_command)"
  "demo_order_row order_FieldBillingAddress = VString (coc_BillingAddress demo_command)" "demo_order_row order_FieldErrorMessage = VNull"
  by (simp_all add: demo_order_row_def spec_row_def spec_cells_def demo_order_spec_def micros_def)

subsection \<open>Reading it back\<close>

definition demo_query where
  "demo_query = OrderQuery_Limit 2 (OrderQuery_WithItems (OrderQuery_Where [order_IDEQ 1] (OrderClient_Query BaseDriver)))"

lemma demo_query_spec: "qs_Columns (OrderQuery_querySpec demo_query) = order_Columns" "qs_Predicates (OrderQuery_querySpec demo_query) = [FieldEQ FieldID (VUUID 1)]"
  "qs_Table (OrderQuery_querySpec demo_query) = ''orders''" "qs_Limit (OrderQuery_querySpec demo_query) = 2" "qs_Offset (OrderQuery_querySpec demo_query) = 0"
  "qs_Order (OrderQuery_querySpec demo_query) = []" "qs_ScanValues (OrderQuery_querySpec demo_query) = Order_scanValues" "oq_driver demo_query = BaseDriver"
  "oq_order demo_query = []" "oq_withItems demo_query = Some (OrderItemClient_Query BaseDriver)" "OrderQuery_prepareQuery demo_query = Inr ()"
  by (simp_all add: demo_query_def OrderQuery_WithItems_def OrderQuery_Where_def OrderQuery_Limit_def OrderClient_Query_def order_IDEQ_def OrderQuery_querySpec_def order_Table_def
    OrderQuery_prepareQuery_def)

lemma demo_tables_rows: "demo_tables bs ''orders'' = [demo_order_row]" "demo_tables bs ''order_items'' = [demo_item_row]" by (simp_all add: demo_tables_def demo_tables2_def demo_tables1_def)

definition demo_values where
  "demo_values = map (\<lambda>(d,c). the (scan_cell d (demo_order_row c))) (zip (Order_scanValues order_Columns) order_Columns)"

lemma demo_scan: "scan_row Order_scanValues order_Columns demo_order_row = Some demo_values"
  by (simp add: scan_row_def Order_scanValues_def order_Columns_def demo_order_cells demo_values_def)

lemma demo_query_nodes: "mem_query BaseDriver (OrderQuery_querySpec demo_query) (demo_world bs) = (demo_world bs, Inr [demo_values])"
  by (simp add: mem_query_def tables_of_def mem_rows_def selected_def page_def demo_query_spec demo_tables_rows demo_world_def demo_order_cells demo_scan)

definition demo_order_loaded where
  "demo_order_loaded = demo_order\<lparr>o_loadedItems := True\<rparr>"

lemma demo_assign: "Order_assignValues order_Columns demo_values (zero_Order\<lparr>o_loadedItems := True\<rparr>) = Inr demo_order_loaded"
  by (simp add: Order_assignValues_def demo_values_def Order_scanValues_def order_Columns_def demo_order_cells Order_assign_def demo_order_loaded_def demo_order_def zero_Order_def)

lemma demo_item_cells:
  "demo_item_row FieldID = VUUID 2" "demo_item_row FieldCreatedAt = VTime 3000" "demo_item_row FieldUpdatedAt = VTime 4000"
  "demo_item_row orderitem_FieldProductID = VUUID 9" "demo_item_row orderitem_FieldVariantID = VUUID 7"
  "demo_item_row orderitem_FieldProductName = VString ''shirt''" "demo_item_row orderitem_FieldVariantDescription = VString ''red''"
  "demo_item_row orderitem_FieldUnitPrice = VFloat (f64_of_int 10)" "demo_item_row orderitem_FieldQuantity = VInt 2"
  "demo_item_row orderitem_FieldTotalPrice = VFloat (f64_of_int 20)" "demo_item_row orderitem_FieldImageURL = VString ''img''"
  "demo_item_row orderitem_OrderColumn = VUUID 1"
  by (simp_all add: demo_item_row_def spec_row_def spec_cells_def demo_item_spec_def micros_def edge_cells_def)

definition demo_stored_item where
  "demo_stored_item = \<lparr>oi_ID = 2, oi_CreatedAt = 3000, oi_UpdatedAt = 4000, oi_ProductID = 9, oi_VariantID = 7,
  oi_ProductName = ''shirt'', oi_VariantDescription = ''red'', oi_UnitPrice = f64_of_int 10, oi_Quantity = 2, oi_TotalPrice = f64_of_int 20,
  oi_ImageURL = ''img'', oi_order_items = Some 1\<rparr>"

lemma demo_load_items: "OrderQuery_loadItems mem_lib (OrderItemClient_Query BaseDriver) [demo_order_loaded] (demo_world bs) = (demo_world bs, Inr [demo_order_loaded\<lparr>o_Items := [demo_stored_item]\<rparr>])"
 by (simp add: OrderQuery_loadItems_def Let_def OrderItemQuery_All_def OrderItemQuery_prepareQuery_def OrderItemQuery_sqlAll_def
    OrderQuery_assignItem_def OrderQuery_nodeids_def zero_OrderItem_def demo_stored_item_def OrderItemQuery_Where_def OrderItemClient_Query_def OrderItemQuery_querySpec_def OrderItemQuery_allSpec_def order_terms_check_def
    orderitem_Columns_def orderitem_ForeignKeys_def OrderItem_scanValues_def OrderItem_assignValues_def OrderItem_assign_def
    mem_query_def tables_of_def mem_rows_def selected_def page_def demo_tables_rows demo_world_def demo_item_cells scan_row_def demo_order_loaded_def demo_order_def
    orderitem_Table_def)


definition demo_read where
  "demo_read = demo_order_loaded\<lparr>o_Items := [demo_stored_item]\<rparr>"

lemma demo_query_eq: "demo_query = OrderQuery_Limit 2 (OrderQuery_WithItems (OrderQuery_Where [order_IDEQ (o_ID demo_order)] (OrderClient_Query BaseDriver)))"
  by (simp add: demo_query_def demo_order_def)

lemma demo_query_all: "OrderQuery_All mem_lib demo_query (demo_world bs) = (demo_world bs, Inr [demo_read])"
  by (simp add: OrderQuery_All_def OrderQuery_sqlAll_def demo_query_spec demo_query_nodes demo_assign demo_load_items order_terms_check_def demo_read_def)

lemma demo_get: "OrderRepo_Get mem_lib (o_ID demo_order) (demo_world bs) = (demo_world bs, Inr demo_read)"
  by (simp add: OrderRepo_Get_def OrderQuery_Only_def demo_query_eq [symmetric] demo_query_all ent_result_def)

subsection \<open>The request\<close>

lemma demo_begin: "Client_Tx mem_lib BaseDriver demo_start = (demo_tx no_tables 0 0, Inr TxDriver)"
  by (simp add: Client_Tx_def mem_begin_def demo_tx_def demo_start_def mem_start_def)

lemma demo_command_items: "coc_Items demo_command = [demo_line]" by (simp add: demo_command_def priced_order_def Let_def)

lemma demo_create: "\<exists>bs. OrderRepo_Create mem_lib demo_command demo_start = (demo_world bs, Inr demo_read)"
proof -
  obtain bs where bs: "OrderCreatedEvent_Serialize mem_lib (orderCreatedEvent mem_lib demo_order demo_command) [] = Inr bs" using demo_serialized ..
  obtain ev where ev: "OutboxEventCreate_Save mem_lib (outboxCreate TxDriver demo_order bs) (demo_tx demo_tables2 4000 2) = (demo_tx (demo_tables bs) 6000 3, Inr ev)"
    using demo_save_event ..
  have "OrderRepo_Create mem_lib demo_command demo_start = (demo_world bs, Inr demo_read)"
    using demo_save_items by (simp add: OrderRepo_Create_def demo_begin demo_save_order demo_command_items bs ev demo_commit demo_get Let_def)
  then show ?thesis ..
qed

lemma demo_catalog: "VariantCatalog_GetVariantsByIDs mem_lib [uuid_text 7] demo_start = (demo_start, Inr [variantInfo demo_variant])"
  by (simp add: VariantCatalog_GetVariantsByIDs_def mem_rpc_def demo_start_def mem_start_def demo_variant_def)

lemma demo_created_ex: "\<exists>bs. OrderUsecase_CreateOrder mem_lib (order_usecase mem_lib) demo_request demo_start
   = (demo_world bs, Inr (created_response mem_lib demo_read))"
proof -
  obtain bs where bs: "OrderRepo_Create mem_lib demo_command demo_start = (demo_world bs, Inr demo_read)" using demo_create ..
  have req: "uuid_Parse mem_lib (cor_CustomerId demo_request) = Inr 3" "cor_Items demo_request = [demo_item]"
    "oir_VariantId demo_item = uuid_text 7"
    by (simp_all add: demo_request_def demo_item_def parse_uuid_text)
  have demo_tx: "toProtoOrderStatus (o_Status demo_read) = pb_CREATED"
    by (simp add: demo_read_def demo_order_loaded_def demo_order_def toProtoOrderStatus_def)
  show ?thesis
    by (intro exI [of _ bs])
      (simp add: OrderUsecase_CreateOrder_def order_usecase_def NewOrderUsecase_def catalogClient_def req demo_catalog demo_priced_command
        NewOrderRepo_def bs created_response_def demo_tx del: mem_lib_simps)
qed

lemma demo_outcome: "(\<exists>bs. demo_placed = demo_world bs) \<and> demo_response = Inr (created_response mem_lib demo_read)"
  using demo_created_ex demo_run by auto

lemma demo_succeeds: "demo_response = Inr (created_response mem_lib demo_read)"
  using demo_outcome by blast

lemma demo_run_Inr:
  "OrderUsecase_CreateOrder mem_lib (order_usecase mem_lib) demo_request demo_start
     = (demo_placed, Inr (created_response mem_lib demo_read))"
  using demo_run demo_succeeds by simp

lemma demo_read_id [simp]: "o_ID demo_read = 1"
  by (simp add: demo_read_def demo_order_loaded_def demo_order_def)

lemma demo_get_placed: "OrderRepo_Get mem_lib 1 demo_placed = (demo_placed, Inr demo_read)"
proof -
  obtain bs where "demo_placed = demo_world bs" using demo_outcome by blast
  then show ?thesis using demo_get [of bs] by (simp only:) (simp add: demo_order_def)
qed

lemma demo_placed_db:
  "\<exists>A. mem_db demo_placed A \<and> saga_inv mem_lib A \<and> status_of A 1 = Some StatusCreated \<and> length (db_outbox A) = 1
     \<and> length (db_orders A) = 1 \<and> (\<forall>ev \<in> set (db_outbox A). \<not> ob_Processed ev)"
proof -
  note o = order_service.CreateOrder_outcome [OF demo_service demo_run_Inr [unfolded order_usecase_def] demo_db]
  then obtain variants cmd n items ev where pl: "order_placed mem_lib cmd empty_db n items ev"
    and A1: "mem_db demo_placed (add_order empty_db n items ev)"
    and id: "created_response mem_lib demo_read = created_response mem_lib n"
    and rp: "request_priced mem_lib demo_request variants cmd" by auto
  have n: "o_ID n = 1"
    using id mem_uuid.uuid_String_inj [of 1 "o_ID n"] by (simp add: created_response_def)
  have "saga_inv mem_lib (add_order empty_db n items ev)"
    using A1 by (intro saga_inv_placed [OF saga_inv_empty pl request_priced_command [OF rp]])
      (auto simp: quiet_db_def db_state_def represents_def)
  moreover have "status_of (add_order empty_db n items ev) 1 = Some StatusCreated"
    using pl n by (simp add: status_of_def add_order_def empty_db_def order_placed_def order_row_placed_def)
  moreover have "length (db_outbox (add_order empty_db n items ev)) = 1"
    "length (db_orders (add_order empty_db n items ev)) = 1"
    by (simp_all add: add_order_def empty_db_def)
  moreover have "\<forall>e \<in> set (db_outbox (add_order empty_db n items ev)). \<not> ob_Processed e"
    using pl by (simp add: add_order_def empty_db_def order_placed_def event_placed_def)
  ultimately show ?thesis using A1 by blast
qed

lemma demo_client_get: "OrderClient_Get mem_lib BaseDriver 1 (demo_world bs) = (demo_world bs, Inr demo_order)"
proof -
  let ?q = "OrderQuery_Limit 2 (OrderQuery_Where [order_ID 1] (OrderClient_Query BaseDriver))"
  have spec: "qs_Columns (OrderQuery_querySpec ?q) = order_Columns" "qs_Predicates (OrderQuery_querySpec ?q) = [FieldEQ FieldID (VUUID 1)]"
    "qs_Table (OrderQuery_querySpec ?q) = ''orders''" "qs_Limit (OrderQuery_querySpec ?q) = 2" "qs_Offset (OrderQuery_querySpec ?q) = 0"
    "qs_Order (OrderQuery_querySpec ?q) = []" "qs_ScanValues (OrderQuery_querySpec ?q) = Order_scanValues" "oq_driver ?q = BaseDriver"
    "oq_order ?q = []" "oq_withItems ?q = None" "OrderQuery_prepareQuery ?q = Inr ()"
    by (simp_all add: OrderQuery_Where_def OrderQuery_Limit_def OrderClient_Query_def order_ID_def OrderQuery_querySpec_def
      order_Table_def OrderQuery_prepareQuery_def)
  have nodes: "mem_query BaseDriver (OrderQuery_querySpec ?q) (demo_world bs) = (demo_world bs, Inr [demo_values])"
    by (simp add: mem_query_def tables_of_def mem_rows_def selected_def page_def spec demo_tables_rows demo_world_def
      demo_order_cells demo_scan)
  have "Order_assignValues order_Columns demo_values (zero_Order\<lparr>o_loadedItems := False\<rparr>) = Inr demo_order"
    by (simp add: Order_assignValues_def demo_values_def Order_scanValues_def order_Columns_def demo_order_cells
      Order_assign_def demo_order_def zero_Order_def)
  then have "OrderQuery_All mem_lib ?q (demo_world bs) = (demo_world bs, Inr [demo_order])"
    by (simp add: OrderQuery_All_def OrderQuery_sqlAll_def spec nodes order_terms_check_def)
  then show ?thesis by (simp add: OrderClient_Get_def OrderQuery_Only_def)
qed

text \<open>A status update that does not expect \<open>CREATED\<close> finds nothing to do and reports no error.\<close>

lemma demo_update_dropped:
  assumes "st \<noteq> StatusCreated" "expected \<noteq> StatusCreated"
  shows "OrderRepo_UpdateStatus mem_lib 1 st msg expected demo_placed = (demo_placed, None)"
proof -
  obtain bs where bs: "demo_placed = demo_world bs" using demo_outcome by blast
  have "o_Status demo_order = StatusCreated" by (simp add: demo_order_def)
  then show ?thesis using assms by (simp add: OrderRepo_UpdateStatus_def bs demo_client_get)
qed

end
