(* ===== verification/DemoEvents.thy ===== *)
theory DemoEvents
  imports Demo
begin

text \<open>
  Events for the order of the in-memory world, evaluated: the stock of the placed order is
  reserved, its payment arrives in time or too early.
\<close>

subsection \<open>The order with a status\<close>

definition row_at :: "status \<Rightarrow> time \<Rightarrow> row" where
  "row_at st ua = demo_order_row(order_FieldStatus := VString st, FieldUpdatedAt := VTime ua)"

definition demo_at :: "byte list \<Rightarrow> status \<Rightarrow> time \<Rightarrow> time \<Rightarrow> kafka_message list \<Rightarrow> mem" where
  "demo_at bs st ua c ms = demo_start\<lparr>mem_tables := (demo_tables bs)(''orders'' := [row_at st ua]), mem_clock := c,
     mem_uuids := 3, mem_acked := ms\<rparr>"

definition order_at :: "status \<Rightarrow> time \<Rightarrow> Order" where
  "order_at st ua = demo_order\<lparr>o_Status := st, o_UpdatedAt := ua\<rparr>"

lemma demo_world_at: "demo_world bs = demo_at bs StatusCreated 2000 6000 []"
proof -
  have "row_at StatusCreated 2000 = demo_order_row"
    by (auto simp: row_at_def fun_eq_iff demo_order_cells)
  then have "(demo_tables bs)(''orders'' := [row_at StatusCreated 2000]) = demo_tables bs"
    by (simp add: demo_tables_rows fun_upd_idem)
  then show ?thesis by (simp add: demo_world_def demo_at_def demo_start_def mem_start_def)
qed

lemma row_at_cells:
  "row_at st ua FieldID = VUUID 1" "row_at st ua FieldCreatedAt = VTime 1000" "row_at st ua FieldUpdatedAt = VTime ua"
  "row_at st ua order_FieldCustomerID = VUUID (coc_CustomerID demo_command)" "row_at st ua order_FieldStatus = VString st"
  "row_at st ua order_FieldSubtotal = VFloat (coc_ComputedSubtotal demo_command)"
  "row_at st ua order_FieldTax = VFloat (coc_ComputedTax demo_command)"
  "row_at st ua order_FieldShippingCost = VFloat f64_zero" "row_at st ua order_FieldTotal = VFloat (coc_ComputedTotal demo_command)"
  "row_at st ua order_FieldShippingAddress = VString (coc_ShippingAddress demo_command)"
  "row_at st ua order_FieldBillingAddress = VString (coc_BillingAddress demo_command)" "row_at st ua order_FieldErrorMessage = VNull"
  by (simp_all add: row_at_def demo_order_cells)

definition values_at :: "status \<Rightarrow> time \<Rightarrow> scan_val list" where
  "values_at st ua = map (\<lambda>(d, c). the (scan_cell d (row_at st ua c))) (zip (Order_scanValues order_Columns) order_Columns)"

lemma scan_at: "scan_row Order_scanValues order_Columns (row_at st ua) = Some (values_at st ua)"
  by (simp add: scan_row_def Order_scanValues_def order_Columns_def row_at_cells values_at_def)

lemma assign_at: "Order_assignValues order_Columns (values_at st ua) (zero_Order\<lparr>o_loadedItems := False\<rparr>) = Inr (order_at st ua)"
  by (simp add: Order_assignValues_def values_at_def Order_scanValues_def order_Columns_def row_at_cells
      Order_assign_def order_at_def demo_order_def zero_Order_def)

lemma get_at: "OrderClient_Get mem_lib BaseDriver 1 (demo_at bs st ua c ms) = (demo_at bs st ua c ms, Inr (order_at st ua))"
proof -
  let ?q = "OrderQuery_Limit 2 (OrderQuery_Where [order_ID 1] (OrderClient_Query BaseDriver))"
  have spec: "qs_Columns (OrderQuery_querySpec ?q) = order_Columns" "qs_Predicates (OrderQuery_querySpec ?q) = [FieldEQ FieldID (VUUID 1)]"
    "qs_Table (OrderQuery_querySpec ?q) = ''orders''" "qs_Limit (OrderQuery_querySpec ?q) = 2" "qs_Offset (OrderQuery_querySpec ?q) = 0"
    "qs_Order (OrderQuery_querySpec ?q) = []" "qs_ScanValues (OrderQuery_querySpec ?q) = Order_scanValues" "oq_driver ?q = BaseDriver"
    "oq_order ?q = []" "oq_withItems ?q = None" "OrderQuery_prepareQuery ?q = Inr ()"
    by (simp_all add: OrderQuery_Where_def OrderQuery_Limit_def OrderClient_Query_def order_ID_def OrderQuery_querySpec_def
      order_Table_def OrderQuery_prepareQuery_def)
  have "mem_query BaseDriver (OrderQuery_querySpec ?q) (demo_at bs st ua c ms) = (demo_at bs st ua c ms, Inr [values_at st ua])"
    by (simp add: mem_query_def tables_of_def mem_rows_def selected_def page_def spec demo_at_def row_at_cells scan_at)
  then have "OrderQuery_All mem_lib ?q (demo_at bs st ua c ms) = (demo_at bs st ua c ms, Inr [order_at st ua])"
    by (simp add: OrderQuery_All_def OrderQuery_sqlAll_def spec order_terms_check_def assign_at)
  then show ?thesis by (simp add: OrderClient_Get_def OrderQuery_Only_def)
qed

subsection \<open>Status updates\<close>

definition update_at :: "status \<Rightarrow> time \<Rightarrow> OrderUpdateOne" where
  "update_at st t = OrderUpdateOne_SetStatus st (OrderClient_UpdateOneID BaseDriver 1)
     \<lparr>ou_mutation := OrderMutation_SetUpdatedAt t (ou_mutation (OrderUpdateOne_SetStatus st (OrderClient_UpdateOneID BaseDriver 1)))\<rparr>"

lemma update_at_spec:
  defines "us st t \<equiv> OrderUpdateOne_updateSpec 1 order_Columns (update_at st t)"
  shows "us_Table (us st t) = ''orders''" "us_ID (us st t) = Some 1" "us_Columns (us st t) = order_Columns"
    "us_Set (us st t) = [(FieldUpdatedAt, VTime t), (order_FieldStatus, VStatus st)]" "us_Clear (us st t) = []"
    "us_ScanValues (us st t) = Order_scanValues"
    "us_Assign (us st t) = (\<lambda>cols vs. error_of (Order_assignValues cols vs zero_Order))"
    "ou_driver (update_at st t) = BaseDriver" "OrderMutation_ID (ou_mutation (update_at st t)) = Some 1"
    "OrderUpdateOne_columns (update_at st t) = Inr order_Columns"
  by (simp_all add: us_def update_at_def OrderUpdateOne_updateSpec_def OrderUpdateOne_columns_def Let_def ent_defs
      newOrderMutation_def spec_field_def)

lemma update_at_check: "StatusValidator st \<Longrightarrow> OrderUpdateOne_check mem_lib (update_at st t) = Inr ()"
  by (simp add: OrderUpdateOne_check_def update_at_def Let_def ent_defs newOrderMutation_def)

lemma update_row_at:
  "update_row micros (OrderUpdateOne_updateSpec 1 order_Columns (update_at st' t)) (row_at st ua) = row_at st' (micros t)"
  by (auto simp: update_row_def update_at_spec row_at_def fun_eq_iff)

lemma zero_not_loaded: "zero_Order\<lparr>o_loadedItems := False\<rparr> = zero_Order"
  by (simp add: zero_Order_def)

lemma save_at:
  assumes "StatusValidator st'"
  shows "OrderUpdateOne_Save mem_lib (OrderUpdateOne_SetStatus st' (OrderClient_UpdateOneID BaseDriver 1)) (demo_at bs st ua c ms)
    = (demo_at bs st' (micros (c + 1000)) (c + 1000) ms, Inr (order_at st' (micros (c + 1000))))"
proof -
  let ?u = "OrderUpdateOne_SetStatus st' (OrderClient_UpdateOneID BaseDriver 1)"
  let ?us = "OrderUpdateOne_updateSpec 1 order_Columns (update_at st' (c + 1000))"
  let ?d = "(demo_at bs st ua c ms)\<lparr>mem_clock := c + 1000\<rparr>"
  have d: "OrderUpdateOne_defaults mem_lib ?u (demo_at bs st ua c ms) = (?d, update_at st' (c + 1000))"
    by (simp add: OrderUpdateOne_defaults_def update_at_def mem_time_Now_def demo_at_def ent_defs newOrderMutation_def)
  have target: "is_target ?us (row_at st ua)" by (simp add: is_target_def update_at_spec row_at_cells)
  have tabs: "mem_tables ?d = (demo_tables bs)(''orders'' := [row_at st ua])" "mem_view ?d = None"
    by (simp_all add: demo_at_def demo_start_def mem_start_def)
  have "mem_update BaseDriver ?us ?d = (demo_at bs st' (micros (c + 1000)) (c + 1000) ms, Inr (values_at st' (micros (c + 1000))))"
    using assign_at [of st' "micros (c + 1000)"]
    by (simp add: mem_update_def tables_of_def tabs target update_at_spec update_row_at scan_at zero_not_loaded error_of_def
        update_tables_def)
      (simp add: mem_put_def demo_at_def)
  then show ?thesis
    using assign_at [of st' "micros (c + 1000)"] update_at_check [OF assms]
    by (simp add: OrderUpdateOne_Save_def d OrderUpdateOne_sqlSave_def update_at_spec zero_not_loaded)
qed

subsection \<open>Events\<close>

lemma demo_statuses:
  "StatusValidator StatusInventoryReserved" "StatusValidator StatusPaymentCompleted"
  by (simp_all add: StatusValidator_def OrderStatusValues_def Let_def)

lemma update_status_at:
  assumes "StatusValidator st'"
  shows "OrderRepo_UpdateStatus mem_lib 1 st' None expected (demo_at bs st ua c ms)
     = (if st \<noteq> st' \<and> st = expected then demo_at bs st' (micros (c + 1000)) (c + 1000) ms
        else demo_at bs st ua c ms, None)"
  using assms by (simp add: OrderRepo_UpdateStatus_def get_at save_at order_at_def Let_def)

lemma stock_at:
  "OrderUsecase_HandleStockEvent mem_lib (order_usecase mem_lib) (uuid_text 1) True [] (demo_at bs st ua c ms)
     = (if st = StatusCreated then demo_at bs StatusInventoryReserved (micros (c + 1000)) (c + 1000) ms
        else demo_at bs st ua c ms, None)"
  using demo_statuses
  by (simp add: OrderUsecase_HandleStockEvent_def order_usecase_def NewOrderUsecase_def NewOrderRepo_def parse_uuid_text
      update_status_at)

lemma payment_at:
  "OrderUsecase_HandlePaymentEvent mem_lib (order_usecase mem_lib) (uuid_text 1) True [] (demo_at bs st ua c ms)
     = (if st = StatusInventoryReserved then demo_at bs StatusPaymentCompleted (micros (c + 1000)) (c + 1000) ms
        else demo_at bs st ua c ms, None)"
  using demo_statuses
  by (simp add: OrderUsecase_HandlePaymentEvent_def order_usecase_def NewOrderUsecase_def NewOrderRepo_def parse_uuid_text
      update_status_at)

definition demo_payment_value :: "byte list" where
  "demo_payment_value = varint (zigzag (int (length (uuid_text 1)))) @ map byte_of_char (uuid_text 1)"

definition demo_stock_value :: "byte list" where
  "demo_stock_value = demo_payment_value @ le_bytes 8 (bits64 f64_zero)"

definition demo_message :: "string \<Rightarrow> byte list \<Rightarrow> kafka_message" where
  "demo_message topic value =
     \<lparr>km_Topic = Some topic, km_Partition = 0, km_Offset = 0, km_Key = [], km_Value = value, km_Error = None\<rparr>"

definition demo_stock :: kafka_message where
  "demo_stock = demo_message ''stock.reduction.success'' demo_stock_value"

definition demo_payment :: kafka_message where
  "demo_payment = demo_message ''payment.success'' demo_payment_value"

lemma demo_payment_decoded: "DeserializePaymentSuccessEvent mem_lib demo_payment_value = Inr \<lparr>pse_Order_id = uuid_text 1\<rparr>"
  by (rule mem_avro.payment_success_roundtrip)
    (simp add: writePaymentSuccessEvent_def write_string_def demo_payment_value_def)

lemma demo_stock_decoded:
  "DeserializeStockReductionSuccessEvent mem_lib demo_stock_value = Inr \<lparr>srs_Order_id = uuid_text 1, srs_Price = f64_zero\<rparr>"
  by (rule mem_avro.stock_success_roundtrip)
    (simp add: writeStockReductionSuccessEvent_def write_string_def write_double_def demo_stock_value_def demo_payment_value_def
      f64_zero_def)

lemma demo_stock_event:
  "handle_event mem_lib (order_usecase mem_lib) ''stock.reduction.success'' demo_stock_value (demo_at bs st ua c ms)
     = (if st = StatusCreated then demo_at bs StatusInventoryReserved (micros (c + 1000)) (c + 1000) ms
        else demo_at bs st ua c ms, None)"
  by (simp add: handle_event_def demo_stock_decoded stock_at)

lemma demo_payment_event:
  "handle_event mem_lib (order_usecase mem_lib) ''payment.success'' demo_payment_value (demo_at bs st ua c ms)
     = (if st = StatusInventoryReserved then demo_at bs StatusPaymentCompleted (micros (c + 1000)) (c + 1000) ms
        else demo_at bs st ua c ms, None)"
  by (simp add: handle_event_def demo_payment_decoded payment_at)

lemma demo_acked: "mem_commit_message m (demo_at bs st ua c ms) = (demo_at bs st ua c (ms @ [m]), None)"
  by (simp add: mem_commit_message_def demo_at_def)

lemma demo_handled:
  "OrderEventConsumer_handleMessage mem_lib (order_usecase mem_lib) demo_stock (demo_at bs st ua c ms)
     = (if st = StatusCreated then demo_at bs StatusInventoryReserved (micros (c + 1000)) (c + 1000) (ms @ [demo_stock])
        else demo_at bs st ua c (ms @ [demo_stock]), None)"
  "OrderEventConsumer_handleMessage mem_lib (order_usecase mem_lib) demo_payment (demo_at bs st ua c ms)
     = (if st = StatusInventoryReserved then demo_at bs StatusPaymentCompleted (micros (c + 1000)) (c + 1000) (ms @ [demo_payment])
        else demo_at bs st ua c (ms @ [demo_payment]), None)"
  by (simp_all add: OrderEventConsumer_handleMessage_def handled_topics_def demo_stock_def demo_payment_def demo_message_def
      demo_stock_event demo_payment_event demo_acked split: if_split)

subsection \<open>The placed order\<close>

lemma demo_placed_at: "\<exists>bs. demo_placed = demo_at bs StatusCreated 2000 6000 []"
  using demo_outcome by (simp add: demo_world_at)

definition demo_handle :: "kafka_message \<Rightarrow> mem \<Rightarrow> mem" where
  "demo_handle msg d = fst (OrderEventConsumer_handleMessage mem_lib (order_usecase mem_lib) msg d)"

definition demo_reserved :: mem where "demo_reserved = demo_handle demo_stock demo_placed"
definition demo_completed :: mem where "demo_completed = demo_handle demo_payment demo_reserved"
definition demo_early :: mem where "demo_early = demo_handle demo_payment demo_placed"
definition demo_overtaken :: mem where "demo_overtaken = demo_handle demo_stock demo_early"

lemma demo_runs:
  "\<exists>bs. OrderEventConsumer_handleMessage mem_lib (order_usecase mem_lib) demo_stock demo_placed = (demo_reserved, None)
     \<and> OrderEventConsumer_handleMessage mem_lib (order_usecase mem_lib) demo_payment demo_reserved = (demo_completed, None)
     \<and> OrderEventConsumer_handleMessage mem_lib (order_usecase mem_lib) demo_payment demo_placed = (demo_early, None)
     \<and> OrderEventConsumer_handleMessage mem_lib (order_usecase mem_lib) demo_stock demo_early = (demo_overtaken, None)
     \<and> demo_placed = demo_at bs StatusCreated 2000 6000 []
     \<and> demo_early = demo_at bs StatusCreated 2000 6000 [demo_payment]
     \<and> demo_completed = demo_at bs StatusPaymentCompleted 8000 8000 [demo_stock, demo_payment]
     \<and> demo_overtaken = demo_at bs StatusInventoryReserved 7000 7000 [demo_payment, demo_stock]"
proof -
  obtain bs where bs: "demo_placed = demo_at bs StatusCreated 2000 6000 []" using demo_placed_at by blast
  have m: "micros 7000 = 7000" "micros 8000 = 8000" by (simp_all add: micros_def)
  have reserved: "demo_reserved = demo_at bs StatusInventoryReserved 7000 7000 [demo_stock]"
    and early: "demo_early = demo_at bs StatusCreated 2000 6000 [demo_payment]"
    by (simp_all add: demo_reserved_def demo_early_def demo_handle_def bs demo_handled m)
  show ?thesis
    by (intro exI [of _ bs]) (simp add: demo_completed_def demo_overtaken_def demo_handle_def reserved early demo_handled m bs)
qed

lemma demo_reserved_run: "OrderEventConsumer_handleMessage mem_lib (order_usecase mem_lib) demo_stock demo_placed = (demo_reserved, None)"
  and demo_completed_run: "OrderEventConsumer_handleMessage mem_lib (order_usecase mem_lib) demo_payment demo_reserved = (demo_completed, None)"
  and demo_early_run: "OrderEventConsumer_handleMessage mem_lib (order_usecase mem_lib) demo_payment demo_placed = (demo_early, None)"
  and demo_overtaken_run: "OrderEventConsumer_handleMessage mem_lib (order_usecase mem_lib) demo_stock demo_early = (demo_overtaken, None)"
  using demo_runs by blast+

lemma demo_acks:
  "mem_acked demo_overtaken = mem_acked demo_placed @ [demo_payment, demo_stock]"
  "mem_acked demo_completed = mem_acked demo_placed @ [demo_stock, demo_payment]"
  "mem_acked demo_early = mem_acked demo_placed @ [demo_payment]"
proof -
  have acks: "mem_acked (demo_at bs st ua c ms) = ms" for bs st ua c ms by (simp add: demo_at_def)
  obtain bs where bs: "demo_placed = demo_at bs StatusCreated 2000 6000 []"
    "demo_early = demo_at bs StatusCreated 2000 6000 [demo_payment]"
    "demo_completed = demo_at bs StatusPaymentCompleted 8000 8000 [demo_stock, demo_payment]"
    "demo_overtaken = demo_at bs StatusInventoryReserved 7000 7000 [demo_payment, demo_stock]"
    using demo_runs by blast
  then show "mem_acked demo_overtaken = mem_acked demo_placed @ [demo_payment, demo_stock]"
    "mem_acked demo_completed = mem_acked demo_placed @ [demo_stock, demo_payment]"
    "mem_acked demo_early = mem_acked demo_placed @ [demo_payment]"
    unfolding bs acks by simp_all
qed

lemma demo_payment_step:
  "system_steps mem_lib (order_usecase mem_lib) (order_dispatcher mem_lib interval batch) (demo_reserved, Idle) (demo_completed, Idle)"
  using demo_completed_run by (intro r_into_rtranclp system_step.consume)

lemma demo_completed_steps:
  "system_steps mem_lib (order_usecase mem_lib) (order_dispatcher mem_lib interval batch) (demo_placed, Idle) (demo_completed, Idle)"
  using system_step.consume [OF demo_reserved_run] demo_payment_step by (meson converse_rtranclp_into_rtranclp)

lemma demo_placed_good:
  "\<exists>A. good_start mem_lib mem_tables mem_view mem_sent demo_placed A \<and> status_of A 1 = Some StatusCreated
     \<and> length (db_orders A) = 1 \<and> length (db_outbox A) = 1"
  using demo_placed_db by (auto simp: good_start_def delivered_def)

end
