(* ===== verification/OrderProperties.thy ===== *)
theory OrderProperties
  imports DemoEvents
begin

text \<open>
  What the order service promises its clients and its peers, over any platform that keeps the
  documented behaviour of the database, the broker and the product service, each applied to the
  in-memory world: reads, listing, events of the saga, the outbox and pricing.
\<close>

section \<open>Reading\<close>

text \<open>A requested line, as it comes back: the variant it names and its quantity.\<close>

definition line_asked :: "('d, 'z) svc_lib_scheme \<Rightarrow> OrderItemRequest \<Rightarrow> (string + uuid) \<times> i32" where
  "line_asked L item = (uuid_Parse L (oir_VariantId item), oir_Quantity item)"

definition line_answered :: "('d, 'z) svc_lib_scheme \<Rightarrow> pb_OrderItem \<Rightarrow> (string + uuid) \<times> i32" where
  "line_answered L p = (uuid_Parse L (poi_VariantId p), poi_Quantity p)"

lemma priced_line_answered:
  assumes "uuid_lib L" and "priced_line L (variantMap vs) item = Inr (c, a)" and "item_placed i c x"
  shows "line_answered L (toProtoItem L x) = line_asked L item"
  using assms(2,3) uuid_lib.parse_string [OF assms(1)]
  by (auto elim!: priced_line_InrE dest!: variantMap_SomeD
      simp: line_answered_def line_asked_def toProtoItem_def item_placed_def)

lemma priced_lines_answered:
  assumes L: "uuid_lib L"
    and "list_all2 (\<lambda>item l. priced_line L (variantMap vs) item = Inr l) items ls"
    and "list_all2 (item_placed i) (map fst ls) xs"
  shows "map (\<lambda>x. line_answered L (toProtoItem L x)) xs = map (line_asked L) items"
  using assms(2,3)
proof (induction arbitrary: xs rule: list_all2_induct)
  case (Cons item items l ls)
  then show ?case
    using priced_line_answered [OF L, of vs item "fst l" "snd l"] by (cases xs) auto
qed simp

lemma placed_order_read:
  assumes L: "uuid_lib L" and keys: "db_keys A"
    and rp: "request_priced L req vs cmd" and pl: "order_placed L cmd A n items ev"
    and rd: "order_read (add_order A n items ev) (o_ID n) e"
  shows "po_Id (ToProtoOrder L e) = uuid_String L (o_ID n) \<and> po_Status (ToProtoOrder L e) = pb_CREATED
    \<and> uuid_Parse L (po_CustomerId (ToProtoOrder L e)) = uuid_Parse L (cor_CustomerId req)
    \<and> po_ShippingAddress (ToProtoOrder L e) = cor_ShippingAddress req
    \<and> po_BillingAddress (ToProtoOrder L e) = cor_BillingAddress req
    \<and> po_Total (ToProtoOrder L e) = coc_ComputedTotal cmd
    \<and> mset (map (line_answered L) (po_Items (ToProtoOrder L e))) = mset (map (line_asked L) (cor_Items req))"
proof -
  let ?A = "add_order A n items ev"
  from rd obtain m "is" where m: "m \<in> set (db_orders ?A)" "o_ID m = o_ID n"
    and "is": "mset is = mset (items_of ?A (o_ID n))" and e: "e = m\<lparr>o_Items := is, o_loadedItems := True\<rparr>"
    unfolding order_read_def by blast
  have new: "o_ID n \<notin> o_ID ` set (db_orders A)" and row: "order_row_placed cmd n"
    and its: "list_all2 (item_placed (o_ID n)) (coc_Items cmd) items"
    using pl by (auto simp: order_placed_def)
  have mn: "m = n" using m new by (auto simp: add_order_def image_iff)
  have "items_of ?A (o_ID n) = items"
    using items_of_new_order [OF keys new its] by (simp add: items_of_def)
  with "is" have ms: "mset is = mset items" by simp
  from rp obtain customerID ls where rp': "uuid_Parse L (cor_CustomerId req) = Inr customerID"
    "list_all2 (\<lambda>item l. priced_line L (variantMap vs) item = Inr l) (cor_Items req) ls"
    "cmd = priced_order req customerID ls" by (auto simp: request_priced_def)
  have "map (\<lambda>x. line_answered L (toProtoItem L x)) items = map (line_asked L) (cor_Items req)"
    using its rp' by (intro priced_lines_answered [OF L rp'(2)]) (simp add: priced_order_def Let_def)
  moreover have "mset (map (line_answered L) (po_Items (ToProtoOrder L e))) = mset (map (\<lambda>x. line_answered L (toProtoItem L x)) items)"
    using ms by (simp add: ToProtoOrder_def e multiset.map_comp o_def flip: mset_map)
       (metis (no_types, lifting) mset_map)
  ultimately show ?thesis
    using row rp' uuid_lib.parse_string [OF L]
    by (simp add: ToProtoOrder_def e mn order_row_placed_def priced_order_def toProtoOrderStatus_def Let_def)
qed

context order_system
begin

lemma is_uuid_lib: "uuid_lib L"
  by unfold_locales

end

lemmas service_of = order_system.is_service [THEN order_service.CreateOrder_outcome]
  order_system.is_service [THEN order_service.GetOrder_outcome(2)]
  order_system.is_service [THEN order_service.ListOrders_outcome(2)]
  order_system.is_service [THEN order_service.HandleStockEvent_outcome]
  order_system.is_service [THEN order_service.HandlePaymentEvent_outcome]

lemma demo_get_order:
  "OrderUsecase_GetOrder mem_lib (order_usecase mem_lib) \<lparr>gor_Id = cors_Id (created_response mem_lib demo_read)\<rparr> demo_placed
     = (demo_placed, Inr (ToProtoOrder mem_lib demo_read))"
  using demo_get_placed
  by (simp add: OrderUsecase_GetOrder_def order_usecase_def NewOrderUsecase_def NewOrderRepo_def created_response_def parse_uuid_text)

text \<open>
  C6. Read your own writes: the order a client gets for the id it was given when it placed it is
  the one it asked for, created, for its customer and addresses, with the total priced from the
  catalogue and exactly the requested variants and quantities, in some order.
\<close>

theorem read_your_writes:
  assumes "order_system L committed view tr sent acked" and "quiet_db committed view d A"
    and "OrderUsecase_CreateOrder L (order_usecase L) req d = (d1, Inr resp)"
    and "OrderUsecase_GetOrder L (order_usecase L) \<lparr>gor_Id = cors_Id resp\<rparr> d1 = (d2, Inr o')"
  shows "po_Id o' = cors_Id resp \<and> po_Status o' = pb_CREATED \<and> cors_Status resp = pb_CREATED
    \<and> uuid_Parse L (po_CustomerId o') = uuid_Parse L (cor_CustomerId req)
    \<and> po_ShippingAddress o' = cor_ShippingAddress req \<and> po_BillingAddress o' = cor_BillingAddress req
    \<and> (\<exists>variants cmd. request_priced L req variants cmd \<and> po_Total o' = coc_ComputedTotal cmd)
    \<and> mset (map (line_answered L) (po_Items o')) = mset (map (line_asked L) (cor_Items req))"
proof -
  note L = order_system.is_uuid_lib [OF assms(1)]
  note parse = uuid_lib.parse_string [OF L]
  have keys: "db_keys A" using assms(2) by (auto simp: quiet_db_def db_state_def represents_def)
  from service_of(1) [OF assms(1,3) [unfolded order_usecase_def] assms(2)]
  obtain variants cmd n items ev where rp: "request_priced L req variants cmd"
    and pl: "order_placed L cmd A n items ev" and A1: "quiet_db committed view d1 (add_order A n items ev)"
    and resp: "resp = created_response L n" by auto
  from service_of(2) [OF assms(1,4) [unfolded order_usecase_def] A1] resp parse
  obtain e where "order_read (add_order A n items ev) (o_ID n) e" "o' = ToProtoOrder L e"
    by (auto simp: created_response_def)
  with placed_order_read [OF L keys rp pl] rp resp show ?thesis
    by (auto simp: created_response_def)
qed

lemma read_your_writes_witness:
  "po_Id (ToProtoOrder mem_lib demo_read) = cors_Id (created_response mem_lib demo_read)
    \<and> mset (map (line_answered mem_lib) (po_Items (ToProtoOrder mem_lib demo_read)))
        = mset (map (line_asked mem_lib) (cor_Items demo_request))"
  using read_your_writes [OF demo_system demo_db demo_run_Inr demo_get_order] by blast

text \<open>
  C14. Reading never writes, and answers from the database as it is: an order is the stored one
  with exactly its lines; the only errors are an id that is not a UUID and \<open>NotFound\<close>.
\<close>

theorem GetOrder_answers:
  assumes "order_system L committed view tr sent acked" and "quiet_db committed view d A"
    and "OrderUsecase_GetOrder L (order_usecase L) req d = (d', r)"
  shows "quiet_db committed view d' A
    \<and> (case r of
        Inr o' \<Rightarrow> \<exists>i e. uuid_Parse L (gor_Id req) = Inr i \<and> order_read A i e \<and> o' = ToProtoOrder L e
      | Inl err \<Rightarrow> err = GrpcStatus InvalidArgument ''invalid order ID'' None \<and> uuid_Parse L (gor_Id req) \<notin> range Inr
          \<or> err = GrpcStatus NotFound ''order not found'' None)"
  using order_service.GetOrder_outcome
    [OF order_system.is_service [OF assms(1)] assms(3) [unfolded order_usecase_def] assms(2)] by (rule conjI)

lemma GetOrder_answers_witness:
  "\<exists>A. mem_db demo_placed A \<and> (\<exists>i e. parse_uuid (uuid_text 1) = Inr i \<and> order_read A i e
     \<and> ToProtoOrder mem_lib demo_read = ToProtoOrder mem_lib e)"
proof -
  from demo_placed_db obtain A where A: "mem_db demo_placed A" by blast
  show ?thesis
    using GetOrder_answers [OF demo_system A demo_get_order] A by (auto simp: created_response_def)
qed

text \<open>
  C15. Listing answers one page of the matching orders, newest first, each with its lines, and
  the counts that go with it; it fails only with the error of a bad customer id or a failing
  database, and never writes.
\<close>

theorem ListOrders_answers:
  assumes "order_system L committed view tr sent acked" and "quiet_db committed view d A"
    and "OrderUsecase_ListOrders L (order_usecase L) req d = (d', r)"
  shows "quiet_db committed view d' A
    \<and> (case r of
        Inl e \<Rightarrow> ListOrders_query L req = Inl e \<or> (\<exists>err. e = GrpcStatus Internal ''failed to list orders: '' (Some err))
      | Inr resp \<Rightarrow> (\<exists>q ns is. ListOrders_query L req = Inr q
          \<and> mset ns = mset (list_hits tr q A) \<and> sorted_wrt (\<lambda>n m. o_CreatedAt m \<le> o_CreatedAt n) ns
          \<and> mset is = mset (filter (\<lambda>x. oi_order_items x \<in> Some ` o_ID ` set (page_of q ns)) (db_items A))
          \<and> lors_Orders resp = map (\<lambda>n. ToProtoOrder L (with_items is n)) (page_of q ns)
          \<and> lors_TotalCount resp = i32_of_int (int_of_len (list_hits tr q A))
          \<and> lors_CurrentPage resp = i32_of_int (loq_Page q)
          \<and> lors_TotalPages resp = i32_of_int (totalPages (int_of_len (list_hits tr q A)) (loq_PageSize q))))"
proof -
  note o = order_service.ListOrders_outcome
    [OF order_system.is_service [OF assms(1)] assms(3) [unfolded order_usecase_def] assms(2)]
  show ?thesis
  proof (cases r)
    case (Inl e)
    then show ?thesis using o(1) o(3) [OF Inl] by (simp only: sum.case simp_thms)
  next
    case (Inr resp)
    from o(2) [OF Inr] show ?thesis unfolding Inr sum.case using o(1) by blast
  qed
qed

definition demo_list_request :: ListOrdersRequest where
  "demo_list_request = \<lparr>lor_Page = 1, lor_PageSize = 10, lor_CustomerId = uuid_text 3, lor_Status = pb_CREATED, lor_CreatedAfter = None\<rparr>"

lemma ListOrders_answers_witness:
  "\<exists>A. mem_db demo_placed A \<and>
     mem_db (fst (OrderUsecase_ListOrders mem_lib (order_usecase mem_lib) demo_list_request demo_placed)) A"
proof -
  from demo_placed_db obtain A where A: "mem_db demo_placed A" by blast
  with ListOrders_answers [OF demo_system A surjective_pairing, of demo_list_request] show ?thesis by blast
qed

section \<open>Events of the saga\<close>

text \<open>
  C9. A stock event decides the order it names exactly if that order is still \<open>CREATED\<close>: it
  becomes reserved, or failed with the message of the event. In every other case nothing
  changes, and an event that reports no error named an order that had moved on already.
\<close>

theorem stock_event_effect:
  assumes "order_system L committed view tr sent acked" and "quiet_db committed view d A"
    and "OrderUsecase_HandleStockEvent L (order_usecase L) oid ok message d = (d', r)"
  shows "quiet_db committed view d' A
      \<and> (r = None \<longrightarrow> (\<exists>i s. uuid_Parse L oid = Inr i \<and> status_of A i = Some s \<and> s \<noteq> StatusCreated))
    \<or> (\<exists>i ua. uuid_Parse L oid = Inr i \<and> status_of A i = Some StatusCreated
         \<and> quiet_db committed view d'
             (set_status tr ua i (if ok then StatusInventoryReserved else StatusInventoryReservedFailed)
               (event_message message) A))"
  using service_of(4) [OF assms(1) assms(3) [unfolded order_usecase_def] assms(2) refl] .

lemma stock_event_effect_witness:
  "\<exists>A. mem_db demo_placed A \<and>
     (mem_db (fst (OrderUsecase_HandleStockEvent mem_lib (order_usecase mem_lib) (uuid_text 1) True [] demo_placed)) A
      \<or> (\<exists>ua. mem_db (fst (OrderUsecase_HandleStockEvent mem_lib (order_usecase mem_lib) (uuid_text 1) True [] demo_placed))
           (set_status micros ua 1 StatusInventoryReserved None A)))"
proof -
  from demo_placed_db obtain A where A: "mem_db demo_placed A" by blast
  with stock_event_effect [OF demo_system A surjective_pairing, of "uuid_text 1" True "[]"]
  show ?thesis by (auto simp: parse_uuid_text event_message_def)
qed

text \<open>
  C10. A payment event completes or fails the order it names exactly if its stock is reserved.
\<close>

theorem payment_event_effect:
  assumes "order_system L committed view tr sent acked" and "quiet_db committed view d A"
    and "OrderUsecase_HandlePaymentEvent L (order_usecase L) oid ok message d = (d', r)"
  shows "quiet_db committed view d' A
      \<and> (r = None \<longrightarrow> (\<exists>i s. uuid_Parse L oid = Inr i \<and> status_of A i = Some s \<and> s \<noteq> StatusInventoryReserved))
    \<or> (\<exists>i ua. uuid_Parse L oid = Inr i \<and> status_of A i = Some StatusInventoryReserved
         \<and> quiet_db committed view d'
             (set_status tr ua i (if ok then StatusPaymentCompleted else StatusPaymentFailed)
               (event_message message) A))"
  using service_of(5) [OF assms(1) assms(3) [unfolded order_usecase_def] assms(2) refl] .

lemma demo_payment_dropped:
  "OrderUsecase_HandlePaymentEvent mem_lib (order_usecase mem_lib) (uuid_text 1) True [] demo_placed = (demo_placed, None)"
proof -
  obtain bs where bs: "demo_placed = demo_at bs StatusCreated 2000 6000 []" using demo_placed_at by blast
  show ?thesis unfolding bs payment_at by simp
qed

lemma payment_event_effect_witness:
  "\<exists>A. mem_db demo_placed A \<and> (\<exists>s. status_of A 1 = Some s \<and> s \<noteq> StatusInventoryReserved)"
proof -
  from demo_placed_db obtain A where A: "mem_db demo_placed A" "status_of A 1 = Some StatusCreated" by blast
  with payment_event_effect [OF demo_system A(1) demo_payment_dropped] show ?thesis
    by (auto simp: parse_uuid_text)
qed

text \<open>
  The events as messages: the order that one names, the status in which it finds its order, and
  the status that it brings about.
\<close>

definition decoded :: "'a + 'b \<Rightarrow> 'b option" where
  "decoded x = (case x of Inl _ \<Rightarrow> None | Inr y \<Rightarrow> Some y)"

definition event_order :: "('d, 'z) svc_lib_scheme \<Rightarrow> string \<Rightarrow> byte list \<Rightarrow> uuid option" where
  "event_order L topic value = Option.bind
     (if topic = ''stock.reduction.fail'' then map_option srf_Order_id (decoded (DeserializeStockReductionFailedEvent L value))
      else if topic = ''stock.reduction.success'' then map_option srs_Order_id (decoded (DeserializeStockReductionSuccessEvent L value))
      else if topic = ''payment.fail'' then map_option pfe_Order_id (decoded (DeserializePaymentFailedEvent L value))
      else map_option pse_Order_id (decoded (DeserializePaymentSuccessEvent L value)))
     (\<lambda>oid. decoded (uuid_Parse L oid))"

definition payment_topics :: "string list" where
  "payment_topics = [''payment.fail'', ''payment.success'']"

definition event_expects :: "string \<Rightarrow> status" where
  "event_expects topic = (if topic \<in> set payment_topics then StatusInventoryReserved else StatusCreated)"

definition event_result :: "string \<Rightarrow> status" where
  "event_result topic =
     (if topic = ''stock.reduction.fail'' then StatusInventoryReservedFailed
      else if topic = ''stock.reduction.success'' then StatusInventoryReserved
      else if topic = ''payment.fail'' then StatusPaymentFailed else StatusPaymentCompleted)"

definition event_done :: "('d, 'z) svc_lib_scheme \<Rightarrow> (time \<Rightarrow> time) \<Rightarrow> string \<Rightarrow> byte list \<Rightarrow> order_db \<Rightarrow> order_db \<Rightarrow> bool" where
  "event_done L tr topic value A B \<longleftrightarrow>
     (\<exists>i ua m. event_order L topic value = Some i \<and> status_of A i = Some (event_expects topic)
        \<and> B = set_status tr ua i (event_result topic) m A)"

definition event_passed :: "('d, 'z) svc_lib_scheme \<Rightarrow> string \<Rightarrow> byte list \<Rightarrow> order_db \<Rightarrow> bool" where
  "event_passed L topic value A \<longleftrightarrow>
     (\<exists>i s. event_order L topic value = Some i \<and> status_of A i = Some s \<and> s \<noteq> event_expects topic)"

lemma event_outcome:
  assumes "P A \<and> (r = None \<longrightarrow> (\<exists>i s. uuid_Parse L oid = Inr i \<and> status_of A i = Some s \<and> s \<noteq> expected))
      \<or> (\<exists>i ua. uuid_Parse L oid = Inr i \<and> status_of A i = Some expected \<and> P (set_status tr ua i st m A))"
    and "event_order L topic value = decoded (uuid_Parse L oid)" "event_expects topic = expected" "event_result topic = st"
  shows "P A \<and> (r = None \<longrightarrow> event_passed L topic value A) \<or> (\<exists>B. event_done L tr topic value A B \<and> P B)"
  using assms(1)
proof
  assume "P A \<and> (r = None \<longrightarrow> (\<exists>i s. uuid_Parse L oid = Inr i \<and> status_of A i = Some s \<and> s \<noteq> expected))"
  then show ?thesis by (auto simp: event_passed_def assms(2,3) decoded_def)
next
  assume "\<exists>i ua. uuid_Parse L oid = Inr i \<and> status_of A i = Some expected \<and> P (set_status tr ua i st m A)"
  then obtain i ua where i: "uuid_Parse L oid = Inr i" "status_of A i = Some expected" "P (set_status tr ua i st m A)"
    by blast
  then have "event_done L tr topic value A (set_status tr ua i st m A)"
    unfolding event_done_def assms(2-4) by (intro exI [of _ i] exI [of _ ua] exI [of _ m]) (simp add: decoded_def)
  with i(3) show ?thesis by blast
qed

lemma handle_event_outcome:
  assumes sys: "order_system L committed view tr sent acked" and A: "quiet_db committed view d A"
    and topic: "topic \<in> set handled_topics"
    and run: "handle_event L (order_usecase L) topic value d = (d', r)"
  shows "quiet_db committed view d' A \<and> (r = None \<longrightarrow> event_passed L topic value A)
    \<or> (\<exists>B. event_done L tr topic value A B \<and> quiet_db committed view d' B)"
proof -
  have undecoded: ?thesis if "d' = d" "r \<noteq> None" using that A by blast
  note stock = event_outcome [OF service_of(4) [OF sys _ A refl, folded order_usecase_def]]
  note payment = event_outcome [OF service_of(5) [OF sys _ A refl, folded order_usecase_def]]
  note event = event_order_def event_expects_def event_result_def payment_topics_def decoded_def
  from topic consider "topic = ''stock.reduction.fail''" | "topic = ''stock.reduction.success''"
    | "topic = ''payment.fail''" | "topic = ''payment.success''"
    by (auto simp: handled_topics_def)
  then show ?thesis
  proof cases
    case 1
    show ?thesis
    proof (cases "DeserializeStockReductionFailedEvent L value")
      case (Inr ev)
      have "OrderUsecase_HandleStockEvent L (order_usecase L) (srf_Order_id ev) False (srf_Message ev) d = (d', r)"
        using run 1 Inr by (simp add: handle_event_def)
      then show ?thesis by (rule stock) (simp_all add: event 1 Inr)
    next
      case (Inl e)
      with run 1 show ?thesis by (intro undecoded) (auto simp: handle_event_def)
    qed
  next
    case 2
    show ?thesis
    proof (cases "DeserializeStockReductionSuccessEvent L value")
      case (Inr ev)
      have "OrderUsecase_HandleStockEvent L (order_usecase L) (srs_Order_id ev) True [] d = (d', r)"
        using run 2 Inr by (simp add: handle_event_def)
      then show ?thesis by (rule stock) (simp_all add: event 2 Inr)
    next
      case (Inl e)
      with run 2 show ?thesis by (intro undecoded) (auto simp: handle_event_def)
    qed
  next
    case 3
    show ?thesis
    proof (cases "DeserializePaymentFailedEvent L value")
      case (Inr ev)
      have "OrderUsecase_HandlePaymentEvent L (order_usecase L) (pfe_Order_id ev) False (pfe_Fail_reason ev) d = (d', r)"
        using run 3 Inr by (simp add: handle_event_def)
      then show ?thesis by (rule payment) (simp_all add: event 3 Inr)
    next
      case (Inl e)
      with run 3 show ?thesis by (intro undecoded) (auto simp: handle_event_def)
    qed
  next
    case 4
    show ?thesis
    proof (cases "DeserializePaymentSuccessEvent L value")
      case (Inr ev)
      have "OrderUsecase_HandlePaymentEvent L (order_usecase L) (pse_Order_id ev) True [] d = (d', r)"
        using run 4 Inr by (simp add: handle_event_def)
      then show ?thesis by (rule payment) (simp_all add: event 4 Inr)
    next
      case (Inl e)
      with run 4 show ?thesis by (intro undecoded) (auto simp: handle_event_def)
    qed
  qed
qed

lemma handleMessage_outcome:
  assumes sys: "order_system L committed view tr sent acked" and A: "quiet_db committed view d A"
    and topic: "km_Topic msg = Some topic" "topic \<in> set handled_topics"
    and run: "OrderEventConsumer_handleMessage L (order_usecase L) msg d = (d', p)"
  shows "quiet_db committed view d' A
      \<and> (snd (handle_event L (order_usecase L) topic (km_Value msg) d) = None \<longrightarrow> event_passed L topic (km_Value msg) A)
    \<or> (\<exists>B. event_done L tr topic (km_Value msg) A B \<and> quiet_db committed view d' B)"
proof -
  obtain d1 r where h: "handle_event L (order_usecase L) topic (km_Value msg) d = (d1, r)"
    by (cases "handle_event L (order_usecase L) topic (km_Value msg) d")
  have c: "quiet_db committed view (fst (kafka_CommitMessage L msg x)) B" if "quiet_db committed view x B" for x B
    using order_workers.axioms(2) [OF order_system.is_workers [OF sys]] that
    by (cases "kafka_CommitMessage L msg x") (auto dest: broker.commit_db)
  have "d' = fst (kafka_CommitMessage L msg d1) \<or> d' = d1"
    using run topic h by (auto simp: OrderEventConsumer_handleMessage_def split: option.splits go_error.splits)
  with handle_event_outcome [OF sys A topic(2) h] c h show ?thesis by auto
qed

lemma event_result_saga: "event_result topic \<in> saga_states"
  by (simp add: event_result_def saga_states_def)

lemma handled_start:
  assumes sys: "order_system L committed view tr sent acked" and A: "good_start L committed view sent d A"
    and run: "OrderEventConsumer_handleMessage L (order_usecase L) msg d = (d', p)"
    and B: "B = A \<or> event_done L tr topic value A B" "quiet_db committed view d' B"
  shows "good_start L committed view sent d' B"
proof -
  have "sent d' = sent d"
    using order_workers.handleMessage_logs [OF order_system.is_workers [OF sys] run [unfolded order_usecase_def]] .
  moreover have "saga_inv L B" "db_outbox B = db_outbox A"
    using A B(1) saga_inv_set_status [OF _ event_result_saga] by (auto simp: good_start_def event_done_def)
  ultimately show ?thesis using A B(2) by (simp add: good_start_def delivered_def)
qed

text \<open>A status that an event does not find once it has been handled is not reached again.\<close>

lemma passed_for_good:
  assumes "s \<noteq> event_expects topic" and "topic \<in> set payment_topics \<Longrightarrow> s \<noteq> StatusCreated"
    and "next_status\<^sup>*\<^sup>* s s'"
  shows "s' \<noteq> event_expects topic"
  using next_status_from [OF assms(3)] assms(1,2)
  by (auto simp: event_expects_def saga_states_def split: if_splits)

lemma handled_passed:
  assumes B: "event_done L tr topic value A B \<or> B = A \<and> event_passed L topic value A"
    and early: "topic \<in> set payment_topics \<Longrightarrow> event_order L topic value = Some i \<Longrightarrow> status_of A i \<noteq> Some StatusCreated"
    and topic: "topic \<in> set handled_topics"
    and i: "event_order L topic value = Some i"
  obtains s where "status_of B i = Some s" "s \<noteq> event_expects topic"
    "topic \<in> set payment_topics \<Longrightarrow> s \<noteq> StatusCreated"
proof -
  have "\<exists>s. status_of B i = Some s \<and> s \<noteq> event_expects topic \<and> (topic \<in> set payment_topics \<longrightarrow> s \<noteq> StatusCreated)"
    using B
  proof
    assume "event_done L tr topic value A B"
    then have "status_of B i = Some (event_result topic)"
      using i by (auto simp: event_done_def status_of_set_status)
    then show ?thesis
      using topic by (auto simp: event_result_def event_expects_def payment_topics_def handled_topics_def)
  next
    assume "B = A \<and> event_passed L topic value A"
    then show ?thesis using i early by (auto simp: event_passed_def)
  qed
  then show thesis using that by blast
qed

text \<open>
  C11. Redelivery is harmless, however late it comes: once a message has been handled without
  error, whatever the service does after it (further requests, events, flushes, crashes), handling
  the same message again leaves the database as it then is. The one exception is a payment event
  that was handled while its order was still \<open>CREATED\<close>; C13 shows what it leads to.
\<close>

theorem redelivered_event:
  assumes "order_system L committed view tr sent acked"
    and "good_start L committed view sent d A" and "0 < sint batch"
    and "km_Topic msg = Some topic" and "topic \<in> set handled_topics"
    and "OrderEventConsumer_handleMessage L (order_usecase L) msg d = (d1, p1)"
    and "snd (handle_event L (order_usecase L) topic (km_Value msg) d) = None"
    and "\<And>i. topic \<in> set payment_topics \<Longrightarrow> event_order L topic (km_Value msg) = Some i \<Longrightarrow> status_of A i \<noteq> Some StatusCreated"
    and "system_steps L (order_usecase L) (order_dispatcher L interval batch) (d1, Idle) (d2, w)"
    and "OrderEventConsumer_handleMessage L (order_usecase L) msg d2 = (d3, p2)"
  shows "\<exists>A2. quiet_db committed view d2 A2 \<and> quiet_db committed view d3 A2"
proof -
  have A: "quiet_db committed view d A" using assms(2) by (simp add: good_start_def)
  from handleMessage_outcome [OF assms(1) A assms(4-6)] assms(7) obtain B where
    B: "event_done L tr topic (km_Value msg) A B \<or> B = A \<and> event_passed L topic (km_Value msg) A"
    and d1: "quiet_db committed view d1 B" using A by auto
  have "good_start L committed view sent d1 B"
    using B d1 by (intro handled_start [OF assms(1,2,6), of B topic "km_Value msg"]) auto
  from system_run [OF assms(1) this assms(3,9)] obtain A2 where
    A2: "quiet_db committed view d2 A2" "(saga_step L tr)\<^sup>*\<^sup>* B A2" by (auto simp: good_start_def)
  have "\<not> event_done L tr topic (km_Value msg) A2 C" for C
  proof
    assume "event_done L tr topic (km_Value msg) A2 C"
    then obtain i where i: "event_order L topic (km_Value msg) = Some i" "status_of A2 i = Some (event_expects topic)"
      by (auto simp: event_done_def)
    obtain s where s: "status_of B i = Some s" "s \<noteq> event_expects topic" "topic \<in> set payment_topics \<Longrightarrow> s \<noteq> StatusCreated"
      using handled_passed [OF B assms(8) assms(5) i(1)] by blast
    from saga_steps_status [OF A2(2) s(1)] passed_for_good [OF s(2,3)] i(2) show False by auto
  qed
  with handleMessage_outcome [OF assms(1) A2(1) assms(4,5,10)] A2(1) show ?thesis by blast
qed

text \<open>
  The stock event is handled, then the payment completes the order, then the stock event comes
  again.
\<close>

lemma redelivered_event_witness:
  "\<exists>A. mem_db demo_completed A
     \<and> mem_db (fst (OrderEventConsumer_handleMessage mem_lib (order_usecase mem_lib) demo_stock demo_completed)) A"
proof -
  from demo_placed_good obtain A where A: "good_start mem_lib mem_tables mem_view mem_sent demo_placed A" by blast
  have topic: "km_Topic demo_stock = Some ''stock.reduction.success''" "''stock.reduction.success'' \<in> set handled_topics"
    "''stock.reduction.success'' \<notin> set payment_topics"
    by (simp_all add: demo_stock_def demo_message_def handled_topics_def payment_topics_def)
  have handled: "snd (handle_event mem_lib (order_usecase mem_lib) ''stock.reduction.success'' (km_Value demo_stock) demo_placed) = None"
  proof -
    obtain bs where bs: "demo_placed = demo_at bs StatusCreated 2000 6000 []" using demo_placed_at by blast
    show ?thesis unfolding bs demo_stock_def demo_message_def kafka_message.simps demo_stock_event by simp
  qed
  show ?thesis
    using redelivered_event [where batch = 20, OF demo_system A _ topic(1,2) demo_reserved_run handled _ demo_payment_step
        surjective_pairing] topic(3) by simp
qed

text \<open>
  C12. Acknowledging is the last step: a message is committed to the broker only if its topic is
  none the service handles, or handling it reported no error; an error or a panic leaves it
  uncommitted.
\<close>

theorem committed_after_handled:
  assumes "order_system L committed view tr sent acked"
    and "OrderEventConsumer_handleMessage L (order_usecase L) msg d = (d', p)"
  shows "acked d' = acked d
    \<or> acked d' = acked d @ [msg] \<and> p = None
      \<and> (\<exists>topic. km_Topic msg = Some topic
           \<and> (topic \<notin> set handled_topics \<or> snd (handle_event L (order_usecase L) topic (km_Value msg) d) = None))"
  using order_workers.handleMessage_acked [OF order_system.is_workers [OF assms(1)] assms(2) [unfolded order_usecase_def]]
  by (simp add: order_usecase_def)

lemma committed_after_handled_witness:
  "snd (handle_event mem_lib (order_usecase mem_lib) ''payment.success'' demo_payment_value demo_placed) = None"
proof -
  have "mem_acked demo_early \<noteq> mem_acked demo_placed" using demo_acks(3) by simp
  with committed_after_handled [OF demo_system demo_early_run] show ?thesis
    by (auto simp: demo_payment_def demo_message_def handled_topics_def)
qed

lemma acked_both:
  assumes sys: "order_system L committed view tr sent acked"
    and "OrderEventConsumer_handleMessage L (order_usecase L) m d = (d1, p1)"
    and "OrderEventConsumer_handleMessage L (order_usecase L) m' d1 = (d2, p2)" and "acked d2 = acked d @ [m, m']"
  shows "km_Topic m = Some t \<Longrightarrow> t \<in> set handled_topics \<Longrightarrow> snd (handle_event L (order_usecase L) t (km_Value m) d) = None"
    and "km_Topic m' = Some t' \<Longrightarrow> t' \<in> set handled_topics \<Longrightarrow> snd (handle_event L (order_usecase L) t' (km_Value m') d1) = None"
proof -
  note w = order_system.is_workers [OF sys]
  note a1 = order_workers.handleMessage_acked [OF w assms(2) [unfolded order_usecase_def], folded order_usecase_def]
  note a2 = order_workers.handleMessage_acked [OF w assms(3) [unfolded order_usecase_def], folded order_usecase_def]
  have "acked d1 = acked d @ [m]" "acked d2 = acked d1 @ [m']" using a1 a2 assms(4) by auto
  then show "km_Topic m = Some t \<Longrightarrow> t \<in> set handled_topics \<Longrightarrow> snd (handle_event L (order_usecase L) t (km_Value m) d) = None"
    and "km_Topic m' = Some t' \<Longrightarrow> t' \<in> set handled_topics \<Longrightarrow> snd (handle_event L (order_usecase L) t' (km_Value m') d1) = None"
    using a1 a2 by auto
qed

text \<open>
  C13. The order in which the events of one order arrive decides its fate, and a payment event
  that overtakes the stock event is lost: acknowledged after the stock event, it completes or
  fails the order; acknowledged before it, it leaves the order reserved, though in both cases both
  messages are acknowledged, so that the broker delivers neither of them again.
\<close>

theorem overtaken_payment_lost:
  assumes "order_system L committed view tr sent acked" and "quiet_db committed view d A"
    and "status_of A i = Some StatusCreated"
    and "km_Topic P = Some topic" and "topic \<in> set payment_topics" and "event_order L topic (km_Value P) = Some i"
    and "km_Topic S = Some ''stock.reduction.success''"
    and "event_order L ''stock.reduction.success'' (km_Value S) = Some i"
    and "OrderEventConsumer_handleMessage L (order_usecase L) P d = (d1, p1)"
    and "OrderEventConsumer_handleMessage L (order_usecase L) S d1 = (d2, p2)" and "acked d2 = acked d @ [P, S]"
    and "OrderEventConsumer_handleMessage L (order_usecase L) S d = (e1, q1)"
    and "OrderEventConsumer_handleMessage L (order_usecase L) P e1 = (e2, q2)" and "acked e2 = acked d @ [S, P]"
  shows "(\<exists>B. quiet_db committed view d2 B \<and> status_of B i = Some StatusInventoryReserved)
    \<and> (\<exists>C. quiet_db committed view e2 C \<and> status_of C i = Some (event_result topic))"
proof
  have topics: "topic \<in> set handled_topics" "''stock.reduction.success'' \<in> set handled_topics"
    "event_expects topic = StatusInventoryReserved" "event_expects ''stock.reduction.success'' = StatusCreated"
    "event_result ''stock.reduction.success'' = StatusInventoryReserved"
    using assms(5) by (auto simp: payment_topics_def handled_topics_def event_expects_def event_result_def)
  note outP = handleMessage_outcome [OF assms(1) _ assms(4) topics(1)]
  note outS = handleMessage_outcome [OF assms(1) _ assms(7) topics(2)]
  note ack = acked_both [OF assms(1)]
  have "quiet_db committed view d1 A"
    using outP [OF assms(2,9)] assms(3,6) topics(3) by (auto simp: event_done_def)
  from outS [OF this assms(10)] ack [OF assms(9-11)] assms(3,7,8) topics
  show "\<exists>B. quiet_db committed view d2 B \<and> status_of B i = Some StatusInventoryReserved"
    by (auto simp: event_done_def event_passed_def status_of_set_status)
  from outS [OF assms(2,12)] ack [OF assms(12-14)] assms(3,7,8) topics
  obtain B where B: "quiet_db committed view e1 B" "status_of B i = Some StatusInventoryReserved"
    by (auto simp: event_done_def event_passed_def status_of_set_status)
  from outP [OF B(1) assms(13)] ack [OF assms(12-14)] assms(4,6) B(2) topics
  show "\<exists>C. quiet_db committed view e2 C \<and> status_of C i = Some (event_result topic)"
    by (auto simp: event_done_def event_passed_def status_of_set_status)
qed

text \<open>Both orders of the two events, for the placed order.\<close>

lemma overtaken_payment_lost_witness:
  "(\<exists>B. mem_db demo_overtaken B \<and> status_of B 1 = Some StatusInventoryReserved)
    \<and> (\<exists>C. mem_db demo_completed C \<and> status_of C 1 = Some StatusPaymentCompleted)"
proof -
  from demo_placed_db obtain A where A: "mem_db demo_placed A" "status_of A 1 = Some StatusCreated" by blast
  have P: "km_Topic demo_payment = Some ''payment.success''" "''payment.success'' \<in> set payment_topics"
    "event_order mem_lib ''payment.success'' (km_Value demo_payment) = Some 1"
    by (simp_all add: demo_payment_def demo_message_def payment_topics_def event_order_def decoded_def demo_payment_decoded
        parse_uuid_text)
  have S: "km_Topic demo_stock = Some ''stock.reduction.success''"
    "event_order mem_lib ''stock.reduction.success'' (km_Value demo_stock) = Some 1"
    by (simp_all add: demo_stock_def demo_message_def event_order_def decoded_def demo_stock_decoded parse_uuid_text)
  from overtaken_payment_lost [OF demo_system A P S demo_early_run demo_overtaken_run demo_acks(1) demo_reserved_run
      demo_completed_run demo_acks(2)]
  show ?thesis by (simp add: event_result_def)
qed

end
