(* ===== verification/OrderRules.thy ===== *)
theory OrderRules
  imports OrderProperties
begin

text \<open>
  The rules of the order service: which requests are refused and how the amounts of an order
  come about, how pages are counted and cut, and the tables that map statuses and events to
  their wire forms and back.
\<close>

section \<open>Orders that are refused\<close>

lemma f64_lt_FFin: "f64_lt (FFin a m e) (FFin b n f) \<longleftrightarrow> f64_val a m e < f64_val b n f"
proof -
  have "f64_lt (FFin a m e) (FFin b n f) \<longleftrightarrow> \<not> f64_le (FFin b n f) (FFin a m e)"
    by (auto simp: f64_le_def Let_def min.commute)
  then show ?thesis by (simp add: f64_le_FFin not_le)
qed

lemma f64_eq_lt:
  assumes "f64_eq x y" and "f64_lt y z"
  shows "f64_lt x z"
proof (cases "\<exists>a m e b n f c k g. x = FFin a m e \<and> y = FFin b n f \<and> z = FFin c k g")
  case True
  then obtain a m e b n f c k g where xyz: "x = FFin a m e" "y = FFin b n f" "z = FFin c k g" by blast
  have "f64_le x y" using assms(1) by (simp add: f64_le_def)
  then show ?thesis using assms(2) unfolding xyz f64_le_FFin f64_lt_FFin by linarith
next
  case False
  then show ?thesis using assms by (cases x; cases y; cases z) auto
qed

lemma f64_eq_NaN [simp]: "\<not> f64_eq x FNaN"
  by (cases x) simp_all

text \<open>A requested line no order may contain.\<close>

definition bad_line :: "OrderItemRequest \<Rightarrow> bool" where
  "bad_line item \<longleftrightarrow> sint (oir_Quantity item) \<le> 0 \<or> oir_UnitPrice item = FNaN \<or> f64_lt (oir_UnitPrice item) f64_zero"

lemma bad_line_not_placed:
  assumes "priced_line L vm item = Inr (c, a)" and "item_placed i c x"
  shows "\<not> bad_line item"
  using assms f64_eq_lt [of _ "oir_UnitPrice item" f64_zero]
  by (auto elim!: priced_line_InrE simp: bad_line_def item_placed_def)

text \<open>
  C16. One line with a quantity that is not positive, or a price that is negative or not a
  number, refuses the whole order: nothing is stored and the client gets an error.
\<close>

theorem bad_line_refused:
  assumes "order_system L committed view tr sent acked" and "quiet_db committed view d A"
    and "OrderUsecase_CreateOrder L (order_usecase L) req d = (d', r)"
    and "item \<in> set (cor_Items req)" and "bad_line item"
  shows "quiet_db committed view d' A \<and> no_response r"
proof -
  have False if rp: "request_priced L req variants cmd" and pl: "order_placed L cmd A n items ev" for variants cmd n items ev
  proof -
    from rp obtain customerID ls where ls: "cmd = priced_order req customerID ls"
      "list_all2 (\<lambda>item l. priced_line L (variantMap variants) item = Inr l) (cor_Items req) ls"
      by (auto simp: request_priced_def)
    from list_all2_leftD [OF ls(2) assms(4)] obtain c a where ca: "(c, a) \<in> set ls"
      "priced_line L (variantMap variants) item = Inr (c, a)" by force
    have "c \<in> set (coc_Items cmd)" using ca(1) by (force simp: ls(1) priced_order_def Let_def)
    then obtain x where "item_placed (o_ID n) c x"
      using pl list_all2_leftD unfolding order_placed_def by metis
    with bad_line_not_placed [OF ca(2)] assms(5) show False by blast
  qed
  with service_of(1) [OF assms(1) assms(3) [unfolded order_usecase_def] assms(2)] show ?thesis by blast
qed

definition demo_bad_request :: CreateOrderRequest where
  "demo_bad_request = demo_request\<lparr>cor_Items := [demo_item, demo_item\<lparr>oir_Quantity := 0\<rparr>]\<rparr>"

lemma bad_line_refused_witness:
  "mem_db (fst (OrderUsecase_CreateOrder mem_lib (order_usecase mem_lib) demo_bad_request demo_start)) empty_db
   \<and> no_response (snd (OrderUsecase_CreateOrder mem_lib (order_usecase mem_lib) demo_bad_request demo_start))"
  by (rule bad_line_refused [OF demo_system demo_db surjective_pairing, of "demo_item\<lparr>oir_Quantity := 0\<rparr>"])
    (simp_all add: demo_bad_request_def bad_line_def)

section \<open>Amounts\<close>

lemma f64_of_i32_finite: "0 \<le> sint q \<Longrightarrow> f64_nonneg (f64_of_i32 q) \<and> f64_finite (f64_of_i32 q)"
proof -
  assume q: "0 \<le> sint q"
  have "sint q < 2 ^ 53" using sint_i32_range [of q] by simp
  from f64_of_int_scaled [OF q this] q show ?thesis by (auto simp: f64_of_i32_def)
qed

lemma priced_line_amount:
  assumes "priced_line L (variantMap vs) item = Inr (c, a)"
    and "\<forall>v \<in> set vs. f64_nonneg (vi_SalePrice v) \<and> f64_finite (vi_SalePrice v)" and "0 \<le> sint (oir_Quantity item)"
  shows "f64_nonneg (coi_TotalPrice c)"
  using assms
  using f64_of_i32_finite
  by (auto elim!: priced_line_InrE dest!: variantMap_SomeD intro!: f64_mul_nonneg)

text \<open>
  C19. Amounts never come out negative: from prices and quantities that are not negative, the
  subtotal, the tax and the total are not negative, and the total is at least the subtotal.
\<close>

theorem amounts_not_negative:
  assumes "CreateOrder_command L req customerID variants = Inr cmd"
    and "\<forall>v \<in> set variants. f64_nonneg (vi_SalePrice v) \<and> f64_finite (vi_SalePrice v)"
    and "\<forall>item \<in> set (cor_Items req). 0 \<le> sint (oir_Quantity item)"
  shows "f64_nonneg (coc_ComputedSubtotal cmd) \<and> f64_nonneg (coc_ComputedTax cmd) \<and> f64_nonneg (coc_ComputedTotal cmd)
    \<and> f64_le (coc_ComputedSubtotal cmd) (coc_ComputedTotal cmd)"
proof -
  from assms(1) obtain ls where ls: "cmd = priced_order req customerID ls"
    "list_all2 (\<lambda>item l. priced_line L (variantMap variants) item = Inr l) (cor_Items req) ls"
    by (rule CreateOrder_command_InrE)
  have "f64_nonneg (coi_TotalPrice (fst l))" if "l \<in> set ls" for l
    using list_all2_rightD [OF ls(2) that] assms(2,3) priced_line_amount [of L variants _ "fst l" "snd l"] by auto
  then have "f64_ok (subtotal_from f64_zero (map fst ls)) \<and> f64_nonneg (subtotal_from f64_zero (map fst ls))"
    using subtotal_from_nonneg [of f64_zero "map fst ls"] by auto
  then show ?thesis
    by (simp add: ls(1) priced_order_def Let_def f64_mul_tenth_nonneg f64_add_nonneg f64_add_ge)
qed

lemma amounts_not_negative_witness:
  "f64_nonneg (coc_ComputedTotal demo_command) \<and> f64_le (coc_ComputedSubtotal demo_command) (coc_ComputedTotal demo_command)"
proof -
  have "f64_nonneg (f64_of_int 10) \<and> f64_finite (f64_of_int 10)" by (simp add: f64_10)
  with amounts_not_negative [OF demo_priced_command] show ?thesis
    by (simp add: variantInfo_def demo_variant_def demo_request_def demo_item_def)
qed

text \<open>
  C20. Whole prices lose nothing: when every price is a whole number and the sum stays below
  \<open>2 ^ 53\<close>, the subtotal is the exact sum of quantity times price.
\<close>

theorem whole_prices_exact:
  assumes "CreateOrder_command L req customerID variants = Inr cmd"
    and "\<forall>v \<in> set variants. vi_SalePrice v = f64_of_int (price (vi_ID v)) \<and> 0 \<le> price (vi_ID v) \<and> price (vi_ID v) < 2 ^ 53"
    and "\<forall>item \<in> set (cor_Items req). 0 \<le> sint (oir_Quantity item)"
    and "(\<Sum>item \<leftarrow> cor_Items req. sint (oir_Quantity item) * price (oir_VariantId item)) < 2 ^ 53"
  shows "coc_ComputedSubtotal cmd
    = f64_of_int (\<Sum>item \<leftarrow> cor_Items req. sint (oir_Quantity item) * price (oir_VariantId item))"
proof -
  let ?k = "\<lambda>item. sint (oir_Quantity item) * price (oir_VariantId item)"
  from assms(1) obtain ls where ls: "cmd = priced_order req customerID ls"
    "list_all2 (\<lambda>item l. priced_line L (variantMap variants) item = Inr l) (cor_Items req) ls"
    by (rule CreateOrder_command_InrE)
  have line: "coi_TotalPrice (fst l) = f64_of_int (?k item) \<and> 0 \<le> ?k item"
    if "priced_line L (variantMap variants) item = Inr l" "0 \<le> sint (oir_Quantity item)" for item l
  proof -
    obtain c a where l: "l = (c, a)" by (cases l)
    from that(1) [unfolded l] obtain v where v: "variantMap variants (oir_VariantId item) = Some v"
      "coi_TotalPrice c = f64_mul (f64_of_i32 (oir_Quantity item)) (vi_SalePrice v)"
      by (rule priced_line_InrE)
    from variantMap_SomeD [OF v(1)] assms(2) have
      p: "vi_SalePrice v = f64_of_int (price (oir_VariantId item))" "0 \<le> price (oir_VariantId item)"
        "price (oir_VariantId item) < 2 ^ 53" by auto
    have "sint (oir_Quantity item) < 2 ^ 53" using sint_i32_range [of "oir_Quantity item"] by simp
    with f64_mul_of_int [OF that(2) this p(2,3)] that(2) p(1,2) v(2) show ?thesis
      by (simp add: l f64_of_i32_def)
  qed
  have "list_all2 (\<lambda>c k. coi_TotalPrice c = f64_of_int k) (map fst ls) (map ?k (cor_Items req))"
    using ls(2) assms(3) line
    by (auto simp: list_all2_conv_all_nth)
  moreover have "\<forall>k \<in> set (map ?k (cor_Items req)). 0 \<le> k"
    using list_all2_leftD [OF ls(2)] assms(3) line by fastforce
  ultimately have "subtotal_from (f64_of_int 0) (map fst ls) = f64_of_int (0 + sum_list (map ?k (cor_Items req)))"
    using assms(4) by (intro subtotal_from_exact) simp_all
  then show ?thesis by (simp add: ls(1) priced_order_def Let_def f64_zero_int)
qed

lemma whole_prices_exact_witness: "coc_ComputedSubtotal demo_command = f64_of_int 20"
  using whole_prices_exact [OF demo_priced_command, of "\<lambda>_. 10"]
  by (simp add: variantInfo_def demo_variant_def demo_request_def demo_item_def)

section \<open>Pages\<close>

definition page_query :: "i32 \<Rightarrow> nat \<Rightarrow> ListOrdersQuery" where
  \<comment> \<open>page \<open>p + 1\<close> of pages of the requested size\<close>
  "page_query pageSize p =
     \<lparr>loq_Page = word_of_nat (p + 1), loq_PageSize = normalizedPageSize pageSize, loq_CustomerID = None,
      loq_Status = None, loq_CreatedAfter = None\<rparr>"

lemma sint_page: "p < 2 ^ 62 \<Longrightarrow> sint (word_of_nat (p + 1) :: i64) = int p + 1"
  using sint_i64_of_int [of "int p + 1"] by (simp add: add.commute)

text \<open>
  C21. The reported number of pages is the right one: cutting a list into the pages
  \<open>1 .. totalPages\<close>, with any requested page size, loses and repeats nothing, and no page
  is empty.
\<close>

theorem pages_partition:
  assumes "length xs < 2 ^ 31"
  shows "concat (map (\<lambda>p. page_of (page_query pageSize p) xs)
       [0..<nat (sint (totalPages (int_of_len xs) (normalizedPageSize pageSize)))]) = xs
    \<and> (\<forall>p < nat (sint (totalPages (int_of_len xs) (normalizedPageSize pageSize))). page_of (page_query pageSize p) xs \<noteq> [])"
proof -
  let ?s = "sint (normalizedPageSize pageSize)"
  define k where "k = nat ?s"
  define t where "t = nat (sint (totalPages (int_of_len xs) (normalizedPageSize pageSize)))"
  have s: "1 \<le> ?s" "?s \<le> 100" using normalizedPageSize_range by auto
  then have k: "0 < k" "?s = int k" by (auto simp: k_def)
  have n: "sint (int_of_len xs) = int (length xs)" using assms by (intro sint_int_of_len) simp
  have "sint (totalPages (int_of_len xs) (normalizedPageSize pageSize)) = (int (length xs) + int k - 1) div int k"
    using totalPages_ceiling [of "int_of_len xs" "normalizedPageSize pageSize"] n s k assms by simp
  also have "\<dots> = int ((length xs + k - 1) div k)"
    using k by (simp add: zdiv_int of_nat_diff)
  finally have t: "t = (length xs + k - 1) div k" by (simp add: t_def)
  have "t * k \<le> length xs + k - 1" by (simp add: t)
  moreover have "t * 1 \<le> t * k" using k(1) by (intro mult_le_mono2) simp
  ultimately have bound: "t \<le> length xs + k" by linarith
  have pg: "page_of (page_query pageSize p) xs = take k (drop (p * k) xs)" if "p < t" for p
  proof -
    have "k \<le> 100" using s k by linarith
    then have "p < 2 ^ 62" using that bound assms by simp
    then show ?thesis
      using sint_page [of p] by (simp add: page_of_def page_query_def k(2) add.commute flip: of_nat_mult)
  qed
  have "map (\<lambda>p. page_of (page_query pageSize p) xs) [0..<t] = map (\<lambda>p. take k (drop (p * k) xs)) [0..<t]"
    using pg by simp
  then have "concat (map (\<lambda>p. page_of (page_query pageSize p) xs) [0..<t]) = xs"
    using pages_cover [OF k(1), of xs] by (simp only: t)
  moreover have "page_of (page_query pageSize p) xs \<noteq> []" if "p < t" for p
  proof -
    have "(p + 1) * k \<le> length xs + k - 1"
      using that unfolding t by (metis Suc_eq_plus1 Suc_leI div_times_less_eq_dividend le_trans mult_le_mono1)
    then have "p * k < length xs" using k(1) by (simp add: algebra_simps)
    then show ?thesis using pg [OF that] k(1) by simp
  qed
  ultimately show ?thesis unfolding t_def by blast
qed

lemma pages_partition_witness:
  "concat (map (\<lambda>p. page_of (page_query 2 p) [1, 2, 3::nat])
       [0..<nat (sint (totalPages (int_of_len [1, 2, 3::nat]) (normalizedPageSize 2)))]) = [1, 2, 3]"
  using pages_partition [of "[1, 2, 3::nat]" 2] by simp

text \<open>
  C22. However wild the page number and page size of a request are, the query built from it has
  a positive page, a page size from 1 to 100, and an offset that does not wrap around.
\<close>

theorem page_bounds:
  assumes "ListOrders_query L req = Inr q"
  shows "1 \<le> sint (loq_Page q) \<and> 1 \<le> sint (loq_PageSize q) \<and> sint (loq_PageSize q) \<le> 100
    \<and> sint ((loq_Page q - 1) * loq_PageSize q) = (sint (loq_Page q) - 1) * sint (loq_PageSize q)"
  using list_offset [OF ListOrders_query_ok [OF assms]] ListOrders_query_ok [OF assms]
  by (simp add: query_ok_def)

lemma page_bounds_witness:
  "sint ((normalizedPage 2147483647 - 1) * normalizedPageSize 2147483647) = 2147483646 * 100"
  using page_bounds [of mem_lib "\<lparr>lor_Page = 2147483647, lor_PageSize = 2147483647, lor_CustomerId = [],
      lor_Status = pb_CREATED, lor_CreatedAfter = None\<rparr>" "\<lparr>loq_Page = normalizedPage 2147483647, loq_PageSize = normalizedPageSize 2147483647,
      loq_CustomerID = None, loq_Status = None, loq_CreatedAfter = None\<rparr>"]
  by (simp add: ListOrders_query_def Let_def normalizedPage_def normalizedPageSize_def int_of_i32_def)

section \<open>Wire forms\<close>

text \<open>
  Statuses survive the wire: every status of the service comes back from its protobuf
  number, and every known number from its status; anything else reads as \<open>CREATED\<close>.
\<close>

lemma status_wire_roundtrip:
  "fromProtoOrderStatus (toProtoOrderStatus s) = (if StatusValidator s then s else StatusCreated)
   \<and> toProtoOrderStatus (fromProtoOrderStatus p) = (if unat p \<le> 8 then p else pb_CREATED)"
proof -
  have "fromProtoOrderStatus (toProtoOrderStatus s) = (if StatusValidator s then s else StatusCreated)"
    by (simp add: toProtoOrderStatus_def StatusValidator_def fromProtoOrderStatus_def)
  moreover have "unat p \<le> 8 \<longleftrightarrow> p \<in> {0, 1, 2, 3, 4, 5, 6, 7, 8}"
  proof
    assume "unat p \<le> 8"
    then have "unat p \<in> set [0..<9]" by simp
    then have "p \<in> word_of_nat ` set [0..<9]" by (intro image_eqI [where x = "unat p"]) simp_all
    then show "p \<in> {0, 1, 2, 3, 4, 5, 6, 7, 8}" by (simp add: upt_rec)
  qed auto
  then have "toProtoOrderStatus (fromProtoOrderStatus p) = (if unat p \<le> 8 then p else pb_CREATED)"
    by (auto simp: toProtoOrderStatus_def fromProtoOrderStatus_def)
  ultimately show ?thesis ..
qed

text \<open>
  C23. What the other services write, this one reads back: every event of the saga decodes to
  the event that was encoded.
\<close>

theorem events_wire_roundtrip:
  assumes "avro_lib L"
  shows "(writeStockReductionSuccessEvent L e1 [] = Inr bs \<longrightarrow> DeserializeStockReductionSuccessEvent L bs = Inr e1)
    \<and> (writeStockReductionFailedEvent L e2 [] = Inr bs \<longrightarrow> DeserializeStockReductionFailedEvent L bs = Inr e2)
    \<and> (writePaymentSuccessEvent L e3 [] = Inr bs \<longrightarrow> DeserializePaymentSuccessEvent L bs = Inr e3)
    \<and> (writePaymentFailedEvent L e4 [] = Inr bs \<longrightarrow> DeserializePaymentFailedEvent L bs = Inr e4)"
  using avro_lib.stock_success_roundtrip [OF assms] avro_lib.stock_failed_roundtrip [OF assms]
    avro_lib.payment_success_roundtrip [OF assms] avro_lib.payment_failed_roundtrip [OF assms] by blast

lemma events_wire_roundtrip_witness:
  "\<exists>bs. writePaymentFailedEvent mem_lib \<lparr>pfe_Order_id = ''7'', pfe_Fail_reason = ''card''\<rparr> [] = Inr bs
     \<and> DeserializePaymentFailedEvent mem_lib bs = Inr \<lparr>pfe_Order_id = ''7'', pfe_Fail_reason = ''card''\<rparr>"
proof -
  obtain bs where bs: "writePaymentFailedEvent mem_lib \<lparr>pfe_Order_id = ''7'', pfe_Fail_reason = ''card''\<rparr> [] = Inr bs"
    by (simp add: writePaymentFailedEvent_def write_string_def)
  with events_wire_roundtrip [OF mem_avro.avro_lib_axioms] show ?thesis by blast
qed

section \<open>The workers\<close>

text \<open>
  Any number of ticks of the dispatcher and of polls of the consumer is a run of the steps of the
  system, so the properties of the runs hold of the loops of the workers as they are written.
\<close>

lemma ticks_steps:
  "dispatcher_ticks L disp n d = (d', p) \<Longrightarrow> system_steps L uc disp (d, Idle) (d', Idle)"
proof (induction n arbitrary: d)
  case (Suc n)
  obtain d1 p1 where f: "OutboxDispatcher_flush L disp d = (d1, p1)" by (cases "OutboxDispatcher_flush L disp d")
  note steps = flush_steps [OF f, of uc]
  show ?case
  proof (cases p1)
    case None
    then have "dispatcher_ticks L disp n d1 = (d', p)" using Suc.prems f by simp
    from Suc.IH [OF this] steps show ?thesis by (rule rtranclp_trans [rotated])
  qed (use Suc.prems f steps in simp)
qed simp

lemma polls_steps:
  "consumer_polls L uc n d = (d', p) \<Longrightarrow> system_steps L uc disp (d, w) (d', w)"
proof (induction n arbitrary: d)
  case (Suc n)
  obtain d1 ev where k: "kafka_Poll L d = (d1, ev)" by (cases "kafka_Poll L d")
  have poll: "system_step L uc disp (d, w) (d1, w)" by (rule system_step.poll [OF k])
  show ?case
  proof (cases "\<exists>m. ev = Some (EvMessage m)")
    case True
    then obtain m where m: "ev = Some (EvMessage m)" ..
    obtain d2 q where h: "OrderEventConsumer_handleMessage L uc m d1 = (d2, q)"
      by (cases "OrderEventConsumer_handleMessage L uc m d1")
    have "system_steps L uc disp (d, w) (d2, w)"
      using poll system_step.consume [OF h] by (meson converse_rtranclp_into_rtranclp r_into_rtranclp)
    moreover have "system_steps L uc disp (d2, w) (d', w)"
      using Suc k m h by (auto split: option.splits)
    ultimately show ?thesis by (rule rtranclp_trans)
  next
    case False
    then have "consumer_polls L uc n d1 = (d', p)"
      using Suc.prems k by (auto split: option.splits kafka_event.splits)
    from Suc.IH [OF this] poll show ?thesis by (rule converse_rtranclp_into_rtranclp [rotated])
  qed
qed simp

section \<open>The catalogue\<close>

text \<open>
  Of several catalogue entries with one id the last one prices the line, and an id the
  catalogue does not answer is refused by name.
\<close>

theorem variant_lookup:
  "variantMap vs (oir_VariantId item) = find (\<lambda>v. vi_ID v = oir_VariantId item) (rev vs)
   \<and> (oir_VariantId item \<in> vi_ID ` set vs
      \<or> CreateOrder_item L (variantMap vs) item acc
          = Inl (GrpcStatus InvalidArgument (''variant ID '' @ oir_VariantId item @ '' not found'') None))"
proof -
  have "CreateOrder_item L (variantMap vs) item acc
      = Inl (GrpcStatus InvalidArgument (''variant ID '' @ oir_VariantId item @ '' not found'') None)"
    if "oir_VariantId item \<notin> vi_ID ` set vs"
    using that variantMap_None [of vs "oir_VariantId item"] by (cases acc) (simp add: CreateOrder_item_def)
  then show ?thesis by (auto simp: variantMap_find)
qed

end
