(* ===== verification/Progress.thy ===== *)
theory Progress
  imports OrderProperties
begin

text \<open>
  Progress: when the database answers and the broker accepts, the dispatcher does not merely
  keep the outbox safe, it empties it.
\<close>

subsection \<open>A database that answers\<close>

locale platform_up = order_platform L committed view tr + sql_engine_up L committed view tr
  for L :: "('d, 'z) svc_lib_scheme" and committed view tr
begin

lemma outbox_target_unique:
  assumes R: "represents t A" and x: "x \<in> set (t outboxevent_Table)" "x FieldID = VUUID i"
    and y: "y \<in> set (t outboxevent_Table)" "y FieldID = VUUID i"
  shows "y = x"
proof -
  have "distinct (map (\<lambda>r. r FieldID) (t outboxevent_Table))"
    using R unfolding represents_ids(3) [OF R]
    by (auto simp: represents_def db_keys_def distinct_map inj_on_def)
  then have "inj_on (\<lambda>r. r FieldID) (set (t outboxevent_Table))" by (simp add: distinct_map)
  then show ?thesis by (rule inj_onD) (use x y in simp_all)
qed

lemma mark_save_up:
  assumes save: "OutboxEventUpdateOne_Save L u d = (d', r)" and drv: "bu_driver u = BaseDriver"
    and cols: "bu_fields u = []" and id: "bm_id (bu_mutation u) = Some i"
    and preds: "bm_predicates (bu_mutation u) = []"
    and A: "db_state committed view BaseDriver d A" and i: "i \<in> ob_ID ` set (db_outbox A)"
  shows "r \<in> range Inr"
proof -
  obtain d1 u1 where def1: "OutboxEventUpdateOne_defaults L u d = (d1, u1)"
    by (cases "OutboxEventUpdateOne_defaults L u d")
  from OutboxEventUpdateOne_defaults [OF this]
  have same: "same_db committed view d d1" and u1: "bu_driver u1 = BaseDriver" "bu_fields u1 = []"
    "bm_id (bu_mutation u1) = Some i" "bm_predicates (bu_mutation u1) = []"
    using drv cols id preds by (auto simp: ent_defs split: if_splits)
  let ?us = "OutboxEventUpdateOne_updateSpec i outboxevent_Columns u1"
  have A1: "db_state committed view BaseDriver d1 A" using A same by (simp add: same_db_state)
  then have R: "represents (committed d1) A" by (simp add: db_state_def tables_of_def)
  have us: "us_Table ?us = outboxevent_Table" "us_ID ?us = Some i" "us_ScanValues ?us = OutboxEvent_scanValues"
    "us_Columns ?us = outboxevent_Columns"
    "us_Assign ?us = (\<lambda>cols vs. error_of (OutboxEvent_assignValues cols vs zero_OutboxEvent))"
    by (simp_all add: OutboxEventUpdateOne_updateSpec_def Let_def)
  have plain: "plain_update ?us"
    using u1(4)
    by (auto simp: plain_update_def OutboxEventUpdateOne_updateSpec_def Let_def ent_defs
        spec_field_def split: option.splits)
  from i obtain e where e: "e \<in> set (db_outbox A)" "ob_ID e = i" by auto
  from list_all2_leftD [OF _ e(1), of outbox_repr "committed d1 outboxevent_Table"] R obtain x where
    x: "x \<in> set (committed d1 outboxevent_Table)" "outbox_repr e x" by (auto simp: represents_def)
  have xi: "x FieldID = VUUID i" using outbox_cell(1) [OF x(2)] e(2) by simp
  obtain vs where vs: "scan_row OutboxEvent_scanValues outboxevent_Columns (update_row tr ?us x) = Some vs"
    "OutboxEvent_assignValues outboxevent_Columns vs zero_OutboxEvent = Inr (outbox_updated tr (bu_mutation u1) e)"
    using outbox_scan [OF OutboxEventUpdateOne_spec [OF x(2)]] by blast
  have "snd (sqlgraph_UpdateNode L BaseDriver ?us d1) = Inr vs"
  proof (rule update_up [OF _ plain, where x = x])
    show "tables_of committed view BaseDriver d1 = Some (committed d1)" by (simp add: tables_of_def)
    show "is_target ?us x" using us xi by (simp add: is_target_def)
    show "y = x" if "y \<in> set (committed d1 (us_Table ?us))" "is_target ?us y" for y
      using that us by (intro outbox_target_unique [OF R x(1) xi]) (auto simp: is_target_def)
  qed (use x(1) vs us in \<open>simp_all add: error_of_def\<close>)
  then have "snd (OutboxEventUpdateOne_sqlSave L u1 d1) = Inr (outbox_updated tr (bu_mutation u1) e)"
    using u1 vs(2)
    by (cases "sqlgraph_UpdateNode L BaseDriver ?us d1")
      (simp add: OutboxEventUpdateOne_sqlSave_def OutboxEventUpdateOne_columns_def ent_defs)
  then show ?thesis using save def1 by (simp add: OutboxEventUpdateOne_Save_def)
qed

lemma mark_up:
  assumes M: "OrderRepo_MarkOutboxProcessed L i d = (d', rm)" and Q: "quiet_db committed view d A"
    and i: "i \<in> ob_ID ` set (db_outbox A)"
  shows "rm = None \<and> (\<exists>ua. quiet_db committed view d' (mark_processed tr ua i A))"
proof -
  let ?u = "OutboxEventUpdateOne_SetProcessed True (OutboxEventClient_UpdateOneID BaseDriver i)"
  obtain d1 rs where V: "OutboxEventUpdateOne_Save L ?u d = (d1, rs)" by (metis surj_pair)
  have S: "db_state committed view BaseDriver d A" using Q by (simp add: quiet_db_def)
  have "rs \<in> range Inr"
    by (rule mark_save_up [OF V _ _ _ _ S i]) (simp_all add: ent_defs newOutboxEventMutation_def)
  then have "rm = None" using M V by (auto simp: OrderRepo_MarkOutboxProcessed_def)
  with MarkOutboxProcessed_refines [OF M Q] show ?thesis by auto
qed

lemma pending_query_up:
  assumes b: "0 \<le> sint b" and A: "db_state committed view BaseDriver d A"
  shows "snd (OutboxEventQuery_All L
     (OutboxEventQuery_Limit b (OutboxEventQuery_Order (ent_Asc [FieldCreatedAt])
       (OutboxEventQuery_Where [outboxevent_ProcessedEQ False] (OutboxEventClient_Query BaseDriver)))) d) \<in> range Inr"
    (is "snd (OutboxEventQuery_All L ?q d) \<in> _")
proof -
  let ?qs = "OutboxEventQuery_querySpec ?q"
  have cols: "qs_Columns ?qs = outboxevent_Columns" "qs_ScanValues ?qs = OutboxEvent_scanValues"
    "qs_Limit ?qs = b" "qs_Offset ?qs = 0" "qs_Order ?qs = [OrderAsc FieldCreatedAt]"
    "qs_Predicates ?qs = [outboxevent_ProcessedEQ False]" "qs_Table ?qs = outboxevent_Table"
    "bq_driver ?q = BaseDriver" "bq_order ?q = [OrderAsc FieldCreatedAt]"
    by (simp_all add: OutboxEventQuery_querySpec_def OutboxEventQuery_Limit_def OutboxEventQuery_Order_def
        OutboxEventQuery_Where_def OutboxEventClient_Query_def ent_Asc_def)
  have prep: "OutboxEventQuery_prepareQuery ?q = Inr ()"
    "order_terms_check outboxevent_ValidColumn [OrderAsc FieldCreatedAt] = Inr ()"
    by (simp_all add: OutboxEventQuery_prepareQuery_def OutboxEventQuery_Limit_def OutboxEventQuery_Order_def
        OutboxEventQuery_Where_def OutboxEventClient_Query_def order_terms_check_def term_column_def
        outboxevent_ValidColumn_def outboxevent_Columns_def)
  have plain: "plain_pred (outboxevent_ProcessedEQ False)" by (simp add: outboxevent_ProcessedEQ_def)
  from A have t: "tables_of committed view BaseDriver d = Some (committed d)" "represents (committed d) A"
    by (auto simp: db_state_def tables_of_def)
  have R: "list_all2 outbox_repr (db_outbox A) (committed d (qs_Table ?qs))" using t(2) by (simp add: represents_def cols)
  have "\<exists>x. s FieldCreatedAt = VTime x" if "s \<in> set (committed d outboxevent_Table)" for s
    using list_all2_rightD [OF R] that outbox_cell(2) by (fastforce simp: cols)
  then have simple: "simple_query ?qs (committed d)"
    using b plain by (simp add: simple_query_def cols term_column_def)
  have "scan_row (qs_ScanValues ?qs) (qs_Columns ?qs) x \<noteq> None" if "x \<in> set (committed d (qs_Table ?qs))" for x
    using list_all2_rightD [OF R that] outbox_scan unfolding cols by fastforce
  with query_up [OF t(1) simple] obtain d1 vss where Q: "sqlgraph_QueryNodes L BaseDriver ?qs d = (d1, Inr vss)"
    by (metis prod.collapse)
  from query_ok [OF Q t(1) simple] obtain rows where rows: "answers tr ?qs (committed d) rows"
    and vss: "map (scan_row OutboxEvent_scanValues outboxevent_Columns) (page b 0 rows) = map Some vss"
    by (auto simp: cols)
  have "row_matches tr (outboxevent_ProcessedEQ False) s \<longleftrightarrow> \<not> ob_Processed n"
    if "outbox_repr n s" for n s
    using outbox_cell [OF that] by (auto simp: outboxevent_ProcessedEQ_def)
  then have "\<exists>es. mset es = mset (filter (\<lambda>e. \<forall>p \<in> set (qs_Predicates ?qs). \<not> ob_Processed e) (db_outbox A))
      \<and> (\<forall>ot \<in> set (qs_Order ?qs). sorted_wrt (\<lambda>e f. ob_CreatedAt e \<le> ob_CreatedAt f) es)
      \<and> list_all2 outbox_repr es rows"
    by (intro answers_represent [OF R rows]) (auto simp: cols outbox_cell term_le_def)
  then obtain es where R': "list_all2 outbox_repr es rows" by blast
  show ?thesis
    using prep scan_loop [OF list_all2_page [OF R'] vss, of "\<lambda>vs. OutboxEvent_assignValues _ vs zero_OutboxEvent" id "[]"]
      outbox_scan
    by (simp add: OutboxEventQuery_All_def OutboxEventQuery_sqlAll_def Let_def cols Q)
qed

lemma pending_up:
  assumes "OrderRepo_ListPendingOutbox L b d = (d', rp)" and "quiet_db committed view d A" and "0 < sint b"
  shows "rp \<in> range Inr"
  using pending_query_up [of b d A] assms
  by (auto simp: OrderRepo_ListPendingOutbox_def ent_result_def quiet_db_def split: prod.splits)

end

subsection \<open>The dispatcher empties the outbox\<close>

definition pending_ids :: "order_db \<Rightarrow> uuid set" where
  "pending_ids A = ob_ID ` {e \<in> set (db_outbox A). \<not> ob_Processed e}"

lemma pending_ids_filter: "pending_ids A = set (map ob_ID (filter (\<lambda>e. \<not> ob_Processed e) (db_outbox A)))"
  by (auto simp: pending_ids_def)

lemma pending_ids_marked [simp]: "pending_ids (mark_processed tr ua i A) = pending_ids A - {i}"
proof (intro set_eqI iffI)
  show "k \<in> pending_ids A - {i}" if "k \<in> pending_ids (mark_processed tr ua i A)" for k
    using that by (auto simp: pending_ids_def mark_processed_def split: if_splits)
  show "k \<in> pending_ids (mark_processed tr ua i A)" if "k \<in> pending_ids A - {i}" for k
  proof -
    from that obtain e where e: "e \<in> set (db_outbox A)" "\<not> ob_Processed e" "ob_ID e = k" "k \<noteq> i"
      by (auto simp: pending_ids_def)
    then have "e \<in> set (db_outbox (mark_processed tr ua i A))" by (force simp: mark_processed_def)
    with e show ?thesis by (auto simp: pending_ids_def)
  qed
qed

lemma marked_ids: "ob_ID ` set (db_outbox (mark_processed tr ua i A)) = ob_ID ` set (db_outbox A)"
  by (metis list.set_map mark_processed_simps(4))

locale healthy_system = order_system L committed view tr sent acked + platform_up L committed view tr
  for L :: "('d, 'z) svc_lib_scheme" and committed view tr sent acked +
  assumes produce_up: "km_Error m = None \<Longrightarrow> \<exists>d' m'. kafka_Produce L m d = (d', Inr (EvMessage m')) \<and> km_Error m' = None"
begin

lemma publish_up:
  assumes "publish_event L e d = (d', r)" and "quiet_db committed view d A"
  shows "r = None \<and> quiet_db committed view d' A"
proof -
  let ?m = "producer_message L (ob_EventType e) (uuid_String L (ob_AggregateID e)) (ob_Payload e)"
  obtain d1 m' where "kafka_Produce L ?m d = (d1, Inr (EvMessage m'))" "km_Error m' = None"
    using produce_up [of ?m d] by (auto simp: producer_message_def)
  then show ?thesis
    using assms produce_db [OF assms(2)] by (auto simp: publish_event_def KafkaProducer_Publish_def)
qed

lemma flush_events_up:
  assumes "OutboxDispatcher_flush_events L disp es d = (d', p)" and "obd_repo disp = NewOrderRepo L"
    and "quiet_db committed view d A" and "ob_ID ` set es \<subseteq> ob_ID ` set (db_outbox A)"
  shows "p = None \<and> (\<exists>A'. quiet_db committed view d' A' \<and> pending_ids A' = pending_ids A - ob_ID ` set es)"
  using assms(1,3,4)
proof (induction es arbitrary: d A)
  case (Cons e es)
  obtain d1 r where pub: "publish_event L e d = (d1, r)" by (cases "publish_event L e d")
  from publish_up [OF pub Cons.prems(2)] have r: "r = None" and A1: "quiet_db committed view d1 A" by auto
  obtain d2 rm where mk: "OrderRepo_MarkOutboxProcessed L (ob_ID e) d1 = (d2, rm)"
    by (cases "OrderRepo_MarkOutboxProcessed L (ob_ID e) d1")
  have "ob_ID e \<in> ob_ID ` set (db_outbox A)" using Cons.prems(3) by simp
  from mark_up [OF mk A1 this] obtain ua where A2: "quiet_db committed view d2 (mark_processed tr ua (ob_ID e) A)" by blast
  have "OutboxDispatcher_flush_events L disp es d2 = (d', p)"
    using Cons.prems(1) pub r mk assms(2) by (simp add: NewOrderRepo_def)
  from Cons.IH [OF this A2] Cons.prems(3) show ?case by (auto simp: marked_ids)
qed auto

lemma flush_up:
  assumes run: "OutboxDispatcher_flush L (order_dispatcher L interval batch) d = (d', p)"
    and A: "quiet_db committed view d A" and batch: "0 < sint batch"
  shows "p = None \<and> (\<exists>A'. quiet_db committed view d' A' \<and> pending_ids A' \<subseteq> pending_ids A
     \<and> card (pending_ids A') = card (pending_ids A) - nat (sint batch))"
proof -
  obtain d1 rp where l: "OrderRepo_ListPendingOutbox L batch d = (d1, rp)"
    by (cases "OrderRepo_ListPendingOutbox L batch d")
  from pending_up [OF l A batch] obtain res where rp: "rp = Inr res" by blast
  note P = ListPendingOutbox_refines [OF l A batch]
  from P(2) [OF rp] obtain es where es: "mset es = mset (filter (\<lambda>e. \<not> ob_Processed e) (db_outbox A))"
    "res = take (nat (sint batch)) es" by blast
  have keys: "distinct (map ob_ID (db_outbox A))"
    using A by (auto simp: quiet_db_def db_state_def represents_def db_keys_def)
  then have "distinct (map ob_ID (filter (\<lambda>e. \<not> ob_Processed e) (db_outbox A)))" by (rule distinct_map_filter)
  moreover have m: "mset (map ob_ID es) = mset (map ob_ID (filter (\<lambda>e. \<not> ob_Processed e) (db_outbox A)))"
    using es(1) by simp
  ultimately have dist: "distinct (map ob_ID es)" using mset_eq_imp_distinct_iff by blast
  have ids: "pending_ids A = set (map ob_ID es)" using mset_eq_setD [OF m] by (simp add: pending_ids_filter)
  have run1: "OutboxDispatcher_flush_events L (order_dispatcher L interval batch) res d1 = (d', p)"
    using run l rp by (simp add: OutboxDispatcher_flush_def order_dispatcher_def NewOutboxDispatcher_def NewOrderRepo_def)
  have "ob_ID ` set res \<subseteq> ob_ID ` set (db_outbox A)"
    using ids es(2) unfolding pending_ids_def by (auto dest!: in_set_takeD)
  with flush_events_up [OF run1 _ P(1)] obtain A' where p: "p = None" and A': "quiet_db committed view d' A'"
    "pending_ids A' = pending_ids A - ob_ID ` set res"
    by (auto simp: order_dispatcher_def NewOutboxDispatcher_def)
  have "pending_ids A' = set (drop (nat (sint batch)) (map ob_ID es))"
  proof -
    have "set (map ob_ID es) - set (take k (map ob_ID es)) = set (drop k (map ob_ID es))" for k
      using dist set_take_disj_set_drop_if_distinct [OF dist order_refl, of k]
      by (metis Diff_cancel Un_Diff append_take_drop_id set_append Diff_triv Int_commute sup_bot.left_neutral)
    then show ?thesis using A'(2) ids es(2) by (metis list.set_map take_map)
  qed
  then have "card (pending_ids A') = card (pending_ids A) - nat (sint batch)"
    using dist ids by (simp only: distinct_card distinct_drop length_drop)
  then show ?thesis using p A' by blast
qed

lemma ticks_up:
  assumes "dispatcher_ticks L (order_dispatcher L interval batch) n d = (d', p)"
    and "quiet_db committed view d A" and "0 < sint batch"
  shows "p = None \<and> (\<exists>A'. quiet_db committed view d' A' \<and> pending_ids A' \<subseteq> pending_ids A
     \<and> card (pending_ids A') = card (pending_ids A) - n * nat (sint batch))"
  using assms(1,2)
proof (induction n arbitrary: d A)
  case (Suc n)
  obtain d1 p1 where f: "OutboxDispatcher_flush L (order_dispatcher L interval batch) d = (d1, p1)"
    by (cases "OutboxDispatcher_flush L (order_dispatcher L interval batch) d")
  from flush_up [OF f Suc.prems(2) assms(3)] obtain A1 where A1: "p1 = None" "quiet_db committed view d1 A1"
    "pending_ids A1 \<subseteq> pending_ids A" "card (pending_ids A1) = card (pending_ids A) - nat (sint batch)" by blast
  have "dispatcher_ticks L (order_dispatcher L interval batch) n d1 = (d', p)"
    using Suc.prems(1) f A1(1) by simp
  from Suc.IH [OF this A1(2)] A1 show ?case by auto
qed auto

end

interpretation mem_up: platform_up mem_lib mem_tables mem_view micros
  by unfold_locales

interpretation mem_healthy: healthy_system mem_lib mem_tables mem_view micros mem_sent mem_acked
  by unfold_locales (simp add: mem_produce_def)

text \<open>
  C4. The outbox drains: with a database that answers and a broker that accepts, \<open>n\<close> ticks of
  a dispatcher with batches of \<open>b\<close> leave none of up to \<open>n * b\<close> pending events pending, and the
  dispatcher never panics.
\<close>

theorem outbox_drains:
  assumes "healthy_system L committed view tr sent acked" and "quiet_db committed view d A"
    and "0 < sint interval" and "0 < sint batch" and "card (pending_ids A) \<le> n * nat (sint batch)"
    and "OutboxDispatcher_Start L (order_dispatcher L interval batch) n d = (d', p)"
  shows "p = None \<and> (\<exists>A'. quiet_db committed view d' A' \<and> pending_ids A' = {})"
proof -
  have "obd_interval (order_dispatcher L interval batch) = interval"
    by (simp add: order_dispatcher_def NewOutboxDispatcher_def)
  then have run: "dispatcher_ticks L (order_dispatcher L interval batch) n d = (d', p)"
    using assms(3,6) unfolding OutboxDispatcher_Start_def by (simp only: not_le [symmetric] if_False)
  obtain A' where A': "p = None" "quiet_db committed view d' A'"
      "card (pending_ids A') = card (pending_ids A) - n * nat (sint batch)"
    using healthy_system.ticks_up [OF assms(1) run assms(2,4)] by (elim conjE exE) (rule that)
  have "finite (pending_ids A')" by (simp add: pending_ids_filter)
  moreover have "card (pending_ids A') = 0" using A'(3) assms(5) by (simp only: diff_is_0_eq)
  ultimately have "pending_ids A' = {}" using card_0_eq by blast
  with A'(1,2) show ?thesis by blast
qed

lemma outbox_drains_witness:
  "\<exists>A. mem_db (fst (OutboxDispatcher_Start mem_lib (order_dispatcher mem_lib 5000000000 20) 1 demo_placed)) A
     \<and> pending_ids A = {}"
proof -
  from demo_placed_db obtain A where A: "mem_db demo_placed A" "length (db_outbox A) = 1" by blast
  have "card (pending_ids A) \<le> length (filter (\<lambda>e. \<not> ob_Processed e) (db_outbox A))"
    unfolding pending_ids_filter by (metis card_length length_map)
  also have "\<dots> \<le> 1" using A(2) length_filter_le [of _ "db_outbox A"] by metis
  finally have "card (pending_ids A) \<le> 1 * nat (sint (20 :: i64))" by simp
  from outbox_drains [OF mem_healthy.healthy_system_axioms A(1) _ _ this surjective_pairing]
  show ?thesis by auto
qed

end
