(* ===== verification/Refusals.thy ===== *)
theory Refusals
  imports Progress
begin

text \<open>
  A broker that refuses some messages (too large, a topic without permission): the dispatcher
  goes on with the events behind a refused one, so that all others are delivered, but the refused
  events come back first in every batch, and once they fill it nothing else is published any more.
\<close>

section \<open>Refused events\<close>

definition refused_ids :: "('d, 'z) svc_lib_scheme \<Rightarrow> (kafka_message \<Rightarrow> bool) \<Rightarrow> order_db \<Rightarrow> uuid set" where
  "refused_ids L accepts A =
     ob_ID ` {e \<in> set (db_outbox A). \<not> ob_Processed e \<and> \<not> accepts (event_kafka L e)}"

lemma refused_pending: "refused_ids L accepts A \<subseteq> pending_ids A"
  by (auto simp: refused_ids_def pending_ids_def)

lemma refused_ids_filter:
  "refused_ids L accepts A
     = set (map ob_ID (filter (\<lambda>e. \<not> ob_Processed e \<and> \<not> accepts (event_kafka L e)) (db_outbox A)))"
  by (auto simp: refused_ids_def)

lemma finite_pending: "finite (pending_ids A)"
  by (simp add: pending_ids_filter)

lemma outbox_by_id:
  "db_keys A \<Longrightarrow> e \<in> set (db_outbox A) \<Longrightarrow> f \<in> set (db_outbox A) \<Longrightarrow> ob_ID e = ob_ID f \<Longrightarrow> e = f"
  by (auto simp: db_keys_def distinct_map dest: inj_onD)

lemma refused_id_iff:
  assumes "db_keys A" and "e \<in> set (db_outbox A)" and "\<not> ob_Processed e"
  shows "ob_ID e \<in> refused_ids L accepts A \<longleftrightarrow> \<not> accepts (event_kafka L e)"
proof
  assume "ob_ID e \<in> refused_ids L accepts A"
  then obtain f where f: "f \<in> set (db_outbox A)" "ob_ID f = ob_ID e" "\<not> accepts (event_kafka L f)"
    by (auto simp: refused_ids_def)
  with outbox_by_id [OF assms(1,2) f(1)] show "\<not> accepts (event_kafka L e)" by simp
qed (use assms in \<open>auto simp: refused_ids_def\<close>)

lemma refused_ids_marked: "refused_ids L accepts (mark_processed tr ua i A) = refused_ids L accepts A - {i}"
proof (intro set_eqI iffI)
  show "k \<in> refused_ids L accepts A - {i}" if "k \<in> refused_ids L accepts (mark_processed tr ua i A)" for k
    using that by (auto simp: refused_ids_def mark_processed_def split: if_splits)
  show "k \<in> refused_ids L accepts (mark_processed tr ua i A)" if "k \<in> refused_ids L accepts A - {i}" for k
  proof -
    from that obtain e where e: "e \<in> set (db_outbox A)" "\<not> ob_Processed e" "\<not> accepts (event_kafka L e)" "ob_ID e = k" "k \<noteq> i"
      by (auto simp: refused_ids_def)
    then have "e \<in> set (db_outbox (mark_processed tr ua i A))" by (force simp: mark_processed_def)
    with e show ?thesis by (auto simp: refused_ids_def)
  qed
qed

lemma other_event_stays: "e \<in> set (db_outbox A) \<Longrightarrow> ob_ID e \<noteq> i \<Longrightarrow> e \<in> set (db_outbox (mark_processed tr ua i A))"
  by (force simp: mark_processed_def)

text \<open>The batch is a part of the pending events; what it leaves of those the broker takes.\<close>

lemma batch_progress:
  assumes "finite X" and "R \<subseteq> X" and "B \<subseteq> X" and "min b (card X) \<le> card B"
  shows "card (X - B - R) \<le> card (X - R) - (b - card R)"
proof -
  have fin: "finite B" "finite R" using assms finite_subset by auto
  have "card B - card R \<le> card (B - R)" using fin by (simp add: diff_card_le_card_Diff)
  moreover have "X - B - R = (X - R) - (B - R)" by auto
  then have "card (X - B - R) = card (X - R) - card (B - R)"
    using assms(3) fin by (metis card_Diff_subset Diff_mono finite_Diff order_refl)
  moreover have "card (X - R) = card X - card R" using assms fin by (simp add: card_Diff_subset)
  ultimately show ?thesis using assms(4) by linarith
qed

lemma batch_card:
  assumes "distinct (map f es)"
  shows "card (f ` set (take b es)) = min b (card (f ` set es))"
proof -
  have "distinct (map f (take b es))" using assms by (simp add: take_map [symmetric])
  then have "card (f ` set (take b es)) = length (take b es)" by (metis distinct_card length_map list.set_map)
  moreover have "card (f ` set es) = length es" using assms by (metis distinct_card length_map list.set_map)
  ultimately show ?thesis by simp
qed

lemma older_before:
  fixes c :: "'a \<Rightarrow> 'b :: linorder"
  assumes "sorted_wrt (\<lambda>e f. c e \<le> c f) es" and "k < length es"
  shows "length (filter (\<lambda>f. Q f \<and> c f < c (es ! k)) es) \<le> k"
proof -
  have "c (es ! k) \<le> c (es ! j)" if "k \<le> j" "j < length es" for j
    using assms that by (cases "k = j") (auto simp: sorted_wrt_iff_nth_less)
  then have "filter (\<lambda>f. Q f \<and> c f < c (es ! k)) (drop k es) = []"
    by (auto simp: filter_empty_conv in_set_conv_nth not_less)
  then have "filter (\<lambda>f. Q f \<and> c f < c (es ! k)) es = filter (\<lambda>f. Q f \<and> c f < c (es ! k)) (take k es)"
    by (metis append_Nil2 append_take_drop_id filter_append)
  then have "length (filter (\<lambda>f. Q f \<and> c f < c (es ! k)) es) \<le> length (take k es)" by (simp only: length_filter_le)
  then show ?thesis using assms(2) by (simp only: length_take min.absorb2 less_imp_le)
qed

locale choosy_broker = platform_up L committed view tr
  for L :: "('d, 'z) svc_lib_scheme" and committed view tr +
  fixes accepts :: "kafka_message \<Rightarrow> bool"
  assumes produce_keeps: "quiet_db committed view d A \<Longrightarrow> kafka_Produce L m d = (d', rp) \<Longrightarrow> quiet_db committed view d' A"
    and accepted: "accepts m \<Longrightarrow> \<exists>d' m'. kafka_Produce L m d = (d', Inr (EvMessage m')) \<and> km_Error m' = None"
    and refused: "\<not> accepts m \<Longrightarrow> (\<exists>d' e. kafka_Produce L m d = (d', Inl e))
        \<or> (\<exists>d' m'. kafka_Produce L m d = (d', Inr (EvMessage m')) \<and> km_Error m' \<noteq> None)"
begin

lemma publish_choosy:
  assumes "publish_event L e d = (d', r)" and "quiet_db committed view d A"
  shows "quiet_db committed view d' A"
    and "accepts (event_kafka L e) \<Longrightarrow> r = None"
    and "\<not> accepts (event_kafka L e) \<Longrightarrow> \<exists>x. r = Some (KafkaErr x)"
proof -
  obtain d1 rp where p: "kafka_Produce L (event_kafka L e) d = (d1, rp)" by (cases "kafka_Produce L (event_kafka L e) d")
  have run: "(d', r) = (case rp of Inl err \<Rightarrow> (d1, Some (KafkaErr err))
      | Inr event \<Rightarrow> (case event of EvMessage m \<Rightarrow> (d1, map_option KafkaErr (km_Error m))
           | _ \<Rightarrow> (d1, Some (GoPanic ''interface conversion''))))"
    using assms(1) p by (simp add: publish_event_def KafkaProducer_Publish_def event_kafka_def)
  then have "d' = d1" by (auto split: sum.splits kafka_event.splits)
  then show "quiet_db committed view d' A" using produce_keeps [OF assms(2) p] by simp
  show "r = None" if "accepts (event_kafka L e)" using accepted [OF that, of d] p run by auto
  show "\<exists>x. r = Some (KafkaErr x)" if "\<not> accepts (event_kafka L e)" using refused [OF that, of d] p run by auto
qed

lemma flush_events_choosy:
  assumes "OutboxDispatcher_flush_events L disp es d = (d', p)" and "obd_repo disp = NewOrderRepo L"
    and "quiet_db committed view d A" and "set es \<subseteq> set (db_outbox A)" and "distinct (map ob_ID es)"
  shows "p = None \<and> (\<exists>A'. quiet_db committed view d' A'
    \<and> pending_ids A' = pending_ids A - ob_ID ` {e \<in> set es. accepts (event_kafka L e)}
    \<and> refused_ids L accepts A' = refused_ids L accepts A - ob_ID ` {e \<in> set es. accepts (event_kafka L e)}
    \<and> ((\<forall>e \<in> set es. \<not> accepts (event_kafka L e)) \<longrightarrow> A' = A))"
  using assms(1,3-5)
proof (induction es arbitrary: d A)
  case (Cons e es)
  obtain d1 r where pub: "publish_event L e d = (d1, r)" by (cases "publish_event L e d")
  note P = publish_choosy [OF pub Cons.prems(2)]
  show ?case
  proof (cases "accepts (event_kafka L e)")
    case True
    obtain d2 rm where mk: "OrderRepo_MarkOutboxProcessed L (ob_ID e) d1 = (d2, rm)"
      by (cases "OrderRepo_MarkOutboxProcessed L (ob_ID e) d1")
    from mark_up [OF mk P(1)] Cons.prems(3) obtain ua where
      A2: "quiet_db committed view d2 (mark_processed tr ua (ob_ID e) A)" by auto
    have "set es \<subseteq> set (db_outbox (mark_processed tr ua (ob_ID e) A))"
      using Cons.prems(3,4) by (auto intro!: other_event_stays simp: image_iff)
    moreover have "OutboxDispatcher_flush_events L disp es d2 = (d', p)"
      using Cons.prems(1) pub P(2) [OF True] mk assms(2) by (simp add: NewOrderRepo_def)
    ultimately have "p = None \<and> (\<exists>A'. quiet_db committed view d' A'
        \<and> pending_ids A' = pending_ids A - {ob_ID e} - ob_ID ` {e \<in> set es. accepts (event_kafka L e)}
        \<and> refused_ids L accepts A' = refused_ids L accepts A - {ob_ID e} - ob_ID ` {e \<in> set es. accepts (event_kafka L e)})"
      using Cons.IH [OF _ A2] Cons.prems(4) by (simp add: refused_ids_marked) blast
    moreover have "{x \<in> set (e # es). accepts (event_kafka L x)} = insert e {x \<in> set es. accepts (event_kafka L x)}"
      using True by auto
    ultimately show ?thesis using True by (simp add: Diff_insert2 [symmetric])
  next
    case False
    from P(3) [OF False] obtain x where "r = Some (KafkaErr x)" ..
    then have run: "OutboxDispatcher_flush_events L disp es d1 = (d', p)" using Cons.prems(1) pub by simp
    have "{x \<in> set (e # es). accepts (event_kafka L x)} = {x \<in> set es. accepts (event_kafka L x)}" using False by auto
    then show ?thesis using Cons.IH [OF run P(1)] Cons.prems(3,4) False by simp
  qed
qed auto

lemma batch_listed:
  assumes run: "OutboxDispatcher_flush L (order_dispatcher L interval batch) d = (d', p)"
    and A: "quiet_db committed view d A" and batch: "0 < sint batch"
  obtains d1 es where "quiet_db committed view d1 A"
    "mset es = mset (filter (\<lambda>e. \<not> ob_Processed e) (db_outbox A))" "distinct (map ob_ID es)"
    "sorted_wrt (\<lambda>e f. ob_CreatedAt e \<le> ob_CreatedAt f) es"
    "OutboxDispatcher_flush_events L (order_dispatcher L interval batch) (take (nat (sint batch)) es) d1 = (d', p)"
proof -
  obtain d1 rp where l: "OrderRepo_ListPendingOutbox L batch d = (d1, rp)"
    by (cases "OrderRepo_ListPendingOutbox L batch d")
  from pending_up [OF l A batch] obtain res where rp: "rp = Inr res" by blast
  note P = ListPendingOutbox_refines [OF l A batch]
  from P(2) [OF rp] obtain es where es: "mset es = mset (filter (\<lambda>e. \<not> ob_Processed e) (db_outbox A))"
    "sorted_wrt (\<lambda>e f. ob_CreatedAt e \<le> ob_CreatedAt f) es" "res = take (nat (sint batch)) es" by blast
  have "distinct (map ob_ID (db_outbox A))"
    using A by (auto simp: quiet_db_def db_state_def represents_def db_keys_def)
  then have "distinct (map ob_ID (filter (\<lambda>e. \<not> ob_Processed e) (db_outbox A)))" by (rule distinct_map_filter)
  moreover have "mset (map ob_ID es) = mset (map ob_ID (filter (\<lambda>e. \<not> ob_Processed e) (db_outbox A)))"
    using es(1) by simp
  ultimately have "distinct (map ob_ID es)" using mset_eq_imp_distinct_iff by blast
  moreover have "OutboxDispatcher_flush_events L (order_dispatcher L interval batch) res d1 = (d', p)"
    using run l rp by (simp add: OutboxDispatcher_flush_def order_dispatcher_def NewOutboxDispatcher_def NewOrderRepo_def)
  ultimately show thesis using that P(1) es by blast
qed

lemma flush_choosy:
  assumes run: "OutboxDispatcher_flush L (order_dispatcher L interval batch) d = (d', p)"
    and A: "quiet_db committed view d A" and batch: "0 < sint batch"
  shows "p = None \<and> (\<exists>A'. quiet_db committed view d' A' \<and> pending_ids A' \<subseteq> pending_ids A
    \<and> refused_ids L accepts A' = refused_ids L accepts A
    \<and> card (pending_ids A' - refused_ids L accepts A)
        \<le> card (pending_ids A - refused_ids L accepts A) - (nat (sint batch) - card (refused_ids L accepts A)))"
proof -
  let ?R = "refused_ids L accepts A" and ?X = "pending_ids A"
  obtain d1 es where es: "quiet_db committed view d1 A" "mset es = mset (filter (\<lambda>e. \<not> ob_Processed e) (db_outbox A))"
    "distinct (map ob_ID es)"
    and run1: "OutboxDispatcher_flush_events L (order_dispatcher L interval batch) (take (nat (sint batch)) es) d1 = (d', p)"
    using batch_listed [OF run A batch] by blast
  let ?es = "take (nat (sint batch)) es"
  let ?B = "ob_ID ` set ?es" and ?C = "ob_ID ` {e \<in> set ?es. accepts (event_kafka L e)}"
  have keys: "db_keys A" using A by (auto simp: quiet_db_def db_state_def represents_def)
  have set: "set es = {e \<in> set (db_outbox A). \<not> ob_Processed e}" using mset_eq_setD [OF es(2)] by simp
  have X: "?X = ob_ID ` set es" by (simp add: pending_ids_def set)
  have sub: "set ?es \<subseteq> set (db_outbox A)" and dist: "distinct (map ob_ID ?es)"
    using set es(3) by (auto dest: in_set_takeD simp: take_map [symmetric])
  from flush_events_choosy [OF run1 _ es(1) sub dist] obtain A' where p: "p = None"
    and A': "quiet_db committed view d' A'" "pending_ids A' = ?X - ?C" "refused_ids L accepts A' = ?R - ?C"
    by (auto simp: order_dispatcher_def NewOutboxDispatcher_def)
  have "ob_ID e \<in> ?R \<longleftrightarrow> \<not> accepts (event_kafka L e)" if "e \<in> set ?es" for e
    using refused_id_iff [OF keys, of e L accepts] set in_set_takeD [OF that] by simp
  then have C: "?C = ?B - ?R" by blast
  have "card ?B = min (nat (sint batch)) (card ?X)" unfolding X by (rule batch_card [OF es(3)])
  moreover have "?B \<subseteq> ?X" unfolding X using set_take_subset [of _ es] by (rule image_mono)
  ultimately have "card (?X - ?B - ?R) \<le> card (?X - ?R) - (nat (sint batch) - card ?R)"
    by (intro batch_progress finite_pending refused_pending) simp_all
  moreover have "pending_ids A' - ?R = ?X - ?B - ?R" using A'(2) C by blast
  moreover have "refused_ids L accepts A' = ?R" using A'(3) C by blast
  moreover have "pending_ids A' \<subseteq> ?X" using A'(2) by blast
  ultimately show ?thesis using p A'(1) by (intro conjI exI [of _ A']) simp_all
qed

lemma ticks_choosy:
  assumes "dispatcher_ticks L (order_dispatcher L interval batch) n d = (d', p)"
    and "quiet_db committed view d A" and "0 < sint batch"
  shows "p = None \<and> (\<exists>A'. quiet_db committed view d' A'
    \<and> refused_ids L accepts A' = refused_ids L accepts A
    \<and> card (pending_ids A' - refused_ids L accepts A)
        \<le> card (pending_ids A - refused_ids L accepts A) - n * (nat (sint batch) - card (refused_ids L accepts A)))"
  using assms(1,2)
proof (induction n arbitrary: d A)
  case (Suc n)
  obtain d1 p1 where f: "OutboxDispatcher_flush L (order_dispatcher L interval batch) d = (d1, p1)"
    by (cases "OutboxDispatcher_flush L (order_dispatcher L interval batch) d")
  from flush_choosy [OF f Suc.prems(2) assms(3)] obtain A1 where A1: "p1 = None" "quiet_db committed view d1 A1"
    "refused_ids L accepts A1 = refused_ids L accepts A"
    "card (pending_ids A1 - refused_ids L accepts A)
        \<le> card (pending_ids A - refused_ids L accepts A) - (nat (sint batch) - card (refused_ids L accepts A))" by blast
  have "dispatcher_ticks L (order_dispatcher L interval batch) n d1 = (d', p)"
    using Suc.prems(1) f A1(1) by simp
  from Suc.IH [OF this A1(2)] obtain A' where A': "p = None" "quiet_db committed view d' A'"
    "refused_ids L accepts A' = refused_ids L accepts A"
    "card (pending_ids A' - refused_ids L accepts A)
        \<le> card (pending_ids A1 - refused_ids L accepts A) - n * (nat (sint batch) - card (refused_ids L accepts A))"
    unfolding A1(3) by blast
  have "card (pending_ids A' - refused_ids L accepts A)
        \<le> card (pending_ids A - refused_ids L accepts A) - Suc n * (nat (sint batch) - card (refused_ids L accepts A))"
    using A'(4) A1(4) unfolding mult_Suc by linarith
  with A' show ?case by blast
qed auto

text \<open>If the first batch holds refused events only, nothing moves.\<close>

lemma flush_blocked:
  assumes run: "OutboxDispatcher_flush L (order_dispatcher L interval batch) d = (d', p)"
    and A: "quiet_db committed view d A" and batch: "0 < sint batch"
    and old: "\<And>e. e \<in> set (db_outbox A) \<Longrightarrow> \<not> ob_Processed e \<Longrightarrow> accepts (event_kafka L e) \<Longrightarrow>
      sint batch \<le> int (length (filter (\<lambda>f. \<not> ob_Processed f \<and> \<not> accepts (event_kafka L f)
        \<and> ob_CreatedAt f < ob_CreatedAt e) (db_outbox A)))"
  shows "p = None \<and> quiet_db committed view d' A"
proof -
  obtain d1 es where es: "quiet_db committed view d1 A" "mset es = mset (filter (\<lambda>e. \<not> ob_Processed e) (db_outbox A))"
    "distinct (map ob_ID es)" "sorted_wrt (\<lambda>e f. ob_CreatedAt e \<le> ob_CreatedAt f) es"
    and run1: "OutboxDispatcher_flush_events L (order_dispatcher L interval batch) (take (nat (sint batch)) es) d1 = (d', p)"
    using batch_listed [OF run A batch] by blast
  let ?es = "take (nat (sint batch)) es"
  have set: "set es = {e \<in> set (db_outbox A). \<not> ob_Processed e}" using mset_eq_setD [OF es(2)] by simp
  have none: "\<not> accepts (event_kafka L e)" if e: "e \<in> set ?es" for e
  proof
    assume acc: "accepts (event_kafka L e)"
    let ?old = "\<lambda>f. \<not> accepts (event_kafka L f) \<and> ob_CreatedAt f < ob_CreatedAt e"
    have ees: "e \<in> set es" using e by (rule in_set_takeD)
    have "mset (filter ?old es) = mset (filter ?old (filter (\<lambda>e. \<not> ob_Processed e) (db_outbox A)))"
      unfolding mset_filter [of ?old] es(2) ..
    then have "length (filter ?old es) = length (filter ?old (filter (\<lambda>e. \<not> ob_Processed e) (db_outbox A)))"
      by (rule mset_eq_length)
    then have "length (filter ?old es) = length (filter (\<lambda>f. \<not> ob_Processed f \<and> ?old f) (db_outbox A))" by simp
    moreover obtain k where k: "k < nat (sint batch)" "k < length es" "es ! k = e"
      using e by (auto simp: in_set_conv_nth)
    have "length (filter ?old es) \<le> k"
      using older_before [OF es(4) k(2), of "\<lambda>f. \<not> accepts (event_kafka L f)"] k(3) by simp
    ultimately show False using old [of e] set ees acc k(1) by simp
  qed
  have "set ?es \<subseteq> set (db_outbox A)" "distinct (map ob_ID ?es)"
    using set es(3) by (auto dest: in_set_takeD simp: take_map [symmetric])
  from flush_events_choosy [OF run1 _ es(1) this] none show ?thesis
    by (auto simp: order_dispatcher_def NewOutboxDispatcher_def)
qed

lemma ticks_blocked:
  assumes "dispatcher_ticks L (order_dispatcher L interval batch) n d = (d', p)"
    and "quiet_db committed view d A" and "0 < sint batch"
    and "\<And>e. e \<in> set (db_outbox A) \<Longrightarrow> \<not> ob_Processed e \<Longrightarrow> accepts (event_kafka L e) \<Longrightarrow>
      sint batch \<le> int (length (filter (\<lambda>f. \<not> ob_Processed f \<and> \<not> accepts (event_kafka L f)
        \<and> ob_CreatedAt f < ob_CreatedAt e) (db_outbox A)))"
  shows "p = None \<and> quiet_db committed view d' A"
  using assms(1,2)
proof (induction n arbitrary: d)
  case (Suc n)
  obtain d1 p1 where f: "OutboxDispatcher_flush L (order_dispatcher L interval batch) d = (d1, p1)"
    by (cases "OutboxDispatcher_flush L (order_dispatcher L interval batch) d")
  from flush_blocked [OF f Suc.prems(2) assms(3,4)] have "p1 = None" "quiet_db committed view d1 A" by auto
  with Suc f show ?case by auto
qed auto

end

section \<open>In memory\<close>

definition picky_produce :: "kafka_message \<Rightarrow> mem \<Rightarrow> mem \<times> (string + kafka_event)" where
  "picky_produce m d = (if km_Topic m = Some ''order.created'' then mem_produce m d else (d, Inl ''unknown topic''))"

definition picky_lib :: "mem svc_lib" where
  "picky_lib = mem_lib\<lparr>kafka_Produce := picky_produce\<rparr>"

lemma picky_simps [simp]:
  "sql_BeginTx picky_lib = sql_BeginTx mem_lib" "sql_Commit picky_lib = sql_Commit mem_lib"
  "sql_Rollback picky_lib = sql_Rollback mem_lib" "sqlgraph_CreateNode picky_lib = sqlgraph_CreateNode mem_lib"
  "sqlgraph_BatchCreate picky_lib = sqlgraph_BatchCreate mem_lib" "sqlgraph_UpdateNode picky_lib = sqlgraph_UpdateNode mem_lib"
  "sqlgraph_QueryNodes picky_lib = sqlgraph_QueryNodes mem_lib" "sqlgraph_CountNodes picky_lib = sqlgraph_CountNodes mem_lib"
  "uuid_New picky_lib = uuid_New mem_lib" "time_Now picky_lib = time_Now mem_lib"
  "field_FloatMin picky_lib = field_FloatMin mem_lib" "field_IntPositive picky_lib = field_IntPositive mem_lib"
  "field_StringNotEmpty picky_lib = field_StringNotEmpty mem_lib" "uuid_Parse picky_lib = uuid_Parse mem_lib"
  "uuid_String picky_lib = uuid_String mem_lib" "bytes_of_string picky_lib = bytes_of_string mem_lib"
  "vm_WriteString picky_lib = vm_WriteString mem_lib" "vm_WriteInt picky_lib = vm_WriteInt mem_lib"
  "vm_WriteLong picky_lib = vm_WriteLong mem_lib" "vm_WriteDouble picky_lib = vm_WriteDouble mem_lib"
  "compiler_CompileSchemaBytes picky_lib = compiler_CompileSchemaBytes mem_lib" "vm_Eval picky_lib = vm_Eval mem_lib"
  by (simp_all add: picky_lib_def)

lemma picky_platform: "platform_up picky_lib mem_tables mem_view micros"
proof -
  have "sql_engine picky_lib committed view tr = sql_engine mem_lib committed view tr" for committed :: "mem \<Rightarrow> tables" and view tr
    by (simp only: sql_engine_def sql_engine_axioms_def field_lib_def picky_simps)
  moreover have "sql_engine_up_axioms picky_lib committed view tr = sql_engine_up_axioms mem_lib committed view tr"
    for committed :: "mem \<Rightarrow> tables" and view tr
    by (simp only: sql_engine_up_axioms_def picky_simps)
  moreover have "uuid_lib picky_lib = uuid_lib mem_lib" by (simp only: uuid_lib_def picky_simps)
  ultimately have "platform_up picky_lib mem_tables mem_view micros = platform_up mem_lib mem_tables mem_view micros"
    by (simp only: platform_up_def order_platform_def sql_engine_up_def)
  then show ?thesis using mem_up.platform_up_axioms by simp
qed

interpretation picky_platform: platform_up picky_lib mem_tables mem_view micros
  by (rule picky_platform)

definition picky_accepts :: "kafka_message \<Rightarrow> bool" where
  "picky_accepts m \<longleftrightarrow> km_Topic m = Some ''order.created'' \<and> km_Error m = None"

interpretation picky: choosy_broker picky_lib mem_tables mem_view micros picky_accepts
proof (unfold_locales, goal_cases)
  case (1 d A m d' rp)
  then show ?case
    by (auto simp: picky_lib_def picky_produce_def mem_produce_def intro: mem_db_other split: if_splits)
next
  case (2 m d)
  then show ?case by (simp add: picky_lib_def picky_accepts_def picky_produce_def mem_produce_def)
next
  case (3 m d)
  then show ?case by (auto simp: picky_lib_def picky_accepts_def picky_produce_def mem_produce_def)
qed

text \<open>Two pending events, of which the older one is refused.\<close>

definition bad_event :: OutboxEvent where
  "bad_event = \<lparr>ob_ID = 1, ob_CreatedAt = 1000, ob_UpdatedAt = 1000, ob_AggregateType = ''order'', ob_AggregateID = 8,
     ob_EventType = ''order.lost'', ob_Payload = [], ob_Processed = False\<rparr>"

definition good_event :: OutboxEvent where
  "good_event = \<lparr>ob_ID = 2, ob_CreatedAt = 2000, ob_UpdatedAt = 2000, ob_AggregateType = ''order'', ob_AggregateID = 9,
     ob_EventType = ''order.created'', ob_Payload = [], ob_Processed = False\<rparr>"

definition two_events :: order_db where
  "two_events = \<lparr>db_orders = [], db_items = [], db_outbox = [bad_event, good_event]\<rparr>"

definition two_events_start :: mem where
  "two_events_start = (mem_start [])\<lparr>mem_tables :=
     no_tables(outboxevent_Table := [row_of (outbox_cells bad_event), row_of (outbox_cells good_event)])\<rparr>"

lemma two_events_db: "mem_db two_events_start two_events"
  by (simp add: quiet_db_def db_state_def tables_of_def two_events_start_def represents_def two_events_def no_tables_def
      outbox_repr_def db_keys_def mem_start_def bad_event_def good_event_def order_Table_def orderitem_Table_def
      outboxevent_Table_def)

lemma two_events_ids:
  "pending_ids two_events = {1, 2}"
  "refused_ids picky_lib picky_accepts two_events = {1}"
  by (simp_all add: pending_ids_filter refused_ids_filter two_events_def bad_event_def good_event_def event_kafka_def
      producer_message_def picky_accepts_def)

section \<open>The properties\<close>

text \<open>
  C18. A refused event does not hold up the others: whatever messages the broker refuses, as long
  as they are fewer than a batch, enough ticks of the dispatcher deliver and mark every other
  pending event, leave exactly the refused ones pending, and do not panic.
\<close>

theorem refused_events_stay:
  assumes "choosy_broker L committed view tr accepts" and "quiet_db committed view d A"
    and "0 < sint interval" and "0 < sint batch"
    and "card (pending_ids A - refused_ids L accepts A) \<le> n * (nat (sint batch) - card (refused_ids L accepts A))"
    and "OutboxDispatcher_Start L (order_dispatcher L interval batch) n d = (d', p)"
  shows "p = None \<and> (\<exists>A'. quiet_db committed view d' A' \<and> pending_ids A' = refused_ids L accepts A)"
proof -
  have "obd_interval (order_dispatcher L interval batch) = interval"
    by (simp add: order_dispatcher_def NewOutboxDispatcher_def)
  then have run: "dispatcher_ticks L (order_dispatcher L interval batch) n d = (d', p)"
    using assms(3,6) unfolding OutboxDispatcher_Start_def by (simp only: not_le [symmetric] if_False)
  obtain A' where A': "p = None" "quiet_db committed view d' A'" "refused_ids L accepts A' = refused_ids L accepts A"
      "card (pending_ids A' - refused_ids L accepts A) \<le> 0"
    using choosy_broker.ticks_choosy [OF assms(1) run assms(2,4)] assms(5) by (metis diff_is_0_eq)
  have "pending_ids A' \<subseteq> refused_ids L accepts A" using A'(4) finite_pending [of A'] by simp
  then have "pending_ids A' = refused_ids L accepts A" using A'(3) refused_pending [of L accepts A'] by blast
  with A'(1,2) show ?thesis by blast
qed

lemma refused_events_stay_witness:
  "\<exists>A. mem_db (fst (OutboxDispatcher_Start picky_lib (order_dispatcher picky_lib 5000000000 2) 1 two_events_start)) A
     \<and> pending_ids A = {1}"
  using refused_events_stay [OF picky.choosy_broker_axioms two_events_db _ _ _ surjective_pairing, of 5000000000 2 1]
  by (simp add: two_events_ids)



end
