(* ===== verification/Conf.thy ===== *)
theory Conf
  imports GoString
begin

text \<open>
  The configuration of the order service (\<open>internal/conf/config.go\<close>). The environment is a
  function from names to values, empty for a name that is not set, as \<open>os.Getenv\<close> reads it;
  \<open>time.ParseDuration\<close> is the parameter \<open>parseDuration\<close>, with durations in nanoseconds.
\<close>

type_synonym environment = "string \<Rightarrow> string"

record conf_Server =
  srv_GRPCAddr :: string

record conf_Data =
  dat_DatabaseURL :: string

record conf_Clients =
  cli_ProductServiceURL :: string

record conf_Kafka =
  kfk_Broker :: string
  kfk_ConsumerGroup :: string

record conf_Worker =
  wrk_OutboxInterval :: i64
  wrk_OutboxBatch :: i64
  wrk_Topics :: "string list"

record conf_Bootstrap =
  cfg_Server :: conf_Server
  cfg_Data :: conf_Data
  cfg_Clients :: conf_Clients
  cfg_Kafka :: conf_Kafka
  cfg_Worker :: conf_Worker

definition conf_getEnv :: "environment \<Rightarrow> string \<Rightarrow> string \<Rightarrow> string" where
  "conf_getEnv getenv key fallback = (if getenv key \<noteq> [] then getenv key else fallback)"

definition conf_getInt :: "environment \<Rightarrow> string \<Rightarrow> i64 \<Rightarrow> i64" where
  "conf_getInt getenv key fallback =
     (if getenv key = [] then fallback
      else (case Atoi (getenv key) of
              None \<Rightarrow> fallback
            | Some value \<Rightarrow> if sint value \<le> 0 then fallback else value))"

definition conf_getDuration ::
    "(string \<Rightarrow> i64 option) \<Rightarrow> environment \<Rightarrow> string \<Rightarrow> i64 \<Rightarrow> i64" where
  "conf_getDuration parseDuration getenv key fallback =
     (if getenv key = [] then fallback
      else (case parseDuration (getenv key) of None \<Rightarrow> fallback | Some value \<Rightarrow> value))"

text \<open>The loop shared by the services: the parts of a comma separated list, trimmed, without the empty ones.\<close>

definition comma_parts :: "string \<Rightarrow> string list" where
  "comma_parts raw = filter (\<lambda>p. p \<noteq> []) (map TrimSpace (split_at (CHR '','') raw))"

definition conf_getTopics :: "environment \<Rightarrow> string list" where
  "conf_getTopics getenv =
     (let raw = getenv ''KAFKA_TOPICS'' in
      if raw = [] then
        [''stock.reduction.fail'', ''stock.reduction.success'', ''payment.fail'', ''payment.success'']
      else comma_parts raw)"

definition FromEnv :: "(string \<Rightarrow> i64 option) \<Rightarrow> environment \<Rightarrow> conf_Bootstrap" where
  "FromEnv parseDuration getenv =
     (let port = conf_getEnv getenv ''APP_PORT'' ''2002'' in
      \<lparr>cfg_Server = \<lparr>srv_GRPCAddr = '':'' @ port\<rparr>,
       cfg_Data = \<lparr>dat_DatabaseURL = getenv ''DATABASE_URL''\<rparr>,
       cfg_Clients = \<lparr>cli_ProductServiceURL = getenv ''PRODUCT_SERVICE_URL''\<rparr>,
       cfg_Kafka = \<lparr>kfk_Broker = getenv ''KAFKA_BROKER'',
                    kfk_ConsumerGroup = conf_getEnv getenv ''KAFKA_CONSUMER_GROUP'' ''order-service-group''\<rparr>,
       cfg_Worker = \<lparr>wrk_OutboxInterval = conf_getDuration parseDuration getenv ''OUTBOX_INTERVAL'' 5000000000,
                     wrk_OutboxBatch = conf_getInt getenv ''OUTBOX_BATCH'' 20,
                     wrk_Topics = conf_getTopics getenv\<rparr>\<rparr>)"

subsection \<open>What the values satisfy\<close>

lemma conf_getInt_positive: "0 < sint fallback \<Longrightarrow> 0 < sint (conf_getInt getenv key fallback)"
  by (auto simp: conf_getInt_def split: option.splits)

lemma FromEnv_batch: "0 < sint (wrk_OutboxBatch (cfg_Worker (FromEnv parseDuration getenv)))"
  by (simp add: FromEnv_def Let_def conf_getInt_positive)

text \<open>A list entry is clean when trimming leaves it as it is and no comma splits it.\<close>

definition clean_entry :: "string \<Rightarrow> bool" where
  "clean_entry p \<longleftrightarrow> p \<noteq> [] \<and> TrimSpace p = p \<and> CHR '','' \<notin> set p"

lemma comma_parts_clean: "p \<in> set (comma_parts raw) \<Longrightarrow> clean_entry p"
  using TrimSpace_set split_at_parts by (fastforce simp: comma_parts_def clean_entry_def)

lemma comma_parts_join:
  assumes "ps \<noteq> []" and "\<And>p. p \<in> set ps \<Longrightarrow> clean_entry p"
  shows "comma_parts (join_with (CHR '','') ps) = ps"
proof -
  have "split_at (CHR '','') (join_with (CHR '','') ps) = ps"
    using assms by (intro split_join) (auto simp: clean_entry_def)
  moreover have "map TrimSpace ps = ps" "filter (\<lambda>p. p \<noteq> []) ps = ps"
    using assms(2) by (auto simp: clean_entry_def map_idI filter_id_conv)
  ultimately show ?thesis by (simp add: comma_parts_def)
qed

lemma join_with_nonempty: "ps \<noteq> [] \<Longrightarrow> (\<And>p. p \<in> set ps \<Longrightarrow> p \<noteq> []) \<Longrightarrow> join_with c ps \<noteq> []"
  by (induction c ps rule: join_with.induct) auto

lemma getTopics_clean: "\<forall>t \<in> set (conf_getTopics getenv). clean_entry t"
proof -
  have "list_all clean_entry [''stock.reduction.fail'', ''stock.reduction.success'', ''payment.fail'', ''payment.success'']"
    by code_simp
  then show ?thesis
    using comma_parts_clean by (auto simp: conf_getTopics_def Let_def list_all_iff)
qed

text \<open>
  C27. The topic list of the configuration is what was written: a list of clean names, joined by
  commas, is read back unchanged, and whatever the variable holds, every topic read is trimmed,
  not empty and free of commas.
\<close>

theorem topics_roundtrip:
  assumes "ts \<noteq> []" and "\<forall>t \<in> set ts. clean_entry t"
  shows "conf_getTopics (getenv(''KAFKA_TOPICS'' := join_with (CHR '','') ts)) = ts
    \<and> (\<forall>t \<in> set (conf_getTopics getenv). clean_entry t)"
proof
  have "join_with (CHR '','') ts \<noteq> []"
    using assms by (intro join_with_nonempty) (auto simp: clean_entry_def)
  moreover have "comma_parts (join_with (CHR '','') ts) = ts"
    using assms by (intro comma_parts_join) auto
  ultimately show "conf_getTopics (getenv(''KAFKA_TOPICS'' := join_with (CHR '','') ts)) = ts"
    by (simp only: conf_getTopics_def Let_def fun_upd_same if_False)
qed (rule getTopics_clean)

lemma topics_roundtrip_witness:
  "conf_getTopics (\<lambda>k. if k = ''KAFKA_TOPICS'' then ''a,b'' else []) = [''a'', ''b'']"
proof -
  have c: "clean_entry ''a''" "clean_entry ''b''" by code_simp+
  have "conf_getTopics ((\<lambda>k. [])(''KAFKA_TOPICS'' := join_with (CHR '','') [''a'', ''b''])) = [''a'', ''b'']"
    using topics_roundtrip [of "[''a'', ''b'']" "\<lambda>k. []"] c by (simp only: list.simps ball_simps simp_thms set_simps)
  moreover have "(\<lambda>k. if k = ''KAFKA_TOPICS'' then ''a,b'' else []) = (\<lambda>k. [])(''KAFKA_TOPICS'' := join_with (CHR '','') [''a'', ''b''])"
    by (auto simp: fun_eq_iff)
  ultimately show ?thesis by (simp only:)
qed

end
