(* ===== verification/OrderMain.thy ===== *)
theory OrderMain
  imports Conf OrderProperties
begin

text \<open>
  How the order service is put together (\<open>cmd/order/main.go\<close>): the configuration is read, the
  parts are built in the order of \<open>main\<close>, and the first part that cannot be built ends the
  process. The environment is the one after \<open>godotenv.Load\<close>. What opens connections
  (\<open>ent.Open\<close>, the schema migration, \<open>grpc.Dial\<close>, \<open>kafka.NewProducer\<close>,
  \<open>kafka.NewConsumer\<close>) is a parameter.
\<close>

record 'd main_lib =
  main_Open :: "string \<Rightarrow> string \<Rightarrow> 'd \<Rightarrow> 'd \<times> string option"
  main_SchemaCreate :: "'d \<Rightarrow> 'd \<times> string option"
  main_CloseClient :: "'d \<Rightarrow> 'd"
  main_Dial :: "string \<Rightarrow> transport \<Rightarrow> string + unit"
  main_NewProducer :: "string \<Rightarrow> string option"
  main_NewConsumer :: "(string \<times> string) list \<Rightarrow> string option"

definition NewEntClient :: "'d main_lib \<Rightarrow> string \<Rightarrow> 'd \<Rightarrow> 'd \<times> go_error option" where
  "NewEntClient M databaseURL d =
     (if databaseURL = [] then (d, Some (ErrorText ''DATABASE_URL is required''))
      else
        (case main_Open M ''postgres'' databaseURL d of
           (d, Some err) \<Rightarrow> (d, Some (ErrorText err))
         | (d, None) \<Rightarrow>
             (case main_SchemaCreate M d of
                (d, Some err) \<Rightarrow> (main_CloseClient M d, Some (ErrorText err))
              | (d, None) \<Rightarrow> (d, None))))"

definition NewKafkaProducer :: "'d main_lib \<Rightarrow> string \<Rightarrow> go_error option" where
  "NewKafkaProducer M servers = map_option KafkaErr (main_NewProducer M servers)"

definition NewOrderEventConsumer :: "'d main_lib \<Rightarrow> string \<Rightarrow> string \<Rightarrow> go_error option" where
  "NewOrderEventConsumer M brokers groupID =
     map_option KafkaErr (main_NewConsumer M
       [(''bootstrap.servers'', brokers), (''group.id'', groupID), (''enable.auto.commit'', ''false''),
        (''auto.offset.reset'', ''earliest''), (''session.timeout.ms'', ''10000'')])"

text \<open>What is running once \<open>main\<close> has started the workers and the server.\<close>

record 'd order_app =
  app_addr :: string
  app_usecase :: "'d OrderUsecase"
  app_dispatcher :: "'d OutboxDispatcher"
  app_topics :: "string list"

text \<open>A part that fails is reported with \<open>Fatalf\<close>: the message and the error, and nothing runs.\<close>

definition order_main ::
    "'d main_lib \<Rightarrow> ('d, 'z) svc_lib_scheme \<Rightarrow> (string \<Rightarrow> i64 option) \<Rightarrow> environment \<Rightarrow> 'd \<Rightarrow>
     'd \<times> (string \<times> go_error + 'd order_app)" where
  "order_main M L parseDuration getenv d =
     (let cfg = FromEnv parseDuration getenv in
      case NewEntClient M (dat_DatabaseURL (cfg_Data cfg)) d of
        (d, Some err) \<Rightarrow> (d, Inl (''failed to open database: '', err))
      | (d, None) \<Rightarrow>
     (case NewVariantCatalog (main_Dial M) (cli_ProductServiceURL (cfg_Clients cfg)) of
        Inl err \<Rightarrow> (d, Inl (''failed to connect product service: '', err))
      | Inr _ \<Rightarrow>
     let orderRepo = NewOrderRepo L; usecase = NewOrderUsecase orderRepo (catalogClient L) in
     (case NewKafkaProducer M (kfk_Broker (cfg_Kafka cfg)) of
        Some err \<Rightarrow> (d, Inl (''failed to create kafka producer: '', err))
      | None \<Rightarrow>
     let dispatcher = NewOutboxDispatcher orderRepo (wrk_OutboxInterval (cfg_Worker cfg)) (wrk_OutboxBatch (cfg_Worker cfg)) in
     (case NewOrderEventConsumer M (kfk_Broker (cfg_Kafka cfg)) (kfk_ConsumerGroup (cfg_Kafka cfg)) of
        Some err \<Rightarrow> (d, Inl (''failed to create kafka consumer: '', err))
      | None \<Rightarrow>
          (d, Inr \<lparr>app_addr = srv_GRPCAddr (cfg_Server cfg), app_usecase = usecase,
                   app_dispatcher = dispatcher, app_topics = wrk_Topics (cfg_Worker cfg)\<rparr>)))))"

lemma order_main_parts:
  assumes "order_main M L parseDuration getenv d0 = (d, Inr app)"
  shows "app_usecase app = order_usecase L"
    "app_dispatcher app = order_dispatcher L (wrk_OutboxInterval (cfg_Worker (FromEnv parseDuration getenv)))
       (wrk_OutboxBatch (cfg_Worker (FromEnv parseDuration getenv)))"
    "app_topics app = conf_getTopics getenv"
  using assms
  by (auto simp: order_main_def order_usecase_def order_dispatcher_def FromEnv_def Let_def
      split: prod.splits option.splits sum.splits)

definition demo_main :: "mem main_lib" where
  "demo_main = \<lparr>main_Open = (\<lambda>_ _ d. (d, None)), main_SchemaCreate = (\<lambda>d. (d, None)), main_CloseClient = id,
     main_Dial = (\<lambda>_ _. Inr ()), main_NewProducer = (\<lambda>_. None), main_NewConsumer = (\<lambda>_. None)\<rparr>"

definition demo_environment :: environment where
  "demo_environment = (\<lambda>k. if k = ''DATABASE_URL'' then ''postgres://db'' else
     if k = ''PRODUCT_SERVICE_URL'' then ''localhost:9090'' else
     if k = ''OUTBOX_INTERVAL'' then ''0s'' else [])"

definition demo_app :: "mem order_app" where
  "demo_app =
     \<lparr>app_addr = '':2002'', app_usecase = order_usecase mem_lib,
      app_dispatcher = order_dispatcher mem_lib 0 20, app_topics = handled_topics\<rparr>"

lemma demo_main_runs:
  "order_main demo_main mem_lib (\<lambda>s. Some 0) demo_environment demo_start = (demo_start, Inr demo_app)"
  by (simp add: order_main_def demo_main_def NewEntClient_def NewKafkaProducer_def NewOrderEventConsumer_def
      NewVariantCatalog_def FromEnv_def conf_getEnv_def conf_getInt_def conf_getDuration_def conf_getTopics_def
      demo_environment_def demo_app_def order_usecase_def order_dispatcher_def handled_topics_def Let_def)

text \<open>
  C26. An outbox interval that is not positive is accepted by the configuration and ends the
  process: the dispatcher panics as soon as it starts.
\<close>

theorem bad_interval_panics:
  assumes "getenv ''OUTBOX_INTERVAL'' \<noteq> []" and "parseDuration (getenv ''OUTBOX_INTERVAL'') = Some v"
    and "sint v \<le> 0" and "order_main M L parseDuration getenv d0 = (d, Inr app)"
  shows "OutboxDispatcher_Start L (app_dispatcher app) n d1 = (d1, Some ''non-positive interval for NewTicker'')"
  using assms(1-3) unfolding order_main_parts(2) [OF assms(4)]
  by (simp add: OutboxDispatcher_Start_def order_dispatcher_def NewOutboxDispatcher_def FromEnv_def Let_def
      conf_getDuration_def)

lemma bad_interval_panics_witness:
  "OutboxDispatcher_Start mem_lib (app_dispatcher demo_app) 1 demo_start
     = (demo_start, Some ''non-positive interval for NewTicker'')"
  by (rule bad_interval_panics [OF _ _ _ demo_main_runs, of 0]) (simp_all add: demo_environment_def)

end
