(* ===== verification/ChatStore.thy ===== *)
theory ChatStore
  imports Conf
begin

text \<open>
  The store of the chat service (\<open>internal/db/store.go\<close>) over Cassandra. A CQL statement of the
  source is an abstract statement with its table, columns and bound values; running one is the
  parameter \<open>cql_Exec\<close> or \<open>cql_Scan\<close>, for which the locale \<open>cassandra\<close> states what the
  database documents of them: a row is inserted under its primary key only if none is there,
  and a statement that reports an error may have been applied all the same.
\<close>

subsection \<open>Statements and values\<close>

datatype cql_value = CText string | CTime time | CNull

datatype cql_error = CqlNotFound | CqlError string

datatype cql =
    CreateTableIfNotExists string "(string \<times> string) list"      \<comment> \<open>name, columns; the first is the primary key\<close>
  | InsertIfNotExists string "string list" "cql_value list"       \<comment> \<open>table, columns, bound values\<close>
  | SelectByKey "string list" string string cql_value             \<comment> \<open>columns, table, key column, bound value; \<open>LIMIT 1\<close>\<close>

datatype chat_error =
    ChatText string
  | ChatCql cql_error
  | ChatWrap string chat_error
  | ChatAtOffset string i64 chat_error

datatype native =                    \<comment> \<open>what the Avro codec decodes to\<close>
    NatString string
  | NatRecord "(string \<times> native) list"
  | NatOther

record kgo_record =
  kr_Offset :: i64
  kr_Value :: "byte list"

datatype fetches_error = FetchCanceled | FetchError string

text \<open>
  The calls out of the service: Cassandra, the clock, the id generator, the codec of goavro,
  \<open>time.Parse\<close> with the layout \<open>RFC3339Nano\<close>, and the Kafka client.
\<close>

record 'c chat_lib =
  cql_Exec :: "cql \<Rightarrow> 'c \<Rightarrow> 'c \<times> cql_error option"
  cql_Scan :: "cql \<Rightarrow> 'c \<Rightarrow> 'c \<times> (cql_error + cql_value list)"
  cql_CreateSession :: "string list \<Rightarrow> string \<Rightarrow> string option"
  chat_Now :: "'c \<Rightarrow> 'c \<times> time"
  gocql_TimeUUID :: "'c \<Rightarrow> 'c \<times> string"
  codec_NativeFromBinary :: "byte list \<Rightarrow> string + native"
  time_ParseRFC3339Nano :: "string \<Rightarrow> string + time"
  kgo_CommitRecords :: "kgo_record \<Rightarrow> 'c \<Rightarrow> 'c \<times> string option"
  kgo_PollFetches :: "'c \<Rightarrow> 'c \<times> fetches_error option \<times> kgo_record list"

definition chat_messages :: string where "chat_messages = ''chat_messages''"
definition chat_rooms_by_pair :: string where "chat_rooms_by_pair = ''chat_rooms_by_pair''"
definition chat_rooms_by_id :: string where "chat_rooms_by_id = ''chat_rooms_by_id''"

lemma chat_tables_distinct [simp]:
  "chat_messages \<noteq> chat_rooms_by_pair" "chat_messages \<noteq> chat_rooms_by_id" "chat_rooms_by_pair \<noteq> chat_rooms_by_id"
  "chat_rooms_by_pair \<noteq> chat_messages" "chat_rooms_by_id \<noteq> chat_messages" "chat_rooms_by_id \<noteq> chat_rooms_by_pair"
  by (simp_all add: chat_messages_def chat_rooms_by_pair_def chat_rooms_by_id_def)

definition createChatMessagesTable :: cql where
  "createChatMessagesTable =
     CreateTableIfNotExists chat_messages
       [(''message_id'', ''text''), (''room_id'', ''text''), (''sender_id'', ''text''), (''body'', ''text''),
        (''sent_at'', ''timestamp''), (''persisted_at'', ''timestamp'')]"

definition createChatRoomsByPairTable :: cql where
  "createChatRoomsByPairTable =
     CreateTableIfNotExists chat_rooms_by_pair
       [(''pair_key'', ''text''), (''room_id'', ''text''), (''user_a'', ''text''), (''user_b'', ''text''),
        (''created_at'', ''timestamp'')]"

definition createChatRoomsByIDTable :: cql where
  "createChatRoomsByIDTable =
     CreateTableIfNotExists chat_rooms_by_id
       [(''room_id'', ''text''), (''pair_key'', ''text''), (''user_a'', ''text''), (''user_b'', ''text''),
        (''created_at'', ''timestamp'')]"

definition insertChatMessage :: "cql_value list \<Rightarrow> cql" where
  "insertChatMessage =
     InsertIfNotExists chat_messages
       [''message_id'', ''room_id'', ''sender_id'', ''body'', ''sent_at'', ''persisted_at'']"

definition insertRoomByPair :: "cql_value list \<Rightarrow> cql" where
  "insertRoomByPair =
     InsertIfNotExists chat_rooms_by_pair [''pair_key'', ''room_id'', ''user_a'', ''user_b'', ''created_at'']"

definition insertRoomByID :: "cql_value list \<Rightarrow> cql" where
  "insertRoomByID =
     InsertIfNotExists chat_rooms_by_id [''room_id'', ''pair_key'', ''user_a'', ''user_b'', ''created_at'']"

subsection \<open>Data\<close>

record chat_Message =
  cm_MessageID :: string
  cm_RoomID :: string
  cm_SenderID :: string
  cm_Body :: string
  cm_SentAt :: time

record chat_Room =
  cr_RoomID :: string
  cr_PairKey :: string
  cr_UserA :: string
  cr_UserB :: string
  cr_CreatedAt :: time

definition zero_Room :: chat_Room where
  "zero_Room = \<lparr>cr_RoomID = [], cr_PairKey = [], cr_UserA = [], cr_UserB = [], cr_CreatedAt = 0\<rparr>"

subsection \<open>Normalization\<close>

definition normalizeContactPoints :: "string list \<Rightarrow> string list" where
  "normalizeContactPoints contactPoints = filter (\<lambda>c. c \<noteq> []) (map TrimSpace contactPoints)"

definition normalizeRoomParticipants :: "string \<Rightarrow> string \<Rightarrow> chat_error + string \<times> string \<times> string" where
  "normalizeRoomParticipants userID peerUserID =
     (let userID = TrimSpace userID; peerUserID = TrimSpace peerUserID in
      if userID = [] \<or> peerUserID = [] then Inl (ChatText ''both user ids are required'')
      else if userID = peerUserID then Inl (ChatText ''cannot create a room with yourself'')
      else
        let (userA, userB) = (if userID > peerUserID then (peerUserID, userID) else (userID, peerUserID))
        in Inr (userA, userB, userA @ '':'' @ userB))"

subsection \<open>Operations\<close>

text \<open>\<open>ctxErr\<close> is \<open>ctx.Err()\<close>; the new store is the session.\<close>

definition Store_New ::
    "'c chat_lib \<Rightarrow> string option \<Rightarrow> string list \<Rightarrow> string \<Rightarrow> chat_error option" where
  "Store_New L ctxErr contactPoints keyspace =
     (case ctxErr of
        Some err \<Rightarrow> Some (ChatText err)
      | None \<Rightarrow>
          let normalized = normalizeContactPoints contactPoints in
          if normalized = [] then Some (ChatText ''at least one Cassandra contact point is required'')
          else if TrimSpace keyspace = [] then Some (ChatText ''Cassandra keyspace is required'')
          else map_option (\<lambda>err. ChatWrap ''create Cassandra session'' (ChatText err))
                 (cql_CreateSession L normalized keyspace))"

definition Store_Migrate :: "'c chat_lib \<Rightarrow> 'c \<Rightarrow> 'c \<times> chat_error option" where
  "Store_Migrate L d =
     (case cql_Exec L createChatMessagesTable d of
        (d, Some err) \<Rightarrow> (d, Some (ChatCql err))
      | (d, None) \<Rightarrow>
     (case cql_Exec L createChatRoomsByPairTable d of
        (d, Some err) \<Rightarrow> (d, Some (ChatCql err))
      | (d, None) \<Rightarrow>
          (case cql_Exec L createChatRoomsByIDTable d of (d, e) \<Rightarrow> (d, map_option ChatCql e))))"

definition Store_InsertMessage :: "'c chat_lib \<Rightarrow> chat_Message \<Rightarrow> 'c \<Rightarrow> 'c \<times> chat_error option" where
  "Store_InsertMessage L message d =
     (let (d, persistedAt) = chat_Now L d in
      case cql_Exec L (insertChatMessage
             [CText (cm_MessageID message), CText (cm_RoomID message), CText (cm_SenderID message),
              CText (cm_Body message), CTime (cm_SentAt message), CTime persistedAt]) d of
        (d, e) \<Rightarrow> (d, map_option ChatCql e))"

text \<open>Scanning a cell into a \<open>string\<close> or a \<open>time.Time\<close>; a null leaves the zero value.\<close>

fun scan_text :: "cql_value \<Rightarrow> cql_error + string" where
  "scan_text (CText s) = Inr s"
| "scan_text CNull = Inr []"
| "scan_text (CTime t) = Inl (CqlError ''can not unmarshal timestamp'')"

fun scan_time :: "cql_value \<Rightarrow> cql_error + time" where
  "scan_time (CTime t) = Inr t"
| "scan_time CNull = Inr 0"
| "scan_time (CText s) = Inl (CqlError ''can not unmarshal text'')"

fun scan_texts_time :: "cql_value list \<Rightarrow> cql_error + string list \<times> time" where
  \<comment> \<open>\<open>Scan\<close> into all but the last cell as strings and the last as a time\<close>
  "scan_texts_time [] = Inl (CqlError ''not enough columns to scan'')"
| "scan_texts_time [c] = (case scan_time c of Inl e \<Rightarrow> Inl e | Inr t \<Rightarrow> Inr ([], t))"
| "scan_texts_time (c # c' # cs) =
     (case scan_text c of
        Inl e \<Rightarrow> Inl e
      | Inr s \<Rightarrow> (case scan_texts_time (c' # cs) of Inl e \<Rightarrow> Inl e | Inr (ss, t) \<Rightarrow> Inr (s # ss, t)))"

definition Store_getRoomByPairKey :: "'c chat_lib \<Rightarrow> string \<Rightarrow> 'c \<Rightarrow> 'c \<times> (cql_error + chat_Room)" where
  "Store_getRoomByPairKey L pairKey d =
     (case cql_Scan L (SelectByKey [''pair_key'', ''room_id'', ''user_a'', ''user_b'', ''created_at'']
             chat_rooms_by_pair ''pair_key'' (CText pairKey)) d of
        (d, Inl err) \<Rightarrow> (d, Inl err)
      | (d, Inr cells) \<Rightarrow>
          (case scan_texts_time cells of
             Inl err \<Rightarrow> (d, Inl err)
           | Inr ([p, r, a, b], t) \<Rightarrow>
               (d, Inr \<lparr>cr_RoomID = r, cr_PairKey = p, cr_UserA = a, cr_UserB = b, cr_CreatedAt = t\<rparr>)
           | Inr _ \<Rightarrow> (d, Inl (CqlError ''not enough columns to scan''))))"

definition Store_getRoomByID :: "'c chat_lib \<Rightarrow> string \<Rightarrow> 'c \<Rightarrow> 'c \<times> (cql_error + chat_Room)" where
  "Store_getRoomByID L roomID d =
     (case cql_Scan L (SelectByKey [''room_id'', ''pair_key'', ''user_a'', ''user_b'', ''created_at'']
             chat_rooms_by_id ''room_id'' (CText roomID)) d of
        (d, Inl err) \<Rightarrow> (d, Inl err)
      | (d, Inr cells) \<Rightarrow>
          (case scan_texts_time cells of
             Inl err \<Rightarrow> (d, Inl err)
           | Inr ([r, p, a, b], t) \<Rightarrow>
               (d, Inr \<lparr>cr_RoomID = r, cr_PairKey = p, cr_UserA = a, cr_UserB = b, cr_CreatedAt = t\<rparr>)
           | Inr _ \<Rightarrow> (d, Inl (CqlError ''not enough columns to scan''))))"

definition Store_ensureRoomByID :: "'c chat_lib \<Rightarrow> chat_Room \<Rightarrow> 'c \<Rightarrow> 'c \<times> cql_error option" where
  "Store_ensureRoomByID L room d =
     cql_Exec L (insertRoomByID
       [CText (cr_RoomID room), CText (cr_PairKey room), CText (cr_UserA room), CText (cr_UserB room),
        CTime (cr_CreatedAt room)]) d"

definition Store_ResolveRoom ::
    "'c chat_lib \<Rightarrow> string \<Rightarrow> string \<Rightarrow> 'c \<Rightarrow> 'c \<times> (chat_error + chat_Room \<times> bool)" where
  "Store_ResolveRoom L userID peerUserID d =
     (case normalizeRoomParticipants userID peerUserID of
        Inl err \<Rightarrow> (d, Inl err)
      | Inr (userA, userB, pairKey) \<Rightarrow>
     (case Store_getRoomByPairKey L pairKey d of
        (d, Inr room) \<Rightarrow>
          (case Store_ensureRoomByID L room d of
             (d, Some err) \<Rightarrow> (d, Inl (ChatCql err))
           | (d, None) \<Rightarrow> (d, Inr (room, False)))
      | (d, Inl err) \<Rightarrow>
          if err \<noteq> CqlNotFound then (d, Inl (ChatCql err))
          else
            let (d, roomID) = gocql_TimeUUID L d; (d, now) = chat_Now L d in
            (case cql_Exec L (insertRoomByPair
                    [CText pairKey, CText roomID, CText userA, CText userB, CTime now]) d of
               (d, Some err) \<Rightarrow> (d, Inl (ChatCql err))
             | (d, None) \<Rightarrow>
            (case Store_getRoomByPairKey L pairKey d of
               (d, Inl err) \<Rightarrow> (d, Inl (ChatCql err))
             | (d, Inr room) \<Rightarrow>
            (case Store_ensureRoomByID L room d of
               (d, Some err) \<Rightarrow> (d, Inl (ChatCql err))
             | (d, None) \<Rightarrow> (d, Inr (room, True)))))))"

definition Store_ValidateRoom :: "'c chat_lib \<Rightarrow> string \<Rightarrow> string \<Rightarrow> 'c \<Rightarrow> 'c \<times> (chat_error + bool)" where
  "Store_ValidateRoom L roomID userID d =
     (case Store_getRoomByID L roomID d of
        (d, Inl err) \<Rightarrow> if err = CqlNotFound then (d, Inr False) else (d, Inl (ChatCql err))
      | (d, Inr room) \<Rightarrow> (d, Inr (cr_UserA room = userID \<or> cr_UserB room = userID)))"

subsection \<open>What Cassandra promises\<close>

type_synonym cql_row = "string \<rightharpoonup> cql_value"

definition cql_stored :: "(time \<Rightarrow> time) \<Rightarrow> cql_value \<Rightarrow> cql_value" where
  \<comment> \<open>a \<open>timestamp\<close> column has a coarser precision than \<open>time.Time\<close>\<close>
  "cql_stored tr v = (case v of CTime t \<Rightarrow> CTime (tr t) | _ \<Rightarrow> v)"

definition new_row :: "(time \<Rightarrow> time) \<Rightarrow> string list \<Rightarrow> cql_value list \<Rightarrow> cql_row" where
  "new_row tr cols vals = map_of (zip cols (map (cql_stored tr) vals))"

text \<open>The rows of each table by the text of their primary key, which is the first column.\<close>

type_synonym cql_tables = "string \<Rightarrow> string \<rightharpoonup> cql_row"

definition put_absent :: "(time \<Rightarrow> time) \<Rightarrow> string \<Rightarrow> string list \<Rightarrow> cql_value list \<Rightarrow> cql_tables \<Rightarrow> cql_tables" where
  "put_absent tr tab cols vals t =
     (case vals of
        CText k # _ \<Rightarrow> (case t tab k of Some _ \<Rightarrow> t | None \<Rightarrow> t(tab := (t tab)(k \<mapsto> new_row tr cols vals)))
      | _ \<Rightarrow> t)"

definition row_cells :: "string list \<Rightarrow> cql_row \<Rightarrow> cql_value list" where
  "row_cells cols r = map (\<lambda>c. case r c of Some v \<Rightarrow> v | None \<Rightarrow> CNull) cols"

locale cassandra =
  fixes L :: "'c chat_lib"
    and rows :: "'c \<Rightarrow> cql_tables"
    and tr :: "time \<Rightarrow> time"
  assumes insert_ok: "cql_Exec L (InsertIfNotExists tab cols vals) d = (d', None) \<Longrightarrow>
      rows d' = put_absent tr tab cols vals (rows d)"
    and insert_err: "cql_Exec L (InsertIfNotExists tab cols vals) d = (d', Some e) \<Longrightarrow>
      rows d' \<in> {rows d, put_absent tr tab cols vals (rows d)}"
    and create_rows: "cql_Exec L (CreateTableIfNotExists tab defs) d = (d', ec) \<Longrightarrow> rows d' = rows d"
    and scan_rows: "cql_Scan L q d = (d', rq) \<Longrightarrow> rows d' = rows d"
    and scan_ok: "cql_Scan L (SelectByKey cols tab key (CText k)) d = (d', Inr cells) \<Longrightarrow>
      \<exists>r. rows d tab k = Some r \<and> cells = row_cells cols r"
    and scan_none: "cql_Scan L (SelectByKey cols tab key (CText k)) d = (d', Inl CqlNotFound) \<Longrightarrow> rows d tab k = None"
    and uuid_rows: "gocql_TimeUUID L d = (d', u) \<Longrightarrow> rows d' = rows d"
    and now_rows: "chat_Now L d = (d', now) \<Longrightarrow> rows d' = rows d"

end
