(* ===== verification/ChatRooms.thy ===== *)
theory ChatRooms
  imports ChatStore
begin

text \<open>
  Rooms of the chat service: the normal form of a pair of users, \<open>ResolveRoom\<close> cut into the
  steps between its calls, and what any number of clients that resolve and validate rooms at the
  same time can rely on.
\<close>

subsection \<open>The pair of users\<close>

lemma normalize_symmetric:
  "normalizeRoomParticipants a b = normalizeRoomParticipants b a"
  by (auto simp: normalizeRoomParticipants_def Let_def not_less intro: antisym)

definition pair_ok :: "string \<Rightarrow> string \<Rightarrow> string \<Rightarrow> bool" where
  "pair_ok a b k \<longleftrightarrow> a < b \<and> a \<noteq> [] \<and> TrimSpace a = a \<and> TrimSpace b = b \<and> k = a @ '':'' @ b"

lemma normalize_ok:
  assumes "normalizeRoomParticipants u p = Inr (a, b, k)"
  shows "pair_ok a b k" "{a, b} = {TrimSpace u, TrimSpace p}"
  using assms
  by (auto simp: normalizeRoomParticipants_def pair_ok_def Let_def split: if_splits)

lemma normalize_normal:
  assumes "pair_ok a b k"
  shows "normalizeRoomParticipants a b = Inr (a, b, k)"
proof -
  have "b \<noteq> []" using assms by (auto simp: pair_ok_def)
  then show ?thesis using assms by (auto simp: normalizeRoomParticipants_def pair_ok_def)
qed

text \<open>Without colons in the user names a key has one reading only.\<close>

lemma append_sep_inj:
  "c \<notin> set a \<Longrightarrow> c \<notin> set a' \<Longrightarrow> a @ c # b = a' @ c # b' \<Longrightarrow> a = a' \<and> b = b'"
proof (induction a arbitrary: a')
  case Nil
  then show ?case by (cases a') auto
next
  case (Cons x a)
  then show ?case by (cases a') auto
qed

lemma pair_key_unique:
  assumes "pair_ok a b k" "pair_ok a' b' k" and "CHR '':'' \<notin> set a" "CHR '':'' \<notin> set a'"
  shows "a = a' \<and> b = b'"
  using assms append_sep_inj [of "CHR '':''" a a' b b'] by (simp add: pair_ok_def)

subsection \<open>Rooms as rows\<close>

definition pair_cells :: "chat_Room \<Rightarrow> cql_value list" where
  "pair_cells room = [CText (cr_PairKey room), CText (cr_RoomID room), CText (cr_UserA room), CText (cr_UserB room),
     CTime (cr_CreatedAt room)]"

definition id_cells :: "chat_Room \<Rightarrow> cql_value list" where
  "id_cells room = [CText (cr_RoomID room), CText (cr_PairKey room), CText (cr_UserA room), CText (cr_UserB room),
     CTime (cr_CreatedAt room)]"

definition pair_row :: "chat_Room \<Rightarrow> cql_row" where
  "pair_row room = map_of (zip [''pair_key'', ''room_id'', ''user_a'', ''user_b'', ''created_at''] (pair_cells room))"

definition id_row :: "chat_Room \<Rightarrow> cql_row" where
  "id_row room = map_of (zip [''room_id'', ''pair_key'', ''user_a'', ''user_b'', ''created_at''] (id_cells room))"

lemma pair_row_cells: "row_cells [''pair_key'', ''room_id'', ''user_a'', ''user_b'', ''created_at''] (pair_row room) = pair_cells room"
  by (simp add: row_cells_def pair_row_def pair_cells_def)

lemma id_row_cells: "row_cells [''room_id'', ''pair_key'', ''user_a'', ''user_b'', ''created_at''] (id_row room) = id_cells room"
  by (simp add: row_cells_def id_row_def id_cells_def)

lemma pair_row_inj: "pair_row r = pair_row s \<longleftrightarrow> r = s"
proof
  assume "pair_row r = pair_row s"
  then have "pair_cells r = pair_cells s" using pair_row_cells by metis
  then show "r = s" by (simp add: pair_cells_def)
qed simp

lemma id_row_inj: "id_row r = id_row s \<longleftrightarrow> r = s"
proof
  assume "id_row r = id_row s"
  then have "id_cells r = id_cells s" using id_row_cells by metis
  then show "r = s" by (simp add: id_cells_def)
qed simp

lemma scan_pair: "scan_texts_time (pair_cells room) = Inr ([cr_PairKey room, cr_RoomID room, cr_UserA room, cr_UserB room], cr_CreatedAt room)"
  by (simp add: pair_cells_def)

lemma scan_id: "scan_texts_time (id_cells room) = Inr ([cr_RoomID room, cr_PairKey room, cr_UserA room, cr_UserB room], cr_CreatedAt room)"
  by (simp add: id_cells_def)

text \<open>The room a client asks to insert, as it is stored.\<close>

definition asked_room :: "(time \<Rightarrow> time) \<Rightarrow> string \<Rightarrow> string \<Rightarrow> string \<Rightarrow> string \<Rightarrow> time \<Rightarrow> chat_Room" where
  "asked_room tr k i a b now = \<lparr>cr_RoomID = i, cr_PairKey = k, cr_UserA = a, cr_UserB = b, cr_CreatedAt = tr now\<rparr>"

lemma new_pair_row:
  "new_row tr [''pair_key'', ''room_id'', ''user_a'', ''user_b'', ''created_at'']
     [CText k, CText i, CText a, CText b, CTime now] = pair_row (asked_room tr k i a b now)"
  by (simp add: new_row_def cql_stored_def pair_row_def pair_cells_def asked_room_def)

lemma new_id_row:
  "tr (cr_CreatedAt room) = cr_CreatedAt room \<Longrightarrow>
   new_row tr [''room_id'', ''pair_key'', ''user_a'', ''user_b'', ''created_at''] (id_cells room) = id_row room"
  by (simp add: new_row_def cql_stored_def id_row_def id_cells_def)

subsection \<open>Resolving, step by step\<close>

datatype resolve_phase =
    RLookup string string string                    \<comment> \<open>users and key: read the room of the pair\<close>
  | RStamp string string string                     \<comment> \<open>none there: make an id and read the clock\<close>
  | RInsert string string string string time        \<comment> \<open>insert the room if none is there\<close>
  | RReread string                                  \<comment> \<open>read it again\<close>
  | REnsure chat_Room bool                          \<comment> \<open>insert it under its id\<close>
  | RDone "chat_error + chat_Room \<times> bool"

definition resolve_start :: "string \<Rightarrow> string \<Rightarrow> resolve_phase" where
  "resolve_start u p =
     (case normalizeRoomParticipants u p of Inl e \<Rightarrow> RDone (Inl e) | Inr (a, b, k) \<Rightarrow> RLookup a b k)"

fun resolve_step :: "'c chat_lib \<Rightarrow> 'c \<times> resolve_phase \<Rightarrow> 'c \<times> resolve_phase" where
  "resolve_step L (d, RLookup a b k) =
     (case Store_getRoomByPairKey L k d of
        (d, Inr room) \<Rightarrow> (d, REnsure room False)
      | (d, Inl e) \<Rightarrow> (d, if e \<noteq> CqlNotFound then RDone (Inl (ChatCql e)) else RStamp a b k))"
| "resolve_step L (d, RStamp a b k) =
     (let (d, i) = gocql_TimeUUID L d; (d, now) = chat_Now L d in (d, RInsert a b k i now))"
| "resolve_step L (d, RInsert a b k i now) =
     (case cql_Exec L (insertRoomByPair [CText k, CText i, CText a, CText b, CTime now]) d of
        (d, Some e) \<Rightarrow> (d, RDone (Inl (ChatCql e)))
      | (d, None) \<Rightarrow> (d, RReread k))"
| "resolve_step L (d, RReread k) =
     (case Store_getRoomByPairKey L k d of
        (d, Inl e) \<Rightarrow> (d, RDone (Inl (ChatCql e)))
      | (d, Inr room) \<Rightarrow> (d, REnsure room True))"
| "resolve_step L (d, REnsure room created) =
     (case Store_ensureRoomByID L room d of
        (d, Some e) \<Rightarrow> (d, RDone (Inl (ChatCql e)))
      | (d, None) \<Rightarrow> (d, RDone (Inr (room, created))))"
| "resolve_step L (d, RDone r) = (d, RDone r)"

lemma resolve_steps_done [simp]: "(resolve_step L ^^ n) (d, RDone r) = (d, RDone r)"
  by (induction n) simp_all

text \<open>
  The steps are those of \<open>Store_ResolveRoom\<close>: taken one after the other they give its answer and
  its state, whatever the store answers, so what holds of their interleavings holds of the
  operation as it is written.
\<close>

lemma ResolveRoom_steps:
  "(resolve_step L ^^ 5) (d, resolve_start u p)
     = (fst (Store_ResolveRoom L u p d), RDone (snd (Store_ResolveRoom L u p d)))"
proof (cases "normalizeRoomParticipants u p")
  case (Inl e)
  then show ?thesis by (simp add: resolve_start_def Store_ResolveRoom_def)
next
  case (Inr abk)
  obtain a b k where abk: "abk = (a, b, k)" by (cases abk)
  have five: "(f ^^ 5) x = f (f (f (f (f x))))" for f :: "'x \<Rightarrow> 'x" and x by (simp add: numeral_eq_Suc)
  show ?thesis
    unfolding five using Inr abk
    by (simp add: resolve_start_def Store_ResolveRoom_def Let_def split: prod.splits sum.splits option.splits)
qed

subsection \<open>Many clients\<close>

text \<open>
  Every client has one request; which client moves next is arbitrary, and messages are stored and
  rooms validated in between. A client that is never scheduled again has crashed.
\<close>

type_synonym requests = "nat \<Rightarrow> string \<times> string"

inductive chat_step ::
    "'c chat_lib \<Rightarrow> 'c \<times> (nat \<Rightarrow> resolve_phase) \<Rightarrow> 'c \<times> (nat \<Rightarrow> resolve_phase) \<Rightarrow> bool" for L where
  resolving: "resolve_step L (d, ph i) = (d', q) \<Longrightarrow> chat_step L (d, ph) (d', ph(i := q))"
| storing: "Store_InsertMessage L m d = (d', e) \<Longrightarrow> chat_step L (d, ph) (d', ph)"
| validating: "Store_ValidateRoom L room user d = (d', v) \<Longrightarrow> chat_step L (d, ph) (d', ph)"
| migrating: "Store_Migrate L d = (d', e) \<Longrightarrow> chat_step L (d, ph) (d', ph)"

inductive_cases chat_stepE: "chat_step L (d, ph) (d', ph')"

abbreviation chat_steps where
  "chat_steps L \<equiv> (chat_step L)\<^sup>*\<^sup>*"

definition all_start :: "requests \<Rightarrow> nat \<Rightarrow> resolve_phase" where
  "all_start req i = resolve_start (fst (req i)) (snd (req i))"

text \<open>What holds of the tables: \<open>I\<close> are the room ids handed out so far.\<close>

definition pairs_ok :: "(time \<Rightarrow> time) \<Rightarrow> string set \<Rightarrow> cql_tables \<Rightarrow> bool" where
  "pairs_ok tr I t \<longleftrightarrow>
     (\<forall>k r. t chat_rooms_by_pair k = Some r \<longrightarrow>
        (\<exists>room. r = pair_row room \<and> cr_PairKey room = k \<and> pair_ok (cr_UserA room) (cr_UserB room) k
           \<and> cr_RoomID room \<in> I \<and> tr (cr_CreatedAt room) = cr_CreatedAt room))
     \<and> (\<forall>k k' room room'. t chat_rooms_by_pair k = Some (pair_row room) \<longrightarrow>
          t chat_rooms_by_pair k' = Some (pair_row room') \<longrightarrow> cr_RoomID room = cr_RoomID room' \<longrightarrow> k = k')"

definition ids_ok :: "cql_tables \<Rightarrow> bool" where
  "ids_ok t \<longleftrightarrow>
     (\<forall>i r. t chat_rooms_by_id i = Some r \<longrightarrow>
        (\<exists>room. r = id_row room \<and> cr_RoomID room = i \<and> t chat_rooms_by_pair (cr_PairKey room) = Some (pair_row room)))"

definition room_stored :: "cql_tables \<Rightarrow> chat_Room \<Rightarrow> bool" where
  "room_stored t room \<longleftrightarrow> t chat_rooms_by_pair (cr_PairKey room) = Some (pair_row room)"

fun phase_ok :: "string set \<Rightarrow> cql_tables \<Rightarrow> string \<times> string \<Rightarrow> resolve_phase \<Rightarrow> bool" where
  "phase_ok I t (u, p) (RLookup a b k) \<longleftrightarrow> normalizeRoomParticipants u p = Inr (a, b, k)"
| "phase_ok I t (u, p) (RStamp a b k) \<longleftrightarrow> normalizeRoomParticipants u p = Inr (a, b, k)"
| "phase_ok I t (u, p) (RInsert a b k i now) \<longleftrightarrow>
     normalizeRoomParticipants u p = Inr (a, b, k) \<and> i \<in> I
     \<and> (\<forall>k' room. t chat_rooms_by_pair k' = Some (pair_row room) \<longrightarrow> cr_RoomID room \<noteq> i)"
| "phase_ok I t (u, p) (RReread k) \<longleftrightarrow> (\<exists>a b. normalizeRoomParticipants u p = Inr (a, b, k)) \<and> t chat_rooms_by_pair k \<noteq> None"
| "phase_ok I t (u, p) (REnsure room c) \<longleftrightarrow>
     (\<exists>a b. normalizeRoomParticipants u p = Inr (a, b, cr_PairKey room)) \<and> room_stored t room"
| "phase_ok I t (u, p) (RDone r) \<longleftrightarrow>
     (\<forall>room c. r = Inr (room, c) \<longrightarrow>
        (\<exists>a b. normalizeRoomParticipants u p = Inr (a, b, cr_PairKey room)) \<and> room_stored t room
        \<and> t chat_rooms_by_id (cr_RoomID room) = Some (id_row room))"

fun pending_id :: "resolve_phase \<Rightarrow> string option" where
  "pending_id (RInsert a b k i now) = Some i"
| "pending_id _ = None"

definition chat_inv ::
    "(time \<Rightarrow> time) \<Rightarrow> string set \<Rightarrow> cql_tables \<Rightarrow> requests \<Rightarrow> (nat \<Rightarrow> resolve_phase) \<Rightarrow> bool" where
  "chat_inv tr I t req ph \<longleftrightarrow>
     pairs_ok tr I t \<and> ids_ok t \<and> (\<forall>i. phase_ok I t (req i) (ph i))
     \<and> (\<forall>i j x. pending_id (ph i) = Some x \<longrightarrow> pending_id (ph j) = Some x \<longrightarrow> i = j)"

lemma chat_invD:
  assumes "chat_inv tr I t req ph"
  shows "pairs_ok tr I t" "ids_ok t" "phase_ok I t (req i) (ph i)"
    "pending_id (ph i) = Some x \<Longrightarrow> pending_id (ph j) = Some x \<Longrightarrow> i = j"
  using assms unfolding chat_inv_def by blast+

text \<open>Tables only grow, and growing keeps what the other clients rely on.\<close>

definition grows :: "cql_tables \<Rightarrow> cql_tables \<Rightarrow> bool" where
  "grows t t' \<longleftrightarrow> (\<forall>tab. t tab \<subseteq>\<^sub>m t' tab)"

lemma grows_refl [simp]: "grows t t"
  by (simp add: grows_def)

lemma growsD: "grows t t' \<Longrightarrow> t tab k = Some r \<Longrightarrow> t' tab k = Some r"
  by (auto simp: grows_def map_le_def dom_def)

lemma grows_put_absent: "grows t (put_absent tr tab cols vals t)"
  by (auto simp: grows_def map_le_def put_absent_def split: list.splits cql_value.splits option.splits)

lemma put_absent_other [simp]: "tab' \<noteq> tab \<Longrightarrow> put_absent tr tab cols vals t tab' = t tab'"
  by (auto simp: put_absent_def split: list.splits cql_value.splits option.splits)

lemma put_absent_key:
  "put_absent tr tab cols (CText k # vals) t tab =
     (case t tab k of Some _ \<Rightarrow> t tab | None \<Rightarrow> (t tab)(k \<mapsto> new_row tr cols (CText k # vals)))"
  by (auto simp: put_absent_def split: option.splits)

lemma room_stored_grows: "grows t t' \<Longrightarrow> room_stored t room \<Longrightarrow> room_stored t' room"
  by (simp add: room_stored_def growsD)

lemma phase_ok_grows:
  assumes "grows t t'" and "I \<subseteq> I'" and "phase_ok I t rq ph"
    and "\<And>i k room. pending_id ph = Some i \<Longrightarrow> t' chat_rooms_by_pair k = Some (pair_row room) \<Longrightarrow>
       t chat_rooms_by_pair k = None \<Longrightarrow> cr_RoomID room \<noteq> i"
  shows "phase_ok I' t' rq ph"
proof -
  obtain u p where rq: "rq = (u, p)" by (cases rq)
  show ?thesis
  proof (cases ph)
    case (RInsert a b k i now)
    have "cr_RoomID room \<noteq> i" if r: "t' chat_rooms_by_pair k' = Some (pair_row room)" for k' room
    proof (cases "t chat_rooms_by_pair k'")
      case None
      then show ?thesis using assms(4) r RInsert by simp
    next
      case (Some r')
      then have "t chat_rooms_by_pair k' = Some (pair_row room)" using growsD [OF assms(1) Some] r by simp
      then show ?thesis using assms(3) RInsert rq by auto
    qed
    then show ?thesis using assms(2,3) RInsert rq by auto
  next
    case (RReread k)
    then show ?thesis using assms(3) rq growsD [OF assms(1)] by fastforce
  next
    case (REnsure room c)
    then show ?thesis using assms(3) rq room_stored_grows [OF assms(1)] by auto
  next
    case (RDone r)
    then show ?thesis using assms(3) rq room_stored_grows [OF assms(1)] growsD [OF assms(1)] by auto
  qed (use assms(3) rq in auto)
qed

lemma chat_inv_step:
  assumes inv: "chat_inv tr I t req ph" and g: "grows t t'" "I \<subseteq> I'"
    and t': "pairs_ok tr I' t'" "ids_ok t'" and q: "phase_ok I' t' (req i) q"
    and new: "\<And>k room j x. j \<noteq> i \<Longrightarrow> pending_id (ph j) = Some x \<Longrightarrow>
       t' chat_rooms_by_pair k = Some (pair_row room) \<Longrightarrow> t chat_rooms_by_pair k = None \<Longrightarrow> cr_RoomID room \<noteq> x"
    and pend: "\<And>j x. j \<noteq> i \<Longrightarrow> pending_id q = Some x \<Longrightarrow> pending_id (ph j) \<noteq> Some x"
  shows "chat_inv tr I' t' req (ph(i := q))"
proof -
  have "phase_ok I' t' (req j) ((ph(i := q)) j)" for j
  proof (cases "j = i")
    case False
    have "phase_ok I t (req j) (ph j)" using inv by (rule chat_invD)
    then have "phase_ok I' t' (req j) (ph j)" by (rule phase_ok_grows [OF g]) (rule new [OF False])
    with False show ?thesis by simp
  qed (use q in simp)
  moreover have "j = j'" if "pending_id ((ph(i := q)) j) = Some x" "pending_id ((ph(i := q)) j') = Some x" for j j' x
  proof (cases "j = i"; cases "j' = i")
    assume "j \<noteq> i" "j' \<noteq> i"
    then have "pending_id (ph j) = Some x" "pending_id (ph j') = Some x" using that by simp_all
    then show ?thesis by (rule chat_invD(4) [OF inv])
  qed (use that pend in auto)
  ultimately show ?thesis using t' unfolding chat_inv_def by blast
qed

lemma pairs_ok_mono: "pairs_ok tr I t \<Longrightarrow> I \<subseteq> I' \<Longrightarrow> pairs_ok tr I' t"
  unfolding pairs_ok_def by (meson subsetD)

lemma chat_inv_same:
  assumes "chat_inv tr I t req ph" and "I \<subseteq> I'" and "phase_ok I' t (req i) q"
    and "\<And>j x. j \<noteq> i \<Longrightarrow> pending_id q = Some x \<Longrightarrow> pending_id (ph j) \<noteq> Some x"
  shows "chat_inv tr I' t req (ph(i := q))"
proof (rule chat_inv_step [OF assms(1) grows_refl assms(2)])
  show "pairs_ok tr I' t" using chat_invD(1) [OF assms(1)] assms(2) by (rule pairs_ok_mono)
  show "ids_ok t" using assms(1) by (rule chat_invD)
qed (use assms(3,4) in simp_all)

lemma chat_inv_other:
  assumes inv: "chat_inv tr I t req ph" and "grows t t'"
    and same: "t' chat_rooms_by_pair = t chat_rooms_by_pair" "t' chat_rooms_by_id = t chat_rooms_by_id"
  shows "chat_inv tr I t' req ph"
proof -
  have "chat_inv tr I t' req (ph(0 := ph 0))"
  proof (rule chat_inv_step [OF inv assms(2) subset_refl])
    show "pairs_ok tr I t'" using chat_invD(1) [OF inv] same by (simp add: pairs_ok_def)
    show "ids_ok t'" using chat_invD(2) [OF inv] same by (simp add: ids_ok_def)
    show "phase_ok I t' (req 0) (ph 0)"
      by (rule phase_ok_grows [OF assms(2) subset_refl chat_invD(3) [OF inv]]) (simp add: same)
    show "pending_id (ph j) \<noteq> Some x" if "j \<noteq> 0" "pending_id (ph 0) = Some x" for j x
      using that chat_invD(4) [OF inv] by blast
  qed (simp add: same)
  then show ?thesis by simp
qed

text \<open>The two inserts on tables that are in order.\<close>

lemma pairs_ok_insert:
  assumes ok: "pairs_ok tr I t" and pk: "pair_ok a b k" and i: "i \<in> I" and idem: "tr (tr now) = tr now"
    and fresh: "\<forall>k' room. t chat_rooms_by_pair k' = Some (pair_row room) \<longrightarrow> cr_RoomID room \<noteq> i"
    and t': "t' chat_rooms_by_pair = (t chat_rooms_by_pair)(k \<mapsto> pair_row (asked_room tr k i a b now))"
  shows "pairs_ok tr I t'"
proof -
  let ?new = "asked_room tr k i a b now"
  have "\<exists>room. r = pair_row room \<and> cr_PairKey room = k' \<and> pair_ok (cr_UserA room) (cr_UserB room) k'
           \<and> cr_RoomID room \<in> I \<and> tr (cr_CreatedAt room) = cr_CreatedAt room"
    if "t' chat_rooms_by_pair k' = Some r" for k' r
  proof (cases "k' = k")
    case True
    then show ?thesis using that t' pk i idem by (intro exI [of _ ?new]) (simp add: asked_room_def)
  next
    case False
    then have "t chat_rooms_by_pair k' = Some r" using that t' by simp
    with ok show ?thesis unfolding pairs_ok_def by blast
  qed
  moreover have "k1 = k2"
    if "t' chat_rooms_by_pair k1 = Some (pair_row room1)" "t' chat_rooms_by_pair k2 = Some (pair_row room2)"
      "cr_RoomID room1 = cr_RoomID room2" for k1 k2 room1 room2
  proof -
    have at_k: "cr_RoomID room = i" if "t' chat_rooms_by_pair k = Some (pair_row room)" for room
      using that t' by (auto simp: pair_row_inj asked_room_def)
    have off_k: "t chat_rooms_by_pair k' = Some (pair_row room) \<and> cr_RoomID room \<noteq> i"
      if "t' chat_rooms_by_pair k' = Some (pair_row room)" "k' \<noteq> k" for k' room
      using that t' fresh by auto
    show ?thesis
    proof (cases "k1 = k \<or> k2 = k")
      case True
      then show ?thesis using that at_k off_k by metis
    next
      case False
      then show ?thesis using that off_k ok unfolding pairs_ok_def by metis
    qed
  qed
  ultimately show ?thesis unfolding pairs_ok_def by blast
qed

lemma ids_ok_grows:
  assumes "ids_ok t" and "grows t t'" and "t' chat_rooms_by_id = t chat_rooms_by_id"
  shows "ids_ok t'"
  using assms(1,3) growsD [OF assms(2)] unfolding ids_ok_def by metis

lemma ids_ok_ensure:
  assumes ids: "ids_ok t" and pairs: "pairs_ok tr I t" and st: "room_stored t room"
  defines "t' \<equiv> put_absent tr chat_rooms_by_id [''room_id'', ''pair_key'', ''user_a'', ''user_b'', ''created_at''] (id_cells room) t"
  shows "ids_ok t'" and "t' chat_rooms_by_id (cr_RoomID room) = Some (id_row room)"
proof -
  have tr: "tr (cr_CreatedAt room) = cr_CreatedAt room"
    using pairs st unfolding room_stored_def pairs_ok_def by (metis pair_row_inj)
  have same: "t' chat_rooms_by_pair = t chat_rooms_by_pair" by (simp add: t'_def)
  have "ids_ok t' \<and> t' chat_rooms_by_id (cr_RoomID room) = Some (id_row room)"
  proof (cases "t chat_rooms_by_id (cr_RoomID room)")
    case None
    then have "t' chat_rooms_by_id = (t chat_rooms_by_id)(cr_RoomID room \<mapsto> id_row room)"
      using put_absent_key [of tr chat_rooms_by_id _ "cr_RoomID room" "tl (id_cells room)" t] new_id_row [of tr room, OF tr]
      by (simp add: t'_def id_cells_def)
    then show ?thesis using ids st same by (auto simp: ids_ok_def room_stored_def)
  next
    case (Some r)
    then have t': "t' chat_rooms_by_id = t chat_rooms_by_id"
      using put_absent_key [of tr chat_rooms_by_id _ "cr_RoomID room" "tl (id_cells room)" t]
      by (simp add: t'_def id_cells_def)
    from ids Some obtain room2 where r2: "r = id_row room2" "cr_RoomID room2 = cr_RoomID room"
      "t chat_rooms_by_pair (cr_PairKey room2) = Some (pair_row room2)" unfolding ids_ok_def by blast
    then have "cr_PairKey room2 = cr_PairKey room"
      using pairs st unfolding room_stored_def pairs_ok_def by blast
    then have "room2 = room" using r2(3) st by (simp add: room_stored_def pair_row_inj)
    then show ?thesis using ids t' same r2(1) Some by (simp add: ids_ok_def)
  qed
  then show "ids_ok t'" and "t' chat_rooms_by_id (cr_RoomID room) = Some (id_row room)" by auto
qed

subsection \<open>The invariant is kept\<close>

locale cassandra_rooms = cassandra L rows tr
  for L :: "'c chat_lib" and rows tr +
  fixes issued :: "'c \<Rightarrow> string set"
  assumes uuid_new: "gocql_TimeUUID L d = (d', u) \<Longrightarrow> u \<notin> issued d \<and> issued d' = insert u (issued d)"
    and exec_issued: "cql_Exec L q d = (d', e) \<Longrightarrow> issued d' = issued d"
    and scan_issued: "cql_Scan L q d = (d', rq) \<Longrightarrow> issued d' = issued d"
    and now_issued: "chat_Now L d = (d', now) \<Longrightarrow> issued d' = issued d"
    and tr_idem: "tr (tr x) = tr x"
begin

lemma insert_outcome:
  assumes "cql_Exec L (InsertIfNotExists tab cols vals) d = (d', e)"
  shows "rows d' = rows d \<or> rows d' = put_absent tr tab cols vals (rows d)"
    and "e = None \<Longrightarrow> rows d' = put_absent tr tab cols vals (rows d)"
proof -
  show "rows d' = put_absent tr tab cols vals (rows d)" if "e = None"
    using assms that insert_ok by simp
  then show "rows d' = rows d \<or> rows d' = put_absent tr tab cols vals (rows d)"
    using assms insert_err by (cases e) auto
qed

lemma get_pair:
  assumes "Store_getRoomByPairKey L k d = (d', r)"
  shows "rows d' = rows d" "issued d' = issued d" "r = Inl CqlNotFound \<Longrightarrow> rows d chat_rooms_by_pair k = None"
    and "pairs_ok tr I (rows d) \<Longrightarrow> r = Inr room \<Longrightarrow> cr_PairKey room = k \<and> room_stored (rows d) room"
proof -
  let ?q = "SelectByKey [''pair_key'', ''room_id'', ''user_a'', ''user_b'', ''created_at''] chat_rooms_by_pair ''pair_key'' (CText k)"
  obtain d1 rq where q: "cql_Scan L ?q d = (d1, rq)" by (cases "cql_Scan L ?q d")
  have d': "d' = d1" using assms q
    by (auto simp: Store_getRoomByPairKey_def split: sum.splits prod.splits list.splits)
  then show "rows d' = rows d" "issued d' = issued d" using scan_rows [OF q] scan_issued [OF q] by auto
  show "rows d chat_rooms_by_pair k = None" if r: "r = Inl CqlNotFound"
  proof (cases rq)
    case (Inl e)
    then show ?thesis using assms q r scan_none by (auto simp: Store_getRoomByPairKey_def)
  next
    case (Inr cells)
    have "scan_texts_time cells \<noteq> Inl CqlNotFound"
      by (induction cells rule: scan_texts_time.induct)
        (auto split: sum.splits elim!: scan_text.elims scan_time.elims)
    then show ?thesis using assms q r Inr
      by (auto simp: Store_getRoomByPairKey_def split: sum.splits prod.splits list.splits)
  qed
  show "cr_PairKey room = k \<and> room_stored (rows d) room" if ok: "pairs_ok tr I (rows d)" and r: "r = Inr room"
  proof -
    from assms q r obtain cells where rq: "rq = Inr cells" by (cases rq) (auto simp: Store_getRoomByPairKey_def)
    from scan_ok [OF q [unfolded rq]] obtain row where row: "rows d chat_rooms_by_pair k = Some row"
      "cells = row_cells [''pair_key'', ''room_id'', ''user_a'', ''user_b'', ''created_at''] row" by blast
    from ok row(1) obtain room' where room': "row = pair_row room'" "cr_PairKey room' = k"
      unfolding pairs_ok_def by blast
    have "cells = pair_cells room'" using row(2) room'(1) pair_row_cells by simp
    then have "room = room'"
      using assms q r rq scan_pair [of room'] by (cases room') (auto simp: Store_getRoomByPairKey_def)
    then show ?thesis using row(1) room' by (simp add: room_stored_def)
  qed
qed

lemma get_pair_there:
  assumes "Store_getRoomByPairKey L k d = (d', r)" and "pairs_ok tr I (rows d)" and "rows d chat_rooms_by_pair k = Some row"
  obtains (found) room where "r = Inr room" "row = pair_row room" "cr_PairKey room = k" "room_stored (rows d) room"
    | (failed) e where "r = Inl (CqlError e)"
proof (cases r)
  case (Inl e)
  then show ?thesis using get_pair(3) [OF assms(1)] assms(3) failed by (cases e) auto
next
  case (Inr room)
  from get_pair(4) [OF assms(1,2) Inr] assms(3) Inr show ?thesis by (auto simp: room_stored_def intro: found)
qed

lemma insert_pair:
  assumes run: "cql_Exec L (insertRoomByPair [CText k, CText i, CText a, CText b, CTime now]) d = (d', e)"
    and inv: "chat_inv tr (issued d) (rows d) req ph" and j: "ph j = RInsert a b k i now"
  shows "grows (rows d) (rows d')" "pairs_ok tr (issued d) (rows d')" "ids_ok (rows d')"
    and "rows d' chat_rooms_by_pair k' = Some (pair_row room) \<Longrightarrow> rows d chat_rooms_by_pair k' = None \<Longrightarrow> cr_RoomID room = i"
    and "e = None \<Longrightarrow> rows d' chat_rooms_by_pair k \<noteq> None"
proof -
  let ?cols = "[''pair_key'', ''room_id'', ''user_a'', ''user_b'', ''created_at'']"
  let ?vals = "[CText k, CText i, CText a, CText b, CTime now]"
  let ?p = "put_absent tr chat_rooms_by_pair ?cols ?vals (rows d)"
  note cases = insert_outcome [OF run [unfolded insertRoomByPair_def]]
  have ph: "phase_ok (issued d) (rows d) (req j) (RInsert a b k i now)"
    unfolding j [symmetric] using inv by (rule chat_invD)
  obtain u p where rq: "req j = (u, p)" by (cases "req j")
  from ph have norm: "normalizeRoomParticipants u p = Inr (a, b, k)" and i: "i \<in> issued d"
    and fresh: "\<forall>k' room. rows d chat_rooms_by_pair k' = Some (pair_row room) \<longrightarrow> cr_RoomID room \<noteq> i"
    unfolding rq phase_ok.simps by blast+
  note pk = normalize_ok(1) [OF norm]
  have P: "?p chat_rooms_by_pair = (case rows d chat_rooms_by_pair k of Some _ \<Rightarrow> rows d chat_rooms_by_pair
      | None \<Rightarrow> (rows d chat_rooms_by_pair)(k \<mapsto> pair_row (asked_room tr k i a b now)))"
    by (simp only: put_absent_key new_pair_row)
  note old = chat_invD(1,2) [OF inv]
  have pp: "pairs_ok tr (issued d) ?p"
  proof (cases "rows d chat_rooms_by_pair k")
    case None
    then show ?thesis using P by (intro pairs_ok_insert [OF old(1) pk i tr_idem fresh]) simp
  next
    case (Some r)
    then have "?p = rows d" by (simp add: put_absent_def)
    with old(1) show ?thesis by (simp only:)
  qed
  have g: "grows (rows d) ?p" by (rule grows_put_absent)
  have ip: "ids_ok ?p" by (rule ids_ok_grows [OF old(2) g]) simp
  show "grows (rows d) (rows d')" using cases(1) by (rule disjE) (simp_all only: grows_refl g)
  show "pairs_ok tr (issued d) (rows d')" using cases(1) by (rule disjE) (simp_all only: old(1) pp)
  show "ids_ok (rows d')" using cases(1) by (rule disjE) (simp_all only: old(2) ip)
  show "cr_RoomID room = i"
    if "rows d' chat_rooms_by_pair k' = Some (pair_row room)" "rows d chat_rooms_by_pair k' = None"
  proof -
    have "rows d' = ?p" using cases(1) that by auto
    then have p: "?p chat_rooms_by_pair k' = Some (pair_row room)" using that(1) by (simp only:)
    show ?thesis
    proof (cases "rows d chat_rooms_by_pair k")
      case None
      then have "((rows d chat_rooms_by_pair)(k \<mapsto> pair_row (asked_room tr k i a b now))) k' = Some (pair_row room)"
        using p unfolding P by (simp only: option.case)
      then have "pair_row (asked_room tr k i a b now) = pair_row room"
        using that(2) by (simp split: if_splits)
      then show ?thesis by (auto simp: pair_row_inj asked_room_def)
    next
      case (Some r)
      then show ?thesis using p that(2) unfolding P by simp
    qed
  qed
  show "rows d' chat_rooms_by_pair k \<noteq> None" if "e = None"
    unfolding cases(2) [OF that] P by (simp split: option.split)
qed

lemma ensure_room:
  assumes run: "Store_ensureRoomByID L room d = (d', e)"
    and inv: "pairs_ok tr (issued d) (rows d)" "ids_ok (rows d)" and st: "room_stored (rows d) room"
  shows "grows (rows d) (rows d')" "pairs_ok tr (issued d) (rows d')" "ids_ok (rows d')"
    and "rows d' chat_rooms_by_pair = rows d chat_rooms_by_pair"
    and "e = None \<Longrightarrow> rows d' chat_rooms_by_id (cr_RoomID room) = Some (id_row room)"
proof -
  let ?cols = "[''room_id'', ''pair_key'', ''user_a'', ''user_b'', ''created_at'']"
  let ?p = "put_absent tr chat_rooms_by_id ?cols (id_cells room) (rows d)"
  note cases = insert_outcome [OF run [unfolded Store_ensureRoomByID_def insertRoomByID_def], folded id_cells_def]
  note en = ids_ok_ensure [OF inv(2,1) st]
  show "grows (rows d) (rows d')" using cases(1) grows_put_absent by auto
  show same: "rows d' chat_rooms_by_pair = rows d chat_rooms_by_pair" using cases(1) by auto
  show "pairs_ok tr (issued d) (rows d')" using inv(1) same by (simp add: pairs_ok_def)
  show "ids_ok (rows d')" using cases(1) en(1) inv(2) by auto
  show "rows d' chat_rooms_by_id (cr_RoomID room) = Some (id_row room)" if "e = None"
    using cases(2) [OF that] en(2) by simp
qed

lemma resolving_inv:
  assumes step: "resolve_step L (d, ph i) = (d', q)" and inv: "chat_inv tr (issued d) (rows d) req ph"
  shows "chat_inv tr (issued d') (rows d') req (ph(i := q))"
proof -
  obtain u p where rq: "req i = (u, p)" by (cases "req i")
  note phi = chat_invD(3) [OF inv, of i]
  note pairs = chat_invD(1) [OF inv] and ids = chat_invD(2) [OF inv]
  show ?thesis
  proof (cases "ph i")
    case (RLookup a b k)
    obtain r where g: "Store_getRoomByPairKey L k d = (d', r)"
      and q: "q = (case r of Inr room \<Rightarrow> REnsure room False
        | Inl e \<Rightarrow> if e \<noteq> CqlNotFound then RDone (Inl (ChatCql e)) else RStamp a b k)"
      using step RLookup by (auto split: prod.splits sum.splits)
    note get = get_pair [OF g]
    have "phase_ok (issued d) (rows d) (req i) q \<and> pending_id q = None"
    proof (cases r)
      case (Inr room)
      with get(4) [OF pairs] phi RLookup q show ?thesis by (auto simp: rq)
    qed (use phi RLookup q in \<open>auto simp: rq\<close>)
    then show ?thesis using chat_inv_same [OF inv subset_refl, of i q] get(1,2) by simp
  next
    case (RStamp a b k)
    obtain d1 x where u: "gocql_TimeUUID L d = (d1, x)" by (cases "gocql_TimeUUID L d")
    obtain d2 now where n: "chat_Now L d1 = (d2, now)" by (cases "chat_Now L d1")
    have q: "d' = d2" "q = RInsert a b k x now" using step RStamp u n by simp_all
    have x: "x \<notin> issued d" "issued d' = insert x (issued d)" "rows d' = rows d"
      using uuid_new [OF u] now_issued [OF n] uuid_rows [OF u] now_rows [OF n] q(1) by simp_all
    have "cr_RoomID room \<noteq> x" if "rows d chat_rooms_by_pair k' = Some (pair_row room)" for k' room
      using pairs that x(1) unfolding pairs_ok_def by (metis pair_row_inj)
    then have ok: "phase_ok (issued d') (rows d) (req i) q" using phi RStamp q(2) x(2) by (auto simp: rq)
    have "pending_id (ph j) \<noteq> Some x" for j
    proof
      assume "pending_id (ph j) = Some x"
      then obtain a b k now where "ph j = RInsert a b k x now" by (cases "ph j") auto
      then show False using chat_invD(3) [OF inv, of j] x(1) by (cases "req j") simp
    qed
    then show ?thesis using chat_inv_same [OF inv _ ok] x q(2) by auto
  next
    case (RInsert a b k x now)
    obtain e where run: "cql_Exec L (insertRoomByPair [CText k, CText x, CText a, CText b, CTime now]) d = (d', e)"
      and q: "q = (case e of Some e \<Rightarrow> RDone (Inl (ChatCql e)) | None \<Rightarrow> RReread k)"
      using step RInsert by (auto split: prod.splits option.splits)
    note ins = insert_pair [OF run inv RInsert]
    note iss = exec_issued [OF run]
    have ok: "phase_ok (issued d) (rows d') (req i) q"
      using ins(5) phi RInsert q by (cases e) (auto simp: rq)
    have "pending_id q = None" using q by (cases e) simp_all
    moreover have "cr_RoomID room \<noteq> y"
      if "j \<noteq> i" "pending_id (ph j) = Some y" "rows d' chat_rooms_by_pair k' = Some (pair_row room)"
        "rows d chat_rooms_by_pair k' = None" for k' room j y
    proof -
      have "pending_id (ph i) = Some x" using RInsert by simp
      with chat_invD(4) [OF inv] that(1,2) have "x \<noteq> y" by blast
      with ins(4) [OF that(3,4)] show ?thesis by simp
    qed
    ultimately have "chat_inv tr (issued d) (rows d') req (ph(i := q))"
      by (intro chat_inv_step [OF inv ins(1) subset_refl ins(2,3) ok]) simp_all
    then show ?thesis using iss by simp
  next
    case (RReread k)
    obtain r where g: "Store_getRoomByPairKey L k d = (d', r)"
      and q: "q = (case r of Inr room \<Rightarrow> REnsure room True | Inl e \<Rightarrow> RDone (Inl (ChatCql e)))"
      using step RReread by (auto split: prod.splits sum.splits)
    note get = get_pair [OF g]
    have "phase_ok (issued d) (rows d) (req i) q \<and> pending_id q = None"
    proof (cases r)
      case (Inr room)
      with get(4) [OF pairs] phi RReread q show ?thesis by (auto simp: rq)
    qed (use q in \<open>auto simp: rq\<close>)
    then show ?thesis using chat_inv_same [OF inv subset_refl, of i q] get(1,2) by simp
  next
    case (REnsure room c)
    obtain e where run: "Store_ensureRoomByID L room d = (d', e)"
      and q: "q = RDone (case e of Some e \<Rightarrow> Inl (ChatCql e) | None \<Rightarrow> Inr (room, c))"
      using step REnsure by (auto split: prod.splits option.splits)
    have st: "room_stored (rows d) room" using phi REnsure by (simp add: rq)
    note en = ensure_room [OF run pairs ids st]
    have iss: "issued d' = issued d" using exec_issued run by (simp add: Store_ensureRoomByID_def)
    have ok: "phase_ok (issued d) (rows d') (req i) q"
      using en(4,5) phi REnsure q st by (cases e) (auto simp: rq room_stored_def)
    have "chat_inv tr (issued d) (rows d') req (ph(i := q))"
      by (intro chat_inv_step [OF inv en(1) subset_refl en(2,3) ok]) (simp_all add: en(4) q)
    then show ?thesis using iss by simp
  next
    case (RDone r)
    then have "d' = d" "ph(i := q) = ph" using step by auto
    then show ?thesis using inv by simp
  qed
qed

lemma InsertMessage_frame:
  assumes "Store_InsertMessage L m d = (d', e)"
  shows "issued d' = issued d \<and> grows (rows d) (rows d')
     \<and> rows d' chat_rooms_by_pair = rows d chat_rooms_by_pair \<and> rows d' chat_rooms_by_id = rows d chat_rooms_by_id"
proof -
  obtain d1 now where n: "chat_Now L d = (d1, now)" by (cases "chat_Now L d")
  from assms n obtain cols vals x where x: "cql_Exec L (InsertIfNotExists chat_messages cols vals) d1 = (d', x)"
    by (auto simp: Store_InsertMessage_def insertChatMessage_def split: prod.splits)
  from insert_outcome(1) [OF x] show ?thesis
    unfolding exec_issued [OF x] now_rows [OF n, symmetric] now_issued [OF n, symmetric]
    by (rule disjE) (simp_all add: grows_put_absent)
qed

lemma ValidateRoom_frame:
  assumes "Store_ValidateRoom L i user d = (d', v)"
  shows "issued d' = issued d \<and> rows d' = rows d"
proof -
  let ?q = "SelectByKey [''room_id'', ''pair_key'', ''user_a'', ''user_b'', ''created_at''] chat_rooms_by_id ''room_id'' (CText i)"
  obtain d1 rq where q: "cql_Scan L ?q d = (d1, rq)" by (cases "cql_Scan L ?q d")
  have "d' = d1"
    using assms q
    by (auto simp: Store_ValidateRoom_def Store_getRoomByID_def split: sum.splits prod.splits list.splits if_splits)
  then show ?thesis using scan_rows [OF q] scan_issued [OF q] by simp
qed

lemma Migrate_frame:
  assumes "Store_Migrate L d = (d', e)"
  shows "issued d' = issued d \<and> rows d' = rows d"
proof -
  note c = createChatMessagesTable_def createChatRoomsByPairTable_def createChatRoomsByIDTable_def
  have frame: "issued d2 = issued d1 \<and> rows d2 = rows d1"
    if "q \<in> {createChatMessagesTable, createChatRoomsByPairTable, createChatRoomsByIDTable}" "cql_Exec L q d1 = (d2, x)"
    for q d1 d2 x
    using that create_rows exec_issued unfolding c by blast
  show ?thesis
    using assms unfolding Store_Migrate_def
    by (auto split: prod.splits option.splits dest!: frame [rotated])
qed

lemma chat_step_inv:
  assumes "chat_step L (d, ph) (d', ph')" and inv: "chat_inv tr (issued d) (rows d) req ph"
  shows "chat_inv tr (issued d') (rows d') req ph'"
  using assms(1)
proof (cases rule: chat_stepE [consumes 1, case_names resolving storing validating migrating])
  case (resolving i q)
  then show ?thesis using resolving_inv [OF _ inv] by simp
next
  case (storing m e)
  then show ?thesis using InsertMessage_frame [OF storing(2)] chat_inv_other [OF inv] by simp
next
  case (validating room user v)
  then show ?thesis using ValidateRoom_frame [OF validating(2)] inv by simp
next
  case (migrating e)
  then show ?thesis using Migrate_frame [OF migrating(2)] inv by simp
qed

lemma chat_steps_inv:
  assumes "chat_steps L s s'" and "chat_inv tr (issued (fst s)) (rows (fst s)) req (snd s)"
  shows "chat_inv tr (issued (fst s')) (rows (fst s')) req (snd s')"
  using assms
proof (induction rule: rtranclp_induct)
  case (step y z)
  then show ?case using chat_step_inv [of "fst y" "snd y" "fst z" "snd z" req] by simp
qed

lemma validate_stored:
  assumes run: "Store_ValidateRoom L i user d = (d', Inr v)" and ids: "ids_ok (rows d)"
  shows "v \<longleftrightarrow> (\<exists>room. rows d chat_rooms_by_id i = Some (id_row room) \<and> user \<in> {cr_UserA room, cr_UserB room})"
proof -
  let ?q = "SelectByKey [''room_id'', ''pair_key'', ''user_a'', ''user_b'', ''created_at''] chat_rooms_by_id ''room_id'' (CText i)"
  obtain d1 rq where q: "cql_Scan L ?q d = (d1, rq)" by (cases "cql_Scan L ?q d")
  show ?thesis
  proof (cases rq)
    case (Inl e)
    then have "e = CqlNotFound" "\<not> v"
      using run q by (auto simp: Store_ValidateRoom_def Store_getRoomByID_def split: if_splits)
    then show ?thesis using scan_none [OF q [unfolded Inl \<open>e = CqlNotFound\<close>]] by simp
  next
    case (Inr cells)
    from scan_ok [OF q [unfolded Inr]] obtain row where row: "rows d chat_rooms_by_id i = Some row"
      "cells = row_cells [''room_id'', ''pair_key'', ''user_a'', ''user_b'', ''created_at''] row" by blast
    from ids row(1) obtain room where room: "row = id_row room" unfolding ids_ok_def by blast
    have "scan_texts_time cells = Inr ([cr_RoomID room, cr_PairKey room, cr_UserA room, cr_UserB room], cr_CreatedAt room)"
      using row(2) room id_row_cells scan_id by simp
    then have "v \<longleftrightarrow> user \<in> {cr_UserA room, cr_UserB room}"
      using run q Inr by (auto simp: Store_ValidateRoom_def Store_getRoomByID_def)
    then show ?thesis using row(1) room by (auto simp: id_row_inj)
  qed
qed

end

end
