(* ===== verification/ChatConsumer.thy ===== *)
theory ChatConsumer
  imports ChatRooms
begin

text \<open>
  The Kafka consumer of the chat service (\<open>internal/kafka/consumer.go\<close>): decoding a record,
  storing the message, committing the record, in this order, and stopping at the first failure.
  A run of the loop is bounded by the number of polls.
\<close>

definition native_field :: "(string \<times> native) list \<Rightarrow> string \<Rightarrow> string" where
  \<comment> \<open>\<open>v, _ := raw[k].(string)\<close>: empty when the key is missing or its value is no string\<close>
  "native_field raw k = (case map_of raw k of Some (NatString s) \<Rightarrow> s | _ \<Rightarrow> [])"

definition decodeMessage :: "'c chat_lib \<Rightarrow> byte list \<Rightarrow> chat_error + chat_Message" where
  "decodeMessage L value =
     (case codec_NativeFromBinary L value of
        Inl err \<Rightarrow> Inl (ChatText err)
      | Inr native \<Rightarrow>
          (case native of
             NatRecord raw \<Rightarrow>
               let messageID = native_field raw ''message_id''; roomID = native_field raw ''room_id'';
                   senderID = native_field raw ''sender_id''; body = native_field raw ''body'';
                   sentAtValue = native_field raw ''sent_at''
               in if messageID = [] \<or> roomID = [] \<or> senderID = [] \<or> body = [] \<or> sentAtValue = [] then
                    Inl (ChatText ''missing required message fields'')
                  else
                    (case time_ParseRFC3339Nano L sentAtValue of
                       Inl err \<Rightarrow> Inl (ChatText err)
                     | Inr sentAt \<Rightarrow>
                         Inr \<lparr>cm_MessageID = messageID, cm_RoomID = roomID, cm_SenderID = senderID,
                              cm_Body = body, cm_SentAt = sentAt\<rparr>)
           | _ \<Rightarrow> Inl (ChatText ''avro payload is not a record'')))"

text \<open>The interface \<open>Store\<close> of the consumer, and the consumer.\<close>

record 'c message_store =
  ms_InsertMessage :: "chat_Message \<Rightarrow> 'c \<Rightarrow> 'c \<times> chat_error option"

definition store_of :: "'c chat_lib \<Rightarrow> 'c message_store" where
  "store_of L = \<lparr>ms_InsertMessage = Store_InsertMessage L\<rparr>"

definition handleFetches_record ::
    "'c chat_lib \<Rightarrow> 'c message_store \<Rightarrow> kgo_record \<Rightarrow> 'c \<times> chat_error option \<Rightarrow> 'c \<times> chat_error option" where
  "handleFetches_record L store record s =
     (case s of
        (d, Some failed) \<Rightarrow> (d, Some failed)
      | (d, None) \<Rightarrow>
     (case decodeMessage L (kr_Value record) of
        Inl err \<Rightarrow> (d, Some (ChatAtOffset ''decode message at offset'' (kr_Offset record) err))
      | Inr message \<Rightarrow>
     (case ms_InsertMessage store message d of
        (d, Some err) \<Rightarrow> (d, Some (ChatWrap (''insert message '' @ cm_MessageID message) err))
      | (d, None) \<Rightarrow>
     (case kgo_CommitRecords L record d of
        (d, Some err) \<Rightarrow> (d, Some (ChatWrap (''commit message '' @ cm_MessageID message) (ChatText err)))
      | (d, None) \<Rightarrow> (d, None)))))"

definition handleFetches ::
    "'c chat_lib \<Rightarrow> 'c message_store \<Rightarrow> kgo_record list \<Rightarrow> 'c \<Rightarrow> 'c \<times> chat_error option" where
  "handleFetches L store records d = fold (handleFetches_record L store) records (d, None)"

text \<open>What \<open>Run\<close> has done after at most \<open>n\<close> polls: it goes on, or it has returned.\<close>

datatype run_result = RunGoesOn | RunReturned "chat_error option"

fun Consumer_Run :: "'c chat_lib \<Rightarrow> 'c message_store \<Rightarrow> nat \<Rightarrow> 'c \<Rightarrow> 'c \<times> run_result" where
  "Consumer_Run L store 0 d = (d, RunGoesOn)"
| "Consumer_Run L store (Suc n) d =
     (case kgo_PollFetches L d of
        (d, Some FetchCanceled, _) \<Rightarrow> (d, RunReturned None)
      | (d, Some (FetchError _), _) \<Rightarrow> Consumer_Run L store n d
      | (d, None, records) \<Rightarrow>
          (case handleFetches L store records d of
             (d, Some err) \<Rightarrow> (d, RunReturned (Some err))
           | (d, None) \<Rightarrow> Consumer_Run L store n d))"

text \<open>The records that the polls of such a run hand out, in their order.\<close>

fun polled :: "'c chat_lib \<Rightarrow> 'c message_store \<Rightarrow> nat \<Rightarrow> 'c \<Rightarrow> kgo_record list" where
  "polled L store 0 d = []"
| "polled L store (Suc n) d =
     (case kgo_PollFetches L d of
        (d, Some FetchCanceled, _) \<Rightarrow> []
      | (d, Some (FetchError _), _) \<Rightarrow> polled L store n d
      | (d, None, records) \<Rightarrow>
          records @ (case handleFetches L store records d of
             (d, Some err) \<Rightarrow> []
           | (d, None) \<Rightarrow> polled L store n d))"

subsection \<open>The broker and the store behind it\<close>

definition message_stored :: "cql_tables \<Rightarrow> chat_Message \<Rightarrow> bool" where
  "message_stored t m \<longleftrightarrow> t chat_messages (cm_MessageID m) \<noteq> None"

definition record_stored :: "'c chat_lib \<Rightarrow> cql_tables \<Rightarrow> kgo_record \<Rightarrow> bool" where
  "record_stored L t r \<longleftrightarrow> (\<exists>m. decodeMessage L (kr_Value r) = Inr m \<and> message_stored t m)"

lemma record_stored_grows: "grows t t' \<Longrightarrow> record_stored L t r \<Longrightarrow> record_stored L t' r"
  using growsD [of t t' chat_messages] by (fastforce simp: record_stored_def message_stored_def)

text \<open>
  The row that is due for a message, column by column, and the message that the first of the
  given records with a message id stands for.
\<close>

definition message_row :: "(time \<Rightarrow> time) \<Rightarrow> chat_Message \<Rightarrow> time \<Rightarrow> cql_row" where
  "message_row tr m persisted =
     [''message_id'' \<mapsto> CText (cm_MessageID m), ''room_id'' \<mapsto> CText (cm_RoomID m),
      ''sender_id'' \<mapsto> CText (cm_SenderID m), ''body'' \<mapsto> CText (cm_Body m),
      ''sent_at'' \<mapsto> CTime (tr (cm_SentAt m)), ''persisted_at'' \<mapsto> CTime (tr persisted)]"

fun first_delivery :: "'c chat_lib \<Rightarrow> kgo_record list \<Rightarrow> string \<rightharpoonup> chat_Message" where
  "first_delivery L [] = Map.empty"
| "first_delivery L (r # rs) =
     (case decodeMessage L (kr_Value r) of
        Inl e \<Rightarrow> first_delivery L rs
      | Inr m \<Rightarrow> (first_delivery L rs)(cm_MessageID m \<mapsto> m))"

text \<open>
  From \<open>t\<close> to \<open>t'\<close> nothing happened but that messages of the records found their rows, where their
  ids had none.
\<close>

definition messages_added ::
    "'c chat_lib \<Rightarrow> (time \<Rightarrow> time) \<Rightarrow> kgo_record list \<Rightarrow> cql_tables \<Rightarrow> cql_tables \<Rightarrow> bool" where
  "messages_added L tr recs t t' \<longleftrightarrow>
     (\<forall>tab k. t' tab k = t tab k \<or>
        tab = chat_messages \<and> t tab k = None \<and>
        (\<exists>m persisted. first_delivery L recs k = Some m \<and> t' tab k = Some (message_row tr m persisted)))"

lemma first_delivery_append: "first_delivery L (rs @ rs') = first_delivery L rs' ++ first_delivery L rs"
  by (induction rs) (auto simp: map_add_def fun_eq_iff split: sum.split)

lemma first_delivery_SomeD:
  "first_delivery L recs k = Some m \<Longrightarrow> \<exists>r \<in> set recs. decodeMessage L (kr_Value r) = Inr m \<and> cm_MessageID m = k"
  by (induction recs) (auto split: sum.splits if_splits)

lemma messages_added_same: "messages_added L tr recs t t"
  by (simp add: messages_added_def)

lemma put_absent_added:
  assumes "decodeMessage L (kr_Value r) = Inr m"
    and "new_row tr cols (CText (cm_MessageID m) # vals) = message_row tr m persisted"
  shows "messages_added L tr [r] t (put_absent tr chat_messages cols (CText (cm_MessageID m) # vals) t)"
  using assms by (cases "t chat_messages (cm_MessageID m)") (auto simp: messages_added_def put_absent_def)

lemma messages_added_append:
  assumes "messages_added L tr recs t t'"
  shows "messages_added L tr (recs @ rest) t t'"
  using assms unfolding messages_added_def first_delivery_append map_add_def by (metis option.simps(5))

lemma messages_added_trans:
  assumes "messages_added L tr recs t t1" and "messages_added L tr rest t1 t'"
    and "\<forall>r \<in> set recs. record_stored L t1 r"
  shows "messages_added L tr (recs @ rest) t t'"
  unfolding messages_added_def
proof (intro allI)
  fix tab k
  let ?new = "\<lambda>recs t t'. tab = chat_messages \<and> t tab k = None \<and>
      (\<exists>m persisted. first_delivery L recs k = Some m \<and> t' tab k = Some (message_row tr m persisted))"
  have one: "t1 tab k = t tab k \<or> ?new recs t t1" and two: "t' tab k = t1 tab k \<or> ?new rest t1 t'"
    using assms(1,2) unfolding messages_added_def by blast+
  have seen: "first_delivery L recs k = None" if "t1 chat_messages k = None"
  proof (rule ccontr)
    assume "first_delivery L recs k \<noteq> None"
    then obtain m where "first_delivery L recs k = Some m" by blast
    from first_delivery_SomeD [OF this] obtain r where "r \<in> set recs" "decodeMessage L (kr_Value r) = Inr m" "cm_MessageID m = k"
      by blast
    with assms(3) have "t1 chat_messages k \<noteq> None" by (fastforce simp: record_stored_def message_stored_def)
    with that show False by simp
  qed
  from two show "t' tab k = t tab k \<or> ?new (recs @ rest) t t'"
  proof
    assume "t' tab k = t1 tab k"
    then show ?thesis using one by (auto simp: first_delivery_append)
  next
    assume new: "?new rest t1 t'"
    then have "first_delivery L recs k = None" using seen by blast
    then show ?thesis using new one by (auto simp: first_delivery_append map_add_def)
  qed
qed

text \<open>
  How a batch is worked off: the records are committed one by one, in order, each once it meets
  \<open>P\<close>; the first failure ends it, whether or not its own commit went through.
\<close>

inductive handled_upto ::
    "(kgo_record \<Rightarrow> bool) \<Rightarrow> kgo_record list \<Rightarrow> kgo_record list \<Rightarrow> kgo_record list \<Rightarrow> chat_error option \<Rightarrow> bool"
  for P where
  all: "handled_upto P [] c c None"
| stopped: "handled_upto P (r # rs) c c (Some e)"
| stopped_late: "P r \<Longrightarrow> handled_upto P (r # rs) c (c @ [r]) (Some e)"
| onwards: "P r \<Longrightarrow> handled_upto P rs (c @ [r]) c' f \<Longrightarrow> handled_upto P (r # rs) c c' f"

lemma handled_upto_prefix:
  "handled_upto P rs c c' f \<Longrightarrow>
     \<exists>handled. prefix handled rs \<and> c' = c @ handled \<and> (\<forall>r \<in> set handled. P r) \<and> (f = None \<longrightarrow> handled = rs)"
proof (induction rule: handled_upto.induct)
  case (all c)
  show ?case by (rule exI [of _ "[]"]) simp
next
  case (stopped r rs c e)
  show ?case by (rule exI [of _ "[]"]) simp
next
  case (stopped_late r rs c e)
  then show ?case by (intro exI [of _ "[r]"]) simp
next
  case (onwards r rs c c' f)
  from onwards.IH obtain handled where
    h: "prefix handled rs \<and> c' = (c @ [r]) @ handled \<and> (\<forall>r \<in> set handled. P r) \<and> (f = None \<longrightarrow> handled = rs)" ..
  show ?case by (rule exI [of _ "r # handled"]) (use h onwards.hyps(1) in simp)
qed

lemma handled_upto_append:
  "\<forall>r \<in> set rs. P r \<Longrightarrow> handled_upto P rs' (c @ rs) c' f \<Longrightarrow> handled_upto P (rs @ rs') c c' f"
  by (induction rs arbitrary: c) (auto intro: handled_upto.onwards)

text \<open>
  \<open>commits\<close> reads off the records committed so far. A commit that reports an error may have
  reached the broker all the same.
\<close>

locale chat_broker = cassandra_rooms L rows tr issued
  for L :: "'c chat_lib" and rows tr issued +
  fixes commits :: "'c \<Rightarrow> kgo_record list"
  assumes commit_ok: "kgo_CommitRecords L r d = (d', None) \<Longrightarrow> commits d' = commits d @ [r]"
    and commit_err: "kgo_CommitRecords L r d = (d', Some e) \<Longrightarrow> commits d' \<in> {commits d, commits d @ [r]}"
    and commit_rows: "kgo_CommitRecords L r d = (d', ec) \<Longrightarrow> rows d' = rows d"
    and poll_frame: "kgo_PollFetches L d = (d', fetched) \<Longrightarrow> rows d' = rows d \<and> commits d' = commits d"
    and exec_commits: "cql_Exec L q d = (d', ee) \<Longrightarrow> commits d' = commits d"
    and now_commits: "chat_Now L d = (d', now) \<Longrightarrow> commits d' = commits d"
begin

lemma insert_message:
  assumes "Store_InsertMessage L m d = (d', e)"
  shows "commits d' = commits d" "grows (rows d) (rows d')" "e = None \<Longrightarrow> message_stored (rows d') m"
    and "message_stored (rows d) m \<Longrightarrow> rows d' = rows d"
    and "decodeMessage L (kr_Value r) = Inr m \<Longrightarrow> messages_added L tr [r] (rows d) (rows d')"
proof -
  obtain d1 now where n: "chat_Now L d = (d1, now)" by (cases "chat_Now L d")
  let ?cols = "[''message_id'', ''room_id'', ''sender_id'', ''body'', ''sent_at'', ''persisted_at'']"
  let ?vals = "[CText (cm_MessageID m), CText (cm_RoomID m), CText (cm_SenderID m), CText (cm_Body m),
    CTime (cm_SentAt m), CTime now]"
  obtain x where x: "cql_Exec L (InsertIfNotExists chat_messages ?cols ?vals) d1 = (d', x)" and e: "e = map_option ChatCql x"
    using assms n by (auto simp: Store_InsertMessage_def insertChatMessage_def split: prod.splits)
  note out = insert_outcome [OF x, unfolded now_rows [OF n]]
  show "commits d' = commits d" using exec_commits [OF x] now_commits [OF n] by simp
  show "grows (rows d) (rows d')" using out(1) by (rule disjE) (simp_all add: grows_put_absent)
  show "message_stored (rows d') m" if "e = None"
    using out(2) that e by (simp add: message_stored_def put_absent_key split: option.split)
  show "rows d' = rows d" if "message_stored (rows d) m"
    using out(1) that by (auto simp: message_stored_def put_absent_def)
  have row: "new_row tr ?cols ?vals = message_row tr m now"
    by (rule ext) (simp add: new_row_def cql_stored_def message_row_def)
  show "messages_added L tr [r] (rows d) (rows d')" if "decodeMessage L (kr_Value r) = Inr m"
    using out(1) put_absent_added [OF that, of tr ?cols "tl ?vals" now "rows d"] row messages_added_same by auto
qed

lemma failed_stays: "fold (handleFetches_record L store) rs (d, Some e) = (d, Some e)"
  by (induction rs) (simp_all add: handleFetches_record_def)

lemma record_outcome:
  assumes "handleFetches_record L (store_of L) r (d, None) = (d', f)"
  shows "grows (rows d) (rows d')"
    and "f = None \<Longrightarrow> commits d' = commits d @ [r] \<and> record_stored L (rows d') r"
    and "f \<noteq> None \<Longrightarrow> commits d' = commits d \<or> commits d' = commits d @ [r] \<and> record_stored L (rows d') r"
proof -
  have "grows (rows d) (rows d') \<and> (if f = None then commits d' = commits d @ [r] \<and> record_stored L (rows d') r
      else commits d' = commits d \<or> commits d' = commits d @ [r] \<and> record_stored L (rows d') r)"
  proof (cases "decodeMessage L (kr_Value r)")
    case (Inl e)
    then show ?thesis using assms by (auto simp: handleFetches_record_def)
  next
    case (Inr m)
    obtain d2 e2 where ins: "Store_InsertMessage L m d = (d2, e2)" by (cases "Store_InsertMessage L m d")
    note im = insert_message [OF ins]
    show ?thesis
    proof (cases e2)
      case (Some e)
      then show ?thesis using assms Inr ins im(1,2) by (auto simp: handleFetches_record_def store_of_def)
    next
      case None
      have st: "record_stored L (rows d2) r" using im(3) None Inr by (auto simp: record_stored_def)
      obtain d3 e3 where com: "kgo_CommitRecords L r d2 = (d3, e3)" by (cases "kgo_CommitRecords L r d2")
      have d': "d' = d3" "f = None \<longleftrightarrow> e3 = None"
        using assms Inr ins None com by (auto simp: handleFetches_record_def store_of_def split: option.splits)
      have "commits d3 = commits d @ [r]" if "e3 = None" using commit_ok com that im(1) by simp
      moreover have "commits d3 = commits d \<or> commits d3 = commits d @ [r]" if "e3 \<noteq> None"
        using commit_err [of r d2 d3] com that im(1) by (cases e3) auto
      ultimately show ?thesis using d' im(2) commit_rows [OF com] st by (cases e3) auto
    qed
  qed
  then show "grows (rows d) (rows d')"
    and "f = None \<Longrightarrow> commits d' = commits d @ [r] \<and> record_stored L (rows d') r"
    and "f \<noteq> None \<Longrightarrow> commits d' = commits d \<or> commits d' = commits d @ [r] \<and> record_stored L (rows d') r"
    by (auto split: if_splits)
qed

lemma record_rows:
  assumes "handleFetches_record L (store_of L) r (d, None) = (d', f)"
  shows "messages_added L tr [r] (rows d) (rows d')"
proof (cases "decodeMessage L (kr_Value r)")
  case (Inl e)
  then show ?thesis using assms messages_added_same by (auto simp: handleFetches_record_def)
next
  case (Inr m)
  obtain d2 e2 where ins: "Store_InsertMessage L m d = (d2, e2)" by (cases "Store_InsertMessage L m d")
  have "rows d' = rows d2"
    using assms Inr ins commit_rows
    by (auto simp: handleFetches_record_def store_of_def split: option.splits prod.splits)
  with insert_message(5) [OF ins Inr] show ?thesis by simp
qed

lemma batch_rows:
  assumes "handleFetches L (store_of L) recs d = (d', failed)"
  shows "messages_added L tr recs (rows d) (rows d')"
  using assms unfolding handleFetches_def
proof (induction recs arbitrary: d)
  case Nil
  then show ?case using messages_added_same by simp
next
  case (Cons r rs)
  obtain d1 f1 where one: "handleFetches_record L (store_of L) r (d, None) = (d1, f1)"
    by (cases "handleFetches_record L (store_of L) r (d, None)")
  have rest: "fold (handleFetches_record L (store_of L)) rs (d1, f1) = (d', failed)" using Cons.prems one by simp
  note added = record_rows [OF one]
  show ?case
  proof (cases f1)
    case (Some e)
    then have "d' = d1" using rest failed_stays by simp
    with messages_added_append [OF added, of rs] show ?thesis by simp
  next
    case None
    have "record_stored L (rows d1) r" using record_outcome(2) [OF one None] by blast
    with messages_added_trans [OF added Cons.IH [OF rest [unfolded None]]] show ?thesis by simp
  qed
qed

lemma handle_outcome:
  assumes "handleFetches L (store_of L) recs d = (d', failed)"
  shows "grows (rows d) (rows d') \<and> handled_upto (record_stored L (rows d')) recs (commits d) (commits d') failed"
  using assms unfolding handleFetches_def
proof (induction recs arbitrary: d)
  case Nil
  then show ?case by (auto intro: handled_upto.intros)
next
  case (Cons r rs)
  obtain d1 f1 where one: "handleFetches_record L (store_of L) r (d, None) = (d1, f1)"
    by (cases "handleFetches_record L (store_of L) r (d, None)")
  have rest: "fold (handleFetches_record L (store_of L)) rs (d1, f1) = (d', failed)" using Cons.prems one by simp
  note out = record_outcome [OF one]
  show ?case
  proof (cases f1)
    case (Some e)
    then have "d' = d1" "failed = Some e" using rest failed_stays by simp_all
    then show ?thesis using out(1,3) Some by (auto intro: handled_upto.intros)
  next
    case None
    from Cons.IH [OF rest [unfolded None]] have g: "grows (rows d1) (rows d')"
      and h: "handled_upto (record_stored L (rows d')) rs (commits d1) (commits d') failed" by auto
    have "grows (rows d) (rows d')" using out(1) g unfolding grows_def by (metis map_le_trans)
    moreover have "record_stored L (rows d') r" using record_stored_grows [OF g, of L] out(2) [OF None] by blast
    ultimately show ?thesis using h out(2) [OF None] by (auto intro: handled_upto.intros)
  qed
qed

lemma handle_stored:
  assumes "handleFetches L (store_of L) recs d = (d', failed)" and "\<forall>r \<in> set recs. record_stored L (rows d) r"
  shows "rows d' = rows d"
  using assms unfolding handleFetches_def
proof (induction recs arbitrary: d)
  case (Cons r rs)
  obtain d1 f1 where one: "handleFetches_record L (store_of L) r (d, None) = (d1, f1)"
    by (cases "handleFetches_record L (store_of L) r (d, None)")
  have rest: "fold (handleFetches_record L (store_of L)) rs (d1, f1) = (d', failed)" using Cons.prems(1) one by simp
  from Cons.prems(2) obtain m where m: "decodeMessage L (kr_Value r) = Inr m" "message_stored (rows d) m"
    by (auto simp: record_stored_def)
  obtain d2 e2 where ins: "Store_InsertMessage L m d = (d2, e2)" by (cases "Store_InsertMessage L m d")
  have "rows d1 = rows d"
    using one m(1) ins insert_message(4) [OF ins m(2)] commit_rows
    by (auto simp: handleFetches_record_def store_of_def split: option.splits prod.splits)
  then show ?case using Cons.IH [of d1] Cons.prems(2) rest failed_stays by (cases f1) auto
qed simp

lemma Run_outcome:
  assumes "Consumer_Run L (store_of L) n d = (d', res)"
  shows "messages_added L tr (polled L (store_of L) n d) (rows d) (rows d')
    \<and> grows (rows d) (rows d')
    \<and> handled_upto (record_stored L (rows d')) (polled L (store_of L) n d) (commits d) (commits d')
         (case res of RunReturned f \<Rightarrow> f | RunGoesOn \<Rightarrow> None)"
  using assms
proof (induction n arbitrary: d)
  case 0
  then show ?case using messages_added_same handled_upto.all by fastforce
next
  case (Suc n)
  obtain d1 err recs where p: "kgo_PollFetches L d = (d1, err, recs)" by (cases "kgo_PollFetches L d") auto
  note fr = poll_frame [OF p]
  show ?case
  proof (cases err)
    case (Some e)
    then show ?thesis
      using Suc.IH [of d1] Suc.prems p fr messages_added_same by (cases e) (auto intro: handled_upto.all)
  next
    case None
    obtain d2 f where h: "handleFetches L (store_of L) recs d1 = (d2, f)" by (cases "handleFetches L (store_of L) recs d1")
    from handle_outcome [OF h] have g: "grows (rows d1) (rows d2)"
      and u: "handled_upto (record_stored L (rows d2)) recs (commits d1) (commits d2) f" by auto
    note added = batch_rows [OF h]
    show ?thesis
    proof (cases f)
      case (Some e)
      then show ?thesis using Suc.prems p None h g u added fr by auto
    next
      case go: None
      then have run: "Consumer_Run L (store_of L) n d2 = (d', res)"
        and pl: "polled L (store_of L) (Suc n) d = recs @ polled L (store_of L) n d2"
        using Suc.prems p None h by simp_all
      note IH = Suc.IH [OF run]
      have g': "grows (rows d2) (rows d')" using IH by blast
      have all: "\<forall>r \<in> set recs. record_stored L (rows d2) r" "commits d2 = commits d1 @ recs"
        using handled_upto_prefix [OF u] go by auto
      have "messages_added L tr (recs @ polled L (store_of L) n d2) (rows d1) (rows d')"
        using messages_added_trans [OF added _ all(1)] IH by blast
      moreover have "grows (rows d1) (rows d')" using g g' unfolding grows_def by (metis map_le_trans)
      moreover have "\<forall>r \<in> set recs. record_stored L (rows d') r" using all(1) record_stored_grows [OF g', of L] by blast
      ultimately show ?thesis
        using IH handled_upto_append [of recs "record_stored L (rows d')"] fr unfolding pl all(2) by simp
    qed
  qed
qed

end

end
