(* ===== verification/ChatService.thy ===== *)
theory ChatService
  imports ChatConsumer
begin

text \<open>
  The rest of the chat service: its configuration (\<open>internal/config/config.go\<close>), its HTTP
  handlers (\<open>internal/api/server.go\<close>) and how \<open>main\<close> puts it together. Decoding a request body
  is the parameter \<open>decode\<close> (\<open>encoding/json\<close> into the request type); a response is its status,
  its content type and the value that is encoded as its body.
\<close>

subsection \<open>Configuration\<close>

record chat_Config =
  cc_Brokers :: "string list"
  cc_Topic :: string
  cc_GroupID :: string
  cc_CassandraContactPoints :: "string list"
  cc_CassandraKeyspace :: string
  cc_ValidatorAddr :: string

definition chat_env :: "environment \<Rightarrow> string \<Rightarrow> string \<Rightarrow> string" where
  "chat_env getenv key fallback = (let value = getenv key in if value = [] then fallback else value)"

definition splitEnv :: "environment \<Rightarrow> string \<Rightarrow> string \<Rightarrow> string list" where
  "splitEnv getenv key fallback = comma_parts (chat_env getenv key fallback)"

definition chat_Load :: "environment \<Rightarrow> chat_Config" where
  "chat_Load getenv =
     \<lparr>cc_Brokers = [chat_env getenv ''KAFKA_BROKERS'' ''localhost:9092''],
      cc_Topic = chat_env getenv ''CHAT_MESSAGES_TOPIC'' ''chat.messages.v1'',
      cc_GroupID = chat_env getenv ''CHAT_MESSAGES_GROUP_ID'' ''chat-message-writer'',
      cc_CassandraContactPoints = splitEnv getenv ''CASSANDRA_CONTACT_POINTS'' ''localhost:9042'',
      cc_CassandraKeyspace = chat_env getenv ''CASSANDRA_KEYSPACE'' ''chat'',
      cc_ValidatorAddr = chat_env getenv ''VALIDATOR_ADDR'' ''0.0.0.0:8080''\<rparr>"

subsection \<open>Handlers\<close>

datatype json_body =
    JResolve string bool       \<comment> \<open>\<open>resolveResponse\<close>: room id and created\<close>
  | JValid bool                \<comment> \<open>\<open>validateResponse\<close>\<close>
  | JError string              \<comment> \<open>the map with the one key \<open>error\<close>\<close>
  | JNothing

record http_response =
  hr_Status :: nat
  hr_ContentType :: string
  hr_Body :: json_body

definition writeJSONError :: "nat \<Rightarrow> string \<Rightarrow> http_response" where
  "writeJSONError status msg = \<lparr>hr_Status = status, hr_ContentType = ''application/json'', hr_Body = JError msg\<rparr>"

definition methodNotAllowed :: http_response where
  "methodNotAllowed = \<lparr>hr_Status = 405, hr_ContentType = [], hr_Body = JNothing\<rparr>"

fun chat_error_text :: "chat_error \<Rightarrow> string" where
  \<comment> \<open>\<open>err.Error()\<close>; the number of an offset is left to the formatter\<close>
  "chat_error_text (ChatText s) = s"
| "chat_error_text (ChatCql CqlNotFound) = ''not found''"
| "chat_error_text (ChatCql (CqlError s)) = s"
| "chat_error_text (ChatWrap m e) = m @ '': '' @ chat_error_text e"
| "chat_error_text (ChatAtOffset m i e) = m @ '': '' @ chat_error_text e"

definition resolveHandler ::
    "'c chat_lib \<Rightarrow> (byte list \<Rightarrow> (string \<times> string) option) \<Rightarrow> string \<Rightarrow> byte list \<Rightarrow> 'c \<Rightarrow> 'c \<times> http_response" where
  "resolveHandler L decode meth body d =
     (if meth \<noteq> ''POST'' then (d, methodNotAllowed)
      else
        (case decode body of
           None \<Rightarrow> (d, writeJSONError 400 ''invalid json'')
         | Some (userID, peerUserID) \<Rightarrow>
             (case Store_ResolveRoom L userID peerUserID d of
                (d, Inl err) \<Rightarrow> (d, writeJSONError 400 (chat_error_text err))
              | (d, Inr (room, created)) \<Rightarrow>
                  (d, \<lparr>hr_Status = 200, hr_ContentType = ''application/json'',
                       hr_Body = JResolve (cr_RoomID room) created\<rparr>))))"

definition validateHandler ::
    "'c chat_lib \<Rightarrow> (byte list \<Rightarrow> (string \<times> string) option) \<Rightarrow> string \<Rightarrow> byte list \<Rightarrow> 'c \<Rightarrow> 'c \<times> http_response" where
  "validateHandler L decode meth body d =
     (if meth \<noteq> ''POST'' then (d, methodNotAllowed)
      else
        (case decode body of
           None \<Rightarrow> (d, writeJSONError 400 ''invalid json'')
         | Some (roomID, userID) \<Rightarrow>
             (case Store_ValidateRoom L roomID userID d of
                (d, Inl err) \<Rightarrow> (d, writeJSONError 500 (''validate room: '' @ chat_error_text err))
              | (d, Inr valid) \<Rightarrow>
                  if \<not> valid then (d, writeJSONError 403 ''forbidden'')
                  else (d, \<lparr>hr_Status = 200, hr_ContentType = ''application/json'', hr_Body = JValid True\<rparr>))))"

subsection \<open>Starting\<close>

text \<open>
  \<open>main\<close>: the store, its tables and the consumer (the codec and the client of Kafka are the
  parameters \<open>newCodec\<close> and \<open>newClient\<close>); the first that fails ends the process.
\<close>

definition NewConsumer ::
    "string option \<Rightarrow> (string list \<Rightarrow> string \<Rightarrow> string \<Rightarrow> string option) \<Rightarrow> chat_Config \<Rightarrow> chat_error option" where
  "NewConsumer newCodec newClient cfg =
     (case newCodec of
        Some err \<Rightarrow> Some (ChatText err)
      | None \<Rightarrow> map_option ChatText (newClient (cc_Brokers cfg) (cc_GroupID cfg) (cc_Topic cfg)))"

definition chat_main ::
    "'c chat_lib \<Rightarrow> string option \<Rightarrow> (string list \<Rightarrow> string \<Rightarrow> string \<Rightarrow> string option) \<Rightarrow> string option \<Rightarrow>
     environment \<Rightarrow> 'c \<Rightarrow> 'c \<times> (string \<times> chat_error) option" where
  "chat_main L newCodec newClient ctxErr getenv d =
     (let cfg = chat_Load getenv in
      case Store_New L ctxErr (cc_CassandraContactPoints cfg) (cc_CassandraKeyspace cfg) of
        Some err \<Rightarrow> (d, Some (''connect Cassandra: '', err))
      | None \<Rightarrow>
          (case Store_Migrate L d of
             (d, Some err) \<Rightarrow> (d, Some (''migrate database: '', err))
           | (d, None) \<Rightarrow>
               (case NewConsumer newCodec newClient cfg of
                  Some err \<Rightarrow> (d, Some (''create kafka consumer: '', err))
                | None \<Rightarrow> (d, None))))"

end
