(* ===== verification/ChatWorld.thy ===== *)
theory ChatWorld
  imports ChatService
begin

text \<open>
  A Cassandra, a clock, a generator of identifiers and a broker in memory, which keep what the
  chat service relies on, and the properties of the service, each applied to this world.
\<close>

subsection \<open>The world\<close>

record chat_mem =
  cmem_rows :: cql_tables
  cmem_clock :: time
  cmem_ids :: nat
  cmem_inbox :: "kgo_record list list"
  cmem_commits :: "kgo_record list"

definition cmem_start :: "kgo_record list list \<Rightarrow> chat_mem" where
  "cmem_start inbox = \<lparr>cmem_rows = (\<lambda>_ _. None), cmem_clock = 0, cmem_ids = 0, cmem_inbox = inbox, cmem_commits = []\<rparr>"

definition millis :: "time \<Rightarrow> time" where
  \<comment> \<open>a \<open>timestamp\<close> keeps milliseconds\<close>
  "millis t = t - t mod 1000000"

fun cmem_Exec :: "cql \<Rightarrow> chat_mem \<Rightarrow> chat_mem \<times> cql_error option" where
  "cmem_Exec (CreateTableIfNotExists tab defs) d = (d, None)"
| "cmem_Exec (InsertIfNotExists tab cols vals) d = (d\<lparr>cmem_rows := put_absent millis tab cols vals (cmem_rows d)\<rparr>, None)"
| "cmem_Exec (SelectByKey cols tab key v) d = (d, Some (CqlError ''not a statement''))"

fun cmem_Scan :: "cql \<Rightarrow> chat_mem \<Rightarrow> chat_mem \<times> (cql_error + cql_value list)" where
  "cmem_Scan (SelectByKey cols tab key (CText k)) d =
     (d, case cmem_rows d tab k of None \<Rightarrow> Inl CqlNotFound | Some r \<Rightarrow> Inr (row_cells cols r))"
| "cmem_Scan _ d = (d, Inl (CqlError ''not a query''))"

definition nat_id :: "nat \<Rightarrow> string" where
  "nat_id n = replicate n (CHR ''i'')"

lemma nat_id_inj [simp]: "nat_id m = nat_id n \<longleftrightarrow> m = n"
  unfolding nat_id_def by (metis length_replicate)

definition cmem_issued :: "chat_mem \<Rightarrow> string set" where
  "cmem_issued d = nat_id ` {..<cmem_ids d}"

definition parse_seconds :: "string \<Rightarrow> string + time" where
  \<comment> \<open>this world writes its instants as numbers of nanoseconds\<close>
  "parse_seconds s = (case parse_digits s of None \<Rightarrow> Inl ''cannot parse'' | Some n \<Rightarrow> Inr (int n))"

text \<open>In this world a record is the five strings of the message, separated by line feeds.\<close>

definition cmem_codec :: "byte list \<Rightarrow> string + native" where
  "cmem_codec bs =
     (case split_at (CHR 0x0A) (map (\<lambda>b. char_of (unat b)) bs) of
        [m, r, s, b, t] \<Rightarrow>
          Inr (NatRecord [(''message_id'', NatString m), (''room_id'', NatString r), (''sender_id'', NatString s),
            (''body'', NatString b), (''sent_at'', NatString t)])
      | _ \<Rightarrow> Inl ''not a record'')"

definition cmem_lib :: "chat_mem chat_lib" where
  "cmem_lib =
     \<lparr>cql_Exec = cmem_Exec, cql_Scan = cmem_Scan, cql_CreateSession = (\<lambda>_ _. None),
      chat_Now = (\<lambda>d. (d\<lparr>cmem_clock := cmem_clock d + 1000000\<rparr>, cmem_clock d + 1000000)),
      gocql_TimeUUID = (\<lambda>d. (d\<lparr>cmem_ids := cmem_ids d + 1\<rparr>, nat_id (cmem_ids d))),
      codec_NativeFromBinary = cmem_codec, time_ParseRFC3339Nano = parse_seconds,
      kgo_CommitRecords = (\<lambda>r d. (d\<lparr>cmem_commits := cmem_commits d @ [r]\<rparr>, None)),
      kgo_PollFetches = (\<lambda>d. case cmem_inbox d of [] \<Rightarrow> (d, Some FetchCanceled, [])
        | rs # rss \<Rightarrow> (d\<lparr>cmem_inbox := rss\<rparr>, None, rs))\<rparr>"

lemma cmem_lib_simps [simp]:
  "cql_Exec cmem_lib = cmem_Exec" "cql_Scan cmem_lib = cmem_Scan"
  "chat_Now cmem_lib = (\<lambda>d. (d\<lparr>cmem_clock := cmem_clock d + 1000000\<rparr>, cmem_clock d + 1000000))"
  "gocql_TimeUUID cmem_lib = (\<lambda>d. (d\<lparr>cmem_ids := cmem_ids d + 1\<rparr>, nat_id (cmem_ids d)))"
  "codec_NativeFromBinary cmem_lib = cmem_codec" "time_ParseRFC3339Nano cmem_lib = parse_seconds"
  "kgo_CommitRecords cmem_lib = (\<lambda>r d. (d\<lparr>cmem_commits := cmem_commits d @ [r]\<rparr>, None))"
  "kgo_PollFetches cmem_lib = (\<lambda>d. case cmem_inbox d of [] \<Rightarrow> (d, Some FetchCanceled, [])
        | rs # rss \<Rightarrow> (d\<lparr>cmem_inbox := rss\<rparr>, None, rs))"
  by (simp_all add: cmem_lib_def)

lemma cmem_Exec_frame:
  "cmem_ids (fst (cmem_Exec q d)) = cmem_ids d" "cmem_commits (fst (cmem_Exec q d)) = cmem_commits d"
  by (cases q; simp)+

lemma cmem_Scan_same: "fst (cmem_Scan q d) = d"
  by (cases "(q, d)" rule: cmem_Scan.cases) simp_all

interpretation cmem: cassandra cmem_lib cmem_rows millis
proof (unfold_locales, goal_cases)
  case (4 q d d' rq)
  then show ?case using cmem_Scan_same [of q d] by simp
qed (auto split: option.splits)

interpretation cmem_rooms: cassandra_rooms cmem_lib cmem_rows millis cmem_issued
proof (unfold_locales, goal_cases)
  case (1 d d' u)
  then show ?case by (auto simp: cmem_issued_def lessThan_Suc)
next
  case (2 q d d' e)
  then show ?case using cmem_Exec_frame [of q d] by (simp add: cmem_issued_def)
next
  case (3 q d d' rq)
  then show ?case using cmem_Scan_same [of q d] by simp
next
  case (4 d d' now)
  then show ?case by (auto simp: cmem_issued_def)
next
  case (5 x)
  then show ?case by (simp add: millis_def mod_diff_left_eq)
qed

interpretation cmem_chat: chat_broker cmem_lib cmem_rows millis cmem_issued cmem_commits
proof (unfold_locales, goal_cases)
  case (5 q d d' ee)
  then show ?case using cmem_Exec_frame [of q d] by simp
qed (auto split: list.splits)

end
