(* ===== verification/ChatProperties.thy ===== *)
theory ChatProperties
  imports ChatWorld
begin

text \<open>
  What the clients of the chat service can rely on, however their requests interleave and
  whichever calls to Cassandra or to the broker fail.
\<close>

section \<open>Rooms\<close>

definition pair_key :: "string \<times> string \<Rightarrow> string option" where
  "pair_key = (\<lambda>(u, p). case normalizeRoomParticipants u p of Inl e \<Rightarrow> None | Inr (a, b, k) \<Rightarrow> Some k)"

lemma start_phase:
  "phase_ok I t (req i) (all_start req i) \<and> pending_id (all_start req i) = None"
proof -
  obtain u p where "req i = (u, p)" by (cases "req i")
  then show ?thesis
    by (cases "normalizeRoomParticipants u p") (auto simp: all_start_def resolve_start_def)
qed

lemma chat_inv_start:
  assumes "pairs_ok tr I t" and "ids_ok t"
  shows "chat_inv tr I t req (all_start req)"
  using assms start_phase [of I t req] unfolding chat_inv_def by (metis option.distinct(1))

lemma chat_run_inv:
  assumes "cassandra_rooms L rows tr issued" and "pairs_ok tr (issued d) (rows d)" and "ids_ok (rows d)"
    and "chat_steps L (d, all_start req) (d', ph)"
  shows "chat_inv tr (issued d') (rows d') req ph"
  using cassandra_rooms.chat_steps_inv [OF assms(1,4), of req] chat_inv_start [OF assms(2,3)] by simp

lemma done_phase:
  assumes "chat_inv tr I t req ph" and "ph i = RDone (Inr (room, c))"
  shows "pair_key (req i) = Some (cr_PairKey room)" "room_stored t room"
    "t chat_rooms_by_id (cr_RoomID room) = Some (id_row room)"
proof -
  obtain u p where rq: "req i = (u, p)" by (cases "req i")
  have "phase_ok I t (u, p) (RDone (Inr (room, c)))" using chat_invD(3) [OF assms(1), of i] assms(2) rq by simp
  then show "pair_key (req i) = Some (cr_PairKey room)" "room_stored t room"
    "t chat_rooms_by_id (cr_RoomID room) = Some (id_row room)"
    by (auto simp: pair_key_def rq)
qed

text \<open>
  C29. One room per pair: any number of clients resolve rooms at the same time, in any
  interleaving, with failing calls and clients that never come back. Two requests that were
  answered got the same room if they normalize to the same key, and different room ids if not.
\<close>

theorem one_room_per_key:
  assumes "cassandra_rooms L rows tr issued" and "pairs_ok tr (issued d) (rows d)" and "ids_ok (rows d)"
    and "chat_steps L (d, all_start req) (d', ph)"
    and "ph i = RDone (Inr (room, c))" and "ph j = RDone (Inr (room', c'))"
  shows "if pair_key (req i) = pair_key (req j) then room = room' else cr_RoomID room \<noteq> cr_RoomID room'"
proof -
  note inv = chat_run_inv [OF assms(1-4)]
  note fst = done_phase [OF inv assms(5)] and snd = done_phase [OF inv assms(6)]
  have same: "cr_PairKey room = cr_PairKey room' \<Longrightarrow> room = room'"
    using fst(2) snd(2) unfolding room_stored_def by (metis option.inject pair_row_inj)
  have ids: "cr_RoomID room = cr_RoomID room' \<Longrightarrow> room = room'"
    using fst(3) snd(3) by (metis option.inject id_row_inj)
  show ?thesis
  proof (cases "cr_PairKey room = cr_PairKey room'")
    case True
    then show ?thesis unfolding fst(1) snd(1) using same [OF True] by simp
  next
    case False
    then have "cr_RoomID room \<noteq> cr_RoomID room'" using ids by blast
    then show ?thesis unfolding fst(1) snd(1) using False by simp
  qed
qed

subsection \<open>Two clients in the world of ChatWorld\<close>

lemma resolve_run:
  "(resolve_step L ^^ n) (d, ph i) = (d', q) \<Longrightarrow> chat_steps L (d, ph) (d', ph(i := q))"
proof (induction n arbitrary: d' q)
  case (Suc n)
  obtain d1 q1 where 1: "(resolve_step L ^^ n) (d, ph i) = (d1, q1)" by (cases "(resolve_step L ^^ n) (d, ph i)")
  then have "resolve_step L (d1, (ph(i := q1)) i) = (d', q)" using Suc.prems by simp
  then have "chat_step L (d1, ph(i := q1)) (d', ph(i := q))"
    using chat_step.resolving [of L d1 "ph(i := q1)" i d' q] by simp
  with Suc.IH [OF 1] show ?case by (rule rtranclp.rtrancl_into_rtrancl)
qed simp

definition demo_room :: chat_Room where
  "demo_room = \<lparr>cr_RoomID = nat_id 0, cr_PairKey = ''u:v'', cr_UserA = ''u'', cr_UserB = ''v'', cr_CreatedAt = 1000000\<rparr>"

definition demo_chat :: chat_mem where
  \<comment> \<open>the world after the first resolve\<close>
  "demo_chat = fst (Store_ResolveRoom cmem_lib ''u'' ''v'' (cmem_start []))"

lemma demo_names: "TrimSpace ''u'' = ''u''" "TrimSpace ''v'' = ''v''" "''u'' < ''v''" "\<not> ''v'' < ''u''"
  by code_simp+

lemma demo_normal: "normalizeRoomParticipants ''u'' ''v'' = Inr (''u'', ''v'', ''u:v'')"
  by (simp add: normalizeRoomParticipants_def demo_names Let_def)

lemmas chat_calls = Store_ResolveRoom_def Store_getRoomByPairKey_def Store_ensureRoomByID_def insertRoomByPair_def
  insertRoomByID_def put_absent_def new_row_def cql_stored_def row_cells_def

lemma demo_resolved: "snd (Store_ResolveRoom cmem_lib ''u'' ''v'' (cmem_start [])) = Inr (demo_room, True)"
  by (simp add: chat_calls demo_normal cmem_start_def demo_room_def millis_def)

lemma demo_resolved_again:
  "Store_ResolveRoom cmem_lib ''v'' ''u'' demo_chat = (demo_chat, Inr (demo_room, False))"
  unfolding normalize_symmetric demo_chat_def
  by (simp add: chat_calls demo_normal normalize_symmetric [of "''v''"] cmem_start_def demo_room_def millis_def)

definition demo_requests :: requests where
  "demo_requests i = (if i = 0 then (''u'', ''v'') else (''v'', ''u''))"

lemma demo_chat_steps:
  "chat_steps cmem_lib (cmem_start [], all_start demo_requests)
     (demo_chat, (all_start demo_requests)(0 := RDone (Inr (demo_room, True)), 1 := RDone (Inr (demo_room, False))))"
proof -
  let ?ph = "(all_start demo_requests)(0 := RDone (Inr (demo_room, True)))"
  have "chat_steps cmem_lib (cmem_start [], all_start demo_requests) (demo_chat, ?ph)"
    by (rule resolve_run [where L = cmem_lib and n = 5])
      (simp add: all_start_def demo_requests_def ResolveRoom_steps demo_chat_def demo_resolved)
  moreover have "chat_steps cmem_lib (demo_chat, ?ph) (demo_chat, ?ph(1 := RDone (Inr (demo_room, False))))"
    by (rule resolve_run [where L = cmem_lib and n = 5])
      (simp add: all_start_def demo_requests_def ResolveRoom_steps demo_resolved_again)
  ultimately show ?thesis by (rule rtranclp_trans)
qed

lemma demo_chat_start: "pairs_ok millis (cmem_issued (cmem_start inbox)) (cmem_rows (cmem_start inbox))"
    "ids_ok (cmem_rows (cmem_start inbox))"
  by (simp_all add: pairs_ok_def ids_ok_def cmem_start_def)

lemma one_room_per_key_witness:
  "if pair_key (demo_requests 0) = pair_key (demo_requests 1) then demo_room = demo_room
   else cr_RoomID demo_room \<noteq> cr_RoomID demo_room"
  by (rule one_room_per_key [OF cmem_rooms.cassandra_rooms_axioms demo_chat_start demo_chat_steps,
        where c = True and c' = False]) simp_all

section \<open>Pairs of users\<close>

definition colon_free :: "string \<times> string \<Rightarrow> bool" where
  "colon_free = (\<lambda>(u, p). CHR '':'' \<notin> set u \<union> set p)"

definition trimmed :: "string \<times> string \<Rightarrow> string set" where
  "trimmed = (\<lambda>(u, p). {TrimSpace u, TrimSpace p})"

lemma pair_key_SomeD:
  assumes "pair_key r = Some k"
  obtains a b where "pair_ok a b k" "trimmed r = {a, b}"
proof -
  obtain u p where r: "r = (u, p)" by (cases r)
  with assms obtain a b where "normalizeRoomParticipants u p = Inr (a, b, k)"
    by (auto simp: pair_key_def split: sum.splits)
  then show ?thesis using that normalize_ok [of u p a b k] by (simp add: trimmed_def r)
qed

lemma colon_free_trimmed: "colon_free r \<Longrightarrow> a \<in> trimmed r \<Longrightarrow> CHR '':'' \<notin> set a"
  using TrimSpace_set by (fastforce simp: colon_free_def trimmed_def split: prod.splits)

text \<open>A key made of colon-free names has no other reading at all, with or without colons.\<close>

lemma colon_free_key:
  assumes "pair_ok a b k" "pair_ok a' b' k" and "CHR '':'' \<notin> set a" "CHR '':'' \<notin> set b"
  shows "a' = a \<and> b' = b"
proof -
  have k: "a @ CHR '':'' # b = a' @ CHR '':'' # b'" using assms(1,2) by (simp add: pair_ok_def)
  then have "count_list (a @ CHR '':'' # b) (CHR '':'') = count_list (a' @ CHR '':'' # b') (CHR '':'')" by simp
  then have "count_list a' (CHR '':'') = 0" using assms(3,4) by (simp add: count_list_0_iff)
  then have "CHR '':'' \<notin> set a'" by (simp add: count_list_0_iff)
  from append_sep_inj [OF assms(3) this k] show ?thesis by simp
qed

text \<open>
  C30. The key of a room identifies its two users: as long as no user id of the one request
  contains a colon, another request has the same key exactly if it names the same two users, up
  to their order and to white space around them.
\<close>

theorem keys_identify_pairs:
  assumes "pair_key r = Some k" and "colon_free r"
  shows "pair_key r' = Some k \<longleftrightarrow> trimmed r' = trimmed r"
proof
  from assms(1) obtain a b where ab: "pair_ok a b k" "trimmed r = {a, b}" by (rule pair_key_SomeD)
  have free: "CHR '':'' \<notin> set a" "CHR '':'' \<notin> set b" using colon_free_trimmed [OF assms(2)] ab(2) by auto
  show "trimmed r' = trimmed r" if k': "pair_key r' = Some k"
  proof -
    from k' obtain a' b' where "pair_ok a' b' k" "trimmed r' = {a', b'}" by (rule pair_key_SomeD)
    with colon_free_key [OF ab(1) _ free] ab(2) show ?thesis by blast
  qed
  show "pair_key r' = Some k" if t: "trimmed r' = trimmed r"
  proof -
    obtain u p u' p' where r: "r = (u, p)" "r' = (u', p')" by (cases r, cases r')
    have "normalizeRoomParticipants u' p' = normalizeRoomParticipants u p"
      using t by (auto simp: r trimmed_def doubleton_eq_iff normalizeRoomParticipants_def)
        (auto simp: Let_def not_less intro: antisym)
    then show ?thesis using assms(1) by (simp add: pair_key_def r)
  qed
qed

lemma demo_key: "pair_key ('' u'', ''v'') = Some ''u:v''"
  by code_simp

lemma keys_identify_pairs_witness: "pair_key (''v'', ''u '') = Some ''u:v''"
proof -
  have "colon_free ('' u'', ''v'')" by code_simp
  moreover have "trimmed (''v'', ''u '') = trimmed ('' u'', ''v'')" by code_simp
  ultimately show ?thesis using keys_identify_pairs [OF demo_key] by blast
qed

text \<open>With colons in the ids two pairs of different users can share a key, and so a room.\<close>

lemma keys_collide:
  "pair_key (''a'', ''b:c'') = pair_key (''a:b'', ''c'') \<and> pair_key (''a'', ''b:c'') \<noteq> None
   \<and> trimmed (''a'', ''b:c'') \<inter> trimmed (''a:b'', ''c'') = {}"
  by code_simp

section \<open>Access to a room\<close>

text \<open>
  C31. A room that was handed out to a request whose two user ids contain no colon admits these two
  users, with the white space around their ids trimmed, and nobody else: \<open>ValidateRoom\<close> answers for
  the id of the room, whenever it answers at all, whether the user is one of the two, whatever other
  clients did in the meantime. The condition is needed: by \<open>keys_collide\<close> ids with colons can share
  the room of another pair.
\<close>

theorem room_admits_its_pair:
  assumes "cassandra_rooms L rows tr issued" and "pairs_ok tr (issued d) (rows d)" and "ids_ok (rows d)"
    and "chat_steps L (d, all_start req) (d', ph)"
    and "ph i = RDone (Inr (room, c))" and "colon_free (req i)"
    and "Store_ValidateRoom L (cr_RoomID room) user d' = (d'', Inr v)"
  shows "v \<longleftrightarrow> user \<in> trimmed (req i)"
proof -
  note inv = chat_run_inv [OF assms(1-4)]
  note fin = done_phase [OF inv assms(5)]
  from fin(1) obtain a b where ab: "pair_ok a b (cr_PairKey room)" "trimmed (req i) = {a, b}" by (rule pair_key_SomeD)
  have "pair_ok (cr_UserA room) (cr_UserB room) (cr_PairKey room)"
    using chat_invD(1) [OF inv] fin(2) unfolding pairs_ok_def room_stored_def by (metis pair_row_inj)
  moreover have "CHR '':'' \<notin> set a" "CHR '':'' \<notin> set b"
    using colon_free_trimmed [OF assms(6)] ab(2) by auto
  ultimately have users: "cr_UserA room = a" "cr_UserB room = b" using colon_free_key [OF ab(1)] by blast+
  have "v \<longleftrightarrow> (\<exists>r. rows d' chat_rooms_by_id (cr_RoomID room) = Some (id_row r) \<and> user \<in> {cr_UserA r, cr_UserB r})"
    by (rule cassandra_rooms.validate_stored [OF assms(1,7) chat_invD(2) [OF inv]])
  also have "\<dots> \<longleftrightarrow> user \<in> {cr_UserA room, cr_UserB room}"
    unfolding fin(3) option.inject id_row_inj by blast
  finally show ?thesis unfolding users ab(2) .
qed

lemma demo_validated: "Store_ValidateRoom cmem_lib (nat_id 0) ''v'' demo_chat = (demo_chat, Inr True)"
  by (simp add: Store_ValidateRoom_def Store_getRoomByID_def demo_chat_def chat_calls demo_normal cmem_start_def
      demo_room_def millis_def)

lemma room_admits_its_pair_witness:
  "snd (Store_ValidateRoom cmem_lib (nat_id 0) ''v'' demo_chat) = Inr True \<and> ''v'' \<in> trimmed (demo_requests 0)"
proof -
  have run: "Store_ValidateRoom cmem_lib (cr_RoomID demo_room) ''v'' demo_chat = (demo_chat, Inr True)"
    using demo_validated by (simp add: demo_room_def)
  have "colon_free (demo_requests 0)" by (simp add: colon_free_def demo_requests_def)
  from room_admits_its_pair [OF cmem_rooms.cassandra_rooms_axioms demo_chat_start demo_chat_steps _ this run, of True]
  have "''v'' \<in> trimmed (demo_requests 0)" by simp
  with run show ?thesis by (simp add: demo_room_def)
qed

section \<open>Two clients at the same time\<close>

text \<open>
  Two clients that both look before either of them inserts get the same room, and both are told
  that they created it: the answer of the conditional insert is not looked at.
\<close>

lemma race_look:
  assumes "cmem_rows d chat_rooms_by_pair k = None"
  shows "(resolve_step cmem_lib ^^ 2) (d, RLookup a b k)
    = (d\<lparr>cmem_ids := cmem_ids d + 1, cmem_clock := cmem_clock d + 1000000\<rparr>,
       RInsert a b k (nat_id (cmem_ids d)) (cmem_clock d + 1000000))"
  using assms by (simp add: numeral_eq_Suc chat_calls)

lemma race_first:
  assumes "cmem_rows d chat_rooms_by_pair k = None"
  shows "\<exists>d'. (resolve_step cmem_lib ^^ 3) (d, RInsert a b k i now) = (d', RDone (Inr (asked_room millis k i a b now, True)))
    \<and> cmem_rows d' chat_rooms_by_pair k = Some (pair_row (asked_room millis k i a b now))"
  using assms by (simp add: numeral_eq_Suc chat_calls asked_room_def pair_row_def pair_cells_def split: option.split)

lemma race_second:
  assumes "cmem_rows d chat_rooms_by_pair k = Some (pair_row room)" "cr_PairKey room = k"
  shows "\<exists>d'. (resolve_step cmem_lib ^^ 3) (d, RInsert a b k i now) = (d', RDone (Inr (room, True)))"
  using assms by (simp add: numeral_eq_Suc chat_calls pair_row_def pair_cells_def)

lemma race_four:
  assumes "(resolve_step L ^^ n0) (d, ph i) = (d1, q0)" "(resolve_step L ^^ n1) (d1, ph j) = (d2, q1)"
    and "(resolve_step L ^^ n2) (d2, q0) = (d3, q2)" "(resolve_step L ^^ n3) (d3, q1) = (d4, q3)" and ij: "i \<noteq> j"
  shows "\<exists>d' ph'. chat_steps L (d, ph) (d', ph') \<and> ph' i = q2 \<and> ph' j = q3"
proof -
  have 1: "chat_steps L (d, ph) (d1, ph(i := q0))" using assms(1) by (rule resolve_run)
  have 2: "chat_steps L (d1, ph(i := q0)) (d2, ph(i := q0, j := q1))"
    using assms(2) ij by (intro resolve_run [of n1 L d1 "ph(i := q0)" j d2 q1]) simp
  have 3: "chat_steps L (d2, ph(i := q0, j := q1)) (d3, ph(i := q0, j := q1, i := q2))"
    using assms(3) ij by (intro resolve_run [of n2 L d2 "ph(i := q0, j := q1)" i d3 q2]) simp
  have 4: "chat_steps L (d3, ph(i := q0, j := q1, i := q2)) (d4, ph(i := q0, j := q1, i := q2, j := q3))"
    using assms(4) ij by (intro resolve_run [of n3 L d3 "ph(i := q0, j := q1, i := q2)" j d4 q3]) simp
  have "(ph(i := q0, j := q1, i := q2, j := q3)) i = q2" "(ph(i := q0, j := q1, i := q2, j := q3)) j = q3"
    using ij by simp_all
  with rtranclp_trans [OF rtranclp_trans [OF 1 2] rtranclp_trans [OF 3 4]] show ?thesis by blast
qed

lemma both_told_created:
  "\<exists>d ph. chat_steps cmem_lib (cmem_start [], all_start demo_requests) (d, ph)
     \<and> ph 0 = RDone (Inr (demo_room, True)) \<and> ph 1 = RDone (Inr (demo_room, True))"
proof -
  let ?k = "''u:v''"
  define d0 where "d0 = cmem_start []"
  have ph: "all_start demo_requests 0 = RLookup ''u'' ''v'' ?k" "all_start demo_requests 1 = RLookup ''u'' ''v'' ?k"
    by (simp_all add: all_start_def demo_requests_def resolve_start_def demo_normal normalize_symmetric [of "''v''"])
  have d0: "cmem_rows d0 chat_rooms_by_pair ?k = None" "cmem_ids d0 = 0" "cmem_clock d0 = 0"
    by (simp_all add: d0_def cmem_start_def)
  define d1 where "d1 = d0\<lparr>cmem_ids := cmem_ids d0 + 1, cmem_clock := cmem_clock d0 + 1000000\<rparr>"
  define d2 where "d2 = d1\<lparr>cmem_ids := cmem_ids d1 + 1, cmem_clock := cmem_clock d1 + 1000000\<rparr>"
  have d1: "cmem_rows d1 chat_rooms_by_pair ?k = None" and d2: "cmem_rows d2 chat_rooms_by_pair ?k = None"
    using d0(1) by (simp_all add: d1_def d2_def)
  have room: "asked_room millis ?k (nat_id (cmem_ids d0)) ''u'' ''v'' (cmem_clock d0 + 1000000) = demo_room"
    by (simp add: asked_room_def demo_room_def millis_def d0)
  have key: "cr_PairKey demo_room = ?k" by (simp add: demo_room_def)
  obtain d3 where first: "(resolve_step cmem_lib ^^ 3)
        (d2, RInsert ''u'' ''v'' ?k (nat_id (cmem_ids d0)) (cmem_clock d0 + 1000000)) = (d3, RDone (Inr (demo_room, True)))"
    and st: "cmem_rows d3 chat_rooms_by_pair ?k = Some (pair_row demo_room)"
    using race_first [OF d2, of "''u''" "''v''" "nat_id (cmem_ids d0)" "cmem_clock d0 + 1000000"] unfolding room by blast
  obtain d4 where second: "(resolve_step cmem_lib ^^ 3)
        (d3, RInsert ''u'' ''v'' ?k (nat_id (cmem_ids d1)) (cmem_clock d1 + 1000000)) = (d4, RDone (Inr (demo_room, True)))"
    using race_second [OF st key] by blast
  have look: "(resolve_step cmem_lib ^^ 2) (d0, all_start demo_requests 0)
        = (d1, RInsert ''u'' ''v'' ?k (nat_id (cmem_ids d0)) (cmem_clock d0 + 1000000))"
    "(resolve_step cmem_lib ^^ 2) (d1, all_start demo_requests 1)
        = (d2, RInsert ''u'' ''v'' ?k (nat_id (cmem_ids d1)) (cmem_clock d1 + 1000000))"
    unfolding ph d1_def d2_def by (rule race_look, rule d0(1), rule race_look, rule d1 [unfolded d1_def])
  from race_four [OF look first second] show ?thesis unfolding d0_def by simp
qed

section \<open>Clients that never came back\<close>

text \<open>
  C28. A room that a client left half made is finished by the next one that asks: once the insert
  under the key of a pair went through, in whatever run, with failing calls and clients that
  crashed before they made the entry under the id of the room, the next \<open>ResolveRoom\<close> of this pair
  whose read and insert are answered returns that very room, as not created, leaves the entry of
  the pair as it is and has made the entry under its id, so that \<open>ValidateRoom\<close> admits its two users
  and nobody else.
\<close>

theorem abandoned_room_completed:
  assumes "cassandra_rooms L rows tr issued" and "pairs_ok tr (issued d) (rows d)" and "ids_ok (rows d)"
    and "chat_steps L (d, all_start req) (d', ph)"
    and "pair_key (u, p) = Some k" and "rows d' chat_rooms_by_pair k = Some row"
    and "Store_getRoomByPairKey L k d' = (d1, answer)" and "\<forall>e. answer \<noteq> Inl (CqlError e)"
    and "\<forall>room. snd (Store_ensureRoomByID L room d1) = None"
  shows "\<exists>room d2. row = pair_row room \<and> Store_ResolveRoom L u p d' = (d2, Inr (room, False))
    \<and> rows d2 chat_rooms_by_pair = rows d' chat_rooms_by_pair
    \<and> rows d2 chat_rooms_by_id (cr_RoomID room) = Some (id_row room)
    \<and> (\<forall>user d3 v. Store_ValidateRoom L (cr_RoomID room) user d2 = (d3, Inr v) \<longrightarrow>
         (v \<longleftrightarrow> user \<in> {cr_UserA room, cr_UserB room}))"
proof -
  note inv = chat_run_inv [OF assms(1-4)]
  note ok = chat_invD(1,2) [OF inv] and get = cassandra_rooms.get_pair(1,2) [OF assms(1,7)]
  from assms(5) obtain a b where norm: "normalizeRoomParticipants u p = Inr (a, b, k)"
    by (auto simp: pair_key_def split: sum.splits)
  obtain room where room: "answer = Inr room" "row = pair_row room" "room_stored (rows d') room"
    by (rule cassandra_rooms.get_pair_there [OF assms(1,7) ok(1) assms(6)]) (use assms(8) in blast)+
  obtain d2 where run: "Store_ensureRoomByID L room d1 = (d2, None)"
    using assms(9) by (metis surjective_pairing)
  note en = cassandra_rooms.ensure_room [OF assms(1) run, unfolded get, OF ok room(3)]
  have res: "Store_ResolveRoom L u p d' = (d2, Inr (room, False))"
    by (simp add: Store_ResolveRoom_def norm assms(7) room(1) run)
  have "v \<longleftrightarrow> user \<in> {cr_UserA room, cr_UserB room}" if "Store_ValidateRoom L (cr_RoomID room) user d2 = (d3, Inr v)"
    for user d3 v
    unfolding cassandra_rooms.validate_stored [OF assms(1) that en(3)] using en(5) by (auto simp: id_row_inj)
  with room(2) res en(4,5) show ?thesis by blast
qed

definition demo_abandoned :: chat_mem where
  \<comment> \<open>the first client has inserted the room of the pair, and is gone\<close>
  "demo_abandoned = fst ((resolve_step cmem_lib ^^ 3) (cmem_start [], all_start demo_requests 0))"

lemma demo_abandoned_rows:
  "cmem_rows demo_abandoned chat_rooms_by_pair ''u:v'' = Some (pair_row demo_room)"
  "cmem_rows demo_abandoned chat_rooms_by_id (nat_id 0) = None"
  by (simp_all add: demo_abandoned_def numeral_eq_Suc all_start_def demo_requests_def resolve_start_def demo_normal
      chat_calls cmem_start_def pair_row_def pair_cells_def demo_room_def millis_def)

lemma abandoned_room_completed_witness:
  "cmem_rows demo_abandoned chat_rooms_by_id (nat_id 0) = None
   \<and> (\<exists>d. Store_ResolveRoom cmem_lib ''v'' ''u'' demo_abandoned = (d, Inr (demo_room, False))
        \<and> cmem_rows d chat_rooms_by_id (nat_id 0) = Some (id_row demo_room))"
proof -
  obtain q where "(resolve_step cmem_lib ^^ 3) (cmem_start [], all_start demo_requests 0) = (demo_abandoned, q)"
    by (simp add: demo_abandoned_def prod_eq_iff)
  from resolve_run [of 3 cmem_lib "cmem_start []" "all_start demo_requests" 0, OF this]
  have run: "chat_steps cmem_lib (cmem_start [], all_start demo_requests)
      (demo_abandoned, (all_start demo_requests)(0 := q))" .
  have key: "pair_key (''v'', ''u'') = Some ''u:v''" by code_simp
  obtain d1 answer where get: "Store_getRoomByPairKey cmem_lib ''u:v'' demo_abandoned = (d1, answer)"
    by (cases "Store_getRoomByPairKey cmem_lib ''u:v'' demo_abandoned")
  have answered: "\<forall>e. answer \<noteq> Inl (CqlError e)"
    using get demo_abandoned_rows(1) by (auto simp: Store_getRoomByPairKey_def pair_row_cells scan_pair)
  have "\<forall>room. snd (Store_ensureRoomByID cmem_lib room d1) = None"
    by (simp add: Store_ensureRoomByID_def insertRoomByID_def)
  from abandoned_room_completed [OF cmem_rooms.cassandra_rooms_axioms demo_chat_start run key demo_abandoned_rows(1)
      get answered this]
  show ?thesis using demo_abandoned_rows(2) unfolding pair_row_inj by (auto simp: demo_room_def)
qed

section \<open>Messages\<close>

text \<open>
  C32. A batch of records is worked off in its order: what it adds to the committed records is an
  initial part of it, all of it if no failure is reported, and every record of that part decodes
  to a message that is stored.
\<close>

theorem batch_committed_in_order:
  assumes "chat_broker L rows tr issued commits"
    and "handleFetches L (store_of L) recs d = (d', failed)"
  shows "\<exists>handled. prefix handled recs \<and> commits d' = commits d @ handled
     \<and> (\<forall>r \<in> set handled. record_stored L (rows d') r) \<and> (failed = None \<longrightarrow> handled = recs)"
  using chat_broker.handle_outcome [OF assms] handled_upto_prefix by blast

definition demo_line :: "string \<Rightarrow> byte list" where
  "demo_line s = map (\<lambda>c. of_nat (of_char c)) s"

definition demo_record :: kgo_record where
  "demo_record = \<lparr>kr_Offset = 7, kr_Value = demo_line ''m1\<newline>r1\<newline>u\<newline>hello\<newline>5''\<rparr>"

definition broken_record :: kgo_record where
  "broken_record = \<lparr>kr_Offset = 8, kr_Value = demo_line ''m2\<newline>r1''\<rparr>"

lemma demo_decodes:
  "decodeMessage cmem_lib (kr_Value demo_record)
     = Inr \<lparr>cm_MessageID = ''m1'', cm_RoomID = ''r1'', cm_SenderID = ''u'', cm_Body = ''hello'', cm_SentAt = 5\<rparr>"
  by code_simp

lemma broken_refused:
  "decodeMessage cmem_lib (kr_Value broken_record) = Inl (ChatText ''not a record'')"
  by code_simp

lemmas chat_consumes = handleFetches_def handleFetches_record_def store_of_def Store_InsertMessage_def insertChatMessage_def

lemma demo_batch:
  "\<exists>d. handleFetches cmem_lib (store_of cmem_lib) [demo_record, broken_record, demo_record] (cmem_start inbox)
         = (d, Some (ChatAtOffset ''decode message at offset'' 8 (ChatText ''not a record'')))
     \<and> cmem_commits d = [demo_record]"
  by (simp add: chat_consumes demo_decodes broken_refused) (simp add: broken_record_def cmem_start_def)

lemma batch_committed_in_order_witness:
  "\<exists>d :: chat_mem. cmem_commits d = [demo_record] \<and> record_stored cmem_lib (cmem_rows d) demo_record"
proof -
  obtain d where d: "handleFetches cmem_lib (store_of cmem_lib) [demo_record, broken_record, demo_record] (cmem_start [])
      = (d, Some (ChatAtOffset ''decode message at offset'' 8 (ChatText ''not a record'')))"
    and c: "cmem_commits d = [demo_record]" using demo_batch by blast
  have "cmem_commits (cmem_start []) = []" by (simp add: cmem_start_def)
  with c batch_committed_in_order [OF cmem_chat.chat_broker_axioms d]
  have "record_stored cmem_lib (cmem_rows d) demo_record" by auto
  with c show ?thesis by blast
qed

text \<open>
  C33. No message is lost and none is changed: however many polls the consumer makes and however it
  ends, the records it has committed then are an initial part of those it was handed, all of them if
  it did not end with an error, and every one of them decodes to a message whose id has a row. That
  row was there before, or its columns are those of the first message that was handed out with
  this id: its room, sender, body and the time it was sent, each in the column of its name.
  Nothing else in the database has changed.
\<close>

theorem committed_messages_stored:
  assumes "chat_broker L rows tr issued commits"
    and "Consumer_Run L (store_of L) n d = (d', res)"
  defines "recs \<equiv> polled L (store_of L) n d"
  shows "(\<exists>handled. prefix handled recs \<and> commits d' = commits d @ handled
      \<and> ((\<forall>e. res \<noteq> RunReturned (Some e)) \<longrightarrow> handled = recs)
      \<and> (\<forall>r \<in> set handled. \<exists>m row. decodeMessage L (kr_Value r) = Inr m
           \<and> rows d' chat_messages (cm_MessageID m) = Some row
           \<and> (rows d chat_messages (cm_MessageID m) = Some row
              \<or> (\<exists>first persisted. first_delivery L recs (cm_MessageID m) = Some first
                   \<and> row = message_row tr first persisted))))
    \<and> messages_added L tr recs (rows d) (rows d')"
proof -
  from chat_broker.Run_outcome [OF assms(1,2), folded recs_def]
  have added: "messages_added L tr recs (rows d) (rows d')"
    and u: "handled_upto (record_stored L (rows d')) recs (commits d) (commits d') (case res of RunReturned f \<Rightarrow> f | RunGoesOn \<Rightarrow> None)"
    by auto
  have row: "\<exists>m row. decodeMessage L (kr_Value r) = Inr m \<and> rows d' chat_messages (cm_MessageID m) = Some row
      \<and> (rows d chat_messages (cm_MessageID m) = Some row
         \<or> (\<exists>first persisted. first_delivery L recs (cm_MessageID m) = Some first \<and> row = message_row tr first persisted))"
    if st: "record_stored L (rows d') r" for r
  proof -
    from st obtain m row where m: "decodeMessage L (kr_Value r) = Inr m" "rows d' chat_messages (cm_MessageID m) = Some row"
      by (auto simp: record_stored_def message_stored_def)
    from added have "rows d' chat_messages (cm_MessageID m) = rows d chat_messages (cm_MessageID m)
        \<or> (\<exists>first persisted. first_delivery L recs (cm_MessageID m) = Some first
            \<and> rows d' chat_messages (cm_MessageID m) = Some (message_row tr first persisted))"
      unfolding messages_added_def by blast
    with m show ?thesis by auto
  qed
  have end_ok: "(case res of RunReturned f \<Rightarrow> f | RunGoesOn \<Rightarrow> None) = None" if "\<forall>e. res \<noteq> RunReturned (Some e)"
    using that by (cases res) auto
  from handled_upto_prefix [OF u] obtain handled where h: "prefix handled recs" "commits d' = commits d @ handled"
    "\<forall>r \<in> set handled. record_stored L (rows d') r"
    "(case res of RunReturned f \<Rightarrow> f | RunGoesOn \<Rightarrow> None) = None \<longrightarrow> handled = recs"
    by (elim exE conjE) (erule (3) that)
  show ?thesis
    by (rule conjI [OF exI [of _ handled] added], intro conjI impI ballI h(1,2) row)
      (erule h(4) [THEN mp, OF end_ok], erule h(3) [THEN bspec])
qed

lemma demo_chat_run:
  "\<exists>d. Consumer_Run cmem_lib (store_of cmem_lib) 3 (cmem_start [[demo_record], [demo_record]]) = (d, RunReturned None)
     \<and> cmem_commits d = [demo_record, demo_record] \<and> cmem_rows d chat_messages ''m1'' \<noteq> None"
  by (simp add: put_absent_def numeral_eq_Suc chat_consumes demo_decodes cmem_start_def)

definition demo_message :: chat_Message where
  "demo_message = \<lparr>cm_MessageID = ''m1'', cm_RoomID = ''r1'', cm_SenderID = ''u'', cm_Body = ''hello'', cm_SentAt = 5\<rparr>"

definition second_record :: kgo_record where
  \<comment> \<open>another message under the id of the first\<close>
  "second_record = \<lparr>kr_Offset = 8, kr_Value = demo_line ''m1\<newline>r1\<newline>u\<newline>bye\<newline>6''\<rparr>"

lemma second_decodes:
  "decodeMessage cmem_lib (kr_Value second_record)
     = Inr \<lparr>cm_MessageID = ''m1'', cm_RoomID = ''r1'', cm_SenderID = ''u'', cm_Body = ''bye'', cm_SentAt = 6\<rparr>"
  by code_simp

definition demo_inbox :: chat_mem where
  "demo_inbox = cmem_start [[demo_record], [second_record]]"

lemma demo_polled:
  "polled cmem_lib (store_of cmem_lib) 3 demo_inbox = [demo_record, second_record]"
  "first_delivery cmem_lib [demo_record, second_record] ''m1'' = Some demo_message"
  by (simp_all add: put_absent_def numeral_eq_Suc chat_consumes demo_decodes second_decodes demo_inbox_def cmem_start_def
      demo_message_def)

lemma demo_inbox_run:
  "\<exists>d. Consumer_Run cmem_lib (store_of cmem_lib) 3 demo_inbox = (d, RunReturned None)"
  by (simp add: numeral_eq_Suc chat_consumes demo_decodes second_decodes demo_inbox_def cmem_start_def)

lemma committed_messages_stored_witness:
  "\<exists>(d :: chat_mem) persisted. cmem_commits d = [demo_record, second_record]
     \<and> cmem_rows d chat_messages ''m1'' = Some (message_row millis demo_message persisted)"
proof -
  obtain d where d: "Consumer_Run cmem_lib (store_of cmem_lib) 3 demo_inbox = (d, RunReturned None)"
    using demo_inbox_run by blast
  have start: "cmem_commits demo_inbox = []" "cmem_rows demo_inbox chat_messages ''m1'' = None"
    by (simp_all add: demo_inbox_def cmem_start_def)
  from committed_messages_stored [OF cmem_chat.chat_broker_axioms d, unfolded demo_polled(1)] obtain handled where
    "cmem_commits d = handled" "handled = [demo_record, second_record]"
    and rows: "\<forall>r \<in> set handled. \<exists>m row. decodeMessage cmem_lib (kr_Value r) = Inr m
        \<and> cmem_rows d chat_messages (cm_MessageID m) = Some row
        \<and> (cmem_rows demo_inbox chat_messages (cm_MessageID m) = Some row
          \<or> (\<exists>first p. first_delivery cmem_lib [demo_record, second_record] (cm_MessageID m) = Some first
               \<and> row = message_row millis first p))"
    unfolding start(1) by auto
  then have c: "cmem_commits d = [demo_record, second_record]" and "demo_record \<in> set handled" by simp_all
  from bspec [OF rows this(2)] obtain persisted where
    "cmem_rows d chat_messages ''m1'' = Some (message_row millis demo_message persisted)"
    unfolding demo_decodes using start(2) demo_polled(2) by (auto simp del: first_delivery.simps)
  with c show ?thesis by blast
qed

text \<open>
  C34. Storing is idempotent: a batch whose messages are all stored already, as after a commit
  that was lost and a rebalance, leaves every row of every table as it is, whichever of its calls
  fail; the row of the first delivery stays.
\<close>

theorem redelivered_batch:
  assumes "chat_broker L rows tr issued commits" and "\<forall>r \<in> set recs. record_stored L (rows d) r"
    and "handleFetches L (store_of L) recs d = (d', failed)"
  shows "rows d' = rows d"
  using chat_broker.handle_stored [OF assms(1,3,2)] .

lemma redelivered_batch_witness:
  "\<exists>d d' failed. handleFetches cmem_lib (store_of cmem_lib) [demo_record] d = (d', failed)
     \<and> cmem_rows d chat_messages ''m1'' \<noteq> None \<and> cmem_rows d' = cmem_rows d"
proof -
  obtain d where "Consumer_Run cmem_lib (store_of cmem_lib) 3 (cmem_start [[demo_record], [demo_record]]) = (d, RunReturned None)"
    and row: "cmem_rows d chat_messages ''m1'' \<noteq> None" using demo_chat_run by blast
  obtain d' failed where h: "handleFetches cmem_lib (store_of cmem_lib) [demo_record] d = (d', failed)"
    by (cases "handleFetches cmem_lib (store_of cmem_lib) [demo_record] d")
  have "\<forall>r \<in> set [demo_record]. record_stored cmem_lib (cmem_rows d) r"
    using row demo_decodes by (simp add: record_stored_def message_stored_def)
  from redelivered_batch [OF cmem_chat.chat_broker_axioms this h] h row show ?thesis by blast
qed

section \<open>What the HTTP clients see\<close>

text \<open>
  C35. The validator lets in members only: it answers 200 only to a POST whose body decodes to a
  room and a user of that room, and 403 only if the user is none of its users or there is no such
  room; all other answers are 400, 405 and 500. It changes no row.
\<close>

theorem validator_lets_in_members:
  assumes "cassandra_rooms L rows tr issued" and "ids_ok (rows d)"
    and "validateHandler L decode meth body d = (d', response)"
  defines "member \<equiv> \<lambda>i user. \<exists>room. rows d chat_rooms_by_id i = Some (id_row room) \<and> user \<in> {cr_UserA room, cr_UserB room}"
  shows "rows d' = rows d
    \<and> (hr_Status response = 200 \<and> meth = ''POST'' \<and> (\<exists>i user. decode body = Some (i, user) \<and> member i user)
       \<or> hr_Status response = 403 \<and> meth = ''POST'' \<and> (\<exists>i user. decode body = Some (i, user) \<and> \<not> member i user)
       \<or> hr_Status response = 400 \<and> meth = ''POST'' \<and> decode body = None
       \<or> hr_Status response = 405 \<and> meth \<noteq> ''POST''
       \<or> hr_Status response = 500 \<and> meth = ''POST'')"
proof -
  consider (verb) "meth \<noteq> ''POST''" | (body) "meth = ''POST''" "decode body = None"
    | (request) i user where "meth = ''POST''" "decode body = Some (i, user)" by fastforce
  then show ?thesis
  proof cases
    case verb
    then have "d' = d" "response = methodNotAllowed" using assms(3) by (simp_all add: validateHandler_def cong: if_cong)
    then show ?thesis using verb by (simp add: methodNotAllowed_def)
  next
    case body
    then have "d' = d" "hr_Status response = 400"
      using assms(3) by (auto simp: validateHandler_def writeJSONError_def)
    then show ?thesis using body by simp
  next
    case post: (request i user)
    obtain d1 res where v: "Store_ValidateRoom L i user d = (d1, res)" by (cases "Store_ValidateRoom L i user d")
    have same: "rows d1 = rows d" using cassandra_rooms.ValidateRoom_frame [OF assms(1) v] by simp
    show ?thesis
    proof (cases res)
      case (Inl e)
      then show ?thesis using assms(3) post v same by (auto simp: validateHandler_def writeJSONError_def)
    next
      case (Inr valid)
      have "valid \<longleftrightarrow> member i user"
        unfolding member_def by (rule cassandra_rooms.validate_stored [OF assms(1) v [unfolded Inr] assms(2)])
      then show ?thesis
        using assms(3) post v same Inr by (cases valid) (auto simp: validateHandler_def writeJSONError_def)
    qed
  qed
qed

lemma validator_lets_in_members_witness:
  "\<exists>room. cmem_rows demo_chat chat_rooms_by_id (nat_id 0) = Some (id_row room) \<and> ''v'' \<in> {cr_UserA room, cr_UserB room}"
proof -
  have run: "validateHandler cmem_lib (\<lambda>_. Some (nat_id 0, ''v'')) ''POST'' [] demo_chat
      = (demo_chat, \<lparr>hr_Status = 200, hr_ContentType = ''application/json'', hr_Body = JValid True\<rparr>)"
    using demo_validated by (simp add: validateHandler_def)
  have "ids_ok (cmem_rows demo_chat)"
    using chat_run_inv [OF cmem_rooms.cassandra_rooms_axioms demo_chat_start demo_chat_steps] by (rule chat_invD)
  from validator_lets_in_members [OF cmem_rooms.cassandra_rooms_axioms this run] show ?thesis by simp
qed

end
