(* ===== verification/EntFields.thy ===== *)
theory EntFields
  imports EntUpdate
begin

text \<open>
  Access to a mutation by field name. The interface \<open>ent.Mutation\<close> through which hooks see every
  mutation (\<open>Fields\<close>, \<open>Field\<close>, \<open>SetField\<close>, \<open>ResetField\<close>) is the locale \<open>field_access\<close>; the
  three generated mutations are its instances.
\<close>

definition assign_fields :: "(string \<Rightarrow> ent_value \<Rightarrow> 'm \<Rightarrow> ent_error + 'm) \<Rightarrow> (string \<times> ent_value) list \<Rightarrow> 'm \<Rightarrow> ent_error + 'm" where
  "assign_fields put nvs m = range_loop (\<lambda>(n, v). put n v) nvs m"

definition field_values :: "(string \<Rightarrow> 'm \<Rightarrow> ent_value option) \<Rightarrow> string list \<Rightarrow> 'm \<Rightarrow> (string \<times> ent_value) list" where
  "field_values get ns m = concat (map (\<lambda>n. case get n m of Some v \<Rightarrow> [(n, v)] | None \<Rightarrow> []) ns)"

locale field_access =
  fixes schema :: "string list"
    and get :: "string \<Rightarrow> 'm \<Rightarrow> ent_value option"
    and put :: "string \<Rightarrow> ent_value \<Rightarrow> 'm \<Rightarrow> ent_error + 'm"
    and reset :: "string \<Rightarrow> 'm \<Rightarrow> ent_error + 'm"
    and present :: "'m \<Rightarrow> string list"
  assumes schema_distinct: "distinct schema"
    and put_get: "put n v m = Inr m' \<Longrightarrow> get k m' = (if k = n then Some v else get k m)"
    and put_unknown: "n \<notin> set schema \<Longrightarrow> put n v m = Inl (UnknownField n)"
    and put_uniform: "put n v m = Inr m' \<Longrightarrow> \<exists>m''. put n v m2 = Inr m''"
    and get_put: "get n m = Some v \<Longrightarrow> \<exists>m'. put n v m2 = Inr m'"
    and reset_get: "reset n m = Inr m' \<Longrightarrow> get k m' = (if k = n then None else get k m)"
    and reset_known: "n \<in> set schema \<Longrightarrow> \<exists>m'. reset n m = Inr m'"
    and reset_unknown: "n \<notin> set schema \<Longrightarrow> reset n m = Inl (UnknownField n)"
    and present_get: "present m = filter (\<lambda>n. get n m \<noteq> None) schema"
begin

lemma put_known: "put n v m = Inr m' \<Longrightarrow> n \<in> set schema"
  using put_unknown by fastforce

lemma get_known: "get n m = Some v \<Longrightarrow> n \<in> set schema"
  using get_put put_known by blast

lemma assign_get:
  assumes "assign_fields put nvs m = Inr m'"
  shows "get k m' = (case map_of (rev nvs) k of Some v \<Rightarrow> Some v | None \<Rightarrow> get k m)"
  using assms
proof (induction nvs arbitrary: m)
  case (Cons nv nvs)
  obtain n v where nv: "nv = (n, v)" by (cases nv)
  from Cons.prems obtain m1 where m1: "put n v m = Inr m1" "assign_fields put nvs m1 = Inr m'"
    by (auto simp: assign_fields_def nv split: sum.splits)
  show ?case
    using Cons.IH [OF m1(2)] put_get [OF m1(1)] by (auto simp: nv map_add_def split: option.splits)
qed (simp add: assign_fields_def)

lemma assign_accepted:
  "(\<forall>(n, v) \<in> set nvs. \<exists>m1 m2. put n v m1 = Inr m2) \<Longrightarrow> \<exists>m'. assign_fields put nvs m = Inr m'"
proof (induction nvs arbitrary: m)
  case (Cons nv nvs)
  obtain n v where nv: "nv = (n, v)" by (cases nv)
  from Cons.prems nv have "\<exists>m1 m2. put n v m1 = Inr m2" by auto
  then obtain m1 where "put n v m = Inr m1" using put_uniform by metis
  with Cons.IH [of m1] Cons.prems show ?case by (auto simp: assign_fields_def nv)
qed (simp add: assign_fields_def)

lemma present_iff: "n \<in> set (present m) \<longleftrightarrow> get n m \<noteq> None"
  using get_known by (auto simp: present_get)

text \<open>Replaying the fields of one mutation onto another that has none of them reproduces them.\<close>

lemma replay:
  assumes "\<forall>n. get n m0 = None"
  shows "\<exists>m'. assign_fields put (field_values get (present m) m) m0 = Inr m'
    \<and> (\<forall>n. get n m' = get n m) \<and> present m' = present m"
proof -
  let ?nvs = "field_values get (present m) m"
  have in_nvs: "(n, v) \<in> set ?nvs \<longleftrightarrow> get n m = Some v" for n v
    using get_known by (auto simp: field_values_def present_get split: option.splits)
  have "map fst (field_values get ns m) = filter (\<lambda>n. get n m \<noteq> None) ns" for ns
    by (induction ns) (auto simp: field_values_def split: option.splits)
  then have "distinct (map fst ?nvs)" using schema_distinct by (simp add: present_get)
  then have map: "map_of (rev ?nvs) n = get n m" for n
    using in_nvs by (metis distinct_rev map_of_eq_Some_iff not_Some_eq rev_map set_rev)
  obtain m' where m': "assign_fields put ?nvs m0 = Inr m'"
    using assign_accepted [of ?nvs] in_nvs get_put by fast
  have same: "get n m' = get n m" for n
    using assign_get [OF m'] map [of n] assms by (auto split: option.splits)
  then have "present m' = present m" by (simp add: present_get)
  with m' same show ?thesis by blast
qed

end

subsection \<open>The three mutations\<close>

lemma filter_Cons_append: "filter P (x # xs) = (if P x then [x] else []) @ filter P xs"
  by simp

lemma if_InrE: "(if b then x else y) = Inr z \<Longrightarrow> (b \<Longrightarrow> x = Inr z \<Longrightarrow> P) \<Longrightarrow> (y = Inr z \<Longrightarrow> P) \<Longrightarrow> P"
  by (cases b) simp_all

lemma if_SomeE: "(if b then x else y) = Some z \<Longrightarrow> (b \<Longrightarrow> x = Some z \<Longrightarrow> P) \<Longrightarrow> (y = Some z \<Longrightarrow> P) \<Longrightarrow> P"
  by (cases b) simp_all

lemma Inl_InrE: "Inl e = Inr z \<Longrightarrow> P"
  by simp

lemma Inr_InrE: "Inr y = Inr z \<Longrightarrow> (z = y \<Longrightarrow> P) \<Longrightarrow> P"
  by simp

lemma None_SomeE: "None = Some z \<Longrightarrow> P"
  by simp

lemma map_SomeE: "map_option V y = Some z \<Longrightarrow> (\<And>x. z = V x \<Longrightarrow> P) \<Longrightarrow> P"
  by auto

lemma put_InrE:
  "(case v of VUUID x \<Rightarrow> Inr (gVUUID x) | _ \<Rightarrow> Inl e) = Inr z \<Longrightarrow> (\<And>x. v = VUUID x \<Longrightarrow> z = gVUUID x \<Longrightarrow> P) \<Longrightarrow> P"
  "(case v of VTime x \<Rightarrow> Inr (gVTime x) | _ \<Rightarrow> Inl e) = Inr z \<Longrightarrow> (\<And>x. v = VTime x \<Longrightarrow> z = gVTime x \<Longrightarrow> P) \<Longrightarrow> P"
  "(case v of VString x \<Rightarrow> Inr (gVString x) | _ \<Rightarrow> Inl e) = Inr z \<Longrightarrow> (\<And>x. v = VString x \<Longrightarrow> z = gVString x \<Longrightarrow> P) \<Longrightarrow> P"
  "(case v of VStatus x \<Rightarrow> Inr (gVStatus x) | _ \<Rightarrow> Inl e) = Inr z \<Longrightarrow> (\<And>x. v = VStatus x \<Longrightarrow> z = gVStatus x \<Longrightarrow> P) \<Longrightarrow> P"
  "(case v of VFloat x \<Rightarrow> Inr (gVFloat x) | _ \<Rightarrow> Inl e) = Inr z \<Longrightarrow> (\<And>x. v = VFloat x \<Longrightarrow> z = gVFloat x \<Longrightarrow> P) \<Longrightarrow> P"
  "(case v of VInt x \<Rightarrow> Inr (gVInt x) | _ \<Rightarrow> Inl e) = Inr z \<Longrightarrow> (\<And>x. v = VInt x \<Longrightarrow> z = gVInt x \<Longrightarrow> P) \<Longrightarrow> P"
  "(case v of VBool x \<Rightarrow> Inr (gVBool x) | _ \<Rightarrow> Inl e) = Inr z \<Longrightarrow> (\<And>x. v = VBool x \<Longrightarrow> z = gVBool x \<Longrightarrow> P) \<Longrightarrow> P"
  "(case v of VBytes x \<Rightarrow> Inr (gVBytes x) | _ \<Rightarrow> Inl e) = Inr z \<Longrightarrow> (\<And>x. v = VBytes x \<Longrightarrow> z = gVBytes x \<Longrightarrow> P) \<Longrightarrow> P"
  by (cases v; simp)+

definition order_schema :: "string list" where
  "order_schema = [FieldCreatedAt, FieldUpdatedAt, order_FieldCustomerID, order_FieldStatus, order_FieldSubtotal, order_FieldTax, order_FieldShippingCost, order_FieldTotal, order_FieldShippingAddress, order_FieldBillingAddress, order_FieldErrorMessage]"

lemma OrderMutation_Field_Set:
  "OrderMutation_Field k (OrderMutation_SetCreatedAt xVTime m) = (if k = FieldCreatedAt then Some (VTime xVTime) else OrderMutation_Field k m)"
  "OrderMutation_Field k (OrderMutation_SetUpdatedAt xVTime m) = (if k = FieldUpdatedAt then Some (VTime xVTime) else OrderMutation_Field k m)"
  "OrderMutation_Field k (OrderMutation_SetCustomerID xVUUID m) = (if k = order_FieldCustomerID then Some (VUUID xVUUID) else OrderMutation_Field k m)"
  "OrderMutation_Field k (OrderMutation_SetStatus xVStatus m) = (if k = order_FieldStatus then Some (VStatus xVStatus) else OrderMutation_Field k m)"
  "OrderMutation_Field k (OrderMutation_SetSubtotal xVFloat m) = (if k = order_FieldSubtotal then Some (VFloat xVFloat) else OrderMutation_Field k m)"
  "OrderMutation_Field k (OrderMutation_SetTax xVFloat m) = (if k = order_FieldTax then Some (VFloat xVFloat) else OrderMutation_Field k m)"
  "OrderMutation_Field k (OrderMutation_SetShippingCost xVFloat m) = (if k = order_FieldShippingCost then Some (VFloat xVFloat) else OrderMutation_Field k m)"
  "OrderMutation_Field k (OrderMutation_SetTotal xVFloat m) = (if k = order_FieldTotal then Some (VFloat xVFloat) else OrderMutation_Field k m)"
  "OrderMutation_Field k (OrderMutation_SetShippingAddress xVString m) = (if k = order_FieldShippingAddress then Some (VString xVString) else OrderMutation_Field k m)"
  "OrderMutation_Field k (OrderMutation_SetBillingAddress xVString m) = (if k = order_FieldBillingAddress then Some (VString xVString) else OrderMutation_Field k m)"
  "OrderMutation_Field k (OrderMutation_SetErrorMessage xVString m) = (if k = order_FieldErrorMessage then Some (VString xVString) else OrderMutation_Field k m)"
  by (simp_all add: OrderMutation_Field_def ent_defs)

lemma OrderMutation_Field_Reset:
  "OrderMutation_Field k (OrderMutation_ResetCreatedAt m) = (if k = FieldCreatedAt then None else OrderMutation_Field k m)"
  "OrderMutation_Field k (OrderMutation_ResetUpdatedAt m) = (if k = FieldUpdatedAt then None else OrderMutation_Field k m)"
  "OrderMutation_Field k (OrderMutation_ResetCustomerID m) = (if k = order_FieldCustomerID then None else OrderMutation_Field k m)"
  "OrderMutation_Field k (OrderMutation_ResetStatus m) = (if k = order_FieldStatus then None else OrderMutation_Field k m)"
  "OrderMutation_Field k (OrderMutation_ResetSubtotal m) = (if k = order_FieldSubtotal then None else OrderMutation_Field k m)"
  "OrderMutation_Field k (OrderMutation_ResetTax m) = (if k = order_FieldTax then None else OrderMutation_Field k m)"
  "OrderMutation_Field k (OrderMutation_ResetShippingCost m) = (if k = order_FieldShippingCost then None else OrderMutation_Field k m)"
  "OrderMutation_Field k (OrderMutation_ResetTotal m) = (if k = order_FieldTotal then None else OrderMutation_Field k m)"
  "OrderMutation_Field k (OrderMutation_ResetShippingAddress m) = (if k = order_FieldShippingAddress then None else OrderMutation_Field k m)"
  "OrderMutation_Field k (OrderMutation_ResetBillingAddress m) = (if k = order_FieldBillingAddress then None else OrderMutation_Field k m)"
  "OrderMutation_Field k (OrderMutation_ResetErrorMessage m) = (if k = order_FieldErrorMessage then None else OrderMutation_Field k m)"
  by (simp_all add: OrderMutation_Field_def ent_defs)

lemma OrderMutation_SetField_cases:
  assumes "OrderMutation_SetField n v m = Inr m'"
  obtains x where "n = FieldCreatedAt" "v = VTime x" "m' = OrderMutation_SetCreatedAt x m"
  | x where "n = FieldUpdatedAt" "v = VTime x" "m' = OrderMutation_SetUpdatedAt x m"
  | x where "n = order_FieldCustomerID" "v = VUUID x" "m' = OrderMutation_SetCustomerID x m"
  | x where "n = order_FieldStatus" "v = VStatus x" "m' = OrderMutation_SetStatus x m"
  | x where "n = order_FieldSubtotal" "v = VFloat x" "m' = OrderMutation_SetSubtotal x m"
  | x where "n = order_FieldTax" "v = VFloat x" "m' = OrderMutation_SetTax x m"
  | x where "n = order_FieldShippingCost" "v = VFloat x" "m' = OrderMutation_SetShippingCost x m"
  | x where "n = order_FieldTotal" "v = VFloat x" "m' = OrderMutation_SetTotal x m"
  | x where "n = order_FieldShippingAddress" "v = VString x" "m' = OrderMutation_SetShippingAddress x m"
  | x where "n = order_FieldBillingAddress" "v = VString x" "m' = OrderMutation_SetBillingAddress x m"
  | x where "n = order_FieldErrorMessage" "v = VString x" "m' = OrderMutation_SetErrorMessage x m"
  using assms unfolding OrderMutation_SetField_def by (elim if_InrE put_InrE Inl_InrE) (rule that; assumption)+

lemma OrderMutation_ResetField_cases:
  assumes "OrderMutation_ResetField n m = Inr m'"
  obtains "n = FieldCreatedAt" "m' = OrderMutation_ResetCreatedAt m"
  | "n = FieldUpdatedAt" "m' = OrderMutation_ResetUpdatedAt m"
  | "n = order_FieldCustomerID" "m' = OrderMutation_ResetCustomerID m"
  | "n = order_FieldStatus" "m' = OrderMutation_ResetStatus m"
  | "n = order_FieldSubtotal" "m' = OrderMutation_ResetSubtotal m"
  | "n = order_FieldTax" "m' = OrderMutation_ResetTax m"
  | "n = order_FieldShippingCost" "m' = OrderMutation_ResetShippingCost m"
  | "n = order_FieldTotal" "m' = OrderMutation_ResetTotal m"
  | "n = order_FieldShippingAddress" "m' = OrderMutation_ResetShippingAddress m"
  | "n = order_FieldBillingAddress" "m' = OrderMutation_ResetBillingAddress m"
  | "n = order_FieldErrorMessage" "m' = OrderMutation_ResetErrorMessage m"
  using assms unfolding OrderMutation_ResetField_def by (elim if_InrE Inr_InrE Inl_InrE) (rule that; assumption)+

lemma OrderMutation_Field_cases:
  assumes "OrderMutation_Field n m = Some v"
  obtains x where "n = FieldCreatedAt" "v = VTime x"
  | x where "n = FieldUpdatedAt" "v = VTime x"
  | x where "n = order_FieldCustomerID" "v = VUUID x"
  | x where "n = order_FieldStatus" "v = VStatus x"
  | x where "n = order_FieldSubtotal" "v = VFloat x"
  | x where "n = order_FieldTax" "v = VFloat x"
  | x where "n = order_FieldShippingCost" "v = VFloat x"
  | x where "n = order_FieldTotal" "v = VFloat x"
  | x where "n = order_FieldShippingAddress" "v = VString x"
  | x where "n = order_FieldBillingAddress" "v = VString x"
  | x where "n = order_FieldErrorMessage" "v = VString x"
  using assms unfolding OrderMutation_Field_def by (elim if_SomeE map_SomeE None_SomeE) (rule that; assumption)+

lemma OrderMutation_ResetField_known: "\<forall>n \<in> set order_schema. \<exists>m'. OrderMutation_ResetField n m = Inr m'"
  by (simp add: order_schema_def OrderMutation_ResetField_def)

interpretation order_fields: field_access order_schema OrderMutation_Field OrderMutation_SetField OrderMutation_ResetField OrderMutation_Fields
proof (unfold_locales, goal_cases)
  case 1
  then show ?case by (simp add: order_schema_def)
next
  case (2 n v m m' k)
  then show ?case by (rule OrderMutation_SetField_cases) (simp_all add: OrderMutation_Field_Set)
next
  case (3 n v m)
  then show ?case by (simp add: order_schema_def OrderMutation_SetField_def)
next
  case (4 n v m m' m2)
  then show ?case by (rule OrderMutation_SetField_cases) (simp_all add: OrderMutation_SetField_def)
next
  case (5 n m v m2)
  then show ?case by (rule OrderMutation_Field_cases) (simp_all add: OrderMutation_SetField_def)
next
  case (6 n m m' k)
  then show ?case by (rule OrderMutation_ResetField_cases) (simp_all add: OrderMutation_Field_Reset)
next
  case (7 n m)
  then show ?case by (rule bspec [OF OrderMutation_ResetField_known])
next
  case (8 n m)
  then show ?case by (simp add: order_schema_def OrderMutation_ResetField_def)
next
  case (9 m)
  then show ?case by (simp add: order_schema_def OrderMutation_Fields_def OrderMutation_Field_def ent_defs filter_Cons_append del: filter.simps(2) split del: if_split)
qed

definition orderitem_schema :: "string list" where
  "orderitem_schema = [FieldCreatedAt, FieldUpdatedAt, orderitem_FieldProductID, orderitem_FieldVariantID, orderitem_FieldProductName, orderitem_FieldVariantDescription, orderitem_FieldUnitPrice, orderitem_FieldQuantity, orderitem_FieldTotalPrice, orderitem_FieldImageURL]"

lemma OrderItemMutation_Field_Set:
  "OrderItemMutation_Field k (OrderItemMutation_SetCreatedAt xVTime m) = (if k = FieldCreatedAt then Some (VTime xVTime) else OrderItemMutation_Field k m)"
  "OrderItemMutation_Field k (OrderItemMutation_SetUpdatedAt xVTime m) = (if k = FieldUpdatedAt then Some (VTime xVTime) else OrderItemMutation_Field k m)"
  "OrderItemMutation_Field k (OrderItemMutation_SetProductID xVUUID m) = (if k = orderitem_FieldProductID then Some (VUUID xVUUID) else OrderItemMutation_Field k m)"
  "OrderItemMutation_Field k (OrderItemMutation_SetVariantID xVUUID m) = (if k = orderitem_FieldVariantID then Some (VUUID xVUUID) else OrderItemMutation_Field k m)"
  "OrderItemMutation_Field k (OrderItemMutation_SetProductName xVString m) = (if k = orderitem_FieldProductName then Some (VString xVString) else OrderItemMutation_Field k m)"
  "OrderItemMutation_Field k (OrderItemMutation_SetVariantDescription xVString m) = (if k = orderitem_FieldVariantDescription then Some (VString xVString) else OrderItemMutation_Field k m)"
  "OrderItemMutation_Field k (OrderItemMutation_SetUnitPrice xVFloat m) = (if k = orderitem_FieldUnitPrice then Some (VFloat xVFloat) else OrderItemMutation_Field k m)"
  "OrderItemMutation_Field k (OrderItemMutation_SetQuantity xVInt m) = (if k = orderitem_FieldQuantity then Some (VInt xVInt) else OrderItemMutation_Field k m)"
  "OrderItemMutation_Field k (OrderItemMutation_SetTotalPrice xVFloat m) = (if k = orderitem_FieldTotalPrice then Some (VFloat xVFloat) else OrderItemMutation_Field k m)"
  "OrderItemMutation_Field k (OrderItemMutation_SetImageURL xVString m) = (if k = orderitem_FieldImageURL then Some (VString xVString) else OrderItemMutation_Field k m)"
  by (simp_all add: OrderItemMutation_Field_def ent_defs)

lemma OrderItemMutation_Field_Reset:
  "OrderItemMutation_Field k (OrderItemMutation_ResetCreatedAt m) = (if k = FieldCreatedAt then None else OrderItemMutation_Field k m)"
  "OrderItemMutation_Field k (OrderItemMutation_ResetUpdatedAt m) = (if k = FieldUpdatedAt then None else OrderItemMutation_Field k m)"
  "OrderItemMutation_Field k (OrderItemMutation_ResetProductID m) = (if k = orderitem_FieldProductID then None else OrderItemMutation_Field k m)"
  "OrderItemMutation_Field k (OrderItemMutation_ResetVariantID m) = (if k = orderitem_FieldVariantID then None else OrderItemMutation_Field k m)"
  "OrderItemMutation_Field k (OrderItemMutation_ResetProductName m) = (if k = orderitem_FieldProductName then None else OrderItemMutation_Field k m)"
  "OrderItemMutation_Field k (OrderItemMutation_ResetVariantDescription m) = (if k = orderitem_FieldVariantDescription then None else OrderItemMutation_Field k m)"
  "OrderItemMutation_Field k (OrderItemMutation_ResetUnitPrice m) = (if k = orderitem_FieldUnitPrice then None else OrderItemMutation_Field k m)"
  "OrderItemMutation_Field k (OrderItemMutation_ResetQuantity m) = (if k = orderitem_FieldQuantity then None else OrderItemMutation_Field k m)"
  "OrderItemMutation_Field k (OrderItemMutation_ResetTotalPrice m) = (if k = orderitem_FieldTotalPrice then None else OrderItemMutation_Field k m)"
  "OrderItemMutation_Field k (OrderItemMutation_ResetImageURL m) = (if k = orderitem_FieldImageURL then None else OrderItemMutation_Field k m)"
  by (simp_all add: OrderItemMutation_Field_def ent_defs)

lemma OrderItemMutation_SetField_cases:
  assumes "OrderItemMutation_SetField n v m = Inr m'"
  obtains x where "n = FieldCreatedAt" "v = VTime x" "m' = OrderItemMutation_SetCreatedAt x m"
  | x where "n = FieldUpdatedAt" "v = VTime x" "m' = OrderItemMutation_SetUpdatedAt x m"
  | x where "n = orderitem_FieldProductID" "v = VUUID x" "m' = OrderItemMutation_SetProductID x m"
  | x where "n = orderitem_FieldVariantID" "v = VUUID x" "m' = OrderItemMutation_SetVariantID x m"
  | x where "n = orderitem_FieldProductName" "v = VString x" "m' = OrderItemMutation_SetProductName x m"
  | x where "n = orderitem_FieldVariantDescription" "v = VString x" "m' = OrderItemMutation_SetVariantDescription x m"
  | x where "n = orderitem_FieldUnitPrice" "v = VFloat x" "m' = OrderItemMutation_SetUnitPrice x m"
  | x where "n = orderitem_FieldQuantity" "v = VInt x" "m' = OrderItemMutation_SetQuantity x m"
  | x where "n = orderitem_FieldTotalPrice" "v = VFloat x" "m' = OrderItemMutation_SetTotalPrice x m"
  | x where "n = orderitem_FieldImageURL" "v = VString x" "m' = OrderItemMutation_SetImageURL x m"
  using assms unfolding OrderItemMutation_SetField_def by (elim if_InrE put_InrE Inl_InrE) (rule that; assumption)+

lemma OrderItemMutation_ResetField_cases:
  assumes "OrderItemMutation_ResetField n m = Inr m'"
  obtains "n = FieldCreatedAt" "m' = OrderItemMutation_ResetCreatedAt m"
  | "n = FieldUpdatedAt" "m' = OrderItemMutation_ResetUpdatedAt m"
  | "n = orderitem_FieldProductID" "m' = OrderItemMutation_ResetProductID m"
  | "n = orderitem_FieldVariantID" "m' = OrderItemMutation_ResetVariantID m"
  | "n = orderitem_FieldProductName" "m' = OrderItemMutation_ResetProductName m"
  | "n = orderitem_FieldVariantDescription" "m' = OrderItemMutation_ResetVariantDescription m"
  | "n = orderitem_FieldUnitPrice" "m' = OrderItemMutation_ResetUnitPrice m"
  | "n = orderitem_FieldQuantity" "m' = OrderItemMutation_ResetQuantity m"
  | "n = orderitem_FieldTotalPrice" "m' = OrderItemMutation_ResetTotalPrice m"
  | "n = orderitem_FieldImageURL" "m' = OrderItemMutation_ResetImageURL m"
  using assms unfolding OrderItemMutation_ResetField_def by (elim if_InrE Inr_InrE Inl_InrE) (rule that; assumption)+

lemma OrderItemMutation_Field_cases:
  assumes "OrderItemMutation_Field n m = Some v"
  obtains x where "n = FieldCreatedAt" "v = VTime x"
  | x where "n = FieldUpdatedAt" "v = VTime x"
  | x where "n = orderitem_FieldProductID" "v = VUUID x"
  | x where "n = orderitem_FieldVariantID" "v = VUUID x"
  | x where "n = orderitem_FieldProductName" "v = VString x"
  | x where "n = orderitem_FieldVariantDescription" "v = VString x"
  | x where "n = orderitem_FieldUnitPrice" "v = VFloat x"
  | x where "n = orderitem_FieldQuantity" "v = VInt x"
  | x where "n = orderitem_FieldTotalPrice" "v = VFloat x"
  | x where "n = orderitem_FieldImageURL" "v = VString x"
  using assms unfolding OrderItemMutation_Field_def by (elim if_SomeE map_SomeE None_SomeE) (rule that; assumption)+

lemma OrderItemMutation_ResetField_known: "\<forall>n \<in> set orderitem_schema. \<exists>m'. OrderItemMutation_ResetField n m = Inr m'"
  by (simp add: orderitem_schema_def OrderItemMutation_ResetField_def)

interpretation orderitem_fields: field_access orderitem_schema OrderItemMutation_Field OrderItemMutation_SetField OrderItemMutation_ResetField OrderItemMutation_Fields
proof (unfold_locales, goal_cases)
  case 1
  then show ?case by (simp add: orderitem_schema_def)
next
  case (2 n v m m' k)
  then show ?case by (rule OrderItemMutation_SetField_cases) (simp_all add: OrderItemMutation_Field_Set)
next
  case (3 n v m)
  then show ?case by (simp add: orderitem_schema_def OrderItemMutation_SetField_def)
next
  case (4 n v m m' m2)
  then show ?case by (rule OrderItemMutation_SetField_cases) (simp_all add: OrderItemMutation_SetField_def)
next
  case (5 n m v m2)
  then show ?case by (rule OrderItemMutation_Field_cases) (simp_all add: OrderItemMutation_SetField_def)
next
  case (6 n m m' k)
  then show ?case by (rule OrderItemMutation_ResetField_cases) (simp_all add: OrderItemMutation_Field_Reset)
next
  case (7 n m)
  then show ?case by (rule bspec [OF OrderItemMutation_ResetField_known])
next
  case (8 n m)
  then show ?case by (simp add: orderitem_schema_def OrderItemMutation_ResetField_def)
next
  case (9 m)
  then show ?case by (simp add: orderitem_schema_def OrderItemMutation_Fields_def OrderItemMutation_Field_def ent_defs filter_Cons_append del: filter.simps(2) split del: if_split)
qed

definition outboxevent_schema :: "string list" where
  "outboxevent_schema = [FieldCreatedAt, FieldUpdatedAt, outboxevent_FieldAggregateType, outboxevent_FieldAggregateID, outboxevent_FieldEventType, outboxevent_FieldPayload, outboxevent_FieldProcessed]"

lemma OutboxEventMutation_Field_Set:
  "OutboxEventMutation_Field k (OutboxEventMutation_SetCreatedAt xVTime m) = (if k = FieldCreatedAt then Some (VTime xVTime) else OutboxEventMutation_Field k m)"
  "OutboxEventMutation_Field k (OutboxEventMutation_SetUpdatedAt xVTime m) = (if k = FieldUpdatedAt then Some (VTime xVTime) else OutboxEventMutation_Field k m)"
  "OutboxEventMutation_Field k (OutboxEventMutation_SetAggregateType xVString m) = (if k = outboxevent_FieldAggregateType then Some (VString xVString) else OutboxEventMutation_Field k m)"
  "OutboxEventMutation_Field k (OutboxEventMutation_SetAggregateID xVUUID m) = (if k = outboxevent_FieldAggregateID then Some (VUUID xVUUID) else OutboxEventMutation_Field k m)"
  "OutboxEventMutation_Field k (OutboxEventMutation_SetEventType xVString m) = (if k = outboxevent_FieldEventType then Some (VString xVString) else OutboxEventMutation_Field k m)"
  "OutboxEventMutation_Field k (OutboxEventMutation_SetPayload xVBytes m) = (if k = outboxevent_FieldPayload then Some (VBytes xVBytes) else OutboxEventMutation_Field k m)"
  "OutboxEventMutation_Field k (OutboxEventMutation_SetProcessed xVBool m) = (if k = outboxevent_FieldProcessed then Some (VBool xVBool) else OutboxEventMutation_Field k m)"
  by (simp_all add: OutboxEventMutation_Field_def ent_defs)

lemma OutboxEventMutation_Field_Reset:
  "OutboxEventMutation_Field k (OutboxEventMutation_ResetCreatedAt m) = (if k = FieldCreatedAt then None else OutboxEventMutation_Field k m)"
  "OutboxEventMutation_Field k (OutboxEventMutation_ResetUpdatedAt m) = (if k = FieldUpdatedAt then None else OutboxEventMutation_Field k m)"
  "OutboxEventMutation_Field k (OutboxEventMutation_ResetAggregateType m) = (if k = outboxevent_FieldAggregateType then None else OutboxEventMutation_Field k m)"
  "OutboxEventMutation_Field k (OutboxEventMutation_ResetAggregateID m) = (if k = outboxevent_FieldAggregateID then None else OutboxEventMutation_Field k m)"
  "OutboxEventMutation_Field k (OutboxEventMutation_ResetEventType m) = (if k = outboxevent_FieldEventType then None else OutboxEventMutation_Field k m)"
  "OutboxEventMutation_Field k (OutboxEventMutation_ResetPayload m) = (if k = outboxevent_FieldPayload then None else OutboxEventMutation_Field k m)"
  "OutboxEventMutation_Field k (OutboxEventMutation_ResetProcessed m) = (if k = outboxevent_FieldProcessed then None else OutboxEventMutation_Field k m)"
  by (simp_all add: OutboxEventMutation_Field_def ent_defs)

lemma OutboxEventMutation_SetField_cases:
  assumes "OutboxEventMutation_SetField n v m = Inr m'"
  obtains x where "n = FieldCreatedAt" "v = VTime x" "m' = OutboxEventMutation_SetCreatedAt x m"
  | x where "n = FieldUpdatedAt" "v = VTime x" "m' = OutboxEventMutation_SetUpdatedAt x m"
  | x where "n = outboxevent_FieldAggregateType" "v = VString x" "m' = OutboxEventMutation_SetAggregateType x m"
  | x where "n = outboxevent_FieldAggregateID" "v = VUUID x" "m' = OutboxEventMutation_SetAggregateID x m"
  | x where "n = outboxevent_FieldEventType" "v = VString x" "m' = OutboxEventMutation_SetEventType x m"
  | x where "n = outboxevent_FieldPayload" "v = VBytes x" "m' = OutboxEventMutation_SetPayload x m"
  | x where "n = outboxevent_FieldProcessed" "v = VBool x" "m' = OutboxEventMutation_SetProcessed x m"
  using assms unfolding OutboxEventMutation_SetField_def by (elim if_InrE put_InrE Inl_InrE) (rule that; assumption)+

lemma OutboxEventMutation_ResetField_cases:
  assumes "OutboxEventMutation_ResetField n m = Inr m'"
  obtains "n = FieldCreatedAt" "m' = OutboxEventMutation_ResetCreatedAt m"
  | "n = FieldUpdatedAt" "m' = OutboxEventMutation_ResetUpdatedAt m"
  | "n = outboxevent_FieldAggregateType" "m' = OutboxEventMutation_ResetAggregateType m"
  | "n = outboxevent_FieldAggregateID" "m' = OutboxEventMutation_ResetAggregateID m"
  | "n = outboxevent_FieldEventType" "m' = OutboxEventMutation_ResetEventType m"
  | "n = outboxevent_FieldPayload" "m' = OutboxEventMutation_ResetPayload m"
  | "n = outboxevent_FieldProcessed" "m' = OutboxEventMutation_ResetProcessed m"
  using assms unfolding OutboxEventMutation_ResetField_def by (elim if_InrE Inr_InrE Inl_InrE) (rule that; assumption)+

lemma OutboxEventMutation_Field_cases:
  assumes "OutboxEventMutation_Field n m = Some v"
  obtains x where "n = FieldCreatedAt" "v = VTime x"
  | x where "n = FieldUpdatedAt" "v = VTime x"
  | x where "n = outboxevent_FieldAggregateType" "v = VString x"
  | x where "n = outboxevent_FieldAggregateID" "v = VUUID x"
  | x where "n = outboxevent_FieldEventType" "v = VString x"
  | x where "n = outboxevent_FieldPayload" "v = VBytes x"
  | x where "n = outboxevent_FieldProcessed" "v = VBool x"
  using assms unfolding OutboxEventMutation_Field_def by (elim if_SomeE map_SomeE None_SomeE) (rule that; assumption)+

lemma OutboxEventMutation_ResetField_known: "\<forall>n \<in> set outboxevent_schema. \<exists>m'. OutboxEventMutation_ResetField n m = Inr m'"
  by (simp add: outboxevent_schema_def OutboxEventMutation_ResetField_def)

interpretation outboxevent_fields: field_access outboxevent_schema OutboxEventMutation_Field OutboxEventMutation_SetField OutboxEventMutation_ResetField OutboxEventMutation_Fields
proof (unfold_locales, goal_cases)
  case 1
  then show ?case by (simp add: outboxevent_schema_def)
next
  case (2 n v m m' k)
  then show ?case by (rule OutboxEventMutation_SetField_cases) (simp_all add: OutboxEventMutation_Field_Set)
next
  case (3 n v m)
  then show ?case by (simp add: outboxevent_schema_def OutboxEventMutation_SetField_def)
next
  case (4 n v m m' m2)
  then show ?case by (rule OutboxEventMutation_SetField_cases) (simp_all add: OutboxEventMutation_SetField_def)
next
  case (5 n m v m2)
  then show ?case by (rule OutboxEventMutation_Field_cases) (simp_all add: OutboxEventMutation_SetField_def)
next
  case (6 n m m' k)
  then show ?case by (rule OutboxEventMutation_ResetField_cases) (simp_all add: OutboxEventMutation_Field_Reset)
next
  case (7 n m)
  then show ?case by (rule bspec [OF OutboxEventMutation_ResetField_known])
next
  case (8 n m)
  then show ?case by (simp add: outboxevent_schema_def OutboxEventMutation_ResetField_def)
next
  case (9 m)
  then show ?case by (simp add: outboxevent_schema_def OutboxEventMutation_Fields_def OutboxEventMutation_Field_def ent_defs filter_Cons_append del: filter.simps(2) split del: if_split)
qed

section \<open>Replaying a mutation\<close>

lemma new_mutation_fields:
  "OrderMutation_Field n (newOrderMutation op) = None"
  "OrderItemMutation_Field n (newOrderItemMutation op) = None"
  "OutboxEventMutation_Field n (newOutboxEventMutation op) = None"
  by (simp_all add: OrderMutation_Field_def newOrderMutation_def OrderItemMutation_Field_def newOrderItemMutation_def
      OutboxEventMutation_Field_def newOutboxEventMutation_def ent_defs)

text \<open>
  C37. The access by name that hooks have is complete: setting on a new mutation, one after the
  other, the fields that any mutation lists, each to the value it answers for the name, is never
  refused and gives a mutation that lists the same fields and answers the same value for every
  name. This holds of the mutations of orders, of lines and of events.
\<close>

theorem mutation_replay:
  "(\<exists>o'. assign_fields OrderMutation_SetField (field_values OrderMutation_Field (OrderMutation_Fields om) om) (newOrderMutation op) = Inr o'
      \<and> (\<forall>n. OrderMutation_Field n o' = OrderMutation_Field n om) \<and> OrderMutation_Fields o' = OrderMutation_Fields om)
   \<and> (\<exists>i'. assign_fields OrderItemMutation_SetField (field_values OrderItemMutation_Field (OrderItemMutation_Fields im) im) (newOrderItemMutation op) = Inr i'
      \<and> (\<forall>n. OrderItemMutation_Field n i' = OrderItemMutation_Field n im) \<and> OrderItemMutation_Fields i' = OrderItemMutation_Fields im)
   \<and> (\<exists>b'. assign_fields OutboxEventMutation_SetField (field_values OutboxEventMutation_Field (OutboxEventMutation_Fields bm) bm) (newOutboxEventMutation op) = Inr b'
      \<and> (\<forall>n. OutboxEventMutation_Field n b' = OutboxEventMutation_Field n bm) \<and> OutboxEventMutation_Fields b' = OutboxEventMutation_Fields bm)"
  by (intro conjI order_fields.replay orderitem_fields.replay outboxevent_fields.replay allI new_mutation_fields)

end
