(* ===== verification/EntUpdateMany.thy ===== *)
theory EntUpdateMany
  imports EntUpdate
begin

text \<open>
  The update builders for several entities at once (\<open>OrderUpdate\<close>, \<open>OrderItemUpdate\<close>,
  \<open>OutboxEventUpdate\<close>) and the one for a single line (\<open>OrderItemUpdateOne\<close>). Saving asks
  \<open>sqlgraph\<close> for one statement over all the rows the predicates select and answers how many
  there were.
\<close>

text \<open>The functions of \<open>sqlgraph\<close> that work on several rows.\<close>

record 'd nodes_lib =
  sqlgraph_UpdateNodes :: "driver \<Rightarrow> update_spec \<Rightarrow> 'd \<Rightarrow> 'd \<times> (sql_error + i64)"
  sqlgraph_DeleteNodes :: "driver \<Rightarrow> string \<Rightarrow> sql_pred list \<Rightarrow> 'd \<Rightarrow> 'd \<times> (sql_error + i64)"

subsection \<open>Orders\<close>

record OrderUpdate =
  um_driver :: driver
  um_mutation :: OrderMutation

definition OrderClient_Update :: "driver \<Rightarrow> OrderUpdate" where [ent_defs]:
  "OrderClient_Update drv = \<lparr>um_driver = drv, um_mutation = newOrderMutation OpUpdate\<rparr>"

definition OrderUpdate_Where :: "sql_pred list \<Rightarrow> OrderUpdate \<Rightarrow> OrderUpdate" where [ent_defs]:
  "OrderUpdate_Where ps c = c\<lparr>um_mutation := OrderMutation_Where ps (um_mutation c)\<rparr>"

definition OrderUpdate_SetUpdatedAt :: "time \<Rightarrow> OrderUpdate \<Rightarrow> OrderUpdate" where [ent_defs]:
  "OrderUpdate_SetUpdatedAt v c = c\<lparr>um_mutation := OrderMutation_SetUpdatedAt v (um_mutation c)\<rparr>"

definition OrderUpdate_SetCustomerID :: "uuid \<Rightarrow> OrderUpdate \<Rightarrow> OrderUpdate" where [ent_defs]:
  "OrderUpdate_SetCustomerID v c = c\<lparr>um_mutation := OrderMutation_SetCustomerID v (um_mutation c)\<rparr>"

definition OrderUpdate_SetNillableCustomerID :: "uuid option \<Rightarrow> OrderUpdate \<Rightarrow> OrderUpdate" where [ent_defs]:
  "OrderUpdate_SetNillableCustomerID v c = (case v of Some x \<Rightarrow> OrderUpdate_SetCustomerID x c | None \<Rightarrow> c)"

definition OrderUpdate_SetStatus :: "status \<Rightarrow> OrderUpdate \<Rightarrow> OrderUpdate" where [ent_defs]:
  "OrderUpdate_SetStatus v c = c\<lparr>um_mutation := OrderMutation_SetStatus v (um_mutation c)\<rparr>"

definition OrderUpdate_SetNillableStatus :: "status option \<Rightarrow> OrderUpdate \<Rightarrow> OrderUpdate" where [ent_defs]:
  "OrderUpdate_SetNillableStatus v c = (case v of Some x \<Rightarrow> OrderUpdate_SetStatus x c | None \<Rightarrow> c)"

definition OrderUpdate_SetSubtotal :: "float64 \<Rightarrow> OrderUpdate \<Rightarrow> OrderUpdate" where [ent_defs]:
  "OrderUpdate_SetSubtotal v c =
     c\<lparr>um_mutation := OrderMutation_SetSubtotal v (OrderMutation_ResetSubtotal (um_mutation c))\<rparr>"

definition OrderUpdate_SetNillableSubtotal :: "float64 option \<Rightarrow> OrderUpdate \<Rightarrow> OrderUpdate" where [ent_defs]:
  "OrderUpdate_SetNillableSubtotal v c = (case v of Some x \<Rightarrow> OrderUpdate_SetSubtotal x c | None \<Rightarrow> c)"

definition OrderUpdate_AddSubtotal :: "float64 \<Rightarrow> OrderUpdate \<Rightarrow> OrderUpdate" where [ent_defs]:
  "OrderUpdate_AddSubtotal v c = c\<lparr>um_mutation := OrderMutation_AddSubtotal v (um_mutation c)\<rparr>"

definition OrderUpdate_SetTax :: "float64 \<Rightarrow> OrderUpdate \<Rightarrow> OrderUpdate" where [ent_defs]:
  "OrderUpdate_SetTax v c =
     c\<lparr>um_mutation := OrderMutation_SetTax v (OrderMutation_ResetTax (um_mutation c))\<rparr>"

definition OrderUpdate_SetNillableTax :: "float64 option \<Rightarrow> OrderUpdate \<Rightarrow> OrderUpdate" where [ent_defs]:
  "OrderUpdate_SetNillableTax v c = (case v of Some x \<Rightarrow> OrderUpdate_SetTax x c | None \<Rightarrow> c)"

definition OrderUpdate_AddTax :: "float64 \<Rightarrow> OrderUpdate \<Rightarrow> OrderUpdate" where [ent_defs]:
  "OrderUpdate_AddTax v c = c\<lparr>um_mutation := OrderMutation_AddTax v (um_mutation c)\<rparr>"

definition OrderUpdate_SetShippingCost :: "float64 \<Rightarrow> OrderUpdate \<Rightarrow> OrderUpdate" where [ent_defs]:
  "OrderUpdate_SetShippingCost v c =
     c\<lparr>um_mutation := OrderMutation_SetShippingCost v (OrderMutation_ResetShippingCost (um_mutation c))\<rparr>"

definition OrderUpdate_SetNillableShippingCost :: "float64 option \<Rightarrow> OrderUpdate \<Rightarrow> OrderUpdate" where [ent_defs]:
  "OrderUpdate_SetNillableShippingCost v c = (case v of Some x \<Rightarrow> OrderUpdate_SetShippingCost x c | None \<Rightarrow> c)"

definition OrderUpdate_AddShippingCost :: "float64 \<Rightarrow> OrderUpdate \<Rightarrow> OrderUpdate" where [ent_defs]:
  "OrderUpdate_AddShippingCost v c = c\<lparr>um_mutation := OrderMutation_AddShippingCost v (um_mutation c)\<rparr>"

definition OrderUpdate_SetTotal :: "float64 \<Rightarrow> OrderUpdate \<Rightarrow> OrderUpdate" where [ent_defs]:
  "OrderUpdate_SetTotal v c =
     c\<lparr>um_mutation := OrderMutation_SetTotal v (OrderMutation_ResetTotal (um_mutation c))\<rparr>"

definition OrderUpdate_SetNillableTotal :: "float64 option \<Rightarrow> OrderUpdate \<Rightarrow> OrderUpdate" where [ent_defs]:
  "OrderUpdate_SetNillableTotal v c = (case v of Some x \<Rightarrow> OrderUpdate_SetTotal x c | None \<Rightarrow> c)"

definition OrderUpdate_AddTotal :: "float64 \<Rightarrow> OrderUpdate \<Rightarrow> OrderUpdate" where [ent_defs]:
  "OrderUpdate_AddTotal v c = c\<lparr>um_mutation := OrderMutation_AddTotal v (um_mutation c)\<rparr>"

definition OrderUpdate_SetShippingAddress :: "string \<Rightarrow> OrderUpdate \<Rightarrow> OrderUpdate" where [ent_defs]:
  "OrderUpdate_SetShippingAddress v c = c\<lparr>um_mutation := OrderMutation_SetShippingAddress v (um_mutation c)\<rparr>"

definition OrderUpdate_SetNillableShippingAddress :: "string option \<Rightarrow> OrderUpdate \<Rightarrow> OrderUpdate" where [ent_defs]:
  "OrderUpdate_SetNillableShippingAddress v c = (case v of Some x \<Rightarrow> OrderUpdate_SetShippingAddress x c | None \<Rightarrow> c)"

definition OrderUpdate_SetBillingAddress :: "string \<Rightarrow> OrderUpdate \<Rightarrow> OrderUpdate" where [ent_defs]:
  "OrderUpdate_SetBillingAddress v c = c\<lparr>um_mutation := OrderMutation_SetBillingAddress v (um_mutation c)\<rparr>"

definition OrderUpdate_SetNillableBillingAddress :: "string option \<Rightarrow> OrderUpdate \<Rightarrow> OrderUpdate" where [ent_defs]:
  "OrderUpdate_SetNillableBillingAddress v c = (case v of Some x \<Rightarrow> OrderUpdate_SetBillingAddress x c | None \<Rightarrow> c)"

definition OrderUpdate_SetErrorMessage :: "string \<Rightarrow> OrderUpdate \<Rightarrow> OrderUpdate" where [ent_defs]:
  "OrderUpdate_SetErrorMessage v c = c\<lparr>um_mutation := OrderMutation_SetErrorMessage v (um_mutation c)\<rparr>"

definition OrderUpdate_SetNillableErrorMessage :: "string option \<Rightarrow> OrderUpdate \<Rightarrow> OrderUpdate" where [ent_defs]:
  "OrderUpdate_SetNillableErrorMessage v c = (case v of Some x \<Rightarrow> OrderUpdate_SetErrorMessage x c | None \<Rightarrow> c)"

definition OrderUpdate_ClearErrorMessage :: "OrderUpdate \<Rightarrow> OrderUpdate" where [ent_defs]:
  "OrderUpdate_ClearErrorMessage c = c\<lparr>um_mutation := OrderMutation_ClearErrorMessage (um_mutation c)\<rparr>"

definition OrderUpdate_AddItemIDs :: "uuid list \<Rightarrow> OrderUpdate \<Rightarrow> OrderUpdate" where [ent_defs]:
  "OrderUpdate_AddItemIDs ids c = c\<lparr>um_mutation := OrderMutation_AddItemIDs ids (um_mutation c)\<rparr>"

definition OrderUpdate_AddItems :: "OrderItem list \<Rightarrow> OrderUpdate \<Rightarrow> OrderUpdate" where [ent_defs]:
  "OrderUpdate_AddItems v c = OrderUpdate_AddItemIDs (map oi_ID v) c"

definition OrderUpdate_ClearItems :: "OrderUpdate \<Rightarrow> OrderUpdate" where [ent_defs]:
  "OrderUpdate_ClearItems c = c\<lparr>um_mutation := OrderMutation_ClearItems (um_mutation c)\<rparr>"

definition OrderUpdate_RemoveItemIDs :: "uuid list \<Rightarrow> OrderUpdate \<Rightarrow> OrderUpdate" where [ent_defs]:
  "OrderUpdate_RemoveItemIDs ids c = c\<lparr>um_mutation := OrderMutation_RemoveItemIDs ids (um_mutation c)\<rparr>"

definition OrderUpdate_RemoveItems :: "OrderItem list \<Rightarrow> OrderUpdate \<Rightarrow> OrderUpdate" where [ent_defs]:
  "OrderUpdate_RemoveItems v c = OrderUpdate_RemoveItemIDs (map oi_ID v) c"

definition OrderUpdate_defaults :: "('d, 'z) lib_scheme \<Rightarrow> OrderUpdate \<Rightarrow> 'd \<Rightarrow> 'd \<times> OrderUpdate" where
  "OrderUpdate_defaults L u d =
     (case OrderMutation_UpdatedAt (um_mutation u) of
        Some _ \<Rightarrow> (d, u)
      | None \<Rightarrow>
          let (d, v) = time_Now L d in
          (d, u\<lparr>um_mutation := OrderMutation_SetUpdatedAt v (um_mutation u)\<rparr>))"

definition OrderUpdate_check :: "('d, 'z) lib_scheme \<Rightarrow> OrderUpdate \<Rightarrow> ent_error + unit" where
  "OrderUpdate_check L u =
     (let m = um_mutation u in
      if fails StatusValidator (OrderMutation_Status m) then
        Inl (ValidationError ''status'' (ValidatorFailed ''Order.status''))
      else if fails (order_SubtotalValidator L) (OrderMutation_Subtotal m) then
        Inl (ValidationError ''subtotal'' (ValidatorFailed ''Order.subtotal''))
      else if fails (order_TaxValidator L) (OrderMutation_Tax m) then
        Inl (ValidationError ''tax'' (ValidatorFailed ''Order.tax''))
      else if fails (order_ShippingCostValidator L) (OrderMutation_ShippingCost m) then
        Inl (ValidationError ''shipping_cost'' (ValidatorFailed ''Order.shipping_cost''))
      else if fails (order_TotalValidator L) (OrderMutation_Total m) then
        Inl (ValidationError ''total'' (ValidatorFailed ''Order.total''))
      else Inr ())"

definition OrderUpdate_updateSpec :: "OrderUpdate \<Rightarrow> update_spec" where
  \<comment> \<open>no id, and neither \<open>Assign\<close> nor \<open>ScanValues\<close>: those stay nil and are not called\<close>
  "OrderUpdate_updateSpec u =
     (let m = um_mutation u in
       \<lparr>us_Table = order_Table, us_Columns = order_Columns, us_ID = None,
        us_Predicates = om_predicates m,
        us_Set =
          spec_field FieldUpdatedAt VTime (OrderMutation_UpdatedAt m)
          @ spec_field order_FieldCustomerID VUUID (OrderMutation_CustomerID m)
          @ spec_field order_FieldStatus VStatus (OrderMutation_Status m)
          @ spec_field order_FieldSubtotal VFloat (OrderMutation_Subtotal m)
          @ spec_field order_FieldTax VFloat (OrderMutation_Tax m)
          @ spec_field order_FieldShippingCost VFloat (OrderMutation_ShippingCost m)
          @ spec_field order_FieldTotal VFloat (OrderMutation_Total m)
          @ spec_field order_FieldShippingAddress VString (OrderMutation_ShippingAddress m)
          @ spec_field order_FieldBillingAddress VString (OrderMutation_BillingAddress m)
          @ spec_field order_FieldErrorMessage VString (OrderMutation_ErrorMessage m),
        us_Add =
          spec_field order_FieldSubtotal VFloat (OrderMutation_AddedSubtotal m)
          @ spec_field order_FieldTax VFloat (OrderMutation_AddedTax m)
          @ spec_field order_FieldShippingCost VFloat (OrderMutation_AddedShippingCost m)
          @ spec_field order_FieldTotal VFloat (OrderMutation_AddedTotal m),
        us_Clear = (if OrderMutation_ErrorMessageCleared m then [order_FieldErrorMessage] else []),
        us_EdgesClear =
          (if OrderMutation_ItemsCleared m
           then [\<lparr>es_Rel = O2M, es_Inverse = False, es_Table = order_ItemsTable,
                es_Columns = [order_ItemsColumn], es_Nodes = []\<rparr>] else [])
          @ (if OrderMutation_RemovedItemsIDs m \<noteq> [] \<and> \<not> OrderMutation_ItemsCleared m
             then [\<lparr>es_Rel = O2M, es_Inverse = False, es_Table = order_ItemsTable,
                es_Columns = [order_ItemsColumn], es_Nodes = OrderMutation_RemovedItemsIDs m\<rparr>] else []),
        us_EdgesAdd =
          (if OrderMutation_ItemsIDs m \<noteq> []
           then [\<lparr>es_Rel = O2M, es_Inverse = False, es_Table = order_ItemsTable,
                es_Columns = [order_ItemsColumn], es_Nodes = OrderMutation_ItemsIDs m\<rparr>] else []),
        us_ScanValues = (\<lambda>_. []), us_Assign = (\<lambda>_ _. None)\<rparr>)"

definition OrderUpdate_sqlSave :: "('d, 'z) lib_scheme \<Rightarrow> 'd nodes_lib \<Rightarrow> OrderUpdate \<Rightarrow> 'd \<Rightarrow> 'd \<times> (ent_error + i64)" where
  "OrderUpdate_sqlSave L N u d =
     (case OrderUpdate_check L u of
        Inl e \<Rightarrow> (d, Inl e)
      | Inr _ \<Rightarrow>
          (case sqlgraph_UpdateNodes N (um_driver u) (OrderUpdate_updateSpec u) d of
             (d, Inl e) \<Rightarrow> (d, Inl (update_error order_Label (SqlError e)))
           | (d, Inr n) \<Rightarrow> (d, Inr n)))"

definition OrderUpdate_Save :: "('d, 'z) lib_scheme \<Rightarrow> 'd nodes_lib \<Rightarrow> OrderUpdate \<Rightarrow> 'd \<Rightarrow> 'd \<times> (ent_error + i64)" where
  "OrderUpdate_Save L N u d = (let (d, u) = OrderUpdate_defaults L u d in OrderUpdate_sqlSave L N u d)"

definition OrderUpdate_Exec :: "('d, 'z) lib_scheme \<Rightarrow> 'd nodes_lib \<Rightarrow> OrderUpdate \<Rightarrow> 'd \<Rightarrow> 'd \<times> ent_error option" where
  "OrderUpdate_Exec L N u d = (case OrderUpdate_Save L N u d of (d, Inl e) \<Rightarrow> (d, Some e) | (d, Inr _) \<Rightarrow> (d, None))"

subsection \<open>Lines\<close>

record OrderItemUpdate =
  vm_driver :: driver
  vm_mutation :: OrderItemMutation

definition OrderItemClient_Update :: "driver \<Rightarrow> OrderItemUpdate" where [ent_defs]:
  "OrderItemClient_Update drv = \<lparr>vm_driver = drv, vm_mutation = newOrderItemMutation OpUpdate\<rparr>"

definition OrderItemUpdate_Where :: "sql_pred list \<Rightarrow> OrderItemUpdate \<Rightarrow> OrderItemUpdate" where [ent_defs]:
  "OrderItemUpdate_Where ps c = c\<lparr>vm_mutation := OrderItemMutation_Where ps (vm_mutation c)\<rparr>"

definition OrderItemUpdate_SetUpdatedAt :: "time \<Rightarrow> OrderItemUpdate \<Rightarrow> OrderItemUpdate" where [ent_defs]:
  "OrderItemUpdate_SetUpdatedAt v c = c\<lparr>vm_mutation := OrderItemMutation_SetUpdatedAt v (vm_mutation c)\<rparr>"

definition OrderItemUpdate_SetProductID :: "uuid \<Rightarrow> OrderItemUpdate \<Rightarrow> OrderItemUpdate" where [ent_defs]:
  "OrderItemUpdate_SetProductID v c = c\<lparr>vm_mutation := OrderItemMutation_SetProductID v (vm_mutation c)\<rparr>"

definition OrderItemUpdate_SetNillableProductID :: "uuid option \<Rightarrow> OrderItemUpdate \<Rightarrow> OrderItemUpdate" where [ent_defs]:
  "OrderItemUpdate_SetNillableProductID v c = (case v of Some x \<Rightarrow> OrderItemUpdate_SetProductID x c | None \<Rightarrow> c)"

definition OrderItemUpdate_SetVariantID :: "uuid \<Rightarrow> OrderItemUpdate \<Rightarrow> OrderItemUpdate" where [ent_defs]:
  "OrderItemUpdate_SetVariantID v c = c\<lparr>vm_mutation := OrderItemMutation_SetVariantID v (vm_mutation c)\<rparr>"

definition OrderItemUpdate_SetNillableVariantID :: "uuid option \<Rightarrow> OrderItemUpdate \<Rightarrow> OrderItemUpdate" where [ent_defs]:
  "OrderItemUpdate_SetNillableVariantID v c = (case v of Some x \<Rightarrow> OrderItemUpdate_SetVariantID x c | None \<Rightarrow> c)"

definition OrderItemUpdate_SetProductName :: "string \<Rightarrow> OrderItemUpdate \<Rightarrow> OrderItemUpdate" where [ent_defs]:
  "OrderItemUpdate_SetProductName v c = c\<lparr>vm_mutation := OrderItemMutation_SetProductName v (vm_mutation c)\<rparr>"

definition OrderItemUpdate_SetNillableProductName :: "string option \<Rightarrow> OrderItemUpdate \<Rightarrow> OrderItemUpdate" where [ent_defs]:
  "OrderItemUpdate_SetNillableProductName v c = (case v of Some x \<Rightarrow> OrderItemUpdate_SetProductName x c | None \<Rightarrow> c)"

definition OrderItemUpdate_SetVariantDescription :: "string \<Rightarrow> OrderItemUpdate \<Rightarrow> OrderItemUpdate" where [ent_defs]:
  "OrderItemUpdate_SetVariantDescription v c = c\<lparr>vm_mutation := OrderItemMutation_SetVariantDescription v (vm_mutation c)\<rparr>"

definition OrderItemUpdate_SetNillableVariantDescription :: "string option \<Rightarrow> OrderItemUpdate \<Rightarrow> OrderItemUpdate" where [ent_defs]:
  "OrderItemUpdate_SetNillableVariantDescription v c = (case v of Some x \<Rightarrow> OrderItemUpdate_SetVariantDescription x c | None \<Rightarrow> c)"

definition OrderItemUpdate_ClearVariantDescription :: "OrderItemUpdate \<Rightarrow> OrderItemUpdate" where [ent_defs]:
  "OrderItemUpdate_ClearVariantDescription c = c\<lparr>vm_mutation := OrderItemMutation_ClearVariantDescription (vm_mutation c)\<rparr>"

definition OrderItemUpdate_SetUnitPrice :: "float64 \<Rightarrow> OrderItemUpdate \<Rightarrow> OrderItemUpdate" where [ent_defs]:
  "OrderItemUpdate_SetUnitPrice v c =
     c\<lparr>vm_mutation := OrderItemMutation_SetUnitPrice v (OrderItemMutation_ResetUnitPrice (vm_mutation c))\<rparr>"

definition OrderItemUpdate_SetNillableUnitPrice :: "float64 option \<Rightarrow> OrderItemUpdate \<Rightarrow> OrderItemUpdate" where [ent_defs]:
  "OrderItemUpdate_SetNillableUnitPrice v c = (case v of Some x \<Rightarrow> OrderItemUpdate_SetUnitPrice x c | None \<Rightarrow> c)"

definition OrderItemUpdate_AddUnitPrice :: "float64 \<Rightarrow> OrderItemUpdate \<Rightarrow> OrderItemUpdate" where [ent_defs]:
  "OrderItemUpdate_AddUnitPrice v c = c\<lparr>vm_mutation := OrderItemMutation_AddUnitPrice v (vm_mutation c)\<rparr>"

definition OrderItemUpdate_SetQuantity :: "i64 \<Rightarrow> OrderItemUpdate \<Rightarrow> OrderItemUpdate" where [ent_defs]:
  "OrderItemUpdate_SetQuantity v c =
     c\<lparr>vm_mutation := OrderItemMutation_SetQuantity v (OrderItemMutation_ResetQuantity (vm_mutation c))\<rparr>"

definition OrderItemUpdate_SetNillableQuantity :: "i64 option \<Rightarrow> OrderItemUpdate \<Rightarrow> OrderItemUpdate" where [ent_defs]:
  "OrderItemUpdate_SetNillableQuantity v c = (case v of Some x \<Rightarrow> OrderItemUpdate_SetQuantity x c | None \<Rightarrow> c)"

definition OrderItemUpdate_AddQuantity :: "i64 \<Rightarrow> OrderItemUpdate \<Rightarrow> OrderItemUpdate" where [ent_defs]:
  "OrderItemUpdate_AddQuantity v c = c\<lparr>vm_mutation := OrderItemMutation_AddQuantity v (vm_mutation c)\<rparr>"

definition OrderItemUpdate_SetTotalPrice :: "float64 \<Rightarrow> OrderItemUpdate \<Rightarrow> OrderItemUpdate" where [ent_defs]:
  "OrderItemUpdate_SetTotalPrice v c =
     c\<lparr>vm_mutation := OrderItemMutation_SetTotalPrice v (OrderItemMutation_ResetTotalPrice (vm_mutation c))\<rparr>"

definition OrderItemUpdate_SetNillableTotalPrice :: "float64 option \<Rightarrow> OrderItemUpdate \<Rightarrow> OrderItemUpdate" where [ent_defs]:
  "OrderItemUpdate_SetNillableTotalPrice v c = (case v of Some x \<Rightarrow> OrderItemUpdate_SetTotalPrice x c | None \<Rightarrow> c)"

definition OrderItemUpdate_AddTotalPrice :: "float64 \<Rightarrow> OrderItemUpdate \<Rightarrow> OrderItemUpdate" where [ent_defs]:
  "OrderItemUpdate_AddTotalPrice v c = c\<lparr>vm_mutation := OrderItemMutation_AddTotalPrice v (vm_mutation c)\<rparr>"

definition OrderItemUpdate_SetImageURL :: "string \<Rightarrow> OrderItemUpdate \<Rightarrow> OrderItemUpdate" where [ent_defs]:
  "OrderItemUpdate_SetImageURL v c = c\<lparr>vm_mutation := OrderItemMutation_SetImageURL v (vm_mutation c)\<rparr>"

definition OrderItemUpdate_SetNillableImageURL :: "string option \<Rightarrow> OrderItemUpdate \<Rightarrow> OrderItemUpdate" where [ent_defs]:
  "OrderItemUpdate_SetNillableImageURL v c = (case v of Some x \<Rightarrow> OrderItemUpdate_SetImageURL x c | None \<Rightarrow> c)"

definition OrderItemUpdate_ClearImageURL :: "OrderItemUpdate \<Rightarrow> OrderItemUpdate" where [ent_defs]:
  "OrderItemUpdate_ClearImageURL c = c\<lparr>vm_mutation := OrderItemMutation_ClearImageURL (vm_mutation c)\<rparr>"

definition OrderItemUpdate_SetOrderID :: "uuid \<Rightarrow> OrderItemUpdate \<Rightarrow> OrderItemUpdate" where [ent_defs]:
  "OrderItemUpdate_SetOrderID v c = c\<lparr>vm_mutation := OrderItemMutation_SetOrderID v (vm_mutation c)\<rparr>"

definition OrderItemUpdate_SetOrder :: "Order \<Rightarrow> OrderItemUpdate \<Rightarrow> OrderItemUpdate" where [ent_defs]:
  "OrderItemUpdate_SetOrder v c = OrderItemUpdate_SetOrderID (o_ID v) c"

definition OrderItemUpdate_ClearOrder :: "OrderItemUpdate \<Rightarrow> OrderItemUpdate" where [ent_defs]:
  "OrderItemUpdate_ClearOrder c = c\<lparr>vm_mutation := OrderItemMutation_ClearOrder (vm_mutation c)\<rparr>"

definition OrderItemUpdate_defaults :: "('d, 'z) lib_scheme \<Rightarrow> OrderItemUpdate \<Rightarrow> 'd \<Rightarrow> 'd \<times> OrderItemUpdate" where
  "OrderItemUpdate_defaults L u d =
     (case OrderItemMutation_UpdatedAt (vm_mutation u) of
        Some _ \<Rightarrow> (d, u)
      | None \<Rightarrow>
          let (d, v) = time_Now L d in
          (d, u\<lparr>vm_mutation := OrderItemMutation_SetUpdatedAt v (vm_mutation u)\<rparr>))"

definition OrderItemUpdate_check :: "('d, 'z) lib_scheme \<Rightarrow> OrderItemUpdate \<Rightarrow> ent_error + unit" where
  "OrderItemUpdate_check L u =
     (let m = vm_mutation u in
      if fails (orderitem_ProductNameValidator L) (OrderItemMutation_ProductName m) then
        Inl (ValidationError ''product_name'' (ValidatorFailed ''OrderItem.product_name''))
      else if fails (orderitem_UnitPriceValidator L) (OrderItemMutation_UnitPrice m) then
        Inl (ValidationError ''unit_price'' (ValidatorFailed ''OrderItem.unit_price''))
      else if fails (orderitem_QuantityValidator L) (OrderItemMutation_Quantity m) then
        Inl (ValidationError ''quantity'' (ValidatorFailed ''OrderItem.quantity''))
      else if fails (orderitem_TotalPriceValidator L) (OrderItemMutation_TotalPrice m) then
        Inl (ValidationError ''total_price'' (ValidatorFailed ''OrderItem.total_price''))
      else if OrderItemMutation_OrderCleared m \<and> OrderItemMutation_OrderIDs m \<noteq> [] then
        Inl (ClearingRequiredEdge ''OrderItem.order'')
      else Inr ())"

definition OrderItemUpdate_updateSpec :: "OrderItemUpdate \<Rightarrow> update_spec" where
  \<comment> \<open>no id, and neither \<open>Assign\<close> nor \<open>ScanValues\<close>: those stay nil and are not called\<close>
  "OrderItemUpdate_updateSpec u =
     (let m = vm_mutation u in
       \<lparr>us_Table = orderitem_Table, us_Columns = orderitem_Columns, us_ID = None,
        us_Predicates = im_predicates m,
        us_Set =
          spec_field FieldUpdatedAt VTime (OrderItemMutation_UpdatedAt m)
          @ spec_field orderitem_FieldProductID VUUID (OrderItemMutation_ProductID m)
          @ spec_field orderitem_FieldVariantID VUUID (OrderItemMutation_VariantID m)
          @ spec_field orderitem_FieldProductName VString (OrderItemMutation_ProductName m)
          @ spec_field orderitem_FieldVariantDescription VString (OrderItemMutation_VariantDescription m)
          @ spec_field orderitem_FieldUnitPrice VFloat (OrderItemMutation_UnitPrice m)
          @ spec_field orderitem_FieldQuantity VInt (OrderItemMutation_Quantity m)
          @ spec_field orderitem_FieldTotalPrice VFloat (OrderItemMutation_TotalPrice m)
          @ spec_field orderitem_FieldImageURL VString (OrderItemMutation_ImageURL m),
        us_Add =
          spec_field orderitem_FieldUnitPrice VFloat (OrderItemMutation_AddedUnitPrice m)
          @ spec_field orderitem_FieldQuantity VInt (OrderItemMutation_AddedQuantity m)
          @ spec_field orderitem_FieldTotalPrice VFloat (OrderItemMutation_AddedTotalPrice m),
        us_Clear = (if OrderItemMutation_VariantDescriptionCleared m then [orderitem_FieldVariantDescription] else [])
          @ (if OrderItemMutation_ImageURLCleared m then [orderitem_FieldImageURL] else []),
        us_EdgesClear =
          (if OrderItemMutation_OrderCleared m
           then [\<lparr>es_Rel = M2O, es_Inverse = True, es_Table = orderitem_OrderTable,
                es_Columns = [orderitem_OrderColumn], es_Nodes = []\<rparr>] else []),
        us_EdgesAdd =
          (if OrderItemMutation_OrderIDs m \<noteq> []
           then [\<lparr>es_Rel = M2O, es_Inverse = True, es_Table = orderitem_OrderTable,
                es_Columns = [orderitem_OrderColumn], es_Nodes = OrderItemMutation_OrderIDs m\<rparr>] else []),
        us_ScanValues = (\<lambda>_. []), us_Assign = (\<lambda>_ _. None)\<rparr>)"

definition OrderItemUpdate_sqlSave :: "('d, 'z) lib_scheme \<Rightarrow> 'd nodes_lib \<Rightarrow> OrderItemUpdate \<Rightarrow> 'd \<Rightarrow> 'd \<times> (ent_error + i64)" where
  "OrderItemUpdate_sqlSave L N u d =
     (case OrderItemUpdate_check L u of
        Inl e \<Rightarrow> (d, Inl e)
      | Inr _ \<Rightarrow>
          (case sqlgraph_UpdateNodes N (vm_driver u) (OrderItemUpdate_updateSpec u) d of
             (d, Inl e) \<Rightarrow> (d, Inl (update_error orderitem_Label (SqlError e)))
           | (d, Inr n) \<Rightarrow> (d, Inr n)))"

definition OrderItemUpdate_Save :: "('d, 'z) lib_scheme \<Rightarrow> 'd nodes_lib \<Rightarrow> OrderItemUpdate \<Rightarrow> 'd \<Rightarrow> 'd \<times> (ent_error + i64)" where
  "OrderItemUpdate_Save L N u d = (let (d, u) = OrderItemUpdate_defaults L u d in OrderItemUpdate_sqlSave L N u d)"

definition OrderItemUpdate_Exec :: "('d, 'z) lib_scheme \<Rightarrow> 'd nodes_lib \<Rightarrow> OrderItemUpdate \<Rightarrow> 'd \<Rightarrow> 'd \<times> ent_error option" where
  "OrderItemUpdate_Exec L N u d = (case OrderItemUpdate_Save L N u d of (d, Inl e) \<Rightarrow> (d, Some e) | (d, Inr _) \<Rightarrow> (d, None))"

record OrderItemUpdateOne =
  iu_driver :: driver
  iu_fields :: "string list"
  iu_mutation :: OrderItemMutation

definition OrderItemClient_UpdateOneID :: "driver \<Rightarrow> uuid \<Rightarrow> OrderItemUpdateOne" where [ent_defs]:
  "OrderItemClient_UpdateOneID drv i =
     \<lparr>iu_driver = drv, iu_fields = [],
      iu_mutation = withOrderItemID i (newOrderItemMutation OpUpdateOne)\<rparr>"

definition OrderItemClient_UpdateOne :: "driver \<Rightarrow> OrderItem \<Rightarrow> OrderItemUpdateOne" where [ent_defs]:
  "OrderItemClient_UpdateOne drv m =
     \<lparr>iu_driver = drv, iu_fields = [],
      iu_mutation = withOrderItem m (newOrderItemMutation OpUpdateOne)\<rparr>"

definition OrderItemUpdateOne_SetUpdatedAt :: "time \<Rightarrow> OrderItemUpdateOne \<Rightarrow> OrderItemUpdateOne" where [ent_defs]:
  "OrderItemUpdateOne_SetUpdatedAt v c = c\<lparr>iu_mutation := OrderItemMutation_SetUpdatedAt v (iu_mutation c)\<rparr>"

definition OrderItemUpdateOne_SetProductID :: "uuid \<Rightarrow> OrderItemUpdateOne \<Rightarrow> OrderItemUpdateOne" where [ent_defs]:
  "OrderItemUpdateOne_SetProductID v c = c\<lparr>iu_mutation := OrderItemMutation_SetProductID v (iu_mutation c)\<rparr>"

definition OrderItemUpdateOne_SetNillableProductID :: "uuid option \<Rightarrow> OrderItemUpdateOne \<Rightarrow> OrderItemUpdateOne" where [ent_defs]:
  "OrderItemUpdateOne_SetNillableProductID v c = (case v of Some x \<Rightarrow> OrderItemUpdateOne_SetProductID x c | None \<Rightarrow> c)"

definition OrderItemUpdateOne_SetVariantID :: "uuid \<Rightarrow> OrderItemUpdateOne \<Rightarrow> OrderItemUpdateOne" where [ent_defs]:
  "OrderItemUpdateOne_SetVariantID v c = c\<lparr>iu_mutation := OrderItemMutation_SetVariantID v (iu_mutation c)\<rparr>"

definition OrderItemUpdateOne_SetNillableVariantID :: "uuid option \<Rightarrow> OrderItemUpdateOne \<Rightarrow> OrderItemUpdateOne" where [ent_defs]:
  "OrderItemUpdateOne_SetNillableVariantID v c = (case v of Some x \<Rightarrow> OrderItemUpdateOne_SetVariantID x c | None \<Rightarrow> c)"

definition OrderItemUpdateOne_SetProductName :: "string \<Rightarrow> OrderItemUpdateOne \<Rightarrow> OrderItemUpdateOne" where [ent_defs]:
  "OrderItemUpdateOne_SetProductName v c = c\<lparr>iu_mutation := OrderItemMutation_SetProductName v (iu_mutation c)\<rparr>"

definition OrderItemUpdateOne_SetNillableProductName :: "string option \<Rightarrow> OrderItemUpdateOne \<Rightarrow> OrderItemUpdateOne" where [ent_defs]:
  "OrderItemUpdateOne_SetNillableProductName v c = (case v of Some x \<Rightarrow> OrderItemUpdateOne_SetProductName x c | None \<Rightarrow> c)"

definition OrderItemUpdateOne_SetVariantDescription :: "string \<Rightarrow> OrderItemUpdateOne \<Rightarrow> OrderItemUpdateOne" where [ent_defs]:
  "OrderItemUpdateOne_SetVariantDescription v c = c\<lparr>iu_mutation := OrderItemMutation_SetVariantDescription v (iu_mutation c)\<rparr>"

definition OrderItemUpdateOne_SetNillableVariantDescription :: "string option \<Rightarrow> OrderItemUpdateOne \<Rightarrow> OrderItemUpdateOne" where [ent_defs]:
  "OrderItemUpdateOne_SetNillableVariantDescription v c = (case v of Some x \<Rightarrow> OrderItemUpdateOne_SetVariantDescription x c | None \<Rightarrow> c)"

definition OrderItemUpdateOne_ClearVariantDescription :: "OrderItemUpdateOne \<Rightarrow> OrderItemUpdateOne" where [ent_defs]:
  "OrderItemUpdateOne_ClearVariantDescription c = c\<lparr>iu_mutation := OrderItemMutation_ClearVariantDescription (iu_mutation c)\<rparr>"

definition OrderItemUpdateOne_SetUnitPrice :: "float64 \<Rightarrow> OrderItemUpdateOne \<Rightarrow> OrderItemUpdateOne" where [ent_defs]:
  "OrderItemUpdateOne_SetUnitPrice v c =
     c\<lparr>iu_mutation := OrderItemMutation_SetUnitPrice v (OrderItemMutation_ResetUnitPrice (iu_mutation c))\<rparr>"

definition OrderItemUpdateOne_SetNillableUnitPrice :: "float64 option \<Rightarrow> OrderItemUpdateOne \<Rightarrow> OrderItemUpdateOne" where [ent_defs]:
  "OrderItemUpdateOne_SetNillableUnitPrice v c = (case v of Some x \<Rightarrow> OrderItemUpdateOne_SetUnitPrice x c | None \<Rightarrow> c)"

definition OrderItemUpdateOne_AddUnitPrice :: "float64 \<Rightarrow> OrderItemUpdateOne \<Rightarrow> OrderItemUpdateOne" where [ent_defs]:
  "OrderItemUpdateOne_AddUnitPrice v c = c\<lparr>iu_mutation := OrderItemMutation_AddUnitPrice v (iu_mutation c)\<rparr>"

definition OrderItemUpdateOne_SetQuantity :: "i64 \<Rightarrow> OrderItemUpdateOne \<Rightarrow> OrderItemUpdateOne" where [ent_defs]:
  "OrderItemUpdateOne_SetQuantity v c =
     c\<lparr>iu_mutation := OrderItemMutation_SetQuantity v (OrderItemMutation_ResetQuantity (iu_mutation c))\<rparr>"

definition OrderItemUpdateOne_SetNillableQuantity :: "i64 option \<Rightarrow> OrderItemUpdateOne \<Rightarrow> OrderItemUpdateOne" where [ent_defs]:
  "OrderItemUpdateOne_SetNillableQuantity v c = (case v of Some x \<Rightarrow> OrderItemUpdateOne_SetQuantity x c | None \<Rightarrow> c)"

definition OrderItemUpdateOne_AddQuantity :: "i64 \<Rightarrow> OrderItemUpdateOne \<Rightarrow> OrderItemUpdateOne" where [ent_defs]:
  "OrderItemUpdateOne_AddQuantity v c = c\<lparr>iu_mutation := OrderItemMutation_AddQuantity v (iu_mutation c)\<rparr>"

definition OrderItemUpdateOne_SetTotalPrice :: "float64 \<Rightarrow> OrderItemUpdateOne \<Rightarrow> OrderItemUpdateOne" where [ent_defs]:
  "OrderItemUpdateOne_SetTotalPrice v c =
     c\<lparr>iu_mutation := OrderItemMutation_SetTotalPrice v (OrderItemMutation_ResetTotalPrice (iu_mutation c))\<rparr>"

definition OrderItemUpdateOne_SetNillableTotalPrice :: "float64 option \<Rightarrow> OrderItemUpdateOne \<Rightarrow> OrderItemUpdateOne" where [ent_defs]:
  "OrderItemUpdateOne_SetNillableTotalPrice v c = (case v of Some x \<Rightarrow> OrderItemUpdateOne_SetTotalPrice x c | None \<Rightarrow> c)"

definition OrderItemUpdateOne_AddTotalPrice :: "float64 \<Rightarrow> OrderItemUpdateOne \<Rightarrow> OrderItemUpdateOne" where [ent_defs]:
  "OrderItemUpdateOne_AddTotalPrice v c = c\<lparr>iu_mutation := OrderItemMutation_AddTotalPrice v (iu_mutation c)\<rparr>"

definition OrderItemUpdateOne_SetImageURL :: "string \<Rightarrow> OrderItemUpdateOne \<Rightarrow> OrderItemUpdateOne" where [ent_defs]:
  "OrderItemUpdateOne_SetImageURL v c = c\<lparr>iu_mutation := OrderItemMutation_SetImageURL v (iu_mutation c)\<rparr>"

definition OrderItemUpdateOne_SetNillableImageURL :: "string option \<Rightarrow> OrderItemUpdateOne \<Rightarrow> OrderItemUpdateOne" where [ent_defs]:
  "OrderItemUpdateOne_SetNillableImageURL v c = (case v of Some x \<Rightarrow> OrderItemUpdateOne_SetImageURL x c | None \<Rightarrow> c)"

definition OrderItemUpdateOne_ClearImageURL :: "OrderItemUpdateOne \<Rightarrow> OrderItemUpdateOne" where [ent_defs]:
  "OrderItemUpdateOne_ClearImageURL c = c\<lparr>iu_mutation := OrderItemMutation_ClearImageURL (iu_mutation c)\<rparr>"

definition OrderItemUpdateOne_SetOrderID :: "uuid \<Rightarrow> OrderItemUpdateOne \<Rightarrow> OrderItemUpdateOne" where [ent_defs]:
  "OrderItemUpdateOne_SetOrderID v c = c\<lparr>iu_mutation := OrderItemMutation_SetOrderID v (iu_mutation c)\<rparr>"

definition OrderItemUpdateOne_SetOrder :: "Order \<Rightarrow> OrderItemUpdateOne \<Rightarrow> OrderItemUpdateOne" where [ent_defs]:
  "OrderItemUpdateOne_SetOrder v c = OrderItemUpdateOne_SetOrderID (o_ID v) c"

definition OrderItemUpdateOne_ClearOrder :: "OrderItemUpdateOne \<Rightarrow> OrderItemUpdateOne" where [ent_defs]:
  "OrderItemUpdateOne_ClearOrder c = c\<lparr>iu_mutation := OrderItemMutation_ClearOrder (iu_mutation c)\<rparr>"

definition OrderItemUpdateOne_Where :: "sql_pred list \<Rightarrow> OrderItemUpdateOne \<Rightarrow> OrderItemUpdateOne" where [ent_defs]:
  "OrderItemUpdateOne_Where ps c = c\<lparr>iu_mutation := OrderItemMutation_Where ps (iu_mutation c)\<rparr>"

definition OrderItemUpdateOne_Select :: "string \<Rightarrow> string list \<Rightarrow> OrderItemUpdateOne \<Rightarrow> OrderItemUpdateOne" where [ent_defs]:
  "OrderItemUpdateOne_Select f fs c = c\<lparr>iu_fields := f # fs\<rparr>"

definition OrderItemUpdateOne_defaults :: "('d, 'z) lib_scheme \<Rightarrow> OrderItemUpdateOne \<Rightarrow> 'd \<Rightarrow> 'd \<times> OrderItemUpdateOne" where
  "OrderItemUpdateOne_defaults L u d =
     (case OrderItemMutation_UpdatedAt (iu_mutation u) of
        Some _ \<Rightarrow> (d, u)
      | None \<Rightarrow>
          let (d, v) = time_Now L d in
          (d, u\<lparr>iu_mutation := OrderItemMutation_SetUpdatedAt v (iu_mutation u)\<rparr>))"

definition OrderItemUpdateOne_check :: "('d, 'z) lib_scheme \<Rightarrow> OrderItemUpdateOne \<Rightarrow> ent_error + unit" where
  "OrderItemUpdateOne_check L u =
     (let m = iu_mutation u in
      if fails (orderitem_ProductNameValidator L) (OrderItemMutation_ProductName m) then
        Inl (ValidationError ''product_name'' (ValidatorFailed ''OrderItem.product_name''))
      else if fails (orderitem_UnitPriceValidator L) (OrderItemMutation_UnitPrice m) then
        Inl (ValidationError ''unit_price'' (ValidatorFailed ''OrderItem.unit_price''))
      else if fails (orderitem_QuantityValidator L) (OrderItemMutation_Quantity m) then
        Inl (ValidationError ''quantity'' (ValidatorFailed ''OrderItem.quantity''))
      else if fails (orderitem_TotalPriceValidator L) (OrderItemMutation_TotalPrice m) then
        Inl (ValidationError ''total_price'' (ValidatorFailed ''OrderItem.total_price''))
      else if OrderItemMutation_OrderCleared m \<and> OrderItemMutation_OrderIDs m \<noteq> [] then
        Inl (ClearingRequiredEdge ''OrderItem.order'')
      else Inr ())"

definition OrderItemUpdateOne_updateSpec :: "uuid \<Rightarrow> string list \<Rightarrow> OrderItemUpdateOne \<Rightarrow> update_spec" where
  "OrderItemUpdateOne_updateSpec i columns u =
     (let m = iu_mutation u in
       \<lparr>us_Table = orderitem_Table, us_Columns = columns, us_ID = Some i,
        us_Predicates = im_predicates m,
        us_Set =
          spec_field FieldUpdatedAt VTime (OrderItemMutation_UpdatedAt m)
          @ spec_field orderitem_FieldProductID VUUID (OrderItemMutation_ProductID m)
          @ spec_field orderitem_FieldVariantID VUUID (OrderItemMutation_VariantID m)
          @ spec_field orderitem_FieldProductName VString (OrderItemMutation_ProductName m)
          @ spec_field orderitem_FieldVariantDescription VString (OrderItemMutation_VariantDescription m)
          @ spec_field orderitem_FieldUnitPrice VFloat (OrderItemMutation_UnitPrice m)
          @ spec_field orderitem_FieldQuantity VInt (OrderItemMutation_Quantity m)
          @ spec_field orderitem_FieldTotalPrice VFloat (OrderItemMutation_TotalPrice m)
          @ spec_field orderitem_FieldImageURL VString (OrderItemMutation_ImageURL m),
        us_Add =
          spec_field orderitem_FieldUnitPrice VFloat (OrderItemMutation_AddedUnitPrice m)
          @ spec_field orderitem_FieldQuantity VInt (OrderItemMutation_AddedQuantity m)
          @ spec_field orderitem_FieldTotalPrice VFloat (OrderItemMutation_AddedTotalPrice m),
        us_Clear = (if OrderItemMutation_VariantDescriptionCleared m then [orderitem_FieldVariantDescription] else [])
          @ (if OrderItemMutation_ImageURLCleared m then [orderitem_FieldImageURL] else []),
        us_EdgesClear =
          (if OrderItemMutation_OrderCleared m
           then [\<lparr>es_Rel = M2O, es_Inverse = True, es_Table = orderitem_OrderTable,
                es_Columns = [orderitem_OrderColumn], es_Nodes = []\<rparr>] else []),
        us_EdgesAdd =
          (if OrderItemMutation_OrderIDs m \<noteq> []
           then [\<lparr>es_Rel = M2O, es_Inverse = True, es_Table = orderitem_OrderTable,
                es_Columns = [orderitem_OrderColumn], es_Nodes = OrderItemMutation_OrderIDs m\<rparr>] else []),
        us_ScanValues = OrderItem_scanValues,
        us_Assign = (\<lambda>cols vs. error_of (OrderItem_assignValues cols vs zero_OrderItem))\<rparr>)"

definition OrderItemUpdateOne_columns :: "OrderItemUpdateOne \<Rightarrow> ent_error + string list" where
  "OrderItemUpdateOne_columns u =
     (if iu_fields u = [] then Inr orderitem_Columns
      else range_loop (\<lambda>f cols.
             if \<not> orderitem_ValidColumn f then Inl (ValidationError f (InvalidColumn f))
             else if f \<noteq> FieldID then Inr (cols @ [f]) else Inr cols) (iu_fields u) [FieldID])"

definition OrderItemUpdateOne_sqlSave :: "('d, 'z) lib_scheme \<Rightarrow> OrderItemUpdateOne \<Rightarrow> 'd \<Rightarrow> 'd \<times> (ent_error + OrderItem)" where
  "OrderItemUpdateOne_sqlSave L u d =
     (case OrderItemUpdateOne_check L u of
        Inl e \<Rightarrow> (d, Inl e)
      | Inr _ \<Rightarrow>
          (case OrderItemMutation_ID (iu_mutation u) of
             None \<Rightarrow> (d, Inl (ValidationError ''id'' (MissingID ''OrderItem.id'')))
           | Some i \<Rightarrow>
               (case OrderItemUpdateOne_columns u of
                  Inl e \<Rightarrow> (d, Inl e)
                | Inr columns \<Rightarrow>
                    (case sqlgraph_UpdateNode L (iu_driver u) (OrderItemUpdateOne_updateSpec i columns u) d of
                       (d, Inl e) \<Rightarrow> (d, Inl (update_error orderitem_Label e))
                     | (d, Inr vs) \<Rightarrow> (d, OrderItem_assignValues columns vs zero_OrderItem)))))"

definition OrderItemUpdateOne_Save :: "('d, 'z) lib_scheme \<Rightarrow> OrderItemUpdateOne \<Rightarrow> 'd \<Rightarrow> 'd \<times> (ent_error + OrderItem)" where
  "OrderItemUpdateOne_Save L u d = (let (d, u) = OrderItemUpdateOne_defaults L u d in OrderItemUpdateOne_sqlSave L u d)"

subsection \<open>Outbox events\<close>

record OutboxEventUpdate =
  wm_driver :: driver
  wm_mutation :: OutboxEventMutation

definition OutboxEventClient_Update :: "driver \<Rightarrow> OutboxEventUpdate" where [ent_defs]:
  "OutboxEventClient_Update drv = \<lparr>wm_driver = drv, wm_mutation = newOutboxEventMutation OpUpdate\<rparr>"

definition OutboxEventUpdate_Where :: "sql_pred list \<Rightarrow> OutboxEventUpdate \<Rightarrow> OutboxEventUpdate" where [ent_defs]:
  "OutboxEventUpdate_Where ps c = c\<lparr>wm_mutation := OutboxEventMutation_Where ps (wm_mutation c)\<rparr>"

definition OutboxEventUpdate_SetUpdatedAt :: "time \<Rightarrow> OutboxEventUpdate \<Rightarrow> OutboxEventUpdate" where [ent_defs]:
  "OutboxEventUpdate_SetUpdatedAt v c = c\<lparr>wm_mutation := OutboxEventMutation_SetUpdatedAt v (wm_mutation c)\<rparr>"

definition OutboxEventUpdate_SetAggregateType :: "string \<Rightarrow> OutboxEventUpdate \<Rightarrow> OutboxEventUpdate" where [ent_defs]:
  "OutboxEventUpdate_SetAggregateType v c = c\<lparr>wm_mutation := OutboxEventMutation_SetAggregateType v (wm_mutation c)\<rparr>"

definition OutboxEventUpdate_SetNillableAggregateType :: "string option \<Rightarrow> OutboxEventUpdate \<Rightarrow> OutboxEventUpdate" where [ent_defs]:
  "OutboxEventUpdate_SetNillableAggregateType v c = (case v of Some x \<Rightarrow> OutboxEventUpdate_SetAggregateType x c | None \<Rightarrow> c)"

definition OutboxEventUpdate_SetAggregateID :: "uuid \<Rightarrow> OutboxEventUpdate \<Rightarrow> OutboxEventUpdate" where [ent_defs]:
  "OutboxEventUpdate_SetAggregateID v c = c\<lparr>wm_mutation := OutboxEventMutation_SetAggregateID v (wm_mutation c)\<rparr>"

definition OutboxEventUpdate_SetNillableAggregateID :: "uuid option \<Rightarrow> OutboxEventUpdate \<Rightarrow> OutboxEventUpdate" where [ent_defs]:
  "OutboxEventUpdate_SetNillableAggregateID v c = (case v of Some x \<Rightarrow> OutboxEventUpdate_SetAggregateID x c | None \<Rightarrow> c)"

definition OutboxEventUpdate_SetEventType :: "string \<Rightarrow> OutboxEventUpdate \<Rightarrow> OutboxEventUpdate" where [ent_defs]:
  "OutboxEventUpdate_SetEventType v c = c\<lparr>wm_mutation := OutboxEventMutation_SetEventType v (wm_mutation c)\<rparr>"

definition OutboxEventUpdate_SetNillableEventType :: "string option \<Rightarrow> OutboxEventUpdate \<Rightarrow> OutboxEventUpdate" where [ent_defs]:
  "OutboxEventUpdate_SetNillableEventType v c = (case v of Some x \<Rightarrow> OutboxEventUpdate_SetEventType x c | None \<Rightarrow> c)"

definition OutboxEventUpdate_SetPayload :: "byte list \<Rightarrow> OutboxEventUpdate \<Rightarrow> OutboxEventUpdate" where [ent_defs]:
  "OutboxEventUpdate_SetPayload v c = c\<lparr>wm_mutation := OutboxEventMutation_SetPayload v (wm_mutation c)\<rparr>"

definition OutboxEventUpdate_SetProcessed :: "bool \<Rightarrow> OutboxEventUpdate \<Rightarrow> OutboxEventUpdate" where [ent_defs]:
  "OutboxEventUpdate_SetProcessed v c = c\<lparr>wm_mutation := OutboxEventMutation_SetProcessed v (wm_mutation c)\<rparr>"

definition OutboxEventUpdate_SetNillableProcessed :: "bool option \<Rightarrow> OutboxEventUpdate \<Rightarrow> OutboxEventUpdate" where [ent_defs]:
  "OutboxEventUpdate_SetNillableProcessed v c = (case v of Some x \<Rightarrow> OutboxEventUpdate_SetProcessed x c | None \<Rightarrow> c)"

definition OutboxEventUpdate_defaults :: "('d, 'z) lib_scheme \<Rightarrow> OutboxEventUpdate \<Rightarrow> 'd \<Rightarrow> 'd \<times> OutboxEventUpdate" where
  "OutboxEventUpdate_defaults L u d =
     (case OutboxEventMutation_UpdatedAt (wm_mutation u) of
        Some _ \<Rightarrow> (d, u)
      | None \<Rightarrow>
          let (d, v) = time_Now L d in
          (d, u\<lparr>wm_mutation := OutboxEventMutation_SetUpdatedAt v (wm_mutation u)\<rparr>))"

definition OutboxEventUpdate_updateSpec :: "OutboxEventUpdate \<Rightarrow> update_spec" where
  \<comment> \<open>no id, and neither \<open>Assign\<close> nor \<open>ScanValues\<close>: those stay nil and are not called\<close>
  "OutboxEventUpdate_updateSpec u =
     (let m = wm_mutation u in
       \<lparr>us_Table = outboxevent_Table, us_Columns = outboxevent_Columns, us_ID = None,
        us_Predicates = bm_predicates m,
        us_Set =
          spec_field FieldUpdatedAt VTime (OutboxEventMutation_UpdatedAt m)
          @ spec_field outboxevent_FieldAggregateType VString (OutboxEventMutation_AggregateType m)
          @ spec_field outboxevent_FieldAggregateID VUUID (OutboxEventMutation_AggregateID m)
          @ spec_field outboxevent_FieldEventType VString (OutboxEventMutation_EventType m)
          @ spec_field outboxevent_FieldPayload VBytes (OutboxEventMutation_Payload m)
          @ spec_field outboxevent_FieldProcessed VBool (OutboxEventMutation_Processed m),
        us_Add =
          [],
        us_Clear = [],
        us_EdgesClear = [], us_EdgesAdd = [],
        us_ScanValues = (\<lambda>_. []), us_Assign = (\<lambda>_ _. None)\<rparr>)"

definition OutboxEventUpdate_sqlSave :: "('d, 'z) lib_scheme \<Rightarrow> 'd nodes_lib \<Rightarrow> OutboxEventUpdate \<Rightarrow> 'd \<Rightarrow> 'd \<times> (ent_error + i64)" where
  "OutboxEventUpdate_sqlSave L N u d =
     ((case sqlgraph_UpdateNodes N (wm_driver u) (OutboxEventUpdate_updateSpec u) d of
             (d, Inl e) \<Rightarrow> (d, Inl (update_error outboxevent_Label (SqlError e)))
           | (d, Inr n) \<Rightarrow> (d, Inr n)))"

definition OutboxEventUpdate_Save :: "('d, 'z) lib_scheme \<Rightarrow> 'd nodes_lib \<Rightarrow> OutboxEventUpdate \<Rightarrow> 'd \<Rightarrow> 'd \<times> (ent_error + i64)" where
  "OutboxEventUpdate_Save L N u d = (let (d, u) = OutboxEventUpdate_defaults L u d in OutboxEventUpdate_sqlSave L N u d)"

definition OutboxEventUpdate_Exec :: "('d, 'z) lib_scheme \<Rightarrow> 'd nodes_lib \<Rightarrow> OutboxEventUpdate \<Rightarrow> 'd \<Rightarrow> 'd \<times> ent_error option" where
  "OutboxEventUpdate_Exec L N u d = (case OutboxEventUpdate_Save L N u d of (d, Inl e) \<Rightarrow> (d, Some e) | (d, Inr _) \<Rightarrow> (d, None))"

end
