(* ===== verification/EntOld.thy ===== *)
theory EntOld
  imports EntQuery EntUpdateMany
begin

text \<open>
  Old values: the value a field of the entity had before the mutation (\<open>OldX\<close> and \<open>OldField\<close> in
  \<open>gen/ent/mutation.go\<close>), read from the database at the first request and kept, or taken from
  the entity the builder was given. And the rest of the interface \<open>ent.Mutation\<close>: operation, type
  and edges by name.
\<close>

text \<open>The guards and the wrapped error that every \<open>OldX\<close> has; \<open>old\<close> is the call of the closure.\<close>

definition old_value_of ::
  "string \<Rightarrow> ent_op \<Rightarrow> uuid option \<Rightarrow> 'e old_value \<Rightarrow> ('d \<Rightarrow> ('d \<times> 'm) \<times> (ent_error + 'e)) \<Rightarrow> ('e \<Rightarrow> 'v) \<Rightarrow> 'm
   \<Rightarrow> 'd \<Rightarrow> ('d \<times> 'm) \<times> (ent_error + 'v)" where
  "old_value_of name op ident oldValue old field m d =
     (if op \<noteq> OpUpdateOne then ((d, m), Inl (OldNotAllowed name))
      else if ident = None \<or> oldValue = NoOldValue then ((d, m), Inl (OldRequiresID name))
      else case old d of
             (s, Inl err) \<Rightarrow> (s, Inl (OldQueryFailed name err))
           | (s, Inr node) \<Rightarrow> (s, Inr (field node)))"

definition as_value :: "('v \<Rightarrow> ent_value) \<Rightarrow> 's \<times> (ent_error + 'v) \<Rightarrow> 's \<times> (ent_error + ent_value)" where
  "as_value V = map_prod id (map_sum id V)"

subsection \<open>Orders\<close>

definition OrderMutation_oldValue :: "('d, 'z) lib_scheme \<Rightarrow> driver \<Rightarrow> OrderMutation \<Rightarrow> 'd \<Rightarrow> ('d \<times> OrderMutation) \<times> (ent_error + Order)" where
  "OrderMutation_oldValue L drv m d =
     (case om_oldValue m of
        OldNode node \<Rightarrow> ((d, m), Inr node)
      | OldQuery i (Some r) \<Rightarrow> ((d, m), r)
      | OldQuery i None \<Rightarrow>
          (case (if om_done m then (d, Inl OldAfterMutation) else OrderClient_Get L drv i d) of
             (d, r) \<Rightarrow> ((d, m\<lparr>om_oldValue := OldQuery i (Some r)\<rparr>), r))
      | NoOldValue \<Rightarrow> ((d, m), Inl (OldRequiresID ''oldValue'')))"

definition OrderMutation_OldCreatedAt :: "('d, 'z) lib_scheme \<Rightarrow> driver \<Rightarrow> OrderMutation \<Rightarrow> 'd \<Rightarrow> ('d \<times> OrderMutation) \<times> (ent_error + time)" where
  "OrderMutation_OldCreatedAt L drv m = old_value_of ''OldCreatedAt'' (om_op m) (om_id m) (om_oldValue m) (OrderMutation_oldValue L drv m) o_CreatedAt m"

definition OrderMutation_OldUpdatedAt :: "('d, 'z) lib_scheme \<Rightarrow> driver \<Rightarrow> OrderMutation \<Rightarrow> 'd \<Rightarrow> ('d \<times> OrderMutation) \<times> (ent_error + time)" where
  "OrderMutation_OldUpdatedAt L drv m = old_value_of ''OldUpdatedAt'' (om_op m) (om_id m) (om_oldValue m) (OrderMutation_oldValue L drv m) o_UpdatedAt m"

definition OrderMutation_OldCustomerID :: "('d, 'z) lib_scheme \<Rightarrow> driver \<Rightarrow> OrderMutation \<Rightarrow> 'd \<Rightarrow> ('d \<times> OrderMutation) \<times> (ent_error + uuid)" where
  "OrderMutation_OldCustomerID L drv m = old_value_of ''OldCustomerID'' (om_op m) (om_id m) (om_oldValue m) (OrderMutation_oldValue L drv m) o_CustomerID m"

definition OrderMutation_OldStatus :: "('d, 'z) lib_scheme \<Rightarrow> driver \<Rightarrow> OrderMutation \<Rightarrow> 'd \<Rightarrow> ('d \<times> OrderMutation) \<times> (ent_error + status)" where
  "OrderMutation_OldStatus L drv m = old_value_of ''OldStatus'' (om_op m) (om_id m) (om_oldValue m) (OrderMutation_oldValue L drv m) o_Status m"

definition OrderMutation_OldSubtotal :: "('d, 'z) lib_scheme \<Rightarrow> driver \<Rightarrow> OrderMutation \<Rightarrow> 'd \<Rightarrow> ('d \<times> OrderMutation) \<times> (ent_error + float64)" where
  "OrderMutation_OldSubtotal L drv m = old_value_of ''OldSubtotal'' (om_op m) (om_id m) (om_oldValue m) (OrderMutation_oldValue L drv m) o_Subtotal m"

definition OrderMutation_OldTax :: "('d, 'z) lib_scheme \<Rightarrow> driver \<Rightarrow> OrderMutation \<Rightarrow> 'd \<Rightarrow> ('d \<times> OrderMutation) \<times> (ent_error + float64)" where
  "OrderMutation_OldTax L drv m = old_value_of ''OldTax'' (om_op m) (om_id m) (om_oldValue m) (OrderMutation_oldValue L drv m) o_Tax m"

definition OrderMutation_OldShippingCost :: "('d, 'z) lib_scheme \<Rightarrow> driver \<Rightarrow> OrderMutation \<Rightarrow> 'd \<Rightarrow> ('d \<times> OrderMutation) \<times> (ent_error + float64)" where
  "OrderMutation_OldShippingCost L drv m = old_value_of ''OldShippingCost'' (om_op m) (om_id m) (om_oldValue m) (OrderMutation_oldValue L drv m) o_ShippingCost m"

definition OrderMutation_OldTotal :: "('d, 'z) lib_scheme \<Rightarrow> driver \<Rightarrow> OrderMutation \<Rightarrow> 'd \<Rightarrow> ('d \<times> OrderMutation) \<times> (ent_error + float64)" where
  "OrderMutation_OldTotal L drv m = old_value_of ''OldTotal'' (om_op m) (om_id m) (om_oldValue m) (OrderMutation_oldValue L drv m) o_Total m"

definition OrderMutation_OldShippingAddress :: "('d, 'z) lib_scheme \<Rightarrow> driver \<Rightarrow> OrderMutation \<Rightarrow> 'd \<Rightarrow> ('d \<times> OrderMutation) \<times> (ent_error + string)" where
  "OrderMutation_OldShippingAddress L drv m = old_value_of ''OldShippingAddress'' (om_op m) (om_id m) (om_oldValue m) (OrderMutation_oldValue L drv m) o_ShippingAddress m"

definition OrderMutation_OldBillingAddress :: "('d, 'z) lib_scheme \<Rightarrow> driver \<Rightarrow> OrderMutation \<Rightarrow> 'd \<Rightarrow> ('d \<times> OrderMutation) \<times> (ent_error + string)" where
  "OrderMutation_OldBillingAddress L drv m = old_value_of ''OldBillingAddress'' (om_op m) (om_id m) (om_oldValue m) (OrderMutation_oldValue L drv m) o_BillingAddress m"

definition OrderMutation_OldErrorMessage :: "('d, 'z) lib_scheme \<Rightarrow> driver \<Rightarrow> OrderMutation \<Rightarrow> 'd \<Rightarrow> ('d \<times> OrderMutation) \<times> (ent_error + string)" where
  "OrderMutation_OldErrorMessage L drv m = old_value_of ''OldErrorMessage'' (om_op m) (om_id m) (om_oldValue m) (OrderMutation_oldValue L drv m) o_ErrorMessage m"

definition OrderMutation_OldField :: "('d, 'z) lib_scheme \<Rightarrow> driver \<Rightarrow> string \<Rightarrow> OrderMutation \<Rightarrow> 'd \<Rightarrow> ('d \<times> OrderMutation) \<times> (ent_error + ent_value)" where
  "OrderMutation_OldField L drv name m d =
     (if name = FieldCreatedAt then as_value VTime (OrderMutation_OldCreatedAt L drv m d)
      else if name = FieldUpdatedAt then as_value VTime (OrderMutation_OldUpdatedAt L drv m d)
      else if name = order_FieldCustomerID then as_value VUUID (OrderMutation_OldCustomerID L drv m d)
      else if name = order_FieldStatus then as_value VStatus (OrderMutation_OldStatus L drv m d)
      else if name = order_FieldSubtotal then as_value VFloat (OrderMutation_OldSubtotal L drv m d)
      else if name = order_FieldTax then as_value VFloat (OrderMutation_OldTax L drv m d)
      else if name = order_FieldShippingCost then as_value VFloat (OrderMutation_OldShippingCost L drv m d)
      else if name = order_FieldTotal then as_value VFloat (OrderMutation_OldTotal L drv m d)
      else if name = order_FieldShippingAddress then as_value VString (OrderMutation_OldShippingAddress L drv m d)
      else if name = order_FieldBillingAddress then as_value VString (OrderMutation_OldBillingAddress L drv m d)
      else if name = order_FieldErrorMessage then as_value VString (OrderMutation_OldErrorMessage L drv m d)
      else ((d, m), Inl (UnknownField name)))"

definition OrderMutation_Op :: "OrderMutation \<Rightarrow> ent_op" where
  "OrderMutation_Op m = om_op m"

definition OrderMutation_SetOp :: "ent_op \<Rightarrow> OrderMutation \<Rightarrow> OrderMutation" where
  "OrderMutation_SetOp op m = m\<lparr>om_op := op\<rparr>"

definition OrderMutation_Type :: "OrderMutation \<Rightarrow> string" where
  "OrderMutation_Type m = om_typ m"

definition OrderMutation_WhereP :: "sql_pred list \<Rightarrow> OrderMutation \<Rightarrow> OrderMutation" where
  "OrderMutation_WhereP ps m = OrderMutation_Where ps m"

definition OrderMutation_ClearEdge :: "string \<Rightarrow> OrderMutation \<Rightarrow> ent_error + OrderMutation" where
  "OrderMutation_ClearEdge name m = Inl (UnknownField name)"

subsection \<open>Lines\<close>

definition OrderItemMutation_oldValue :: "('d, 'z) lib_scheme \<Rightarrow> driver \<Rightarrow> OrderItemMutation \<Rightarrow> 'd \<Rightarrow> ('d \<times> OrderItemMutation) \<times> (ent_error + OrderItem)" where
  "OrderItemMutation_oldValue L drv m d =
     (case im_oldValue m of
        OldNode node \<Rightarrow> ((d, m), Inr node)
      | OldQuery i (Some r) \<Rightarrow> ((d, m), r)
      | OldQuery i None \<Rightarrow>
          (case (if im_done m then (d, Inl OldAfterMutation) else OrderItemClient_Get L drv i d) of
             (d, r) \<Rightarrow> ((d, m\<lparr>im_oldValue := OldQuery i (Some r)\<rparr>), r))
      | NoOldValue \<Rightarrow> ((d, m), Inl (OldRequiresID ''oldValue'')))"

definition OrderItemMutation_OldCreatedAt :: "('d, 'z) lib_scheme \<Rightarrow> driver \<Rightarrow> OrderItemMutation \<Rightarrow> 'd \<Rightarrow> ('d \<times> OrderItemMutation) \<times> (ent_error + time)" where
  "OrderItemMutation_OldCreatedAt L drv m = old_value_of ''OldCreatedAt'' (im_op m) (im_id m) (im_oldValue m) (OrderItemMutation_oldValue L drv m) oi_CreatedAt m"

definition OrderItemMutation_OldUpdatedAt :: "('d, 'z) lib_scheme \<Rightarrow> driver \<Rightarrow> OrderItemMutation \<Rightarrow> 'd \<Rightarrow> ('d \<times> OrderItemMutation) \<times> (ent_error + time)" where
  "OrderItemMutation_OldUpdatedAt L drv m = old_value_of ''OldUpdatedAt'' (im_op m) (im_id m) (im_oldValue m) (OrderItemMutation_oldValue L drv m) oi_UpdatedAt m"

definition OrderItemMutation_OldProductID :: "('d, 'z) lib_scheme \<Rightarrow> driver \<Rightarrow> OrderItemMutation \<Rightarrow> 'd \<Rightarrow> ('d \<times> OrderItemMutation) \<times> (ent_error + uuid)" where
  "OrderItemMutation_OldProductID L drv m = old_value_of ''OldProductID'' (im_op m) (im_id m) (im_oldValue m) (OrderItemMutation_oldValue L drv m) oi_ProductID m"

definition OrderItemMutation_OldVariantID :: "('d, 'z) lib_scheme \<Rightarrow> driver \<Rightarrow> OrderItemMutation \<Rightarrow> 'd \<Rightarrow> ('d \<times> OrderItemMutation) \<times> (ent_error + uuid)" where
  "OrderItemMutation_OldVariantID L drv m = old_value_of ''OldVariantID'' (im_op m) (im_id m) (im_oldValue m) (OrderItemMutation_oldValue L drv m) oi_VariantID m"

definition OrderItemMutation_OldProductName :: "('d, 'z) lib_scheme \<Rightarrow> driver \<Rightarrow> OrderItemMutation \<Rightarrow> 'd \<Rightarrow> ('d \<times> OrderItemMutation) \<times> (ent_error + string)" where
  "OrderItemMutation_OldProductName L drv m = old_value_of ''OldProductName'' (im_op m) (im_id m) (im_oldValue m) (OrderItemMutation_oldValue L drv m) oi_ProductName m"

definition OrderItemMutation_OldVariantDescription :: "('d, 'z) lib_scheme \<Rightarrow> driver \<Rightarrow> OrderItemMutation \<Rightarrow> 'd \<Rightarrow> ('d \<times> OrderItemMutation) \<times> (ent_error + string)" where
  "OrderItemMutation_OldVariantDescription L drv m = old_value_of ''OldVariantDescription'' (im_op m) (im_id m) (im_oldValue m) (OrderItemMutation_oldValue L drv m) oi_VariantDescription m"

definition OrderItemMutation_OldUnitPrice :: "('d, 'z) lib_scheme \<Rightarrow> driver \<Rightarrow> OrderItemMutation \<Rightarrow> 'd \<Rightarrow> ('d \<times> OrderItemMutation) \<times> (ent_error + float64)" where
  "OrderItemMutation_OldUnitPrice L drv m = old_value_of ''OldUnitPrice'' (im_op m) (im_id m) (im_oldValue m) (OrderItemMutation_oldValue L drv m) oi_UnitPrice m"

definition OrderItemMutation_OldQuantity :: "('d, 'z) lib_scheme \<Rightarrow> driver \<Rightarrow> OrderItemMutation \<Rightarrow> 'd \<Rightarrow> ('d \<times> OrderItemMutation) \<times> (ent_error + i64)" where
  "OrderItemMutation_OldQuantity L drv m = old_value_of ''OldQuantity'' (im_op m) (im_id m) (im_oldValue m) (OrderItemMutation_oldValue L drv m) oi_Quantity m"

definition OrderItemMutation_OldTotalPrice :: "('d, 'z) lib_scheme \<Rightarrow> driver \<Rightarrow> OrderItemMutation \<Rightarrow> 'd \<Rightarrow> ('d \<times> OrderItemMutation) \<times> (ent_error + float64)" where
  "OrderItemMutation_OldTotalPrice L drv m = old_value_of ''OldTotalPrice'' (im_op m) (im_id m) (im_oldValue m) (OrderItemMutation_oldValue L drv m) oi_TotalPrice m"

definition OrderItemMutation_OldImageURL :: "('d, 'z) lib_scheme \<Rightarrow> driver \<Rightarrow> OrderItemMutation \<Rightarrow> 'd \<Rightarrow> ('d \<times> OrderItemMutation) \<times> (ent_error + string)" where
  "OrderItemMutation_OldImageURL L drv m = old_value_of ''OldImageURL'' (im_op m) (im_id m) (im_oldValue m) (OrderItemMutation_oldValue L drv m) oi_ImageURL m"

definition OrderItemMutation_OldField :: "('d, 'z) lib_scheme \<Rightarrow> driver \<Rightarrow> string \<Rightarrow> OrderItemMutation \<Rightarrow> 'd \<Rightarrow> ('d \<times> OrderItemMutation) \<times> (ent_error + ent_value)" where
  "OrderItemMutation_OldField L drv name m d =
     (if name = FieldCreatedAt then as_value VTime (OrderItemMutation_OldCreatedAt L drv m d)
      else if name = FieldUpdatedAt then as_value VTime (OrderItemMutation_OldUpdatedAt L drv m d)
      else if name = orderitem_FieldProductID then as_value VUUID (OrderItemMutation_OldProductID L drv m d)
      else if name = orderitem_FieldVariantID then as_value VUUID (OrderItemMutation_OldVariantID L drv m d)
      else if name = orderitem_FieldProductName then as_value VString (OrderItemMutation_OldProductName L drv m d)
      else if name = orderitem_FieldVariantDescription then as_value VString (OrderItemMutation_OldVariantDescription L drv m d)
      else if name = orderitem_FieldUnitPrice then as_value VFloat (OrderItemMutation_OldUnitPrice L drv m d)
      else if name = orderitem_FieldQuantity then as_value VInt (OrderItemMutation_OldQuantity L drv m d)
      else if name = orderitem_FieldTotalPrice then as_value VFloat (OrderItemMutation_OldTotalPrice L drv m d)
      else if name = orderitem_FieldImageURL then as_value VString (OrderItemMutation_OldImageURL L drv m d)
      else ((d, m), Inl (UnknownField name)))"

definition OrderItemMutation_Op :: "OrderItemMutation \<Rightarrow> ent_op" where
  "OrderItemMutation_Op m = im_op m"

definition OrderItemMutation_SetOp :: "ent_op \<Rightarrow> OrderItemMutation \<Rightarrow> OrderItemMutation" where
  "OrderItemMutation_SetOp op m = m\<lparr>im_op := op\<rparr>"

definition OrderItemMutation_Type :: "OrderItemMutation \<Rightarrow> string" where
  "OrderItemMutation_Type m = im_typ m"

definition OrderItemMutation_WhereP :: "sql_pred list \<Rightarrow> OrderItemMutation \<Rightarrow> OrderItemMutation" where
  "OrderItemMutation_WhereP ps m = OrderItemMutation_Where ps m"

definition OrderItemMutation_ClearEdge :: "string \<Rightarrow> OrderItemMutation \<Rightarrow> ent_error + OrderItemMutation" where
  "OrderItemMutation_ClearEdge name m = (if name = orderitem_EdgeOrder then Inr (OrderItemMutation_ClearOrder m) else Inl (UnknownField name))"

subsection \<open>Outbox events\<close>

definition OutboxEventMutation_oldValue :: "('d, 'z) lib_scheme \<Rightarrow> driver \<Rightarrow> OutboxEventMutation \<Rightarrow> 'd \<Rightarrow> ('d \<times> OutboxEventMutation) \<times> (ent_error + OutboxEvent)" where
  "OutboxEventMutation_oldValue L drv m d =
     (case bm_oldValue m of
        OldNode node \<Rightarrow> ((d, m), Inr node)
      | OldQuery i (Some r) \<Rightarrow> ((d, m), r)
      | OldQuery i None \<Rightarrow>
          (case (if bm_done m then (d, Inl OldAfterMutation) else OutboxEventClient_Get L drv i d) of
             (d, r) \<Rightarrow> ((d, m\<lparr>bm_oldValue := OldQuery i (Some r)\<rparr>), r))
      | NoOldValue \<Rightarrow> ((d, m), Inl (OldRequiresID ''oldValue'')))"

definition OutboxEventMutation_OldCreatedAt :: "('d, 'z) lib_scheme \<Rightarrow> driver \<Rightarrow> OutboxEventMutation \<Rightarrow> 'd \<Rightarrow> ('d \<times> OutboxEventMutation) \<times> (ent_error + time)" where
  "OutboxEventMutation_OldCreatedAt L drv m = old_value_of ''OldCreatedAt'' (bm_op m) (bm_id m) (bm_oldValue m) (OutboxEventMutation_oldValue L drv m) ob_CreatedAt m"

definition OutboxEventMutation_OldUpdatedAt :: "('d, 'z) lib_scheme \<Rightarrow> driver \<Rightarrow> OutboxEventMutation \<Rightarrow> 'd \<Rightarrow> ('d \<times> OutboxEventMutation) \<times> (ent_error + time)" where
  "OutboxEventMutation_OldUpdatedAt L drv m = old_value_of ''OldUpdatedAt'' (bm_op m) (bm_id m) (bm_oldValue m) (OutboxEventMutation_oldValue L drv m) ob_UpdatedAt m"

definition OutboxEventMutation_OldAggregateType :: "('d, 'z) lib_scheme \<Rightarrow> driver \<Rightarrow> OutboxEventMutation \<Rightarrow> 'd \<Rightarrow> ('d \<times> OutboxEventMutation) \<times> (ent_error + string)" where
  "OutboxEventMutation_OldAggregateType L drv m = old_value_of ''OldAggregateType'' (bm_op m) (bm_id m) (bm_oldValue m) (OutboxEventMutation_oldValue L drv m) ob_AggregateType m"

definition OutboxEventMutation_OldAggregateID :: "('d, 'z) lib_scheme \<Rightarrow> driver \<Rightarrow> OutboxEventMutation \<Rightarrow> 'd \<Rightarrow> ('d \<times> OutboxEventMutation) \<times> (ent_error + uuid)" where
  "OutboxEventMutation_OldAggregateID L drv m = old_value_of ''OldAggregateID'' (bm_op m) (bm_id m) (bm_oldValue m) (OutboxEventMutation_oldValue L drv m) ob_AggregateID m"

definition OutboxEventMutation_OldEventType :: "('d, 'z) lib_scheme \<Rightarrow> driver \<Rightarrow> OutboxEventMutation \<Rightarrow> 'd \<Rightarrow> ('d \<times> OutboxEventMutation) \<times> (ent_error + string)" where
  "OutboxEventMutation_OldEventType L drv m = old_value_of ''OldEventType'' (bm_op m) (bm_id m) (bm_oldValue m) (OutboxEventMutation_oldValue L drv m) ob_EventType m"

definition OutboxEventMutation_OldPayload :: "('d, 'z) lib_scheme \<Rightarrow> driver \<Rightarrow> OutboxEventMutation \<Rightarrow> 'd \<Rightarrow> ('d \<times> OutboxEventMutation) \<times> (ent_error + byte list)" where
  "OutboxEventMutation_OldPayload L drv m = old_value_of ''OldPayload'' (bm_op m) (bm_id m) (bm_oldValue m) (OutboxEventMutation_oldValue L drv m) ob_Payload m"

definition OutboxEventMutation_OldProcessed :: "('d, 'z) lib_scheme \<Rightarrow> driver \<Rightarrow> OutboxEventMutation \<Rightarrow> 'd \<Rightarrow> ('d \<times> OutboxEventMutation) \<times> (ent_error + bool)" where
  "OutboxEventMutation_OldProcessed L drv m = old_value_of ''OldProcessed'' (bm_op m) (bm_id m) (bm_oldValue m) (OutboxEventMutation_oldValue L drv m) ob_Processed m"

definition OutboxEventMutation_OldField :: "('d, 'z) lib_scheme \<Rightarrow> driver \<Rightarrow> string \<Rightarrow> OutboxEventMutation \<Rightarrow> 'd \<Rightarrow> ('d \<times> OutboxEventMutation) \<times> (ent_error + ent_value)" where
  "OutboxEventMutation_OldField L drv name m d =
     (if name = FieldCreatedAt then as_value VTime (OutboxEventMutation_OldCreatedAt L drv m d)
      else if name = FieldUpdatedAt then as_value VTime (OutboxEventMutation_OldUpdatedAt L drv m d)
      else if name = outboxevent_FieldAggregateType then as_value VString (OutboxEventMutation_OldAggregateType L drv m d)
      else if name = outboxevent_FieldAggregateID then as_value VUUID (OutboxEventMutation_OldAggregateID L drv m d)
      else if name = outboxevent_FieldEventType then as_value VString (OutboxEventMutation_OldEventType L drv m d)
      else if name = outboxevent_FieldPayload then as_value VBytes (OutboxEventMutation_OldPayload L drv m d)
      else if name = outboxevent_FieldProcessed then as_value VBool (OutboxEventMutation_OldProcessed L drv m d)
      else ((d, m), Inl (UnknownField name)))"

definition OutboxEventMutation_Op :: "OutboxEventMutation \<Rightarrow> ent_op" where
  "OutboxEventMutation_Op m = bm_op m"

definition OutboxEventMutation_SetOp :: "ent_op \<Rightarrow> OutboxEventMutation \<Rightarrow> OutboxEventMutation" where
  "OutboxEventMutation_SetOp op m = m\<lparr>bm_op := op\<rparr>"

definition OutboxEventMutation_Type :: "OutboxEventMutation \<Rightarrow> string" where
  "OutboxEventMutation_Type m = bm_typ m"

definition OutboxEventMutation_WhereP :: "sql_pred list \<Rightarrow> OutboxEventMutation \<Rightarrow> OutboxEventMutation" where
  "OutboxEventMutation_WhereP ps m = OutboxEventMutation_Where ps m"

definition OutboxEventMutation_ClearEdge :: "string \<Rightarrow> OutboxEventMutation \<Rightarrow> ent_error + OutboxEventMutation" where
  "OutboxEventMutation_ClearEdge name m = Inl (UnknownField name)"

definition OutboxEventMutation_AddedEdges :: "OutboxEventMutation \<Rightarrow> string list" where
  "OutboxEventMutation_AddedEdges m = []"

definition OutboxEventMutation_RemovedEdges :: "OutboxEventMutation \<Rightarrow> string list" where
  "OutboxEventMutation_RemovedEdges m = []"

definition OutboxEventMutation_ClearedEdges :: "OutboxEventMutation \<Rightarrow> string list" where
  "OutboxEventMutation_ClearedEdges m = []"

definition OutboxEventMutation_EdgeCleared :: "string \<Rightarrow> OutboxEventMutation \<Rightarrow> bool" where
  "OutboxEventMutation_EdgeCleared name m \<longleftrightarrow> False"

definition OutboxEventMutation_ResetEdge :: "string \<Rightarrow> OutboxEventMutation \<Rightarrow> ent_error + OutboxEventMutation" where
  "OutboxEventMutation_ResetEdge name m = Inl (UnknownField name)"

definition OutboxEventMutation_AddedIDs :: "string \<Rightarrow> OutboxEventMutation \<Rightarrow> ent_value list" where
  "OutboxEventMutation_AddedIDs name m = []"

definition OutboxEventMutation_RemovedIDs :: "string \<Rightarrow> OutboxEventMutation \<Rightarrow> ent_value list" where
  "OutboxEventMutation_RemovedIDs name m = []"

definition OutboxEventMutation_AddedFields :: "OutboxEventMutation \<Rightarrow> string list" where
  "OutboxEventMutation_AddedFields m = []"

definition OutboxEventMutation_AddedField :: "string \<Rightarrow> OutboxEventMutation \<Rightarrow> ent_value option" where
  "OutboxEventMutation_AddedField name m = None"

definition OutboxEventMutation_AddField :: "string \<Rightarrow> ent_value \<Rightarrow> OutboxEventMutation \<Rightarrow> ent_error + OutboxEventMutation" where
  "OutboxEventMutation_AddField name value m = Inl (UnknownField name)"

definition OutboxEventMutation_ClearedFields :: "OutboxEventMutation \<Rightarrow> string list" where
  "OutboxEventMutation_ClearedFields m = []"

definition OutboxEventMutation_ClearField :: "string \<Rightarrow> OutboxEventMutation \<Rightarrow> ent_error + OutboxEventMutation" where
  "OutboxEventMutation_ClearField name m = Inl (UnknownField name)"

definition OrderItemMutation_RemovedEdges :: "OrderItemMutation \<Rightarrow> string list" where
  "OrderItemMutation_RemovedEdges m = []"

definition OrderItemMutation_RemovedIDs :: "string \<Rightarrow> OrderItemMutation \<Rightarrow> ent_value list" where
  "OrderItemMutation_RemovedIDs name m = []"

subsection \<open>One old entity\<close>

text \<open>
  Once a mutation has its old entity (or the error of reading it), asking for old values reads
  nothing any more: every field is that of the same entity.
\<close>

lemma order_old_kept:
  assumes "om_oldValue m = OldQuery i (Some r)"
  shows "fst (OrderMutation_OldField L drv name m d) = (d, m)"
  using assms
  by (simp add: OrderMutation_OldField_def OrderMutation_oldValue_def old_value_of_def as_value_def OrderMutation_OldCreatedAt_def OrderMutation_OldUpdatedAt_def OrderMutation_OldCustomerID_def OrderMutation_OldStatus_def OrderMutation_OldSubtotal_def OrderMutation_OldTax_def OrderMutation_OldShippingCost_def OrderMutation_OldTotal_def OrderMutation_OldShippingAddress_def OrderMutation_OldBillingAddress_def OrderMutation_OldErrorMessage_def
      split: sum.split)

lemma orderitem_old_kept:
  assumes "im_oldValue m = OldQuery i (Some r)"
  shows "fst (OrderItemMutation_OldField L drv name m d) = (d, m)"
  using assms
  by (simp add: OrderItemMutation_OldField_def OrderItemMutation_oldValue_def old_value_of_def as_value_def OrderItemMutation_OldCreatedAt_def OrderItemMutation_OldUpdatedAt_def OrderItemMutation_OldProductID_def OrderItemMutation_OldVariantID_def OrderItemMutation_OldProductName_def OrderItemMutation_OldVariantDescription_def OrderItemMutation_OldUnitPrice_def OrderItemMutation_OldQuantity_def OrderItemMutation_OldTotalPrice_def OrderItemMutation_OldImageURL_def
      split: sum.split)

lemma outboxevent_old_kept:
  assumes "bm_oldValue m = OldQuery i (Some r)"
  shows "fst (OutboxEventMutation_OldField L drv name m d) = (d, m)"
  using assms
  by (simp add: OutboxEventMutation_OldField_def OutboxEventMutation_oldValue_def old_value_of_def as_value_def OutboxEventMutation_OldCreatedAt_def OutboxEventMutation_OldUpdatedAt_def OutboxEventMutation_OldAggregateType_def OutboxEventMutation_OldAggregateID_def OutboxEventMutation_OldEventType_def OutboxEventMutation_OldPayload_def OutboxEventMutation_OldProcessed_def
      split: sum.split)


end
