(* ===== verification/EntDelete.thy ===== *)
theory EntDelete
  imports EntUpdateMany
begin

text \<open>
  The delete builders: all rows that the predicates select, or the one row with an id. Deleting
  one row that is not there is a \<open>NotFoundError\<close>.
\<close>

subsection \<open>Orders\<close>

record OrderDelete =
  dd_driver :: driver
  dd_mutation :: OrderMutation

definition OrderClient_Delete :: "driver \<Rightarrow> OrderDelete" where [ent_defs]:
  "OrderClient_Delete drv = \<lparr>dd_driver = drv, dd_mutation = newOrderMutation OpDelete\<rparr>"

definition OrderDelete_Where :: "sql_pred list \<Rightarrow> OrderDelete \<Rightarrow> OrderDelete" where [ent_defs]:
  "OrderDelete_Where ps b = b\<lparr>dd_mutation := OrderMutation_Where ps (dd_mutation b)\<rparr>"

definition OrderDelete_sqlExec :: "'d nodes_lib \<Rightarrow> OrderDelete \<Rightarrow> 'd \<Rightarrow> 'd \<times> (ent_error + i64)" where
  "OrderDelete_sqlExec N b d =
     (case sqlgraph_DeleteNodes N (dd_driver b) order_Table (om_predicates (dd_mutation b)) d of
        (d, Inl e) \<Rightarrow> (d, Inl (constraint_error e))
      | (d, Inr affected) \<Rightarrow> (d, Inr affected))"

definition OrderDelete_Exec :: "'d nodes_lib \<Rightarrow> OrderDelete \<Rightarrow> 'd \<Rightarrow> 'd \<times> (ent_error + i64)" where
  "OrderDelete_Exec = OrderDelete_sqlExec"

text \<open>The builder for one row wraps that for many.\<close>

definition OrderClient_DeleteOneID :: "driver \<Rightarrow> uuid \<Rightarrow> OrderDelete" where [ent_defs]:
  "OrderClient_DeleteOneID drv i =
     (let builder = OrderDelete_Where [order_ID i] (OrderClient_Delete drv)
      in builder\<lparr>dd_mutation := (dd_mutation builder)\<lparr>om_id := Some i, om_op := OpDeleteOne\<rparr>\<rparr>)"

definition OrderClient_DeleteOne :: "driver \<Rightarrow> Order \<Rightarrow> OrderDelete" where [ent_defs]:
  "OrderClient_DeleteOne drv m = OrderClient_DeleteOneID drv (o_ID m)"

definition OrderDeleteOne_Where :: "sql_pred list \<Rightarrow> OrderDelete \<Rightarrow> OrderDelete" where [ent_defs]:
  "OrderDeleteOne_Where = OrderDelete_Where"

definition OrderDeleteOne_Exec :: "'d nodes_lib \<Rightarrow> OrderDelete \<Rightarrow> 'd \<Rightarrow> 'd \<times> ent_error option" where
  "OrderDeleteOne_Exec N b d =
     (case OrderDelete_Exec N b d of
        (d, Inl e) \<Rightarrow> (d, Some e)
      | (d, Inr n) \<Rightarrow> (d, if n = 0 then Some (NotFoundError order_Label) else None))"

subsection \<open>Lines\<close>

record OrderItemDelete =
  di_driver :: driver
  di_mutation :: OrderItemMutation

definition OrderItemClient_Delete :: "driver \<Rightarrow> OrderItemDelete" where [ent_defs]:
  "OrderItemClient_Delete drv = \<lparr>di_driver = drv, di_mutation = newOrderItemMutation OpDelete\<rparr>"

definition OrderItemDelete_Where :: "sql_pred list \<Rightarrow> OrderItemDelete \<Rightarrow> OrderItemDelete" where [ent_defs]:
  "OrderItemDelete_Where ps b = b\<lparr>di_mutation := OrderItemMutation_Where ps (di_mutation b)\<rparr>"

definition OrderItemDelete_sqlExec :: "'d nodes_lib \<Rightarrow> OrderItemDelete \<Rightarrow> 'd \<Rightarrow> 'd \<times> (ent_error + i64)" where
  "OrderItemDelete_sqlExec N b d =
     (case sqlgraph_DeleteNodes N (di_driver b) orderitem_Table (im_predicates (di_mutation b)) d of
        (d, Inl e) \<Rightarrow> (d, Inl (constraint_error e))
      | (d, Inr affected) \<Rightarrow> (d, Inr affected))"

definition OrderItemDelete_Exec :: "'d nodes_lib \<Rightarrow> OrderItemDelete \<Rightarrow> 'd \<Rightarrow> 'd \<times> (ent_error + i64)" where
  "OrderItemDelete_Exec = OrderItemDelete_sqlExec"

text \<open>The builder for one row wraps that for many.\<close>

definition OrderItemClient_DeleteOneID :: "driver \<Rightarrow> uuid \<Rightarrow> OrderItemDelete" where [ent_defs]:
  "OrderItemClient_DeleteOneID drv i =
     (let builder = OrderItemDelete_Where [FieldEQ FieldID (VUUID i)] (OrderItemClient_Delete drv)
      in builder\<lparr>di_mutation := (di_mutation builder)\<lparr>im_id := Some i, im_op := OpDeleteOne\<rparr>\<rparr>)"

definition OrderItemClient_DeleteOne :: "driver \<Rightarrow> OrderItem \<Rightarrow> OrderItemDelete" where [ent_defs]:
  "OrderItemClient_DeleteOne drv m = OrderItemClient_DeleteOneID drv (oi_ID m)"

definition OrderItemDeleteOne_Where :: "sql_pred list \<Rightarrow> OrderItemDelete \<Rightarrow> OrderItemDelete" where [ent_defs]:
  "OrderItemDeleteOne_Where = OrderItemDelete_Where"

definition OrderItemDeleteOne_Exec :: "'d nodes_lib \<Rightarrow> OrderItemDelete \<Rightarrow> 'd \<Rightarrow> 'd \<times> ent_error option" where
  "OrderItemDeleteOne_Exec N b d =
     (case OrderItemDelete_Exec N b d of
        (d, Inl e) \<Rightarrow> (d, Some e)
      | (d, Inr n) \<Rightarrow> (d, if n = 0 then Some (NotFoundError orderitem_Label) else None))"

subsection \<open>Outbox events\<close>

record OutboxEventDelete =
  db_driver :: driver
  db_mutation :: OutboxEventMutation

definition OutboxEventClient_Delete :: "driver \<Rightarrow> OutboxEventDelete" where [ent_defs]:
  "OutboxEventClient_Delete drv = \<lparr>db_driver = drv, db_mutation = newOutboxEventMutation OpDelete\<rparr>"

definition OutboxEventDelete_Where :: "sql_pred list \<Rightarrow> OutboxEventDelete \<Rightarrow> OutboxEventDelete" where [ent_defs]:
  "OutboxEventDelete_Where ps b = b\<lparr>db_mutation := OutboxEventMutation_Where ps (db_mutation b)\<rparr>"

definition OutboxEventDelete_sqlExec :: "'d nodes_lib \<Rightarrow> OutboxEventDelete \<Rightarrow> 'd \<Rightarrow> 'd \<times> (ent_error + i64)" where
  "OutboxEventDelete_sqlExec N b d =
     (case sqlgraph_DeleteNodes N (db_driver b) outboxevent_Table (bm_predicates (db_mutation b)) d of
        (d, Inl e) \<Rightarrow> (d, Inl (constraint_error e))
      | (d, Inr affected) \<Rightarrow> (d, Inr affected))"

definition OutboxEventDelete_Exec :: "'d nodes_lib \<Rightarrow> OutboxEventDelete \<Rightarrow> 'd \<Rightarrow> 'd \<times> (ent_error + i64)" where
  "OutboxEventDelete_Exec = OutboxEventDelete_sqlExec"

text \<open>The builder for one row wraps that for many.\<close>

definition OutboxEventClient_DeleteOneID :: "driver \<Rightarrow> uuid \<Rightarrow> OutboxEventDelete" where [ent_defs]:
  "OutboxEventClient_DeleteOneID drv i =
     (let builder = OutboxEventDelete_Where [FieldEQ FieldID (VUUID i)] (OutboxEventClient_Delete drv)
      in builder\<lparr>db_mutation := (db_mutation builder)\<lparr>bm_id := Some i, bm_op := OpDeleteOne\<rparr>\<rparr>)"

definition OutboxEventClient_DeleteOne :: "driver \<Rightarrow> OutboxEvent \<Rightarrow> OutboxEventDelete" where [ent_defs]:
  "OutboxEventClient_DeleteOne drv m = OutboxEventClient_DeleteOneID drv (ob_ID m)"

definition OutboxEventDeleteOne_Where :: "sql_pred list \<Rightarrow> OutboxEventDelete \<Rightarrow> OutboxEventDelete" where [ent_defs]:
  "OutboxEventDeleteOne_Where = OutboxEventDelete_Where"

definition OutboxEventDeleteOne_Exec :: "'d nodes_lib \<Rightarrow> OutboxEventDelete \<Rightarrow> 'd \<Rightarrow> 'd \<times> ent_error option" where
  "OutboxEventDeleteOne_Exec N b d =
     (case OutboxEventDelete_Exec N b d of
        (d, Inl e) \<Rightarrow> (d, Some e)
      | (d, Inr n) \<Rightarrow> (d, if n = 0 then Some (NotFoundError outboxevent_Label) else None))"

end
