(* ===== verification/EntWhere.thy ===== *)
theory EntWhere
  imports Ent
begin

text \<open>
  The predicates of the three \<open>where.go\<close> files: each names a column and a comparison. Those
  the service applies are in the theory Ent. Left out are the comparisons that ignore case,
  which the database decides, and those along an edge (\<open>HasItems\<close>, \<open>HasOrder\<close>).
\<close>

subsection \<open>Predicates on orders\<close>

definition order_IDNEQ :: "uuid \<Rightarrow> sql_pred" where
  "order_IDNEQ v = FieldNEQ FieldID (VUUID v)"

definition order_IDIn :: "uuid list \<Rightarrow> sql_pred" where
  "order_IDIn vs = FieldIn FieldID (map VUUID vs)"

definition order_IDNotIn :: "uuid list \<Rightarrow> sql_pred" where
  "order_IDNotIn vs = FieldNotIn FieldID (map VUUID vs)"

definition order_IDGT :: "uuid \<Rightarrow> sql_pred" where
  "order_IDGT v = FieldGT FieldID (VUUID v)"

definition order_IDGTE :: "uuid \<Rightarrow> sql_pred" where
  "order_IDGTE v = FieldGTE FieldID (VUUID v)"

definition order_IDLT :: "uuid \<Rightarrow> sql_pred" where
  "order_IDLT v = FieldLT FieldID (VUUID v)"

definition order_IDLTE :: "uuid \<Rightarrow> sql_pred" where
  "order_IDLTE v = FieldLTE FieldID (VUUID v)"

definition order_CreatedAt :: "time \<Rightarrow> sql_pred" where
  "order_CreatedAt v = FieldEQ FieldCreatedAt (VTime v)"

definition order_UpdatedAt :: "time \<Rightarrow> sql_pred" where
  "order_UpdatedAt v = FieldEQ FieldUpdatedAt (VTime v)"

definition order_CustomerID :: "uuid \<Rightarrow> sql_pred" where
  "order_CustomerID v = FieldEQ order_FieldCustomerID (VUUID v)"

definition order_Subtotal :: "float64 \<Rightarrow> sql_pred" where
  "order_Subtotal v = FieldEQ order_FieldSubtotal (VFloat v)"

definition order_Tax :: "float64 \<Rightarrow> sql_pred" where
  "order_Tax v = FieldEQ order_FieldTax (VFloat v)"

definition order_ShippingCost :: "float64 \<Rightarrow> sql_pred" where
  "order_ShippingCost v = FieldEQ order_FieldShippingCost (VFloat v)"

definition order_Total :: "float64 \<Rightarrow> sql_pred" where
  "order_Total v = FieldEQ order_FieldTotal (VFloat v)"

definition order_ShippingAddress :: "string \<Rightarrow> sql_pred" where
  "order_ShippingAddress v = FieldEQ order_FieldShippingAddress (VString v)"

definition order_BillingAddress :: "string \<Rightarrow> sql_pred" where
  "order_BillingAddress v = FieldEQ order_FieldBillingAddress (VString v)"

definition order_ErrorMessage :: "string \<Rightarrow> sql_pred" where
  "order_ErrorMessage v = FieldEQ order_FieldErrorMessage (VString v)"

definition order_CreatedAtEQ :: "time \<Rightarrow> sql_pred" where
  "order_CreatedAtEQ v = FieldEQ FieldCreatedAt (VTime v)"

definition order_CreatedAtNEQ :: "time \<Rightarrow> sql_pred" where
  "order_CreatedAtNEQ v = FieldNEQ FieldCreatedAt (VTime v)"

definition order_CreatedAtIn :: "time list \<Rightarrow> sql_pred" where
  "order_CreatedAtIn vs = FieldIn FieldCreatedAt (map VTime vs)"

definition order_CreatedAtNotIn :: "time list \<Rightarrow> sql_pred" where
  "order_CreatedAtNotIn vs = FieldNotIn FieldCreatedAt (map VTime vs)"

definition order_CreatedAtGTE :: "time \<Rightarrow> sql_pred" where
  "order_CreatedAtGTE v = FieldGTE FieldCreatedAt (VTime v)"

definition order_CreatedAtLT :: "time \<Rightarrow> sql_pred" where
  "order_CreatedAtLT v = FieldLT FieldCreatedAt (VTime v)"

definition order_CreatedAtLTE :: "time \<Rightarrow> sql_pred" where
  "order_CreatedAtLTE v = FieldLTE FieldCreatedAt (VTime v)"

definition order_UpdatedAtEQ :: "time \<Rightarrow> sql_pred" where
  "order_UpdatedAtEQ v = FieldEQ FieldUpdatedAt (VTime v)"

definition order_UpdatedAtNEQ :: "time \<Rightarrow> sql_pred" where
  "order_UpdatedAtNEQ v = FieldNEQ FieldUpdatedAt (VTime v)"

definition order_UpdatedAtIn :: "time list \<Rightarrow> sql_pred" where
  "order_UpdatedAtIn vs = FieldIn FieldUpdatedAt (map VTime vs)"

definition order_UpdatedAtNotIn :: "time list \<Rightarrow> sql_pred" where
  "order_UpdatedAtNotIn vs = FieldNotIn FieldUpdatedAt (map VTime vs)"

definition order_UpdatedAtGT :: "time \<Rightarrow> sql_pred" where
  "order_UpdatedAtGT v = FieldGT FieldUpdatedAt (VTime v)"

definition order_UpdatedAtGTE :: "time \<Rightarrow> sql_pred" where
  "order_UpdatedAtGTE v = FieldGTE FieldUpdatedAt (VTime v)"

definition order_UpdatedAtLT :: "time \<Rightarrow> sql_pred" where
  "order_UpdatedAtLT v = FieldLT FieldUpdatedAt (VTime v)"

definition order_UpdatedAtLTE :: "time \<Rightarrow> sql_pred" where
  "order_UpdatedAtLTE v = FieldLTE FieldUpdatedAt (VTime v)"

definition order_CustomerIDNEQ :: "uuid \<Rightarrow> sql_pred" where
  "order_CustomerIDNEQ v = FieldNEQ order_FieldCustomerID (VUUID v)"

definition order_CustomerIDIn :: "uuid list \<Rightarrow> sql_pred" where
  "order_CustomerIDIn vs = FieldIn order_FieldCustomerID (map VUUID vs)"

definition order_CustomerIDNotIn :: "uuid list \<Rightarrow> sql_pred" where
  "order_CustomerIDNotIn vs = FieldNotIn order_FieldCustomerID (map VUUID vs)"

definition order_CustomerIDGT :: "uuid \<Rightarrow> sql_pred" where
  "order_CustomerIDGT v = FieldGT order_FieldCustomerID (VUUID v)"

definition order_CustomerIDGTE :: "uuid \<Rightarrow> sql_pred" where
  "order_CustomerIDGTE v = FieldGTE order_FieldCustomerID (VUUID v)"

definition order_CustomerIDLT :: "uuid \<Rightarrow> sql_pred" where
  "order_CustomerIDLT v = FieldLT order_FieldCustomerID (VUUID v)"

definition order_CustomerIDLTE :: "uuid \<Rightarrow> sql_pred" where
  "order_CustomerIDLTE v = FieldLTE order_FieldCustomerID (VUUID v)"

definition order_StatusNEQ :: "status \<Rightarrow> sql_pred" where
  "order_StatusNEQ v = FieldNEQ order_FieldStatus (VStatus v)"

definition order_StatusIn :: "status list \<Rightarrow> sql_pred" where
  "order_StatusIn vs = FieldIn order_FieldStatus (map VStatus vs)"

definition order_StatusNotIn :: "status list \<Rightarrow> sql_pred" where
  "order_StatusNotIn vs = FieldNotIn order_FieldStatus (map VStatus vs)"

definition order_SubtotalEQ :: "float64 \<Rightarrow> sql_pred" where
  "order_SubtotalEQ v = FieldEQ order_FieldSubtotal (VFloat v)"

definition order_SubtotalNEQ :: "float64 \<Rightarrow> sql_pred" where
  "order_SubtotalNEQ v = FieldNEQ order_FieldSubtotal (VFloat v)"

definition order_SubtotalIn :: "float64 list \<Rightarrow> sql_pred" where
  "order_SubtotalIn vs = FieldIn order_FieldSubtotal (map VFloat vs)"

definition order_SubtotalNotIn :: "float64 list \<Rightarrow> sql_pred" where
  "order_SubtotalNotIn vs = FieldNotIn order_FieldSubtotal (map VFloat vs)"

definition order_SubtotalGT :: "float64 \<Rightarrow> sql_pred" where
  "order_SubtotalGT v = FieldGT order_FieldSubtotal (VFloat v)"

definition order_SubtotalGTE :: "float64 \<Rightarrow> sql_pred" where
  "order_SubtotalGTE v = FieldGTE order_FieldSubtotal (VFloat v)"

definition order_SubtotalLT :: "float64 \<Rightarrow> sql_pred" where
  "order_SubtotalLT v = FieldLT order_FieldSubtotal (VFloat v)"

definition order_SubtotalLTE :: "float64 \<Rightarrow> sql_pred" where
  "order_SubtotalLTE v = FieldLTE order_FieldSubtotal (VFloat v)"

definition order_TaxEQ :: "float64 \<Rightarrow> sql_pred" where
  "order_TaxEQ v = FieldEQ order_FieldTax (VFloat v)"

definition order_TaxNEQ :: "float64 \<Rightarrow> sql_pred" where
  "order_TaxNEQ v = FieldNEQ order_FieldTax (VFloat v)"

definition order_TaxIn :: "float64 list \<Rightarrow> sql_pred" where
  "order_TaxIn vs = FieldIn order_FieldTax (map VFloat vs)"

definition order_TaxNotIn :: "float64 list \<Rightarrow> sql_pred" where
  "order_TaxNotIn vs = FieldNotIn order_FieldTax (map VFloat vs)"

definition order_TaxGT :: "float64 \<Rightarrow> sql_pred" where
  "order_TaxGT v = FieldGT order_FieldTax (VFloat v)"

definition order_TaxGTE :: "float64 \<Rightarrow> sql_pred" where
  "order_TaxGTE v = FieldGTE order_FieldTax (VFloat v)"

definition order_TaxLT :: "float64 \<Rightarrow> sql_pred" where
  "order_TaxLT v = FieldLT order_FieldTax (VFloat v)"

definition order_TaxLTE :: "float64 \<Rightarrow> sql_pred" where
  "order_TaxLTE v = FieldLTE order_FieldTax (VFloat v)"

definition order_ShippingCostEQ :: "float64 \<Rightarrow> sql_pred" where
  "order_ShippingCostEQ v = FieldEQ order_FieldShippingCost (VFloat v)"

definition order_ShippingCostNEQ :: "float64 \<Rightarrow> sql_pred" where
  "order_ShippingCostNEQ v = FieldNEQ order_FieldShippingCost (VFloat v)"

definition order_ShippingCostIn :: "float64 list \<Rightarrow> sql_pred" where
  "order_ShippingCostIn vs = FieldIn order_FieldShippingCost (map VFloat vs)"

definition order_ShippingCostNotIn :: "float64 list \<Rightarrow> sql_pred" where
  "order_ShippingCostNotIn vs = FieldNotIn order_FieldShippingCost (map VFloat vs)"

definition order_ShippingCostGT :: "float64 \<Rightarrow> sql_pred" where
  "order_ShippingCostGT v = FieldGT order_FieldShippingCost (VFloat v)"

definition order_ShippingCostGTE :: "float64 \<Rightarrow> sql_pred" where
  "order_ShippingCostGTE v = FieldGTE order_FieldShippingCost (VFloat v)"

definition order_ShippingCostLT :: "float64 \<Rightarrow> sql_pred" where
  "order_ShippingCostLT v = FieldLT order_FieldShippingCost (VFloat v)"

definition order_ShippingCostLTE :: "float64 \<Rightarrow> sql_pred" where
  "order_ShippingCostLTE v = FieldLTE order_FieldShippingCost (VFloat v)"

definition order_TotalEQ :: "float64 \<Rightarrow> sql_pred" where
  "order_TotalEQ v = FieldEQ order_FieldTotal (VFloat v)"

definition order_TotalNEQ :: "float64 \<Rightarrow> sql_pred" where
  "order_TotalNEQ v = FieldNEQ order_FieldTotal (VFloat v)"

definition order_TotalIn :: "float64 list \<Rightarrow> sql_pred" where
  "order_TotalIn vs = FieldIn order_FieldTotal (map VFloat vs)"

definition order_TotalNotIn :: "float64 list \<Rightarrow> sql_pred" where
  "order_TotalNotIn vs = FieldNotIn order_FieldTotal (map VFloat vs)"

definition order_TotalGT :: "float64 \<Rightarrow> sql_pred" where
  "order_TotalGT v = FieldGT order_FieldTotal (VFloat v)"

definition order_TotalGTE :: "float64 \<Rightarrow> sql_pred" where
  "order_TotalGTE v = FieldGTE order_FieldTotal (VFloat v)"

definition order_TotalLT :: "float64 \<Rightarrow> sql_pred" where
  "order_TotalLT v = FieldLT order_FieldTotal (VFloat v)"

definition order_TotalLTE :: "float64 \<Rightarrow> sql_pred" where
  "order_TotalLTE v = FieldLTE order_FieldTotal (VFloat v)"

definition order_ShippingAddressEQ :: "string \<Rightarrow> sql_pred" where
  "order_ShippingAddressEQ v = FieldEQ order_FieldShippingAddress (VString v)"

definition order_ShippingAddressNEQ :: "string \<Rightarrow> sql_pred" where
  "order_ShippingAddressNEQ v = FieldNEQ order_FieldShippingAddress (VString v)"

definition order_ShippingAddressIn :: "string list \<Rightarrow> sql_pred" where
  "order_ShippingAddressIn vs = FieldIn order_FieldShippingAddress (map VString vs)"

definition order_ShippingAddressNotIn :: "string list \<Rightarrow> sql_pred" where
  "order_ShippingAddressNotIn vs = FieldNotIn order_FieldShippingAddress (map VString vs)"

definition order_ShippingAddressGT :: "string \<Rightarrow> sql_pred" where
  "order_ShippingAddressGT v = FieldGT order_FieldShippingAddress (VString v)"

definition order_ShippingAddressGTE :: "string \<Rightarrow> sql_pred" where
  "order_ShippingAddressGTE v = FieldGTE order_FieldShippingAddress (VString v)"

definition order_ShippingAddressLT :: "string \<Rightarrow> sql_pred" where
  "order_ShippingAddressLT v = FieldLT order_FieldShippingAddress (VString v)"

definition order_ShippingAddressLTE :: "string \<Rightarrow> sql_pred" where
  "order_ShippingAddressLTE v = FieldLTE order_FieldShippingAddress (VString v)"

definition order_ShippingAddressContains :: "string \<Rightarrow> sql_pred" where
  "order_ShippingAddressContains v = FieldContains order_FieldShippingAddress v"

definition order_ShippingAddressHasPrefix :: "string \<Rightarrow> sql_pred" where
  "order_ShippingAddressHasPrefix v = FieldHasPrefix order_FieldShippingAddress v"

definition order_ShippingAddressHasSuffix :: "string \<Rightarrow> sql_pred" where
  "order_ShippingAddressHasSuffix v = FieldHasSuffix order_FieldShippingAddress v"

definition order_BillingAddressEQ :: "string \<Rightarrow> sql_pred" where
  "order_BillingAddressEQ v = FieldEQ order_FieldBillingAddress (VString v)"

definition order_BillingAddressNEQ :: "string \<Rightarrow> sql_pred" where
  "order_BillingAddressNEQ v = FieldNEQ order_FieldBillingAddress (VString v)"

definition order_BillingAddressIn :: "string list \<Rightarrow> sql_pred" where
  "order_BillingAddressIn vs = FieldIn order_FieldBillingAddress (map VString vs)"

definition order_BillingAddressNotIn :: "string list \<Rightarrow> sql_pred" where
  "order_BillingAddressNotIn vs = FieldNotIn order_FieldBillingAddress (map VString vs)"

definition order_BillingAddressGT :: "string \<Rightarrow> sql_pred" where
  "order_BillingAddressGT v = FieldGT order_FieldBillingAddress (VString v)"

definition order_BillingAddressGTE :: "string \<Rightarrow> sql_pred" where
  "order_BillingAddressGTE v = FieldGTE order_FieldBillingAddress (VString v)"

definition order_BillingAddressLT :: "string \<Rightarrow> sql_pred" where
  "order_BillingAddressLT v = FieldLT order_FieldBillingAddress (VString v)"

definition order_BillingAddressLTE :: "string \<Rightarrow> sql_pred" where
  "order_BillingAddressLTE v = FieldLTE order_FieldBillingAddress (VString v)"

definition order_BillingAddressContains :: "string \<Rightarrow> sql_pred" where
  "order_BillingAddressContains v = FieldContains order_FieldBillingAddress v"

definition order_BillingAddressHasPrefix :: "string \<Rightarrow> sql_pred" where
  "order_BillingAddressHasPrefix v = FieldHasPrefix order_FieldBillingAddress v"

definition order_BillingAddressHasSuffix :: "string \<Rightarrow> sql_pred" where
  "order_BillingAddressHasSuffix v = FieldHasSuffix order_FieldBillingAddress v"

definition order_ErrorMessageEQ :: "string \<Rightarrow> sql_pred" where
  "order_ErrorMessageEQ v = FieldEQ order_FieldErrorMessage (VString v)"

definition order_ErrorMessageNEQ :: "string \<Rightarrow> sql_pred" where
  "order_ErrorMessageNEQ v = FieldNEQ order_FieldErrorMessage (VString v)"

definition order_ErrorMessageIn :: "string list \<Rightarrow> sql_pred" where
  "order_ErrorMessageIn vs = FieldIn order_FieldErrorMessage (map VString vs)"

definition order_ErrorMessageNotIn :: "string list \<Rightarrow> sql_pred" where
  "order_ErrorMessageNotIn vs = FieldNotIn order_FieldErrorMessage (map VString vs)"

definition order_ErrorMessageGT :: "string \<Rightarrow> sql_pred" where
  "order_ErrorMessageGT v = FieldGT order_FieldErrorMessage (VString v)"

definition order_ErrorMessageGTE :: "string \<Rightarrow> sql_pred" where
  "order_ErrorMessageGTE v = FieldGTE order_FieldErrorMessage (VString v)"

definition order_ErrorMessageLT :: "string \<Rightarrow> sql_pred" where
  "order_ErrorMessageLT v = FieldLT order_FieldErrorMessage (VString v)"

definition order_ErrorMessageLTE :: "string \<Rightarrow> sql_pred" where
  "order_ErrorMessageLTE v = FieldLTE order_FieldErrorMessage (VString v)"

definition order_ErrorMessageContains :: "string \<Rightarrow> sql_pred" where
  "order_ErrorMessageContains v = FieldContains order_FieldErrorMessage v"

definition order_ErrorMessageHasPrefix :: "string \<Rightarrow> sql_pred" where
  "order_ErrorMessageHasPrefix v = FieldHasPrefix order_FieldErrorMessage v"

definition order_ErrorMessageHasSuffix :: "string \<Rightarrow> sql_pred" where
  "order_ErrorMessageHasSuffix v = FieldHasSuffix order_FieldErrorMessage v"

definition order_ErrorMessageIsNil :: sql_pred where
  "order_ErrorMessageIsNil = FieldIsNull order_FieldErrorMessage"

definition order_ErrorMessageNotNil :: sql_pred where
  "order_ErrorMessageNotNil = FieldNotNull order_FieldErrorMessage"

definition order_And :: "sql_pred list \<Rightarrow> sql_pred" where
  "order_And predicates = PredAnd predicates"

definition order_Or :: "sql_pred list \<Rightarrow> sql_pred" where
  "order_Or predicates = PredOr predicates"

definition order_Not :: "sql_pred \<Rightarrow> sql_pred" where
  "order_Not p = PredNot p"

subsection \<open>Predicates on lines\<close>

definition orderitem_ID :: "uuid \<Rightarrow> sql_pred" where
  "orderitem_ID v = FieldEQ FieldID (VUUID v)"

definition orderitem_IDEQ :: "uuid \<Rightarrow> sql_pred" where
  "orderitem_IDEQ v = FieldEQ FieldID (VUUID v)"

definition orderitem_IDNEQ :: "uuid \<Rightarrow> sql_pred" where
  "orderitem_IDNEQ v = FieldNEQ FieldID (VUUID v)"

definition orderitem_IDIn :: "uuid list \<Rightarrow> sql_pred" where
  "orderitem_IDIn vs = FieldIn FieldID (map VUUID vs)"

definition orderitem_IDNotIn :: "uuid list \<Rightarrow> sql_pred" where
  "orderitem_IDNotIn vs = FieldNotIn FieldID (map VUUID vs)"

definition orderitem_IDGT :: "uuid \<Rightarrow> sql_pred" where
  "orderitem_IDGT v = FieldGT FieldID (VUUID v)"

definition orderitem_IDGTE :: "uuid \<Rightarrow> sql_pred" where
  "orderitem_IDGTE v = FieldGTE FieldID (VUUID v)"

definition orderitem_IDLT :: "uuid \<Rightarrow> sql_pred" where
  "orderitem_IDLT v = FieldLT FieldID (VUUID v)"

definition orderitem_IDLTE :: "uuid \<Rightarrow> sql_pred" where
  "orderitem_IDLTE v = FieldLTE FieldID (VUUID v)"

definition orderitem_CreatedAt :: "time \<Rightarrow> sql_pred" where
  "orderitem_CreatedAt v = FieldEQ FieldCreatedAt (VTime v)"

definition orderitem_UpdatedAt :: "time \<Rightarrow> sql_pred" where
  "orderitem_UpdatedAt v = FieldEQ FieldUpdatedAt (VTime v)"

definition orderitem_ProductID :: "uuid \<Rightarrow> sql_pred" where
  "orderitem_ProductID v = FieldEQ orderitem_FieldProductID (VUUID v)"

definition orderitem_VariantID :: "uuid \<Rightarrow> sql_pred" where
  "orderitem_VariantID v = FieldEQ orderitem_FieldVariantID (VUUID v)"

definition orderitem_ProductName :: "string \<Rightarrow> sql_pred" where
  "orderitem_ProductName v = FieldEQ orderitem_FieldProductName (VString v)"

definition orderitem_VariantDescription :: "string \<Rightarrow> sql_pred" where
  "orderitem_VariantDescription v = FieldEQ orderitem_FieldVariantDescription (VString v)"

definition orderitem_UnitPrice :: "float64 \<Rightarrow> sql_pred" where
  "orderitem_UnitPrice v = FieldEQ orderitem_FieldUnitPrice (VFloat v)"

definition orderitem_Quantity :: "i64 \<Rightarrow> sql_pred" where
  "orderitem_Quantity v = FieldEQ orderitem_FieldQuantity (VInt v)"

definition orderitem_TotalPrice :: "float64 \<Rightarrow> sql_pred" where
  "orderitem_TotalPrice v = FieldEQ orderitem_FieldTotalPrice (VFloat v)"

definition orderitem_ImageURL :: "string \<Rightarrow> sql_pred" where
  "orderitem_ImageURL v = FieldEQ orderitem_FieldImageURL (VString v)"

definition orderitem_CreatedAtEQ :: "time \<Rightarrow> sql_pred" where
  "orderitem_CreatedAtEQ v = FieldEQ FieldCreatedAt (VTime v)"

definition orderitem_CreatedAtNEQ :: "time \<Rightarrow> sql_pred" where
  "orderitem_CreatedAtNEQ v = FieldNEQ FieldCreatedAt (VTime v)"

definition orderitem_CreatedAtIn :: "time list \<Rightarrow> sql_pred" where
  "orderitem_CreatedAtIn vs = FieldIn FieldCreatedAt (map VTime vs)"

definition orderitem_CreatedAtNotIn :: "time list \<Rightarrow> sql_pred" where
  "orderitem_CreatedAtNotIn vs = FieldNotIn FieldCreatedAt (map VTime vs)"

definition orderitem_CreatedAtGT :: "time \<Rightarrow> sql_pred" where
  "orderitem_CreatedAtGT v = FieldGT FieldCreatedAt (VTime v)"

definition orderitem_CreatedAtGTE :: "time \<Rightarrow> sql_pred" where
  "orderitem_CreatedAtGTE v = FieldGTE FieldCreatedAt (VTime v)"

definition orderitem_CreatedAtLT :: "time \<Rightarrow> sql_pred" where
  "orderitem_CreatedAtLT v = FieldLT FieldCreatedAt (VTime v)"

definition orderitem_CreatedAtLTE :: "time \<Rightarrow> sql_pred" where
  "orderitem_CreatedAtLTE v = FieldLTE FieldCreatedAt (VTime v)"

definition orderitem_UpdatedAtEQ :: "time \<Rightarrow> sql_pred" where
  "orderitem_UpdatedAtEQ v = FieldEQ FieldUpdatedAt (VTime v)"

definition orderitem_UpdatedAtNEQ :: "time \<Rightarrow> sql_pred" where
  "orderitem_UpdatedAtNEQ v = FieldNEQ FieldUpdatedAt (VTime v)"

definition orderitem_UpdatedAtIn :: "time list \<Rightarrow> sql_pred" where
  "orderitem_UpdatedAtIn vs = FieldIn FieldUpdatedAt (map VTime vs)"

definition orderitem_UpdatedAtNotIn :: "time list \<Rightarrow> sql_pred" where
  "orderitem_UpdatedAtNotIn vs = FieldNotIn FieldUpdatedAt (map VTime vs)"

definition orderitem_UpdatedAtGT :: "time \<Rightarrow> sql_pred" where
  "orderitem_UpdatedAtGT v = FieldGT FieldUpdatedAt (VTime v)"

definition orderitem_UpdatedAtGTE :: "time \<Rightarrow> sql_pred" where
  "orderitem_UpdatedAtGTE v = FieldGTE FieldUpdatedAt (VTime v)"

definition orderitem_UpdatedAtLT :: "time \<Rightarrow> sql_pred" where
  "orderitem_UpdatedAtLT v = FieldLT FieldUpdatedAt (VTime v)"

definition orderitem_UpdatedAtLTE :: "time \<Rightarrow> sql_pred" where
  "orderitem_UpdatedAtLTE v = FieldLTE FieldUpdatedAt (VTime v)"

definition orderitem_ProductIDEQ :: "uuid \<Rightarrow> sql_pred" where
  "orderitem_ProductIDEQ v = FieldEQ orderitem_FieldProductID (VUUID v)"

definition orderitem_ProductIDNEQ :: "uuid \<Rightarrow> sql_pred" where
  "orderitem_ProductIDNEQ v = FieldNEQ orderitem_FieldProductID (VUUID v)"

definition orderitem_ProductIDIn :: "uuid list \<Rightarrow> sql_pred" where
  "orderitem_ProductIDIn vs = FieldIn orderitem_FieldProductID (map VUUID vs)"

definition orderitem_ProductIDNotIn :: "uuid list \<Rightarrow> sql_pred" where
  "orderitem_ProductIDNotIn vs = FieldNotIn orderitem_FieldProductID (map VUUID vs)"

definition orderitem_ProductIDGT :: "uuid \<Rightarrow> sql_pred" where
  "orderitem_ProductIDGT v = FieldGT orderitem_FieldProductID (VUUID v)"

definition orderitem_ProductIDGTE :: "uuid \<Rightarrow> sql_pred" where
  "orderitem_ProductIDGTE v = FieldGTE orderitem_FieldProductID (VUUID v)"

definition orderitem_ProductIDLT :: "uuid \<Rightarrow> sql_pred" where
  "orderitem_ProductIDLT v = FieldLT orderitem_FieldProductID (VUUID v)"

definition orderitem_ProductIDLTE :: "uuid \<Rightarrow> sql_pred" where
  "orderitem_ProductIDLTE v = FieldLTE orderitem_FieldProductID (VUUID v)"

definition orderitem_VariantIDEQ :: "uuid \<Rightarrow> sql_pred" where
  "orderitem_VariantIDEQ v = FieldEQ orderitem_FieldVariantID (VUUID v)"

definition orderitem_VariantIDNEQ :: "uuid \<Rightarrow> sql_pred" where
  "orderitem_VariantIDNEQ v = FieldNEQ orderitem_FieldVariantID (VUUID v)"

definition orderitem_VariantIDIn :: "uuid list \<Rightarrow> sql_pred" where
  "orderitem_VariantIDIn vs = FieldIn orderitem_FieldVariantID (map VUUID vs)"

definition orderitem_VariantIDNotIn :: "uuid list \<Rightarrow> sql_pred" where
  "orderitem_VariantIDNotIn vs = FieldNotIn orderitem_FieldVariantID (map VUUID vs)"

definition orderitem_VariantIDGT :: "uuid \<Rightarrow> sql_pred" where
  "orderitem_VariantIDGT v = FieldGT orderitem_FieldVariantID (VUUID v)"

definition orderitem_VariantIDGTE :: "uuid \<Rightarrow> sql_pred" where
  "orderitem_VariantIDGTE v = FieldGTE orderitem_FieldVariantID (VUUID v)"

definition orderitem_VariantIDLT :: "uuid \<Rightarrow> sql_pred" where
  "orderitem_VariantIDLT v = FieldLT orderitem_FieldVariantID (VUUID v)"

definition orderitem_VariantIDLTE :: "uuid \<Rightarrow> sql_pred" where
  "orderitem_VariantIDLTE v = FieldLTE orderitem_FieldVariantID (VUUID v)"

definition orderitem_ProductNameEQ :: "string \<Rightarrow> sql_pred" where
  "orderitem_ProductNameEQ v = FieldEQ orderitem_FieldProductName (VString v)"

definition orderitem_ProductNameNEQ :: "string \<Rightarrow> sql_pred" where
  "orderitem_ProductNameNEQ v = FieldNEQ orderitem_FieldProductName (VString v)"

definition orderitem_ProductNameIn :: "string list \<Rightarrow> sql_pred" where
  "orderitem_ProductNameIn vs = FieldIn orderitem_FieldProductName (map VString vs)"

definition orderitem_ProductNameNotIn :: "string list \<Rightarrow> sql_pred" where
  "orderitem_ProductNameNotIn vs = FieldNotIn orderitem_FieldProductName (map VString vs)"

definition orderitem_ProductNameGT :: "string \<Rightarrow> sql_pred" where
  "orderitem_ProductNameGT v = FieldGT orderitem_FieldProductName (VString v)"

definition orderitem_ProductNameGTE :: "string \<Rightarrow> sql_pred" where
  "orderitem_ProductNameGTE v = FieldGTE orderitem_FieldProductName (VString v)"

definition orderitem_ProductNameLT :: "string \<Rightarrow> sql_pred" where
  "orderitem_ProductNameLT v = FieldLT orderitem_FieldProductName (VString v)"

definition orderitem_ProductNameLTE :: "string \<Rightarrow> sql_pred" where
  "orderitem_ProductNameLTE v = FieldLTE orderitem_FieldProductName (VString v)"

definition orderitem_ProductNameContains :: "string \<Rightarrow> sql_pred" where
  "orderitem_ProductNameContains v = FieldContains orderitem_FieldProductName v"

definition orderitem_ProductNameHasPrefix :: "string \<Rightarrow> sql_pred" where
  "orderitem_ProductNameHasPrefix v = FieldHasPrefix orderitem_FieldProductName v"

definition orderitem_ProductNameHasSuffix :: "string \<Rightarrow> sql_pred" where
  "orderitem_ProductNameHasSuffix v = FieldHasSuffix orderitem_FieldProductName v"

definition orderitem_VariantDescriptionEQ :: "string \<Rightarrow> sql_pred" where
  "orderitem_VariantDescriptionEQ v = FieldEQ orderitem_FieldVariantDescription (VString v)"

definition orderitem_VariantDescriptionNEQ :: "string \<Rightarrow> sql_pred" where
  "orderitem_VariantDescriptionNEQ v = FieldNEQ orderitem_FieldVariantDescription (VString v)"

definition orderitem_VariantDescriptionIn :: "string list \<Rightarrow> sql_pred" where
  "orderitem_VariantDescriptionIn vs = FieldIn orderitem_FieldVariantDescription (map VString vs)"

definition orderitem_VariantDescriptionNotIn :: "string list \<Rightarrow> sql_pred" where
  "orderitem_VariantDescriptionNotIn vs = FieldNotIn orderitem_FieldVariantDescription (map VString vs)"

definition orderitem_VariantDescriptionGT :: "string \<Rightarrow> sql_pred" where
  "orderitem_VariantDescriptionGT v = FieldGT orderitem_FieldVariantDescription (VString v)"

definition orderitem_VariantDescriptionGTE :: "string \<Rightarrow> sql_pred" where
  "orderitem_VariantDescriptionGTE v = FieldGTE orderitem_FieldVariantDescription (VString v)"

definition orderitem_VariantDescriptionLT :: "string \<Rightarrow> sql_pred" where
  "orderitem_VariantDescriptionLT v = FieldLT orderitem_FieldVariantDescription (VString v)"

definition orderitem_VariantDescriptionLTE :: "string \<Rightarrow> sql_pred" where
  "orderitem_VariantDescriptionLTE v = FieldLTE orderitem_FieldVariantDescription (VString v)"

definition orderitem_VariantDescriptionContains :: "string \<Rightarrow> sql_pred" where
  "orderitem_VariantDescriptionContains v = FieldContains orderitem_FieldVariantDescription v"

definition orderitem_VariantDescriptionHasPrefix :: "string \<Rightarrow> sql_pred" where
  "orderitem_VariantDescriptionHasPrefix v = FieldHasPrefix orderitem_FieldVariantDescription v"

definition orderitem_VariantDescriptionHasSuffix :: "string \<Rightarrow> sql_pred" where
  "orderitem_VariantDescriptionHasSuffix v = FieldHasSuffix orderitem_FieldVariantDescription v"

definition orderitem_VariantDescriptionIsNil :: sql_pred where
  "orderitem_VariantDescriptionIsNil = FieldIsNull orderitem_FieldVariantDescription"

definition orderitem_VariantDescriptionNotNil :: sql_pred where
  "orderitem_VariantDescriptionNotNil = FieldNotNull orderitem_FieldVariantDescription"

definition orderitem_UnitPriceEQ :: "float64 \<Rightarrow> sql_pred" where
  "orderitem_UnitPriceEQ v = FieldEQ orderitem_FieldUnitPrice (VFloat v)"

definition orderitem_UnitPriceNEQ :: "float64 \<Rightarrow> sql_pred" where
  "orderitem_UnitPriceNEQ v = FieldNEQ orderitem_FieldUnitPrice (VFloat v)"

definition orderitem_UnitPriceIn :: "float64 list \<Rightarrow> sql_pred" where
  "orderitem_UnitPriceIn vs = FieldIn orderitem_FieldUnitPrice (map VFloat vs)"

definition orderitem_UnitPriceNotIn :: "float64 list \<Rightarrow> sql_pred" where
  "orderitem_UnitPriceNotIn vs = FieldNotIn orderitem_FieldUnitPrice (map VFloat vs)"

definition orderitem_UnitPriceGT :: "float64 \<Rightarrow> sql_pred" where
  "orderitem_UnitPriceGT v = FieldGT orderitem_FieldUnitPrice (VFloat v)"

definition orderitem_UnitPriceGTE :: "float64 \<Rightarrow> sql_pred" where
  "orderitem_UnitPriceGTE v = FieldGTE orderitem_FieldUnitPrice (VFloat v)"

definition orderitem_UnitPriceLT :: "float64 \<Rightarrow> sql_pred" where
  "orderitem_UnitPriceLT v = FieldLT orderitem_FieldUnitPrice (VFloat v)"

definition orderitem_UnitPriceLTE :: "float64 \<Rightarrow> sql_pred" where
  "orderitem_UnitPriceLTE v = FieldLTE orderitem_FieldUnitPrice (VFloat v)"

definition orderitem_QuantityEQ :: "i64 \<Rightarrow> sql_pred" where
  "orderitem_QuantityEQ v = FieldEQ orderitem_FieldQuantity (VInt v)"

definition orderitem_QuantityNEQ :: "i64 \<Rightarrow> sql_pred" where
  "orderitem_QuantityNEQ v = FieldNEQ orderitem_FieldQuantity (VInt v)"

definition orderitem_QuantityIn :: "i64 list \<Rightarrow> sql_pred" where
  "orderitem_QuantityIn vs = FieldIn orderitem_FieldQuantity (map VInt vs)"

definition orderitem_QuantityNotIn :: "i64 list \<Rightarrow> sql_pred" where
  "orderitem_QuantityNotIn vs = FieldNotIn orderitem_FieldQuantity (map VInt vs)"

definition orderitem_QuantityGT :: "i64 \<Rightarrow> sql_pred" where
  "orderitem_QuantityGT v = FieldGT orderitem_FieldQuantity (VInt v)"

definition orderitem_QuantityGTE :: "i64 \<Rightarrow> sql_pred" where
  "orderitem_QuantityGTE v = FieldGTE orderitem_FieldQuantity (VInt v)"

definition orderitem_QuantityLT :: "i64 \<Rightarrow> sql_pred" where
  "orderitem_QuantityLT v = FieldLT orderitem_FieldQuantity (VInt v)"

definition orderitem_QuantityLTE :: "i64 \<Rightarrow> sql_pred" where
  "orderitem_QuantityLTE v = FieldLTE orderitem_FieldQuantity (VInt v)"

definition orderitem_TotalPriceEQ :: "float64 \<Rightarrow> sql_pred" where
  "orderitem_TotalPriceEQ v = FieldEQ orderitem_FieldTotalPrice (VFloat v)"

definition orderitem_TotalPriceNEQ :: "float64 \<Rightarrow> sql_pred" where
  "orderitem_TotalPriceNEQ v = FieldNEQ orderitem_FieldTotalPrice (VFloat v)"

definition orderitem_TotalPriceIn :: "float64 list \<Rightarrow> sql_pred" where
  "orderitem_TotalPriceIn vs = FieldIn orderitem_FieldTotalPrice (map VFloat vs)"

definition orderitem_TotalPriceNotIn :: "float64 list \<Rightarrow> sql_pred" where
  "orderitem_TotalPriceNotIn vs = FieldNotIn orderitem_FieldTotalPrice (map VFloat vs)"

definition orderitem_TotalPriceGT :: "float64 \<Rightarrow> sql_pred" where
  "orderitem_TotalPriceGT v = FieldGT orderitem_FieldTotalPrice (VFloat v)"

definition orderitem_TotalPriceGTE :: "float64 \<Rightarrow> sql_pred" where
  "orderitem_TotalPriceGTE v = FieldGTE orderitem_FieldTotalPrice (VFloat v)"

definition orderitem_TotalPriceLT :: "float64 \<Rightarrow> sql_pred" where
  "orderitem_TotalPriceLT v = FieldLT orderitem_FieldTotalPrice (VFloat v)"

definition orderitem_TotalPriceLTE :: "float64 \<Rightarrow> sql_pred" where
  "orderitem_TotalPriceLTE v = FieldLTE orderitem_FieldTotalPrice (VFloat v)"

definition orderitem_ImageURLEQ :: "string \<Rightarrow> sql_pred" where
  "orderitem_ImageURLEQ v = FieldEQ orderitem_FieldImageURL (VString v)"

definition orderitem_ImageURLNEQ :: "string \<Rightarrow> sql_pred" where
  "orderitem_ImageURLNEQ v = FieldNEQ orderitem_FieldImageURL (VString v)"

definition orderitem_ImageURLIn :: "string list \<Rightarrow> sql_pred" where
  "orderitem_ImageURLIn vs = FieldIn orderitem_FieldImageURL (map VString vs)"

definition orderitem_ImageURLNotIn :: "string list \<Rightarrow> sql_pred" where
  "orderitem_ImageURLNotIn vs = FieldNotIn orderitem_FieldImageURL (map VString vs)"

definition orderitem_ImageURLGT :: "string \<Rightarrow> sql_pred" where
  "orderitem_ImageURLGT v = FieldGT orderitem_FieldImageURL (VString v)"

definition orderitem_ImageURLGTE :: "string \<Rightarrow> sql_pred" where
  "orderitem_ImageURLGTE v = FieldGTE orderitem_FieldImageURL (VString v)"

definition orderitem_ImageURLLT :: "string \<Rightarrow> sql_pred" where
  "orderitem_ImageURLLT v = FieldLT orderitem_FieldImageURL (VString v)"

definition orderitem_ImageURLLTE :: "string \<Rightarrow> sql_pred" where
  "orderitem_ImageURLLTE v = FieldLTE orderitem_FieldImageURL (VString v)"

definition orderitem_ImageURLContains :: "string \<Rightarrow> sql_pred" where
  "orderitem_ImageURLContains v = FieldContains orderitem_FieldImageURL v"

definition orderitem_ImageURLHasPrefix :: "string \<Rightarrow> sql_pred" where
  "orderitem_ImageURLHasPrefix v = FieldHasPrefix orderitem_FieldImageURL v"

definition orderitem_ImageURLHasSuffix :: "string \<Rightarrow> sql_pred" where
  "orderitem_ImageURLHasSuffix v = FieldHasSuffix orderitem_FieldImageURL v"

definition orderitem_ImageURLIsNil :: sql_pred where
  "orderitem_ImageURLIsNil = FieldIsNull orderitem_FieldImageURL"

definition orderitem_ImageURLNotNil :: sql_pred where
  "orderitem_ImageURLNotNil = FieldNotNull orderitem_FieldImageURL"

definition orderitem_And :: "sql_pred list \<Rightarrow> sql_pred" where
  "orderitem_And predicates = PredAnd predicates"

definition orderitem_Or :: "sql_pred list \<Rightarrow> sql_pred" where
  "orderitem_Or predicates = PredOr predicates"

definition orderitem_Not :: "sql_pred \<Rightarrow> sql_pred" where
  "orderitem_Not p = PredNot p"

subsection \<open>Predicates on outbox events\<close>

definition outboxevent_ID :: "uuid \<Rightarrow> sql_pred" where
  "outboxevent_ID v = FieldEQ FieldID (VUUID v)"

definition outboxevent_IDEQ :: "uuid \<Rightarrow> sql_pred" where
  "outboxevent_IDEQ v = FieldEQ FieldID (VUUID v)"

definition outboxevent_IDNEQ :: "uuid \<Rightarrow> sql_pred" where
  "outboxevent_IDNEQ v = FieldNEQ FieldID (VUUID v)"

definition outboxevent_IDIn :: "uuid list \<Rightarrow> sql_pred" where
  "outboxevent_IDIn vs = FieldIn FieldID (map VUUID vs)"

definition outboxevent_IDNotIn :: "uuid list \<Rightarrow> sql_pred" where
  "outboxevent_IDNotIn vs = FieldNotIn FieldID (map VUUID vs)"

definition outboxevent_IDGT :: "uuid \<Rightarrow> sql_pred" where
  "outboxevent_IDGT v = FieldGT FieldID (VUUID v)"

definition outboxevent_IDGTE :: "uuid \<Rightarrow> sql_pred" where
  "outboxevent_IDGTE v = FieldGTE FieldID (VUUID v)"

definition outboxevent_IDLT :: "uuid \<Rightarrow> sql_pred" where
  "outboxevent_IDLT v = FieldLT FieldID (VUUID v)"

definition outboxevent_IDLTE :: "uuid \<Rightarrow> sql_pred" where
  "outboxevent_IDLTE v = FieldLTE FieldID (VUUID v)"

definition outboxevent_CreatedAt :: "time \<Rightarrow> sql_pred" where
  "outboxevent_CreatedAt v = FieldEQ FieldCreatedAt (VTime v)"

definition outboxevent_UpdatedAt :: "time \<Rightarrow> sql_pred" where
  "outboxevent_UpdatedAt v = FieldEQ FieldUpdatedAt (VTime v)"

definition outboxevent_AggregateType :: "string \<Rightarrow> sql_pred" where
  "outboxevent_AggregateType v = FieldEQ outboxevent_FieldAggregateType (VString v)"

definition outboxevent_AggregateID :: "uuid \<Rightarrow> sql_pred" where
  "outboxevent_AggregateID v = FieldEQ outboxevent_FieldAggregateID (VUUID v)"

definition outboxevent_EventType :: "string \<Rightarrow> sql_pred" where
  "outboxevent_EventType v = FieldEQ outboxevent_FieldEventType (VString v)"

definition outboxevent_Payload :: "byte list \<Rightarrow> sql_pred" where
  "outboxevent_Payload v = FieldEQ outboxevent_FieldPayload (VBytes v)"

definition outboxevent_Processed :: "bool \<Rightarrow> sql_pred" where
  "outboxevent_Processed v = FieldEQ outboxevent_FieldProcessed (VBool v)"

definition outboxevent_CreatedAtEQ :: "time \<Rightarrow> sql_pred" where
  "outboxevent_CreatedAtEQ v = FieldEQ FieldCreatedAt (VTime v)"

definition outboxevent_CreatedAtNEQ :: "time \<Rightarrow> sql_pred" where
  "outboxevent_CreatedAtNEQ v = FieldNEQ FieldCreatedAt (VTime v)"

definition outboxevent_CreatedAtIn :: "time list \<Rightarrow> sql_pred" where
  "outboxevent_CreatedAtIn vs = FieldIn FieldCreatedAt (map VTime vs)"

definition outboxevent_CreatedAtNotIn :: "time list \<Rightarrow> sql_pred" where
  "outboxevent_CreatedAtNotIn vs = FieldNotIn FieldCreatedAt (map VTime vs)"

definition outboxevent_CreatedAtGT :: "time \<Rightarrow> sql_pred" where
  "outboxevent_CreatedAtGT v = FieldGT FieldCreatedAt (VTime v)"

definition outboxevent_CreatedAtGTE :: "time \<Rightarrow> sql_pred" where
  "outboxevent_CreatedAtGTE v = FieldGTE FieldCreatedAt (VTime v)"

definition outboxevent_CreatedAtLT :: "time \<Rightarrow> sql_pred" where
  "outboxevent_CreatedAtLT v = FieldLT FieldCreatedAt (VTime v)"

definition outboxevent_CreatedAtLTE :: "time \<Rightarrow> sql_pred" where
  "outboxevent_CreatedAtLTE v = FieldLTE FieldCreatedAt (VTime v)"

definition outboxevent_UpdatedAtEQ :: "time \<Rightarrow> sql_pred" where
  "outboxevent_UpdatedAtEQ v = FieldEQ FieldUpdatedAt (VTime v)"

definition outboxevent_UpdatedAtNEQ :: "time \<Rightarrow> sql_pred" where
  "outboxevent_UpdatedAtNEQ v = FieldNEQ FieldUpdatedAt (VTime v)"

definition outboxevent_UpdatedAtIn :: "time list \<Rightarrow> sql_pred" where
  "outboxevent_UpdatedAtIn vs = FieldIn FieldUpdatedAt (map VTime vs)"

definition outboxevent_UpdatedAtNotIn :: "time list \<Rightarrow> sql_pred" where
  "outboxevent_UpdatedAtNotIn vs = FieldNotIn FieldUpdatedAt (map VTime vs)"

definition outboxevent_UpdatedAtGT :: "time \<Rightarrow> sql_pred" where
  "outboxevent_UpdatedAtGT v = FieldGT FieldUpdatedAt (VTime v)"

definition outboxevent_UpdatedAtGTE :: "time \<Rightarrow> sql_pred" where
  "outboxevent_UpdatedAtGTE v = FieldGTE FieldUpdatedAt (VTime v)"

definition outboxevent_UpdatedAtLT :: "time \<Rightarrow> sql_pred" where
  "outboxevent_UpdatedAtLT v = FieldLT FieldUpdatedAt (VTime v)"

definition outboxevent_UpdatedAtLTE :: "time \<Rightarrow> sql_pred" where
  "outboxevent_UpdatedAtLTE v = FieldLTE FieldUpdatedAt (VTime v)"

definition outboxevent_AggregateTypeEQ :: "string \<Rightarrow> sql_pred" where
  "outboxevent_AggregateTypeEQ v = FieldEQ outboxevent_FieldAggregateType (VString v)"

definition outboxevent_AggregateTypeNEQ :: "string \<Rightarrow> sql_pred" where
  "outboxevent_AggregateTypeNEQ v = FieldNEQ outboxevent_FieldAggregateType (VString v)"

definition outboxevent_AggregateTypeIn :: "string list \<Rightarrow> sql_pred" where
  "outboxevent_AggregateTypeIn vs = FieldIn outboxevent_FieldAggregateType (map VString vs)"

definition outboxevent_AggregateTypeNotIn :: "string list \<Rightarrow> sql_pred" where
  "outboxevent_AggregateTypeNotIn vs = FieldNotIn outboxevent_FieldAggregateType (map VString vs)"

definition outboxevent_AggregateTypeGT :: "string \<Rightarrow> sql_pred" where
  "outboxevent_AggregateTypeGT v = FieldGT outboxevent_FieldAggregateType (VString v)"

definition outboxevent_AggregateTypeGTE :: "string \<Rightarrow> sql_pred" where
  "outboxevent_AggregateTypeGTE v = FieldGTE outboxevent_FieldAggregateType (VString v)"

definition outboxevent_AggregateTypeLT :: "string \<Rightarrow> sql_pred" where
  "outboxevent_AggregateTypeLT v = FieldLT outboxevent_FieldAggregateType (VString v)"

definition outboxevent_AggregateTypeLTE :: "string \<Rightarrow> sql_pred" where
  "outboxevent_AggregateTypeLTE v = FieldLTE outboxevent_FieldAggregateType (VString v)"

definition outboxevent_AggregateTypeContains :: "string \<Rightarrow> sql_pred" where
  "outboxevent_AggregateTypeContains v = FieldContains outboxevent_FieldAggregateType v"

definition outboxevent_AggregateTypeHasPrefix :: "string \<Rightarrow> sql_pred" where
  "outboxevent_AggregateTypeHasPrefix v = FieldHasPrefix outboxevent_FieldAggregateType v"

definition outboxevent_AggregateTypeHasSuffix :: "string \<Rightarrow> sql_pred" where
  "outboxevent_AggregateTypeHasSuffix v = FieldHasSuffix outboxevent_FieldAggregateType v"

definition outboxevent_AggregateIDEQ :: "uuid \<Rightarrow> sql_pred" where
  "outboxevent_AggregateIDEQ v = FieldEQ outboxevent_FieldAggregateID (VUUID v)"

definition outboxevent_AggregateIDNEQ :: "uuid \<Rightarrow> sql_pred" where
  "outboxevent_AggregateIDNEQ v = FieldNEQ outboxevent_FieldAggregateID (VUUID v)"

definition outboxevent_AggregateIDIn :: "uuid list \<Rightarrow> sql_pred" where
  "outboxevent_AggregateIDIn vs = FieldIn outboxevent_FieldAggregateID (map VUUID vs)"

definition outboxevent_AggregateIDNotIn :: "uuid list \<Rightarrow> sql_pred" where
  "outboxevent_AggregateIDNotIn vs = FieldNotIn outboxevent_FieldAggregateID (map VUUID vs)"

definition outboxevent_AggregateIDGT :: "uuid \<Rightarrow> sql_pred" where
  "outboxevent_AggregateIDGT v = FieldGT outboxevent_FieldAggregateID (VUUID v)"

definition outboxevent_AggregateIDGTE :: "uuid \<Rightarrow> sql_pred" where
  "outboxevent_AggregateIDGTE v = FieldGTE outboxevent_FieldAggregateID (VUUID v)"

definition outboxevent_AggregateIDLT :: "uuid \<Rightarrow> sql_pred" where
  "outboxevent_AggregateIDLT v = FieldLT outboxevent_FieldAggregateID (VUUID v)"

definition outboxevent_AggregateIDLTE :: "uuid \<Rightarrow> sql_pred" where
  "outboxevent_AggregateIDLTE v = FieldLTE outboxevent_FieldAggregateID (VUUID v)"

definition outboxevent_EventTypeEQ :: "string \<Rightarrow> sql_pred" where
  "outboxevent_EventTypeEQ v = FieldEQ outboxevent_FieldEventType (VString v)"

definition outboxevent_EventTypeNEQ :: "string \<Rightarrow> sql_pred" where
  "outboxevent_EventTypeNEQ v = FieldNEQ outboxevent_FieldEventType (VString v)"

definition outboxevent_EventTypeIn :: "string list \<Rightarrow> sql_pred" where
  "outboxevent_EventTypeIn vs = FieldIn outboxevent_FieldEventType (map VString vs)"

definition outboxevent_EventTypeNotIn :: "string list \<Rightarrow> sql_pred" where
  "outboxevent_EventTypeNotIn vs = FieldNotIn outboxevent_FieldEventType (map VString vs)"

definition outboxevent_EventTypeGT :: "string \<Rightarrow> sql_pred" where
  "outboxevent_EventTypeGT v = FieldGT outboxevent_FieldEventType (VString v)"

definition outboxevent_EventTypeGTE :: "string \<Rightarrow> sql_pred" where
  "outboxevent_EventTypeGTE v = FieldGTE outboxevent_FieldEventType (VString v)"

definition outboxevent_EventTypeLT :: "string \<Rightarrow> sql_pred" where
  "outboxevent_EventTypeLT v = FieldLT outboxevent_FieldEventType (VString v)"

definition outboxevent_EventTypeLTE :: "string \<Rightarrow> sql_pred" where
  "outboxevent_EventTypeLTE v = FieldLTE outboxevent_FieldEventType (VString v)"

definition outboxevent_EventTypeContains :: "string \<Rightarrow> sql_pred" where
  "outboxevent_EventTypeContains v = FieldContains outboxevent_FieldEventType v"

definition outboxevent_EventTypeHasPrefix :: "string \<Rightarrow> sql_pred" where
  "outboxevent_EventTypeHasPrefix v = FieldHasPrefix outboxevent_FieldEventType v"

definition outboxevent_EventTypeHasSuffix :: "string \<Rightarrow> sql_pred" where
  "outboxevent_EventTypeHasSuffix v = FieldHasSuffix outboxevent_FieldEventType v"

definition outboxevent_PayloadEQ :: "byte list \<Rightarrow> sql_pred" where
  "outboxevent_PayloadEQ v = FieldEQ outboxevent_FieldPayload (VBytes v)"

definition outboxevent_PayloadNEQ :: "byte list \<Rightarrow> sql_pred" where
  "outboxevent_PayloadNEQ v = FieldNEQ outboxevent_FieldPayload (VBytes v)"

definition outboxevent_PayloadIn :: "(byte list) list \<Rightarrow> sql_pred" where
  "outboxevent_PayloadIn vs = FieldIn outboxevent_FieldPayload (map VBytes vs)"

definition outboxevent_PayloadNotIn :: "(byte list) list \<Rightarrow> sql_pred" where
  "outboxevent_PayloadNotIn vs = FieldNotIn outboxevent_FieldPayload (map VBytes vs)"

definition outboxevent_PayloadGT :: "byte list \<Rightarrow> sql_pred" where
  "outboxevent_PayloadGT v = FieldGT outboxevent_FieldPayload (VBytes v)"

definition outboxevent_PayloadGTE :: "byte list \<Rightarrow> sql_pred" where
  "outboxevent_PayloadGTE v = FieldGTE outboxevent_FieldPayload (VBytes v)"

definition outboxevent_PayloadLT :: "byte list \<Rightarrow> sql_pred" where
  "outboxevent_PayloadLT v = FieldLT outboxevent_FieldPayload (VBytes v)"

definition outboxevent_PayloadLTE :: "byte list \<Rightarrow> sql_pred" where
  "outboxevent_PayloadLTE v = FieldLTE outboxevent_FieldPayload (VBytes v)"

definition outboxevent_ProcessedNEQ :: "bool \<Rightarrow> sql_pred" where
  "outboxevent_ProcessedNEQ v = FieldNEQ outboxevent_FieldProcessed (VBool v)"

definition outboxevent_And :: "sql_pred list \<Rightarrow> sql_pred" where
  "outboxevent_And predicates = PredAnd predicates"

definition outboxevent_Or :: "sql_pred list \<Rightarrow> sql_pred" where
  "outboxevent_Or predicates = PredOr predicates"

definition outboxevent_Not :: "sql_pred \<Rightarrow> sql_pred" where
  "outboxevent_Not p = PredNot p"

end
