(* ===== verification/EntBulk.thy ===== *)
theory EntBulk
  imports EntDelete EntWhere MemWorld
begin

text \<open>
  Bulk statements: what the database does for \<open>UpdateNodes\<close> and \<open>DeleteNodes\<close>, as the locale
  \<open>sql_nodes\<close>, and what that makes of the builders. Updating many orders is updating each of
  them; deleting one order removes it or answers that it is not there.
\<close>

definition row_selected :: "(time \<Rightarrow> time) \<Rightarrow> sql_pred list \<Rightarrow> row \<Rightarrow> bool" where
  "row_selected tr ps r \<longleftrightarrow> (\<forall>p \<in> set ps. row_matches tr p r)"

definition bulk_update :: "(time \<Rightarrow> time) \<Rightarrow> update_spec \<Rightarrow> tables \<Rightarrow> tables" where
  \<comment> \<open>a statement that only sets and clears columns\<close>
  "bulk_update tr us t =
     t(us_Table us := map (\<lambda>r. if row_selected tr (us_Predicates us) r then update_row tr us r else r) (t (us_Table us)))"

subsection \<open>What a statement does to the rows it selects\<close>

text \<open>\<open>UPDATE ... SET c = COALESCE(c, 0) + v\<close> for the fields a mutation adds to.\<close>

fun add_cell :: "ent_value \<Rightarrow> ent_value \<Rightarrow> ent_value" where
  "add_cell (VFloat x) (VFloat v) = VFloat (f64_add x v)"
| "add_cell VNull (VFloat v) = VFloat (f64_add f64_zero v)"
| "add_cell (VInt x) (VInt v) = VInt (x + v)"
| "add_cell VNull (VInt v) = VInt v"
| "add_cell x _ = x"

definition changed_row :: "(time \<Rightarrow> time) \<Rightarrow> update_spec \<Rightarrow> row \<Rightarrow> row" where
  "changed_row tr us r = (\<lambda>c.
     case map_of (us_Add us) c of Some v \<Rightarrow> add_cell (r c) v | None \<Rightarrow> update_row tr us r c)"

text \<open>
  The edges of an order are the foreign keys of its lines: clearing an edge of the rows with the
  given keys empties those foreign keys (only those of the named lines, if any are named), adding
  one sets those of the named lines to the key of the one row that is changed.
\<close>

definition clear_edge :: "ent_value set \<Rightarrow> edge_spec \<Rightarrow> tables \<Rightarrow> tables" where
  "clear_edge ks es t = t(es_Table es := map (\<lambda>r.
     if r (hd (es_Columns es)) \<in> ks \<and> (es_Nodes es = [] \<or> r FieldID \<in> VUUID ` set (es_Nodes es))
     then r(hd (es_Columns es) := VNull) else r) (t (es_Table es)))"

definition link_edge :: "ent_value list \<Rightarrow> edge_spec \<Rightarrow> tables \<Rightarrow> tables" where
  "link_edge ks es t =
     (case ks of
        [] \<Rightarrow> t
      | k # _ \<Rightarrow> t(es_Table es := map (\<lambda>r.
          if r FieldID \<in> VUUID ` set (es_Nodes es) then r(hd (es_Columns es) := k) else r) (t (es_Table es))))"

definition change_keys :: "(time \<Rightarrow> time) \<Rightarrow> update_spec \<Rightarrow> (row \<Rightarrow> bool) \<Rightarrow> ent_value list \<Rightarrow> tables \<Rightarrow> tables" where
  "change_keys tr us P ks t =
     fold (link_edge ks) (us_EdgesAdd us)
       (fold (clear_edge (set ks)) (us_EdgesClear us)
         (t(us_Table us := map (\<lambda>r. if P r then changed_row tr us r else r) (t (us_Table us)))))"

definition change_rows :: "(time \<Rightarrow> time) \<Rightarrow> update_spec \<Rightarrow> (row \<Rightarrow> bool) \<Rightarrow> tables \<Rightarrow> tables" where
  "change_rows tr us P t = change_keys tr us P (map (\<lambda>r. r FieldID) (filter P (t (us_Table us)))) t"

text \<open>
  Which rows a list of predicates selects is up to the database (\<open>sel\<close>, a function of the tables,
  since predicates may look along edges); it is fixed for equality, membership and later times.
\<close>

type_synonym selection = "tables \<Rightarrow> string \<Rightarrow> sql_pred list \<Rightarrow> row \<Rightarrow> bool"

definition bulk_change :: "(time \<Rightarrow> time) \<Rightarrow> selection \<Rightarrow> update_spec \<Rightarrow> tables \<Rightarrow> tables" where
  "bulk_change tr sel us t = change_rows tr us (sel t (us_Table us) (us_Predicates us)) t"

definition node_change :: "(time \<Rightarrow> time) \<Rightarrow> update_spec \<Rightarrow> tables \<Rightarrow> tables" where
  \<comment> \<open>the same for the one row that the specification names\<close>
  "node_change tr us = change_rows tr us (is_target us)"

lemma node_change_plain: "plain_update us \<Longrightarrow> node_change tr us = update_tables tr us"
  by (simp add: fun_eq_iff node_change_def change_rows_def change_keys_def plain_update_def update_tables_def
      changed_row_def)

definition many_spec :: "update_spec \<Rightarrow> bool" where
  \<comment> \<open>no id is named or changed, and the edges are foreign keys of another table\<close>
  "many_spec us \<longleftrightarrow>
     us_ID us = None \<and> FieldID \<notin> fst ` set (us_Set us) \<and> FieldID \<notin> fst ` set (us_Add us) \<and> FieldID \<notin> set (us_Clear us)
     \<and> (\<forall>es \<in> set (us_EdgesClear us @ us_EdgesAdd us).
          es_Rel es = O2M \<and> \<not> es_Inverse es \<and> es_Table es \<noteq> us_Table us \<and> length (es_Columns es) = 1)"

text \<open>
  The laws of \<open>UpdateNodes\<close> and \<open>DeleteNodes\<close>. Lines cannot be linked to more than one row: then
  \<open>UpdateNodes\<close> answers an error.
\<close>

locale sql_nodes =
  fixes N :: "'d nodes_lib"
    and committed :: "'d \<Rightarrow> tables"
    and view :: "'d \<Rightarrow> tables option"
    and tr :: "time \<Rightarrow> time"
    and sel :: selection
  assumes sel_plain: "(\<forall>p \<in> set ps. plain_pred p) \<Longrightarrow> sel t tab ps r = row_selected tr ps r"
    and updates_frame: "sqlgraph_UpdateNodes N drv us d = (d', ru) \<Longrightarrow> drv_frame committed view drv d d'"
    and updates_ok: "sqlgraph_UpdateNodes N drv us d = (d', Inr n) \<Longrightarrow> many_spec us \<Longrightarrow>
      tables_of committed view drv d = Some t \<Longrightarrow>
      tables_of committed view drv d' = Some (bulk_change tr sel us t)
      \<and> sint n = int (length (filter (sel t (us_Table us) (us_Predicates us)) (t (us_Table us))))
      \<and> (us_EdgesAdd us \<noteq> [] \<longrightarrow> sint n \<le> 1)"
    and deletes_frame: "sqlgraph_DeleteNodes N drv tab ps d = (d', rd) \<Longrightarrow> drv_frame committed view drv d d'"
    and deletes_ok: "sqlgraph_DeleteNodes N drv tab ps d = (d', Inr n) \<Longrightarrow>
      tables_of committed view drv d = Some t \<Longrightarrow>
      tables_of committed view drv d' = Some (t(tab := filter (\<lambda>r. \<not> sel t tab ps r) (t tab)))
      \<and> sint n = int (length (filter (sel t tab ps) (t tab)))"
begin

lemma delete_one:
  assumes "OrderDeleteOne_Exec N (OrderClient_DeleteOneID drv i) d = (d', r)"
    and "tables_of committed view drv d = Some t"
  shows "r = None \<Longrightarrow> (\<exists>x \<in> set (t order_Table). x FieldID = VUUID i)
      \<and> tables_of committed view drv d' = Some (t(order_Table := filter (\<lambda>x. x FieldID \<noteq> VUUID i) (t order_Table)))"
    and "r = Some (NotFoundError l) \<Longrightarrow> (\<forall>x \<in> set (t order_Table). x FieldID \<noteq> VUUID i)
      \<and> tables_of committed view drv d' = Some t"
proof -
  obtain d1 rd where del: "sqlgraph_DeleteNodes N drv order_Table [order_ID i] d = (d1, rd)"
    by (cases "sqlgraph_DeleteNodes N drv order_Table [order_ID i] d")
  have sel: "sel t order_Table [order_ID i] = (\<lambda>x. x FieldID = VUUID i)"
    by (rule ext) (auto simp: sel_plain row_selected_def order_ID_def)
  have run: "d' = d1 \<and> r = (case rd of Inl e \<Rightarrow> Some (constraint_error e)
      | Inr n \<Rightarrow> if n = 0 then Some (NotFoundError order_Label) else None)"
    using assms(1) del
    by (auto simp: OrderDeleteOne_Exec_def OrderDelete_Exec_def OrderDelete_sqlExec_def ent_defs newOrderMutation_def
        split: sum.splits)
  have ok: "tables_of committed view drv d' = Some (t(order_Table := filter (\<lambda>x. x FieldID \<noteq> VUUID i) (t order_Table)))
      \<and> sint n = int (length (filter (\<lambda>x. x FieldID = VUUID i) (t order_Table)))" if "rd = Inr n" for n
    using deletes_ok [OF del [unfolded that] assms(2)] run sel by simp
  show "(\<exists>x \<in> set (t order_Table). x FieldID = VUUID i)
      \<and> tables_of committed view drv d' = Some (t(order_Table := filter (\<lambda>x. x FieldID \<noteq> VUUID i) (t order_Table)))"
    if "r = None"
  proof -
    from that run obtain n where n: "rd = Inr n" "n \<noteq> 0" by (auto split: sum.splits if_splits)
    then have "filter (\<lambda>x. x FieldID = VUUID i) (t order_Table) \<noteq> []" using ok [OF n(1)] by (auto simp: signed_eq_0_iff)
    with ok [OF n(1)] show ?thesis by (auto simp: filter_empty_conv)
  qed
  show "(\<forall>x \<in> set (t order_Table). x FieldID \<noteq> VUUID i) \<and> tables_of committed view drv d' = Some t"
    if "r = Some (NotFoundError l)"
  proof -
    have "constraint_error e \<noteq> NotFoundError l" for e by (auto simp: constraint_error_def split: sql_error.splits)
    with that run have n: "rd = Inr 0" by (auto split: sum.splits if_splits)
    from ok [OF n] have none: "\<forall>x \<in> set (t order_Table). x FieldID \<noteq> VUUID i" by (auto simp: filter_empty_conv)
    then have "filter (\<lambda>x. x FieldID \<noteq> VUUID i) (t order_Table) = t order_Table" by (simp add: filter_id_conv)
    with ok [OF n] none show ?thesis by (metis fun_upd_triv)
  qed
qed

lemma update_many:
  assumes "OrderUpdate_sqlSave L N u d = (d', Inr n)" and "many_spec (OrderUpdate_updateSpec u)"
    and "tables_of committed view (um_driver u) d = Some t"
  shows "tables_of committed view (um_driver u) d' = Some (bulk_change tr sel (OrderUpdate_updateSpec u) t)
    \<and> sint n = int (length (filter (sel t order_Table (om_predicates (um_mutation u))) (t order_Table)))
    \<and> (us_EdgesAdd (OrderUpdate_updateSpec u) \<noteq> [] \<longrightarrow> sint n \<le> 1)"
proof -
  have run: "sqlgraph_UpdateNodes N (um_driver u) (OrderUpdate_updateSpec u) d = (d', Inr n)"
    using assms(1) by (auto simp: OrderUpdate_sqlSave_def split: sum.splits prod.splits)
  have us: "us_Table (OrderUpdate_updateSpec u) = order_Table"
    "us_Predicates (OrderUpdate_updateSpec u) = om_predicates (um_mutation u)"
    by (simp_all add: OrderUpdate_updateSpec_def Let_def)
  show ?thesis using updates_ok [OF run assms(2,3)] unfolding us .
qed

lemma update_refused:
  assumes "OrderUpdate_check L u = Inl e"
  shows "OrderUpdate_sqlSave L N u d = (d, Inl e)"
  using assms by (simp add: OrderUpdate_sqlSave_def)

end

section \<open>Many updates as single ones\<close>

text \<open>The builder that updates the one order \<open>i\<close> with the same mutation.\<close>

definition single_update :: "uuid \<Rightarrow> OrderUpdate \<Rightarrow> OrderUpdateOne" where
  "single_update i u =
     \<lparr>ou_driver = um_driver u, ou_fields = [],
      ou_mutation = (um_mutation u)\<lparr>om_id := Some i, om_predicates := []\<rparr>\<rparr>"

definition single_spec :: "OrderUpdate \<Rightarrow> uuid \<Rightarrow> update_spec" where
  "single_spec u i = OrderUpdateOne_updateSpec i order_Columns (single_update i u)"

lemma single_spec_parts:
  "us_Table (single_spec u i) = order_Table" "us_ID (single_spec u i) = Some i"
  "us_EdgesClear (single_spec u i) = us_EdgesClear (OrderUpdate_updateSpec u)"
  "us_EdgesAdd (single_spec u i) = us_EdgesAdd (OrderUpdate_updateSpec u)"
  "us_Add (single_spec u i) = us_Add (OrderUpdate_updateSpec u)"
  "us_Set (single_spec u i) = us_Set (OrderUpdate_updateSpec u)"
  "us_Clear (single_spec u i) = us_Clear (OrderUpdate_updateSpec u)"
  by (simp_all add: single_spec_def single_update_def OrderUpdateOne_updateSpec_def OrderUpdate_updateSpec_def Let_def ent_defs)

lemma order_update_table: "us_Table (OrderUpdate_updateSpec u) = order_Table"
  by (simp add: OrderUpdate_updateSpec_def Let_def)

lemma order_update_id: "us_ID (OrderUpdate_updateSpec u) = None"
  by (simp add: OrderUpdate_updateSpec_def Let_def)

lemma order_update_sets:
  "FieldID \<notin> fst ` set (us_Set (OrderUpdate_updateSpec u))" "FieldID \<notin> fst ` set (us_Add (OrderUpdate_updateSpec u))"
  "FieldID \<notin> set (us_Clear (OrderUpdate_updateSpec u))"
  by (auto simp: OrderUpdate_updateSpec_def Let_def spec_field_def split: option.splits if_splits)

lemma order_update_edges_clear:
  "us_EdgesClear (OrderUpdate_updateSpec u) \<in>
     {[]} \<union> range (\<lambda>ns. [\<lparr>es_Rel = O2M, es_Inverse = False, es_Table = order_ItemsTable,
        es_Columns = [order_ItemsColumn], es_Nodes = ns\<rparr>])"
  by (auto simp: OrderUpdate_updateSpec_def Let_def)

lemma order_update_edges_add:
  "us_EdgesAdd (OrderUpdate_updateSpec u) \<in>
     {[]} \<union> range (\<lambda>ns. [\<lparr>es_Rel = O2M, es_Inverse = False, es_Table = order_ItemsTable,
        es_Columns = [order_ItemsColumn], es_Nodes = ns\<rparr>])"
  by (simp add: OrderUpdate_updateSpec_def Let_def)

lemma order_update_edges:
  "es \<in> set (us_EdgesClear (OrderUpdate_updateSpec u)) \<union> set (us_EdgesAdd (OrderUpdate_updateSpec u)) \<Longrightarrow>
     es_Rel es = O2M \<and> \<not> es_Inverse es \<and> es_Table es \<noteq> order_Table \<and> length (es_Columns es) = 1"
  "length (us_EdgesClear (OrderUpdate_updateSpec u)) \<le> 1"
  using order_update_edges_clear [of u] order_update_edges_add [of u] by (auto simp: order_Table_def)

lemma order_update_many: "many_spec (OrderUpdate_updateSpec u)"
  using order_update_sets [of u] order_update_edges(1) [of _ u] order_update_table [of u]
  order_update_id [of u] unfolding many_spec_def set_append by metis

lemma single_update_row: "update_row tr (single_spec u i) = update_row tr (OrderUpdate_updateSpec u)"
  by (simp add: update_row_def fun_eq_iff single_spec_parts)

lemma single_changed_row: "changed_row tr (single_spec u i) = changed_row tr (OrderUpdate_updateSpec u)"
  unfolding changed_row_def single_update_row single_spec_parts ..

lemma changed_row_id: "changed_row tr (OrderUpdate_updateSpec u) r FieldID = r FieldID"
proof -
  have "map_of (us_Set (OrderUpdate_updateSpec u)) FieldID = None" "map_of (us_Add (OrderUpdate_updateSpec u)) FieldID = None"
    using order_update_sets [of u] by (simp_all add: map_of_eq_None_iff)
  then show ?thesis using order_update_sets(3) [of u] by (simp add: changed_row_def update_row_def)
qed

lemma clear_edge_insert:
  assumes "VNull \<notin> ks"
  shows "clear_edge (insert k ks) es t = clear_edge ks es (clear_edge {k} es t)"
proof -
  have "hd (es_Columns es) = FieldID \<Longrightarrow> VNull \<notin> VUUID ` set (es_Nodes es)" by auto
  with assms show ?thesis by (auto simp: clear_edge_def)
qed

text \<open>The rows with the given keys, changed: the keys one after the other, or all together.\<close>

definition order_change :: "(time \<Rightarrow> time) \<Rightarrow> OrderUpdate \<Rightarrow> ent_value list \<Rightarrow> tables \<Rightarrow> tables" where
  "order_change tr u ks = change_keys tr (OrderUpdate_updateSpec u) (\<lambda>r. r FieldID \<in> set ks) ks"

lemma order_change_nil: "order_change tr u [] t = t"
proof -
  have "fold (link_edge []) ess t = t" "fold (clear_edge {}) ess t = t" for ess t
    by (induction ess) (simp_all add: link_edge_def clear_edge_def)
  then show ?thesis by (simp add: order_change_def change_keys_def)
qed

lemma order_change_keys:
  assumes "us_EdgesAdd (OrderUpdate_updateSpec u) = []"
  shows "map (\<lambda>r. r FieldID) (order_change tr u ks t order_Table) = map (\<lambda>r. r FieldID) (t order_Table)"
proof -
  have "fold (clear_edge K) ess t order_Table = t order_Table" if "\<forall>es \<in> set ess. es_Table es \<noteq> order_Table" for K ess t
    using that by (induction ess arbitrary: t) (auto simp: clear_edge_def)
  then show ?thesis
    using order_update_edges(1) [of _ u]
    by (simp add: order_change_def change_keys_def assms order_update_table comp_def if_distrib [of "\<lambda>r. r FieldID"]
        changed_row_id cong: if_cong)
qed

lemma order_change_Cons:
  assumes "us_EdgesAdd (OrderUpdate_updateSpec u) = []" and "k \<notin> set ks" and "VNull \<notin> set ks"
  shows "order_change tr u (k # ks) t = order_change tr u ks (order_change tr u [k] t)"
proof -
  let ?us = "OrderUpdate_updateSpec u"
  define R where "R K = map (\<lambda>r. if r FieldID \<in> K then changed_row tr ?us r else r)" for K
  have rows: "R (insert k (set ks)) rs = R (set ks) (R {k} rs)" for rs
    using assms(2) by (auto simp: R_def changed_row_id)
  have oc: "order_change tr u js s = fold (clear_edge (set js)) (us_EdgesClear ?us) (s(order_Table := R (set js) (s order_Table)))" for js s
    by (simp add: order_change_def change_keys_def assms(1) order_update_table R_def)
  from order_update_edges(2) [of u] consider "us_EdgesClear ?us = []" | es where "us_EdgesClear ?us = [es]"
    by (cases "us_EdgesClear ?us") auto
  then show ?thesis
  proof cases
    case 1
    then show ?thesis using rows by (simp add: oc)
  next
    case 2
    then have tab: "es_Table es \<noteq> order_Table" using order_update_edges(1) [of es u] by simp
    have swap: "(clear_edge K es t)(order_Table := rs) = clear_edge K es (t(order_Table := rs))" for K t rs
      using tab by (auto simp: clear_edge_def fun_eq_iff)
    have same: "clear_edge K es t order_Table = t order_Table" for K t
      using tab by (simp add: clear_edge_def)
    show ?thesis
      using clear_edge_insert [OF assms(3), of k es] rows
      by (simp add: oc 2 swap same)
  qed
qed

lemma single_order_change:
  assumes "distinct (map (\<lambda>r. r FieldID) (t order_Table))" and "VUUID i \<in> (\<lambda>r. r FieldID) ` set (t order_Table)"
  shows "node_change tr (single_spec u i) t = order_change tr u [VUUID i] t"
proof -
  have "is_target (single_spec u i) = (\<lambda>r. r FieldID = VUUID i)"
    by (simp add: fun_eq_iff is_target_def single_spec_parts)
  moreover have "map (\<lambda>r. r FieldID) (filter (\<lambda>r. r FieldID = VUUID i) (t order_Table)) = [VUUID i]"
    using assms
  proof (induction "t order_Table" arbitrary: t)
    case (Cons r rs)
    have "filter (\<lambda>r. r FieldID = VUUID i) rs = []" if "r FieldID = VUUID i"
      using Cons.hyps(2) [symmetric] Cons.prems(1) that by (auto simp: filter_empty_conv image_iff)
    moreover have "map (\<lambda>r. r FieldID) (filter (\<lambda>r. r FieldID = VUUID i) rs) = [VUUID i]" if "r FieldID \<noteq> VUUID i"
      using Cons.hyps(1) [of "t(order_Table := rs)"] Cons.hyps(2) [symmetric] Cons.prems that by auto
    ultimately show ?case unfolding Cons.hyps(2) [symmetric] by auto
  qed simp
  ultimately show ?thesis
    unfolding node_change_def change_rows_def order_change_def change_keys_def single_spec_parts single_changed_row
      order_update_table by simp
qed

lemma single_changes:
  assumes "us_EdgesAdd (OrderUpdate_updateSpec u) \<noteq> [] \<longrightarrow> length ids \<le> 1" and "distinct ids"
    and "distinct (map (\<lambda>r. r FieldID) (t order_Table))" and "VUUID ` set ids \<subseteq> (\<lambda>r. r FieldID) ` set (t order_Table)"
  shows "fold (\<lambda>i. node_change tr (single_spec u i)) ids t = order_change tr u (map VUUID ids) t"
proof (cases "us_EdgesAdd (OrderUpdate_updateSpec u) = []")
  case True
  from assms(2-4) show ?thesis
  proof (induction ids arbitrary: t)
    case (Cons i ids)
    let ?t = "order_change tr u [VUUID i] t"
    note keys = order_change_keys [OF True, of tr "[VUUID i]" t]
    have "fold (\<lambda>i. node_change tr (single_spec u i)) ids ?t = order_change tr u (map VUUID ids) ?t"
      using Cons.prems arg_cong [OF keys, of set] unfolding set_map by (intro Cons.IH) (auto simp: keys)
    moreover have "node_change tr (single_spec u i) t = ?t"
      using single_order_change [where t = t and i = i and tr = tr and u = u, OF Cons.prems(2)] Cons.prems(3) by simp
    moreover have "order_change tr u (VUUID i # map VUUID ids) t = order_change tr u (map VUUID ids) ?t"
      using Cons.prems(1) by (intro order_change_Cons [OF True]) auto
    ultimately show ?case by simp
  qed (simp add: order_change_nil)
next
  case False
  with assms(1) have "length ids \<le> 1" by simp
  then consider "ids = []" | i where "ids = [i]" by (cases ids) auto
  then show ?thesis
    using single_order_change [where t = t, OF assms(3)] assms(4) by cases (simp_all add: order_change_nil)
qed

lemma bulk_by_ids:
  assumes "distinct (map (\<lambda>r. r FieldID) rs)"
    and "mset (map (\<lambda>r. r FieldID) (filter sel rs)) = mset (map VUUID ids)" and "r \<in> set rs"
  shows "sel r \<longleftrightarrow> r FieldID \<in> VUUID ` set ids"
proof
  have ids: "VUUID ` set ids = (\<lambda>r. r FieldID) ` {x \<in> set rs. sel x}"
    using mset_eq_setD [OF assms(2)] by simp
  then show "sel r \<Longrightarrow> r FieldID \<in> VUUID ` set ids" using assms(3) by simp
  assume "r FieldID \<in> VUUID ` set ids"
  with ids obtain x where "x \<in> set rs" "sel x" "x FieldID = r FieldID" by auto
  with assms(1,3) show "sel r" by (metis distinct_map inj_onD)
qed

lemma ids_distinct:
  assumes "distinct (map (\<lambda>r. r FieldID) rs)"
    and "mset (map (\<lambda>r. r FieldID) (filter sel rs)) = mset (map VUUID ids)"
  shows "distinct ids"
proof -
  have "distinct (map (\<lambda>r. r FieldID) (filter sel rs))" using assms(1) by (rule distinct_map_filter)
  then show ?thesis unfolding mset_eq_imp_distinct_iff [OF assms(2)] by (simp add: distinct_map)
qed

lemma bulk_order_change:
  assumes "distinct (map (\<lambda>r. r FieldID) (t order_Table))"
    and "mset (map (\<lambda>r. r FieldID) (filter (sel t order_Table (om_predicates (um_mutation u))) (t order_Table))) = mset (map VUUID ids)"
    and "us_EdgesAdd (OrderUpdate_updateSpec u) \<noteq> [] \<longrightarrow> length ids \<le> 1"
  shows "bulk_change tr sel (OrderUpdate_updateSpec u) t = order_change tr u (map VUUID ids) t"
proof -
  let ?us = "OrderUpdate_updateSpec u"
  let ?P = "sel t order_Table (om_predicates (um_mutation u))"
  let ?ks = "map (\<lambda>r. r FieldID) (filter ?P (t order_Table))"
  have us: "us_Table ?us = order_Table" "us_Predicates ?us = om_predicates (um_mutation u)"
    by (simp_all add: OrderUpdate_updateSpec_def Let_def)
  have P: "map (\<lambda>r. if ?P r then changed_row tr ?us r else r) (t order_Table)
      = map (\<lambda>r. if r FieldID \<in> set (map VUUID ids) then changed_row tr ?us r else r) (t order_Table)"
    using bulk_by_ids [OF assms(1,2)] by (simp cong: map_cong)
  have ks: "set ?ks = set (map VUUID ids)" using mset_eq_setD [OF assms(2)] .
  have link: "fold (link_edge ?ks) (us_EdgesAdd ?us) = fold (link_edge (map VUUID ids)) (us_EdgesAdd ?us)"
  proof (cases "us_EdgesAdd ?us = []")
    case False
    with assms(3) have "length ids \<le> 1" by simp
    then have "?ks = map VUUID ids"
      using assms(2) mset_eq_length [OF assms(2)] by (cases ids; cases ?ks) (auto simp del: map_eq_conv)
    then show ?thesis by simp
  qed simp
  show ?thesis
    unfolding bulk_change_def change_rows_def change_keys_def order_change_def us link ks P ..
qed

lemma updates_one_by_one:
  assumes "sql_nodes N committed view tr sel"
    and "OrderUpdate_sqlSave L N u d = (d', Inr n)"
    and "tables_of committed view (um_driver u) d = Some t"
    and "distinct (map (\<lambda>r. r FieldID) (t order_Table))"
    and "mset (map (\<lambda>r. r FieldID) (filter (sel t order_Table (om_predicates (um_mutation u))) (t order_Table))) = mset (map VUUID ids)"
  shows "tables_of committed view (um_driver u) d' = Some (fold (\<lambda>i. node_change tr (single_spec u i)) ids t)
    \<and> sint n = int (length ids)"
proof -
  note many = sql_nodes.update_many [OF assms(1,2) order_update_many assms(3)]
  have len: "length (filter (sel t order_Table (om_predicates (um_mutation u))) (t order_Table)) = length ids"
    using mset_eq_length [OF assms(5)] by simp
  with many have one: "us_EdgesAdd (OrderUpdate_updateSpec u) \<noteq> [] \<longrightarrow> length ids \<le> 1" by auto
  have sub: "VUUID ` set ids \<subseteq> (\<lambda>r. r FieldID) ` set (t order_Table)"
  proof
    fix x
    assume "x \<in> VUUID ` set ids"
    then have "x \<in> set (map (\<lambda>r. r FieldID) (filter (sel t order_Table (om_predicates (um_mutation u))) (t order_Table)))"
      unfolding mset_eq_setD [OF assms(5)] by simp
    then show "x \<in> (\<lambda>r. r FieldID) ` set (t order_Table)" by auto
  qed
  note eq = bulk_order_change [where sel = sel and tr = tr, OF assms(4,5) one]
    single_changes [where tr = tr and t = t, OF one ids_distinct [OF assms(4,5)] assms(4) sub]
  from many len show ?thesis unfolding eq by presburger
qed

text \<open>Deleting many orders removes the rows with the ids of the selected ones.\<close>

lemma deletes_by_ids:
  assumes "sql_nodes N committed view tr sel"
    and "OrderDelete_sqlExec N b d = (d', Inr n)"
    and "tables_of committed view (dd_driver b) d = Some t"
    and "distinct (map (\<lambda>r. r FieldID) (t order_Table))"
    and "mset (map (\<lambda>r. r FieldID) (filter (sel t order_Table (om_predicates (dd_mutation b))) (t order_Table))) = mset (map VUUID ids)"
  shows "tables_of committed view (dd_driver b) d'
      = Some (t(order_Table := filter (\<lambda>r. r FieldID \<notin> VUUID ` set ids) (t order_Table)))
    \<and> sint n = int (length ids)"
proof -
  let ?sel = "sel t order_Table (om_predicates (dd_mutation b))"
  have run: "sqlgraph_DeleteNodes N (dd_driver b) order_Table (om_predicates (dd_mutation b)) d = (d', Inr n)"
    using assms(2) by (auto simp: OrderDelete_sqlExec_def split: sum.splits prod.splits)
  have "filter (\<lambda>r. \<not> ?sel r) (t order_Table) = filter (\<lambda>r. r FieldID \<notin> VUUID ` set ids) (t order_Table)"
    using bulk_by_ids [OF assms(4,5)] by (simp cong: filter_cong)
  moreover have "length (filter ?sel (t order_Table)) = length ids"
    using mset_eq_length [OF assms(5)] by simp
  ultimately show ?thesis using sql_nodes.deletes_ok [OF assms(1) run assms(3)] by simp
qed

subsection \<open>In memory\<close>

definition mem_selection :: selection where
  "mem_selection t tab = row_selected micros"

definition mem_updates :: "driver \<Rightarrow> update_spec \<Rightarrow> mem \<Rightarrow> mem \<times> (sql_error + i64)" where
  "mem_updates drv us d =
     (case mem_of drv d of
        None \<Rightarrow> (d, Inl (SqlOther ''no transaction''))
      | Some t \<Rightarrow>
          let rows = filter (row_selected micros (us_Predicates us)) (t (us_Table us)) in
          if us_EdgesAdd us \<noteq> [] \<and> 1 < length rows then (d, Inl (SqlOther ''unable to link FK edge to more than 1 node''))
          else if length rows < 2 ^ 63 then (mem_put drv (bulk_change micros mem_selection us t) d, Inr (int_of_len rows))
          else (d, Inl (SqlOther ''count'')))"

definition mem_deletes :: "driver \<Rightarrow> string \<Rightarrow> sql_pred list \<Rightarrow> mem \<Rightarrow> mem \<times> (sql_error + i64)" where
  "mem_deletes drv tab ps d =
     (case mem_of drv d of
        None \<Rightarrow> (d, Inl (SqlOther ''no transaction''))
      | Some t \<Rightarrow>
          let rows = filter (row_selected micros ps) (t tab) in
          if length rows < 2 ^ 63
          then (mem_put drv (t(tab := filter (\<lambda>r. \<not> row_selected micros ps r) (t tab))) d, Inr (int_of_len rows))
          else (d, Inl (SqlOther ''count'')))"

definition mem_nodes :: "mem nodes_lib" where
  "mem_nodes = \<lparr>sqlgraph_UpdateNodes = mem_updates, sqlgraph_DeleteNodes = mem_deletes\<rparr>"

interpretation mem_bulk: sql_nodes mem_nodes mem_tables mem_view micros mem_selection
proof (unfold_locales, goal_cases)
  case (1 ps t tab r)
  then show ?case by (simp add: mem_selection_def)
next
  case (2 drv us d d' ru)
  then show ?case using mem_put_frame
    by (auto simp: mem_nodes_def mem_updates_def Let_def split: option.splits if_splits)
next
  case (3 drv us d d' n t)
  then show ?case
    by (auto simp: mem_nodes_def mem_updates_def mem_selection_def Let_def sint_int_of_len split: if_splits)
next
  case (4 drv tab ps d d' rd)
  then show ?case using mem_put_frame
    by (auto simp: mem_nodes_def mem_deletes_def Let_def split: option.splits if_splits)
next
  case (5 drv tab ps d d' n t)
  then show ?case by (auto simp: mem_nodes_def mem_deletes_def mem_selection_def Let_def sint_int_of_len split: if_splits)
qed

text \<open>Two orders, of which the first is completed in one statement.\<close>

definition two_orders :: tables where
  "two_orders = no_tables(order_Table :=
     [(\<lambda>_. VNull)(FieldID := VUUID 1, order_FieldStatus := VString ''created''),
      (\<lambda>_. VNull)(FieldID := VUUID 2, order_FieldStatus := VString ''shipped'')])"

definition complete_created :: OrderUpdate where
  "complete_created =
     OrderUpdate_SetStatus ''completed'' (OrderUpdate_Where [order_StatusEQ ''created''] (OrderClient_Update BaseDriver))"

lemma complete_created_spec:
  "us_Table (OrderUpdate_updateSpec complete_created) = order_Table"
  "us_Predicates (OrderUpdate_updateSpec complete_created) = [order_StatusEQ ''created'']"
  "om_predicates (um_mutation complete_created) = [order_StatusEQ ''created'']"
  "um_driver complete_created = BaseDriver"
  by (simp_all add: complete_created_def OrderUpdate_updateSpec_def Let_def ent_defs newOrderMutation_def)

text \<open>
  Three orders with a line each but the second; the created ones get a surcharge and lose their
  lines.
\<close>

definition priced_orders :: tables where
  "priced_orders = no_tables(
     order_Table :=
       [(\<lambda>_. VNull)(FieldID := VUUID 1, order_FieldStatus := VString ''created'', order_FieldTotal := VFloat (f64_of_int 10)),
        (\<lambda>_. VNull)(FieldID := VUUID 2, order_FieldStatus := VString ''created''),
        (\<lambda>_. VNull)(FieldID := VUUID 3, order_FieldStatus := VString ''shipped'')],
     order_ItemsTable :=
       [(\<lambda>_. VNull)(FieldID := VUUID 4, order_ItemsColumn := VUUID 1),
        (\<lambda>_. VNull)(FieldID := VUUID 5, order_ItemsColumn := VUUID 3)])"

definition surcharge :: OrderUpdate where
  "surcharge = OrderUpdate_ClearItems (OrderUpdate_AddTotal (f64_of_int 5)
     (OrderUpdate_Where [order_StatusEQ ''created''] (OrderClient_Update BaseDriver)))"

lemma surcharge_spec:
  "us_Table (OrderUpdate_updateSpec surcharge) = order_Table"
  "us_Predicates (OrderUpdate_updateSpec surcharge) = [order_StatusEQ ''created'']"
  "us_Add (OrderUpdate_updateSpec surcharge) = [(order_FieldTotal, VFloat (f64_of_int 5))]"
  "us_EdgesAdd (OrderUpdate_updateSpec surcharge) = []" "length (us_EdgesClear (OrderUpdate_updateSpec surcharge)) = 1"
  "om_predicates (um_mutation surcharge) = [order_StatusEQ ''created'']"
  "um_driver surcharge = BaseDriver" "om_op (um_mutation surcharge) = OpUpdate"
  by (simp_all add: surcharge_def OrderUpdate_updateSpec_def Let_def ent_defs newOrderMutation_def spec_field_def)

lemma surcharge_selects:
  "filter (row_selected micros [order_StatusEQ ''created'']) (priced_orders order_Table) = take 2 (priced_orders order_Table)"
  by (simp add: priced_orders_def row_selected_def ent_defs order_Table_def order_Table_def numeral_2_eq_2)

definition surcharge_start :: mem where
  "surcharge_start = (mem_start [])\<lparr>mem_tables := priced_orders\<rparr>"

definition surcharged :: mem where
  "surcharged = (mem_start [])\<lparr>mem_tables :=
     bulk_change micros mem_selection (OrderUpdate_updateSpec surcharge) priced_orders\<rparr>"

lemma surcharge_runs: "OrderUpdate_sqlSave mem_lib mem_nodes surcharge surcharge_start = (surcharged, Inr 2)"
proof -
  have "OrderUpdate_check mem_lib surcharge = Inr ()"
    by (simp add: surcharge_def OrderUpdate_check_def Let_def ent_defs newOrderMutation_def)
  moreover have "length (take 2 (priced_orders order_Table)) = 2"
    by (simp add: priced_orders_def order_Table_def order_Table_def)
  ultimately show ?thesis
    using surcharge_selects
    by (simp add: OrderUpdate_sqlSave_def mem_nodes_def mem_updates_def surcharge_spec tables_of_def mem_put_def
        Let_def int_of_len_def surcharge_start_def surcharged_def mem_start_def)
qed

end
