(* ===== verification/EntTypes.thy ===== *)
theory EntTypes
  imports EntBulk
begin

text \<open>
  Column types. The scan destinations of an entity (\<open>scanValues\<close>) are the types of its columns:
  a row is typed if every cell fits its column. The locale \<open>typed_table\<close> holds what follows from
  that alone: what the builders of a table have to keep, and that every read then succeeds. The
  three tables are its instances.
\<close>

definition accepts :: "scan_dest \<Rightarrow> ent_value \<Rightarrow> bool" where
  "accepts d v \<longleftrightarrow> scan_cell d v \<noteq> None"

lemma accepts_null [simp]: "accepts d VNull"
  by (cases d) (simp_all add: accepts_def)

lemma accepts_simps [simp]:
  "accepts DUUID (VUUID u)" "accepts DNullTime (VTime t)" "accepts DNullString (VString s)"
  "accepts DNullFloat64 (VFloat x)" "accepts DNullInt64 (VInt k)" "accepts DNullBool (VBool b)"
  "accepts DBytes (VBytes bs)" "accepts DScannerUUID (VUUID u)"
  by (simp_all add: accepts_def)

locale typed_table =
  fixes scan :: "string list \<Rightarrow> scan_dest list"
    and dest :: "string \<Rightarrow> scan_dest"
    and assign :: "string \<times> scan_val \<Rightarrow> 'e \<Rightarrow> ent_error + 'e"
    and schema :: "string list"
  assumes scan_map: "scan cols = map dest cols"
    and assign_ok: "c \<in> set schema \<Longrightarrow> scan_cell (dest c) v = Some x \<Longrightarrow> \<exists>n'. assign (c, x) n = Inr n'"
begin

definition typed :: "row \<Rightarrow> bool" where
  "typed r \<longleftrightarrow> (\<forall>c \<in> set schema. accepts (dest c) (r c))"

definition cell_ok :: "(time \<Rightarrow> time) \<Rightarrow> string \<times> ent_value \<Rightarrow> bool" where
  "cell_ok tr p \<longleftrightarrow> accepts (dest (fst p)) (db_value tr (snd p))"

lemma typed_read:
  assumes "typed r" and "set cols \<subseteq> set schema"
  shows "\<exists>vs n'. scan_row scan cols r = Some vs \<and> length vs = length cols
    \<and> range_loop assign (zip cols vs) n = Inr n'"
  using assms(2)
proof (induction cols arbitrary: n)
  case (Cons c cols)
  then have "accepts (dest c) (r c)" using assms(1) by (simp add: typed_def)
  then obtain x where x: "scan_cell (dest c) (r c) = Some x" by (auto simp: accepts_def)
  with assign_ok Cons.prems obtain n1 where n1: "assign (c, x) n = Inr n1" by fastforce
  from Cons obtain vs n' where "scan_row scan cols r = Some vs" "length vs = length cols"
    "range_loop assign (zip cols vs) n1 = Inr n'" by fastforce
  with x n1 show ?case by (intro exI [of _ "x # vs"]) (simp add: scan_row_def scan_map)
qed (simp add: scan_row_def scan_map)

lemma typed_insert:
  assumes "\<forall>p \<in> set (spec_cells cs). cell_ok tr p"
  shows "typed (spec_row tr cs)"
  unfolding typed_def
proof
  fix c
  show "accepts (dest c) (spec_row tr cs c)"
  proof (cases "map_of (spec_cells cs) c")
    case (Some v)
    then have "cell_ok tr (c, v)" using assms map_of_SomeD by fastforce
    with Some show ?thesis by (simp add: spec_row_def cell_ok_def)
  qed (simp add: spec_row_def)
qed

lemma typed_update:
  assumes "typed r" and "\<forall>p \<in> set (us_Set us). cell_ok tr p"
  shows "typed (update_row tr us r)"
  unfolding typed_def
proof
  fix c assume c: "c \<in> set schema"
  show "accepts (dest c) (update_row tr us r c)"
  proof (cases "map_of (us_Set us) c")
    case (Some v)
    then have "cell_ok tr (c, v)" using assms(2) map_of_SomeD by fastforce
    with Some show ?thesis by (simp add: update_row_def cell_ok_def)
  next
    case None
    with c assms(1) show ?thesis by (simp add: update_row_def typed_def)
  qed
qed

end

subsection \<open>The three tables\<close>

definition order_dest :: "string \<Rightarrow> scan_dest" where
  "order_dest c = hd (Order_scanValues [c])"

definition item_dest :: "string \<Rightarrow> scan_dest" where
  "item_dest c = hd (OrderItem_scanValues [c])"

definition outbox_dest :: "string \<Rightarrow> scan_dest" where
  "outbox_dest c = hd (OutboxEvent_scanValues [c])"

fun val_dest :: "scan_val \<Rightarrow> scan_dest" where
  "val_dest (SUUID u) = DUUID"
| "val_dest (SNullTime t) = DNullTime"
| "val_dest (SNullString s) = DNullString"
| "val_dest (SNullFloat64 x) = DNullFloat64"
| "val_dest (SNullInt64 k) = DNullInt64"
| "val_dest (SNullBool b) = DNullBool"
| "val_dest (SBytes bs) = DBytes"
| "val_dest (SScannerUUID u) = DScannerUUID"
| "val_dest (SUnknown v) = DUnknown"

lemma scan_cell_dest: "scan_cell d v = Some x \<Longrightarrow> val_dest x = d"
  by (induction d v rule: scan_cell.induct) auto

lemma val_dest_cases:
  "val_dest x = DUUID \<Longrightarrow> \<exists>u. x = SUUID u"
  "val_dest x = DNullTime \<Longrightarrow> \<exists>t. x = SNullTime t"
  "val_dest x = DNullString \<Longrightarrow> \<exists>s. x = SNullString s"
  "val_dest x = DNullFloat64 \<Longrightarrow> \<exists>y. x = SNullFloat64 y"
  "val_dest x = DNullInt64 \<Longrightarrow> \<exists>k. x = SNullInt64 k"
  "val_dest x = DNullBool \<Longrightarrow> \<exists>b. x = SNullBool b"
  "val_dest x = DBytes \<Longrightarrow> \<exists>bs. x = SBytes bs"
  "val_dest x = DScannerUUID \<Longrightarrow> \<exists>u. x = SScannerUUID u"
  by (cases x, simp_all)+

lemma order_dest_simps [simp]:
  "order_dest FieldID = DUUID"
  "order_dest FieldCreatedAt = DNullTime"
  "order_dest FieldUpdatedAt = DNullTime"
  "order_dest order_FieldCustomerID = DUUID"
  "order_dest order_FieldStatus = DNullString"
  "order_dest order_FieldSubtotal = DNullFloat64"
  "order_dest order_FieldTax = DNullFloat64"
  "order_dest order_FieldShippingCost = DNullFloat64"
  "order_dest order_FieldTotal = DNullFloat64"
  "order_dest order_FieldShippingAddress = DNullString"
  "order_dest order_FieldBillingAddress = DNullString"
  "order_dest order_FieldErrorMessage = DNullString"
  by (simp_all add: order_dest_def Order_scanValues_def)

lemma order_assign_ok:
  "\<exists>n'. Order_assign (FieldID, SUUID x0) n = Inr n'"
  "\<exists>n'. Order_assign (FieldCreatedAt, SNullTime x1) n = Inr n'"
  "\<exists>n'. Order_assign (FieldUpdatedAt, SNullTime x2) n = Inr n'"
  "\<exists>n'. Order_assign (order_FieldCustomerID, SUUID x3) n = Inr n'"
  "\<exists>n'. Order_assign (order_FieldStatus, SNullString x4) n = Inr n'"
  "\<exists>n'. Order_assign (order_FieldSubtotal, SNullFloat64 x5) n = Inr n'"
  "\<exists>n'. Order_assign (order_FieldTax, SNullFloat64 x6) n = Inr n'"
  "\<exists>n'. Order_assign (order_FieldShippingCost, SNullFloat64 x7) n = Inr n'"
  "\<exists>n'. Order_assign (order_FieldTotal, SNullFloat64 x8) n = Inr n'"
  "\<exists>n'. Order_assign (order_FieldShippingAddress, SNullString x9) n = Inr n'"
  "\<exists>n'. Order_assign (order_FieldBillingAddress, SNullString x10) n = Inr n'"
  "\<exists>n'. Order_assign (order_FieldErrorMessage, SNullString x11) n = Inr n'"
  by (simp_all add: Order_assign_def)

interpretation order_table: typed_table Order_scanValues order_dest Order_assign order_Columns
proof (unfold_locales, goal_cases)
  case (1 cols)
  then show ?case by (simp add: order_dest_def Order_scanValues_def)
next
  case (2 c v x n)
  then show ?case
    unfolding order_Columns_def append.simps list.set
    by - (elim insertE emptyE; simp only: order_dest_simps; drule scan_cell_dest; drule val_dest_cases; elim exE; simp only: order_assign_ok)
qed

lemma item_dest_simps [simp]:
  "item_dest FieldID = DUUID"
  "item_dest FieldCreatedAt = DNullTime"
  "item_dest FieldUpdatedAt = DNullTime"
  "item_dest orderitem_FieldProductID = DUUID"
  "item_dest orderitem_FieldVariantID = DUUID"
  "item_dest orderitem_FieldProductName = DNullString"
  "item_dest orderitem_FieldVariantDescription = DNullString"
  "item_dest orderitem_FieldUnitPrice = DNullFloat64"
  "item_dest orderitem_FieldQuantity = DNullInt64"
  "item_dest orderitem_FieldTotalPrice = DNullFloat64"
  "item_dest orderitem_FieldImageURL = DNullString"
  "item_dest orderitem_OrderColumn = DScannerUUID"
  by (simp_all add: item_dest_def OrderItem_scanValues_def orderitem_ForeignKeys_def)

lemma item_assign_ok:
  "\<exists>n'. OrderItem_assign (FieldID, SUUID x0) n = Inr n'"
  "\<exists>n'. OrderItem_assign (FieldCreatedAt, SNullTime x1) n = Inr n'"
  "\<exists>n'. OrderItem_assign (FieldUpdatedAt, SNullTime x2) n = Inr n'"
  "\<exists>n'. OrderItem_assign (orderitem_FieldProductID, SUUID x3) n = Inr n'"
  "\<exists>n'. OrderItem_assign (orderitem_FieldVariantID, SUUID x4) n = Inr n'"
  "\<exists>n'. OrderItem_assign (orderitem_FieldProductName, SNullString x5) n = Inr n'"
  "\<exists>n'. OrderItem_assign (orderitem_FieldVariantDescription, SNullString x6) n = Inr n'"
  "\<exists>n'. OrderItem_assign (orderitem_FieldUnitPrice, SNullFloat64 x7) n = Inr n'"
  "\<exists>n'. OrderItem_assign (orderitem_FieldQuantity, SNullInt64 x8) n = Inr n'"
  "\<exists>n'. OrderItem_assign (orderitem_FieldTotalPrice, SNullFloat64 x9) n = Inr n'"
  "\<exists>n'. OrderItem_assign (orderitem_FieldImageURL, SNullString x10) n = Inr n'"
  "\<exists>n'. OrderItem_assign (orderitem_OrderColumn, SScannerUUID x11) n = Inr n'"
  by (simp_all add: OrderItem_assign_def orderitem_ForeignKeys_def)

interpretation item_table: typed_table OrderItem_scanValues item_dest OrderItem_assign "orderitem_Columns @ orderitem_ForeignKeys"
proof (unfold_locales, goal_cases)
  case (1 cols)
  then show ?case by (simp add: item_dest_def OrderItem_scanValues_def)
next
  case (2 c v x n)
  then show ?case
    unfolding orderitem_Columns_def orderitem_ForeignKeys_def append.simps list.set
    by - (elim insertE emptyE; simp only: item_dest_simps; drule scan_cell_dest; drule val_dest_cases; elim exE; simp only: item_assign_ok)
qed

lemma outbox_dest_simps [simp]:
  "outbox_dest FieldID = DUUID"
  "outbox_dest FieldCreatedAt = DNullTime"
  "outbox_dest FieldUpdatedAt = DNullTime"
  "outbox_dest outboxevent_FieldAggregateType = DNullString"
  "outbox_dest outboxevent_FieldAggregateID = DUUID"
  "outbox_dest outboxevent_FieldEventType = DNullString"
  "outbox_dest outboxevent_FieldPayload = DBytes"
  "outbox_dest outboxevent_FieldProcessed = DNullBool"
  by (simp_all add: outbox_dest_def OutboxEvent_scanValues_def)

lemma outbox_assign_ok:
  "\<exists>n'. OutboxEvent_assign (FieldID, SUUID x0) n = Inr n'"
  "\<exists>n'. OutboxEvent_assign (FieldCreatedAt, SNullTime x1) n = Inr n'"
  "\<exists>n'. OutboxEvent_assign (FieldUpdatedAt, SNullTime x2) n = Inr n'"
  "\<exists>n'. OutboxEvent_assign (outboxevent_FieldAggregateType, SNullString x3) n = Inr n'"
  "\<exists>n'. OutboxEvent_assign (outboxevent_FieldAggregateID, SUUID x4) n = Inr n'"
  "\<exists>n'. OutboxEvent_assign (outboxevent_FieldEventType, SNullString x5) n = Inr n'"
  "\<exists>n'. OutboxEvent_assign (outboxevent_FieldPayload, SBytes x6) n = Inr n'"
  "\<exists>n'. OutboxEvent_assign (outboxevent_FieldProcessed, SNullBool x7) n = Inr n'"
  by (simp_all add: OutboxEvent_assign_def)

interpretation outbox_table: typed_table OutboxEvent_scanValues outbox_dest OutboxEvent_assign outboxevent_Columns
proof (unfold_locales, goal_cases)
  case (1 cols)
  then show ?case by (simp add: outbox_dest_def OutboxEvent_scanValues_def)
next
  case (2 c v x n)
  then show ?case
    unfolding outboxevent_Columns_def append.simps list.set
    by - (elim insertE emptyE; simp only: outbox_dest_simps; drule scan_cell_dest; drule val_dest_cases; elim exE; simp only: outbox_assign_ok)
qed

subsection \<open>What the builders write\<close>

lemma ball_spec_field [simp]: "(\<forall>p \<in> set (spec_field c C v). P p) \<longleftrightarrow> (\<forall>x. v = Some x \<longrightarrow> P (c, C x))"
  by (auto simp: spec_field_def split: option.splits)

lemma order_create_cells: "\<forall>q \<in> set (spec_cells (snd (OrderCreate_createSpec c))). order_table.cell_ok tr q"
  by (simp add: OrderCreate_createSpec_def spec_cells_def edge_cells_def order_table.cell_ok_def ball_Un Let_def ent_defs
      split: option.split) auto?

lemma order_update_cells:
  "\<forall>q \<in> set (us_Set (OrderUpdateOne_updateSpec i cols u)). order_table.cell_ok tr q"
  "\<forall>q \<in> set (us_Set (OrderUpdate_updateSpec u')). order_table.cell_ok tr q"
  by (simp_all add: OrderUpdateOne_updateSpec_def OrderUpdate_updateSpec_def order_table.cell_ok_def ball_Un Let_def ent_defs)

lemma item_create_cells: "\<forall>q \<in> set (spec_cells (snd (OrderItemCreate_createSpec c))). item_table.cell_ok tr q"
  by (simp add: OrderItemCreate_createSpec_def spec_cells_def edge_cells_def item_table.cell_ok_def ball_Un Let_def ent_defs
      split: option.split) auto?

lemma item_update_cells:
  "\<forall>q \<in> set (us_Set (OrderItemUpdateOne_updateSpec i cols u)). item_table.cell_ok tr q"
  "\<forall>q \<in> set (us_Set (OrderItemUpdate_updateSpec u')). item_table.cell_ok tr q"
  by (simp_all add: OrderItemUpdateOne_updateSpec_def OrderItemUpdate_updateSpec_def item_table.cell_ok_def ball_Un Let_def ent_defs)

lemma outbox_create_cells: "\<forall>q \<in> set (spec_cells (snd (OutboxEventCreate_createSpec c))). outbox_table.cell_ok tr q"
  by (simp add: OutboxEventCreate_createSpec_def spec_cells_def edge_cells_def outbox_table.cell_ok_def ball_Un Let_def ent_defs
      split: option.split) auto?

lemma outbox_update_cells:
  "\<forall>q \<in> set (us_Set (OutboxEventUpdateOne_updateSpec i cols u)). outbox_table.cell_ok tr q"
  "\<forall>q \<in> set (us_Set (OutboxEventUpdate_updateSpec u')). outbox_table.cell_ok tr q"
  by (simp_all add: OutboxEventUpdateOne_updateSpec_def OutboxEventUpdate_updateSpec_def outbox_table.cell_ok_def ball_Un Let_def ent_defs)

section \<open>The property\<close>

definition tables_typed :: "tables \<Rightarrow> bool" where
  "tables_typed t \<longleftrightarrow>
     (\<forall>r \<in> set (t order_Table). order_table.typed r)
     \<and> (\<forall>r \<in> set (t orderitem_Table). item_table.typed r)
     \<and> (\<forall>r \<in> set (t outboxevent_Table). outbox_table.typed r)"

lemma table_names [simp]:
  "order_Table \<noteq> orderitem_Table" "orderitem_Table \<noteq> order_Table" "order_Table \<noteq> outboxevent_Table"
  "outboxevent_Table \<noteq> order_Table" "orderitem_Table \<noteq> outboxevent_Table" "outboxevent_Table \<noteq> orderitem_Table"
  by (simp_all add: order_Table_def orderitem_Table_def outboxevent_Table_def)

lemma spec_tables [simp]:
  "cs_Table (snd (OrderCreate_createSpec c1)) = order_Table"
  "cs_Table (snd (OrderItemCreate_createSpec c2)) = orderitem_Table"
  "cs_Table (snd (OutboxEventCreate_createSpec c3)) = outboxevent_Table"
  "us_Table (OrderUpdateOne_updateSpec i cols u1) = order_Table"
  "us_Table (OrderItemUpdateOne_updateSpec i cols u2) = orderitem_Table"
  "us_Table (OutboxEventUpdateOne_updateSpec i cols u3) = outboxevent_Table"
  "us_Table (OrderUpdate_updateSpec v1) = order_Table"
  "us_Table (OrderItemUpdate_updateSpec v2) = orderitem_Table"
  "us_Table (OutboxEventUpdate_updateSpec v3) = outboxevent_Table"
  by (simp_all add: OrderCreate_createSpec_def OrderItemCreate_createSpec_def OutboxEventCreate_createSpec_def
      OrderUpdateOne_updateSpec_def OrderItemUpdateOne_updateSpec_def OutboxEventUpdateOne_updateSpec_def
      OrderUpdate_updateSpec_def OrderItemUpdate_updateSpec_def OutboxEventUpdate_updateSpec_def Let_def)

lemma order_rows_typed:
  assumes "tables_typed t" and "us_Table us = order_Table" and "\<forall>p \<in> set (us_Set us). order_table.cell_ok tr p"
  shows "tables_typed (t(us_Table us := map (\<lambda>r. if P r then update_row tr us r else r) (t (us_Table us))))"
  using assms(1) by (auto simp: tables_typed_def assms(2) intro: order_table.typed_update [OF _ assms(3)])

lemma item_rows_typed:
  assumes "tables_typed t" and "us_Table us = orderitem_Table" and "\<forall>p \<in> set (us_Set us). item_table.cell_ok tr p"
  shows "tables_typed (t(us_Table us := map (\<lambda>r. if P r then update_row tr us r else r) (t (us_Table us))))"
  using assms(1) by (auto simp: tables_typed_def assms(2) intro: item_table.typed_update [OF _ assms(3)])

lemma outbox_rows_typed:
  assumes "tables_typed t" and "us_Table us = outboxevent_Table" and "\<forall>p \<in> set (us_Set us). outbox_table.cell_ok tr p"
  shows "tables_typed (t(us_Table us := map (\<lambda>r. if P r then update_row tr us r else r) (t (us_Table us))))"
  using assms(1) by (auto simp: tables_typed_def assms(2) intro: outbox_table.typed_update [OF _ assms(3)])

lemma order_rows_read:
  assumes "tables_typed t" and "set k \<subseteq> set order_Columns" and "r \<in> set (t order_Table)"
  shows "\<exists>vs n'. scan_row Order_scanValues k r = Some vs \<and> Order_assignValues k vs n = Inr n'"
proof -
  from assms have "order_table.typed r" by (simp add: tables_typed_def)
  from order_table.typed_read [OF this assms(2)] obtain vs n'
    where "scan_row Order_scanValues k r = Some vs" "length vs = length k" "range_loop Order_assign (zip k vs) n = Inr n'"
    by blast
  then show ?thesis by (simp add: Order_assignValues_def)
qed

lemma item_rows_read:
  assumes "tables_typed t" and "set k \<subseteq> set (orderitem_Columns @ orderitem_ForeignKeys)" and "r \<in> set (t orderitem_Table)"
  shows "\<exists>vs n'. scan_row OrderItem_scanValues k r = Some vs \<and> OrderItem_assignValues k vs n = Inr n'"
proof -
  from assms have "item_table.typed r" by (simp add: tables_typed_def)
  from item_table.typed_read [OF this assms(2)] obtain vs n'
    where "scan_row OrderItem_scanValues k r = Some vs" "length vs = length k" "range_loop OrderItem_assign (zip k vs) n = Inr n'"
    by blast
  then show ?thesis by (simp add: OrderItem_assignValues_def)
qed

lemma outbox_rows_read:
  assumes "tables_typed t" and "set k \<subseteq> set outboxevent_Columns" and "r \<in> set (t outboxevent_Table)"
  shows "\<exists>vs n'. scan_row OutboxEvent_scanValues k r = Some vs \<and> OutboxEvent_assignValues k vs n = Inr n'"
proof -
  from assms have "outbox_table.typed r" by (simp add: tables_typed_def)
  from outbox_table.typed_read [OF this assms(2)] obtain vs n'
    where "scan_row OutboxEvent_scanValues k r = Some vs" "length vs = length k" "range_loop OutboxEvent_assign (zip k vs) n = Inr n'"
    by blast
  then show ?thesis by (simp add: OutboxEvent_assignValues_def)
qed

text \<open>
  C36. Stored rows are well typed: inserting what any create builder makes, and applying what any
  update builder sets and clears, to one row or to many, keeps every cell of every row within
  the type of its column. And in typed tables every read of any selection of columns succeeds:
  no row is refused by the scan or by the assignment to the entity.
\<close>

theorem rows_stay_typed:
  assumes "tables_typed t"
  shows "tables_typed (insert_spec tr (snd (OrderCreate_createSpec c1)) t)
    \<and> tables_typed (insert_spec tr (snd (OrderItemCreate_createSpec c2)) t)
    \<and> tables_typed (insert_spec tr (snd (OutboxEventCreate_createSpec c3)) t)
    \<and> tables_typed (update_tables tr (OrderUpdateOne_updateSpec i cols u1) t)
    \<and> tables_typed (update_tables tr (OrderItemUpdateOne_updateSpec i cols u2) t)
    \<and> tables_typed (update_tables tr (OutboxEventUpdateOne_updateSpec i cols u3) t)
    \<and> tables_typed (bulk_update tr (OrderUpdate_updateSpec v1) t)
    \<and> tables_typed (bulk_update tr (OrderItemUpdate_updateSpec v2) t)
    \<and> tables_typed (bulk_update tr (OutboxEventUpdate_updateSpec v3) t)
    \<and> (set k1 \<subseteq> set order_Columns \<longrightarrow> (\<forall>r \<in> set (t order_Table). \<exists>vs n'.
          scan_row Order_scanValues k1 r = Some vs \<and> Order_assignValues k1 vs n1 = Inr n'))
    \<and> (set k2 \<subseteq> set (orderitem_Columns @ orderitem_ForeignKeys) \<longrightarrow> (\<forall>r \<in> set (t orderitem_Table). \<exists>vs n'.
          scan_row OrderItem_scanValues k2 r = Some vs \<and> OrderItem_assignValues k2 vs n2 = Inr n'))
    \<and> (set k3 \<subseteq> set outboxevent_Columns \<longrightarrow> (\<forall>r \<in> set (t outboxevent_Table). \<exists>vs n'.
          scan_row OutboxEvent_scanValues k3 r = Some vs \<and> OutboxEvent_assignValues k3 vs n3 = Inr n'))"
proof -
  have inserts: "tables_typed (insert_spec tr (snd (OrderCreate_createSpec c1)) t)"
    "tables_typed (insert_spec tr (snd (OrderItemCreate_createSpec c2)) t)"
    "tables_typed (insert_spec tr (snd (OutboxEventCreate_createSpec c3)) t)"
    using assms order_table.typed_insert [OF order_create_cells] item_table.typed_insert [OF item_create_cells]
      outbox_table.typed_insert [OF outbox_create_cells]
    by (simp_all add: tables_typed_def insert_spec_def)
  have updates: "tables_typed (update_tables tr (OrderUpdateOne_updateSpec i cols u1) t)"
    "tables_typed (update_tables tr (OrderItemUpdateOne_updateSpec i cols u2) t)"
    "tables_typed (update_tables tr (OutboxEventUpdateOne_updateSpec i cols u3) t)"
    unfolding update_tables_def
    by (rule order_rows_typed [OF assms spec_tables(4) order_update_cells(1)]
        item_rows_typed [OF assms spec_tables(5) item_update_cells(1)]
        outbox_rows_typed [OF assms spec_tables(6) outbox_update_cells(1)])+
  have bulks: "tables_typed (bulk_update tr (OrderUpdate_updateSpec v1) t)"
    "tables_typed (bulk_update tr (OrderItemUpdate_updateSpec v2) t)"
    "tables_typed (bulk_update tr (OutboxEventUpdate_updateSpec v3) t)"
    unfolding bulk_update_def
    by (rule order_rows_typed [OF assms spec_tables(7) order_update_cells(2)]
        item_rows_typed [OF assms spec_tables(8) item_update_cells(2)]
        outbox_rows_typed [OF assms spec_tables(9) outbox_update_cells(2)])+
  have reads: "set k1 \<subseteq> set order_Columns \<longrightarrow> (\<forall>r \<in> set (t order_Table). \<exists>vs n'.
          scan_row Order_scanValues k1 r = Some vs \<and> Order_assignValues k1 vs n1 = Inr n')"
    "set k2 \<subseteq> set (orderitem_Columns @ orderitem_ForeignKeys) \<longrightarrow> (\<forall>r \<in> set (t orderitem_Table). \<exists>vs n'.
          scan_row OrderItem_scanValues k2 r = Some vs \<and> OrderItem_assignValues k2 vs n2 = Inr n')"
    "set k3 \<subseteq> set outboxevent_Columns \<longrightarrow> (\<forall>r \<in> set (t outboxevent_Table). \<exists>vs n'.
          scan_row OutboxEvent_scanValues k3 r = Some vs \<and> OutboxEvent_assignValues k3 vs n3 = Inr n')"
    using order_rows_read [OF assms] item_rows_read [OF assms] outbox_rows_read [OF assms] by blast+
  show ?thesis by (intro conjI inserts updates bulks reads)
qed

lemma rows_stay_typed_witness:
  "tables_typed (bulk_update micros (OrderUpdate_updateSpec complete_created) two_orders)"
proof -
  have "tables_typed two_orders"
    unfolding tables_typed_def order_table.typed_def
    by (simp add: two_orders_def no_tables_def order_Columns_def)
  from rows_stay_typed [OF this, of micros _ _ _ _ _ _ _ _ complete_created] show ?thesis by blast
qed

end
