(* ===== verification/EntHooks.thy ===== *)
theory EntHooks
  imports EntDelete
begin

text \<open>
  Hooks on mutations (\<open>gen/ent/hook/hook.go\<close>, \<open>withHooks\<close> in \<open>gen/ent/ent.go\<close>, the clients of
  \<open>gen/ent/client.go\<close>). Builders and hooks share the mutation through a pointer, so the
  mutations live in a store and a \<open>mut_ref\<close> points to one; its constructor is the pointer's
  dynamic type. An operation mask and its text are those of the ent library (\<open>op_lib\<close>).
\<close>

subsection \<open>Mutations, mutators, hooks\<close>

datatype mut_ref = OrderRef nat | OrderItemRef nat | OutboxEventRef nat

record 'd ent_world =
  ew_db :: 'd
  ew_order :: "nat \<Rightarrow> OrderMutation"
  ew_orderitem :: "nat \<Rightarrow> OrderItemMutation"
  ew_outboxevent :: "nat \<Rightarrow> OutboxEventMutation"

datatype ent_result = NodeOrder Order | NodeOrderItem OrderItem | NodeOutboxEvent OutboxEvent | Affected i64

datatype hook_error =
    EntError ent_error
  | UnexpectedMutation
  | UnexpectedNode
  | UninitializedHook
  | OperationNotAllowed string

type_synonym ('d, 'v) run = "'d ent_world \<Rightarrow> 'd ent_world \<times> (hook_error + 'v)"
type_synonym 'd mutator = "mut_ref \<Rightarrow> ('d, ent_result) run"
type_synonym 'd hook = "'d mutator \<Rightarrow> 'd mutator"
type_synonym 'd hook_condition = "mut_ref \<Rightarrow> 'd ent_world \<Rightarrow> bool"

record 'o op_lib =
  Op_Is :: "ent_op \<Rightarrow> 'o \<Rightarrow> bool"
  Op_String :: "'o \<Rightarrow> string"

fun Mutation_Op :: "mut_ref \<Rightarrow> 'd ent_world \<Rightarrow> ent_op" where
  "Mutation_Op (OrderRef i) s = om_op (ew_order s i)"
| "Mutation_Op (OrderItemRef i) s = im_op (ew_orderitem s i)"
| "Mutation_Op (OutboxEventRef i) s = bm_op (ew_outboxevent s i)"

fun Mutation_Field :: "string \<Rightarrow> mut_ref \<Rightarrow> 'd ent_world \<Rightarrow> ent_value option" where
  "Mutation_Field n (OrderRef i) s = OrderMutation_Field n (ew_order s i)"
| "Mutation_Field n (OrderItemRef i) s = OrderItemMutation_Field n (ew_orderitem s i)"
| "Mutation_Field n (OutboxEventRef i) s = OutboxEventMutation_Field n (ew_outboxevent s i)"

fun Mutation_AddedField :: "string \<Rightarrow> mut_ref \<Rightarrow> 'd ent_world \<Rightarrow> ent_value option" where
  "Mutation_AddedField n (OrderRef i) s = OrderMutation_AddedField n (ew_order s i)"
| "Mutation_AddedField n (OrderItemRef i) s = OrderItemMutation_AddedField n (ew_orderitem s i)"
| "Mutation_AddedField n (OutboxEventRef i) s = None"

fun Mutation_FieldCleared :: "string \<Rightarrow> mut_ref \<Rightarrow> 'd ent_world \<Rightarrow> bool" where
  "Mutation_FieldCleared n (OrderRef i) s = OrderMutation_FieldCleared n (ew_order s i)"
| "Mutation_FieldCleared n (OrderItemRef i) s = OrderItemMutation_FieldCleared n (ew_orderitem s i)"
| "Mutation_FieldCleared n (OutboxEventRef i) s = OutboxEventMutation_FieldCleared n (ew_outboxevent s i)"

text \<open>The adapters from functions on one kind of mutation.\<close>

fun OrderFunc_Mutate :: "(nat \<Rightarrow> ('d, ent_result) run) \<Rightarrow> 'd mutator" where
  "OrderFunc_Mutate f (OrderRef i) s = f i s"
| "OrderFunc_Mutate f _ s = (s, Inl UnexpectedMutation)"

fun OrderItemFunc_Mutate :: "(nat \<Rightarrow> ('d, ent_result) run) \<Rightarrow> 'd mutator" where
  "OrderItemFunc_Mutate f (OrderItemRef i) s = f i s"
| "OrderItemFunc_Mutate f _ s = (s, Inl UnexpectedMutation)"

fun OutboxEventFunc_Mutate :: "(nat \<Rightarrow> ('d, ent_result) run) \<Rightarrow> 'd mutator" where
  "OutboxEventFunc_Mutate f (OutboxEventRef i) s = f i s"
| "OutboxEventFunc_Mutate f _ s = (s, Inl UnexpectedMutation)"

subsection \<open>Conditions\<close>

definition hook_And :: "'d hook_condition \<Rightarrow> 'd hook_condition \<Rightarrow> 'd hook_condition list \<Rightarrow> 'd hook_condition" where
  "hook_And c1 c2 rest m s \<longleftrightarrow> (if \<not> c1 m s \<or> \<not> c2 m s then False else list_all (\<lambda>c. c m s) rest)"

definition hook_Or :: "'d hook_condition \<Rightarrow> 'd hook_condition \<Rightarrow> 'd hook_condition list \<Rightarrow> 'd hook_condition" where
  "hook_Or c1 c2 rest m s \<longleftrightarrow> (if c1 m s \<or> c2 m s then True else list_ex (\<lambda>c. c m s) rest)"

definition hook_Not :: "'d hook_condition \<Rightarrow> 'd hook_condition" where
  "hook_Not c m s \<longleftrightarrow> \<not> c m s"

definition hook_HasOp :: "('o, 'z) op_lib_scheme \<Rightarrow> 'o \<Rightarrow> 'd hook_condition" where
  "hook_HasOp P op m s \<longleftrightarrow> Op_Is P (Mutation_Op m s) op"

definition hook_HasAddedFields :: "string \<Rightarrow> string list \<Rightarrow> 'd hook_condition" where
  "hook_HasAddedFields f fs m s \<longleftrightarrow>
     (if Mutation_AddedField f m s = None then False else list_all (\<lambda>f. Mutation_AddedField f m s \<noteq> None) fs)"

definition hook_HasClearedFields :: "string \<Rightarrow> string list \<Rightarrow> 'd hook_condition" where
  "hook_HasClearedFields f fs m s \<longleftrightarrow>
     (if \<not> Mutation_FieldCleared f m s then False else list_all (\<lambda>f. Mutation_FieldCleared f m s) fs)"

definition hook_HasFields :: "string \<Rightarrow> string list \<Rightarrow> 'd hook_condition" where
  "hook_HasFields f fs m s \<longleftrightarrow>
     (if Mutation_Field f m s = None then False else list_all (\<lambda>f. Mutation_Field f m s \<noteq> None) fs)"

subsection \<open>Hooks\<close>

definition hook_If :: "'d hook \<Rightarrow> 'd hook_condition \<Rightarrow> 'd hook" where
  "hook_If hk c inner m s = (if c m s then hk inner m s else inner m s)"

definition hook_On :: "('o, 'z) op_lib_scheme \<Rightarrow> 'd hook \<Rightarrow> 'o \<Rightarrow> 'd hook" where
  "hook_On P hk op = hook_If hk (hook_HasOp P op)"

definition hook_Unless :: "('o, 'z) op_lib_scheme \<Rightarrow> 'd hook \<Rightarrow> 'o \<Rightarrow> 'd hook" where
  "hook_Unless P hk op = hook_If hk (hook_Not (hook_HasOp P op))"

definition hook_FixedError :: "hook_error \<Rightarrow> 'd hook" where
  "hook_FixedError e inner m s = (s, Inl e)"

definition hook_Reject :: "('o, 'z) op_lib_scheme \<Rightarrow> 'o \<Rightarrow> 'd hook" where
  "hook_Reject P op = hook_On P (hook_FixedError (OperationNotAllowed (Op_String P op))) op"

text \<open>A \<open>Chain\<close> is its list of hooks.\<close>

definition NewChain :: "'d hook list \<Rightarrow> 'd hook list" where
  "NewChain hooks = [] @ hooks"

definition Chain_Hook :: "'d hook list \<Rightarrow> 'd hook" where
  "Chain_Hook c mutator = foldr (\<lambda>h mutator. h mutator) c mutator"

definition Chain_Append :: "'d hook list \<Rightarrow> 'd hook list \<Rightarrow> 'd hook list" where
  "Chain_Append c hooks = c @ hooks"

definition Chain_Extend :: "'d hook list \<Rightarrow> 'd hook list \<Rightarrow> 'd hook list" where
  "Chain_Extend c chain = Chain_Append c chain"

subsection \<open>Running a builder under hooks\<close>

text \<open>
  \<open>withHooks\<close>. Its type parameters are the arguments \<open>copy\<close> (\<open>*mutation = *mutationT\<close>, which is
  nothing when the pointer has another type), \<open>wrap\<close> and \<open>unwrap\<close> (a value as a \<open>Value\<close> and
  back). A nil hook is \<open>None\<close>.
\<close>

definition withHooks ::
  "(mut_ref \<Rightarrow> mut_ref \<Rightarrow> 'd ent_world \<Rightarrow> 'd ent_world option) \<Rightarrow> ('v \<Rightarrow> ent_result) \<Rightarrow> (ent_result \<Rightarrow> 'v option)
   \<Rightarrow> ('d, 'v) run \<Rightarrow> mut_ref \<Rightarrow> 'd hook option list \<Rightarrow> ('d, 'v) run" where
  "withHooks copy wrap unwrap exec mutation hooks s =
     (if hooks = [] then exec s
      else
        let mut = (\<lambda>m s.
              case copy mutation m s of
                None \<Rightarrow> (s, Inl UnexpectedMutation)
              | Some s \<Rightarrow> (case exec s of (s, Inl e) \<Rightarrow> (s, Inl e) | (s, Inr v) \<Rightarrow> (s, Inr (wrap v))))
        in if None \<in> set hooks then (s, Inl UninitializedHook)
           else
             case foldr (\<lambda>h mut. the h mut) hooks mut mutation s of
               (s, Inl e) \<Rightarrow> (s, Inl e)
             | (s, Inr v) \<Rightarrow> (case unwrap v of Some nv \<Rightarrow> (s, Inr nv) | None \<Rightarrow> (s, Inl UnexpectedNode)))"

text \<open>The hooks of a client, shared by every copy of its config.\<close>

record 'd hooks =
  hk_Order :: "'d hook option list"
  hk_OrderItem :: "'d hook option list"
  hk_OutboxEvent :: "'d hook option list"

definition no_hooks :: "'d hooks" where
  "no_hooks = \<lparr>hk_Order = [], hk_OrderItem = [], hk_OutboxEvent = []\<rparr>"

fun as_affected :: "ent_result \<Rightarrow> i64 option" where
  "as_affected (Affected n) = Some n"
| "as_affected _ = None"

definition put_result :: "('v \<Rightarrow> ent_result) \<Rightarrow> 'd ent_world \<times> (hook_error + 'v) \<Rightarrow> 'd ent_world \<times> (hook_error + ent_result)" where
  "put_result wrap = map_prod id (map_sum id wrap)"

subsection \<open>Orders\<close>

fun as_order :: "ent_result \<Rightarrow> Order option" where
  "as_order (NodeOrder v) = Some v"
| "as_order _ = None"

fun order_copy :: "mut_ref \<Rightarrow> mut_ref \<Rightarrow> 'd ent_world \<Rightarrow> 'd ent_world option" where
  "order_copy (OrderRef i) (OrderRef j) s = Some (s\<lparr>ew_order := (ew_order s)(i := ew_order s j)\<rparr>)"
| "order_copy _ _ s = None"

definition OrderClient_Use :: "'d hook option list \<Rightarrow> 'd hooks \<Rightarrow> 'd hooks" where
  "OrderClient_Use hooks c = c\<lparr>hk_Order := hk_Order c @ hooks\<rparr>"

definition OrderCreate_hooked :: "('d, 'z) lib_scheme \<Rightarrow> driver \<Rightarrow> 'd hook option list \<Rightarrow> nat \<Rightarrow> ('d, Order) run" where
  "OrderCreate_hooked L drv hooks i s =
     (let (d, c) = OrderCreate_defaults L \<lparr>oc_driver = drv, oc_mutation = ew_order s i\<rparr> (ew_db s);
          s = s\<lparr>ew_db := d, ew_order := (ew_order s)(i := oc_mutation c)\<rparr>
      in withHooks order_copy NodeOrder as_order
           (\<lambda>s. case OrderCreate_sqlSave L \<lparr>oc_driver = drv, oc_mutation = ew_order s i\<rparr> (ew_db s) of
                  (d, Inl e) \<Rightarrow> (s\<lparr>ew_db := d\<rparr>, Inl (EntError e))
                | (d, Inr v) \<Rightarrow>
                    (s\<lparr>ew_db := d, ew_order := (ew_order s)(i := (ew_order s i)\<lparr>om_id := Some (o_ID v), om_done := True\<rparr>)\<rparr>, Inr v))
           (OrderRef i) hooks s)"

definition OrderUpdate_hooked :: "('d, 'z) lib_scheme \<Rightarrow> 'd nodes_lib \<Rightarrow> driver \<Rightarrow> 'd hook option list \<Rightarrow> nat \<Rightarrow> ('d, i64) run" where
  "OrderUpdate_hooked L N drv hooks i s =
     (let (d, u) = OrderUpdate_defaults L \<lparr>um_driver = drv, um_mutation = ew_order s i\<rparr> (ew_db s);
          s = s\<lparr>ew_db := d, ew_order := (ew_order s)(i := um_mutation u)\<rparr>
      in withHooks order_copy Affected as_affected
           (\<lambda>s. case OrderUpdate_sqlSave L N \<lparr>um_driver = drv, um_mutation = ew_order s i\<rparr> (ew_db s) of
                  (d, Inl e) \<Rightarrow> (s\<lparr>ew_db := d\<rparr>, Inl (EntError e))
                | (d, Inr n) \<Rightarrow> (s\<lparr>ew_db := d, ew_order := (ew_order s)(i := (ew_order s i)\<lparr>om_done := True\<rparr>)\<rparr>, Inr n))
           (OrderRef i) hooks s)"

definition OrderUpdateOne_hooked :: "('d, 'z) lib_scheme \<Rightarrow> driver \<Rightarrow> 'd hook option list \<Rightarrow> nat \<Rightarrow> ('d, Order) run" where
  "OrderUpdateOne_hooked L drv hooks i s =
     (let (d, u) = OrderUpdateOne_defaults L \<lparr>ou_driver = drv, ou_fields = [], ou_mutation = ew_order s i\<rparr> (ew_db s);
          s = s\<lparr>ew_db := d, ew_order := (ew_order s)(i := ou_mutation u)\<rparr>
      in withHooks order_copy NodeOrder as_order
           (\<lambda>s. case OrderUpdateOne_sqlSave L \<lparr>ou_driver = drv, ou_fields = [], ou_mutation = ew_order s i\<rparr> (ew_db s) of
                  (d, Inl e) \<Rightarrow> (s\<lparr>ew_db := d\<rparr>, Inl (EntError e))
                | (d, Inr v) \<Rightarrow> (s\<lparr>ew_db := d, ew_order := (ew_order s)(i := (ew_order s i)\<lparr>om_done := True\<rparr>)\<rparr>, Inr v))
           (OrderRef i) hooks s)"

definition OrderDelete_hooked :: "'d nodes_lib \<Rightarrow> driver \<Rightarrow> 'd hook option list \<Rightarrow> nat \<Rightarrow> ('d, i64) run" where
  "OrderDelete_hooked N drv hooks i s =
     withHooks order_copy Affected as_affected
       (\<lambda>s. case OrderDelete_sqlExec N \<lparr>dd_driver = drv, dd_mutation = ew_order s i\<rparr> (ew_db s) of (d, r) \<Rightarrow>
              (s\<lparr>ew_db := d, ew_order := (ew_order s)(i := (ew_order s i)\<lparr>om_done := True\<rparr>)\<rparr>, map_sum EntError id r))
       (OrderRef i) hooks s"

definition OrderClient_mutate ::
  "('d, 'z) lib_scheme \<Rightarrow> 'd nodes_lib \<Rightarrow> driver \<Rightarrow> 'd hooks \<Rightarrow> nat \<Rightarrow> ('d, ent_result) run" where
  "OrderClient_mutate L N drv c i s =
     (case om_op (ew_order s i) of
        OpCreate \<Rightarrow> put_result NodeOrder (OrderCreate_hooked L drv (hk_Order c) i s)
      | OpUpdate \<Rightarrow> put_result Affected (OrderUpdate_hooked L N drv (hk_Order c) i s)
      | OpUpdateOne \<Rightarrow> put_result NodeOrder (OrderUpdateOne_hooked L drv (hk_Order c) i s)
      | OpDelete \<Rightarrow> put_result Affected (OrderDelete_hooked N drv (hk_Order c) i s)
      | OpDeleteOne \<Rightarrow> put_result Affected (OrderDelete_hooked N drv (hk_Order c) i s))"

subsection \<open>Lines\<close>

fun as_orderitem :: "ent_result \<Rightarrow> OrderItem option" where
  "as_orderitem (NodeOrderItem v) = Some v"
| "as_orderitem _ = None"

fun orderitem_copy :: "mut_ref \<Rightarrow> mut_ref \<Rightarrow> 'd ent_world \<Rightarrow> 'd ent_world option" where
  "orderitem_copy (OrderItemRef i) (OrderItemRef j) s = Some (s\<lparr>ew_orderitem := (ew_orderitem s)(i := ew_orderitem s j)\<rparr>)"
| "orderitem_copy _ _ s = None"

definition OrderItemClient_Use :: "'d hook option list \<Rightarrow> 'd hooks \<Rightarrow> 'd hooks" where
  "OrderItemClient_Use hooks c = c\<lparr>hk_OrderItem := hk_OrderItem c @ hooks\<rparr>"

definition OrderItemCreate_hooked :: "('d, 'z) lib_scheme \<Rightarrow> driver \<Rightarrow> 'd hook option list \<Rightarrow> nat \<Rightarrow> ('d, OrderItem) run" where
  "OrderItemCreate_hooked L drv hooks i s =
     (let (d, c) = OrderItemCreate_defaults L \<lparr>ic_driver = drv, ic_mutation = ew_orderitem s i\<rparr> (ew_db s);
          s = s\<lparr>ew_db := d, ew_orderitem := (ew_orderitem s)(i := ic_mutation c)\<rparr>
      in withHooks orderitem_copy NodeOrderItem as_orderitem
           (\<lambda>s. case OrderItemCreate_sqlSave L \<lparr>ic_driver = drv, ic_mutation = ew_orderitem s i\<rparr> (ew_db s) of
                  (d, Inl e) \<Rightarrow> (s\<lparr>ew_db := d\<rparr>, Inl (EntError e))
                | (d, Inr v) \<Rightarrow>
                    (s\<lparr>ew_db := d, ew_orderitem := (ew_orderitem s)(i := (ew_orderitem s i)\<lparr>im_id := Some (oi_ID v), im_done := True\<rparr>)\<rparr>, Inr v))
           (OrderItemRef i) hooks s)"

definition OrderItemUpdate_hooked :: "('d, 'z) lib_scheme \<Rightarrow> 'd nodes_lib \<Rightarrow> driver \<Rightarrow> 'd hook option list \<Rightarrow> nat \<Rightarrow> ('d, i64) run" where
  "OrderItemUpdate_hooked L N drv hooks i s =
     (let (d, u) = OrderItemUpdate_defaults L \<lparr>vm_driver = drv, vm_mutation = ew_orderitem s i\<rparr> (ew_db s);
          s = s\<lparr>ew_db := d, ew_orderitem := (ew_orderitem s)(i := vm_mutation u)\<rparr>
      in withHooks orderitem_copy Affected as_affected
           (\<lambda>s. case OrderItemUpdate_sqlSave L N \<lparr>vm_driver = drv, vm_mutation = ew_orderitem s i\<rparr> (ew_db s) of
                  (d, Inl e) \<Rightarrow> (s\<lparr>ew_db := d\<rparr>, Inl (EntError e))
                | (d, Inr n) \<Rightarrow> (s\<lparr>ew_db := d, ew_orderitem := (ew_orderitem s)(i := (ew_orderitem s i)\<lparr>im_done := True\<rparr>)\<rparr>, Inr n))
           (OrderItemRef i) hooks s)"

definition OrderItemUpdateOne_hooked :: "('d, 'z) lib_scheme \<Rightarrow> driver \<Rightarrow> 'd hook option list \<Rightarrow> nat \<Rightarrow> ('d, OrderItem) run" where
  "OrderItemUpdateOne_hooked L drv hooks i s =
     (let (d, u) = OrderItemUpdateOne_defaults L \<lparr>iu_driver = drv, iu_fields = [], iu_mutation = ew_orderitem s i\<rparr> (ew_db s);
          s = s\<lparr>ew_db := d, ew_orderitem := (ew_orderitem s)(i := iu_mutation u)\<rparr>
      in withHooks orderitem_copy NodeOrderItem as_orderitem
           (\<lambda>s. case OrderItemUpdateOne_sqlSave L \<lparr>iu_driver = drv, iu_fields = [], iu_mutation = ew_orderitem s i\<rparr> (ew_db s) of
                  (d, Inl e) \<Rightarrow> (s\<lparr>ew_db := d\<rparr>, Inl (EntError e))
                | (d, Inr v) \<Rightarrow> (s\<lparr>ew_db := d, ew_orderitem := (ew_orderitem s)(i := (ew_orderitem s i)\<lparr>im_done := True\<rparr>)\<rparr>, Inr v))
           (OrderItemRef i) hooks s)"

definition OrderItemDelete_hooked :: "'d nodes_lib \<Rightarrow> driver \<Rightarrow> 'd hook option list \<Rightarrow> nat \<Rightarrow> ('d, i64) run" where
  "OrderItemDelete_hooked N drv hooks i s =
     withHooks orderitem_copy Affected as_affected
       (\<lambda>s. case OrderItemDelete_sqlExec N \<lparr>di_driver = drv, di_mutation = ew_orderitem s i\<rparr> (ew_db s) of (d, r) \<Rightarrow>
              (s\<lparr>ew_db := d, ew_orderitem := (ew_orderitem s)(i := (ew_orderitem s i)\<lparr>im_done := True\<rparr>)\<rparr>, map_sum EntError id r))
       (OrderItemRef i) hooks s"

definition OrderItemClient_mutate ::
  "('d, 'z) lib_scheme \<Rightarrow> 'd nodes_lib \<Rightarrow> driver \<Rightarrow> 'd hooks \<Rightarrow> nat \<Rightarrow> ('d, ent_result) run" where
  "OrderItemClient_mutate L N drv c i s =
     (case im_op (ew_orderitem s i) of
        OpCreate \<Rightarrow> put_result NodeOrderItem (OrderItemCreate_hooked L drv (hk_OrderItem c) i s)
      | OpUpdate \<Rightarrow> put_result Affected (OrderItemUpdate_hooked L N drv (hk_OrderItem c) i s)
      | OpUpdateOne \<Rightarrow> put_result NodeOrderItem (OrderItemUpdateOne_hooked L drv (hk_OrderItem c) i s)
      | OpDelete \<Rightarrow> put_result Affected (OrderItemDelete_hooked N drv (hk_OrderItem c) i s)
      | OpDeleteOne \<Rightarrow> put_result Affected (OrderItemDelete_hooked N drv (hk_OrderItem c) i s))"

subsection \<open>Outbox events\<close>

fun as_outboxevent :: "ent_result \<Rightarrow> OutboxEvent option" where
  "as_outboxevent (NodeOutboxEvent v) = Some v"
| "as_outboxevent _ = None"

fun outboxevent_copy :: "mut_ref \<Rightarrow> mut_ref \<Rightarrow> 'd ent_world \<Rightarrow> 'd ent_world option" where
  "outboxevent_copy (OutboxEventRef i) (OutboxEventRef j) s = Some (s\<lparr>ew_outboxevent := (ew_outboxevent s)(i := ew_outboxevent s j)\<rparr>)"
| "outboxevent_copy _ _ s = None"

definition OutboxEventClient_Use :: "'d hook option list \<Rightarrow> 'd hooks \<Rightarrow> 'd hooks" where
  "OutboxEventClient_Use hooks c = c\<lparr>hk_OutboxEvent := hk_OutboxEvent c @ hooks\<rparr>"

definition OutboxEventCreate_hooked :: "('d, 'z) lib_scheme \<Rightarrow> driver \<Rightarrow> 'd hook option list \<Rightarrow> nat \<Rightarrow> ('d, OutboxEvent) run" where
  "OutboxEventCreate_hooked L drv hooks i s =
     (let (d, c) = OutboxEventCreate_defaults L \<lparr>bc_driver = drv, bc_mutation = ew_outboxevent s i\<rparr> (ew_db s);
          s = s\<lparr>ew_db := d, ew_outboxevent := (ew_outboxevent s)(i := bc_mutation c)\<rparr>
      in withHooks outboxevent_copy NodeOutboxEvent as_outboxevent
           (\<lambda>s. case OutboxEventCreate_sqlSave L \<lparr>bc_driver = drv, bc_mutation = ew_outboxevent s i\<rparr> (ew_db s) of
                  (d, Inl e) \<Rightarrow> (s\<lparr>ew_db := d\<rparr>, Inl (EntError e))
                | (d, Inr v) \<Rightarrow>
                    (s\<lparr>ew_db := d, ew_outboxevent := (ew_outboxevent s)(i := (ew_outboxevent s i)\<lparr>bm_id := Some (ob_ID v), bm_done := True\<rparr>)\<rparr>, Inr v))
           (OutboxEventRef i) hooks s)"

definition OutboxEventUpdate_hooked :: "('d, 'z) lib_scheme \<Rightarrow> 'd nodes_lib \<Rightarrow> driver \<Rightarrow> 'd hook option list \<Rightarrow> nat \<Rightarrow> ('d, i64) run" where
  "OutboxEventUpdate_hooked L N drv hooks i s =
     (let (d, u) = OutboxEventUpdate_defaults L \<lparr>wm_driver = drv, wm_mutation = ew_outboxevent s i\<rparr> (ew_db s);
          s = s\<lparr>ew_db := d, ew_outboxevent := (ew_outboxevent s)(i := wm_mutation u)\<rparr>
      in withHooks outboxevent_copy Affected as_affected
           (\<lambda>s. case OutboxEventUpdate_sqlSave L N \<lparr>wm_driver = drv, wm_mutation = ew_outboxevent s i\<rparr> (ew_db s) of
                  (d, Inl e) \<Rightarrow> (s\<lparr>ew_db := d\<rparr>, Inl (EntError e))
                | (d, Inr n) \<Rightarrow> (s\<lparr>ew_db := d, ew_outboxevent := (ew_outboxevent s)(i := (ew_outboxevent s i)\<lparr>bm_done := True\<rparr>)\<rparr>, Inr n))
           (OutboxEventRef i) hooks s)"

definition OutboxEventUpdateOne_hooked :: "('d, 'z) lib_scheme \<Rightarrow> driver \<Rightarrow> 'd hook option list \<Rightarrow> nat \<Rightarrow> ('d, OutboxEvent) run" where
  "OutboxEventUpdateOne_hooked L drv hooks i s =
     (let (d, u) = OutboxEventUpdateOne_defaults L \<lparr>bu_driver = drv, bu_fields = [], bu_mutation = ew_outboxevent s i\<rparr> (ew_db s);
          s = s\<lparr>ew_db := d, ew_outboxevent := (ew_outboxevent s)(i := bu_mutation u)\<rparr>
      in withHooks outboxevent_copy NodeOutboxEvent as_outboxevent
           (\<lambda>s. case OutboxEventUpdateOne_sqlSave L \<lparr>bu_driver = drv, bu_fields = [], bu_mutation = ew_outboxevent s i\<rparr> (ew_db s) of
                  (d, Inl e) \<Rightarrow> (s\<lparr>ew_db := d\<rparr>, Inl (EntError e))
                | (d, Inr v) \<Rightarrow> (s\<lparr>ew_db := d, ew_outboxevent := (ew_outboxevent s)(i := (ew_outboxevent s i)\<lparr>bm_done := True\<rparr>)\<rparr>, Inr v))
           (OutboxEventRef i) hooks s)"

definition OutboxEventDelete_hooked :: "'d nodes_lib \<Rightarrow> driver \<Rightarrow> 'd hook option list \<Rightarrow> nat \<Rightarrow> ('d, i64) run" where
  "OutboxEventDelete_hooked N drv hooks i s =
     withHooks outboxevent_copy Affected as_affected
       (\<lambda>s. case OutboxEventDelete_sqlExec N \<lparr>db_driver = drv, db_mutation = ew_outboxevent s i\<rparr> (ew_db s) of (d, r) \<Rightarrow>
              (s\<lparr>ew_db := d, ew_outboxevent := (ew_outboxevent s)(i := (ew_outboxevent s i)\<lparr>bm_done := True\<rparr>)\<rparr>, map_sum EntError id r))
       (OutboxEventRef i) hooks s"

definition OutboxEventClient_mutate ::
  "('d, 'z) lib_scheme \<Rightarrow> 'd nodes_lib \<Rightarrow> driver \<Rightarrow> 'd hooks \<Rightarrow> nat \<Rightarrow> ('d, ent_result) run" where
  "OutboxEventClient_mutate L N drv c i s =
     (case bm_op (ew_outboxevent s i) of
        OpCreate \<Rightarrow> put_result NodeOutboxEvent (OutboxEventCreate_hooked L drv (hk_OutboxEvent c) i s)
      | OpUpdate \<Rightarrow> put_result Affected (OutboxEventUpdate_hooked L N drv (hk_OutboxEvent c) i s)
      | OpUpdateOne \<Rightarrow> put_result NodeOutboxEvent (OutboxEventUpdateOne_hooked L drv (hk_OutboxEvent c) i s)
      | OpDelete \<Rightarrow> put_result Affected (OutboxEventDelete_hooked N drv (hk_OutboxEvent c) i s)
      | OpDeleteOne \<Rightarrow> put_result Affected (OutboxEventDelete_hooked N drv (hk_OutboxEvent c) i s))"

subsection \<open>The client\<close>

definition Client_Use :: "'d hook option list \<Rightarrow> 'd hooks \<Rightarrow> 'd hooks" where
  "Client_Use hooks c = OutboxEventClient_Use hooks (OrderItemClient_Use hooks (OrderClient_Use hooks c))"

fun Client_Mutate :: "('d, 'z) lib_scheme \<Rightarrow> 'd nodes_lib \<Rightarrow> driver \<Rightarrow> 'd hooks \<Rightarrow> 'd mutator" where
  "Client_Mutate L N drv c (OrderRef i) s = OrderClient_mutate L N drv c i s"
| "Client_Mutate L N drv c (OrderItemRef i) s = OrderItemClient_mutate L N drv c i s"
| "Client_Mutate L N drv c (OutboxEventRef i) s = OutboxEventClient_mutate L N drv c i s"

end
