(* ===== verification/EntHookRules.thy ===== *)
theory EntHookRules
  imports EntHooks EntBulk
begin

text \<open>
  What hooks do to a builder. The locale \<open>hooked_builder\<close> is what \<open>withHooks\<close> needs of a builder
  (its mutation copies onto itself, its result survives the round through \<open>Value\<close>); the three
  clients' builders are its instances. A rejecting hook cuts exactly the operations it names.
\<close>

subsection \<open>Hooks that pass operations on\<close>

definition op_local :: "('o, 'z) op_lib_scheme \<Rightarrow> 'o \<Rightarrow> 'd hook \<Rightarrow> bool" where
  \<comment> \<open>a mutation that matches \<open>op\<close> is passed on, if at all, as one that matches; one that does not, as one that does not\<close>
  "op_local P op h \<longleftrightarrow>
     (\<forall>b n1 n2. (\<forall>m s. hook_HasOp P op m s = b \<longrightarrow> n1 m s = n2 m s)
        \<longrightarrow> (\<forall>m s. hook_HasOp P op m s = b \<longrightarrow> h n1 m s = h n2 m s))"

lemma op_local_FixedError [intro]: "op_local P op (hook_FixedError e)"
  by (simp add: op_local_def hook_FixedError_def)

lemma op_local_If [intro]: "op_local P op h \<Longrightarrow> op_local P op (hook_If h c)"
  by (simp add: op_local_def hook_If_def)

lemma op_local_On [intro]: "op_local P op h \<Longrightarrow> op_local P op (hook_On P h op')"
  by (auto simp: hook_On_def)

lemma op_local_Unless [intro]: "op_local P op h \<Longrightarrow> op_local P op (hook_Unless P h op')"
  by (auto simp: hook_Unless_def)

lemma op_local_Reject [intro]: "op_local P op (hook_Reject P op')"
  by (auto simp: hook_Reject_def)

lemma op_localD:
  "op_local P op h \<Longrightarrow> (\<And>m s. hook_HasOp P op m s = b \<Longrightarrow> n1 m s = n2 m s) \<Longrightarrow> hook_HasOp P op m s = b
    \<Longrightarrow> h n1 m s = h n2 m s"
  unfolding op_local_def by blast

lemma Chain_Hook_simps [simp]: "Chain_Hook [] n = n" "Chain_Hook (h # c) n = h (Chain_Hook c n)"
  by (simp_all add: Chain_Hook_def)

lemma op_local_Chain [intro]: "(\<forall>h \<in> set (c :: 'd hook list). op_local P op h) \<Longrightarrow> op_local P op (Chain_Hook c)"
proof (induction c)
  case (Cons h c)
  then have h: "op_local P op h" and c: "op_local P op (Chain_Hook c)" by simp_all
  show ?case unfolding op_local_def Chain_Hook_simps
  proof (intro allI impI)
    fix b m and s :: "'d ent_world" and n1 n2 :: "'d mutator"
    assume agree: "\<forall>m s. hook_HasOp P op m s = b \<longrightarrow> n1 m s = n2 m s" and "hook_HasOp P op m s = b"
    then show "h (Chain_Hook c n1) m s = h (Chain_Hook c n2) m s"
      by (intro op_localD [OF h] op_localD [OF c]) auto
  qed
qed (simp add: op_local_def)

lemma Chain_Hook_append: "Chain_Hook (c @ c') n = Chain_Hook c (Chain_Hook c' n)"
  by (simp add: Chain_Hook_def)

lemma Chain_Extend_Hook: "Chain_Hook (Chain_Extend c c') = Chain_Hook c \<circ> Chain_Hook c'"
  by (simp add: fun_eq_iff Chain_Extend_def Chain_Append_def Chain_Hook_append)

lemma Reject_apply:
  "hook_Reject P op n m s =
     (if hook_HasOp P op m s then hook_FixedError (OperationNotAllowed (Op_String P op)) n m s else n m s)"
  by (simp add: hook_Reject_def hook_On_def hook_If_def)

text \<open>A rejecting hook after hooks that pass operations on.\<close>

lemma Chain_Reject:
  assumes "\<forall>h \<in> set before. op_local P op h"
  shows "Chain_Hook (before @ hook_Reject P op # after) n m s =
    (if hook_HasOp P op m s then Chain_Hook (before @ [hook_FixedError (OperationNotAllowed (Op_String P op))]) n m s
     else Chain_Hook (before @ after) n m s)"
proof (cases "hook_HasOp P op m s")
  case True
  have "Chain_Hook before (Chain_Hook (hook_Reject P op # after) n) m s
    = Chain_Hook before (Chain_Hook [hook_FixedError (OperationNotAllowed (Op_String P op))] n) m s"
    by (rule op_localD [OF op_local_Chain [OF assms], where b = True]) (simp_all add: Reject_apply hook_FixedError_def True)
  with True show ?thesis by (simp only: Chain_Hook_append if_True)
next
  case False
  have "Chain_Hook before (Chain_Hook (hook_Reject P op # after) n) m s = Chain_Hook before (Chain_Hook after n) m s"
    by (rule op_localD [OF op_local_Chain [OF assms], where b = False]) (simp_all add: Reject_apply False)
  with False show ?thesis by (simp only: Chain_Hook_append if_False)
qed

subsection \<open>Builders under hooks\<close>

definition hooked_mutator ::
  "(mut_ref \<Rightarrow> mut_ref \<Rightarrow> 'd ent_world \<Rightarrow> 'd ent_world option) \<Rightarrow> ('v \<Rightarrow> ent_result) \<Rightarrow> ('d, 'v) run \<Rightarrow> mut_ref \<Rightarrow> 'd mutator" where
  "hooked_mutator copy wrap exec self m s =
     (case copy self m s of
        None \<Rightarrow> (s, Inl UnexpectedMutation)
      | Some s \<Rightarrow> (case exec s of (s, Inl e) \<Rightarrow> (s, Inl e) | (s, Inr v) \<Rightarrow> (s, Inr (wrap v))))"

definition take_result :: "(ent_result \<Rightarrow> 'v option) \<Rightarrow> 'd ent_world \<times> (hook_error + ent_result) \<Rightarrow> 'd ent_world \<times> (hook_error + 'v)" where
  "take_result unwrap out =
     (case out of
        (s, Inl e) \<Rightarrow> (s, Inl e)
      | (s, Inr v) \<Rightarrow> (case unwrap v of Some nv \<Rightarrow> (s, Inr nv) | None \<Rightarrow> (s, Inl UnexpectedNode)))"

lemma foldr_the: "foldr (\<lambda>h n. the h n) hooks n = Chain_Hook (map the hooks) n"
  by (simp add: Chain_Hook_def foldr_map comp_def)

locale hooked_builder =
  fixes copy :: "mut_ref \<Rightarrow> mut_ref \<Rightarrow> 'd ent_world \<Rightarrow> 'd ent_world option"
    and wrap :: "'v \<Rightarrow> ent_result"
    and unwrap :: "ent_result \<Rightarrow> 'v option"
    and self :: mut_ref
  assumes self_copy: "copy self self s = Some s"
    and unwrap_wrap: "unwrap (wrap v) = Some v"
begin

lemma as_chain:
  "withHooks copy wrap unwrap exec self hooks s =
     (if None \<in> set hooks then (s, Inl UninitializedHook)
      else take_result unwrap (Chain_Hook (map the hooks) (hooked_mutator copy wrap exec self) self s))"
proof (cases "hooks = []")
  case True
  then show ?thesis
    by (auto simp: withHooks_def Chain_Hook_def hooked_mutator_def take_result_def self_copy unwrap_wrap
        split: sum.splits prod.splits)
next
  case False
  then show ?thesis
    by (simp add: withHooks_def foldr_the take_result_def hooked_mutator_def [abs_def])
qed

lemma unhooked: "withHooks copy wrap unwrap exec self [] s = exec s"
  by (simp add: withHooks_def)

lemma reject:
  assumes "\<forall>h \<in> set before. op_local P op h" and "None \<notin> set after"
  shows "withHooks copy wrap unwrap exec self (map Some before @ Some (hook_Reject P op) # after) s =
    (if hook_HasOp P op self s
     then withHooks copy wrap unwrap exec self (map Some before @ [Some (hook_FixedError (OperationNotAllowed (Op_String P op)))]) s
     else withHooks copy wrap unwrap exec self (map Some before @ after) s)"
  using assms(2) Chain_Reject [OF assms(1)] by (auto simp: as_chain comp_def)

text \<open>One chain of hooks is its hooks.\<close>

lemma chain_of_hooks:
  "withHooks copy wrap unwrap exec self [Some (Chain_Hook (NewChain c))] s =
   withHooks copy wrap unwrap exec self (map Some c) s"
  by (auto simp: as_chain comp_def NewChain_def)

end

interpretation order_node: hooked_builder order_copy NodeOrder as_order "OrderRef i"
  by unfold_locales simp_all

interpretation order_affected: hooked_builder order_copy Affected as_affected "OrderRef i"
  by unfold_locales simp_all

interpretation orderitem_node: hooked_builder orderitem_copy NodeOrderItem as_orderitem "OrderItemRef i"
  by unfold_locales simp_all

interpretation orderitem_affected: hooked_builder orderitem_copy Affected as_affected "OrderItemRef i"
  by unfold_locales simp_all

interpretation outboxevent_node: hooked_builder outboxevent_copy NodeOutboxEvent as_outboxevent "OutboxEventRef i"
  by unfold_locales simp_all

interpretation outboxevent_affected: hooked_builder outboxevent_copy Affected as_affected "OutboxEventRef i"
  by unfold_locales simp_all

subsection \<open>Rejected operations\<close>

text \<open>The defaults of a builder leave its operation alone.\<close>

lemma order_defaults_op:
  "OrderCreate_defaults L \<lparr>oc_driver = drv, oc_mutation = m\<rparr> d = (d1, b1) \<Longrightarrow> om_op (oc_mutation b1) = om_op m"
  "OrderUpdate_defaults L \<lparr>um_driver = drv, um_mutation = m\<rparr> d = (d2, b2) \<Longrightarrow> om_op (um_mutation b2) = om_op m"
  "OrderUpdateOne_defaults L \<lparr>ou_driver = drv, ou_fields = fs, ou_mutation = m\<rparr> d = (d3, b3) \<Longrightarrow> om_op (ou_mutation b3) = om_op m"
  by (auto simp: OrderCreate_defaults_def OrderUpdate_defaults_def OrderUpdateOne_defaults_def Let_def ent_defs OrderCreate_constants_def
      split: option.splits prod.splits)

lemma orderitem_defaults_op:
  "OrderItemCreate_defaults L \<lparr>ic_driver = drv, ic_mutation = m\<rparr> d = (d1, b1) \<Longrightarrow> im_op (ic_mutation b1) = im_op m"
  "OrderItemUpdate_defaults L \<lparr>vm_driver = drv, vm_mutation = m\<rparr> d = (d2, b2) \<Longrightarrow> im_op (vm_mutation b2) = im_op m"
  "OrderItemUpdateOne_defaults L \<lparr>iu_driver = drv, iu_fields = fs, iu_mutation = m\<rparr> d = (d3, b3) \<Longrightarrow> im_op (iu_mutation b3) = im_op m"
  by (auto simp: OrderItemCreate_defaults_def OrderItemUpdate_defaults_def OrderItemUpdateOne_defaults_def Let_def ent_defs
      split: option.splits prod.splits)

lemma outboxevent_defaults_op:
  "OutboxEventCreate_defaults L \<lparr>bc_driver = drv, bc_mutation = m\<rparr> d = (d1, b1) \<Longrightarrow> bm_op (bc_mutation b1) = bm_op m"
  "OutboxEventUpdate_defaults L \<lparr>wm_driver = drv, wm_mutation = m\<rparr> d = (d2, b2) \<Longrightarrow> bm_op (wm_mutation b2) = bm_op m"
  "OutboxEventUpdateOne_defaults L \<lparr>bu_driver = drv, bu_fields = fs, bu_mutation = m\<rparr> d = (d3, b3) \<Longrightarrow> bm_op (bu_mutation b3) = bm_op m"
  by (auto simp: OutboxEventCreate_defaults_def OutboxEventUpdate_defaults_def OutboxEventUpdateOne_defaults_def Let_def ent_defs OutboxEventCreate_constants_def
      split: option.splits prod.splits)

lemma order_client_reject:
  assumes "\<forall>h \<in> set before. op_local P op h" and "None \<notin> set after" and none: "hk_Order c = []"
  shows "OrderClient_mutate L N drv (OrderClient_Use (map Some before @ Some (hook_Reject P op) # after) c) i s =
    (if hook_HasOp P op (OrderRef i) s
     then OrderClient_mutate L N drv (OrderClient_Use (map Some before @ [Some (hook_FixedError (OperationNotAllowed (Op_String P op)))]) c) i s
     else OrderClient_mutate L N drv (OrderClient_Use (map Some before @ after) c) i s)"
proof (cases "om_op (ew_order s i)")
  case OpCreate
  then show ?thesis
    by (auto simp: OrderClient_mutate_def OrderClient_Use_def none OrderCreate_hooked_def order_node.reject [OF assms(1,2)]
        hook_HasOp_def order_defaults_op split: prod.split)
next
  case OpUpdate
  then show ?thesis
    by (auto simp: OrderClient_mutate_def OrderClient_Use_def none OrderUpdate_hooked_def order_affected.reject [OF assms(1,2)]
        hook_HasOp_def order_defaults_op split: prod.split)
next
  case OpUpdateOne
  then show ?thesis
    by (auto simp: OrderClient_mutate_def OrderClient_Use_def none OrderUpdateOne_hooked_def order_node.reject [OF assms(1,2)]
        hook_HasOp_def order_defaults_op split: prod.split)
qed (auto simp: OrderClient_mutate_def OrderClient_Use_def none OrderDelete_hooked_def order_affected.reject [OF assms(1,2)]
  hook_HasOp_def)

lemma orderitem_client_reject:
  assumes "\<forall>h \<in> set before. op_local P op h" and "None \<notin> set after" and none: "hk_OrderItem c = []"
  shows "OrderItemClient_mutate L N drv (OrderItemClient_Use (map Some before @ Some (hook_Reject P op) # after) c) i s =
    (if hook_HasOp P op (OrderItemRef i) s
     then OrderItemClient_mutate L N drv (OrderItemClient_Use (map Some before @ [Some (hook_FixedError (OperationNotAllowed (Op_String P op)))]) c) i s
     else OrderItemClient_mutate L N drv (OrderItemClient_Use (map Some before @ after) c) i s)"
proof (cases "im_op (ew_orderitem s i)")
  case OpCreate
  then show ?thesis
    by (auto simp: OrderItemClient_mutate_def OrderItemClient_Use_def none OrderItemCreate_hooked_def orderitem_node.reject [OF assms(1,2)]
        hook_HasOp_def orderitem_defaults_op split: prod.split)
next
  case OpUpdate
  then show ?thesis
    by (auto simp: OrderItemClient_mutate_def OrderItemClient_Use_def none OrderItemUpdate_hooked_def orderitem_affected.reject [OF assms(1,2)]
        hook_HasOp_def orderitem_defaults_op split: prod.split)
next
  case OpUpdateOne
  then show ?thesis
    by (auto simp: OrderItemClient_mutate_def OrderItemClient_Use_def none OrderItemUpdateOne_hooked_def orderitem_node.reject [OF assms(1,2)]
        hook_HasOp_def orderitem_defaults_op split: prod.split)
qed (auto simp: OrderItemClient_mutate_def OrderItemClient_Use_def none OrderItemDelete_hooked_def orderitem_affected.reject [OF assms(1,2)]
  hook_HasOp_def)

lemma outboxevent_client_reject:
  assumes "\<forall>h \<in> set before. op_local P op h" and "None \<notin> set after" and none: "hk_OutboxEvent c = []"
  shows "OutboxEventClient_mutate L N drv (OutboxEventClient_Use (map Some before @ Some (hook_Reject P op) # after) c) i s =
    (if hook_HasOp P op (OutboxEventRef i) s
     then OutboxEventClient_mutate L N drv (OutboxEventClient_Use (map Some before @ [Some (hook_FixedError (OperationNotAllowed (Op_String P op)))]) c) i s
     else OutboxEventClient_mutate L N drv (OutboxEventClient_Use (map Some before @ after) c) i s)"
proof (cases "bm_op (ew_outboxevent s i)")
  case OpCreate
  then show ?thesis
    by (auto simp: OutboxEventClient_mutate_def OutboxEventClient_Use_def none OutboxEventCreate_hooked_def outboxevent_node.reject [OF assms(1,2)]
        hook_HasOp_def outboxevent_defaults_op split: prod.split)
next
  case OpUpdate
  then show ?thesis
    by (auto simp: OutboxEventClient_mutate_def OutboxEventClient_Use_def none OutboxEventUpdate_hooked_def outboxevent_affected.reject [OF assms(1,2)]
        hook_HasOp_def outboxevent_defaults_op split: prod.split)
next
  case OpUpdateOne
  then show ?thesis
    by (auto simp: OutboxEventClient_mutate_def OutboxEventClient_Use_def none OutboxEventUpdateOne_hooked_def outboxevent_node.reject [OF assms(1,2)]
        hook_HasOp_def outboxevent_defaults_op split: prod.split)
qed (auto simp: OutboxEventClient_mutate_def OutboxEventClient_Use_def none OutboxEventDelete_hooked_def outboxevent_affected.reject [OF assms(1,2)]
  hook_HasOp_def)

lemma order_client_fixed:
  "hk_Order c = [] \<Longrightarrow> snd (OrderClient_mutate L N drv (OrderClient_Use [Some (hook_FixedError e)] c) i s) = Inl e"
  by (cases "om_op (ew_order s i)")
    (auto simp: OrderClient_mutate_def OrderClient_Use_def OrderCreate_hooked_def OrderUpdate_hooked_def OrderUpdateOne_hooked_def
      OrderDelete_hooked_def withHooks_def hook_FixedError_def put_result_def split: prod.split)

lemma orderitem_client_fixed:
  "hk_OrderItem c = [] \<Longrightarrow> snd (OrderItemClient_mutate L N drv (OrderItemClient_Use [Some (hook_FixedError e)] c) i s) = Inl e"
  by (cases "im_op (ew_orderitem s i)")
    (auto simp: OrderItemClient_mutate_def OrderItemClient_Use_def OrderItemCreate_hooked_def OrderItemUpdate_hooked_def OrderItemUpdateOne_hooked_def
      OrderItemDelete_hooked_def withHooks_def hook_FixedError_def put_result_def split: prod.split)

lemma outboxevent_client_fixed:
  "hk_OutboxEvent c = [] \<Longrightarrow> snd (OutboxEventClient_mutate L N drv (OutboxEventClient_Use [Some (hook_FixedError e)] c) i s) = Inl e"
  by (cases "bm_op (ew_outboxevent s i)")
    (auto simp: OutboxEventClient_mutate_def OutboxEventClient_Use_def OutboxEventCreate_hooked_def OutboxEventUpdate_hooked_def OutboxEventUpdateOne_hooked_def
      OutboxEventDelete_hooked_def withHooks_def hook_FixedError_def put_result_def split: prod.split)

lemma Client_Use_hooks [simp]:
  "hk_Order (Client_Use hs c) = hk_Order c @ hs"
  "hk_OrderItem (Client_Use hs c) = hk_OrderItem c @ hs"
  "hk_OutboxEvent (Client_Use hs c) = hk_OutboxEvent c @ hs"
  by (simp_all add: Client_Use_def OrderClient_Use_def OrderItemClient_Use_def OutboxEventClient_Use_def)

lemma no_hooks_simps [simp]: "hk_Order no_hooks = []" "hk_OrderItem no_hooks = []" "hk_OutboxEvent no_hooks = []"
  by (simp_all add: no_hooks_def)

lemma mutate_hooks:
  "OrderClient_mutate L N drv (Client_Use hs no_hooks) = OrderClient_mutate L N drv (OrderClient_Use hs no_hooks)"
  "OrderItemClient_mutate L N drv (Client_Use hs no_hooks) = OrderItemClient_mutate L N drv (OrderItemClient_Use hs no_hooks)"
  "OutboxEventClient_mutate L N drv (Client_Use hs no_hooks) = OutboxEventClient_mutate L N drv (OutboxEventClient_Use hs no_hooks)"
  by (simp_all add: fun_eq_iff OrderClient_mutate_def OrderItemClient_mutate_def OutboxEventClient_mutate_def
      OrderClient_Use_def OrderItemClient_Use_def OutboxEventClient_Use_def split: ent_op.split)

section \<open>The property\<close>

text \<open>
  C40. A rejecting hook cuts exactly the operations it names: for every mutation, of whichever
  entity and operation, a client with a rejecting hook behind hooks that pass operations on and
  in front of any others does what it does with the hooks after the rejection replaced by its
  error, when the operation matches, and what it does without the rejection, when it does not.
  With the rejection first, a matching mutation answers the error.
\<close>

theorem rejected_operation:
  assumes "\<forall>h \<in> set before. op_local P op h" and "None \<notin> set after"
  shows "Client_Mutate L N drv (Client_Use (map Some before @ Some (hook_Reject P op) # after) no_hooks) m s =
      (if hook_HasOp P op m s
       then Client_Mutate L N drv (Client_Use (map Some before @ [Some (hook_FixedError (OperationNotAllowed (Op_String P op)))]) no_hooks) m s
       else Client_Mutate L N drv (Client_Use (map Some before @ after) no_hooks) m s)
    \<and> (hook_HasOp P op m s \<longrightarrow>
        snd (Client_Mutate L N drv (Client_Use (Some (hook_Reject P op) # after) no_hooks) m s)
        = Inl (OperationNotAllowed (Op_String P op)))"
proof -
  have first: "\<forall>h \<in> set []. op_local P op h" by simp
  show ?thesis
    by (cases m)
      (simp_all add: mutate_hooks order_client_reject [OF assms] orderitem_client_reject [OF assms]
        outboxevent_client_reject [OF assms] order_client_fixed orderitem_client_fixed outboxevent_client_fixed
        order_client_reject [OF first assms(2), simplified] orderitem_client_reject [OF first assms(2), simplified]
        outboxevent_client_reject [OF first assms(2), simplified])
qed

text \<open>A client that logs nothing, forbids to delete, and is asked to delete the orders.\<close>

definition demo_ops :: "ent_op list op_lib" where
  "demo_ops = \<lparr>Op_Is = (\<lambda>o1 ops. o1 \<in> set ops), Op_String = (\<lambda>_. ''delete'')\<rparr>"

definition demo_world :: "mem ent_world" where
  "demo_world =
     \<lparr>ew_db = (mem_start [])\<lparr>mem_tables := two_orders\<rparr>, ew_order = (\<lambda>_. newOrderMutation OpDelete),
      ew_orderitem = (\<lambda>_. newOrderItemMutation OpDelete), ew_outboxevent = (\<lambda>_. newOutboxEventMutation OpDelete)\<rparr>"

lemma rejected_operation_witness:
  "Client_Mutate mem_lib mem_nodes BaseDriver
     (Client_Use (map Some [hook_On demo_ops (hook_FixedError UnexpectedNode) [OpCreate]]
        @ Some (hook_Reject demo_ops [OpDelete]) # []) no_hooks) (OrderRef 0) demo_world
   = Client_Mutate mem_lib mem_nodes BaseDriver
     (Client_Use (map Some [hook_On demo_ops (hook_FixedError UnexpectedNode) [OpCreate]]
        @ [Some (hook_FixedError (OperationNotAllowed ''delete''))]) no_hooks) (OrderRef 0) demo_world"
proof -
  have matches: "hook_HasOp demo_ops [OpDelete] (OrderRef 0) demo_world"
    by (simp add: hook_HasOp_def demo_ops_def demo_world_def newOrderMutation_def)
  have shown: "Op_String demo_ops [OpDelete] = ''delete''" by (simp add: demo_ops_def)
  have before: "\<forall>h \<in> set [hook_On demo_ops (hook_FixedError UnexpectedNode) [OpCreate]]. op_local demo_ops [OpDelete] (h :: mem hook)"
    by auto
  have after: "None \<notin> set ([] :: mem hook option list)" by simp
  show ?thesis
    using conjunct1 [OF rejected_operation [OF before after], of mem_lib mem_nodes BaseDriver "OrderRef 0" demo_world] matches shown by (simp only: if_True)
qed

end
