(* ===== verification/EntEager.thy ===== *)
theory EntEager
  imports EntWhere Demo
begin

text \<open>
  Eager loading of the order of each line (\<open>WithOrder\<close> in \<open>orderitem_query.go\<close>), and the edges of
  the entities. \<open>Edges.Order\<close> of a line is returned beside the line. The map \<open>nodeids\<close> of the
  code goes from a foreign key to the nodes that have it, here to their indices.
\<close>

subsection \<open>Loading\<close>

definition OrderItemQuery_foreignKeys :: "OrderItem list \<Rightarrow> uuid list \<times> (uuid \<rightharpoonup> nat list)" where
  "OrderItemQuery_foreignKeys nodes =
     fold (\<lambda>(i, n) (ids, nodeids).
         case oi_order_items n of
           None \<Rightarrow> (ids, nodeids)
         | Some fk \<Rightarrow>
             (if nodeids fk = None then ids @ [fk] else ids,
              nodeids(fk \<mapsto> (case nodeids fk of None \<Rightarrow> [] | Some ns \<Rightarrow> ns) @ [i])))
       (enumerate 0 nodes) ([], Map.empty)"

definition OrderItemQuery_assignOrder ::
  "(uuid \<rightharpoonup> nat list) \<Rightarrow> Order \<Rightarrow> Order option list \<Rightarrow> ent_error + Order option list" where
  "OrderItemQuery_assignOrder nodeids n edges =
     (case nodeids (o_ID n) of
        None \<Rightarrow> Inl (UnexpectedNeighbor (o_ID n))
      | Some nodes \<Rightarrow> Inr (fold (\<lambda>i edges. edges[i := Some n]) nodes edges))"

definition OrderItemQuery_loadOrder ::
  "('d, 'z) lib_scheme \<Rightarrow> OrderQuery \<Rightarrow> OrderItem list \<Rightarrow> 'd \<Rightarrow> 'd \<times> (ent_error + Order option list)" where
  "OrderItemQuery_loadOrder L query nodes d =
     (let (ids, nodeids) = OrderItemQuery_foreignKeys nodes;
          edges = map (\<lambda>_. None) nodes
      in if ids = [] then (d, Inr edges)
         else case OrderQuery_All L (OrderQuery_Where [order_IDIn ids] query) d of
                (d, Inl err) \<Rightarrow> (d, Inl err)
              | (d, Inr neighbors) \<Rightarrow> (d, range_loop (OrderItemQuery_assignOrder nodeids) neighbors edges))"

definition OrderItemQuery_WithOrder :: "(OrderQuery \<Rightarrow> OrderQuery) list \<Rightarrow> OrderItemQuery \<Rightarrow> OrderQuery" where
  "OrderItemQuery_WithOrder opts q = fold (\<lambda>opt. opt) opts (OrderClient_Query (iq_driver q))"

definition OrderItemQuery_allWithOrder ::
  "('d, 'z) lib_scheme \<Rightarrow> OrderQuery \<Rightarrow> OrderItemQuery \<Rightarrow> 'd \<Rightarrow> 'd \<times> (ent_error + (OrderItem \<times> Order option) list)" where
  \<comment> \<open>\<open>sqlAll\<close> of a query with \<open>withOrder\<close>\<close>
  "OrderItemQuery_allWithOrder L query q d =
     (case OrderItemQuery_sqlAll L (q\<lparr>iq_withFKs := True\<rparr>) d of
        (d, Inl err) \<Rightarrow> (d, Inl err)
      | (d, Inr nodes) \<Rightarrow>
          if nodes = [] then (d, Inr [])
          else case OrderItemQuery_loadOrder L query nodes d of
                 (d, Inl err) \<Rightarrow> (d, Inl err)
               | (d, Inr edges) \<Rightarrow> (d, Inr (zip nodes edges)))"

text \<open>The edges, with whether they were loaded.\<close>

definition OrderItemEdges_OrderOrErr :: "bool \<Rightarrow> Order option \<Rightarrow> ent_error + Order" where
  "OrderItemEdges_OrderOrErr loaded edge =
     (case edge of
        Some n \<Rightarrow> Inr n
      | None \<Rightarrow> if loaded then Inl (NotFoundError order_Label) else Inl (NotLoadedError ''order''))"

definition OrderEdges_ItemsOrErr :: "Order \<Rightarrow> ent_error + OrderItem list" where
  "OrderEdges_ItemsOrErr n = (if o_loadedItems n then Inr (o_Items n) else Inl (NotLoadedError ''items''))"

subsection \<open>What is loaded\<close>

lemma foreignKeys_snoc:
  "OrderItemQuery_foreignKeys (nodes @ [n]) =
     (case oi_order_items n of
        None \<Rightarrow> OrderItemQuery_foreignKeys nodes
      | Some fk \<Rightarrow>
          (case OrderItemQuery_foreignKeys nodes of (ids, nodeids) \<Rightarrow>
             (if nodeids fk = None then ids @ [fk] else ids,
              nodeids(fk \<mapsto> (case nodeids fk of None \<Rightarrow> [] | Some ns \<Rightarrow> ns) @ [length nodes]))))"
  by (simp add: OrderItemQuery_foreignKeys_def enumerate_append_eq split: option.split prod.split)

definition fk_indices :: "OrderItem list \<Rightarrow> uuid \<Rightarrow> nat list" where
  "fk_indices nodes fk = filter (\<lambda>i. oi_order_items (nodes ! i) = Some fk) [0..<length nodes]"

lemma fk_indices_snoc:
  "fk_indices (nodes @ [n]) fk = fk_indices nodes fk @ (if oi_order_items n = Some fk then [length nodes] else [])"
proof -
  have "filter (\<lambda>i. oi_order_items ((nodes @ [n]) ! i) = Some fk) [0..<length nodes]
    = filter (\<lambda>i. oi_order_items (nodes ! i) = Some fk) [0..<length nodes]"
    by (rule filter_cong) (simp_all add: nth_append)
  then show ?thesis by (simp add: fk_indices_def)
qed

lemma foreignKeys_spec:
  assumes "OrderItemQuery_foreignKeys nodes = (ids, nodeids)"
  shows "(\<forall>fk. nodeids fk = (if fk_indices nodes fk = [] then None else Some (fk_indices nodes fk)))
    \<and> set ids = {fk. fk_indices nodes fk \<noteq> []}"
  using assms
proof (induction nodes arbitrary: ids nodeids rule: rev_induct)
  case Nil
  then show ?case by (auto simp: OrderItemQuery_foreignKeys_def fk_indices_def)
next
  case (snoc n nodes)
  obtain ids0 nodeids0 where prev: "OrderItemQuery_foreignKeys nodes = (ids0, nodeids0)" by fastforce
  note IH = snoc.IH [OF prev]
  show ?case
  proof (cases "oi_order_items n")
    case None
    with snoc.prems prev have "ids = ids0" "nodeids = nodeids0" by (simp_all add: foreignKeys_snoc)
    with IH None show ?thesis by (simp add: fk_indices_snoc)
  next
    case (Some k)
    with snoc.prems prev have "ids = (if nodeids0 k = None then ids0 @ [k] else ids0)"
      "nodeids = nodeids0(k \<mapsto> (case nodeids0 k of None \<Rightarrow> [] | Some ns \<Rightarrow> ns) @ [length nodes])"
      by (simp_all add: foreignKeys_snoc)
    with IH Some show ?thesis by (auto simp: fk_indices_snoc)
  qed
qed

lemma fold_updates:
  "length (fold (\<lambda>i xs. xs[i := x]) is xs) = length xs"
  "j < length xs \<Longrightarrow> fold (\<lambda>i xs. xs[i := x]) is xs ! j = (if j \<in> set is then x else xs ! j)"
proof (induction "is" arbitrary: xs)
  case (Cons i "is")
  { case 1 then show ?case by (simp add: Cons.IH(1)) }
  { case 2 then show ?case using Cons.IH(2) [of "xs[i := x]"] by (auto simp: nth_list_update) }
qed simp_all

text \<open>The loop over the orders that were read.\<close>

lemma assignOrder_loop:
  assumes "OrderItemQuery_foreignKeys nodes = (ids, nodeids)"
    and "range_loop (OrderItemQuery_assignOrder nodeids) nb edges = Inr edges'"
    and "length edges = length nodes" and "distinct (map o_ID nb)"
  shows "length edges' = length nodes \<and> (\<forall>i < length nodes. edges' ! i =
      (case oi_order_items (nodes ! i) of
         None \<Rightarrow> edges ! i
       | Some k \<Rightarrow> (case find (\<lambda>n. o_ID n = k) nb of None \<Rightarrow> edges ! i | Some n \<Rightarrow> Some n)))"
  using assms(2-4)
proof (induction nb arbitrary: edges)
  case Nil
  then show ?case by (simp split: option.split)
next
  case (Cons n nb)
  let ?edges = "\<lambda>js. fold (\<lambda>i es. es[i := Some n]) js edges"
  from Cons.prems(1) obtain js where js: "nodeids (o_ID n) = Some js"
    by (cases "nodeids (o_ID n)") (simp_all add: OrderItemQuery_assignOrder_def)
  then have "OrderItemQuery_assignOrder nodeids n edges = Inr (?edges js)"
    by (simp add: OrderItemQuery_assignOrder_def)
  with Cons.prems(1) have rest: "range_loop (OrderItemQuery_assignOrder nodeids) nb (?edges js) = Inr edges'"
    by simp
  have mem: "i \<in> set js \<longleftrightarrow> i < length nodes \<and> oi_order_items (nodes ! i) = Some (o_ID n)" for i
    using js foreignKeys_spec [OF assms(1)] by (auto simp: fk_indices_def split: if_splits)
  have len: "length (?edges js) = length nodes"
    using Cons.prems(2) by (simp add: fold_updates(1))
  have dist: "distinct (map o_ID nb)" "find (\<lambda>m. o_ID m = o_ID n) nb = None"
    using Cons.prems(3) by (auto simp: find_None_iff) (metis image_eqI)
  have upd: "?edges js ! i = (if oi_order_items (nodes ! i) = Some (o_ID n) then Some n else edges ! i)"
    if "i < length nodes" for i
    using fold_updates(2) [of i edges "Some n" js] mem [of i] that Cons.prems(2) by simp
  show ?case
    using Cons.IH [OF rest len dist(1)] dist(2) by (auto simp: upd split: option.split)
qed

text \<open>Reading the orders by their ids.\<close>

lemma find_by_key:
  assumes "distinct (map f xs)" and "mset ys = mset (filter P xs)" and "\<And>x. f x = k \<Longrightarrow> P x"
  shows "find (\<lambda>x. f x = k) ys = find (\<lambda>x. f x = k) xs"
proof -
  have single: "find (\<lambda>x. f x = k) zs = Some x" if "distinct (map f zs)" "x \<in> set zs" "f x = k" for zs x
    using that by (induction zs) (auto simp: image_iff)
  have none: "find (\<lambda>x. f x = k) zs = None" if "\<And>x. x \<in> set zs \<Longrightarrow> f x \<noteq> k" for zs
    using that by (simp add: find_None_iff)
  have sets: "set ys = {x \<in> set xs. P x}" using mset_eq_setD [OF assms(2)] by simp
  have "mset (map f ys) = mset (map f (filter P xs))" using assms(2) by simp
  then have dist: "distinct (map f ys)"
    using distinct_map_filter [OF assms(1)] by (metis mset_eq_imp_distinct_iff)
  show ?thesis
  proof (cases "\<exists>x \<in> set xs. f x = k")
    case True
    then obtain x where x: "x \<in> set xs" "f x = k" by blast
    then have "x \<in> set ys" using sets assms(3) by blast
    then show ?thesis using single [OF assms(1) x] single [OF dist _ x(2)] by simp
  next
    case False
    then show ?thesis using none [of xs] none [of ys] sets by auto
  qed
qed

context sql_engine
begin

lemma load_order:
  assumes "OrderItemQuery_loadOrder L (OrderClient_Query drv) nodes d = (d', r)"
    and A: "db_state committed view drv d A"
  shows "same_db committed view d d'"
    and "r = Inr edges \<Longrightarrow> edges = map (\<lambda>n. case oi_order_items n of
        None \<Rightarrow> None | Some k \<Rightarrow> find (\<lambda>n. o_ID n = k) (db_orders A)) nodes"
proof -
  obtain ids nodeids where fks: "OrderItemQuery_foreignKeys nodes = (ids, nodeids)" by fastforce
  let ?q = "OrderQuery_Where [order_IDIn ids] (OrderClient_Query drv)"
  obtain d1 ra where All: "OrderQuery_All L ?q d = (d1, ra)" by (cases "OrderQuery_All L ?q d")
  have simple: "simple_order_query ?q" and q: "oq_driver ?q = drv" "oq_predicates ?q = [order_IDIn ids]"
    "oq_withItems ?q = None" "query_page ?q = (\<lambda>xs :: Order list. xs)"
    by (simp_all add: simple_order_query_def OrderQuery_Where_def OrderClient_Query_def order_IDIn_def order_pred.intros
        query_page_def fun_eq_iff)
  note R = OrderQuery_All_simple [OF All simple, unfolded q(1), OF A]
  have keys: "db_keys A" using A by (auto simp: db_state_def represents_def)
  show "same_db committed view d d'"
    using assms(1) All R(1) by (auto simp: OrderItemQuery_loadOrder_def fks Let_def same_db_refl split: if_splits sum.splits)
  assume ok: "r = Inr edges"
  have find_ids: "oi_order_items (nodes ! i) = Some k \<Longrightarrow> i < length nodes \<Longrightarrow> k \<in> set ids" for i k
    using foreignKeys_spec [OF fks] by (auto simp: fk_indices_def filter_empty_conv)
  show "edges = map (\<lambda>n. case oi_order_items n of
        None \<Rightarrow> None | Some k \<Rightarrow> find (\<lambda>n. o_ID n = k) (db_orders A)) nodes"
  proof (cases "ids = []")
    case True
    then have "oi_order_items n = None" if "n \<in> set nodes" for n
      using find_ids that by (metis empty_iff empty_set in_set_conv_nth not_Some_eq)
    then show ?thesis
      using assms(1) ok True by (auto simp: OrderItemQuery_loadOrder_def fks Let_def cong: map_cong)
  next
    case False
    with assms(1) ok All obtain nb where nb: "ra = Inr nb"
      "range_loop (OrderItemQuery_assignOrder nodeids) nb (map (\<lambda>_. None) nodes) = Inr edges"
      by (auto simp: OrderItemQuery_loadOrder_def fks Let_def split: sum.splits)
    from R(2) [OF nb(1)] obtain ns where "order_answer tr ?q A ns" "nb = ns" using q by auto
    then have ans: "order_answer tr ?q A nb" by simp
    have hits: "order_hits tr ?q A = filter (\<lambda>n. o_ID n \<in> set ids) (db_orders A)"
      unfolding order_hits_def q(2) by (simp add: order_IDIn_def)
    have found: "find (\<lambda>n. o_ID n = k) nb = find (\<lambda>n. o_ID n = k) (db_orders A)" if "k \<in> set ids" for k
      by (rule find_by_key [where P = "\<lambda>n. o_ID n \<in> set ids"])
        (use ans keys that in \<open>simp_all add: order_answer_def hits db_keys_def\<close>)
    from assignOrder_loop [OF fks nb(2) _ order_answer_ids(1) [OF ans keys]]
    have len: "length edges = length nodes" and nth: "\<And>i. i < length nodes \<Longrightarrow> edges ! i =
      (case oi_order_items (nodes ! i) of None \<Rightarrow> None | Some k \<Rightarrow> find (\<lambda>n. o_ID n = k) nb)"
      by (auto split: option.splits)
    show ?thesis
      by (rule nth_equalityI) (use find_ids in \<open>auto simp: len nth found split: option.split\<close>)
  qed
qed

end

subsection \<open>The lines of some orders with their order\<close>

definition lines_query :: "driver \<Rightarrow> uuid list \<Rightarrow> OrderItemQuery" where
  "lines_query drv ks = OrderItemQuery_Where [FieldIn order_ItemsColumn (map VUUID ks)] (OrderItemClient_Query drv)"

lemma find_key:
  assumes "k \<in> f ` set xs"
  obtains x where "find (\<lambda>x. f x = k) xs = Some x" and "x \<in> set xs" and "f x = k"
  using assms by (cases "find (\<lambda>x. f x = k) xs") (auto simp: find_None_iff find_Some_iff)

context sql_engine
begin

lemma all_with_order:
  assumes run: "OrderItemQuery_allWithOrder L (OrderItemQuery_WithOrder [] (lines_query drv ks)) (lines_query drv ks) d = (d', r)"
    and A: "db_state committed view drv d A"
  shows "same_db committed view d d'"
    and "r = Inr res \<Longrightarrow>
      mset (map fst res) = mset (filter (\<lambda>i. oi_order_items i \<in> Some ` set ks) (db_items A))
      \<and> (\<forall>(i, e) \<in> set res. \<exists>n \<in> set (db_orders A).
            OrderItemEdges_OrderOrErr True e = Inr n \<and> oi_order_items i = Some (o_ID n))"
proof -
  let ?q = "(OrderItemClient_Query drv)\<lparr>iq_withFKs := True, iq_predicates := [FieldIn order_ItemsColumn (map VUUID ks)]\<rparr>"
  have q: "(lines_query drv ks)\<lparr>iq_withFKs := True\<rparr> = ?q" "iq_driver (lines_query drv ks) = drv"
    by (simp_all add: lines_query_def OrderItemQuery_Where_def OrderItemClient_Query_def)
  have "OrderItemQuery_prepareQuery ?q = Inr ()"
    by (simp add: OrderItemQuery_prepareQuery_def OrderItemClient_Query_def)
  then have All: "OrderItemQuery_All L ?q = OrderItemQuery_sqlAll L ?q" by (simp add: OrderItemQuery_All_def fun_eq_iff)
  obtain d1 r1 where R: "OrderItemQuery_sqlAll L ?q d = (d1, r1)" by (cases "OrderItemQuery_sqlAll L ?q d")
  note N = OrderItemQuery_byOrders [OF R [folded All] A]
  have A1: "db_state committed view drv d1 A" using same_db_state [OF N(1)] A by simp
  have orders: "OrderItemQuery_WithOrder [] (lines_query drv ks) = OrderClient_Query drv"
    by (simp add: OrderItemQuery_WithOrder_def q(2))
  have keys: "db_keys A" using A by (auto simp: db_state_def represents_def)
  show "same_db committed view d d'"
    and "r = Inr res \<Longrightarrow>
      mset (map fst res) = mset (filter (\<lambda>i. oi_order_items i \<in> Some ` set ks) (db_items A))
      \<and> (\<forall>(i, e) \<in> set res. \<exists>n \<in> set (db_orders A).
            OrderItemEdges_OrderOrErr True e = Inr n \<and> oi_order_items i = Some (o_ID n))"
  proof -
    obtain d2 r2 where S: "OrderItemQuery_loadOrder L (OrderClient_Query drv) (case r1 of Inl _ \<Rightarrow> [] | Inr ns \<Rightarrow> ns) d1 = (d2, r2)"
      by (cases "OrderItemQuery_loadOrder L (OrderClient_Query drv) (case r1 of Inl _ \<Rightarrow> [] | Inr ns \<Rightarrow> ns) d1")
    note E = load_order [OF S A1]
    show "same_db committed view d d'"
      using run N(1) E(1) S by (auto simp: OrderItemQuery_allWithOrder_def q(1) R orders intro: same_db_trans
        split: sum.splits if_splits)
    assume "r = Inr res"
    with run obtain ns where ns: "r1 = Inr ns" and
      cases: "ns = [] \<and> res = [] \<or> (\<exists>es. r2 = Inr es \<and> res = zip ns es)"
      using S by (auto simp: OrderItemQuery_allWithOrder_def q(1) R orders split: sum.splits if_splits)
    have lines: "mset ns = mset (filter (\<lambda>i. oi_order_items i \<in> Some ` set ks) (db_items A))" by (rule N(2) [OF ns])
    then have mem: "i \<in> set (db_items A)" "oi_order_items i \<noteq> None" if "i \<in> set ns" for i
      using mset_eq_setD [OF lines] that by auto
    let ?edge = "\<lambda>i. case oi_order_items i of None \<Rightarrow> None | Some k \<Rightarrow> find (\<lambda>n. o_ID n = k) (db_orders A)"
    have res: "res = map (\<lambda>i. (i, ?edge i)) ns"
      using cases E(2) by (auto simp: ns zip_map2 zip_same_conv_map)
    have "\<exists>n \<in> set (db_orders A). OrderItemEdges_OrderOrErr True (?edge i) = Inr n \<and> oi_order_items i = Some (o_ID n)"
      if i: "i \<in> set ns" for i
    proof -
      from keys mem(1) [OF i] obtain k where k: "oi_order_items i = Some k" "k \<in> o_ID ` set (db_orders A)"
        by (auto simp: db_keys_def)
      from find_key [OF k(2)] obtain n where "find (\<lambda>n. o_ID n = k) (db_orders A) = Some n" "n \<in> set (db_orders A)" "o_ID n = k" .
      then show ?thesis using k(1) by (auto simp: OrderItemEdges_OrderOrErr_def)
    qed
    with lines show "mset (map fst res) = mset (filter (\<lambda>i. oi_order_items i \<in> Some ` set ks) (db_items A))
      \<and> (\<forall>(i, e) \<in> set res. \<exists>n \<in> set (db_orders A).
            OrderItemEdges_OrderOrErr True e = Inr n \<and> oi_order_items i = Some (o_ID n))"
      by (auto simp: res comp_def)
  qed
qed

end

text \<open>
  C39. Reading the lines of some orders together with their order returns each line of these
  orders once, no other line, and beside each line the stored order that it belongs to:
  \<open>OrderOrErr\<close> never answers an error. The tables are left as they are.
\<close>

theorem lines_with_their_order:
  assumes "sql_engine L committed view tr"
    and "db_state committed view drv d A"
    and "OrderItemQuery_allWithOrder L (OrderItemQuery_WithOrder [] (lines_query drv ks)) (lines_query drv ks) d = (d', r)"
  shows "same_db committed view d d'
    \<and> (\<forall>res. r = Inr res \<longrightarrow>
        mset (map fst res) = mset (filter (\<lambda>i. oi_order_items i \<in> Some ` set ks) (db_items A))
        \<and> (\<forall>(i, e) \<in> set res. \<exists>n \<in> set (db_orders A).
              OrderItemEdges_OrderOrErr True e = Inr n \<and> oi_order_items i = Some (o_ID n)))"
  using sql_engine.all_with_order [OF assms(1,3,2)] by blast

lemma demo_lines_query:
  "lines_query BaseDriver [1] = OrderItemQuery_Where [FieldIn order_ItemsColumn [VUUID 1]] (OrderItemClient_Query BaseDriver)"
  by (simp add: lines_query_def)

lemma demo_lines:
  "OrderItemQuery_sqlAll mem_lib ((lines_query BaseDriver [1])\<lparr>iq_withFKs := True\<rparr>) (demo_world bs) = (demo_world bs, Inr [demo_stored_item])"
  by (simp add: demo_lines_query Let_def OrderItemQuery_sqlAll_def
    zero_OrderItem_def demo_stored_item_def OrderItemQuery_Where_def OrderItemClient_Query_def OrderItemQuery_querySpec_def OrderItemQuery_allSpec_def order_terms_check_def
    orderitem_Columns_def orderitem_ForeignKeys_def OrderItem_scanValues_def OrderItem_assignValues_def OrderItem_assign_def
    mem_query_def tables_of_def mem_rows_def selected_def page_def demo_tables_rows demo_world_def demo_item_cells scan_row_def
    orderitem_Table_def)

lemma demo_line_order:
  "OrderQuery_All mem_lib (OrderQuery_Where [order_IDIn [1]] (OrderClient_Query BaseDriver)) (demo_world bs) = (demo_world bs, Inr [demo_order])"
proof -
  let ?q = "OrderQuery_Where [order_IDIn [1]] (OrderClient_Query BaseDriver)"
  have spec: "qs_Columns (OrderQuery_querySpec ?q) = order_Columns" "qs_Predicates (OrderQuery_querySpec ?q) = [FieldIn FieldID [VUUID 1]]"
    "qs_Table (OrderQuery_querySpec ?q) = ''orders''" "qs_Limit (OrderQuery_querySpec ?q) = 0" "qs_Offset (OrderQuery_querySpec ?q) = 0"
    "qs_Order (OrderQuery_querySpec ?q) = []" "qs_ScanValues (OrderQuery_querySpec ?q) = Order_scanValues" "oq_driver ?q = BaseDriver"
    "oq_order ?q = []" "oq_withItems ?q = None" "OrderQuery_prepareQuery ?q = Inr ()"
    by (simp_all add: OrderQuery_Where_def OrderClient_Query_def order_IDIn_def OrderQuery_querySpec_def
      order_Table_def OrderQuery_prepareQuery_def)
  have nodes: "mem_query BaseDriver (OrderQuery_querySpec ?q) (demo_world bs) = (demo_world bs, Inr [demo_values])"
    by (simp add: mem_query_def tables_of_def mem_rows_def selected_def page_def spec demo_tables_rows demo_world_def
      demo_order_cells demo_scan)
  have "Order_assignValues order_Columns demo_values (zero_Order\<lparr>o_loadedItems := False\<rparr>) = Inr demo_order"
    by (simp add: Order_assignValues_def demo_values_def Order_scanValues_def order_Columns_def demo_order_cells
      Order_assign_def demo_order_def zero_Order_def)
  then show ?thesis by (simp add: OrderQuery_All_def OrderQuery_sqlAll_def spec nodes order_terms_check_def)
qed

lemma demo_lines_with_order:
  "OrderItemQuery_allWithOrder mem_lib (OrderItemQuery_WithOrder [] (lines_query BaseDriver [1])) (lines_query BaseDriver [1]) (demo_world bs)
    = (demo_world bs, Inr [(demo_stored_item, Some demo_order)])"
proof -
  have "OrderItemQuery_WithOrder [] (lines_query BaseDriver [1]) = OrderClient_Query BaseDriver"
    by (simp add: OrderItemQuery_WithOrder_def lines_query_def OrderItemQuery_Where_def OrderItemClient_Query_def)
  moreover have "OrderItemQuery_foreignKeys [demo_stored_item] = ([1], [1 \<mapsto> [0]])"
    by (simp add: OrderItemQuery_foreignKeys_def demo_stored_item_def)
  moreover have "o_ID demo_order = 1" by (simp add: demo_order_def)
  ultimately show ?thesis
    by (simp add: OrderItemQuery_allWithOrder_def demo_lines OrderItemQuery_loadOrder_def demo_line_order OrderItemQuery_assignOrder_def)
qed

lemma lines_with_their_order_witness:
  "\<exists>A. mem_db demo_placed A
    \<and> mset [demo_stored_item] = mset (filter (\<lambda>i. oi_order_items i \<in> Some ` set [1]) (db_items A))
    \<and> demo_order \<in> set (db_orders A)"
proof -
  obtain A where A: "mem_db demo_placed A" using demo_placed_db by blast
  then have st: "db_state mem_tables mem_view BaseDriver demo_placed A" by (simp add: quiet_db_def)
  obtain bs where bs: "demo_placed = demo_world bs" using demo_outcome by blast
  note lines_with_their_order [OF mem_store.sql_engine_axioms st demo_lines_with_order [of bs, folded bs]]
  then have "mset [demo_stored_item] = mset (filter (\<lambda>i. oi_order_items i \<in> Some ` set [1]) (db_items A))"
    "demo_order \<in> set (db_orders A)" by (auto simp: OrderItemEdges_OrderOrErr_def)
  with A show ?thesis by blast
qed

end
