(* ===== verification/EntSelect.thy ===== *)
theory EntSelect
  imports EntBulk
begin

text \<open>
  Reading columns instead of entities (\<open>Select\<close>, \<open>GroupBy\<close>, the aggregates and single values of
  \<open>gen/ent/ent.go\<close>), what rests on it (\<open>IDs\<close>, \<open>FirstID\<close>, \<open>OnlyID\<close>, \<open>Exist\<close> of a query, \<open>IDs\<close> of a
  mutation), and the tests for kinds of errors. The statement that a \<open>sql.Selector\<close> collects is
  a record; running it is a function of the driver, and reading the rows that it returns into a
  destination is \<open>sql.ScanSlice\<close>, a function from rows that comes with the destination. As in
  EntQuery, a query starts from its table (\<open>path\<close> and \<open>sql\<close> are nil). The errors that an aggregate
  adds to the selector are looked at by \<open>GroupBy\<close> only.
\<close>

subsection \<open>Errors\<close>

text \<open>\<open>errors.As\<close>: the error or one that it wraps is of the kind.\<close>

fun errors_As :: "(ent_error \<Rightarrow> bool) \<Rightarrow> ent_error \<Rightarrow> bool" where
  "errors_As kind (OldQueryFailed name err) = (kind (OldQueryFailed name err) \<or> errors_As kind err)"
| "errors_As kind (ExistFailed err) = (kind (ExistFailed err) \<or> errors_As kind err)"
| "errors_As kind err = kind err"

definition is_kind :: "(ent_error \<Rightarrow> bool) \<Rightarrow> ent_error option \<Rightarrow> bool" where
  "is_kind kind err = (case err of None \<Rightarrow> False | Some e \<Rightarrow> errors_As kind e)"

definition IsValidationError :: "ent_error option \<Rightarrow> bool" where
  "IsValidationError = is_kind (\<lambda>e. case e of ValidationError _ _ \<Rightarrow> True | _ \<Rightarrow> False)"

definition IsNotFound :: "ent_error option \<Rightarrow> bool" where
  "IsNotFound = is_kind (\<lambda>e. case e of NotFoundError _ \<Rightarrow> True | _ \<Rightarrow> False)"

definition MaskNotFound :: "ent_error option \<Rightarrow> ent_error option" where
  "MaskNotFound err = (if IsNotFound err then None else err)"

definition IsNotSingular :: "ent_error option \<Rightarrow> bool" where
  "IsNotSingular = is_kind (\<lambda>e. case e of NotSingularError _ \<Rightarrow> True | _ \<Rightarrow> False)"

definition IsNotLoaded :: "ent_error option \<Rightarrow> bool" where
  "IsNotLoaded = is_kind (\<lambda>e. case e of NotLoadedError _ \<Rightarrow> True | _ \<Rightarrow> False)"

definition IsConstraintError :: "ent_error option \<Rightarrow> bool" where
  "IsConstraintError = is_kind (\<lambda>e. case e of ConstraintError _ \<Rightarrow> True | _ \<Rightarrow> False)"

subsection \<open>Statements\<close>

text \<open>A selected expression that is not a column: an aggregate, renamed or not, or the empty text.\<close>

datatype agg_term = AggEmpty | AggCount | AggOf string string | AggAs agg_term string

record scan_spec =
  sc_Table :: string
  sc_Columns :: "string list"
  sc_Aggregates :: "agg_term list"
  sc_GroupBy :: "string list"
  sc_Distinct :: bool
  sc_Predicates :: "sql_pred list"
  sc_Order :: "order_term list"
  sc_Limit :: "i64 option"
  sc_Offset :: "i64 option"

record 'd scan_lib =
  sql_Query :: "driver \<Rightarrow> scan_spec \<Rightarrow> 'd \<Rightarrow> 'd \<times> (sql_error + ent_value list list)"
  sql_ScanUUIDs :: "ent_value list list \<Rightarrow> sql_error + uuid list"

definition math_MaxInt32 :: i64 where "math_MaxInt32 = 2147483647"

text \<open>
  The aggregates of \<open>ent.go\<close>, from the name of the table to the errors they add to the selector
  and the text they return.
\<close>

type_synonym aggregate_fn = "string \<Rightarrow> ent_error list \<times> agg_term"

definition checkColumn :: "string \<Rightarrow> string \<Rightarrow> bool" where
  "checkColumn t c =
     (case map_of [(order_Table, order_ValidColumn), (orderitem_Table, orderitem_ValidColumn),
                   (outboxevent_Table, outboxevent_ValidColumn)] t of
        None \<Rightarrow> False
      | Some valid \<Rightarrow> valid c)"

definition ent_As :: "aggregate_fn \<Rightarrow> string \<Rightarrow> aggregate_fn" where
  "ent_As fn end t = (case fn t of (errs, a) \<Rightarrow> (errs, AggAs a end))"

definition ent_Count :: aggregate_fn where "ent_Count t = ([], AggCount)"

definition ent_Max :: "string \<Rightarrow> aggregate_fn" where
  "ent_Max field t =
     (if \<not> checkColumn t field then ([ValidationError field (InvalidColumn field)], AggEmpty)
      else ([], AggOf ''MAX'' field))"

definition ent_Mean :: "string \<Rightarrow> aggregate_fn" where
  "ent_Mean field t =
     (if \<not> checkColumn t field then ([ValidationError field (InvalidColumn field)], AggEmpty)
      else ([], AggOf ''AVG'' field))"

definition ent_Min :: "string \<Rightarrow> aggregate_fn" where
  "ent_Min field t =
     (if \<not> checkColumn t field then ([ValidationError field (InvalidColumn field)], AggEmpty)
      else ([], AggOf ''MIN'' field))"

definition ent_Sum :: "string \<Rightarrow> aggregate_fn" where
  "ent_Sum field t =
     (if \<not> checkColumn t field then ([ValidationError field (InvalidColumn field)], AggEmpty)
      else ([], AggOf ''SUM'' field))"

definition scan_query ::
  "('d, 'z) scan_lib_scheme \<Rightarrow> driver \<Rightarrow> scan_spec \<Rightarrow> (ent_value list list \<Rightarrow> sql_error + 'v) \<Rightarrow> 'd \<Rightarrow> 'd \<times> (ent_error + 'v)" where
  \<comment> \<open>\<open>driver.Query\<close>, then \<open>sql.ScanSlice\<close>\<close>
  "scan_query S drv spec v d =
     (case sql_Query S drv spec d of
        (d, Inl err) \<Rightarrow> (d, Inl (SqlError err))
      | (d, Inr rows) \<Rightarrow> (d, map_sum SqlError id (v rows)))"

subsection \<open>Single values\<close>

text \<open>The embedded \<open>selector\<close>: its fields and its \<open>scan\<close> into a list of the type asked for.\<close>

definition selector_Strings :: "string list \<Rightarrow> ('d \<Rightarrow> 'd \<times> (ent_error + string list)) \<Rightarrow> 'd \<Rightarrow> 'd \<times> (ent_error + string list)" where
  "selector_Strings flds scan d = (if length flds > 1 then (d, Inl (ManyFields ''Strings'')) else scan d)"

definition selector_String :: "string \<Rightarrow> string list \<Rightarrow> ('d \<Rightarrow> 'd \<times> (ent_error + string list)) \<Rightarrow> 'd \<Rightarrow> 'd \<times> (ent_error + string)" where
  "selector_String label flds scan d =
     (case selector_Strings flds scan d of
        (d, Inl err) \<Rightarrow> (d, Inl err)
      | (d, Inr [x]) \<Rightarrow> (d, Inr x)
      | (d, Inr []) \<Rightarrow> (d, Inl (NotFoundError label))
      | (d, Inr v) \<Rightarrow> (d, Inl (NotOneResult ''Strings'' (length v))))"

definition selector_Ints :: "string list \<Rightarrow> ('d \<Rightarrow> 'd \<times> (ent_error + i64 list)) \<Rightarrow> 'd \<Rightarrow> 'd \<times> (ent_error + i64 list)" where
  "selector_Ints flds scan d = (if length flds > 1 then (d, Inl (ManyFields ''Ints'')) else scan d)"

definition selector_Int :: "string \<Rightarrow> string list \<Rightarrow> ('d \<Rightarrow> 'd \<times> (ent_error + i64 list)) \<Rightarrow> 'd \<Rightarrow> 'd \<times> (ent_error + i64)" where
  "selector_Int label flds scan d =
     (case selector_Ints flds scan d of
        (d, Inl err) \<Rightarrow> (d, Inl err)
      | (d, Inr [x]) \<Rightarrow> (d, Inr x)
      | (d, Inr []) \<Rightarrow> (d, Inl (NotFoundError label))
      | (d, Inr v) \<Rightarrow> (d, Inl (NotOneResult ''Ints'' (length v))))"

definition selector_Float64s :: "string list \<Rightarrow> ('d \<Rightarrow> 'd \<times> (ent_error + float64 list)) \<Rightarrow> 'd \<Rightarrow> 'd \<times> (ent_error + float64 list)" where
  "selector_Float64s flds scan d = (if length flds > 1 then (d, Inl (ManyFields ''Float64s'')) else scan d)"

definition selector_Float64 :: "string \<Rightarrow> string list \<Rightarrow> ('d \<Rightarrow> 'd \<times> (ent_error + float64 list)) \<Rightarrow> 'd \<Rightarrow> 'd \<times> (ent_error + float64)" where
  "selector_Float64 label flds scan d =
     (case selector_Float64s flds scan d of
        (d, Inl err) \<Rightarrow> (d, Inl err)
      | (d, Inr [x]) \<Rightarrow> (d, Inr x)
      | (d, Inr []) \<Rightarrow> (d, Inl (NotFoundError label))
      | (d, Inr v) \<Rightarrow> (d, Inl (NotOneResult ''Float64s'' (length v))))"

definition selector_Bools :: "string list \<Rightarrow> ('d \<Rightarrow> 'd \<times> (ent_error + bool list)) \<Rightarrow> 'd \<Rightarrow> 'd \<times> (ent_error + bool list)" where
  "selector_Bools flds scan d = (if length flds > 1 then (d, Inl (ManyFields ''Bools'')) else scan d)"

definition selector_Bool :: "string \<Rightarrow> string list \<Rightarrow> ('d \<Rightarrow> 'd \<times> (ent_error + bool list)) \<Rightarrow> 'd \<Rightarrow> 'd \<times> (ent_error + bool)" where
  "selector_Bool label flds scan d =
     (case selector_Bools flds scan d of
        (d, Inl err) \<Rightarrow> (d, Inl err)
      | (d, Inr [x]) \<Rightarrow> (d, Inr x)
      | (d, Inr []) \<Rightarrow> (d, Inl (NotFoundError label))
      | (d, Inr v) \<Rightarrow> (d, Inl (NotOneResult ''Bools'' (length v))))"

subsection \<open>Orders\<close>

definition OrderQuery_Select :: "string list \<Rightarrow> OrderQuery \<Rightarrow> OrderQuery" where
  "OrderQuery_Select flds q = q\<lparr>oq_Fields := oq_Fields q @ flds\<rparr>"

definition OrderQuery_GroupBy :: "string \<Rightarrow> string list \<Rightarrow> OrderQuery \<Rightarrow> OrderQuery" where
  "OrderQuery_GroupBy field flds q = q\<lparr>oq_Fields := [field] @ flds\<rparr>"

definition OrderQuery_sqlQuery :: "OrderQuery \<Rightarrow> scan_spec" where
  "OrderQuery_sqlQuery q =
     \<lparr>sc_Table = order_Table,
      sc_Columns = (if oq_Fields q = [] then order_Columns else oq_Fields q),
      sc_Aggregates = [], sc_GroupBy = [],
      sc_Distinct = (oq_Unique q = Some True),
      sc_Predicates = oq_predicates q,
      sc_Order = oq_order q,
      sc_Limit = (case oq_Limit q of
          Some limit \<Rightarrow> Some limit
        | None \<Rightarrow> if oq_Offset q \<noteq> None then Some math_MaxInt32 else None),
      sc_Offset = oq_Offset q\<rparr>"

definition OrderSelect_sqlScan ::
  "('d, 'z) scan_lib_scheme \<Rightarrow> aggregate_fn list \<Rightarrow> OrderQuery \<Rightarrow> (ent_value list list \<Rightarrow> sql_error + 'v) \<Rightarrow> 'd \<Rightarrow> 'd \<times> (ent_error + 'v)" where
  "OrderSelect_sqlScan S fns q v =
     (let selector = OrderQuery_sqlQuery q;
          aggregation = map (\<lambda>fn. snd (fn (sc_Table selector))) fns;
          selector = (if oq_Fields q = [] \<and> aggregation \<noteq> [] then selector\<lparr>sc_Columns := [], sc_Aggregates := aggregation\<rparr>
                      else if oq_Fields q \<noteq> [] \<and> aggregation \<noteq> [] then selector\<lparr>sc_Aggregates := aggregation\<rparr>
                      else selector)
      in scan_query S (oq_driver q) selector v)"

definition OrderSelect_Scan ::
  "('d, 'z) scan_lib_scheme \<Rightarrow> aggregate_fn list \<Rightarrow> OrderQuery \<Rightarrow> (ent_value list list \<Rightarrow> sql_error + 'v) \<Rightarrow> 'd \<Rightarrow> 'd \<times> (ent_error + 'v)" where
  "OrderSelect_Scan S fns q v d =
     (case OrderQuery_prepareQuery q of Inl err \<Rightarrow> (d, Inl err) | Inr _ \<Rightarrow> OrderSelect_sqlScan S fns q v d)"

definition OrderGroupBy_sqlScan ::
  "('d, 'z) scan_lib_scheme \<Rightarrow> aggregate_fn list \<Rightarrow> OrderQuery \<Rightarrow> (ent_value list list \<Rightarrow> sql_error + 'v) \<Rightarrow> 'd \<Rightarrow> 'd \<times> (ent_error + 'v)" where
  "OrderGroupBy_sqlScan S fns q v d =
     (let selector = OrderQuery_sqlQuery q;
          aggregation = map (\<lambda>fn. fn (sc_Table selector)) fns;
          selector = selector\<lparr>sc_Columns := oq_Fields q, sc_Aggregates := map snd aggregation, sc_GroupBy := oq_Fields q\<rparr>
      in case order_terms_check order_ValidColumn (oq_order q) of
           Inl err \<Rightarrow> (d, Inl err)
         | Inr _ \<Rightarrow>
             (case concat (map fst aggregation) of
                err # _ \<Rightarrow> (d, Inl err)
              | [] \<Rightarrow> scan_query S (oq_driver q) selector v d))"

definition OrderGroupBy_Scan ::
  "('d, 'z) scan_lib_scheme \<Rightarrow> aggregate_fn list \<Rightarrow> OrderQuery \<Rightarrow> (ent_value list list \<Rightarrow> sql_error + 'v) \<Rightarrow> 'd \<Rightarrow> 'd \<times> (ent_error + 'v)" where
  "OrderGroupBy_Scan S fns q v d =
     (case OrderQuery_prepareQuery q of Inl err \<Rightarrow> (d, Inl err) | Inr _ \<Rightarrow> OrderGroupBy_sqlScan S fns q v d)"

definition OrderQuery_IDs :: "('d, 'z) scan_lib_scheme \<Rightarrow> OrderQuery \<Rightarrow> 'd \<Rightarrow> 'd \<times> (ent_error + uuid list)" where
  "OrderQuery_IDs S q = OrderSelect_Scan S [] (OrderQuery_Select [FieldID] q) (sql_ScanUUIDs S)"

definition OrderQuery_FirstID :: "('d, 'z) scan_lib_scheme \<Rightarrow> OrderQuery \<Rightarrow> 'd \<Rightarrow> 'd \<times> (ent_error + uuid)" where
  "OrderQuery_FirstID S q d =
     (case OrderQuery_IDs S (OrderQuery_Limit 1 q) d of
        (d, Inl err) \<Rightarrow> (d, Inl err)
      | (d, Inr []) \<Rightarrow> (d, Inl (NotFoundError order_Label))
      | (d, Inr (i # _)) \<Rightarrow> (d, Inr i))"

definition OrderQuery_OnlyID :: "('d, 'z) scan_lib_scheme \<Rightarrow> OrderQuery \<Rightarrow> 'd \<Rightarrow> 'd \<times> (ent_error + uuid)" where
  "OrderQuery_OnlyID S q d =
     (case OrderQuery_IDs S (OrderQuery_Limit 2 q) d of
        (d, Inl err) \<Rightarrow> (d, Inl err)
      | (d, Inr [i]) \<Rightarrow> (d, Inr i)
      | (d, Inr []) \<Rightarrow> (d, Inl (NotFoundError order_Label))
      | (d, Inr _) \<Rightarrow> (d, Inl (NotSingularError order_Label)))"

definition OrderQuery_Exist :: "('d, 'z) scan_lib_scheme \<Rightarrow> OrderQuery \<Rightarrow> 'd \<Rightarrow> 'd \<times> (ent_error + bool)" where
  "OrderQuery_Exist S q d =
     (case OrderQuery_FirstID S q d of
        (d, Inl err) \<Rightarrow> (d, if IsNotFound (Some err) then Inr False else Inl (ExistFailed err))
      | (d, Inr _) \<Rightarrow> (d, Inr True))"

definition OrderMutation_IDs :: "('d, 'z) scan_lib_scheme \<Rightarrow> driver \<Rightarrow> OrderMutation \<Rightarrow> 'd \<Rightarrow> 'd \<times> (ent_error + uuid list)" where
  "OrderMutation_IDs S drv m d =
     (let query = OrderQuery_IDs S (OrderQuery_Where (om_predicates m) (OrderClient_Query drv))
      in if om_op m \<in> {OpUpdateOne, OpDeleteOne}
         then (case om_id m of Some i \<Rightarrow> (d, Inr [i]) | None \<Rightarrow> query d)
         else if om_op m \<in> {OpUpdate, OpDelete} then query d
         else (d, Inl (IDsNotAllowed (om_op m))))"

subsection \<open>Order items\<close>

definition OrderItemQuery_Select :: "string list \<Rightarrow> OrderItemQuery \<Rightarrow> OrderItemQuery" where
  "OrderItemQuery_Select flds q = q\<lparr>iq_Fields := iq_Fields q @ flds\<rparr>"

definition OrderItemQuery_GroupBy :: "string \<Rightarrow> string list \<Rightarrow> OrderItemQuery \<Rightarrow> OrderItemQuery" where
  "OrderItemQuery_GroupBy field flds q = q\<lparr>iq_Fields := [field] @ flds\<rparr>"

definition OrderItemQuery_sqlQuery :: "OrderItemQuery \<Rightarrow> scan_spec" where
  "OrderItemQuery_sqlQuery q =
     \<lparr>sc_Table = orderitem_Table,
      sc_Columns = (if iq_Fields q = [] then orderitem_Columns else iq_Fields q),
      sc_Aggregates = [], sc_GroupBy = [],
      sc_Distinct = (iq_Unique q = Some True),
      sc_Predicates = iq_predicates q,
      sc_Order = iq_order q,
      sc_Limit = (case iq_Limit q of
          Some limit \<Rightarrow> Some limit
        | None \<Rightarrow> if iq_Offset q \<noteq> None then Some math_MaxInt32 else None),
      sc_Offset = iq_Offset q\<rparr>"

definition OrderItemSelect_sqlScan ::
  "('d, 'z) scan_lib_scheme \<Rightarrow> aggregate_fn list \<Rightarrow> OrderItemQuery \<Rightarrow> (ent_value list list \<Rightarrow> sql_error + 'v) \<Rightarrow> 'd \<Rightarrow> 'd \<times> (ent_error + 'v)" where
  "OrderItemSelect_sqlScan S fns q v =
     (let selector = OrderItemQuery_sqlQuery q;
          aggregation = map (\<lambda>fn. snd (fn (sc_Table selector))) fns;
          selector = (if iq_Fields q = [] \<and> aggregation \<noteq> [] then selector\<lparr>sc_Columns := [], sc_Aggregates := aggregation\<rparr>
                      else if iq_Fields q \<noteq> [] \<and> aggregation \<noteq> [] then selector\<lparr>sc_Aggregates := aggregation\<rparr>
                      else selector)
      in scan_query S (iq_driver q) selector v)"

definition OrderItemSelect_Scan ::
  "('d, 'z) scan_lib_scheme \<Rightarrow> aggregate_fn list \<Rightarrow> OrderItemQuery \<Rightarrow> (ent_value list list \<Rightarrow> sql_error + 'v) \<Rightarrow> 'd \<Rightarrow> 'd \<times> (ent_error + 'v)" where
  "OrderItemSelect_Scan S fns q v d =
     (case OrderItemQuery_prepareQuery q of Inl err \<Rightarrow> (d, Inl err) | Inr _ \<Rightarrow> OrderItemSelect_sqlScan S fns q v d)"

definition OrderItemGroupBy_sqlScan ::
  "('d, 'z) scan_lib_scheme \<Rightarrow> aggregate_fn list \<Rightarrow> OrderItemQuery \<Rightarrow> (ent_value list list \<Rightarrow> sql_error + 'v) \<Rightarrow> 'd \<Rightarrow> 'd \<times> (ent_error + 'v)" where
  "OrderItemGroupBy_sqlScan S fns q v d =
     (let selector = OrderItemQuery_sqlQuery q;
          aggregation = map (\<lambda>fn. fn (sc_Table selector)) fns;
          selector = selector\<lparr>sc_Columns := iq_Fields q, sc_Aggregates := map snd aggregation, sc_GroupBy := iq_Fields q\<rparr>
      in case order_terms_check orderitem_ValidColumn (iq_order q) of
           Inl err \<Rightarrow> (d, Inl err)
         | Inr _ \<Rightarrow>
             (case concat (map fst aggregation) of
                err # _ \<Rightarrow> (d, Inl err)
              | [] \<Rightarrow> scan_query S (iq_driver q) selector v d))"

definition OrderItemGroupBy_Scan ::
  "('d, 'z) scan_lib_scheme \<Rightarrow> aggregate_fn list \<Rightarrow> OrderItemQuery \<Rightarrow> (ent_value list list \<Rightarrow> sql_error + 'v) \<Rightarrow> 'd \<Rightarrow> 'd \<times> (ent_error + 'v)" where
  "OrderItemGroupBy_Scan S fns q v d =
     (case OrderItemQuery_prepareQuery q of Inl err \<Rightarrow> (d, Inl err) | Inr _ \<Rightarrow> OrderItemGroupBy_sqlScan S fns q v d)"

definition OrderItemQuery_IDs :: "('d, 'z) scan_lib_scheme \<Rightarrow> OrderItemQuery \<Rightarrow> 'd \<Rightarrow> 'd \<times> (ent_error + uuid list)" where
  "OrderItemQuery_IDs S q = OrderItemSelect_Scan S [] (OrderItemQuery_Select [FieldID] q) (sql_ScanUUIDs S)"

definition OrderItemQuery_FirstID :: "('d, 'z) scan_lib_scheme \<Rightarrow> OrderItemQuery \<Rightarrow> 'd \<Rightarrow> 'd \<times> (ent_error + uuid)" where
  "OrderItemQuery_FirstID S q d =
     (case OrderItemQuery_IDs S (OrderItemQuery_Limit 1 q) d of
        (d, Inl err) \<Rightarrow> (d, Inl err)
      | (d, Inr []) \<Rightarrow> (d, Inl (NotFoundError orderitem_Label))
      | (d, Inr (i # _)) \<Rightarrow> (d, Inr i))"

definition OrderItemQuery_OnlyID :: "('d, 'z) scan_lib_scheme \<Rightarrow> OrderItemQuery \<Rightarrow> 'd \<Rightarrow> 'd \<times> (ent_error + uuid)" where
  "OrderItemQuery_OnlyID S q d =
     (case OrderItemQuery_IDs S (OrderItemQuery_Limit 2 q) d of
        (d, Inl err) \<Rightarrow> (d, Inl err)
      | (d, Inr [i]) \<Rightarrow> (d, Inr i)
      | (d, Inr []) \<Rightarrow> (d, Inl (NotFoundError orderitem_Label))
      | (d, Inr _) \<Rightarrow> (d, Inl (NotSingularError orderitem_Label)))"

definition OrderItemQuery_Exist :: "('d, 'z) scan_lib_scheme \<Rightarrow> OrderItemQuery \<Rightarrow> 'd \<Rightarrow> 'd \<times> (ent_error + bool)" where
  "OrderItemQuery_Exist S q d =
     (case OrderItemQuery_FirstID S q d of
        (d, Inl err) \<Rightarrow> (d, if IsNotFound (Some err) then Inr False else Inl (ExistFailed err))
      | (d, Inr _) \<Rightarrow> (d, Inr True))"

definition OrderItemMutation_IDs :: "('d, 'z) scan_lib_scheme \<Rightarrow> driver \<Rightarrow> OrderItemMutation \<Rightarrow> 'd \<Rightarrow> 'd \<times> (ent_error + uuid list)" where
  "OrderItemMutation_IDs S drv m d =
     (let query = OrderItemQuery_IDs S (OrderItemQuery_Where (im_predicates m) (OrderItemClient_Query drv))
      in if im_op m \<in> {OpUpdateOne, OpDeleteOne}
         then (case im_id m of Some i \<Rightarrow> (d, Inr [i]) | None \<Rightarrow> query d)
         else if im_op m \<in> {OpUpdate, OpDelete} then query d
         else (d, Inl (IDsNotAllowed (im_op m))))"

subsection \<open>Outbox events\<close>

definition OutboxEventQuery_Select :: "string list \<Rightarrow> OutboxEventQuery \<Rightarrow> OutboxEventQuery" where
  "OutboxEventQuery_Select flds q = q\<lparr>bq_Fields := bq_Fields q @ flds\<rparr>"

definition OutboxEventQuery_GroupBy :: "string \<Rightarrow> string list \<Rightarrow> OutboxEventQuery \<Rightarrow> OutboxEventQuery" where
  "OutboxEventQuery_GroupBy field flds q = q\<lparr>bq_Fields := [field] @ flds\<rparr>"

definition OutboxEventQuery_sqlQuery :: "OutboxEventQuery \<Rightarrow> scan_spec" where
  "OutboxEventQuery_sqlQuery q =
     \<lparr>sc_Table = outboxevent_Table,
      sc_Columns = (if bq_Fields q = [] then outboxevent_Columns else bq_Fields q),
      sc_Aggregates = [], sc_GroupBy = [],
      sc_Distinct = (bq_Unique q = Some True),
      sc_Predicates = bq_predicates q,
      sc_Order = bq_order q,
      sc_Limit = (case bq_Limit q of
          Some limit \<Rightarrow> Some limit
        | None \<Rightarrow> if bq_Offset q \<noteq> None then Some math_MaxInt32 else None),
      sc_Offset = bq_Offset q\<rparr>"

definition OutboxEventSelect_sqlScan ::
  "('d, 'z) scan_lib_scheme \<Rightarrow> aggregate_fn list \<Rightarrow> OutboxEventQuery \<Rightarrow> (ent_value list list \<Rightarrow> sql_error + 'v) \<Rightarrow> 'd \<Rightarrow> 'd \<times> (ent_error + 'v)" where
  "OutboxEventSelect_sqlScan S fns q v =
     (let selector = OutboxEventQuery_sqlQuery q;
          aggregation = map (\<lambda>fn. snd (fn (sc_Table selector))) fns;
          selector = (if bq_Fields q = [] \<and> aggregation \<noteq> [] then selector\<lparr>sc_Columns := [], sc_Aggregates := aggregation\<rparr>
                      else if bq_Fields q \<noteq> [] \<and> aggregation \<noteq> [] then selector\<lparr>sc_Aggregates := aggregation\<rparr>
                      else selector)
      in scan_query S (bq_driver q) selector v)"

definition OutboxEventSelect_Scan ::
  "('d, 'z) scan_lib_scheme \<Rightarrow> aggregate_fn list \<Rightarrow> OutboxEventQuery \<Rightarrow> (ent_value list list \<Rightarrow> sql_error + 'v) \<Rightarrow> 'd \<Rightarrow> 'd \<times> (ent_error + 'v)" where
  "OutboxEventSelect_Scan S fns q v d =
     (case OutboxEventQuery_prepareQuery q of Inl err \<Rightarrow> (d, Inl err) | Inr _ \<Rightarrow> OutboxEventSelect_sqlScan S fns q v d)"

definition OutboxEventGroupBy_sqlScan ::
  "('d, 'z) scan_lib_scheme \<Rightarrow> aggregate_fn list \<Rightarrow> OutboxEventQuery \<Rightarrow> (ent_value list list \<Rightarrow> sql_error + 'v) \<Rightarrow> 'd \<Rightarrow> 'd \<times> (ent_error + 'v)" where
  "OutboxEventGroupBy_sqlScan S fns q v d =
     (let selector = OutboxEventQuery_sqlQuery q;
          aggregation = map (\<lambda>fn. fn (sc_Table selector)) fns;
          selector = selector\<lparr>sc_Columns := bq_Fields q, sc_Aggregates := map snd aggregation, sc_GroupBy := bq_Fields q\<rparr>
      in case order_terms_check outboxevent_ValidColumn (bq_order q) of
           Inl err \<Rightarrow> (d, Inl err)
         | Inr _ \<Rightarrow>
             (case concat (map fst aggregation) of
                err # _ \<Rightarrow> (d, Inl err)
              | [] \<Rightarrow> scan_query S (bq_driver q) selector v d))"

definition OutboxEventGroupBy_Scan ::
  "('d, 'z) scan_lib_scheme \<Rightarrow> aggregate_fn list \<Rightarrow> OutboxEventQuery \<Rightarrow> (ent_value list list \<Rightarrow> sql_error + 'v) \<Rightarrow> 'd \<Rightarrow> 'd \<times> (ent_error + 'v)" where
  "OutboxEventGroupBy_Scan S fns q v d =
     (case OutboxEventQuery_prepareQuery q of Inl err \<Rightarrow> (d, Inl err) | Inr _ \<Rightarrow> OutboxEventGroupBy_sqlScan S fns q v d)"

definition OutboxEventQuery_IDs :: "('d, 'z) scan_lib_scheme \<Rightarrow> OutboxEventQuery \<Rightarrow> 'd \<Rightarrow> 'd \<times> (ent_error + uuid list)" where
  "OutboxEventQuery_IDs S q = OutboxEventSelect_Scan S [] (OutboxEventQuery_Select [FieldID] q) (sql_ScanUUIDs S)"

definition OutboxEventQuery_FirstID :: "('d, 'z) scan_lib_scheme \<Rightarrow> OutboxEventQuery \<Rightarrow> 'd \<Rightarrow> 'd \<times> (ent_error + uuid)" where
  "OutboxEventQuery_FirstID S q d =
     (case OutboxEventQuery_IDs S (OutboxEventQuery_Limit 1 q) d of
        (d, Inl err) \<Rightarrow> (d, Inl err)
      | (d, Inr []) \<Rightarrow> (d, Inl (NotFoundError outboxevent_Label))
      | (d, Inr (i # _)) \<Rightarrow> (d, Inr i))"

definition OutboxEventQuery_OnlyID :: "('d, 'z) scan_lib_scheme \<Rightarrow> OutboxEventQuery \<Rightarrow> 'd \<Rightarrow> 'd \<times> (ent_error + uuid)" where
  "OutboxEventQuery_OnlyID S q d =
     (case OutboxEventQuery_IDs S (OutboxEventQuery_Limit 2 q) d of
        (d, Inl err) \<Rightarrow> (d, Inl err)
      | (d, Inr [i]) \<Rightarrow> (d, Inr i)
      | (d, Inr []) \<Rightarrow> (d, Inl (NotFoundError outboxevent_Label))
      | (d, Inr _) \<Rightarrow> (d, Inl (NotSingularError outboxevent_Label)))"

definition OutboxEventQuery_Exist :: "('d, 'z) scan_lib_scheme \<Rightarrow> OutboxEventQuery \<Rightarrow> 'd \<Rightarrow> 'd \<times> (ent_error + bool)" where
  "OutboxEventQuery_Exist S q d =
     (case OutboxEventQuery_FirstID S q d of
        (d, Inl err) \<Rightarrow> (d, if IsNotFound (Some err) then Inr False else Inl (ExistFailed err))
      | (d, Inr _) \<Rightarrow> (d, Inr True))"

definition OutboxEventMutation_IDs :: "('d, 'z) scan_lib_scheme \<Rightarrow> driver \<Rightarrow> OutboxEventMutation \<Rightarrow> 'd \<Rightarrow> 'd \<times> (ent_error + uuid list)" where
  "OutboxEventMutation_IDs S drv m d =
     (let query = OutboxEventQuery_IDs S (OutboxEventQuery_Where (bm_predicates m) (OutboxEventClient_Query drv))
      in if bm_op m \<in> {OpUpdateOne, OpDeleteOne}
         then (case bm_id m of Some i \<Rightarrow> (d, Inr [i]) | None \<Rightarrow> query d)
         else if bm_op m \<in> {OpUpdate, OpDelete} then query d
         else (d, Inl (IDsNotAllowed (bm_op m))))"

section \<open>What is read\<close>

definition scan_page :: "scan_spec \<Rightarrow> 'a list \<Rightarrow> 'a list" where
  \<comment> \<open>here a limit of zero returns nothing\<close>
  "scan_page sc xs =
     (let ys = (case sc_Offset sc of None \<Rightarrow> xs | Some k \<Rightarrow> drop (nat (sint k)) xs)
      in case sc_Limit sc of None \<Rightarrow> ys | Some k \<Rightarrow> take (nat (sint k)) ys)"

definition plain_scan :: "scan_spec \<Rightarrow> bool" where
  "plain_scan sc \<longleftrightarrow>
     sc_Aggregates sc = [] \<and> sc_GroupBy sc = [] \<and> \<not> sc_Distinct sc"

lemma scan_page_map: "scan_page sc (map f xs) = map f (scan_page sc xs)"
  by (simp add: scan_page_def Let_def take_map drop_map split: option.split)

lemma scan_page_subset: "set (scan_page sc xs) \<subseteq> set xs"
  by (auto simp: scan_page_def Let_def split: option.splits dest: in_set_takeD in_set_dropD)

text \<open>The locale of the statements that read columns; in the law of the rows their order is open.\<close>

locale sql_scan =
  fixes S :: "('d, 'z) scan_lib_scheme"
    and committed :: "'d \<Rightarrow> tables"
    and view :: "'d \<Rightarrow> tables option"
    and sel :: selection
  assumes scan_same: "sql_Query S drv sc d = (d', rs) \<Longrightarrow> same_db committed view d d'"
    and scan_rows: "sql_Query S drv sc d = (d', Inr cells) \<Longrightarrow> plain_scan sc \<Longrightarrow>
      tables_of committed view drv d = Some t \<Longrightarrow>
      \<exists>rows. mset rows = mset (filter (sel t (sc_Table sc) (sc_Predicates sc)) (t (sc_Table sc)))
        \<and> cells = map (\<lambda>r. map r (sc_Columns sc)) (scan_page sc rows)"
    and scan_uuids: "sql_ScanUUIDs S (map (\<lambda>i. [VUUID i]) is) = Inr is"
begin

lemma ids_of_rows:
  assumes "scan_query S drv sc (sql_ScanUUIDs S) d = (d', r)"
    and "plain_scan sc" "sc_Columns sc = [FieldID]" "tables_of committed view drv d = Some t"
    and "map (\<lambda>r. r FieldID) (t (sc_Table sc)) = map VUUID keys"
  shows "same_db committed view d d'"
    and "r = Inr ids \<Longrightarrow> \<exists>rows. mset rows = mset (filter (sel t (sc_Table sc) (sc_Predicates sc)) (t (sc_Table sc)))
      \<and> map VUUID ids = map (\<lambda>r. r FieldID) (scan_page sc rows)"
    and "r = Inl e \<Longrightarrow> e \<in> range SqlError"
proof -
  obtain d1 rs where Q: "sql_Query S drv sc d = (d1, rs)" by (cases "sql_Query S drv sc d")
  show "same_db committed view d d'"
    using assms(1) Q scan_same [OF Q] by (auto simp: scan_query_def split: sum.splits)
  have uuid: "\<exists>i. x FieldID = VUUID i" if "x \<in> set (t (sc_Table sc))" for x
    using arg_cong [OF assms(5), of set] that by (auto simp: image_iff)
  { fix cells
    assume cells: "rs = Inr cells"
    from scan_rows [OF Q [unfolded cells] assms(2,4)] obtain rows where
      rows: "mset rows = mset (filter (sel t (sc_Table sc) (sc_Predicates sc)) (t (sc_Table sc)))"
      and cs: "cells = map (\<lambda>r. map r (sc_Columns sc)) (scan_page sc rows)" by blast
    have sub: "set (scan_page sc rows) \<subseteq> set (t (sc_Table sc))"
      using scan_page_subset [of sc rows] mset_eq_setD [OF rows] by auto
    define js where "js = map (\<lambda>x. THE i. x FieldID = VUUID i) (scan_page sc rows)"
    have "x FieldID = VUUID (THE i. x FieldID = VUUID i)" if "x \<in> set (scan_page sc rows)" for x
      using uuid sub that by fastforce
    then have js: "map VUUID js = map (\<lambda>r. r FieldID) (scan_page sc rows)" by (simp add: js_def)
    have "cells = map (\<lambda>i. [VUUID i]) js"
      using arg_cong [OF js, of "map (\<lambda>v. [v])"] by (simp add: cs assms(3) comp_def)
    then have "sql_ScanUUIDs S cells = Inr js" by (simp only: scan_uuids)
    with rows js have "\<exists>js rows. sql_ScanUUIDs S cells = Inr js
        \<and> mset rows = mset (filter (sel t (sc_Table sc) (sc_Predicates sc)) (t (sc_Table sc)))
        \<and> map VUUID js = map (\<lambda>r. r FieldID) (scan_page sc rows)" by blast }
  note scanned = this
  show "r = Inr ids \<Longrightarrow> \<exists>rows. mset rows = mset (filter (sel t (sc_Table sc) (sc_Predicates sc)) (t (sc_Table sc)))
      \<and> map VUUID ids = map (\<lambda>r. r FieldID) (scan_page sc rows)"
    using assms(1) Q scanned by (cases rs) (fastforce simp: scan_query_def)+
  show "r = Inl e \<Longrightarrow> e \<in> range SqlError"
    using assms(1) Q scanned by (cases rs) (fastforce simp: scan_query_def)+
qed

lemma order_ids:
  assumes "OrderQuery_IDs S q d = (d', r)"
    and "oq_Fields q = []" "oq_Unique q \<noteq> Some True"
    and "tables_of committed view (oq_driver q) d = Some t"
    and "map (\<lambda>r. r FieldID) (t order_Table) = map VUUID keys"
  shows "same_db committed view d d'"
    and "r = Inr ids \<Longrightarrow> \<exists>rows. mset rows = mset (filter (sel t order_Table (oq_predicates q)) (t order_Table))
      \<and> map VUUID ids = map (\<lambda>r. r FieldID) (scan_page (OrderQuery_sqlQuery q) rows)"
    and "r = Inl e \<Longrightarrow> e \<in> range SqlError"
proof -
  let ?sc = "(OrderQuery_sqlQuery q)\<lparr>sc_Columns := [FieldID]\<rparr>"
  have sc: "OrderQuery_sqlQuery (OrderQuery_Select [FieldID] q) = ?sc"
    by (cases "oq_Limit q") (simp_all add: OrderQuery_sqlQuery_def OrderQuery_Select_def assms(2))
  have "OrderQuery_prepareQuery (OrderQuery_Select [FieldID] q) = Inr ()"
    by (simp add: OrderQuery_prepareQuery_def OrderQuery_Select_def assms(2) order_ValidColumn_def order_Columns_def)
  then have "scan_query S (oq_driver q) ?sc (sql_ScanUUIDs S) d = (d', r)"
    using assms(1) by (simp add: OrderQuery_IDs_def OrderSelect_Scan_def OrderSelect_sqlScan_def sc) (simp add: OrderQuery_Select_def)
  moreover have "plain_scan ?sc" using assms(3) by (simp add: plain_scan_def OrderQuery_sqlQuery_def)
  moreover have "sc_Table ?sc = order_Table" "sc_Predicates ?sc = oq_predicates q"
    by (simp_all add: OrderQuery_sqlQuery_def)
  moreover have "scan_page ?sc = (scan_page (OrderQuery_sqlQuery q) :: row list \<Rightarrow> row list)"
    by (simp add: scan_page_def fun_eq_iff)
  ultimately show "same_db committed view d d'"
    and "r = Inr ids \<Longrightarrow> \<exists>rows. mset rows = mset (filter (sel t order_Table (oq_predicates q)) (t order_Table))
      \<and> map VUUID ids = map (\<lambda>r. r FieldID) (scan_page (OrderQuery_sqlQuery q) rows)"
    and "r = Inl e \<Longrightarrow> e \<in> range SqlError"
    using ids_of_rows [of "oq_driver q" ?sc d d' r t keys] assms(4,5) by simp_all
qed

text \<open>\<open>Exist\<close> and \<open>OnlyID\<close> of a query without paging.\<close>

lemma order_exist:
  assumes "OrderQuery_Exist S q d = (d', Inr b)"
    and "oq_Fields q = []" "oq_Unique q \<noteq> Some True" "oq_Offset q = None"
    and "tables_of committed view (oq_driver q) d = Some t"
    and "map (\<lambda>r. r FieldID) (t order_Table) = map VUUID keys"
  shows "b \<longleftrightarrow> (\<exists>r \<in> set (t order_Table). sel t order_Table (oq_predicates q) r)"
proof -
  let ?q = "OrderQuery_Limit 1 q"
  have q: "oq_Fields ?q = []" "oq_Unique ?q \<noteq> Some True"
    "tables_of committed view (oq_driver ?q) d = Some t" "oq_predicates ?q = oq_predicates q"
    "sc_Offset (OrderQuery_sqlQuery ?q) = None" "sc_Limit (OrderQuery_sqlQuery ?q) = Some 1"
    using assms by (simp_all add: OrderQuery_Limit_def OrderQuery_sqlQuery_def)
  obtain d1 r where I: "OrderQuery_IDs S ?q d = (d1, r)" by (cases "OrderQuery_IDs S ?q d")
  note R = order_ids [OF I q(1-3) assms(6)]
  have "r \<noteq> Inl e" for e
  proof
    assume "r = Inl e"
    then show False using assms(1) I R(3) [of e]
      by (auto simp: OrderQuery_Exist_def OrderQuery_FirstID_def IsNotFound_def is_kind_def)
  qed
  then obtain ids where ids: "r = Inr ids" by (cases r) auto
  from R(2) [OF ids] obtain rows where
    rows: "mset rows = mset (filter (sel t order_Table (oq_predicates q)) (t order_Table))"
    and eq: "map VUUID ids = map (\<lambda>r. r FieldID) (take 1 rows)" by (auto simp: scan_page_def q)
  have "b \<longleftrightarrow> ids \<noteq> []"
    using assms(1) I ids
    by (auto simp: OrderQuery_Exist_def OrderQuery_FirstID_def IsNotFound_def is_kind_def split: list.splits)
  also have "\<dots> \<longleftrightarrow> rows \<noteq> []" using arg_cong [OF eq, of length] by (cases rows) auto
  also have "\<dots> \<longleftrightarrow> set rows \<noteq> {}" by simp
  finally show ?thesis using mset_eq_setD [OF rows] by auto
qed

lemma order_only_id:
  assumes "OrderQuery_OnlyID S q d = (d', Inr i)"
    and "oq_Fields q = []" "oq_Unique q \<noteq> Some True" "oq_Offset q = None"
    and "tables_of committed view (oq_driver q) d = Some t"
    and "map (\<lambda>r. r FieldID) (t order_Table) = map VUUID keys"
  shows "\<exists>r. filter (sel t order_Table (oq_predicates q)) (t order_Table) = [r] \<and> r FieldID = VUUID i"
proof -
  let ?q = "OrderQuery_Limit 2 q"
  have q: "oq_Fields ?q = []" "oq_Unique ?q \<noteq> Some True"
    "tables_of committed view (oq_driver ?q) d = Some t" "oq_predicates ?q = oq_predicates q"
    "sc_Offset (OrderQuery_sqlQuery ?q) = None" "sc_Limit (OrderQuery_sqlQuery ?q) = Some 2"
    using assms by (simp_all add: OrderQuery_Limit_def OrderQuery_sqlQuery_def)
  obtain d1 r where I: "OrderQuery_IDs S ?q d = (d1, r)" by (cases "OrderQuery_IDs S ?q d")
  with assms(1) have ids: "r = Inr [i]"
    by (auto simp: OrderQuery_OnlyID_def split: sum.splits list.splits)
  from order_ids(2) [OF I q(1-3) assms(6) ids] obtain rows where
    rows: "mset rows = mset (filter (sel t order_Table (oq_predicates q)) (t order_Table))"
    and eq: "map VUUID [i] = map (\<lambda>r. r FieldID) (take 2 rows)" by (auto simp: scan_page_def q)
  from eq obtain x where "rows = [x]" "x FieldID = VUUID i"
    by (cases rows; cases "tl rows") (auto simp: numeral_2_eq_2)
  with rows show ?thesis by (intro exI [of _ x]) (metis mset_single_iff_right mset.simps)
qed

lemma mutation_ids:
  assumes "OrderMutation_IDs S drv m d = (d', Inr ids)"
    and "om_op m = OpUpdate \<or> om_op m = OpDelete"
    and "tables_of committed view drv d = Some t"
    and "map (\<lambda>r. r FieldID) (t order_Table) = map VUUID keys"
  shows "same_db committed view d d'"
    and "mset (map (\<lambda>r. r FieldID) (filter (sel t order_Table (om_predicates m)) (t order_Table))) = mset (map VUUID ids)"
proof -
  let ?q = "OrderQuery_Where (om_predicates m) (OrderClient_Query drv)"
  have I: "OrderQuery_IDs S ?q d = (d', Inr ids)"
    using assms(1,2) by (auto simp: OrderMutation_IDs_def Let_def)
  have q: "oq_Fields ?q = []" "oq_Unique ?q \<noteq> Some True"
    "tables_of committed view (oq_driver ?q) d = Some t" "oq_predicates ?q = om_predicates m"
    "scan_page (OrderQuery_sqlQuery ?q) = (\<lambda>rows :: row list. rows)"
    using assms(3) by (simp_all add: OrderQuery_Where_def OrderClient_Query_def OrderQuery_sqlQuery_def scan_page_def fun_eq_iff)
  note R = order_ids [OF I q(1-3) assms(4)]
  show "same_db committed view d d'" by (rule R(1))
  from R(2) [OF refl] obtain rows where
    rows: "mset rows = mset (filter (sel t order_Table (om_predicates m)) (t order_Table))"
    and ids: "map VUUID ids = map (\<lambda>r. r FieldID) rows" by (auto simp: q)
  show "mset (map (\<lambda>r. r FieldID) (filter (sel t order_Table (om_predicates m)) (t order_Table))) = mset (map VUUID ids)"
    unfolding ids by (simp add: rows)
qed

end

subsection \<open>In memory\<close>

definition mem_scan :: "driver \<Rightarrow> scan_spec \<Rightarrow> mem \<Rightarrow> mem \<times> (sql_error + ent_value list list)" where
  "mem_scan drv sc d =
     (case mem_of drv d of
        None \<Rightarrow> (d, Inl (SqlOther ''no transaction''))
      | Some t \<Rightarrow>
          (d, Inr (map (\<lambda>r. map r (sc_Columns sc))
             (scan_page sc (filter (row_selected micros (sc_Predicates sc)) (t (sc_Table sc)))))))"

definition mem_scan_uuids :: "ent_value list list \<Rightarrow> sql_error + uuid list" where
  "mem_scan_uuids rows =
     (case collect (map (\<lambda>r. case r of [VUUID i] \<Rightarrow> Some i | _ \<Rightarrow> None) rows) of
        None \<Rightarrow> Inl (SqlOther ''scan'') | Some ids \<Rightarrow> Inr ids)"

definition mem_scans :: "mem scan_lib" where
  "mem_scans = \<lparr>sql_Query = mem_scan, sql_ScanUUIDs = mem_scan_uuids\<rparr>"

interpretation mem_columns: sql_scan mem_scans mem_tables mem_view mem_selection
proof (unfold_locales, goal_cases)
  case (1 drv sc d d' rs)
  then show ?case by (auto simp: mem_scans_def mem_scan_def same_db_refl split: option.splits)
next
  case (2 drv sc d d' cells t)
  then show ?case
    by (intro exI [of _ "filter (row_selected micros (sc_Predicates sc)) (t (sc_Table sc))"])
      (auto simp: mem_scans_def mem_scan_def mem_selection_def)
next
  case (3 ids)
  have "collect (map Some xs) = Some xs" for xs :: "uuid list" by (simp add: collect_Some_iff)
  then show ?case by (simp add: mem_scans_def mem_scan_uuids_def comp_def)
qed

section \<open>The property\<close>

text \<open>
  C38. The ids that a hook reads from a mutation are those of the rows that the mutation is about
  to change, as the comment on \<open>IDs\<close> promises, whatever its predicates select: if \<open>IDs\<close> of an
  update of many orders answers a list and the update then answers a number, then that number is
  the length of the list, and the tables are those that the specification of the builder for one
  order makes of them for each listed id in turn: fields set, cleared and added to, lines removed,
  and lines linked (which the library refuses for more than one order).
\<close>

theorem listed_ids_are_updated:
  assumes "sql_scan S committed view sel" and "sql_nodes N committed view tr sel"
    and "om_op (um_mutation u) = OpUpdate"
    and "tables_of committed view (um_driver u) d = Some t"
    and "map (\<lambda>r. r FieldID) (t order_Table) = map VUUID keys" and "distinct keys"
    and "OrderMutation_IDs S (um_driver u) (um_mutation u) d = (d1, Inr ids)"
    and "OrderUpdate_sqlSave L N u d1 = (d2, Inr n)"
  shows "tables_of committed view (um_driver u) d2 = Some (fold (\<lambda>i. node_change tr (single_spec u i)) ids t)
    \<and> sint n = int (length ids)"
proof -
  note I = sql_scan.mutation_ids [OF assms(1,7) disjI1 [OF assms(3)] assms(4,5)]
  have "tables_of committed view (um_driver u) d1 = Some t"
    using I(1) assms(4) by (cases "um_driver u") (simp_all add: same_db_def tables_of_def)
  moreover have "distinct (map (\<lambda>r. r FieldID) (t order_Table))"
    unfolding assms(5) using assms(6) by (simp add: distinct_map inj_on_def)
  ultimately show ?thesis using updates_one_by_one [OF assms(2,8)] I(2) by blast
qed

lemma surcharge_ids:
  "OrderMutation_IDs mem_scans (um_driver surcharge) (um_mutation surcharge) surcharge_start = (surcharge_start, Inr [1, 2])"
proof -
  let ?q = "OrderQuery_Select [FieldID] (OrderQuery_Where [order_StatusEQ ''created''] (OrderClient_Query BaseDriver))"
  have spec: "OrderQuery_sqlQuery ?q = \<lparr>sc_Table = order_Table, sc_Columns = [FieldID], sc_Aggregates = [], sc_GroupBy = [],
      sc_Distinct = False, sc_Predicates = [order_StatusEQ ''created''], sc_Order = [], sc_Limit = None, sc_Offset = None\<rparr>"
    by (simp add: OrderQuery_sqlQuery_def OrderQuery_Select_def OrderQuery_Where_def OrderClient_Query_def)
  have prep: "OrderQuery_prepareQuery ?q = Inr ()" "oq_driver ?q = BaseDriver"
    by (simp_all add: OrderQuery_prepareQuery_def OrderQuery_Select_def OrderQuery_Where_def OrderClient_Query_def
        order_ValidColumn_def order_Columns_def)
  have "take 2 (priced_orders order_Table) = map (\<lambda>(i, v). (\<lambda>_. VNull)(FieldID := VUUID i, order_FieldStatus := VString ''created'',
      order_FieldTotal := v)) [(1, VFloat (f64_of_int 10)), (2, VNull)]"
    by (simp add: priced_orders_def order_Table_def fun_eq_iff)
  then show ?thesis
    using surcharge_selects
    by (simp add: OrderMutation_IDs_def surcharge_spec OrderQuery_IDs_def OrderSelect_Scan_def OrderSelect_sqlScan_def
        Let_def spec prep scan_query_def mem_scans_def mem_scan_def scan_page_def tables_of_def mem_scan_uuids_def
        surcharge_start_def)
qed

text \<open>Two orders get the surcharge, the missing total counting as zero, and the line of the first is cut off.\<close>

lemma listed_ids_are_updated_witness:
  "mem_tables surcharged = fold (\<lambda>i. node_change micros (single_spec surcharge i)) [1, 2] priced_orders
   \<and> sint (2 :: i64) = int (length [1, 2 :: uuid])"
proof -
  have "tables_of mem_tables mem_view (um_driver surcharge) surcharged
     = Some (fold (\<lambda>i. node_change micros (single_spec surcharge i)) [1, 2] priced_orders)
   \<and> sint (2 :: i64) = int (length [1, 2 :: uuid])"
  proof (rule listed_ids_are_updated [OF mem_columns.sql_scan_axioms mem_bulk.sql_nodes_axioms _ _ _ _ surcharge_ids surcharge_runs])
    show "om_op (um_mutation surcharge) = OpUpdate" by (rule surcharge_spec)
    show "tables_of mem_tables mem_view (um_driver surcharge) surcharge_start = Some priced_orders"
      by (simp add: surcharge_spec tables_of_def surcharge_start_def)
    show "map (\<lambda>r. r FieldID) (priced_orders order_Table) = map VUUID [1, 2, 3]" "distinct [1, 2, 3 :: uuid]"
      by (simp_all add: priced_orders_def order_Table_def)
  qed
  then show ?thesis by (simp add: surcharge_spec tables_of_def)
qed

end
