(* ===== verification/EntCreateBulk.thy ===== *)
theory EntCreateBulk
  imports EntCreate
begin

text \<open>
  The builders for many new orders or outbox events (\<open>OrderCreateBulk\<close>, \<open>OutboxEventCreateBulk\<close>;
  the one for lines, which the service uses, is in EntCreate), without hooks: the chain of
  mutators is a loop of checks and one statement for all the rows.
\<close>

subsection \<open>Orders\<close>

fun OrderCreateBulk_defaults :: "('d, 'z) lib_scheme \<Rightarrow> OrderCreate list \<Rightarrow> 'd \<Rightarrow> 'd \<times> OrderCreate list" where
  "OrderCreateBulk_defaults L [] d = (d, [])"
| "OrderCreateBulk_defaults L (c # cs) d =
     (let (d, c) = OrderCreate_defaults L c d; (d, cs) = OrderCreateBulk_defaults L cs d in (d, c # cs))"

fun OrderCreateBulk_mutate ::
    "('d, 'z) lib_scheme \<Rightarrow> driver \<Rightarrow> create_spec list \<Rightarrow> OrderCreate list \<Rightarrow> 'd \<Rightarrow> 'd \<times> (ent_error + Order list)" where
  "OrderCreateBulk_mutate L drv specs [] d =
     (case sqlgraph_BatchCreate L drv specs d of
        (d, Some e) \<Rightarrow> (d, Inl (constraint_error e))
      | (d, None) \<Rightarrow> (d, Inr []))"
| "OrderCreateBulk_mutate L drv specs (c # cs) d =
     (case OrderCreate_check L c of
        Inl e \<Rightarrow> (d, Inl e)
      | Inr _ \<Rightarrow>
          let (node, spec) = OrderCreate_createSpec c in
          (case OrderCreateBulk_mutate L drv (specs @ [spec]) cs d of
             (d, Inl e) \<Rightarrow> (d, Inl e)
           | (d, Inr nodes) \<Rightarrow> (d, Inr (node # nodes))))"

definition OrderCreateBulk_Save ::
    "('d, 'z) lib_scheme \<Rightarrow> driver \<Rightarrow> OrderCreate list \<Rightarrow> 'd \<Rightarrow> 'd \<times> (ent_error + Order list)" where
  "OrderCreateBulk_Save L drv builders d =
     (let (d, cs) = OrderCreateBulk_defaults L builders d in
      if cs = [] then (d, Inr []) else OrderCreateBulk_mutate L drv [] cs d)"

lemma OrderCreateBulk_mutate_loop:
  "OrderCreateBulk_mutate L drv specs cs d =
     (case range_loop (\<lambda>c u. OrderCreate_check L c) cs () of
        Inl e \<Rightarrow> (d, Inl e)
      | Inr _ \<Rightarrow>
          (case sqlgraph_BatchCreate L drv (specs @ map (\<lambda>c. snd (OrderCreate_createSpec c)) cs) d of
             (d, Some e) \<Rightarrow> (d, Inl (constraint_error e))
           | (d, None) \<Rightarrow> (d, Inr (map (\<lambda>c. fst (OrderCreate_createSpec c)) cs))))"
proof (induction cs arbitrary: specs)
  case Nil
  then show ?case by simp
next
  case (Cons c cs)
  then show ?case by (simp add: Let_def split: sum.split prod.split option.split)
qed

text \<open>A builder that its check refuses keeps every row out.\<close>

lemma OrderCreateBulk_refused:
  assumes "OrderCreateBulk_defaults L builders d = (d1, cs)" and "c \<in> set cs" and "OrderCreate_check L c = Inl e"
  shows "fst (OrderCreateBulk_Save L drv builders d) = d1 \<and> (\<exists>e. snd (OrderCreateBulk_Save L drv builders d) = Inl e)"
proof -
  have "\<exists>e. range_loop (\<lambda>c u. OrderCreate_check L c) cs () = Inl e"
    using assms(2,3) by (induction cs) (auto split: sum.split)
  then show ?thesis using assms(1,2) by (auto simp: OrderCreateBulk_Save_def OrderCreateBulk_mutate_loop)
qed

subsection \<open>Outbox events\<close>

fun OutboxEventCreateBulk_defaults :: "('d, 'z) lib_scheme \<Rightarrow> OutboxEventCreate list \<Rightarrow> 'd \<Rightarrow> 'd \<times> OutboxEventCreate list" where
  "OutboxEventCreateBulk_defaults L [] d = (d, [])"
| "OutboxEventCreateBulk_defaults L (c # cs) d =
     (let (d, c) = OutboxEventCreate_defaults L c d; (d, cs) = OutboxEventCreateBulk_defaults L cs d in (d, c # cs))"

fun OutboxEventCreateBulk_mutate ::
    "('d, 'z) lib_scheme \<Rightarrow> driver \<Rightarrow> create_spec list \<Rightarrow> OutboxEventCreate list \<Rightarrow> 'd \<Rightarrow> 'd \<times> (ent_error + OutboxEvent list)" where
  "OutboxEventCreateBulk_mutate L drv specs [] d =
     (case sqlgraph_BatchCreate L drv specs d of
        (d, Some e) \<Rightarrow> (d, Inl (constraint_error e))
      | (d, None) \<Rightarrow> (d, Inr []))"
| "OutboxEventCreateBulk_mutate L drv specs (c # cs) d =
     (case OutboxEventCreate_check c of
        Inl e \<Rightarrow> (d, Inl e)
      | Inr _ \<Rightarrow>
          let (node, spec) = OutboxEventCreate_createSpec c in
          (case OutboxEventCreateBulk_mutate L drv (specs @ [spec]) cs d of
             (d, Inl e) \<Rightarrow> (d, Inl e)
           | (d, Inr nodes) \<Rightarrow> (d, Inr (node # nodes))))"

definition OutboxEventCreateBulk_Save ::
    "('d, 'z) lib_scheme \<Rightarrow> driver \<Rightarrow> OutboxEventCreate list \<Rightarrow> 'd \<Rightarrow> 'd \<times> (ent_error + OutboxEvent list)" where
  "OutboxEventCreateBulk_Save L drv builders d =
     (let (d, cs) = OutboxEventCreateBulk_defaults L builders d in
      if cs = [] then (d, Inr []) else OutboxEventCreateBulk_mutate L drv [] cs d)"

lemma OutboxEventCreateBulk_mutate_loop:
  "OutboxEventCreateBulk_mutate L drv specs cs d =
     (case range_loop (\<lambda>c u. OutboxEventCreate_check c) cs () of
        Inl e \<Rightarrow> (d, Inl e)
      | Inr _ \<Rightarrow>
          (case sqlgraph_BatchCreate L drv (specs @ map (\<lambda>c. snd (OutboxEventCreate_createSpec c)) cs) d of
             (d, Some e) \<Rightarrow> (d, Inl (constraint_error e))
           | (d, None) \<Rightarrow> (d, Inr (map (\<lambda>c. fst (OutboxEventCreate_createSpec c)) cs))))"
proof (induction cs arbitrary: specs)
  case Nil
  then show ?case by simp
next
  case (Cons c cs)
  then show ?case by (simp add: Let_def split: sum.split prod.split option.split)
qed

text \<open>A builder that its check refuses keeps every row out.\<close>

lemma OutboxEventCreateBulk_refused:
  assumes "OutboxEventCreateBulk_defaults L builders d = (d1, cs)" and "c \<in> set cs" and "OutboxEventCreate_check c = Inl e"
  shows "fst (OutboxEventCreateBulk_Save L drv builders d) = d1 \<and> (\<exists>e. snd (OutboxEventCreateBulk_Save L drv builders d) = Inl e)"
proof -
  have "\<exists>e. range_loop (\<lambda>c u. OutboxEventCreate_check c) cs () = Inl e"
    using assms(2,3) by (induction cs) (auto split: sum.split)
  then show ?thesis using assms(1,2) by (auto simp: OutboxEventCreateBulk_Save_def OutboxEventCreateBulk_mutate_loop)
qed

end
