(* ===== verification/EntTx.thy ===== *)
theory EntTx
  imports OrderRepo SqlEngine
begin

text \<open>
  Transactions with options and with hooks around their end (\<open>BeginTx\<close> in \<open>gen/ent/client.go\<close>,
  \<open>OnCommit\<close> and \<open>OnRollback\<close> in \<open>gen/ent/tx.go\<close>). A \<open>Committer\<close> is its method; the hooks of a
  transaction are a list, of which the first registered runs outermost. The service registers
  none, and then they are the \<open>Tx_Commit\<close> and \<open>Tx_Rollback\<close> of OrderRepo.
\<close>

definition Client_BeginTx ::
    "('o \<Rightarrow> 'd \<Rightarrow> 'd \<times> sql_error option) \<Rightarrow> 'o \<Rightarrow> driver \<Rightarrow> 'd \<Rightarrow> 'd \<times> (ent_error + driver)" where
  \<comment> \<open>the first argument is the method \<open>BeginTx\<close> of the database's driver\<close>
  "Client_BeginTx driver_BeginTx opts drv d =
     (case drv of
        TxDriver \<Rightarrow> (d, Inl TxStarted)
      | BaseDriver \<Rightarrow>
          (case driver_BeginTx opts d of
             (d, Some e) \<Rightarrow> (d, Inl (StartTxError e))
           | (d, None) \<Rightarrow> (d, Inr TxDriver)))"

type_synonym 'd committer = "'d \<Rightarrow> 'd \<times> ent_error option"
type_synonym 'd commit_hook = "'d committer \<Rightarrow> 'd committer"

definition Tx_OnCommit :: "'d commit_hook \<Rightarrow> 'd commit_hook list \<Rightarrow> 'd commit_hook list" where
  "Tx_OnCommit f onCommit = onCommit @ [f]"

definition Tx_Commit_hooked :: "('d, 'z) lib_scheme \<Rightarrow> 'd commit_hook list \<Rightarrow> 'd committer" where
  "Tx_Commit_hooked L onCommit = fold (\<lambda>hook fn. hook fn) (rev onCommit) (Tx_Commit L)"

definition Tx_OnRollback :: "'d commit_hook \<Rightarrow> 'd commit_hook list \<Rightarrow> 'd commit_hook list" where
  "Tx_OnRollback f onRollback = onRollback @ [f]"

definition Tx_Rollback_hooked :: "('d, 'z) lib_scheme \<Rightarrow> 'd commit_hook list \<Rightarrow> 'd committer" where
  "Tx_Rollback_hooked L onRollback = fold (\<lambda>hook fn. hook fn) (rev onRollback) (Tx_Rollback L)"

lemma hooked_Nil [simp]: "Tx_Commit_hooked L [] = Tx_Commit L" "Tx_Rollback_hooked L [] = Tx_Rollback L"
  by (simp_all add: Tx_Commit_hooked_def Tx_Rollback_hooked_def)

lemma hooked_Cons [simp]:
  "Tx_Commit_hooked L (hook # hooks) = hook (Tx_Commit_hooked L hooks)"
  "Tx_Rollback_hooked L (hook # hooks) = hook (Tx_Rollback_hooked L hooks)"
  by (simp_all add: Tx_Commit_hooked_def Tx_Rollback_hooked_def)

text \<open>A guard goes on with the transaction as it is, or ends with an error of its own.\<close>

definition guard :: "'d commit_hook \<Rightarrow> bool" where
  "guard hook \<longleftrightarrow> (\<forall>fn d. hook fn d = fn d \<or> (\<exists>err. hook fn d = (d, Some err)))"

lemma guarded_commit:
  "\<forall>hook \<in> set hooks. guard hook \<Longrightarrow>
     Tx_Commit_hooked L hooks d = Tx_Commit L d \<or> (\<exists>err. Tx_Commit_hooked L hooks d = (d, Some err))"
proof (induction hooks)
  case (Cons hook hooks)
  let ?fn = "Tx_Commit_hooked L hooks"
  have "hook ?fn d = ?fn d \<or> (\<exists>err. hook ?fn d = (d, Some err))" using Cons.prems by (simp add: guard_def)
  then show ?case using Cons.IH Cons.prems by (elim disjE) auto
qed simp

lemma refused_commit:
  assumes "\<forall>hook \<in> set hooks. guard hook" and "refuse \<in> set hooks" and "\<forall>fn. \<exists>err. refuse fn d = (d, Some err)"
  shows "\<exists>err. Tx_Commit_hooked L hooks d = (d, Some err)"
  using assms
proof (induction hooks)
  case (Cons hook hooks)
  show ?case
  proof (cases "hook = refuse")
    case True
    with Cons.prems(3) show ?thesis by simp
  next
    case False
    with Cons have "\<exists>err. Tx_Commit_hooked L hooks d = (d, Some err)" by simp
    moreover have "hook (Tx_Commit_hooked L hooks) d = Tx_Commit_hooked L hooks d
        \<or> (\<exists>err. hook (Tx_Commit_hooked L hooks) d = (d, Some err))"
      using Cons.prems(1) by (simp add: guard_def)
    ultimately show ?thesis by (elim disjE) auto
  qed
qed simp

context sql_engine
begin

text \<open>So a refused commit leaves the committed tables and the transaction open as they were.\<close>

lemma refused_commit_keeps:
  assumes "\<forall>hook \<in> set hooks. guard hook" and "refuse \<in> set hooks" and "\<forall>fn. \<exists>err. refuse fn d = (d, Some err)"
  shows "committed (fst (Tx_Commit_hooked L hooks d)) = committed d \<and> view (fst (Tx_Commit_hooked L hooks d)) = view d"
  using refused_commit [OF assms, of L] by auto

lemma accepted_commit:
  assumes "\<forall>hook \<in> set hooks. guard hook" and "Tx_Commit_hooked L hooks d = (d', None)" and "view d = Some t"
  shows "committed d' = t \<and> view d' = None"
proof -
  have "Tx_Commit L d = (d', None)" using guarded_commit [OF assms(1), of L d] assms(2) by auto
  then have "sql_Commit L d = (d', None)" by (auto simp: Tx_Commit_def split: prod.splits)
  from commit_ok [OF this assms(3)] show ?thesis .
qed

end

end
