(* ===== verification/EntIntercept.thy ===== *)
theory EntIntercept
  imports EntSelect
begin

text \<open>
  Interceptors (\<open>Intercept\<close>, \<open>withInterceptors\<close> and the queriers of \<open>gen/ent/ent.go\<close>, the first loop
  of \<open>prepareQuery\<close>). A traverser may change the query before it runs, in place; an
  interceptor wraps what runs it. Queries and answers of any type are sums, so that the type
  assertions of the code are case distinctions; a nil interceptor is \<open>None\<close>. The service
  registers none, and then they change nothing.
\<close>

datatype ent_query = QOrder OrderQuery | QOrderItem OrderItemQuery | QOutboxEvent OutboxEventQuery

datatype query_answer =
    AnsOrder "Order list" | AnsOrderItem "OrderItem list" | AnsOutboxEvent "OutboxEvent list" | AnsCount i64

datatype query_error = QueryErr ent_error | UninitializedInterceptor | UnexpectedQuery | UnexpectedAnswer

type_synonym 'd querier = "ent_query \<Rightarrow> 'd \<Rightarrow> 'd \<times> (query_error + query_answer)"

datatype 'd interceptor =
    InterceptFunc "'d querier \<Rightarrow> 'd querier"
  | TraverseFunc "ent_query \<Rightarrow> 'd \<Rightarrow> 'd \<times> (query_error + ent_query)"

fun Interceptor_Intercept :: "'d interceptor \<Rightarrow> 'd querier \<Rightarrow> 'd querier" where
  "Interceptor_Intercept (InterceptFunc f) next_querier = f next_querier"
| "Interceptor_Intercept (TraverseFunc f) next_querier = next_querier"

fun traverse_query :: "'d interceptor option list \<Rightarrow> ent_query \<Rightarrow> 'd \<Rightarrow> 'd \<times> (query_error + ent_query)" where
  "traverse_query [] q d = (d, Inr q)"
| "traverse_query (None # inters) q d = (d, Inl UninitializedInterceptor)"
| "traverse_query (Some (TraverseFunc f) # inters) q d =
     (case f q d of (d, Inl err) \<Rightarrow> (d, Inl err) | (d, Inr q) \<Rightarrow> traverse_query inters q d)"
| "traverse_query (Some (InterceptFunc f) # inters) q d = traverse_query inters q d"

definition withInterceptors ::
  "ent_query \<Rightarrow> 'd querier \<Rightarrow> 'd interceptor option list \<Rightarrow> (query_answer \<Rightarrow> 'v option) \<Rightarrow> 'd \<Rightarrow> 'd \<times> (query_error + 'v)" where
  \<comment> \<open>the last argument but the state is the type assertion on the answer\<close>
  "withInterceptors q qr inters asV d =
     (case fold (\<lambda>inter qr. case inter of None \<Rightarrow> qr | Some i \<Rightarrow> Interceptor_Intercept i qr) (rev inters) qr q d of
        (d, Inl err) \<Rightarrow> (d, Inl err)
      | (d, Inr rv) \<Rightarrow> (d, case asV rv of None \<Rightarrow> Inl UnexpectedAnswer | Some v \<Rightarrow> Inr v))"

definition as_count :: "query_answer \<Rightarrow> i64 option" where
  "as_count v = (case v of AnsCount n \<Rightarrow> Some n | _ \<Rightarrow> None)"

definition query_result :: "('v \<Rightarrow> 'w) \<Rightarrow> 'd \<times> (ent_error + 'v) \<Rightarrow> 'd \<times> (query_error + 'w)" where
  "query_result f = map_prod id (map_sum QueryErr f)"

text \<open>The interceptors of the clients.\<close>

record 'd inters =
  in_Order :: "'d interceptor option list"
  in_OrderItem :: "'d interceptor option list"
  in_OutboxEvent :: "'d interceptor option list"

subsection \<open>Orders\<close>

definition OrderClient_Intercept :: "'d interceptor option list \<Rightarrow> 'd inters \<Rightarrow> 'd inters" where
  "OrderClient_Intercept interceptors c = c\<lparr>in_Order := in_Order c @ interceptors\<rparr>"

definition as_Orders :: "query_answer \<Rightarrow> Order list option" where
  "as_Orders v = (case v of AnsOrder nodes \<Rightarrow> Some nodes | _ \<Rightarrow> None)"

definition Order_querierAll :: "('d, 'z) lib_scheme \<Rightarrow> 'd querier" where
  "Order_querierAll L q d =
     (case q of QOrder query \<Rightarrow> query_result AnsOrder (OrderQuery_sqlAll L query d) | _ \<Rightarrow> (d, Inl UnexpectedQuery))"

definition Order_querierCount :: "('d, 'z) lib_scheme \<Rightarrow> 'd querier" where
  "Order_querierCount L q d =
     (case q of QOrder query \<Rightarrow> query_result AnsCount (OrderQuery_sqlCount L query d) | _ \<Rightarrow> (d, Inl UnexpectedQuery))"

definition OrderQuery_prepared ::
  "'d interceptor option list \<Rightarrow> OrderQuery \<Rightarrow> 'd \<Rightarrow> 'd \<times> (query_error + OrderQuery)" where
  "OrderQuery_prepared inters q d =
     (case traverse_query inters (QOrder q) d of
        (d, Inl err) \<Rightarrow> (d, Inl err)
      | (d, Inr (QOrder q)) \<Rightarrow>
          (case OrderQuery_prepareQuery q of Inl err \<Rightarrow> (d, Inl (QueryErr err)) | Inr _ \<Rightarrow> (d, Inr q))
      | (d, Inr _) \<Rightarrow> (d, Inl UnexpectedQuery))"

definition OrderQuery_All_intercepted ::
  "('d, 'z) lib_scheme \<Rightarrow> 'd interceptor option list \<Rightarrow> OrderQuery \<Rightarrow> 'd \<Rightarrow> 'd \<times> (query_error + Order list)" where
  "OrderQuery_All_intercepted L inters q d =
     (case OrderQuery_prepared inters q d of
        (d, Inl err) \<Rightarrow> (d, Inl err)
      | (d, Inr q) \<Rightarrow> withInterceptors (QOrder q) (Order_querierAll L) inters as_Orders d)"

definition OrderQuery_Count_intercepted ::
  "('d, 'z) lib_scheme \<Rightarrow> 'd interceptor option list \<Rightarrow> OrderQuery \<Rightarrow> 'd \<Rightarrow> 'd \<times> (query_error + i64)" where
  "OrderQuery_Count_intercepted L inters q d =
     (case OrderQuery_prepared inters q d of
        (d, Inl err) \<Rightarrow> (d, Inl err)
      | (d, Inr q) \<Rightarrow> withInterceptors (QOrder q) (Order_querierCount L) inters as_count d)"

subsection \<open>Order items\<close>

definition OrderItemClient_Intercept :: "'d interceptor option list \<Rightarrow> 'd inters \<Rightarrow> 'd inters" where
  "OrderItemClient_Intercept interceptors c = c\<lparr>in_OrderItem := in_OrderItem c @ interceptors\<rparr>"

definition as_OrderItems :: "query_answer \<Rightarrow> OrderItem list option" where
  "as_OrderItems v = (case v of AnsOrderItem nodes \<Rightarrow> Some nodes | _ \<Rightarrow> None)"

definition OrderItem_querierAll :: "('d, 'z) lib_scheme \<Rightarrow> 'd querier" where
  "OrderItem_querierAll L q d =
     (case q of QOrderItem query \<Rightarrow> query_result AnsOrderItem (OrderItemQuery_sqlAll L query d) | _ \<Rightarrow> (d, Inl UnexpectedQuery))"

definition OrderItem_querierCount :: "('d, 'z) lib_scheme \<Rightarrow> 'd querier" where
  "OrderItem_querierCount L q d =
     (case q of QOrderItem query \<Rightarrow> query_result AnsCount (OrderItemQuery_sqlCount L query d) | _ \<Rightarrow> (d, Inl UnexpectedQuery))"

definition OrderItemQuery_prepared ::
  "'d interceptor option list \<Rightarrow> OrderItemQuery \<Rightarrow> 'd \<Rightarrow> 'd \<times> (query_error + OrderItemQuery)" where
  "OrderItemQuery_prepared inters q d =
     (case traverse_query inters (QOrderItem q) d of
        (d, Inl err) \<Rightarrow> (d, Inl err)
      | (d, Inr (QOrderItem q)) \<Rightarrow>
          (case OrderItemQuery_prepareQuery q of Inl err \<Rightarrow> (d, Inl (QueryErr err)) | Inr _ \<Rightarrow> (d, Inr q))
      | (d, Inr _) \<Rightarrow> (d, Inl UnexpectedQuery))"

definition OrderItemQuery_All_intercepted ::
  "('d, 'z) lib_scheme \<Rightarrow> 'd interceptor option list \<Rightarrow> OrderItemQuery \<Rightarrow> 'd \<Rightarrow> 'd \<times> (query_error + OrderItem list)" where
  "OrderItemQuery_All_intercepted L inters q d =
     (case OrderItemQuery_prepared inters q d of
        (d, Inl err) \<Rightarrow> (d, Inl err)
      | (d, Inr q) \<Rightarrow> withInterceptors (QOrderItem q) (OrderItem_querierAll L) inters as_OrderItems d)"

definition OrderItemQuery_Count_intercepted ::
  "('d, 'z) lib_scheme \<Rightarrow> 'd interceptor option list \<Rightarrow> OrderItemQuery \<Rightarrow> 'd \<Rightarrow> 'd \<times> (query_error + i64)" where
  "OrderItemQuery_Count_intercepted L inters q d =
     (case OrderItemQuery_prepared inters q d of
        (d, Inl err) \<Rightarrow> (d, Inl err)
      | (d, Inr q) \<Rightarrow> withInterceptors (QOrderItem q) (OrderItem_querierCount L) inters as_count d)"

subsection \<open>Outbox events\<close>

definition OutboxEventClient_Intercept :: "'d interceptor option list \<Rightarrow> 'd inters \<Rightarrow> 'd inters" where
  "OutboxEventClient_Intercept interceptors c = c\<lparr>in_OutboxEvent := in_OutboxEvent c @ interceptors\<rparr>"

definition as_OutboxEvents :: "query_answer \<Rightarrow> OutboxEvent list option" where
  "as_OutboxEvents v = (case v of AnsOutboxEvent nodes \<Rightarrow> Some nodes | _ \<Rightarrow> None)"

definition OutboxEvent_querierAll :: "('d, 'z) lib_scheme \<Rightarrow> 'd querier" where
  "OutboxEvent_querierAll L q d =
     (case q of QOutboxEvent query \<Rightarrow> query_result AnsOutboxEvent (OutboxEventQuery_sqlAll L query d) | _ \<Rightarrow> (d, Inl UnexpectedQuery))"

definition OutboxEvent_querierCount :: "('d, 'z) lib_scheme \<Rightarrow> 'd querier" where
  "OutboxEvent_querierCount L q d =
     (case q of QOutboxEvent query \<Rightarrow> query_result AnsCount (OutboxEventQuery_sqlCount L query d) | _ \<Rightarrow> (d, Inl UnexpectedQuery))"

definition OutboxEventQuery_prepared ::
  "'d interceptor option list \<Rightarrow> OutboxEventQuery \<Rightarrow> 'd \<Rightarrow> 'd \<times> (query_error + OutboxEventQuery)" where
  "OutboxEventQuery_prepared inters q d =
     (case traverse_query inters (QOutboxEvent q) d of
        (d, Inl err) \<Rightarrow> (d, Inl err)
      | (d, Inr (QOutboxEvent q)) \<Rightarrow>
          (case OutboxEventQuery_prepareQuery q of Inl err \<Rightarrow> (d, Inl (QueryErr err)) | Inr _ \<Rightarrow> (d, Inr q))
      | (d, Inr _) \<Rightarrow> (d, Inl UnexpectedQuery))"

definition OutboxEventQuery_All_intercepted ::
  "('d, 'z) lib_scheme \<Rightarrow> 'd interceptor option list \<Rightarrow> OutboxEventQuery \<Rightarrow> 'd \<Rightarrow> 'd \<times> (query_error + OutboxEvent list)" where
  "OutboxEventQuery_All_intercepted L inters q d =
     (case OutboxEventQuery_prepared inters q d of
        (d, Inl err) \<Rightarrow> (d, Inl err)
      | (d, Inr q) \<Rightarrow> withInterceptors (QOutboxEvent q) (OutboxEvent_querierAll L) inters as_OutboxEvents d)"

definition OutboxEventQuery_Count_intercepted ::
  "('d, 'z) lib_scheme \<Rightarrow> 'd interceptor option list \<Rightarrow> OutboxEventQuery \<Rightarrow> 'd \<Rightarrow> 'd \<times> (query_error + i64)" where
  "OutboxEventQuery_Count_intercepted L inters q d =
     (case OutboxEventQuery_prepared inters q d of
        (d, Inl err) \<Rightarrow> (d, Inl err)
      | (d, Inr q) \<Rightarrow> withInterceptors (QOutboxEvent q) (OutboxEvent_querierCount L) inters as_count d)"

subsection \<open>All clients\<close>

definition Client_Intercept :: "'d interceptor option list \<Rightarrow> 'd inters \<Rightarrow> 'd inters" where
  "Client_Intercept interceptors c =
     OutboxEventClient_Intercept interceptors (OrderItemClient_Intercept interceptors (OrderClient_Intercept interceptors c))"

section \<open>Filters\<close>

text \<open>A filter is a traverser that adds predicates to every query of orders.\<close>

definition order_filter :: "sql_pred list \<Rightarrow> 'd interceptor" where
  "order_filter ps =
     TraverseFunc (\<lambda>q d. (d, Inr (case q of QOrder query \<Rightarrow> QOrder (OrderQuery_Where ps query) | _ \<Rightarrow> q)))"

lemma traverse_filters:
  "traverse_query (map (\<lambda>ps. Some (order_filter ps)) pss) (QOrder q) d = (d, Inr (QOrder (OrderQuery_Where (concat pss) q)))"
  by (induction pss arbitrary: q) (simp_all add: order_filter_def OrderQuery_Where_def)

lemma filters_wrap_nothing:
  "fold (\<lambda>inter qr. case inter of None \<Rightarrow> qr | Some i \<Rightarrow> Interceptor_Intercept i qr) (rev (map (\<lambda>ps. Some (order_filter ps)) pss)) qr = qr"
proof -
  have "fold (\<lambda>inter qr. case inter of None \<Rightarrow> qr | Some i \<Rightarrow> Interceptor_Intercept i qr) (map (\<lambda>ps. Some (order_filter ps)) pss) qr = qr"
    for pss qr
    by (induction pss) (simp_all add: order_filter_def)
  then show ?thesis unfolding rev_map .
qed

text \<open>Reading or counting orders under filters is reading or counting under all their predicates.\<close>

lemma filtered_all:
  "OrderQuery_All_intercepted L (map (\<lambda>ps. Some (order_filter ps)) pss) q d
   = query_result id (OrderQuery_All L (OrderQuery_Where (concat pss) q) d)"
proof -
  obtain d1 r where run: "OrderQuery_sqlAll L (OrderQuery_Where (concat pss) q) d = (d1, r)"
    by (cases "OrderQuery_sqlAll L (OrderQuery_Where (concat pss) q) d")
  show ?thesis
    by (cases "OrderQuery_prepareQuery (OrderQuery_Where (concat pss) q)"; cases r)
      (simp_all add: OrderQuery_All_intercepted_def OrderQuery_prepared_def traverse_filters withInterceptors_def
        filters_wrap_nothing Order_querierAll_def OrderQuery_All_def run query_result_def as_Orders_def)
qed

lemma filtered_count:
  "OrderQuery_Count_intercepted L (map (\<lambda>ps. Some (order_filter ps)) pss) q d
   = query_result id (OrderQuery_Count L (OrderQuery_Where (concat pss) q) d)"
proof -
  obtain d1 r where run: "OrderQuery_sqlCount L (OrderQuery_Where (concat pss) q) d = (d1, r)"
    by (cases "OrderQuery_sqlCount L (OrderQuery_Where (concat pss) q) d")
  show ?thesis
    by (cases "OrderQuery_prepareQuery (OrderQuery_Where (concat pss) q)"; cases r)
      (simp_all add: OrderQuery_Count_intercepted_def OrderQuery_prepared_def traverse_filters withInterceptors_def
        filters_wrap_nothing Order_querierCount_def OrderQuery_Count_def run query_result_def as_count_def)
qed

text \<open>Without interceptors the query is that of EntQuery.\<close>

lemma not_intercepted:
  "OrderQuery_All_intercepted L [] q d = query_result id (OrderQuery_All L q d)"
  using filtered_all [of L "[]" q d] by (simp add: OrderQuery_Where_def)

text \<open>The first registered interceptor is outermost: what it answers itself never reaches the database.\<close>

lemma answered_by_first:
  assumes "traverse_query inters (QOrder q) d = (d, Inr (QOrder q))" and "OrderQuery_prepareQuery q = Inr ()"
  shows "OrderQuery_All_intercepted L (Some (InterceptFunc (\<lambda>_ _ d. (d, Inr (AnsOrder ns)))) # inters) q d = (d, Inr ns)"
  using assms by (simp add: OrderQuery_All_intercepted_def OrderQuery_prepared_def withInterceptors_def as_Orders_def)

end
