(* ===== verification/EventJson.thy ===== *)
theory EventJson
  imports AvroCodec
begin

text \<open>
  The events as JSON (\<open>MarshalJSON\<close>, \<open>UnmarshalJSON\<close> in \<open>gen/avro\<close>). \<open>encoding/json\<close> is a parameter;
  a \<open>json.RawMessage\<close> is its bytes. An event is an object with exactly its fields, and reading one
  back stops at the first field that is missing or does not fit. The \<open>json.Unmarshal\<close> of a value
  takes the old content of its target, which \<open>null\<close> leaves there.
\<close>

record json_lib =
  json_MarshalString :: "string \<Rightarrow> string + byte list"
  json_MarshalInt32 :: "i32 \<Rightarrow> string + byte list"
  json_MarshalFloat64 :: "float64 \<Rightarrow> string + byte list"
  json_MarshalSlice :: "byte list list \<Rightarrow> string + byte list"
  json_MarshalMap :: "(string \<rightharpoonup> byte list) \<Rightarrow> string + byte list"
  json_UnmarshalString :: "byte list \<Rightarrow> string \<Rightarrow> string + string"
  json_UnmarshalInt32 :: "byte list \<Rightarrow> i32 \<Rightarrow> string + i32"
  json_UnmarshalFloat64 :: "byte list \<Rightarrow> float64 \<Rightarrow> string + float64"
  json_UnmarshalSlice :: "byte list \<Rightarrow> string + byte list list"
  json_UnmarshalMap :: "byte list \<Rightarrow> string + (string \<rightharpoonup> byte list)"

text \<open>The event of the chat, whose type this service generates too.\<close>

record ChatMessageSent =
  cms_Message_id :: string
  cms_Conversation_id :: string
  cms_Sender_id :: string
  cms_Receiver_id :: string
  cms_Body :: string
  cms_Sent_at :: string

definition NewChatMessageSent :: ChatMessageSent where
  "NewChatMessageSent =
     \<lparr>cms_Message_id = [], cms_Conversation_id = [], cms_Sender_id = [], cms_Receiver_id = [], cms_Body = [], cms_Sent_at = []\<rparr>"

definition writeChatMessageSent ::
    "('d, 'z) svc_lib_scheme \<Rightarrow> ChatMessageSent \<Rightarrow> byte list \<Rightarrow> string + byte list" where
  "writeChatMessageSent L r w =
     (case vm_WriteString L (cms_Message_id r) w of
        Inl err \<Rightarrow> Inl err
      | Inr w \<Rightarrow>
     (case vm_WriteString L (cms_Conversation_id r) w of
        Inl err \<Rightarrow> Inl err
      | Inr w \<Rightarrow>
     (case vm_WriteString L (cms_Sender_id r) w of
        Inl err \<Rightarrow> Inl err
      | Inr w \<Rightarrow>
     (case vm_WriteString L (cms_Receiver_id r) w of
        Inl err \<Rightarrow> Inl err
      | Inr w \<Rightarrow>
     (case vm_WriteString L (cms_Body r) w of
        Inl err \<Rightarrow> Inl err
      | Inr w \<Rightarrow> vm_WriteString L (cms_Sent_at r) w)))))"

definition ChatMessageSent_Serialize ::
    "('d, 'z) svc_lib_scheme \<Rightarrow> ChatMessageSent \<Rightarrow> byte list \<Rightarrow> string + byte list" where
  "ChatMessageSent_Serialize L r w = writeChatMessageSent L r w"

definition NewItem :: avro_Item where
  "NewItem = \<lparr>av_Variant_id = [], av_Quantity = 0, av_Unit_price = f64_zero\<rparr>"

subsection \<open>Writing and reading the fields\<close>

definition marshal_fields :: "(string \<times> (string + byte list)) list \<Rightarrow> string + (string \<rightharpoonup> byte list)" where
  "marshal_fields fs =
     range_loop (\<lambda>(name, v) output. case v of Inl err \<Rightarrow> Inl err | Inr b \<Rightarrow> Inr (output(name \<mapsto> b))) fs Map.empty"

definition unmarshal_fields ::
    "(string \<times> (byte list \<Rightarrow> 'r \<Rightarrow> string + 'r)) list \<Rightarrow> (string \<rightharpoonup> byte list) \<Rightarrow> 'r \<Rightarrow> string + 'r" where
  "unmarshal_fields decs m r =
     range_loop (\<lambda>(name, dec) r. case m name of
         Some val \<Rightarrow> dec val r
       | None \<Rightarrow> Inl (''no value specified for '' @ name)) decs r"

definition into :: "(byte list \<Rightarrow> 'v \<Rightarrow> string + 'v) \<Rightarrow> ('r \<Rightarrow> 'v) \<Rightarrow> ('v \<Rightarrow> 'r \<Rightarrow> 'r) \<Rightarrow> byte list \<Rightarrow> 'r \<Rightarrow> string + 'r" where
  "into dec get put val r = map_sum id (\<lambda>v. put v r) (dec val (get r))"

definition marshal_object :: "json_lib \<Rightarrow> (string \<times> (string + byte list)) list \<Rightarrow> string + byte list" where
  "marshal_object J fs =
     (case marshal_fields fs of Inl err \<Rightarrow> Inl err | Inr output \<Rightarrow> json_MarshalMap J output)"

definition unmarshal_object ::
    "json_lib \<Rightarrow> (string \<times> (byte list \<Rightarrow> 'r \<Rightarrow> string + 'r)) list \<Rightarrow> byte list \<Rightarrow> 'r \<Rightarrow> string + 'r" where
  "unmarshal_object J decs data r =
     (case json_UnmarshalMap J data of Inl err \<Rightarrow> Inl err | Inr m \<Rightarrow> unmarshal_fields decs m r)"

subsection \<open>The events\<close>

definition Item_MarshalJSON :: "json_lib \<Rightarrow> avro_Item \<Rightarrow> string + byte list" where
  "Item_MarshalJSON J r =
     marshal_object J
       [(''variant_id'', json_MarshalString J (av_Variant_id r)),
        (''quantity'', json_MarshalInt32 J (av_Quantity r)),
        (''unit_price'', json_MarshalFloat64 J (av_Unit_price r))]"

definition Item_UnmarshalJSON :: "json_lib \<Rightarrow> byte list \<Rightarrow> avro_Item \<Rightarrow> string + avro_Item" where
  "Item_UnmarshalJSON J =
     unmarshal_object J
       [(''variant_id'', into (json_UnmarshalString J) av_Variant_id (\<lambda>v r. r\<lparr>av_Variant_id := v\<rparr>)),
        (''quantity'', into (json_UnmarshalInt32 J) av_Quantity (\<lambda>v r. r\<lparr>av_Quantity := v\<rparr>)),
        (''unit_price'', into (json_UnmarshalFloat64 J) av_Unit_price (\<lambda>v r. r\<lparr>av_Unit_price := v\<rparr>))]"

text \<open>\<open>encoding/json\<close> writes a slice by the \<open>MarshalJSON\<close> of its elements, and reads it likewise.\<close>

definition marshal_items :: "json_lib \<Rightarrow> avro_Item list \<Rightarrow> string + byte list" where
  "marshal_items J is =
     (case range_loop (\<lambda>i bs. case Item_MarshalJSON J i of Inl err \<Rightarrow> Inl err | Inr b \<Rightarrow> Inr (bs @ [b])) is [] of
        Inl err \<Rightarrow> Inl err | Inr bs \<Rightarrow> json_MarshalSlice J bs)"

definition unmarshal_items :: "json_lib \<Rightarrow> byte list \<Rightarrow> avro_Item list \<Rightarrow> string + avro_Item list" where
  "unmarshal_items J val _ =
     (case json_UnmarshalSlice J val of
        Inl err \<Rightarrow> Inl err
      | Inr bs \<Rightarrow> range_loop (\<lambda>b is. case Item_UnmarshalJSON J b NewItem of Inl err \<Rightarrow> Inl err | Inr i \<Rightarrow> Inr (is @ [i])) bs [])"

definition OrderCreatedEvent_MarshalJSON :: "json_lib \<Rightarrow> OrderCreatedEvent \<Rightarrow> string + byte list" where
  "OrderCreatedEvent_MarshalJSON J r =
     marshal_object J
       [(''order_id'', json_MarshalString J (oce_Order_id r)),
        (''status'', json_MarshalString J (oce_Status r)),
        (''temporary_price'', json_MarshalFloat64 J (oce_Temporary_price r)),
        (''customer_id'', json_MarshalString J (oce_Customer_id r)),
        (''items'', marshal_items J (oce_Items r))]"

definition OrderCreatedEvent_UnmarshalJSON :: "json_lib \<Rightarrow> byte list \<Rightarrow> OrderCreatedEvent \<Rightarrow> string + OrderCreatedEvent" where
  "OrderCreatedEvent_UnmarshalJSON J =
     unmarshal_object J
       [(''order_id'', into (json_UnmarshalString J) oce_Order_id (\<lambda>v r. r\<lparr>oce_Order_id := v\<rparr>)),
        (''status'', into (json_UnmarshalString J) oce_Status (\<lambda>v r. r\<lparr>oce_Status := v\<rparr>)),
        (''temporary_price'', into (json_UnmarshalFloat64 J) oce_Temporary_price (\<lambda>v r. r\<lparr>oce_Temporary_price := v\<rparr>)),
        (''customer_id'', into (json_UnmarshalString J) oce_Customer_id (\<lambda>v r. r\<lparr>oce_Customer_id := v\<rparr>)),
        (''items'', into (unmarshal_items J) oce_Items (\<lambda>v r. r\<lparr>oce_Items := v\<rparr>))]"

definition PaymentSuccessEvent_MarshalJSON :: "json_lib \<Rightarrow> PaymentSuccessEvent \<Rightarrow> string + byte list" where
  "PaymentSuccessEvent_MarshalJSON J r =
     marshal_object J
       [(''order_id'', json_MarshalString J (pse_Order_id r))]"

definition PaymentSuccessEvent_UnmarshalJSON :: "json_lib \<Rightarrow> byte list \<Rightarrow> PaymentSuccessEvent \<Rightarrow> string + PaymentSuccessEvent" where
  "PaymentSuccessEvent_UnmarshalJSON J =
     unmarshal_object J
       [(''order_id'', into (json_UnmarshalString J) pse_Order_id (\<lambda>v r. r\<lparr>pse_Order_id := v\<rparr>))]"

definition PaymentFailedEvent_MarshalJSON :: "json_lib \<Rightarrow> PaymentFailedEvent \<Rightarrow> string + byte list" where
  "PaymentFailedEvent_MarshalJSON J r =
     marshal_object J
       [(''order_id'', json_MarshalString J (pfe_Order_id r)),
        (''fail_reason'', json_MarshalString J (pfe_Fail_reason r))]"

definition PaymentFailedEvent_UnmarshalJSON :: "json_lib \<Rightarrow> byte list \<Rightarrow> PaymentFailedEvent \<Rightarrow> string + PaymentFailedEvent" where
  "PaymentFailedEvent_UnmarshalJSON J =
     unmarshal_object J
       [(''order_id'', into (json_UnmarshalString J) pfe_Order_id (\<lambda>v r. r\<lparr>pfe_Order_id := v\<rparr>)),
        (''fail_reason'', into (json_UnmarshalString J) pfe_Fail_reason (\<lambda>v r. r\<lparr>pfe_Fail_reason := v\<rparr>))]"

definition StockReductionFailedEvent_MarshalJSON :: "json_lib \<Rightarrow> StockReductionFailedEvent \<Rightarrow> string + byte list" where
  "StockReductionFailedEvent_MarshalJSON J r =
     marshal_object J
       [(''order_id'', json_MarshalString J (srf_Order_id r)),
        (''message'', json_MarshalString J (srf_Message r))]"

definition StockReductionFailedEvent_UnmarshalJSON :: "json_lib \<Rightarrow> byte list \<Rightarrow> StockReductionFailedEvent \<Rightarrow> string + StockReductionFailedEvent" where
  "StockReductionFailedEvent_UnmarshalJSON J =
     unmarshal_object J
       [(''order_id'', into (json_UnmarshalString J) srf_Order_id (\<lambda>v r. r\<lparr>srf_Order_id := v\<rparr>)),
        (''message'', into (json_UnmarshalString J) srf_Message (\<lambda>v r. r\<lparr>srf_Message := v\<rparr>))]"

definition StockReductionSuccessEvent_MarshalJSON :: "json_lib \<Rightarrow> StockReductionSuccessEvent \<Rightarrow> string + byte list" where
  "StockReductionSuccessEvent_MarshalJSON J r =
     marshal_object J
       [(''order_id'', json_MarshalString J (srs_Order_id r)),
        (''price'', json_MarshalFloat64 J (srs_Price r))]"

definition StockReductionSuccessEvent_UnmarshalJSON :: "json_lib \<Rightarrow> byte list \<Rightarrow> StockReductionSuccessEvent \<Rightarrow> string + StockReductionSuccessEvent" where
  "StockReductionSuccessEvent_UnmarshalJSON J =
     unmarshal_object J
       [(''order_id'', into (json_UnmarshalString J) srs_Order_id (\<lambda>v r. r\<lparr>srs_Order_id := v\<rparr>)),
        (''price'', into (json_UnmarshalFloat64 J) srs_Price (\<lambda>v r. r\<lparr>srs_Price := v\<rparr>))]"

definition ChatMessageSent_MarshalJSON :: "json_lib \<Rightarrow> ChatMessageSent \<Rightarrow> string + byte list" where
  "ChatMessageSent_MarshalJSON J r =
     marshal_object J
       [(''message_id'', json_MarshalString J (cms_Message_id r)),
        (''conversation_id'', json_MarshalString J (cms_Conversation_id r)),
        (''sender_id'', json_MarshalString J (cms_Sender_id r)),
        (''receiver_id'', json_MarshalString J (cms_Receiver_id r)),
        (''body'', json_MarshalString J (cms_Body r)),
        (''sent_at'', json_MarshalString J (cms_Sent_at r))]"

definition ChatMessageSent_UnmarshalJSON :: "json_lib \<Rightarrow> byte list \<Rightarrow> ChatMessageSent \<Rightarrow> string + ChatMessageSent" where
  "ChatMessageSent_UnmarshalJSON J =
     unmarshal_object J
       [(''message_id'', into (json_UnmarshalString J) cms_Message_id (\<lambda>v r. r\<lparr>cms_Message_id := v\<rparr>)),
        (''conversation_id'', into (json_UnmarshalString J) cms_Conversation_id (\<lambda>v r. r\<lparr>cms_Conversation_id := v\<rparr>)),
        (''sender_id'', into (json_UnmarshalString J) cms_Sender_id (\<lambda>v r. r\<lparr>cms_Sender_id := v\<rparr>)),
        (''receiver_id'', into (json_UnmarshalString J) cms_Receiver_id (\<lambda>v r. r\<lparr>cms_Receiver_id := v\<rparr>)),
        (''body'', into (json_UnmarshalString J) cms_Body (\<lambda>v r. r\<lparr>cms_Body := v\<rparr>)),
        (''sent_at'', into (json_UnmarshalString J) cms_Sent_at (\<lambda>v r. r\<lparr>cms_Sent_at := v\<rparr>))]"

section \<open>Round trips\<close>

text \<open>
  What \<open>encoding/json\<close> promises: what it wrote it reads back, strings if they are valid UTF-8 (it
  replaces other bytes); not a number and the infinities have no JSON. \<open>compact\<close> are the
  texts without white space, which stay as they are inside a larger one.
\<close>

locale json_codec =
  fixes J :: json_lib
    and utf8 :: "string \<Rightarrow> bool"
    and compact :: "byte list \<Rightarrow> bool"
  assumes string: "json_MarshalString J s = Inr b \<Longrightarrow> compact b \<and> (utf8 s \<longrightarrow> json_UnmarshalString J b s0 = Inr s)"
    and int32: "json_MarshalInt32 J k = Inr b \<Longrightarrow> compact b \<and> json_UnmarshalInt32 J b k0 = Inr k"
    and float64: "json_MarshalFloat64 J x = Inr b \<Longrightarrow> compact b \<and> json_UnmarshalFloat64 J b x0 = Inr x"
    and slice: "json_MarshalSlice J bs = Inr b \<Longrightarrow> \<forall>x \<in> set bs. compact x \<Longrightarrow> compact b \<and> json_UnmarshalSlice J b = Inr bs"
    and object: "json_MarshalMap J m = Inr b \<Longrightarrow> \<forall>v \<in> ran m. compact v \<Longrightarrow> compact b \<and> json_UnmarshalMap J b = Inr m"
begin

lemma compact_update: "compact v \<Longrightarrow> \<forall>x \<in> ran m. compact x \<Longrightarrow> \<forall>x \<in> ran (m(k \<mapsto> v)). compact x"
  by (auto simp: ran_def)

lemmas marshal_simps = marshal_object_def marshal_fields_def unmarshal_object_def unmarshal_fields_def into_def

lemma Item_json_roundtrip:
  assumes "Item_MarshalJSON J r = Inr b"
    and "utf8 (av_Variant_id r)"
  shows "compact b \<and> Item_UnmarshalJSON J b r0 = Inr r"
proof -
  from assms(1) obtain b0 b1 b2 where bs: "json_MarshalString J (av_Variant_id r) = Inr b0" "json_MarshalInt32 J (av_Quantity r) = Inr b1" "json_MarshalFloat64 J (av_Unit_price r) = Inr b2"
    and m: "json_MarshalMap J [''variant_id'' \<mapsto> b0, ''quantity'' \<mapsto> b1, ''unit_price'' \<mapsto> b2] = Inr b"
    by (auto simp: Item_MarshalJSON_def marshal_simps split: sum.splits)
  note vals = string [OF bs(1)] int32 [OF bs(2)] float64 [OF bs(3)]
  have "\<forall>v \<in> ran [''variant_id'' \<mapsto> b0, ''quantity'' \<mapsto> b1, ''unit_price'' \<mapsto> b2]. compact v"
    by (intro compact_update) (use vals assms(2-) in simp_all)
  from object [OF m this] have "compact b" "json_UnmarshalMap J b = Inr [''variant_id'' \<mapsto> b0, ''quantity'' \<mapsto> b1, ''unit_price'' \<mapsto> b2]" by simp_all
  then show ?thesis using vals assms(2-) by (simp add: Item_UnmarshalJSON_def marshal_simps)
qed

lemma items_roundtrip:
  assumes "marshal_items J is = Inr b" and "\<forall>i \<in> set is. utf8 (av_Variant_id i)"
  shows "compact b \<and> unmarshal_items J b old = Inr is"
proof -
  let ?w = "\<lambda>i bs. case Item_MarshalJSON J i of Inl err \<Rightarrow> Inl err | Inr b \<Rightarrow> Inr (bs @ [b])"
  let ?r = "\<lambda>b is. case Item_UnmarshalJSON J b NewItem of Inl err \<Rightarrow> Inl err | Inr i \<Rightarrow> Inr (is @ [i])"
  have loop: "range_loop ?w is bs0 = Inr bs \<Longrightarrow> \<forall>i \<in> set is. utf8 (av_Variant_id i) \<Longrightarrow>
      \<exists>cs. bs = bs0 @ cs \<and> (\<forall>x \<in> set cs. compact x) \<and> (\<forall>is0. range_loop ?r cs is0 = Inr (is0 @ is))" for "is" bs0 bs
  proof (induction "is" arbitrary: bs0)
    case Nil
    then show ?case by simp
  next
    case (Cons i "is")
    from Cons.prems(1) obtain c where c: "Item_MarshalJSON J i = Inr c" "range_loop ?w is (bs0 @ [c]) = Inr bs"
      by (auto split: sum.splits)
    from Cons.IH [OF c(2)] Cons.prems(2) obtain cs where
      cs: "bs = (bs0 @ [c]) @ cs" "\<forall>x \<in> set cs. compact x" "\<forall>is0. range_loop ?r cs is0 = Inr (is0 @ is)" by auto
    have "compact c \<and> Item_UnmarshalJSON J c NewItem = Inr i"
      using Item_json_roundtrip [OF c(1)] Cons.prems(2) by simp
    with cs show ?case by (intro exI [of _ "c # cs"]) simp
  qed
  from assms(1) obtain bs where bs: "range_loop ?w is [] = Inr bs" "json_MarshalSlice J bs = Inr b"
    by (auto simp: marshal_items_def split: sum.splits)
  from loop [OF bs(1) assms(2)] have "\<forall>x \<in> set bs. compact x" "range_loop ?r bs [] = Inr is" by auto
  with slice [OF bs(2)] show ?thesis by (simp add: unmarshal_items_def)
qed

lemma OrderCreatedEvent_json_roundtrip:
  assumes "OrderCreatedEvent_MarshalJSON J r = Inr b"
    and "utf8 (oce_Order_id r)" "utf8 (oce_Status r)" "utf8 (oce_Customer_id r)" "\<forall>i \<in> set (oce_Items r). utf8 (av_Variant_id i)"
  shows "compact b \<and> OrderCreatedEvent_UnmarshalJSON J b r0 = Inr r"
proof -
  from assms(1) obtain b0 b1 b2 b3 b4 where bs: "json_MarshalString J (oce_Order_id r) = Inr b0" "json_MarshalString J (oce_Status r) = Inr b1" "json_MarshalFloat64 J (oce_Temporary_price r) = Inr b2" "json_MarshalString J (oce_Customer_id r) = Inr b3" "marshal_items J (oce_Items r) = Inr b4"
    and m: "json_MarshalMap J [''order_id'' \<mapsto> b0, ''status'' \<mapsto> b1, ''temporary_price'' \<mapsto> b2, ''customer_id'' \<mapsto> b3, ''items'' \<mapsto> b4] = Inr b"
    by (auto simp: OrderCreatedEvent_MarshalJSON_def marshal_simps split: sum.splits)
  note vals = string [OF bs(1)] string [OF bs(2)] float64 [OF bs(3)] string [OF bs(4)] items_roundtrip [OF bs(5)]
  have "\<forall>v \<in> ran [''order_id'' \<mapsto> b0, ''status'' \<mapsto> b1, ''temporary_price'' \<mapsto> b2, ''customer_id'' \<mapsto> b3, ''items'' \<mapsto> b4]. compact v"
    by (intro compact_update) (use vals assms(2-) in simp_all)
  from object [OF m this] have "compact b" "json_UnmarshalMap J b = Inr [''order_id'' \<mapsto> b0, ''status'' \<mapsto> b1, ''temporary_price'' \<mapsto> b2, ''customer_id'' \<mapsto> b3, ''items'' \<mapsto> b4]" by simp_all
  then show ?thesis using vals assms(2-) by (simp add: OrderCreatedEvent_UnmarshalJSON_def marshal_simps)
qed

lemma PaymentSuccessEvent_json_roundtrip:
  assumes "PaymentSuccessEvent_MarshalJSON J r = Inr b"
    and "utf8 (pse_Order_id r)"
  shows "compact b \<and> PaymentSuccessEvent_UnmarshalJSON J b r0 = Inr r"
proof -
  from assms(1) obtain b0 where bs: "json_MarshalString J (pse_Order_id r) = Inr b0"
    and m: "json_MarshalMap J [''order_id'' \<mapsto> b0] = Inr b"
    by (auto simp: PaymentSuccessEvent_MarshalJSON_def marshal_simps split: sum.splits)
  note vals = string [OF bs]
  have "\<forall>v \<in> ran [''order_id'' \<mapsto> b0]. compact v"
    by (intro compact_update) (use vals assms(2-) in simp_all)
  from object [OF m this] have "compact b" "json_UnmarshalMap J b = Inr [''order_id'' \<mapsto> b0]" by simp_all
  then show ?thesis using vals assms(2-) by (simp add: PaymentSuccessEvent_UnmarshalJSON_def marshal_simps)
qed

lemma PaymentFailedEvent_json_roundtrip:
  assumes "PaymentFailedEvent_MarshalJSON J r = Inr b"
    and "utf8 (pfe_Order_id r)" "utf8 (pfe_Fail_reason r)"
  shows "compact b \<and> PaymentFailedEvent_UnmarshalJSON J b r0 = Inr r"
proof -
  from assms(1) obtain b0 b1 where bs: "json_MarshalString J (pfe_Order_id r) = Inr b0" "json_MarshalString J (pfe_Fail_reason r) = Inr b1"
    and m: "json_MarshalMap J [''order_id'' \<mapsto> b0, ''fail_reason'' \<mapsto> b1] = Inr b"
    by (auto simp: PaymentFailedEvent_MarshalJSON_def marshal_simps split: sum.splits)
  note vals = string [OF bs(1)] string [OF bs(2)]
  have "\<forall>v \<in> ran [''order_id'' \<mapsto> b0, ''fail_reason'' \<mapsto> b1]. compact v"
    by (intro compact_update) (use vals assms(2-) in simp_all)
  from object [OF m this] have "compact b" "json_UnmarshalMap J b = Inr [''order_id'' \<mapsto> b0, ''fail_reason'' \<mapsto> b1]" by simp_all
  then show ?thesis using vals assms(2-) by (simp add: PaymentFailedEvent_UnmarshalJSON_def marshal_simps)
qed

lemma StockReductionFailedEvent_json_roundtrip:
  assumes "StockReductionFailedEvent_MarshalJSON J r = Inr b"
    and "utf8 (srf_Order_id r)" "utf8 (srf_Message r)"
  shows "compact b \<and> StockReductionFailedEvent_UnmarshalJSON J b r0 = Inr r"
proof -
  from assms(1) obtain b0 b1 where bs: "json_MarshalString J (srf_Order_id r) = Inr b0" "json_MarshalString J (srf_Message r) = Inr b1"
    and m: "json_MarshalMap J [''order_id'' \<mapsto> b0, ''message'' \<mapsto> b1] = Inr b"
    by (auto simp: StockReductionFailedEvent_MarshalJSON_def marshal_simps split: sum.splits)
  note vals = string [OF bs(1)] string [OF bs(2)]
  have "\<forall>v \<in> ran [''order_id'' \<mapsto> b0, ''message'' \<mapsto> b1]. compact v"
    by (intro compact_update) (use vals assms(2-) in simp_all)
  from object [OF m this] have "compact b" "json_UnmarshalMap J b = Inr [''order_id'' \<mapsto> b0, ''message'' \<mapsto> b1]" by simp_all
  then show ?thesis using vals assms(2-) by (simp add: StockReductionFailedEvent_UnmarshalJSON_def marshal_simps)
qed

lemma StockReductionSuccessEvent_json_roundtrip:
  assumes "StockReductionSuccessEvent_MarshalJSON J r = Inr b"
    and "utf8 (srs_Order_id r)"
  shows "compact b \<and> StockReductionSuccessEvent_UnmarshalJSON J b r0 = Inr r"
proof -
  from assms(1) obtain b0 b1 where bs: "json_MarshalString J (srs_Order_id r) = Inr b0" "json_MarshalFloat64 J (srs_Price r) = Inr b1"
    and m: "json_MarshalMap J [''order_id'' \<mapsto> b0, ''price'' \<mapsto> b1] = Inr b"
    by (auto simp: StockReductionSuccessEvent_MarshalJSON_def marshal_simps split: sum.splits)
  note vals = string [OF bs(1)] float64 [OF bs(2)]
  have "\<forall>v \<in> ran [''order_id'' \<mapsto> b0, ''price'' \<mapsto> b1]. compact v"
    by (intro compact_update) (use vals assms(2-) in simp_all)
  from object [OF m this] have "compact b" "json_UnmarshalMap J b = Inr [''order_id'' \<mapsto> b0, ''price'' \<mapsto> b1]" by simp_all
  then show ?thesis using vals assms(2-) by (simp add: StockReductionSuccessEvent_UnmarshalJSON_def marshal_simps)
qed

lemma ChatMessageSent_json_roundtrip:
  assumes "ChatMessageSent_MarshalJSON J r = Inr b"
    and "utf8 (cms_Message_id r)" "utf8 (cms_Conversation_id r)" "utf8 (cms_Sender_id r)" "utf8 (cms_Receiver_id r)" "utf8 (cms_Body r)" "utf8 (cms_Sent_at r)"
  shows "compact b \<and> ChatMessageSent_UnmarshalJSON J b r0 = Inr r"
proof -
  from assms(1) obtain b0 b1 b2 b3 b4 b5 where bs: "json_MarshalString J (cms_Message_id r) = Inr b0" "json_MarshalString J (cms_Conversation_id r) = Inr b1" "json_MarshalString J (cms_Sender_id r) = Inr b2" "json_MarshalString J (cms_Receiver_id r) = Inr b3" "json_MarshalString J (cms_Body r) = Inr b4" "json_MarshalString J (cms_Sent_at r) = Inr b5"
    and m: "json_MarshalMap J [''message_id'' \<mapsto> b0, ''conversation_id'' \<mapsto> b1, ''sender_id'' \<mapsto> b2, ''receiver_id'' \<mapsto> b3, ''body'' \<mapsto> b4, ''sent_at'' \<mapsto> b5] = Inr b"
    by (auto simp: ChatMessageSent_MarshalJSON_def marshal_simps split: sum.splits)
  note vals = string [OF bs(1)] string [OF bs(2)] string [OF bs(3)] string [OF bs(4)] string [OF bs(5)] string [OF bs(6)]
  have "\<forall>v \<in> ran [''message_id'' \<mapsto> b0, ''conversation_id'' \<mapsto> b1, ''sender_id'' \<mapsto> b2, ''receiver_id'' \<mapsto> b3, ''body'' \<mapsto> b4, ''sent_at'' \<mapsto> b5]. compact v"
    by (intro compact_update) (use vals assms(2-) in simp_all)
  from object [OF m this] have "compact b" "json_UnmarshalMap J b = Inr [''message_id'' \<mapsto> b0, ''conversation_id'' \<mapsto> b1, ''sender_id'' \<mapsto> b2, ''receiver_id'' \<mapsto> b3, ''body'' \<mapsto> b4, ''sent_at'' \<mapsto> b5]" by simp_all
  then show ?thesis using vals assms(2-) by (simp add: ChatMessageSent_UnmarshalJSON_def marshal_simps)
qed

end

subsection \<open>An instance\<close>

text \<open>
  The codec of the theory AvroCodec behind the same interface: a slice is its chunks with their
  lengths, an object the chunks of the known names, an empty one for a name that it does not have.
\<close>

definition write_chunks :: "byte list list \<Rightarrow> byte list" where
  "write_chunks bs = varint (length bs) @ concat (map (\<lambda>b. varint (length b) @ b) bs)"

fun read_chunks :: "nat \<Rightarrow> byte list \<Rightarrow> byte list list option" where
  "read_chunks 0 bs = Some []"
| "read_chunks (Suc n) bs =
     (case read_varint bs of
        None \<Rightarrow> None
      | Some (k, r) \<Rightarrow> if length r < k then None else map_option ((#) (take k r)) (read_chunks n (drop k r)))"

lemma read_chunks_concat: "read_chunks (length bs) (concat (map (\<lambda>b. varint (length b) @ b) bs)) = Some bs"
  by (induction bs) (simp_all add: read_varint_varint)

definition read_slice :: "byte list \<Rightarrow> string + byte list list" where
  "read_slice b =
     (case read_varint b of
        None \<Rightarrow> Inl ''unexpected end of JSON input''
      | Some (n, r) \<Rightarrow>
          (case read_chunks n r of None \<Rightarrow> Inl ''unexpected end of JSON input'' | Some bs \<Rightarrow> Inr bs))"

lemma read_slice_chunks: "read_slice (write_chunks bs) = Inr bs"
  by (simp add: read_slice_def write_chunks_def read_varint_varint read_chunks_concat)

lemma varint_Cons: "varint n \<noteq> []"
  by (subst varint.simps) simp

definition json_names :: "string list" where
  "json_names =
     [''variant_id'', ''quantity'', ''unit_price'', ''order_id'', ''status'', ''temporary_price'', ''customer_id'', ''items'',
      ''fail_reason'', ''message'', ''price'', ''message_id'', ''conversation_id'', ''sender_id'', ''receiver_id'', ''body'', ''sent_at'']"

definition object_chunks :: "(string \<rightharpoonup> byte list) \<Rightarrow> byte list list" where
  "object_chunks m = map (\<lambda>k. case m k of None \<Rightarrow> [] | Some v \<Rightarrow> v) json_names"

definition chunks_object :: "byte list list \<Rightarrow> string \<rightharpoonup> byte list" where
  "chunks_object bs = map_of (filter (\<lambda>(k, v). v \<noteq> []) (zip json_names bs))"

lemma chunks_object_chunks:
  assumes "dom m \<subseteq> set json_names" and "\<forall>v \<in> ran m. v \<noteq> []"
  shows "chunks_object (object_chunks m) = m"
proof
  fix k
  have gen: "map_of (filter (\<lambda>(k, v). v \<noteq> []) (zip ks (map (\<lambda>k. case m k of None \<Rightarrow> [] | Some v \<Rightarrow> v) ks))) k
      = (if k \<in> set ks then m k else None)" for ks
    using assms(2) by (induction ks) (auto simp: ran_def split: option.split)
  show "chunks_object (object_chunks m) k = m k"
  proof (cases "k \<in> set json_names")
    case True
    then show ?thesis using gen [of json_names] by (simp add: chunks_object_def object_chunks_def)
  next
    case False
    then have "m k = None" using assms(1) by blast
    then show ?thesis using gen [of json_names] False by (simp add: chunks_object_def object_chunks_def)
  qed
qed

definition mem_json :: json_lib where
  "mem_json =
     \<lparr>json_MarshalString = (\<lambda>s. write_string s []),
      json_MarshalInt32 = (\<lambda>k. write_int (sint k) []),
      json_MarshalFloat64 = (\<lambda>x. write_double x []),
      json_MarshalSlice = (\<lambda>bs. Inr (write_chunks bs)),
      json_MarshalMap = (\<lambda>m. if dom m \<subseteq> set json_names then Inr (write_chunks (object_chunks m)) else Inl ''unknown name''),
      json_UnmarshalString = (\<lambda>b _. case read_value (AString []) b of Some (AString s, _) \<Rightarrow> Inr s | _ \<Rightarrow> Inl ''not a string''),
      json_UnmarshalInt32 = (\<lambda>b _. case read_value (AInt 0) b of Some (AInt k, _) \<Rightarrow> Inr k | _ \<Rightarrow> Inl ''not a number''),
      json_UnmarshalFloat64 = (\<lambda>b _. case read_value (ADouble f64_zero) b of Some (ADouble x, _) \<Rightarrow> Inr x | _ \<Rightarrow> Inl ''not a number''),
      json_UnmarshalSlice = read_slice,
      json_UnmarshalMap = (\<lambda>b. map_sum id chunks_object (read_slice b))\<rparr>"

lemma mem_json_string:
  assumes "json_MarshalString mem_json s = Inr b"
  shows "b \<noteq> [] \<and> json_UnmarshalString mem_json b s0 = Inr s"
proof -
  from assms have w: "write_string s [] = Inr b" by (simp add: mem_json_def)
  then have b: "b = varint (zigzag (int (length s))) @ map byte_of_char s" by (simp add: write_string_def)
  obtain bs where w': "write_string s [] = Inr ([] @ bs)" and r: "\<forall>r t. read_value (AString t) (bs @ r) = Some (AString s, r)"
    using read_string by blast
  have "bs = b" using w w' by simp
  have "read_value (AString []) (bs @ []) = Some (AString s, [])" using r by blast
  then have "json_UnmarshalString mem_json b s0 = Inr s" unfolding \<open>bs = b\<close> by (simp add: mem_json_def del: read_value.simps)
  with b varint_Cons show ?thesis by simp
qed

lemma mem_json_int32:
  assumes "json_MarshalInt32 mem_json k = Inr b"
  shows "b \<noteq> [] \<and> json_UnmarshalInt32 mem_json b k0 = Inr k"
proof -
  from assms have b: "b = varint (zigzag (sint k))" by (simp add: mem_json_def write_int_def)
  with read_varint_varint [of "zigzag (sint k)" "[]"] have "read_varint b = Some (zigzag (sint k), [])" by simp
  with b varint_Cons show ?thesis by (simp add: mem_json_def unzigzag_zigzag)
qed

lemma mem_json_float64:
  assumes "json_MarshalFloat64 mem_json x = Inr b"
  shows "b \<noteq> [] \<and> json_UnmarshalFloat64 mem_json b x0 = Inr x"
proof -
  from assms have w: "write_double x [] = Inr b" by (simp add: mem_json_def)
  from read_double [OF this] obtain bs where "b = [] @ bs" and r: "\<forall>r t. read_value (ADouble t) (bs @ r) = Some (ADouble x, r)"
    by blast
  then have "bs = b" by simp
  have "read_value (ADouble f64_zero) (bs @ []) = Some (ADouble x, [])" using r by blast
  then have r: "read_value (ADouble f64_zero) b = Some (ADouble x, [])" unfolding \<open>bs = b\<close> by (simp only: append_Nil2)
  have "read_value (ADouble f64_zero) [] = None" by (simp add: numeral_eq_Suc)
  with r have "b \<noteq> []" by auto
  with r show ?thesis by (simp add: mem_json_def del: read_value.simps)
qed

lemma write_chunks_Cons: "write_chunks bs \<noteq> []"
  using varint_Cons by (simp add: write_chunks_def)

interpretation mem_json: json_codec mem_json "\<lambda>_. True" "\<lambda>b. b \<noteq> []"
proof (unfold_locales, goal_cases)
  case (1 s b s0)
  then show ?case using mem_json_string by blast
next
  case (2 k b k0)
  then show ?case using mem_json_int32 by blast
next
  case (3 x b x0)
  then show ?case using mem_json_float64 by blast
next
  case (4 bs b)
  then have "b = write_chunks bs" by (simp add: mem_json_def)
  then show ?case using write_chunks_Cons by (simp add: mem_json_def read_slice_chunks)
next
  case (5 m b)
  then have "dom m \<subseteq> set json_names" "b = write_chunks (object_chunks m)" by (auto simp: mem_json_def split: if_splits)
  with 5(2) show ?case using write_chunks_Cons by (simp add: mem_json_def read_slice_chunks chunks_object_chunks)
qed

section \<open>The events come back\<close>

text \<open>
  C25. Every event type of the services comes back from its JSON: what \<open>UnmarshalJSON\<close> makes of the
  bytes that \<open>MarshalJSON\<close> wrote is the event that was written, field by field and item by item,
  whatever the event held that it reads into, provided that the strings are valid UTF-8 (JSON
  has no other strings).
\<close>

theorem events_json_roundtrip:
  assumes "json_codec J utf8 tight"
  shows "(\<forall>r b t. OrderCreatedEvent_MarshalJSON J r = Inr b \<longrightarrow>
       list_all utf8 ([oce_Order_id r, oce_Status r, oce_Customer_id r] @ map av_Variant_id (oce_Items r)) \<longrightarrow>
       OrderCreatedEvent_UnmarshalJSON J b t = Inr r)
    \<and> (\<forall>r b t. PaymentSuccessEvent_MarshalJSON J r = Inr b \<longrightarrow> utf8 (pse_Order_id r) \<longrightarrow>
       PaymentSuccessEvent_UnmarshalJSON J b t = Inr r)
    \<and> (\<forall>r b t. PaymentFailedEvent_MarshalJSON J r = Inr b \<longrightarrow> list_all utf8 [pfe_Order_id r, pfe_Fail_reason r] \<longrightarrow>
       PaymentFailedEvent_UnmarshalJSON J b t = Inr r)
    \<and> (\<forall>r b t. StockReductionFailedEvent_MarshalJSON J r = Inr b \<longrightarrow> list_all utf8 [srf_Order_id r, srf_Message r] \<longrightarrow>
       StockReductionFailedEvent_UnmarshalJSON J b t = Inr r)
    \<and> (\<forall>r b t. StockReductionSuccessEvent_MarshalJSON J r = Inr b \<longrightarrow> utf8 (srs_Order_id r) \<longrightarrow>
       StockReductionSuccessEvent_UnmarshalJSON J b t = Inr r)
    \<and> (\<forall>r b t. ChatMessageSent_MarshalJSON J r = Inr b \<longrightarrow>
       list_all utf8 [cms_Message_id r, cms_Conversation_id r, cms_Sender_id r, cms_Receiver_id r, cms_Body r, cms_Sent_at r] \<longrightarrow>
       ChatMessageSent_UnmarshalJSON J b t = Inr r)"
  by (intro conjI allI impI)
    (simp_all add: list_all_iff
      json_codec.OrderCreatedEvent_json_roundtrip [OF assms] json_codec.PaymentSuccessEvent_json_roundtrip [OF assms]
      json_codec.PaymentFailedEvent_json_roundtrip [OF assms] json_codec.StockReductionFailedEvent_json_roundtrip [OF assms]
      json_codec.StockReductionSuccessEvent_json_roundtrip [OF assms] json_codec.ChatMessageSent_json_roundtrip [OF assms])

definition demo_created_event :: OrderCreatedEvent where
  "demo_created_event =
     \<lparr>oce_Order_id = ''o1'', oce_Status = ''CREATED'', oce_Temporary_price = f64_zero, oce_Customer_id = ''c1'',
      oce_Items = [\<lparr>av_Variant_id = ''v1'', av_Quantity = 2, av_Unit_price = f64_zero\<rparr>,
        \<lparr>av_Variant_id = ''v2'', av_Quantity = -1, av_Unit_price = f64_zero\<rparr>]\<rparr>"

lemma demo_created_marshals: "\<exists>b. OrderCreatedEvent_MarshalJSON mem_json demo_created_event = Inr b"
  by (simp add: demo_created_event_def OrderCreatedEvent_MarshalJSON_def marshal_items_def Item_MarshalJSON_def
      marshal_object_def marshal_fields_def mem_json_def json_names_def write_string_def write_int_def write_double_def f64_zero_def)

lemma events_json_roundtrip_witness:
  "\<exists>b. OrderCreatedEvent_MarshalJSON mem_json demo_created_event = Inr b
     \<and> OrderCreatedEvent_UnmarshalJSON mem_json b (demo_created_event\<lparr>oce_Items := []\<rparr>) = Inr demo_created_event"
proof -
  obtain b where b: "OrderCreatedEvent_MarshalJSON mem_json demo_created_event = Inr b"
    using demo_created_marshals by blast
  from events_json_roundtrip [OF mem_json.json_codec_axioms] b show ?thesis by (simp add: list_all_iff)
qed

end
