(* ===== verification/Spec2Isabelle.thy ===== *)
theory Spec2Isabelle
  imports OrderRules Progress Refusals OrderMain ChatProperties EntFields EntOld EntTypes EntHookRules EntEager EntSelect EntCreateBulk
    EntTx EntIntercept EventJson
begin

text \<open>
  The Go services of the repository: the order service (\<open>src/golang-order-kratos\<close>) with its
  generated entity layer, and the chat message writer (\<open>src/chat/message-writer\<close>).

  \<^bold>\<open>The program.\<close> The order service answers gRPC requests (create, get, list orders). To
  create an order it asks the product service for the variants, prices the lines, and stores
  the order, its lines and one outbox event in one transaction. A dispatcher ticks, publishes
  the pending outbox events to Kafka and marks them. A consumer polls the events of the stock
  and payment services and moves the status of their order. The chat service resolves and
  validates rooms of two users over HTTP, and stores the messages that it consumes from Kafka
  in Cassandra.

  \<^bold>\<open>How it is modelled.\<close> The state of everything outside a service is one value \<open>d\<close>; every
  operation takes it and returns it with its result, so that the order of the effects is the
  order of the code. The calls out of the service (database, clock, generator of ids, broker,
  product service, codecs, \<open>time.Parse\<close>) are the fields of a record, \<open>L\<close>, handed to
  each operation. What the code relies on of them are the \<open>assumes\<close> of locales: \<open>sql_engine\<close>,
  \<open>sql_nodes\<close> and \<open>sql_scan\<close> for \<open>sqlgraph\<close> and the statements over a transactional database (a
  call may also fail at any point, and then changes nothing that was committed), \<open>broker\<close> and
  \<open>variant_rpc\<close> for Kafka and the product service, \<open>cassandra\<close> for the store of the chat,
  \<open>uuid_lib\<close>, \<open>avro_lib\<close> and \<open>json_codec\<close> for the codecs. All of them are interpreted on a
  concrete world in memory, in which the witnesses evaluate. Which rows the predicates of a
  statement select is a parameter too (\<open>sel\<close> in \<open>sql_nodes\<close> and \<open>sql_scan\<close>): the database decides
  it, row by row. Errors are values of a sum or option type with a
  constructor per kind of error, Go's machine integers are words (\<open>i32\<close>, \<open>i64\<close>), its
  \<open>float64\<close> is IEEE binary64 on bit patterns, strings are lists of bytes, a
  pointer-or-nil is an option.

  \<^bold>\<open>Theories.\<close>

  \<^item> Foundations: Prelude (integers, early-return loops), GoFloat (\<open>float64\<close>: exactness,
    monotonicity and sign of sums and products), GoString (\<open>strings\<close>, \<open>strconv\<close>).
  \<^item> Order service, business layer: Messages (protobuf and Avro types and codecs of
    \<open>gen/proto\<close>, \<open>gen/avro\<close>), EventJson (the JSON of the events), Biz (\<open>internal/biz\<close>: the use
    cases, the mapping), VariantCatalog (\<open>internal/data/variant_catalog.go\<close>), Pricing (the pricing loop against a reference),
    OrderContract (the locale \<open>order_repo\<close>: what the use cases expect of a repository, as a
    specification over an abstract database), UseCases (each use case over that contract).
  \<^item> Order service, data layer: Ent (entities, values, scanning and assigning, validators,
    defaults), EntOrderMutation, EntOrderItemMutation, EntOutboxMutation (\<open>mutation.go\<close>),
    EntCreate, EntCreateBulk, EntUpdate, EntUpdateMany, EntDelete, EntQuery (the builders
    \<open>*_create.go\<close>, \<open>*_update.go\<close>, \<open>*_delete.go\<close>, \<open>*_query.go\<close>), EntWhere (\<open>where.go\<close>),
    EntEager (a line with its order, the edges of the entities), EntOld (the old values of a
    mutation), EntHooks (\<open>hook.go\<close>, \<open>withHooks\<close>, the dispatch of \<open>client.go\<close>), EntTx (hooks
    on the end of a transaction), EntIntercept (interceptors of queries), OrderRepo (\<open>internal/data/order_repo.go\<close>).
  \<^item> What the data layer does: SqlEngine (rows, statements, the locale of the database),
    OrderDb (the abstract database and which tables represent it), EntSave and EntLoad (what
    a save or a query of a builder means for it), RepoRefinement (the repository over the
    builders keeps the contract \<open>order_repo\<close>), EntFields (access to a mutation by name, the
    locale \<open>field_access\<close> with its three instances), EntBulk (statements on many rows), EntSelect
    (columns, groups, aggregates and ids instead of entities, the locale \<open>sql_scan\<close>), EntTypes
    (the columns' types, the locale \<open>typed_table\<close>), EntHookRules (builders under hooks, the
    locale \<open>hooked_builder\<close>).
  \<^item> Order service, the rest: Worker (\<open>internal/worker\<close>, \<open>internal/data/kafka.go\<close>), Conf
    (\<open>internal/conf\<close>), OrderSystem (the service as \<open>main\<close> wires it), OrderMain
    (\<open>cmd/order/main.go\<close>).
  \<^item> The order service as a whole: Saga (the steps of an order and the invariant, as an
    inductive relation over the abstract database), SystemSteps (requests, events, ticks and
    crashes in any order take only such steps), Progress (the outbox drains), Refusals (a broker
    that refuses some events: the locale \<open>choosy_broker\<close>), OrderProperties, OrderRules, and this
    theory.
  \<^item> Chat service: ChatStore (\<open>internal/db/store.go\<close>), ChatConsumer
    (\<open>internal/kafka/consumer.go\<close>), ChatService (\<open>internal/api\<close>, \<open>internal/config\<close>, \<open>main\<close>),
    ChatRooms (\<open>ResolveRoom\<close> cut into the steps between its calls, so that clients
    interleave), ChatProperties.
  \<^item> Worlds: AvroCodec and MemWorld (the order service's platform in memory), Demo (the first
    order, evaluated), DemoEvents (its saga, evaluated), ChatWorld (the chat service's).

  \<^bold>\<open>What is shown.\<close> C1 to C3 and C8: invariants of every interleaving with crashes, by rule
  induction over the steps; that the loops of the workers are such runs is lemmas \<open>ticks_steps\<close>
  and \<open>polls_steps\<close> of OrderRules. C4, C18 and C24: what the dispatcher gets done, when every event
  is accepted and when some are refused. C5 to C17: each use case and worker step on
  every branch, against the abstract database, with redelivered events and events in the wrong
  order (C11, C13); C7 is the refinement of the repository. C19 to
  C23: amounts, paging and wire formats, with the bounds that exclude wrap-around and
  rounding. C25: the JSON of the events. C26 and C27: configuration and start. C28 to C35: the
  chat service. C36 to C40: the entity layer as a library, beyond what
  the service uses of it.

  \<^bold>\<open>Bounds.\<close> The loops that run until the process is stopped take a number of ticks or polls:
  the model of the loop is that many rounds, and the properties hold for every number. No other
  operation has fuel. The database is assumed to hold fewer than \<open>2 ^ 63\<close> rows where the code
  counts them.

  \<^bold>\<open>Modelling decisions.\<close> A call of a repository or of the database is one step of the
  system: between the read and the write of \<open>UpdateStatus\<close> no other step falls (both run in
  one process; a second replica of the service is not modelled). Go may fuse a multiplication
  and an addition on some platforms; the model rounds after each. A panic of a
  library is not modelled, save that of \<open>time.NewTicker\<close>. Map iteration, whose order Go leaves
  open, is over lists without repetition.

  \<^bold>\<open>Not modelled.\<close> Log lines and metrics; the gRPC and HTTP servers, the generated stubs and
  reflection tables of protobuf, the virtual machine of gogen-avro and \<open>encoding/json\<close>, which
  are library code the sources call; migration of the schema; closing of connections; of the
  entity layer the comparisons that ignore case and those along edges, and queries that start
  from an edge; the \<open>X\<close> variants that panic on an error. The product, payment, user and gateway services of
  the repository are written in other languages.
\<close>

section \<open>The running order service\<close>

text \<open>
  C1. Requests, consumed events and the calls of the dispatcher interleave in any order, with
  crashes at any point: from a consistent database they only reach consistent databases. Every
  stored order has lines, its amounts are those computed from its lines, its status is one the
  service sets, and exactly one outbox event announces it with its id, customer, total and lines.
\<close>

theorem service_consistent:
  assumes "order_system L committed view tr sent acked"
    and "good_start L committed view sent d A" and "0 < sint batch"
    and "system_steps L (order_usecase L) (order_dispatcher L interval batch) (d, Idle) (d', w)"
  shows "\<exists>A'. quiet_db committed view d' A' \<and> saga_inv L A'"
  using system_run [OF assms] by (auto simp: good_start_def)

lemma service_consistent_witness: "\<exists>A'. mem_db demo_placed A' \<and> saga_inv mem_lib A'"
  by (rule service_consistent [OF demo_system demo_good _ demo_steps]) simp

text \<open>
  C2. Along every such run, the status of an order that exists moves only along the saga:
  created, then inventory reserved or its reservation failed; inventory reserved, then payment
  completed or failed. The three final statuses never change again.
\<close>

theorem order_status_saga:
  assumes "order_system L committed view tr sent acked"
    and "good_start L committed view sent d A" and "0 < sint batch"
    and "system_steps L (order_usecase L) (order_dispatcher L interval batch) (d, Idle) (d', w)"
  shows "\<exists>A'. quiet_db committed view d' A'
    \<and> (\<forall>i s. status_of A i = Some s \<longrightarrow>
         (\<exists>s'. status_of A' i = Some s' \<and> next_status\<^sup>*\<^sup>* s s'
           \<and> (s \<in> {StatusInventoryReservedFailed, StatusPaymentCompleted, StatusPaymentFailed} \<longrightarrow> s' = s)))"
proof -
  from system_run [OF assms] obtain A' where A': "quiet_db committed view d' A'" "(saga_step L tr)\<^sup>*\<^sup>* A A'"
    by (auto simp: good_start_def)
  have "\<exists>s'. status_of A' i = Some s' \<and> next_status\<^sup>*\<^sup>* s s'
           \<and> (s \<in> {StatusInventoryReservedFailed, StatusPaymentCompleted, StatusPaymentFailed} \<longrightarrow> s' = s)"
    if "status_of A i = Some s" for i s
    using saga_steps_status [OF A'(2) that] final_status by blast
  with A'(1) show ?thesis by blast
qed

text \<open>The placed order, while its stock is reserved and its payment completed.\<close>

lemma order_status_saga_witness:
  "\<exists>A A'. status_of A 1 = Some StatusCreated \<and> mem_db demo_completed A'
    \<and> (\<exists>s'. status_of A' 1 = Some s' \<and> next_status\<^sup>*\<^sup>* StatusCreated s')"
proof -
  from demo_placed_good obtain A where A: "good_start mem_lib mem_tables mem_view mem_sent demo_placed A"
    "status_of A 1 = Some StatusCreated" by blast
  have "(0 :: int) < sint (20 :: i64)" by simp
  from order_status_saga [OF demo_system A(1) this demo_completed_steps [of 5000000000 20]] A(2) show ?thesis by blast
qed

text \<open>
  C3. At least once: in every reachable state, an outbox event that is marked as processed has
  been delivered to the broker, on the topic, with the key and with the payload it stores.
\<close>

theorem outbox_delivered:
  assumes "order_system L committed view tr sent acked"
    and "good_start L committed view sent d A" and "0 < sint batch"
    and "system_steps L (order_usecase L) (order_dispatcher L interval batch) (d, Idle) (d', w)"
  shows "\<exists>A'. quiet_db committed view d' A'
    \<and> (\<forall>ev \<in> set (db_outbox A'). ob_Processed ev \<longrightarrow> event_kafka L ev \<in> set (sent d'))"
  using system_run [OF assms] by (auto simp: good_start_def delivered_def)

lemma outbox_delivered_witness:
  "\<exists>A'. mem_db demo_placed A' \<and> (\<forall>ev \<in> set (db_outbox A'). ob_Processed ev \<longrightarrow> event_kafka mem_lib ev \<in> set (mem_sent demo_placed))"
  by (rule outbox_delivered [OF demo_system demo_good _ demo_steps]) simp

text \<open>
  C8. Nothing that was stored is lost or rewritten: along every run the orders, their lines and
  their events stay, each in its place, and new ones come after them. Of an order only its status,
  its error message and its time of update change; the lines do not change; of an event only the
  delivery mark, which is never taken back, and its time of update.
\<close>

theorem stored_data_kept:
  assumes "order_system L committed view tr sent acked"
    and "good_start L committed view sent d A" and "0 < sint batch"
    and "system_steps L (order_usecase L) (order_dispatcher L interval batch) (d, Idle) (d', w)"
  shows "\<exists>A'. quiet_db committed view d' A' \<and> kept A A'"
  using system_run [OF assms] saga_steps_kept by (fastforce simp: good_start_def)

lemma stored_data_kept_witness:
  "\<exists>A A'. mem_db demo_placed A \<and> length (db_orders A) = 1 \<and> length (db_outbox A) = 1
     \<and> mem_db demo_completed A' \<and> kept A A'"
proof -
  from demo_placed_good obtain A where A: "good_start mem_lib mem_tables mem_view mem_sent demo_placed A"
    "length (db_orders A) = 1" "length (db_outbox A) = 1" by blast
  from stored_data_kept [OF demo_system A(1) _ demo_completed_steps [of 5000000000 20]] A show ?thesis
    by (auto simp: good_start_def)
qed

text \<open>
  C5. Placing an order is atomic: either nothing is stored and the client gets an error, or the
  order, one line per requested item and the event that announces it are stored together,
  priced from the catalogue. A client that gets a response gets the id of that order.
\<close>

theorem CreateOrder_atomic:
  assumes "order_system L committed view tr sent acked" and "quiet_db committed view d A"
    and "OrderUsecase_CreateOrder L (order_usecase L) req d = (d', r)"
  shows "quiet_db committed view d' A \<and> no_response r
    \<or> (\<exists>variants cmd n items ev. request_priced L req variants cmd \<and> order_placed L cmd A n items ev
         \<and> quiet_db committed view d' (add_order A n items ev)
         \<and> (no_response r \<or> r = Inr (created_response L n)))"
  using order_service.CreateOrder_outcome [OF order_system.is_service [OF assms(1)] assms(3) [unfolded order_usecase_def] assms(2)] .

lemma CreateOrder_atomic_witness:
  "mem_db demo_placed empty_db \<and> no_response demo_response
    \<or> (\<exists>variants cmd n items ev. request_priced mem_lib demo_request variants cmd \<and> order_placed mem_lib cmd empty_db n items ev
         \<and> mem_db demo_placed (add_order empty_db n items ev)
         \<and> (no_response demo_response \<or> demo_response = Inr (created_response mem_lib n)))"
  by (rule CreateOrder_atomic [OF demo_system demo_db demo_run])

text \<open>
  C7. The repository of the data layer, over the generated entity layer and a transactional SQL
  engine, implements the contract the use cases are written against.
\<close>

theorem NewOrderRepo_refines:
  assumes "order_platform L committed view tr"
  shows "order_repo L (NewOrderRepo L) (quiet_db committed view) tr"
  using assms by (rule order_platform.is_repo)

lemma NewOrderRepo_refines_witness: "order_repo mem_lib (NewOrderRepo mem_lib) mem_db micros"
  by (rule NewOrderRepo_refines) (rule mem_platform.order_platform_axioms)

section \<open>Pricing\<close>

text \<open>
  C17. The accumulating loop of \<open>CreateOrder\<close> is the reference: every line priced on its own,
  the first line that fails decides the error, and the amounts are folded over the lines.
\<close>

theorem CreateOrder_command_reference:
  "CreateOrder_command L req customerID variants =
     (case map_result (priced_line L (variantMap variants)) (cor_Items req) of
        Inl e \<Rightarrow> Inl e | Inr ls \<Rightarrow> Inr (priced_order req customerID ls))"
  by (rule CreateOrder_command_priced)

end
